(* ===== verification/Aodv_Prelude.thy ===== *)
theory Aodv_Prelude
  imports Main "HOL-Library.Word" "HOL-Library.Monad_Syntax"
begin

unbundle bit_operations_syntax

text \<open>
  What every other theory of the development shares: the machine integer types of the C
  code, the bytes of a message buffer and how words are laid out in them (little endian, as
  on the x86 hosts the simulator runs on), checked array access, C's truncating remainder,
  and the bit patterns of IEEE-754 doubles with their comparison.

  A C function that may fail (null or dangling pointer, out-of-range index, \<open>exit\<close>, failed
  \<open>assert\<close>) is modelled in the option monad: \<open>None\<close> is the failure, \<open>do\<close>-notation sequences
  the statements and passes the state explicitly.
\<close>

section \<open>Collections\<close>

named_theorems heap_simps \<open>reading and writing routing entries through pointers\<close>
named_theorems frame_simps \<open>fields an operation leaves alone\<close>
named_theorems codec_simps \<open>laying words out in bytes and reading them back\<close>

section \<open>Machine types\<close>

type_synonym u8 = "8 word"
type_synonym u16 = "16 word"
type_synonym u32 = "32 word"
type_synonym u64 = "64 word"
type_synonym bytes = "u8 list"

text \<open>The cast \<open>(int32_t) x\<close> followed by \<open><\<close> is the signed comparison.\<close>

definition s32_less :: "u32 \<Rightarrow> u32 \<Rightarrow> bool" where
  "s32_less a b \<longleftrightarrow> sint a < sint b"

definition s32_le :: "u32 \<Rightarrow> u32 \<Rightarrow> bool" where
  "s32_le a b \<longleftrightarrow> sint a \<le> sint b"

lemma s32_less_irrefl [simp]: "\<not> s32_less a a"
  by (simp add: s32_less_def)

lemma s32_less_trans: "s32_less a b \<Longrightarrow> s32_less b c \<Longrightarrow> s32_less a c"
  by (simp add: s32_less_def)

lemma s32_le_iff: "s32_le a b \<longleftrightarrow> s32_less a b \<or> a = b"
  by (auto simp: s32_le_def s32_less_def order_le_less dest: signed_word_eqI)

lemma s32_linear: "s32_less a b \<or> a = b \<or> s32_less b a"
  by (metis linorder_neqE s32_less_def signed_word_eqI)

text \<open>C's \<open>%\<close> on \<open>int\<close>: the remainder has the sign of the dividend.\<close>

definition c_mod :: "int \<Rightarrow> int \<Rightarrow> int" where
  "c_mod a b = sgn a * (\<bar>a\<bar> mod \<bar>b\<bar>)"

lemma c_mod_nonneg: "0 \<le> a \<Longrightarrow> 0 < b \<Longrightarrow> c_mod a b = a mod b"
  by (cases "a = 0") (simp_all add: c_mod_def)

section \<open>Checked array access\<close>

definition arr_get :: "'a list \<Rightarrow> int \<Rightarrow> 'a option" where
  "arr_get xs i = (if 0 \<le> i \<and> i < int (length xs) then Some (xs ! nat i) else None)"

definition arr_set :: "'a list \<Rightarrow> int \<Rightarrow> 'a \<Rightarrow> 'a list option" where
  "arr_set xs i v = (if 0 \<le> i \<and> i < int (length xs) then Some (xs[nat i := v]) else None)"

lemma arr_get_Some_iff: "(\<exists>v. arr_get xs i = Some v) \<longleftrightarrow> 0 \<le> i \<and> i < int (length xs)"
  by (simp add: arr_get_def)

lemma arr_get_None_iff: "arr_get xs i = None \<longleftrightarrow> i < 0 \<or> int (length xs) \<le> i"
  by (auto simp: arr_get_def)

lemma arr_set_length: "arr_set xs i v = Some ys \<Longrightarrow> length ys = length xs"
  by (auto simp: arr_set_def split: if_splits)

lemma arr_get_set:
  "arr_set xs i v = Some ys \<Longrightarrow> arr_get ys j = (if i = j then Some v else arr_get xs j)"
  by (auto simp: arr_get_def arr_set_def nth_list_update split: if_splits)

section \<open>Option monad\<close>

lemma bind_Some_iff [simp]: "(m \<bind> f) = Some y \<longleftrightarrow> (\<exists>x. m = Some x \<and> f x = Some y)"
  by (cases m) auto

lemma bind_None_iff: "(m \<bind> f) = None \<longleftrightarrow> m = None \<or> (\<exists>x. m = Some x \<and> f x = None)"
  by (cases m) auto

text \<open>A \<open>for\<close> loop over a list of loop values, with a body that may fail.\<close>

fun for_each :: "'a list \<Rightarrow> ('a \<Rightarrow> 's \<Rightarrow> 's option) \<Rightarrow> 's \<Rightarrow> 's option" where
  "for_each [] f s = Some s"
| "for_each (x # xs) f s = do { s \<leftarrow> f x s; for_each xs f s }"

lemma for_each_inv:
  assumes "for_each xs f s = Some t" and "P s"
    and "\<And>x s t. x \<in> set xs \<Longrightarrow> f x s = Some t \<Longrightarrow> P s \<Longrightarrow> P t"
  shows "P t"
  using assms by (induction xs arbitrary: s) auto

lemma for_each_append:
  "for_each (xs @ ys) f s = do { s \<leftarrow> for_each xs f s; for_each ys f s }"
proof (induction xs arbitrary: s)
  case Nil
  show ?case by simp
next
  case (Cons x xs)
  then show ?case by (cases "f x s") simp_all
qed

lemma for_each_cong [fundef_cong]:
  "xs = ys \<Longrightarrow> s = t \<Longrightarrow> (\<And>x s. x \<in> set ys \<Longrightarrow> f x s = g x s) \<Longrightarrow> for_each xs f s = for_each ys g t"
proof (induction xs arbitrary: ys s t)
  case Nil
  then show ?case by auto
next
  case (Cons x xs)
  have "f x s = g x s" using Cons.prems by auto
  moreover have "for_each xs f r = for_each xs g r" for r
    using Cons.prems by (intro Cons.IH) auto
  ultimately show ?case using Cons.prems
    by (metis (no_types, lifting) Option.bind_cong for_each.simps(2))
qed

section \<open>Words in bytes, little endian\<close>

primrec bytes_of_word :: "nat \<Rightarrow> 'a::len word \<Rightarrow> bytes" where
  "bytes_of_word 0 w = []"
| "bytes_of_word (Suc n) w = ucast w # bytes_of_word n (drop_bit 8 w)"

primrec word_of_bytes :: "bytes \<Rightarrow> 'a::len word" where
  "word_of_bytes [] = 0"
| "word_of_bytes (b # bs) = ucast b OR push_bit 8 (word_of_bytes bs)"

lemma bytes_of_word_numeral [simp]:
  "bytes_of_word (numeral k) w = ucast w # bytes_of_word (pred_numeral k) (drop_bit 8 w)"
  by (simp add: numeral_eq_Suc)

lemma length_bytes_of_word [simp, codec_simps]: "length (bytes_of_word n w) = n"
  by (induction n arbitrary: w) simp_all

lemma word_byte_split:
  fixes w :: "'a::len word"
  shows "ucast (ucast w :: u8) OR push_bit 8 (drop_bit 8 w) = w"
proof (rule bit_word_eqI)
  fix n assume "n < LENGTH('a)"
  then show "bit (ucast (ucast w :: u8) OR push_bit 8 (drop_bit 8 w)) n = bit w n"
    by (cases "n < 8") (auto simp: bit_simps)
qed

lemma word_of_bytes_of_word:
  fixes w :: "'a::len word"
  shows "w = take_bit (8 * n) w \<Longrightarrow> word_of_bytes (bytes_of_word n w) = w"
proof (induction n arbitrary: w)
  case 0
  then show ?case by simp
next
  case (Suc n)
  have "drop_bit 8 w = take_bit (8 * n) (drop_bit 8 w)"
  proof -
    have "drop_bit 8 w = drop_bit 8 (take_bit (8 * Suc n) w)" using Suc.prems by simp
    then show ?thesis by (simp add: drop_bit_take_bit)
  qed
  then have "word_of_bytes (bytes_of_word n (drop_bit 8 w)) = drop_bit 8 w"
    by (rule Suc.IH)
  then show ?case by (simp add: word_byte_split)
qed

lemma word_of_bytes_of_word_id [codec_simps]:
  fixes w :: "'a::len word"
  assumes "LENGTH('a) \<le> 8 * n"
  shows "word_of_bytes (bytes_of_word n w) = w"
proof (rule word_of_bytes_of_word)
  show "w = take_bit (8 * n) w" using assms by (simp add: take_bit_word_eq_self)
qed

lemma bit_word_of_bytes_bound:
  "bit (word_of_bytes bs :: 'a::len word) j \<Longrightarrow> j < 8 * length bs"
proof (induction bs arbitrary: j)
  case Nil
  then show ?case by simp
next
  case (Cons b bs)
  from Cons.prems have "j < 8 \<or> (8 \<le> j \<and> bit (word_of_bytes bs :: 'a word) (j - 8))"
    by (auto simp: bit_simps dest: bit_imp_le_length)
  then show ?case using Cons.IH[of "j - 8"] by auto
qed

lemma bytes_of_word_of_bytes:
  "8 * length bs \<le> LENGTH('a::len) \<Longrightarrow>
    bytes_of_word (length bs) (word_of_bytes bs :: 'a word) = bs"
proof (induction bs)
  case Nil
  then show ?case by simp
next
  case (Cons b bs)
  let ?w = "word_of_bytes bs :: 'a word"
  let ?v = "ucast b OR push_bit 8 ?w :: 'a word"
  have low: "(ucast ?v :: u8) = b"
    using Cons.prems by (intro bit_word_eqI) (auto simp: bit_simps)
  have "drop_bit 8 ?v = ?w"
    by (rule bit_word_eqI)
      (use Cons.prems in \<open>auto simp: bit_simps dest: bit_imp_le_length bit_word_of_bytes_bound\<close>)
  then show ?case using low Cons by simp
qed

text \<open>
  A message buffer is a list of bytes; \<open>load n i b\<close> reads the \<open>n\<close> bytes at offset \<open>i\<close> and
  \<open>store i bs b\<close> overwrites the bytes from \<open>i\<close> on. Both fail outside the buffer.
\<close>

definition load :: "nat \<Rightarrow> nat \<Rightarrow> bytes \<Rightarrow> bytes option" where
  "load n i b = (if i + n \<le> length b then Some (take n (drop i b)) else None)"

definition store :: "nat \<Rightarrow> bytes \<Rightarrow> bytes \<Rightarrow> bytes option" where
  "store i bs b = (if i + length bs \<le> length b
     then Some (take i b @ bs @ drop (i + length bs) b) else None)"

lemma store_length [codec_simps]: "store i bs b = Some c \<Longrightarrow> length c = length b"
  by (auto simp: store_def split: if_splits)

lemma load_store_same: "store i bs b = Some c \<Longrightarrow> load (length bs) i c = Some bs"
  by (auto simp: store_def load_def split: if_splits)

lemma nth_store:
  assumes "store i bs b = Some c" and "k < length b"
  shows "c ! k = (if i \<le> k \<and> k < i + length bs then bs ! (k - i) else b ! k)"
  using assms by (auto simp: store_def nth_append min_def split: if_splits)

lemma load_store_disjoint:
  assumes st: "store i bs b = Some c" and "j + n \<le> i \<or> i + length bs \<le> j"
  shows "load n j c = load n j b"
proof (cases "j + n \<le> length b")
  case True
  have len: "length c = length b" using st by (rule store_length)
  have "take n (drop j c) = take n (drop j b)"
  proof (rule nth_equalityI)
    show "length (take n (drop j c)) = length (take n (drop j b))" using len by simp
  next
    fix k assume "k < length (take n (drop j c))"
    then have k: "k < n" "j + k < length b" using len by auto
    have "c ! (j + k) = b ! (j + k)"
      using nth_store[OF st k(2)] assms(2) k(1) by auto
    then show "take n (drop j c) ! k = take n (drop j b) ! k" using k len by simp
  qed
  then show ?thesis using len True by (simp add: load_def)
next
  case False
  then show ?thesis using store_length[OF st] by (simp add: load_def)
qed

lemma load_length: "load n i b = Some bs \<Longrightarrow> length bs = n"
  by (auto simp: load_def split: if_splits)

lemma store_load_same: "load n i b = Some bs \<Longrightarrow> store i bs b = Some b"
proof -
  assume l: "load n i b = Some bs"
  then have bs: "bs = take n (drop i b)" and le: "i + n \<le> length b"
    by (auto simp: load_def split: if_splits)
  have "take i b @ take n (drop i b) @ drop n (drop i b) = b"
    by (simp only: append_take_drop_id)
  then show ?thesis using bs le by (simp add: store_def min_def add.commute)
qed

section \<open>IEEE-754 doubles as bit patterns\<close>

text \<open>
  A \<open>double\<close> is its 64-bit pattern. The order \<open><\<close> of the standard is computed here from the
  pattern: false if either side is a NaN, otherwise the sign-magnitude order, in which the
  two zeros are equal. Arithmetic is a parameter of the model (record \<open>fp\<close>).
\<close>

type_synonym double = u64

definition d_mag :: "double \<Rightarrow> nat" where
  "d_mag x = unat (x AND 0x7FFFFFFFFFFFFFFF)"

definition d_is_nan :: "double \<Rightarrow> bool" where
  "d_is_nan x \<longleftrightarrow> 0x7FF0000000000000 < d_mag x"

definition d_key :: "double \<Rightarrow> int" where
  "d_key x = (if bit x 63 then - int (d_mag x) else int (d_mag x))"

definition d_less :: "double \<Rightarrow> double \<Rightarrow> bool" where
  "d_less x y \<longleftrightarrow> \<not> d_is_nan x \<and> \<not> d_is_nan y \<and> d_key x < d_key y"

definition d_neg :: "double \<Rightarrow> double" where
  "d_neg x = x XOR 0x8000000000000000"

text \<open>\<open>std::max\<close> and \<open>std::min\<close> return their first argument when neither is smaller.\<close>

definition d_max :: "double \<Rightarrow> double \<Rightarrow> double" where
  "d_max a b = (if d_less a b then b else a)"

definition d_min :: "double \<Rightarrow> double \<Rightarrow> double" where
  "d_min a b = (if d_less b a then b else a)"

lemma d_less_irrefl [simp]: "\<not> d_less x x"
  by (simp add: d_less_def)

lemma d_less_asym: "d_less x y \<Longrightarrow> \<not> d_less y x"
  by (simp add: d_less_def)

lemma d_less_trans: "d_less x y \<Longrightarrow> d_less y z \<Longrightarrow> d_less x z"
  by (simp add: d_less_def)

text \<open>The arithmetic of the floating point unit and the C library, as a parameter.\<close>

record fp =
  fp_add :: "double \<Rightarrow> double \<Rightarrow> double"
  fp_mul :: "double \<Rightarrow> double \<Rightarrow> double"
  fp_div :: "double \<Rightarrow> double \<Rightarrow> double"
  fp_log :: "double \<Rightarrow> double"
  fp_of_int :: "int \<Rightarrow> double"

section \<open>Results that satisfy a predicate\<close>

text \<open>
  \<open>okM P m\<close> says that the result of \<open>m\<close> satisfies \<open>P\<close> if \<open>m\<close> does not fail.
\<close>

definition okM :: "('a \<Rightarrow> bool) \<Rightarrow> 'a option \<Rightarrow> bool" where
  "okM P m \<longleftrightarrow> (\<forall>x. m = Some x \<longrightarrow> P x)"

lemma okM_D: "okM P m \<Longrightarrow> m = Some x \<Longrightarrow> P x"
  by (simp add: okM_def)

lemma okM_None [simp]: "okM P None"
  by (simp add: okM_def)

lemma okM_Some [simp]: "okM P (Some x) = P x"
  by (simp add: okM_def)

lemma okM_top [simp]: "okM (\<lambda>_. True) m"
  by (simp add: okM_def)

lemma okM_bind: "okM Q m \<Longrightarrow> (\<And>x. Q x \<Longrightarrow> okM P (f x)) \<Longrightarrow> okM P (m \<bind> f)"
  by (auto simp: okM_def)

lemma okM_bind_any: "(\<And>x. okM P (f x)) \<Longrightarrow> okM P (m \<bind> f)"
  by (auto simp: okM_def)

lemma okM_bind_eq: "(\<And>x. m = Some x \<Longrightarrow> okM P (f x)) \<Longrightarrow> okM P (m \<bind> f)"
  by (auto simp: okM_def)

lemma okM_if: "(c \<Longrightarrow> okM P a) \<Longrightarrow> (\<not> c \<Longrightarrow> okM P b) \<Longrightarrow> okM P (if c then a else b)"
  by simp

lemma okM_case_option:
  "(x = None \<Longrightarrow> okM P a) \<Longrightarrow> (\<And>y. x = Some y \<Longrightarrow> okM P (b y)) \<Longrightarrow>
    okM P (case x of None \<Rightarrow> a | Some y \<Rightarrow> b y)"
  by (cases x) simp_all

lemma okM_case_sum:
  "(\<And>y. x = Inl y \<Longrightarrow> okM P (a y)) \<Longrightarrow> (\<And>y. x = Inr y \<Longrightarrow> okM P (b y)) \<Longrightarrow>
    okM P (case x of Inl y \<Rightarrow> a y | Inr y \<Rightarrow> b y)"
  by (cases x) simp_all

lemma okM_case_prod: "(\<And>a b. x = (a, b) \<Longrightarrow> okM P (f a b)) \<Longrightarrow> okM P (case x of (a, b) \<Rightarrow> f a b)"
  by (cases x) simp

lemma okM_Let: "okM P (f v) \<Longrightarrow> okM P (Let v f)"
  by simp

lemma okM_mono: "okM Q m \<Longrightarrow> (\<And>x. Q x \<Longrightarrow> P x) \<Longrightarrow> okM P m"
  by (auto simp: okM_def)

lemma okM_map_option: "okM (\<lambda>x. P (f x)) m \<Longrightarrow> okM P (map_option f m)"
  by (auto simp: okM_def)

lemma okM_for_each:
  "P s \<Longrightarrow> (\<And>x s. x \<in> set xs \<Longrightarrow> P s \<Longrightarrow> okM P (f x s)) \<Longrightarrow> okM P (for_each xs f s)"
  by (induction xs arbitrary: s) (auto intro!: okM_bind[where Q = P])

end
