(* ===== verification/Handler_Chain.thy ===== *)
theory Handler_Chain
  imports Aodv_Prelude
begin

text \<open>
  Chains of objects that are asked in turn until one of them answers, as ns-2 keeps them for the
  packet classifiers (\<open>common/packet.h\<close>) and the packet tracers (\<open>trace/cmu-trace.cc\<close>) of dynamic
  libraries: a static pointer to the first object and a pointer to the next one in each. An
  object is its address. The locale \<open>handler_chain\<close> is what both traversals have in common.
\<close>

section \<open>Linked objects\<close>

record chain =
  ch_head :: "nat option"
  ch_next :: "nat \<Rightarrow> nat option"

text \<open>\<open>p->setNext(head); head = p\<close>.\<close>

definition push_handler :: "nat \<Rightarrow> chain \<Rightarrow> chain" where
  "push_handler p c = c\<lparr>ch_next := (ch_next c)(p := ch_head c), ch_head := Some p\<rparr>"

text \<open>The objects \<open>xs\<close> hang one behind the other on the pointer \<open>h\<close>.\<close>

primrec linked :: "(nat \<Rightarrow> nat option) \<Rightarrow> nat option \<Rightarrow> nat list \<Rightarrow> bool" where
  "linked nxt h [] \<longleftrightarrow> h = None"
| "linked nxt h (x # xs) \<longleftrightarrow> h = Some x \<and> linked nxt (nxt x) xs"

definition chain_of :: "chain \<Rightarrow> nat list \<Rightarrow> bool" where
  "chain_of c xs \<longleftrightarrow> linked (ch_next c) (ch_head c) xs \<and> distinct xs"

lemma linked_upd_other [simp]:
  "x \<notin> set xs \<Longrightarrow> linked (nxt(x := y)) h xs = linked nxt h xs"
  by (induction xs arbitrary: h) auto

lemma linked_unique: "linked nxt h xs \<Longrightarrow> linked nxt h ys \<Longrightarrow> xs = ys"
proof (induction xs arbitrary: h ys)
  case Nil
  then show ?case by (cases ys) auto
next
  case (Cons x xs)
  then show ?case by (cases ys) auto
qed

lemma chain_of_push:
  "chain_of c xs \<Longrightarrow> p \<notin> set xs \<Longrightarrow> chain_of (push_handler p c) (p # xs)"
  by (simp add: chain_of_def push_handler_def)

text \<open>Pushing the first object once more makes it its own successor.\<close>

lemma push_twice: "ch_next (push_handler p (push_handler p c)) p = Some p"
  by (simp add: push_handler_def)

section \<open>Asking the objects in turn\<close>

text \<open>
  Each object turns a state into an answer and a state; the first answer that counts, or that of
  the last object, is the answer of the list.
\<close>

fun first_answer :: "('n \<Rightarrow> 's \<Rightarrow> 'r \<times> 's) \<Rightarrow> ('r \<Rightarrow> bool) \<Rightarrow> 'n list \<Rightarrow> 's \<Rightarrow> ('r \<times> 's) option" where
  "first_answer ask ok [] s = None"
| "first_answer ask ok [x] s = Some (ask x s)"
| "first_answer ask ok (x # y # xs) s =
     (case ask x s of (r, t) \<Rightarrow> if ok r then Some (r, t) else first_answer ask ok (y # xs) t)"

locale handler_chain =
  fixes nxt :: "nat \<Rightarrow> nat option"
    and ask :: "nat \<Rightarrow> 's \<Rightarrow> 'r \<times> 's"
    and ok :: "'r \<Rightarrow> bool"
    and run :: "nat \<Rightarrow> 's \<Rightarrow> ('r \<times> 's) option"
  assumes step: "run n s = (case ask n s of (r, t) \<Rightarrow>
      if ok r then Some (r, t) else (case nxt n of None \<Rightarrow> Some (r, t) | Some m \<Rightarrow> run m t))"
begin

lemma run_linked: "linked nxt (Some n) xs \<Longrightarrow> run n s = first_answer ask ok xs s"
proof (induction xs arbitrary: n s)
  case Nil
  then show ?case by simp
next
  case (Cons x xs)
  then have x: "n = x" and l: "linked nxt (nxt x) xs" by auto
  show ?case
  proof (cases xs)
    case Nil
    then show ?thesis using l by (simp add: x step[of x] split: prod.split)
  next
    case (Cons y ys)
    then show ?thesis using l Cons.IH[of y] by (simp add: x step[of x] split: prod.split)
  qed
qed

text \<open>On a linked list the traversal ends.\<close>

lemma run_ends: "linked nxt (Some n) xs \<Longrightarrow> \<exists>y. run n s = Some y"
proof (induction xs arbitrary: n s)
  case Nil
  then show ?case by simp
next
  case (Cons x xs)
  then show ?case by (cases xs) (auto simp: step[of x] split: prod.split)
qed

end

end
