(* ===== verification/Packet_Types.thy ===== *)
theory Packet_Types
  imports Handler_Chain
begin

text \<open>
  The packet types of \<open>common/packet.h\<close>: their numbers, the table of their names (\<open>p_info\<close>, with
  the static members of the class as a record) and their classification, in which objects of
  dynamic libraries may take part.
\<close>

section \<open>Types\<close>

definition PT_TCP :: nat where [simp]: "PT_TCP = 0"
definition PT_UDP :: nat where [simp]: "PT_UDP = 1"
definition PT_CBR :: nat where [simp]: "PT_CBR = 2"
definition PT_AUDIO :: nat where [simp]: "PT_AUDIO = 3"
definition PT_VIDEO :: nat where [simp]: "PT_VIDEO = 4"
definition PT_ACK :: nat where [simp]: "PT_ACK = 5"
definition PT_START :: nat where [simp]: "PT_START = 6"
definition PT_STOP :: nat where [simp]: "PT_STOP = 7"
definition PT_PRUNE :: nat where [simp]: "PT_PRUNE = 8"
definition PT_GRAFT :: nat where [simp]: "PT_GRAFT = 9"
definition PT_GRAFTACK :: nat where [simp]: "PT_GRAFTACK = 10"
definition PT_JOIN :: nat where [simp]: "PT_JOIN = 11"
definition PT_ASSERT :: nat where [simp]: "PT_ASSERT = 12"
definition PT_MESSAGE :: nat where [simp]: "PT_MESSAGE = 13"
definition PT_RTCP :: nat where [simp]: "PT_RTCP = 14"
definition PT_RTP :: nat where [simp]: "PT_RTP = 15"
definition PT_RTPROTO_DV :: nat where [simp]: "PT_RTPROTO_DV = 16"
definition PT_CtrMcast_Encap :: nat where [simp]: "PT_CtrMcast_Encap = 17"
definition PT_CtrMcast_Decap :: nat where [simp]: "PT_CtrMcast_Decap = 18"
definition PT_SRM :: nat where [simp]: "PT_SRM = 19"
definition PT_REQUEST :: nat where [simp]: "PT_REQUEST = 20"
definition PT_ACCEPT :: nat where [simp]: "PT_ACCEPT = 21"
definition PT_CONFIRM :: nat where [simp]: "PT_CONFIRM = 22"
definition PT_TEARDOWN :: nat where [simp]: "PT_TEARDOWN = 23"
definition PT_LIVE :: nat where [simp]: "PT_LIVE = 24"
definition PT_REJECT :: nat where [simp]: "PT_REJECT = 25"
definition PT_TELNET :: nat where [simp]: "PT_TELNET = 26"
definition PT_FTP :: nat where [simp]: "PT_FTP = 27"
definition PT_PARETO :: nat where [simp]: "PT_PARETO = 28"
definition PT_EXP :: nat where [simp]: "PT_EXP = 29"
definition PT_INVAL :: nat where [simp]: "PT_INVAL = 30"
definition PT_HTTP :: nat where [simp]: "PT_HTTP = 31"
definition PT_ENCAPSULATED :: nat where [simp]: "PT_ENCAPSULATED = 32"
definition PT_MFTP :: nat where [simp]: "PT_MFTP = 33"
definition PT_ARP :: nat where [simp]: "PT_ARP = 34"
definition PT_MAC :: nat where [simp]: "PT_MAC = 35"
definition PT_TORA :: nat where [simp]: "PT_TORA = 36"
definition PT_DSR :: nat where [simp]: "PT_DSR = 37"
definition PT_AODV :: nat where [simp]: "PT_AODV = 38"
definition PT_IMEP :: nat where [simp]: "PT_IMEP = 39"
definition PT_RAP_DATA :: nat where [simp]: "PT_RAP_DATA = 40"
definition PT_RAP_ACK :: nat where [simp]: "PT_RAP_ACK = 41"
definition PT_TFRC :: nat where [simp]: "PT_TFRC = 42"
definition PT_TFRC_ACK :: nat where [simp]: "PT_TFRC_ACK = 43"
definition PT_PING :: nat where [simp]: "PT_PING = 44"
definition PT_PBC :: nat where [simp]: "PT_PBC = 45"
definition PT_DIFF :: nat where [simp]: "PT_DIFF = 46"
definition PT_RTPROTO_LS :: nat where [simp]: "PT_RTPROTO_LS = 47"
definition PT_LDP :: nat where [simp]: "PT_LDP = 48"
definition PT_GAF :: nat where [simp]: "PT_GAF = 49"
definition PT_REALAUDIO :: nat where [simp]: "PT_REALAUDIO = 50"
definition PT_PUSHBACK :: nat where [simp]: "PT_PUSHBACK = 51"
definition PT_PGM :: nat where [simp]: "PT_PGM = 52"
definition PT_LMS :: nat where [simp]: "PT_LMS = 53"
definition PT_LMS_SETUP :: nat where [simp]: "PT_LMS_SETUP = 54"
definition PT_SCTP :: nat where [simp]: "PT_SCTP = 55"
definition PT_SCTP_APP1 :: nat where [simp]: "PT_SCTP_APP1 = 56"
definition PT_SMAC :: nat where [simp]: "PT_SMAC = 57"
definition PT_XCP :: nat where [simp]: "PT_XCP = 58"
definition PT_HDLC :: nat where [simp]: "PT_HDLC = 59"
definition PT_BLTRACE :: nat where [simp]: "PT_BLTRACE = 60"
definition PT_AOMDV :: nat where [simp]: "PT_AOMDV = 61"
definition PT_PUMA :: nat where [simp]: "PT_PUMA = 62"
definition PT_DCCP :: nat where [simp]: "PT_DCCP = 63"
definition PT_DCCP_REQ :: nat where [simp]: "PT_DCCP_REQ = 64"
definition PT_DCCP_RESP :: nat where [simp]: "PT_DCCP_RESP = 65"
definition PT_DCCP_ACK :: nat where [simp]: "PT_DCCP_ACK = 66"
definition PT_DCCP_DATA :: nat where [simp]: "PT_DCCP_DATA = 67"
definition PT_DCCP_DATAACK :: nat where [simp]: "PT_DCCP_DATAACK = 68"
definition PT_DCCP_CLOSE :: nat where [simp]: "PT_DCCP_CLOSE = 69"
definition PT_DCCP_CLOSEREQ :: nat where [simp]: "PT_DCCP_CLOSEREQ = 70"
definition PT_DCCP_RESET :: nat where [simp]: "PT_DCCP_RESET = 71"
definition PT_MDART :: nat where [simp]: "PT_MDART = 72"
definition PT_AODVUU :: nat where [simp]: "PT_AODVUU = 73"

section \<open>Names\<close>

text \<open>
  \<open>name_\<close> is an array of \<open>char *\<close>, in which \<open>None\<close> is a pointer that was never assigned, \<open>pi_NTYPE\<close>
  the variable \<open>PT_NTYPE\<close>, which grows with the types of dynamic libraries, and \<open>pi_pc\<close> the chain of
  classifiers with its head \<open>pc_\<close>.
\<close>

record p_info =
  pi_name :: "string option list"
  pi_nPkt :: nat
  pi_NTYPE :: nat
  pi_pc :: chain

text \<open>The static members before the constructor of \<open>packet_info\<close> has run.\<close>

definition static_p_info :: p_info where
  "static_p_info = \<lparr>pi_name = [], pi_nPkt = 0, pi_NTYPE = 74,
     pi_pc = \<lparr>ch_head = None, ch_next = (\<lambda>_. None)\<rparr>\<rparr>"

text \<open>The assignments of \<open>initName\<close>, in their order; one of them depends on \<open>HAVE_STL\<close>.\<close>

definition type_names :: "bool \<Rightarrow> (nat \<times> string) list" where
  "type_names have_stl = [
     (PT_TCP, ''tcp''), (PT_UDP, ''udp''), (PT_CBR, ''cbr''), (PT_AUDIO, ''audio''),
     (PT_VIDEO, ''video''), (PT_ACK, ''ack''), (PT_START, ''start''), (PT_STOP, ''stop''),
     (PT_PRUNE, ''prune''), (PT_GRAFT, ''graft''), (PT_GRAFTACK, ''graftAck''),
     (PT_JOIN, ''join''), (PT_ASSERT, ''assert''), (PT_MESSAGE, ''message''),
     (PT_RTCP, ''rtcp''), (PT_RTP, ''rtp''), (PT_RTPROTO_DV, ''rtProtoDV''),
     (PT_CtrMcast_Encap, ''CtrMcast_Encap''), (PT_CtrMcast_Decap, ''CtrMcast_Decap''),
     (PT_SRM, ''SRM''), (PT_REQUEST, ''sa_req''), (PT_ACCEPT, ''sa_accept''),
     (PT_CONFIRM, ''sa_conf''), (PT_TEARDOWN, ''sa_teardown''), (PT_LIVE, ''live''),
     (PT_REJECT, ''sa_reject''), (PT_TELNET, ''telnet''), (PT_FTP, ''ftp''),
     (PT_PARETO, ''pareto''), (PT_EXP, ''exp''), (PT_INVAL, ''httpInval''),
     (PT_HTTP, ''http''), (PT_ENCAPSULATED, ''encap''), (PT_MFTP, ''mftp''), (PT_ARP, ''ARP''),
     (PT_MAC, ''MAC''), (PT_TORA, ''TORA''), (PT_DSR, ''DSR''), (PT_AODV, ''AODV''),
     (PT_MDART, ''MDART''), (PT_IMEP, ''IMEP''), (PT_RAP_DATA, ''rap_data''),
     (PT_RAP_ACK, ''rap_ack''), (PT_TFRC, ''tcpFriend''), (PT_TFRC_ACK, ''tcpFriendCtl''),
     (PT_PING, ''ping''), (PT_PBC, ''PBC''), (PT_DIFF, ''diffusion''),
     (PT_RTPROTO_LS, ''rtProtoLS''), (PT_LDP, ''LDP''), (PT_GAF, ''gaf''),
     (PT_REALAUDIO, ''ra''), (PT_PUSHBACK, ''pushback'')]
   @ (if have_stl then [(PT_PGM, ''PGM'')] else [])
   @ [
     (PT_LMS, ''LMS''), (PT_LMS_SETUP, ''LMS_SETUP''), (PT_SCTP, ''sctp''),
     (PT_SCTP_APP1, ''sctp_app1''), (PT_SMAC, ''smac''), (PT_HDLC, ''HDLC''),
     (PT_XCP, ''xcp''), (PT_BLTRACE, ''BellLabsTrace''), (PT_AOMDV, ''AOMDV''),
     (PT_PUMA, ''PUMA''), (PT_DCCP, ''DCCP''), (PT_DCCP_REQ, ''DCCP_Request''),
     (PT_DCCP_RESP, ''DCCP_Response''), (PT_DCCP_ACK, ''DCCP_Ack''),
     (PT_DCCP_DATA, ''DCCP_Data''), (PT_DCCP_DATAACK, ''DCCP_DataAck''),
     (PT_DCCP_CLOSE, ''DCCP_Close''), (PT_DCCP_CLOSEREQ, ''DCCP_CloseReq''),
     (PT_DCCP_RESET, ''DCCP_Reset''), (PT_AODVUU, ''AODVUU'')]"


text \<open>
  \<open>initName\<close> does nothing if the table is long enough. Otherwise it allocates a longer one,
  copies the names of dynamic types into it and assigns all the others.
\<close>

definition initName :: "bool \<Rightarrow> p_info \<Rightarrow> p_info option" where
  "initName have_stl s = (if pi_NTYPE s + 1 \<le> pi_nPkt s then Some s else do {
     nameNew \<leftarrow> for_each [PT_SMAC + 1..<pi_nPkt s]
       (\<lambda>i a. do { n \<leftarrow> arr_get (pi_name s) (int i); arr_set a (int i) n })
       (replicate (pi_NTYPE s + 1) None);
     nameNew \<leftarrow> for_each (type_names have_stl @ [(pi_NTYPE s, ''undefined'')])
       (\<lambda>(i, n) a. arr_set a (int i) (Some n)) nameNew;
     Some (s\<lparr>pi_name := nameNew, pi_nPkt := pi_NTYPE s + 1\<rparr>)
   })"

text \<open>
  \<open>name\<close> returns a pointer to a string or the null pointer (\<open>Some None\<close>); it fails when it reads
  behind the table or returns a pointer that was never assigned.
\<close>

definition p_info_name :: "nat \<Rightarrow> p_info \<Rightarrow> string option option" where
  "p_info_name p s = (if p \<le> pi_nPkt s then do {
     n \<leftarrow> arr_get (pi_name s) (int p);
     case n of None \<Rightarrow> None | Some n \<Rightarrow> Some (Some n)
   } else Some None)"

text \<open>\<open>getType\<close> compares with \<open>strcmp\<close>, which fails on a pointer that was never assigned.\<close>

fun scan_names :: "string \<Rightarrow> nat \<Rightarrow> string option list \<Rightarrow> nat option option" where
  "scan_names n i [] = Some None"
| "scan_names n i (None # xs) = None"
| "scan_names n i (Some m # xs) = (if n = m then Some (Some i) else scan_names n (Suc i) xs)"

definition getType :: "string \<Rightarrow> p_info \<Rightarrow> nat option" where
  "getType n s = do {
     r \<leftarrow> scan_names n 0 (take (pi_nPkt s) (pi_name s));
     Some (case r of Some i \<Rightarrow> i | None \<Rightarrow> pi_NTYPE s)
   }"

section \<open>Classes\<close>

datatype packetClass = UNCLASSIFIED | ROUTING | DATApkt

definition data_packet :: "nat \<Rightarrow> bool" where
  "data_packet type \<longleftrightarrow> type = PT_TCP \<or> type = PT_TELNET \<or> type = PT_CBR \<or> type = PT_AUDIO
     \<or> type = PT_VIDEO \<or> type = PT_ACK \<or> type = PT_SCTP \<or> type = PT_SCTP_APP1 \<or> type = PT_HDLC"

definition DATA_PACKET :: "nat \<Rightarrow> bool" where
  "DATA_PACKET type \<longleftrightarrow> type = PT_TCP \<or> type = PT_TELNET \<or> type = PT_CBR \<or> type = PT_AUDIO
     \<or> type = PT_VIDEO \<or> type = PT_ACK \<or> type = PT_SCTP \<or> type = PT_SCTP_APP1"

text \<open>
  The method \<open>getClass\<close> of the classifier object at an address is the parameter \<open>cls\<close>;
  \<open>PacketClassifier_classify\<close> asks the object and then its successors.
\<close>

partial_function (option) PacketClassifier_classify ::
  "(nat \<Rightarrow> nat \<Rightarrow> packetClass) \<Rightarrow> (nat \<Rightarrow> nat option) \<Rightarrow> nat \<Rightarrow> nat \<Rightarrow> packetClass option"
where
  "PacketClassifier_classify cls nxt pc type =
     (let c = cls pc type
      in if c = UNCLASSIFIED
         then (case nxt pc of None \<Rightarrow> Some c | Some q \<Rightarrow> PacketClassifier_classify cls nxt q type)
         else Some c)"

definition p_info_classify :: "(nat \<Rightarrow> nat \<Rightarrow> packetClass) \<Rightarrow> nat \<Rightarrow> p_info \<Rightarrow> packetClass option" where
  "p_info_classify cls type s =
     (if type = PT_DSR \<or> type = PT_MESSAGE \<or> type = PT_TORA \<or> type = PT_PUMA \<or> type = PT_AODV
        \<or> type = PT_MDART then Some ROUTING
      else if type = PT_TCP \<or> type = PT_TELNET \<or> type = PT_CBR \<or> type = PT_AUDIO
        \<or> type = PT_VIDEO \<or> type = PT_ACK \<or> type = PT_SCTP \<or> type = PT_SCTP_APP1
        \<or> type = PT_HDLC then Some DATApkt
      else (case ch_head (pi_pc s) of
          None \<Rightarrow> Some UNCLASSIFIED
        | Some pc \<Rightarrow> PacketClassifier_classify cls (ch_next (pi_pc s)) pc type))"

definition addPacketClassifier :: "nat option \<Rightarrow> p_info \<Rightarrow> p_info" where
  "addPacketClassifier pc s = (case pc of None \<Rightarrow> s | Some p \<Rightarrow> s\<lparr>pi_pc := push_handler p (pi_pc s)\<rparr>)"

end
