(* ===== verification/Aodv_Defs.thy ===== *)
theory Aodv_Defs
  imports Packet_Types
begin

text \<open>
  The data of the agent: the constants of \<open>params.h\<close> and \<open>defs.h\<close>, the structs of the
  headers as records (a field keeps the source's name behind a short prefix, since several
  structs use the same name), and the record \<open>aodv\<close> of all the members of class \<open>AODVUU\<close>
  that the protocol reads or writes. The build modelled is the simulator's: \<open>NS_PORT\<close>
  defined, \<open>CONFIG_GATEWAY\<close> not defined; \<open>htonl\<close> and \<open>ntohl\<close> are then the identity
  (\<open>ns-2/aodv-uu.h\<close>).

  Code outside the repository (timer queue, seek list, neighbour module, interface queue of
  the simulator, random numbers, memory allocator) is the parameter record \<open>ext\<close>, an argument
  of every definition that calls it.
\<close>

section \<open>Constants\<close>

type_synonym in_addr = u32

definition MAX_NR_INTERFACES :: nat where [simp]: "MAX_NR_INTERFACES = 10"
definition MAX_SEQUENCE_LEN :: int where [simp]: "MAX_SEQUENCE_LEN = 10"
definition MAX_CHANNEL_NUM :: nat where [simp]: "MAX_CHANNEL_NUM = 3"
definition Channel_Count :: nat where [simp]: "Channel_Count = 3"
definition NS_IFINDEX :: u32 where [simp]: "NS_IFINDEX = 0"
definition AODV_BROADCAST :: in_addr where [simp]: "AODV_BROADCAST = 0xFFFFFFFF"
definition MAXTTL :: u8 where [simp]: "MAXTTL = 255"

definition AODV_RREQ :: u8 where [simp]: "AODV_RREQ = 1"
definition AODV_RREP :: u8 where [simp]: "AODV_RREP = 2"
definition AODV_RERR :: u8 where [simp]: "AODV_RERR = 3"
definition AODV_RREP_ACK :: u8 where [simp]: "AODV_RREP_ACK = 4"
definition AODV_RREQ_LR :: u8 where [simp]: "AODV_RREQ_LR = 5"
definition AODV_RREP_LR :: u8 where [simp]: "AODV_RREP_LR = 6"
definition AODV_RERR_LR :: u8 where [simp]: "AODV_RERR_LR = 7"

definition RREQ_COST_EXT :: u8 where [simp]: "RREQ_COST_EXT = 1"
definition RREQ_EXT :: u8 where [simp]: "RREQ_EXT = 2"
definition RREP_COST_EXT :: u8 where [simp]: "RREP_COST_EXT = 1"
definition RREP_EXT :: u8 where [simp]: "RREP_EXT = 2"
definition RREP_HELLO_INTERVAL_EXT :: u8 where [simp]: "RREP_HELLO_INTERVAL_EXT = 2"
definition RREP_HELLO_NEIGHBOR_SET_EXT :: u8 where [simp]: "RREP_HELLO_NEIGHBOR_SET_EXT = 3"
definition RREQ_UDEST_EXT :: u8 where [simp]: "RREQ_UDEST_EXT = 5"
definition RREP_UDEST_EXT :: u8 where [simp]: "RREP_UDEST_EXT = 6"
definition AODV_EXT_HDR_SIZE :: nat where [simp]: "AODV_EXT_HDR_SIZE = 2"

text \<open>\<open>MAX_NUM\<close> is the double \<open>1e18\<close>.\<close>

definition MAX_NUM :: double where [simp]: "MAX_NUM = 0x43ABC16D674EC800"

subsection \<open>Flags of messages and routing entries\<close>

definition RREQ_JOIN :: u8 where [simp]: "RREQ_JOIN = 0x1"
definition RREQ_REPAIR :: u8 where [simp]: "RREQ_REPAIR = 0x2"
definition RREQ_GRATUITOUS :: u8 where [simp]: "RREQ_GRATUITOUS = 0x4"
definition RREQ_DEST_ONLY :: u8 where [simp]: "RREQ_DEST_ONLY = 0x8"
definition RREQ_LOCAL_REPAIR :: u8 where [simp]: "RREQ_LOCAL_REPAIR = 0x16"
definition RREP_ACK :: u8 where [simp]: "RREP_ACK = 0x1"
definition RREP_REPAIR :: u8 where [simp]: "RREP_REPAIR = 0x2"
definition RREP_LOCAL_REPAIR :: u8 where [simp]: "RREP_LOCAL_REPAIR = 0x4"
definition RERR_NODELETE :: u8 where [simp]: "RERR_NODELETE = 0x1"
definition RERR_LOCAL_REPAIR :: u8 where [simp]: "RERR_LOCAL_REPAIR = 0x2"

definition RT_UNIDIR :: u16 where [simp]: "RT_UNIDIR = 0x1"
definition RT_REPAIR :: u16 where [simp]: "RT_REPAIR = 0x2"
definition RT_INV_SEQNO :: u16 where [simp]: "RT_INV_SEQNO = 0x4"
definition RT_INET_DEST :: u16 where [simp]: "RT_INET_DEST = 0x8"
definition RT_GATEWAY :: u16 where [simp]: "RT_GATEWAY = 0x10"

definition INVALID :: u8 where [simp]: "INVALID = 0"
definition VALID :: u8 where [simp]: "VALID = 1"
definition RT_TABLESIZE :: nat where [simp]: "RT_TABLESIZE = 64"
definition RT_TABLEMASK :: u32 where [simp]: "RT_TABLEMASK = 63"

text \<open>\<open>flags & F\<close> used as a truth value.\<close>

definition has_flag :: "'a::len word \<Rightarrow> 'a word \<Rightarrow> bool" where
  "has_flag flags f \<longleftrightarrow> flags AND f \<noteq> 0"

subsection \<open>\<open>params.h\<close>\<close>

text \<open>
  The macros are substituted textually in the source; each definition is the value of the
  substituted expression with C's precedences.
\<close>

definition ACTIVE_ROUTE_TIMEOUT_LLF :: int where [simp]: "ACTIVE_ROUTE_TIMEOUT_LLF = 10000"
definition TTL_START_LLF :: int where [simp]: "TTL_START_LLF = 1"
definition DELETE_PERIOD_LLF :: int where
  [simp]: "DELETE_PERIOD_LLF = ACTIVE_ROUTE_TIMEOUT_LLF"
definition ACTIVE_ROUTE_TIMEOUT_HELLO :: int where [simp]: "ACTIVE_ROUTE_TIMEOUT_HELLO = 3000"
definition TTL_START_HELLO :: int where [simp]: "TTL_START_HELLO = 2"
definition ALLOWED_HELLO_LOSS :: int where [simp]: "ALLOWED_HELLO_LOSS = 2"
definition HELLO_INTERVAL :: int where [simp]: "HELLO_INTERVAL = 300"
definition DELETE_PERIOD_HELLO :: int where
  [simp]: "DELETE_PERIOD_HELLO =
    5 * max ACTIVE_ROUTE_TIMEOUT_HELLO (ALLOWED_HELLO_LOSS * HELLO_INTERVAL)"
definition LOCAL_ADD_TTL :: int where [simp]: "LOCAL_ADD_TTL = 2"
definition NET_DIAMETER :: int where [simp]: "NET_DIAMETER = 35"
definition MAX_REPAIR_TTL :: int where [simp]: "MAX_REPAIR_TTL = 3 * NET_DIAMETER div 10"
definition NODE_TRAVERSAL_TIME :: int where [simp]: "NODE_TRAVERSAL_TIME = 35"
definition NET_TRAVERSAL_TIME :: int where
  [simp]: "NET_TRAVERSAL_TIME = NODE_TRAVERSAL_TIME * NET_DIAMETER"
definition NEXT_HOP_WAIT :: int where [simp]: "NEXT_HOP_WAIT = NODE_TRAVERSAL_TIME + 10"
definition PATH_DISCOVERY_TIME :: int where
  [simp]: "PATH_DISCOVERY_TIME = 2 * NET_TRAVERSAL_TIME"
definition RERR_TIME :: int where [simp]: "RERR_TIME = 1 * NET_TRAVERSAL_TIME"
definition RERR_RATELIMIT :: int where [simp]: "RERR_RATELIMIT = 10"
definition RREQ_RETRIES :: int where [simp]: "RREQ_RETRIES = 2"
definition RREQ_RATELIMIT :: int where [simp]: "RREQ_RATELIMIT = 10"
definition TIMEOUT_BUFFER :: int where [simp]: "TIMEOUT_BUFFER = 2"
definition TTL_INCREMENT :: int where [simp]: "TTL_INCREMENT = 2"
definition TTL_THRESHOLD :: int where [simp]: "TTL_THRESHOLD = 7"
definition RING_TRAVERSAL_TIME :: "int \<Rightarrow> int" where
  [simp]: "RING_TRAVERSAL_TIME ttl = NODE_TRAVERSAL_TIME * (ttl + TIMEOUT_BUFFER)"

text \<open>C's \<open>/\<close> truncates; \<open>ttl_start\<close> is at most \<open>TTL_THRESHOLD\<close> in both configurations.\<close>

definition c_div :: "int \<Rightarrow> int \<Rightarrow> int" where
  "c_div a b = sgn a * sgn b * (\<bar>a\<bar> div \<bar>b\<bar>)"

definition BLACKLIST_TIMEOUT :: "int \<Rightarrow> int" where
  "BLACKLIST_TIMEOUT ttl_start = RREQ_RETRIES * NET_TRAVERSAL_TIME
     + c_div (TTL_THRESHOLD - ttl_start) TTL_INCREMENT + 1 + RREQ_RETRIES"

section \<open>Timers\<close>

text \<open>
  The callbacks a timer can hold, one constructor per timeout function of the source, and
  \<open>struct timer\<close> with the members the source itself reads and writes.
\<close>

datatype handler =
    Route_expire_timeout | Rrep_ack_timeout | Hello_timeout | Local_repair_timeout
  | Route_delete_timeout | Hello_send | Rreq_record_timeout | Rreq_blacklist_timeout
  | Rerr_record_timeout | Route_discovery_timeout | Wait_on_reboot_timeout
  | Packet_queue_timeout

record timeval =
  tv_sec :: int
  tv_usec :: int

record timer =
  t_used :: bool
  t_timeout :: timeval
  t_handler :: "handler option"

definition zero_time :: timeval where
  "zero_time = \<lparr>tv_sec = 0, tv_usec = 0\<rparr>"

definition zero_timer :: timer where
  "zero_timer = \<lparr>t_used = False, t_timeout = zero_time, t_handler = None\<rparr>"

section \<open>Routing entries\<close>

text \<open>
  \<open>rt_table_t *\<close> is a pointer into a heap of entries; a null pointer is \<open>None\<close>. The list
  fields are Isabelle lists in list order; precursors are known by their address only.
\<close>

type_synonym rtp = nat

record rt_table =
  rt_dest_addr :: in_addr
  rt_dest_seqno :: u32
  rt_ifindex :: u32
  rt_next_hop :: in_addr
  rt_hcnt :: u8
  rt_flags :: u16
  rt_state :: u8
  rt_rt_timer :: timer
  rt_ack_timer :: timer
  rt_hello_timer :: timer
  rt_last_hello_time :: timeval
  rt_hello_cnt :: u8
  rt_hash :: u32
  rt_nprec :: int
  rt_precursors :: "in_addr list"
  rt_channel :: int
  rt_cost :: double

text \<open>\<open>memset(rt, 0, sizeof(rt_table_t))\<close>.\<close>

definition zero_rt :: rt_table where
  "zero_rt = \<lparr>rt_dest_addr = 0, rt_dest_seqno = 0, rt_ifindex = 0, rt_next_hop = 0,
     rt_hcnt = 0, rt_flags = 0, rt_state = 0, rt_rt_timer = zero_timer,
     rt_ack_timer = zero_timer, rt_hello_timer = zero_timer, rt_last_hello_time = zero_time,
     rt_hello_cnt = 0, rt_hash = 0, rt_nprec = 0, rt_precursors = [], rt_channel = 0,
     rt_cost = 0\<rparr>"

record routing_table =
  num_entries :: u32
  num_active :: u32
  tbl :: "rtp list list"

section \<open>Buffered records, black list, seek list\<close>

text \<open>
  The nodes of the three buffers carry their own address, by which a timer's argument names
  them. \<open>seek_list_t\<close> is declared outside the repository; its members are those the source
  uses.
\<close>

record rreq_record =
  rr_ptr :: nat
  rr_orig_addr :: in_addr
  rr_rreq_id :: u32
  rr_rec_timer :: timer
  rr_cost :: double

record blacklist =
  bl_ptr :: nat
  bl_dest_addr :: in_addr
  bl_timer :: timer

record rerr_record =
  er_ptr :: nat
  er_orig_addr :: in_addr
  er_rerr_id :: u32
  er_last_addr :: u32
  er_rec_timer :: timer

record seek_list_t =
  sk_ptr :: nat
  sk_dest_addr :: in_addr
  sk_dest_seqno :: u32
  sk_flags :: u8
  sk_reqs :: int
  sk_ttl :: int
  sk_seek_timer :: timer

section \<open>Packets of the simulator\<close>

datatype dir_t = DOWN | NONE | UP
datatype addr_type = NS_AF_NONE | NS_AF_ILINK | NS_AF_INET

definition RT_PORT :: int where [simp]: "RT_PORT = 255"

text \<open>The header fields of a packet that the agent uses; \<open>pk_aodv\<close> is its AODV-UU header.\<close>

record packet =
  pk_ptype :: nat
  pk_direction :: dir_t
  pk_size :: int
  pk_iface :: int
  pk_error :: int
  pk_prev_hop :: in_addr
  pk_next_hop :: in_addr
  pk_addr_type :: addr_type
  pk_num_forwards :: int
  pk_xmit_failure :: bool
  pk_saddr :: in_addr
  pk_daddr :: in_addr
  pk_sport :: int
  pk_dport :: int
  pk_ttl :: int
  pk_aodv :: bytes
  pk_channel :: u8

datatype drop_reason =
    DROP_UNSPECIFIED | DROP_RTR_NO_ROUTE | DROP_RTR_MAC_CALLBACK | DROP_RTR_TTL
  | DROP_RTR_ROUTE_LOOP | DROP_RTR_QFULL | DROP_RTR_QTIMEOUT | DROP_END_OF_SIMULATION

text \<open>What the agent does to the outside world, newest event first.\<close>

datatype event =
    Schedule nat packet double  \<comment> \<open>hand the packet to link layer \<open>lllist[i]\<close> after a delay\<close>
  | Drop packet drop_reason
  | Recv_up packet              \<comment> \<open>\<open>target_->recv\<close>\<close>
  | Ifq_drop_by_dest in_addr    \<comment> \<open>\<open>ifqueue->filter(ifqueue_filter_on_dest, ..)\<close>\<close>

record q_pkt =
  qp_dest_addr :: in_addr
  qp_q_time :: timeval
  qp_p :: packet

record packet_queue =
  pq_head :: "q_pkt list"
  pq_len :: u32
  pq_garbage_collect_timer :: timer

section \<open>The host\<close>

record neighbor_info =
  ni_ipaddr :: in_addr
  ni_neighbor_sta :: int
  ni_isValid :: int
  ni_channel_hello_self_received :: "int list"
  ni_channel_hello_remote_sent :: int
  ni_channel_hello_remote_received :: "int list"
  ni_channel_hello_sequence :: "int list list"
  ni_host_stability_sequence :: "int list"
  ni_channel_cost :: "double list"

record sta_info =
  st_neighbor_num :: int
  st_neighbor_change :: int
  st_ava_channel_num :: int
  st_best_channel_SNR :: double
  st_isStable :: int

record dev_info =
  dv_enabled :: bool
  dv_ifindex :: u32
  dv_ipaddr :: in_addr
  dv_netmask :: in_addr
  dv_broadcast :: in_addr

record host_info =
  hi_seqno :: u32
  hi_bcast_time :: timeval
  hi_fwd_time :: timeval
  hi_rreq_id :: u32
  hi_rerr_id :: u32
  hi_nif :: int
  hi_devs :: "dev_info list"
  hi_neighbors :: "neighbor_info list"
  hi_neighbor_num :: int
  hi_stability :: sta_info
  hi_hello_head :: int
  hi_hello_tail :: int
  hi_stability_sequence :: "int list"

text \<open>The variables bound to Tcl and the dynamic configuration values.\<close>

record config =
  unidir_hack :: bool
  rreq_gratuitous :: bool
  expanding_ring_search :: bool
  local_repair :: bool
  receive_n_hellos :: int
  hello_jittering :: bool
  optimized_hellos :: bool
  ratelimit :: bool
  llfeedback :: bool
  active_route_timeout :: int
  ttl_start :: int
  delete_period :: int

section \<open>The agent\<close>

text \<open>
  Members of class \<open>AODVUU\<close>. \<open>rerr_records\<close> is here the file-static list of \<open>aodv_rerr.c\<close>,
  which all agents of a simulation share. \<open>now\<close> is what \<open>gettimeofday\<close> returns, \<open>rng\<close> counts
  the random numbers drawn, \<open>mac_state\<close> and \<open>mac_snr\<close> are what \<open>maclist[i]\<close> answers,
  \<open>lllist\<close> says which link layers are connected.
\<close>

record aodv =
  this_host :: host_info
  dev_indices :: "u32 list"
  cfg :: config
  wait_on_reboot :: bool
  worb_timer :: timer
  rt_tbl :: routing_table
  rt_heap :: "rtp \<Rightarrow> rt_table option"
  rreq_records :: "rreq_record list"
  rreq_blacklist :: "blacklist list"
  rerr_records :: "rerr_record list"
  seekhead :: "seek_list_t list"
  recv_buf :: bytes
  send_buf :: bytes
  hello_timer :: timer
  num_rreq :: int
  num_rerr :: int
  rreq_ratel :: "timeval list"
  rerr_ratel :: "timeval list"
  PQ :: packet_queue
  channelNum :: int
  nIfaces :: nat
  lllist :: "bool list"
  ifqueue :: "packet list option"
  mac_state :: "int list"
  mac_snr :: "double list"
  initialized :: bool
  now :: timeval
  rng :: nat
  out :: "event list"

section \<open>Code outside the repository\<close>

text \<open>
  Parameters: \<open>timer_queue.c\<close> (\<open>x_timer_...\<close>, \<open>x_timeval_...\<close>), \<open>malloc\<close> (given which addresses
  are live), \<open>seek_list.c\<close>, \<open>aodv_neighbor.c\<close>, the simulator (packet allocation, the two
  queue filters, random numbers), the content of uninitialised variables (\<open>x_uninit\<close>) and the floating point
  unit. \<open>timer_init\<close>, \<open>timer_set_timeout\<close> and
  \<open>timer_remove\<close> act on the timer given; which used timer fires next is left to the
  environment.
\<close>

record ext =
  x_timer_init :: "handler \<Rightarrow> timer \<Rightarrow> timer"
  x_timer_set_timeout :: "timeval \<Rightarrow> int \<Rightarrow> timer \<Rightarrow> timer"
  x_timer_remove :: "timer \<Rightarrow> timer"
  x_timeval_diff :: "timeval \<Rightarrow> timeval \<Rightarrow> int"
  x_timeval_add_msec :: "timeval \<Rightarrow> int \<Rightarrow> timeval"
  x_malloc :: "(nat \<Rightarrow> bool) \<Rightarrow> nat option"
  x_seek_list_find :: "in_addr \<Rightarrow> seek_list_t list \<Rightarrow> nat option"
  x_seek_list_insert :: "in_addr \<Rightarrow> u32 \<Rightarrow> int \<Rightarrow> u8 \<Rightarrow> seek_list_t list \<Rightarrow> nat \<times> seek_list_t list"
  x_seek_list_remove :: "nat option \<Rightarrow> seek_list_t list \<Rightarrow> bool \<times> seek_list_t list"
  x_neighbor_add :: "in_addr \<Rightarrow> u32 \<Rightarrow> aodv \<Rightarrow> aodv option"
  x_neighbor_link_break :: "rtp \<Rightarrow> aodv \<Rightarrow> aodv option"
  x_allocpkt :: packet
  x_IP_HDR_LEN :: int
  x_IP_BROADCAST :: in_addr
  x_ifq_filter :: "in_addr \<Rightarrow> packet list \<Rightarrow> (packet \<times> packet list) option"
  x_ifq_filter_by :: "(packet \<Rightarrow> bool) \<Rightarrow> packet list \<Rightarrow> packet list"
  x_uniform :: "nat \<Rightarrow> double"
  x_jitter :: "nat \<Rightarrow> int"
  x_uninit :: u64
  x_fp :: fp

end
