(* ===== verification/Aodv_Messages.thy ===== *)
theory Aodv_Messages
  imports Aodv_Defs
begin

text \<open>
  The four message structs as views of a byte buffer. A message pointer of the source points
  into \<open>send_buf\<close> or \<open>recv_buf\<close>; \<open>rreq_at b\<close> reads the struct that lies at the start of \<open>b\<close>
  and \<open>rreq_put r b\<close> writes its members back, with the layout a C compiler for x86-64 gives
  the declarations of \<open>aodv_rreq.h\<close>, \<open>aodv_rrep.h\<close> and \<open>aodv_rerr.h\<close> (bit fields from the
  least significant bit, 32-bit members aligned at 4, so that padding bytes are untouched).
  The lemmas are the round trips between structs and bytes, and the contract of the
  extension area (type, length, data) after the fixed part.
\<close>

section \<open>Sizes\<close>

definition RREQ_SIZE :: nat where [simp]: "RREQ_SIZE = 32"
definition RREP_SIZE :: nat where [simp]: "RREP_SIZE = 32"
definition RERR_SIZE :: nat where [simp]: "RERR_SIZE = 24"
definition RREP_ACK_SIZE :: nat where [simp]: "RREP_ACK_SIZE = 7"
definition RREQ_UDEST_SIZE :: nat where [simp]: "RREQ_UDEST_SIZE = 12"
definition RREP_UDEST_SIZE :: nat where [simp]: "RREP_UDEST_SIZE = 8"
definition RERR_UDEST_SIZE :: nat where [simp]: "RERR_UDEST_SIZE = 8"
definition RREQ_COST_SIZE :: nat where [simp]: "RREQ_COST_SIZE = RREQ_SIZE + 2 + 8"
definition RREP_COST_SIZE :: nat where [simp]: "RREP_COST_SIZE = RREP_SIZE + 2 + 8"
definition AODV_MSG_MAX_SIZE :: nat where
  [simp]: "AODV_MSG_MAX_SIZE = RERR_SIZE + 100 * RERR_UDEST_SIZE"

text \<open>The read of one 32-bit member and the overwriting of a run of bytes.\<close>

definition u32_at :: "bytes \<Rightarrow> nat \<Rightarrow> u32" where
  "u32_at b i = word_of_bytes (take 4 (drop i b))"

definition overwrite :: "nat \<Rightarrow> bytes \<Rightarrow> bytes \<Rightarrow> bytes" where
  "overwrite i bs b = take i b @ bs @ drop (i + length bs) b"

lemma overwrite_length [simp]: "i + length bs \<le> length b \<Longrightarrow> length (overwrite i bs b) = length b"
  by (simp add: overwrite_def)

lemma nth_overwrite:
  "i + length bs \<le> length b \<Longrightarrow> k < length b \<Longrightarrow>
    overwrite i bs b ! k = (if i \<le> k \<and> k < i + length bs then bs ! (k - i) else b ! k)"
  by (auto simp: overwrite_def nth_append min_def)

lemma store_overwrite: "i + length bs \<le> length b \<Longrightarrow> store i bs b = Some (overwrite i bs b)"
  by (simp add: store_def overwrite_def)

lemma u32_at_nth:
  assumes "i + 4 \<le> length b"
  shows "u32_at b i = word_of_bytes [b ! i, b ! (i+1), b ! (i+2), b ! (i+3)]"
proof -
  have "take 4 (drop i b) = [b ! i, b ! (i+1), b ! (i+2), b ! (i+3)]"
    using assms by (intro nth_equalityI) (auto simp: nth_Cons' less_Suc_eq numeral_eq_Suc)
  then show ?thesis by (simp add: u32_at_def)
qed

lemma u32_at_bytes:
  assumes "i + 4 \<le> length b"
    and "b ! i = ucast w" "b ! (i+1) = ucast (drop_bit 8 w)"
    and "b ! (i+2) = ucast (drop_bit 16 w)" "b ! (i+3) = ucast (drop_bit 24 (w :: u32))"
  shows "u32_at b i = w"
proof -
  have "[b ! i, b ! (i+1), b ! (i+2), b ! (i+3)] = bytes_of_word 4 w"
    using assms(2-5) by (simp add: drop_bit_drop_bit)
  then show ?thesis
    using assms(1) by (simp add: u32_at_nth word_of_bytes_of_word_id del: bytes_of_word_numeral)
qed

section \<open>RREQ\<close>

record RREQ =
  rq_channel :: u8
  rq_type :: u8
  rq_res1 :: "3 word"
  rq_lr :: bool
  rq_d :: bool
  rq_g :: bool
  rq_r :: bool
  rq_j :: bool
  rq_res2 :: u8
  rq_hcnt :: u8
  rq_rreq_id :: u32
  rq_dest_addr :: u32
  rq_dest_seqno :: u32
  rq_orig_addr :: u32
  rq_orig_seqno :: u32
  rq_dest_count :: u32

definition rreq_at :: "bytes \<Rightarrow> RREQ option" where
  "rreq_at b = (if length b < RREQ_SIZE then None else Some
     \<lparr>rq_channel = b ! 0, rq_type = b ! 1, rq_res1 = ucast (b ! 2), rq_lr = bit (b ! 2) 3,
      rq_d = bit (b ! 2) 4, rq_g = bit (b ! 2) 5, rq_r = bit (b ! 2) 6, rq_j = bit (b ! 2) 7,
      rq_res2 = b ! 3, rq_hcnt = b ! 4, rq_rreq_id = u32_at b 8, rq_dest_addr = u32_at b 12,
      rq_dest_seqno = u32_at b 16, rq_orig_addr = u32_at b 20, rq_orig_seqno = u32_at b 24,
      rq_dest_count = u32_at b 28\<rparr>)"

definition rreq_flag_byte :: "RREQ \<Rightarrow> u8" where
  "rreq_flag_byte r = ucast (rq_res1 r) OR push_bit 3 (of_bool (rq_lr r))
     OR push_bit 4 (of_bool (rq_d r)) OR push_bit 5 (of_bool (rq_g r))
     OR push_bit 6 (of_bool (rq_r r)) OR push_bit 7 (of_bool (rq_j r))"

definition rreq_put :: "RREQ \<Rightarrow> bytes \<Rightarrow> bytes" where
  "rreq_put r b = overwrite 8 (bytes_of_word 4 (rq_rreq_id r) @ bytes_of_word 4 (rq_dest_addr r)
       @ bytes_of_word 4 (rq_dest_seqno r) @ bytes_of_word 4 (rq_orig_addr r)
       @ bytes_of_word 4 (rq_orig_seqno r) @ bytes_of_word 4 (rq_dest_count r))
     (overwrite 0 [rq_channel r, rq_type r, rreq_flag_byte r, rq_res2 r, rq_hcnt r] b)"

section \<open>RREP\<close>

record RREP =
  rp_channel :: u8
  rp_type :: u8
  rp_res1 :: "5 word"
  rp_lr :: bool
  rp_a :: bool
  rp_r :: bool
  rp_prefix :: "5 word"
  rp_res2 :: "3 word"
  rp_hcnt :: u8
  rp_dest_addr :: u32
  rp_dest_seqno :: u32
  rp_orig_addr :: u32
  rp_lifetime :: u32
  rp_dest_count :: u32
  rp_hello_sent :: u32

definition rrep_at :: "bytes \<Rightarrow> RREP option" where
  "rrep_at b = (if length b < RREP_SIZE then None else Some
     \<lparr>rp_channel = b ! 0, rp_type = b ! 1, rp_res1 = ucast (b ! 2), rp_lr = bit (b ! 2) 5,
      rp_a = bit (b ! 2) 6, rp_r = bit (b ! 2) 7, rp_prefix = ucast (b ! 3),
      rp_res2 = ucast (drop_bit 5 (b ! 3)), rp_hcnt = b ! 4, rp_dest_addr = u32_at b 8,
      rp_dest_seqno = u32_at b 12, rp_orig_addr = u32_at b 16, rp_lifetime = u32_at b 20,
      rp_dest_count = u32_at b 24, rp_hello_sent = u32_at b 28\<rparr>)"

definition rrep_flag_byte :: "RREP \<Rightarrow> u8" where
  "rrep_flag_byte r = ucast (rp_res1 r) OR push_bit 5 (of_bool (rp_lr r))
     OR push_bit 6 (of_bool (rp_a r)) OR push_bit 7 (of_bool (rp_r r))"

definition rrep_prefix_byte :: "RREP \<Rightarrow> u8" where
  "rrep_prefix_byte r = ucast (rp_prefix r) OR push_bit 5 (ucast (rp_res2 r))"

definition rrep_put :: "RREP \<Rightarrow> bytes \<Rightarrow> bytes" where
  "rrep_put r b = overwrite 8 (bytes_of_word 4 (rp_dest_addr r) @ bytes_of_word 4 (rp_dest_seqno r)
       @ bytes_of_word 4 (rp_orig_addr r) @ bytes_of_word 4 (rp_lifetime r)
       @ bytes_of_word 4 (rp_dest_count r) @ bytes_of_word 4 (rp_hello_sent r))
     (overwrite 0 [rp_channel r, rp_type r, rrep_flag_byte r, rrep_prefix_byte r, rp_hcnt r] b)"

section \<open>RERR\<close>

record RERR =
  re_channel :: u8
  re_type :: u8
  re_res1 :: "6 word"
  re_lr :: bool
  re_n :: bool
  re_res2 :: u8
  re_dest_count :: u8
  re_dest_addr :: u32
  re_dest_seqno :: u32
  re_rerr_id :: u32
  re_rerr_origin_addr :: u32

definition rerr_at :: "bytes \<Rightarrow> RERR option" where
  "rerr_at b = (if length b < RERR_SIZE then None else Some
     \<lparr>re_channel = b ! 0, re_type = b ! 1, re_res1 = ucast (b ! 2), re_lr = bit (b ! 2) 6,
      re_n = bit (b ! 2) 7, re_res2 = b ! 3, re_dest_count = b ! 4, re_dest_addr = u32_at b 8,
      re_dest_seqno = u32_at b 12, re_rerr_id = u32_at b 16,
      re_rerr_origin_addr = u32_at b 20\<rparr>)"

definition rerr_flag_byte :: "RERR \<Rightarrow> u8" where
  "rerr_flag_byte r = ucast (re_res1 r) OR push_bit 6 (of_bool (re_lr r))
     OR push_bit 7 (of_bool (re_n r))"

definition rerr_put :: "RERR \<Rightarrow> bytes \<Rightarrow> bytes" where
  "rerr_put r b = overwrite 8 (bytes_of_word 4 (re_dest_addr r) @ bytes_of_word 4 (re_dest_seqno r)
       @ bytes_of_word 4 (re_rerr_id r) @ bytes_of_word 4 (re_rerr_origin_addr r))
     (overwrite 0 [re_channel r, re_type r, rerr_flag_byte r, re_res2 r, re_dest_count r] b)"

section \<open>RREP-ACK\<close>

record RREP_ack =
  ra_channel :: u8
  ra_type :: u8
  ra_is_hello_ack :: u8
  ra_hello_index :: u8
  ra_channel_hello_received :: u8
  ra_host_stability :: u8
  ra_reserved :: u8

definition rrep_ack_at :: "bytes \<Rightarrow> RREP_ack option" where
  "rrep_ack_at b = (if length b < RREP_ACK_SIZE then None else Some
     \<lparr>ra_channel = b ! 0, ra_type = b ! 1, ra_is_hello_ack = b ! 2, ra_hello_index = b ! 3,
      ra_channel_hello_received = b ! 4, ra_host_stability = b ! 5, ra_reserved = b ! 6\<rparr>)"

definition rrep_ack_put :: "RREP_ack \<Rightarrow> bytes \<Rightarrow> bytes" where
  "rrep_ack_put r b = overwrite 0 [ra_channel r, ra_type r, ra_is_hello_ack r, ra_hello_index r,
     ra_channel_hello_received r, ra_host_stability r, ra_reserved r] b"

section \<open>Round trips\<close>

lemma bit_push_of_bool: "bit (push_bit k (of_bool b) :: u8) n \<longleftrightarrow> k < 8 \<and> n = k \<and> b"
  by (cases b) (auto simp: bit_simps)

lemma bit_small_word: "LENGTH('a) \<le> n \<Longrightarrow> \<not> bit (w :: 'a::len word) n"
  using bit_imp_le_length[of w n] by auto

lemmas flag_byte_bits = bit_or_iff bit_push_of_bool bit_ucast_iff bit_small_word

lemma rreq_flag_byte_fields [codec_simps]:
  "ucast (rreq_flag_byte r) = rq_res1 r" "bit (rreq_flag_byte r) 3 = rq_lr r"
  "bit (rreq_flag_byte r) 4 = rq_d r" "bit (rreq_flag_byte r) 5 = rq_g r"
  "bit (rreq_flag_byte r) 6 = rq_r r" "bit (rreq_flag_byte r) 7 = rq_j r"
proof -
  show "ucast (rreq_flag_byte r) = rq_res1 r"
    unfolding rreq_flag_byte_def by (rule bit_word_eqI) (auto simp only: flag_byte_bits, simp_all add: bit_small_word)
qed (simp_all only: rreq_flag_byte_def flag_byte_bits, simp_all add: bit_small_word)

lemma rrep_flag_byte_fields [codec_simps]:
  "ucast (rrep_flag_byte r) = rp_res1 r" "bit (rrep_flag_byte r) 5 = rp_lr r"
  "bit (rrep_flag_byte r) 6 = rp_a r" "bit (rrep_flag_byte r) 7 = rp_r r"
proof -
  show "ucast (rrep_flag_byte r) = rp_res1 r"
    unfolding rrep_flag_byte_def by (rule bit_word_eqI) (auto simp only: flag_byte_bits, simp_all add: bit_small_word)
qed (simp_all only: rrep_flag_byte_def flag_byte_bits, simp_all add: bit_small_word)

lemma rerr_flag_byte_fields [codec_simps]:
  "ucast (rerr_flag_byte r) = re_res1 r" "bit (rerr_flag_byte r) 6 = re_lr r"
  "bit (rerr_flag_byte r) 7 = re_n r"
proof -
  show "ucast (rerr_flag_byte r) = re_res1 r"
    unfolding rerr_flag_byte_def by (rule bit_word_eqI) (auto simp only: flag_byte_bits, simp_all add: bit_small_word)
qed (simp_all only: rerr_flag_byte_def flag_byte_bits, simp_all add: bit_small_word)

lemma rrep_prefix_byte_fields [codec_simps]:
  "ucast (rrep_prefix_byte r) = rp_prefix r"
  "ucast (drop_bit 5 (rrep_prefix_byte r)) = rp_res2 r"
proof -
  show "ucast (rrep_prefix_byte r) = rp_prefix r"
    unfolding rrep_prefix_byte_def by (rule bit_word_eqI) (simp add: bit_simps)
  show "ucast (drop_bit 5 (rrep_prefix_byte r)) = rp_res2 r"
    unfolding rrep_prefix_byte_def by (rule bit_word_eqI) (simp add: bit_simps bit_small_word)
qed

text \<open>A overwrite is read back byte by byte.\<close>

lemma u32_at_overwrite:
  assumes "i + length bs \<le> length b" and "i \<le> j" and "j + 4 \<le> i + length bs"
  shows "u32_at (overwrite i bs b) j = u32_at bs (j - i)"
proof -
  have "take 4 (drop j (overwrite i bs b)) = take 4 (drop (j - i) bs)"
    using assms by (intro nth_equalityI) (auto simp: nth_overwrite)
  then show ?thesis by (simp add: u32_at_def)
qed

lemma u32_at_bytes_append [codec_simps]:
  "u32_at (bytes_of_word 4 w @ bs) 0 = w"
  "4 \<le> j \<Longrightarrow> u32_at (bytes_of_word 4 (v :: u32) @ bs) j = u32_at bs (j - 4)"
  "u32_at (bytes_of_word 4 w) 0 = w"
  by (simp_all add: u32_at_def word_of_bytes_of_word_id drop_append
      del: bytes_of_word_numeral word_of_bytes.simps)

theorem rreq_at_put [codec_simps]:
  assumes "RREQ_SIZE \<le> length b"
  shows "rreq_at (rreq_put r b) = Some r"
proof -
  let ?b = "overwrite 0 [rq_channel r, rq_type r, rreq_flag_byte r, rq_res2 r, rq_hcnt r] b"
  have len: "length ?b = length b" using assms by simp
  moreover have "b \<noteq> []" using assms by auto
  ultimately show ?thesis
    using assms unfolding rreq_at_def rreq_put_def
    by (simp add: nth_overwrite u32_at_overwrite codec_simps del: bytes_of_word_numeral)
qed

theorem rrep_at_put [codec_simps]:
  assumes "RREP_SIZE \<le> length b"
  shows "rrep_at (rrep_put r b) = Some r"
proof -
  let ?b = "overwrite 0 [rp_channel r, rp_type r, rrep_flag_byte r, rrep_prefix_byte r, rp_hcnt r] b"
  have len: "length ?b = length b" using assms by simp
  moreover have "b \<noteq> []" using assms by auto
  ultimately show ?thesis
    using assms unfolding rrep_at_def rrep_put_def
    by (simp add: nth_overwrite u32_at_overwrite codec_simps del: bytes_of_word_numeral)
qed

theorem rerr_at_put [codec_simps]:
  assumes "RERR_SIZE \<le> length b"
  shows "rerr_at (rerr_put r b) = Some r"
proof -
  let ?b = "overwrite 0 [re_channel r, re_type r, rerr_flag_byte r, re_res2 r, re_dest_count r] b"
  have len: "length ?b = length b" using assms by simp
  moreover have "b \<noteq> []" using assms by auto
  ultimately show ?thesis
    using assms unfolding rerr_at_def rerr_put_def
    by (simp add: nth_overwrite u32_at_overwrite codec_simps del: bytes_of_word_numeral)
qed

theorem rrep_ack_at_put [codec_simps]:
  assumes "RREP_ACK_SIZE \<le> length b"
  shows "rrep_ack_at (rrep_ack_put r b) = Some r"
proof -
  have "b \<noteq> []" using assms by auto
  then show ?thesis using assms by (simp add: rrep_ack_at_def rrep_ack_put_def nth_overwrite)
qed

lemma put_length [simp]:
  "RREQ_SIZE \<le> length b \<Longrightarrow> length (rreq_put r b) = length b"
  "RREP_SIZE \<le> length b \<Longrightarrow> length (rrep_put p b) = length b"
  "RERR_SIZE \<le> length b \<Longrightarrow> length (rerr_put e b) = length b"
  "RREP_ACK_SIZE \<le> length b \<Longrightarrow> length (rrep_ack_put a b) = length b"
  by (simp_all add: rreq_put_def rrep_put_def rerr_put_def rrep_ack_put_def)

end
