(* ===== verification/Aodv_Socket.thy ===== *)
theory Aodv_Socket
  imports Aodv_Messages
begin

text \<open>
  Sending: \<open>aodv_socket.c\<close> (message buffer, rate limiting, \<open>aodv_socket_send\<close>) and
  \<open>sendPacket\<close> of \<open>ns-2/aodv-uu.cc\<close>, with the device lookup macros of \<open>defs.h\<close>. The
  lemmas: the rate limiter as a contract shared by RREQ and RERR (locale \<open>rate_limiter\<close>),
  and the frame of sending (it leaves the routing table, buffers and message buffers alone).
\<close>

section \<open>Devices\<close>

fun dev_search :: "u32 list \<Rightarrow> int \<Rightarrow> int \<Rightarrow> u32 \<Rightarrow> int option" where
  "dev_search [] i nif ifindex = (if i < nif then None else Some (-1))"
| "dev_search (d # ds) i nif ifindex =
     (if i < nif then if d = ifindex then Some i else dev_search ds (i + 1) nif ifindex
      else Some (-1))"

definition ifindex2devindex :: "u32 \<Rightarrow> aodv \<Rightarrow> int option" where
  "ifindex2devindex ifindex s = dev_search (dev_indices s) 0 (hi_nif (this_host s)) ifindex"

definition DEV_IFINDEX :: "u32 \<Rightarrow> aodv \<Rightarrow> dev_info option" where
  "DEV_IFINDEX ifindex s = do {
     i \<leftarrow> ifindex2devindex ifindex s;
     arr_get (hi_devs (this_host s)) i
   }"

definition DEV_NR :: "nat \<Rightarrow> aodv \<Rightarrow> dev_info option" where
  "DEV_NR n s = arr_get (hi_devs (this_host s)) (int n)"

text \<open>
  The devices over which \<open>for (i = 0; i < MAX_NR_INTERFACES; i++) if (!DEV_NR(i).enabled)
  continue; ...\<close> runs its body; no body changes the device array.
\<close>

definition enabled_devs :: "aodv \<Rightarrow> dev_info list" where
  "enabled_devs s = filter dv_enabled (take MAX_NR_INTERFACES (hi_devs (this_host s)))"

section \<open>Message buffers\<close>

definition aodv_socket_init :: "aodv \<Rightarrow> aodv" where
  "aodv_socket_init s = s\<lparr>num_rreq := 0, num_rerr := 0\<rparr>"

definition aodv_socket_new_msg :: "aodv \<Rightarrow> aodv" where
  "aodv_socket_new_msg s = s\<lparr>send_buf := replicate AODV_MSG_MAX_SIZE 0\<rparr>"

definition aodv_socket_queue_msg :: "bytes \<Rightarrow> int \<Rightarrow> aodv \<Rightarrow> aodv option" where
  "aodv_socket_queue_msg aodv_msg len s =
     (if len < 0 then None else do {
        bs \<leftarrow> load (nat len) 0 aodv_msg;
        sb \<leftarrow> store 0 bs (send_buf s);
        Some (s\<lparr>send_buf := sb\<rparr>)
      })"

section \<open>\<open>sendPacket\<close>\<close>

definition schedule :: "int \<Rightarrow> packet \<Rightarrow> double \<Rightarrow> aodv \<Rightarrow> aodv option" where
  "schedule i p delay s = do {
     connected \<leftarrow> arr_get (lllist s) i;
     if connected then Some (s\<lparr>out := Schedule (nat i) p delay # out s\<rparr>) else None
   }"

definition drop_pkt :: "packet \<Rightarrow> drop_reason \<Rightarrow> aodv \<Rightarrow> aodv" where
  "drop_pkt p why s = s\<lparr>out := Drop p why # out s\<rparr>"

definition sendPacket_out :: "ext \<Rightarrow> packet \<Rightarrow> in_addr \<Rightarrow> double \<Rightarrow> aodv \<Rightarrow> aodv option" where
  "sendPacket_out E p next_hop delay s = do {
     dev \<leftarrow> DEV_NR 0 s;
     if pk_daddr p = AODV_BROADCAST then
       (let p = p\<lparr>pk_next_hop := 0, pk_prev_hop := dv_ipaddr dev, pk_addr_type := NS_AF_NONE\<rparr>;
            jitter = fp_mul (x_fp E) 0x3F947AE147AE147B (x_uniform E (rng s));
            s = s\<lparr>rng := Suc (rng s)\<rparr>
        in for_each [0..<nIfaces s]
             (\<lambda>i. schedule (int i) (p\<lparr>pk_channel := of_nat i\<rparr>) jitter) s)
     else
       (let p = p\<lparr>pk_next_hop := next_hop, pk_prev_hop := dv_ipaddr dev,
                  pk_addr_type := NS_AF_INET,
                  pk_xmit_failure := llfeedback (cfg s) \<or> pk_xmit_failure p\<rparr>
        in schedule (channelNum s) (p\<lparr>pk_channel := word_of_int (channelNum s)\<rparr>) delay s)
   }"

definition sendPacket :: "ext \<Rightarrow> packet \<Rightarrow> in_addr \<Rightarrow> double \<Rightarrow> aodv \<Rightarrow> aodv option" where
  "sendPacket E p next_hop delay s = do {
     dev \<leftarrow> DEV_IFINDEX NS_IFINDEX s;
     if pk_direction p = UP \<and> pk_saddr p \<noteq> dv_ipaddr dev then
       (let p = p\<lparr>pk_ttl := pk_ttl p - 1\<rparr>
        in if pk_ttl p < 1 then Some (drop_pkt p DROP_RTR_TTL s)
           else sendPacket_out E (p\<lparr>pk_direction := DOWN\<rparr>) next_hop delay s)
     else if pk_direction p = DOWN \<and> pk_saddr p = dv_ipaddr dev then
       sendPacket_out E p next_hop delay s
     else Some (drop_pkt p DROP_UNSPECIFIED s)
   }"

section \<open>Rate limiting\<close>

text \<open>
  The two blocks for RREQ and RERR differ in the counter and the array only.
  \<open>Some None\<close> is the \<open>return\<close> that drops the message.
\<close>

definition ratelimit_check ::
  "ext \<Rightarrow> int \<Rightarrow> timeval \<Rightarrow> int \<Rightarrow> timeval list \<Rightarrow> (int \<times> timeval list) option option" where
  "ratelimit_check E limit t num ratel =
     (if num = limit - 1 then do {
        oldest \<leftarrow> arr_get ratel 0;
        if x_timeval_diff E t oldest < 1000 then Some None
        else do {
          ratel \<leftarrow> arr_set (take (nat (num - 1)) (drop 1 ratel) @ drop (nat (num - 1)) ratel) (num - 1) t;
          Some (Some (num, ratel))
        }
      } else do {
        ratel \<leftarrow> arr_set ratel num t;
        Some (Some (num + 1, ratel))
      })"

section \<open>\<open>aodv_socket_send\<close>\<close>

definition aodv_packet ::
  "ext \<Rightarrow> bytes \<Rightarrow> in_addr \<Rightarrow> nat \<Rightarrow> u8 \<Rightarrow> dev_info \<Rightarrow> packet option" where
  "aodv_packet E aodv_msg dst len ttl dev = do {
     bs \<leftarrow> load len 0 aodv_msg;
     ah \<leftarrow> store 0 bs (replicate AODV_MSG_MAX_SIZE 0);
     Some ((x_allocpkt E)\<lparr>pk_aodv := ah, pk_ptype := PT_AODVUU, pk_direction := DOWN,
        pk_size := pk_size (x_allocpkt E) + int len + x_IP_HDR_LEN E, pk_iface := -2,
        pk_error := 0, pk_prev_hop := dv_ipaddr dev, pk_saddr := dv_ipaddr dev,
        pk_daddr := dst, pk_ttl := uint ttl, pk_sport := RT_PORT, pk_dport := RT_PORT\<rparr>)
   }"

definition aodv_socket_send_out :: "ext \<Rightarrow> packet \<Rightarrow> in_addr \<Rightarrow> aodv \<Rightarrow> aodv option" where
  "aodv_socket_send_out E p dst s =
     (if dst = AODV_BROADCAST then
        sendPacket E (p\<lparr>pk_addr_type := NS_AF_NONE\<rparr>) dst 0
          (s\<lparr>this_host := (this_host s)\<lparr>hi_bcast_time := now s\<rparr>\<rparr>)
      else sendPacket E (p\<lparr>pk_addr_type := NS_AF_INET\<rparr>) dst 0 s)"

definition aodv_socket_send ::
  "ext \<Rightarrow> bytes \<Rightarrow> in_addr \<Rightarrow> int \<Rightarrow> u8 \<Rightarrow> dev_info \<Rightarrow> aodv \<Rightarrow> aodv option" where
  "aodv_socket_send E aodv_msg dst len ttl dev s = do {
     type \<leftarrow> arr_get aodv_msg 1;
     if wait_on_reboot s \<and> type = AODV_RREP then Some s
     else if len < 0 then None
     else do {
       p \<leftarrow> aodv_packet E aodv_msg dst (nat len) ttl dev;
       if ratelimit (cfg s) \<and> type = AODV_RREQ then do {
         r \<leftarrow> ratelimit_check E RREQ_RATELIMIT (now s) (num_rreq s) (rreq_ratel s);
         case r of None \<Rightarrow> Some s
         | Some (n, rl) \<Rightarrow> aodv_socket_send_out E p dst (s\<lparr>num_rreq := n, rreq_ratel := rl\<rparr>)
       }
       else if ratelimit (cfg s) \<and> type = AODV_RERR then do {
         r \<leftarrow> ratelimit_check E RERR_RATELIMIT (now s) (num_rerr s) (rerr_ratel s);
         case r of None \<Rightarrow> Some s
         | Some (n, rl) \<Rightarrow> aodv_socket_send_out E p dst (s\<lparr>num_rerr := n, rerr_ratel := rl\<rparr>)
       }
       else aodv_socket_send_out E p dst s
     }
   }"

section \<open>Frame\<close>

text \<open>
  What sending may change: the time of the last broadcast, the rate limiter, the count of
  random numbers and the output. \<open>sent_from s t\<close> says that nothing else changed.
\<close>

definition erase_sending :: "aodv \<Rightarrow> aodv" where
  "erase_sending s = s\<lparr>this_host := (this_host s)\<lparr>hi_bcast_time := zero_time\<rparr>, num_rreq := 0,
     rreq_ratel := [], num_rerr := 0, rerr_ratel := [], rng := 0, out := []\<rparr>"

definition sent_from :: "aodv \<Rightarrow> aodv \<Rightarrow> bool" where
  "sent_from s t \<longleftrightarrow> erase_sending t = erase_sending s"

lemma sent_from_refl [simp]: "sent_from s s"
  by (simp add: sent_from_def)

lemma sent_from_trans: "sent_from s t \<Longrightarrow> sent_from t u \<Longrightarrow> sent_from s u"
  by (simp add: sent_from_def)

lemma sent_from_update [simp]:
  "sent_from s (t\<lparr>out := e\<rparr>) = sent_from s t" "sent_from s (t\<lparr>rng := n\<rparr>) = sent_from s t"
  "sent_from (s\<lparr>rng := n\<rparr>) t = sent_from s t"
  "sent_from (s\<lparr>num_rreq := k\<rparr>) t = sent_from s t"
  "sent_from (s\<lparr>rreq_ratel := l\<rparr>) t = sent_from s t"
  "sent_from (s\<lparr>num_rerr := k\<rparr>) t = sent_from s t"
  "sent_from (s\<lparr>rerr_ratel := l\<rparr>) t = sent_from s t"
  "sent_from (s\<lparr>this_host := (this_host s)\<lparr>hi_bcast_time := b\<rparr>\<rparr>) t = sent_from s t"
  by (simp_all add: sent_from_def erase_sending_def)

lemma sent_from_fields:
  assumes "sent_from s t"
  shows "rt_tbl t = rt_tbl s" "rt_heap t = rt_heap s" "send_buf t = send_buf s"
    "recv_buf t = recv_buf s" "rreq_records t = rreq_records s"
    "rreq_blacklist t = rreq_blacklist s" "rerr_records t = rerr_records s"
    "seekhead t = seekhead s" "cfg t = cfg s" "now t = now s" "PQ t = PQ s"
    "hi_seqno (this_host t) = hi_seqno (this_host s)"
    "hi_rreq_id (this_host t) = hi_rreq_id (this_host s)"
    "hi_devs (this_host t) = hi_devs (this_host s)" "dev_indices t = dev_indices s"
    "hi_nif (this_host t) = hi_nif (this_host s)" "channelNum t = channelNum s"
    "nIfaces t = nIfaces s" "lllist t = lllist s"
    "wait_on_reboot t = wait_on_reboot s" "hello_timer t = hello_timer s"
  using assms unfolding sent_from_def erase_sending_def
  by (cases s, cases t, cases "this_host s", cases "this_host t", simp)+

lemma schedule_sent: "schedule i p d s = Some t \<Longrightarrow> sent_from s t"
  by (auto simp: schedule_def split: if_splits)

lemma drop_pkt_sent [simp]: "sent_from s (drop_pkt p why s)"
  by (simp add: drop_pkt_def)

text \<open>A whole loop of sends.\<close>

lemma for_each_sent:
  assumes "for_each xs f s = Some t"
    and "\<And>x s t. f x s = Some t \<Longrightarrow> sent_from s t"
  shows "sent_from s t"
  by (rule for_each_inv[OF assms(1)]) (auto intro: sent_from_trans assms(2))

lemma sendPacket_out_sent: "sendPacket_out E p nh d s = Some t \<Longrightarrow> sent_from s t"
  unfolding sendPacket_out_def
  by (auto simp: Let_def split: if_splits dest: schedule_sent for_each_sent[OF _ schedule_sent])

lemma sendPacket_sent: "sendPacket E p nh d s = Some t \<Longrightarrow> sent_from s t"
  unfolding sendPacket_def
  by (auto simp: Let_def split: if_splits intro: sendPacket_out_sent)

lemma aodv_socket_send_out_sent: "aodv_socket_send_out E p dst s = Some t \<Longrightarrow> sent_from s t"
  unfolding aodv_socket_send_out_def by (auto split: if_splits dest: sendPacket_sent)

lemma aodv_socket_send_sent:
  "aodv_socket_send E m dst len ttl dev s = Some t \<Longrightarrow> sent_from s t"
  unfolding aodv_socket_send_def
  by (auto split: if_splits option.splits dest!: aodv_socket_send_out_sent)

section \<open>The rate limiter\<close>

text \<open>
  The contract of a sliding-window limiter: \<open>check t l\<close> at time \<open>t\<close> refuses exactly when the
  window holds \<open>cap\<close> entries and the oldest is less than a second old, and otherwise enters
  \<open>t\<close> into the window, pushing the oldest out if it is full.
\<close>

locale rate_limiter =
  fixes check :: "timeval \<Rightarrow> 'l \<Rightarrow> 'l option option"
    and window :: "'l \<Rightarrow> timeval list"
    and ok :: "'l \<Rightarrow> bool"
    and cap :: nat
    and diff :: "timeval \<Rightarrow> timeval \<Rightarrow> int"
  assumes cap_pos: "0 < cap"
    and window_le: "ok l \<Longrightarrow> length (window l) \<le> cap"
    and total: "ok l \<Longrightarrow> check t l \<noteq> None"
    and refuse_iff: "ok l \<Longrightarrow> check t l = Some None \<longleftrightarrow>
      length (window l) = cap \<and> diff t (hd (window l)) < 1000"
    and admit: "ok l \<Longrightarrow> check t l = Some (Some l') \<Longrightarrow>
      ok l' \<and> window l' = (if length (window l) = cap then tl (window l) else window l) @ [t]"
begin

fun admitted :: "timeval list \<Rightarrow> 'l \<Rightarrow> timeval list" where
  "admitted [] l = []"
| "admitted (t # ts) l = (case check t l of
     Some (Some l') \<Rightarrow> t # admitted ts l' | _ \<Rightarrow> admitted ts l)"

lemma admitted_spaced:
  assumes "ok l" and "i + cap < length (window l @ admitted ts l)"
  shows "1000 \<le> diff ((window l @ admitted ts l) ! (i + cap)) ((window l @ admitted ts l) ! i)"
  using assms
proof (induction ts arbitrary: l i)
  case Nil
  then show ?case using window_le[of l] by simp
next
  case (Cons t ts)
  show ?case
  proof (cases "check t l")
    case None
    then show ?thesis using total Cons.prems(1) by blast
  next
    case (Some r)
    show ?thesis
    proof (cases r)
      case None
      then show ?thesis using Some Cons by simp
    next
      case (Some l')
      with \<open>check t l = Some r\<close> have chk: "check t l = Some (Some l')" by simp
      note ad = admit[OF Cons.prems(1) chk]
      let ?w = "window l" and ?a = "admitted ts l'"
      show ?thesis
      proof (cases "length ?w = cap")
        case True
        then obtain x xs where w: "?w = x # xs" using cap_pos by (cases ?w) auto
        have win: "window l' = xs @ [t]" using ad w True by simp
        have le: "1000 \<le> diff t x" using refuse_iff[OF Cons.prems(1), of t] chk True w by auto
        have all: "?w @ admitted (t # ts) l = x # (window l' @ ?a)" using chk w win by simp
        show ?thesis
        proof (cases i)
          case 0
          have "(x # (window l' @ ?a)) ! cap = t" using w True win by (simp add: nth_append)
          then show ?thesis using all le 0 by simp
        next
          case (Suc k)
          then show ?thesis using all Cons.IH[of l' k] ad Cons.prems(2) by simp
        qed
      next
        case False
        then have "?w @ admitted (t # ts) l = window l' @ ?a" using ad chk by simp
        then show ?thesis using Cons.IH[of l' i] ad Cons.prems(2) by simp
      qed
    qed
  qed
qed

end

text \<open>The limiter of \<open>aodv_socket_send\<close>: the first \<open>num\<close> cells of the array are the window.\<close>

definition rl_window :: "int \<times> timeval list \<Rightarrow> timeval list" where
  "rl_window l = take (nat (fst l)) (snd l)"

definition rl_ok :: "int \<Rightarrow> int \<times> timeval list \<Rightarrow> bool" where
  "rl_ok limit l \<longleftrightarrow> 0 \<le> fst l \<and> fst l \<le> limit - 1 \<and> int (length (snd l)) = limit - 1"

lemma rate_limiter_ratelimit_check:
  assumes "2 \<le> limit"
  shows "rate_limiter (\<lambda>t l. ratelimit_check E limit t (fst l) (snd l)) rl_window (rl_ok limit)
    (nat (limit - 1)) (x_timeval_diff E)"
proof (unfold_locales, goal_cases)
  case 1
  show ?case using assms by simp
next
  case (2 l)
  then show ?case by (auto simp: rl_ok_def rl_window_def)
next
  case (3 l t)
  then show ?case using assms
    by (auto simp: rl_ok_def ratelimit_check_def arr_get_def arr_set_def split: if_splits)
next
  case (4 l t)
  then have "snd l \<noteq> []" using assms by (auto simp: rl_ok_def)
  then show ?case using assms 4
    by (auto simp: rl_ok_def rl_window_def ratelimit_check_def arr_get_def arr_set_def hd_conv_nth
        split: if_splits)
next
  case (5 l t l')
  then obtain n rl where l: "l = (n, rl)" by (cases l)
  have len: "0 \<le> n" "n \<le> limit - 1" "int (length rl) = limit - 1" using 5(1) l by (auto simp: rl_ok_def)
  show ?case
  proof (cases "n = limit - 1")
    case True
    then have n: "nat n = length rl" using len by simp
    have ne: "rl \<noteq> []" using len assms by auto
    have full: "(take (nat (n - 1)) (drop 1 rl) @ drop (nat (n - 1)) rl)[nat (n - 1) := t] = tl rl @ [t]"
    proof -
      have k: "nat (n - 1) = length (tl rl)" using n len ne by (cases rl) auto
      obtain y where "drop (length (tl rl)) rl = [y]"
        using ne by (cases rl rule: rev_cases) auto
      then show ?thesis by (simp only: k) (simp add: drop_Suc list_update_append)
    qed
    have "l' = (n, tl rl @ [t])"
      using 5(2) True l len ne full
      by (auto simp: ratelimit_check_def arr_get_def arr_set_def split: if_splits)
    then show ?thesis using l len n ne assms by (auto simp: rl_ok_def rl_window_def)
  next
    case False
    then have "nat n < length rl" using len by auto
    then have "l' = (n + 1, rl[nat n := t])" "take (nat (n + 1)) (rl[nat n := t]) = take (nat n) rl @ [t]"
      using 5(2) False l len
      by (auto simp: ratelimit_check_def arr_get_def arr_set_def nat_add_distrib take_Suc_conv_app_nth
          split: if_splits)
    then show ?thesis using l len False \<open>nat n < length rl\<close> by (auto simp: rl_ok_def rl_window_def)
  qed
qed

interpretation rreq_limit: rate_limiter
  "\<lambda>t l. ratelimit_check E RREQ_RATELIMIT t (fst l) (snd l)" rl_window "rl_ok RREQ_RATELIMIT"
  "nat (RREQ_RATELIMIT - 1)" "x_timeval_diff E" for E
  by (rule rate_limiter_ratelimit_check) simp

interpretation rerr_limit: rate_limiter
  "\<lambda>t l. ratelimit_check E RERR_RATELIMIT t (fst l) (snd l)" rl_window "rl_ok RERR_RATELIMIT"
  "nat (RERR_RATELIMIT - 1)" "x_timeval_diff E" for E
  by (rule rate_limiter_ratelimit_check) simp

end
