(* ===== verification/Rt_Lookup.thy ===== *)
theory Rt_Lookup
  imports Aodv_Socket
begin

text \<open>
  The reading half of \<open>routing_table.c\<close>: hashing, lookup, the refreshing of timeouts, the
  precursor lists, together with the well-formedness of the table (\<open>rt_wf\<close>) and the contract
  of lookup (locale \<open>route_store\<close>, interpreted on the model). Writing half: \<open>Routing_Table\<close>.
\<close>

section \<open>Entries through pointers\<close>

definition rt_mod :: "rtp \<Rightarrow> (rt_table \<Rightarrow> rt_table) \<Rightarrow> aodv \<Rightarrow> aodv option" where
  "rt_mod p f s = (case rt_heap s p of None \<Rightarrow> None
     | Some r \<Rightarrow> Some (s\<lparr>rt_heap := (rt_heap s)(p \<mapsto> f r)\<rparr>))"

definition seqno_incr :: "u32 \<Rightarrow> u32" where
  "seqno_incr s = (if s = 0 then 0 else if s = 0xFFFFFFFF then 1 else s + 1)"

definition hashing :: "in_addr \<Rightarrow> nat \<times> u32" where
  "hashing addr = (unat (addr AND RT_TABLEMASK), addr)"

text \<open>\<open>list_foreach\<close> over a bucket, stopping at the first entry that satisfies the test.\<close>

fun bucket_find ::
  "(rt_table \<Rightarrow> bool) \<Rightarrow> rtp list \<Rightarrow> (rtp \<Rightarrow> rt_table option) \<Rightarrow> rtp option option" where
  "bucket_find P [] h = Some None"
| "bucket_find P (p # ps) h = do {
     r \<leftarrow> h p;
     if P r then Some (Some p) else bucket_find P ps h
   }"

definition rt_table_find :: "in_addr \<Rightarrow> aodv \<Rightarrow> rtp option option" where
  "rt_table_find dest_addr s =
     (if num_entries (rt_tbl s) = 0 then Some None
      else let (index, hash) = hashing dest_addr in do {
        bucket \<leftarrow> arr_get (tbl (rt_tbl s)) (int index);
        bucket_find (\<lambda>r. rt_hash r = hash \<and> rt_dest_addr r = dest_addr) bucket (rt_heap s)
      })"

text \<open>\<open>rt_table_find_gateway\<close>: the loop keeps the best gateway found so far.\<close>

fun gateway_scan ::
  "rtp list \<Rightarrow> (rtp \<Rightarrow> rt_table option) \<Rightarrow> rtp option \<Rightarrow> rtp option option" where
  "gateway_scan [] h gw = Some gw"
| "gateway_scan (p # ps) h gw = do {
     r \<leftarrow> h p;
     better \<leftarrow> (if has_flag (rt_flags r) RT_GATEWAY \<and> rt_state r = VALID then
                 (case gw of None \<Rightarrow> Some True
                  | Some g \<Rightarrow> do { rg \<leftarrow> h g; Some (rt_hcnt r < rt_hcnt rg) })
               else Some False);
     gateway_scan ps h (if better then Some p else gw)
   }"

definition rt_table_find_gateway :: "aodv \<Rightarrow> rtp option option" where
  "rt_table_find_gateway s =
     gateway_scan (concat (take RT_TABLESIZE (tbl (rt_tbl s)))) (rt_heap s) None"

section \<open>Timeouts\<close>

definition rt_table_update_timeout :: "ext \<Rightarrow> rtp option \<Rightarrow> u32 \<Rightarrow> aodv \<Rightarrow> aodv option" where
  "rt_table_update_timeout E rt lifetime s = (case rt of None \<Rightarrow> Some s | Some p \<Rightarrow> do {
     r \<leftarrow> rt_heap s p;
     let set_it = rt_mod p (rt_rt_timer_update (x_timer_set_timeout E (now s) (uint lifetime))) s;
     if rt_state r = VALID then
       let new_timeout = x_timeval_add_msec E (now s) (uint lifetime)
       in if x_timeval_diff E (t_timeout (rt_rt_timer r)) new_timeout < 0 then set_it else Some s
     else set_it
   })"

definition active_timeout :: "aodv \<Rightarrow> u32" where
  "active_timeout s = word_of_int (active_route_timeout (cfg s))"

text \<open>
  The block of \<open>rt_table_update_route_timeouts\<close> for one of the two entries: \<open>direct\<close> is the
  condition for refreshing the entry itself, which for the forward route also holds for an
  Internet destination.
\<close>

definition refresh_route ::
  "ext \<Rightarrow> (rt_table \<Rightarrow> bool) \<Rightarrow> rtp option \<Rightarrow> aodv \<Rightarrow> aodv option" where
  "refresh_route E inet rt s = (case rt of None \<Rightarrow> Some s | Some p \<Rightarrow> do {
     r \<leftarrow> rt_heap s p;
     if rt_state r = VALID then do {
       s \<leftarrow> (if llfeedback (cfg s) \<or> inet r \<or> rt_hcnt r \<noteq> 1 \<or> t_used (rt_hello_timer r)
            then rt_table_update_timeout E (Some p) (active_timeout s) s else Some s);
       next_hop_rt \<leftarrow> rt_table_find (rt_next_hop r) s;
       (case next_hop_rt of None \<Rightarrow> Some s | Some q \<Rightarrow> do {
          rq \<leftarrow> rt_heap s q;
          if rt_state rq = VALID \<and> rt_dest_addr rq \<noteq> rt_dest_addr r
             \<and> (llfeedback (cfg s) \<or> t_used (rt_hello_timer r))
          then rt_table_update_timeout E (Some q) (active_timeout s) s else Some s
        })
     } else Some s
   })"

definition rt_table_update_route_timeouts ::
  "ext \<Rightarrow> rtp option \<Rightarrow> rtp option \<Rightarrow> aodv \<Rightarrow> aodv option" where
  "rt_table_update_route_timeouts E fwd_rt rev_rt s = do {
     s \<leftarrow> refresh_route E (\<lambda>r. has_flag (rt_flags r) RT_INET_DEST) fwd_rt s;
     refresh_route E (\<lambda>r. False) rev_rt s
   }"

section \<open>Precursors\<close>

text \<open>\<open>list_add\<close> puts a node in front; \<open>malloc_node\<close> is an allocation whose address is not kept.\<close>

definition malloc_node :: "ext \<Rightarrow> unit option" where
  "malloc_node E = map_option (\<lambda>_. ()) (x_malloc E (\<lambda>_. False))"

definition precursor_add :: "ext \<Rightarrow> rtp option \<Rightarrow> in_addr \<Rightarrow> aodv \<Rightarrow> aodv option" where
  "precursor_add E rt addr s = (case rt of None \<Rightarrow> Some s | Some p \<Rightarrow> do {
     r \<leftarrow> rt_heap s p;
     if addr \<in> set (rt_precursors r) then Some s
     else do {
       _ \<leftarrow> malloc_node E;
       rt_mod p (\<lambda>r. r\<lparr>rt_precursors := addr # rt_precursors r, rt_nprec := rt_nprec r + 1\<rparr>) s
     }
   })"

definition precursor_remove :: "rtp option \<Rightarrow> in_addr \<Rightarrow> aodv \<Rightarrow> aodv option" where
  "precursor_remove rt addr s = (case rt of None \<Rightarrow> Some s | Some p \<Rightarrow> do {
     r \<leftarrow> rt_heap s p;
     if addr \<in> set (rt_precursors r) then
       rt_mod p (\<lambda>r. r\<lparr>rt_precursors := remove1 addr (rt_precursors r),
                      rt_nprec := rt_nprec r - 1\<rparr>) s
     else Some s
   })"

definition precursor_list_destroy :: "rtp option \<Rightarrow> aodv \<Rightarrow> aodv option" where
  "precursor_list_destroy rt s = (case rt of None \<Rightarrow> Some s | Some p \<Rightarrow>
     rt_mod p (\<lambda>r. r\<lparr>rt_precursors := [],
                    rt_nprec := rt_nprec r - int (length (rt_precursors r))\<rparr>) s)"

definition FIRST_PREC :: "rt_table \<Rightarrow> in_addr option" where
  "FIRST_PREC r = (case rt_precursors r of [] \<Rightarrow> None | a # _ \<Rightarrow> Some a)"

section \<open>Well-formed tables\<close>

text \<open>
  The 64 buckets hold exactly the live entries, each once, each in the bucket its address
  hashes to; no two entries are for the same destination; the counters agree with the lists.
\<close>

definition entry_ok :: "rtp list list \<Rightarrow> rtp \<Rightarrow> rt_table \<Rightarrow> bool" where
  "entry_ok bs p r \<longleftrightarrow> p \<in> set (bs ! fst (hashing (rt_dest_addr r))) \<and> rt_hash r = rt_dest_addr r
     \<and> p < 2 ^ 32 - 1 \<and> rt_nprec r = int (length (rt_precursors r)) \<and> distinct (rt_precursors r)"

definition rt_wf :: "aodv \<Rightarrow> bool" where
  "rt_wf s \<longleftrightarrow> length (tbl (rt_tbl s)) = RT_TABLESIZE \<and> distinct (concat (tbl (rt_tbl s)))
     \<and> set (concat (tbl (rt_tbl s))) = dom (rt_heap s)
     \<and> num_entries (rt_tbl s) = of_nat (length (concat (tbl (rt_tbl s))))
     \<and> (\<forall>p r. rt_heap s p = Some r \<longrightarrow> entry_ok (tbl (rt_tbl s)) p r)
     \<and> (\<forall>p q r r'. rt_heap s p = Some r \<longrightarrow> rt_heap s q = Some r' \<longrightarrow>
          rt_dest_addr r = rt_dest_addr r' \<longrightarrow> p = q)"

definition num_valid :: "aodv \<Rightarrow> nat" where
  "num_valid s = card {p. \<exists>r. rt_heap s p = Some r \<and> rt_state r = VALID}"

lemma hash_index_less: "fst (hashing a) < RT_TABLESIZE"
proof -
  have "unat (a AND 63) \<le> unat (63 :: u32)"
    by (rule word_le_nat_alt[THEN iffD1]) (rule word_and_le1)
  then show ?thesis by (simp add: hashing_def)
qed

lemma rt_wfD:
  assumes "rt_wf s"
  shows "length (tbl (rt_tbl s)) = 64" "distinct (concat (tbl (rt_tbl s)))"
    "set (concat (tbl (rt_tbl s))) = dom (rt_heap s)"
    "num_entries (rt_tbl s) = of_nat (length (concat (tbl (rt_tbl s))))"
    "rt_heap s p = Some r \<Longrightarrow> entry_ok (tbl (rt_tbl s)) p r"
    "rt_heap s p = Some r \<Longrightarrow> rt_heap s q = Some r' \<Longrightarrow> rt_dest_addr r = rt_dest_addr r' \<Longrightarrow> p = q"
  using assms unfolding rt_wf_def by auto

text \<open>Since addresses are below \<open>2 ^ 32 - 1\<close>, the 32-bit entry counter never wraps to 0.\<close>

lemma rt_wf_entries_bound:
  assumes "rt_wf s"
  shows "length (concat (tbl (rt_tbl s))) < 2 ^ 32"
proof -
  let ?ps = "concat (tbl (rt_tbl s))"
  have "set ?ps \<subseteq> {..< 2 ^ 32 - 1}"
    using rt_wfD(3,5)[OF assms] by (fastforce simp: entry_ok_def)
  then have "card (set ?ps) \<le> card {..< (2::nat) ^ 32 - 1}" by (intro card_mono) auto
  moreover have "card (set ?ps) = length ?ps" by (rule distinct_card[OF rt_wfD(2)[OF assms]])
  ultimately show ?thesis by (simp del: length_concat set_concat)
qed

lemma rt_wf_num_entries_0:
  assumes "rt_wf s" and "num_entries (rt_tbl s) = 0"
  shows "rt_heap s p = None"
proof -
  have "length (concat (tbl (rt_tbl s))) = 0"
  proof (rule ccontr)
    assume "length (concat (tbl (rt_tbl s))) \<noteq> 0"
    moreover have "unat (of_nat (length (concat (tbl (rt_tbl s)))) :: u32) = length (concat (tbl (rt_tbl s)))"
      using rt_wf_entries_bound[OF assms(1)] by (simp add: unat_of_nat del: length_concat)
    ultimately show False using rt_wfD(4)[OF assms(1)] assms(2) by (metis unat_0)
  qed
  then have "set (concat (tbl (rt_tbl s))) = {}" by (simp only: length_0_conv) simp
  then have "p \<notin> dom (rt_heap s)" by (simp only: rt_wfD(3)[OF assms(1)]) simp
  then show ?thesis by (simp only: domIff not_not)
qed

lemma bucket_find_spec:
  assumes "set ps \<subseteq> dom h"
  shows "bucket_find P ps h = Some (find (\<lambda>p. P (the (h p))) ps)"
  using assms by (induction ps) auto

lemma rt_table_find_eq:
  assumes "rt_wf s"
  shows "rt_table_find d s = Some (if num_entries (rt_tbl s) = 0 then None
    else find (\<lambda>p. rt_hash (the (rt_heap s p)) = d \<and> rt_dest_addr (the (rt_heap s p)) = d)
           (tbl (rt_tbl s) ! fst (hashing d)))"
proof -
  have i: "fst (hashing d) < length (tbl (rt_tbl s))"
    using hash_index_less[of d] rt_wfD(1)[OF assms] by simp
  then have "set (tbl (rt_tbl s) ! fst (hashing d)) \<subseteq> dom (rt_heap s)"
    using rt_wfD(3)[OF assms] nth_mem[OF i] by auto
  then show ?thesis
    using i by (simp add: rt_table_find_def hashing_def arr_get_def bucket_find_spec)
qed

section \<open>The contract of lookup\<close>

locale route_store =
  fixes find_route :: "in_addr \<Rightarrow> 's \<Rightarrow> 'p option option"
    and entry :: "'s \<Rightarrow> 'p \<Rightarrow> 'r option"
    and key :: "'r \<Rightarrow> in_addr"
    and wf :: "'s \<Rightarrow> bool"
  assumes find_total: "wf s \<Longrightarrow> find_route d s \<noteq> None"
    and find_sound: "wf s \<Longrightarrow> find_route d s = Some (Some p) \<Longrightarrow> \<exists>r. entry s p = Some r \<and> key r = d"
    and find_complete: "wf s \<Longrightarrow> entry s p = Some r \<Longrightarrow> find_route (key r) s = Some (Some p)"
begin

lemma find_iff:
  assumes "wf s"
  shows "find_route d s = Some (Some p) \<longleftrightarrow> (\<exists>r. entry s p = Some r \<and> key r = d)"
  using find_sound[OF assms] find_complete[OF assms] by blast

lemma find_none_iff:
  assumes "wf s"
  shows "find_route d s = Some None \<longleftrightarrow> (\<forall>p r. entry s p = Some r \<longrightarrow> key r \<noteq> d)"
  using find_total[OF assms, of d] find_iff[OF assms, of d]
  by (metis (no_types, opaque_lifting) not_None_eq option.inject)

lemma find_cases:
  assumes "wf s"
  obtains "find_route d s = Some None" | p r where "find_route d s = Some (Some p)"
    "entry s p = Some r" "key r = d"
proof (cases "find_route d s")
  case None
  then show ?thesis using find_total[OF assms] by blast
next
  case (Some x)
  show ?thesis
  proof (cases x)
    case None
    then show ?thesis using that(1) Some by blast
  next
    case (Some p)
    then show ?thesis using that(2) \<open>find_route d s = Some x\<close> find_sound[OF assms] by blast
  qed
qed

text \<open>Two well-formed states whose entries have the same keys give the same answers.\<close>

lemma find_cong:
  assumes "wf s" and "wf t"
    and "\<And>p. map_option key (entry t p) = map_option key (entry s p)"
  shows "find_route d t = find_route d s"
proof (cases rule: find_cases[OF assms(1), of d])
  case 1
  then have "\<forall>p r. entry t p = Some r \<longrightarrow> key r \<noteq> d"
    using find_none_iff[OF assms(1)] assms(3) by (metis map_option_eq_Some)
  then show ?thesis using 1 find_none_iff[OF assms(2)] by simp
next
  case (2 p r)
  then obtain r' where "entry t p = Some r'" "key r' = d" using assms(3)[of p] by auto
  then show ?thesis using 2 find_complete[OF assms(2)] by auto
qed

end

lemma find_SomeD: "find P xs = Some x \<Longrightarrow> x \<in> set xs \<and> P x"
  by (induction xs) (auto split: if_splits)

lemma find_not_None: "x \<in> set xs \<Longrightarrow> P x \<Longrightarrow> \<exists>y. find P xs = Some y"
  by (induction xs) auto

interpretation rs: route_store rt_table_find rt_heap rt_dest_addr rt_wf
proof (unfold_locales, goal_cases)
  case (1 s d)
  then show ?case by (simp add: rt_table_find_eq)
next
  case (2 s d p)
  then have "find (\<lambda>p. rt_hash (the (rt_heap s p)) = d \<and> rt_dest_addr (the (rt_heap s p)) = d)
      (tbl (rt_tbl s) ! fst (hashing d)) = Some p"
    by (simp add: rt_table_find_eq split: if_splits)
  then have p: "p \<in> set (tbl (rt_tbl s) ! fst (hashing d))" "rt_dest_addr (the (rt_heap s p)) = d"
    by (auto dest: find_SomeD)
  have "fst (hashing d) < length (tbl (rt_tbl s))"
    using hash_index_less[of d] rt_wfD(1)[OF 2(1)] by simp
  then have "p \<in> dom (rt_heap s)" using p(1) rt_wfD(3)[OF 2(1)] nth_mem by fastforce
  then show ?case using p(2) by auto
next
  case (3 s p r)
  have ok: "entry_ok (tbl (rt_tbl s)) p r" using rt_wfD(5)[OF 3(1,2)] .
  let ?P = "\<lambda>q. rt_hash (the (rt_heap s q)) = rt_dest_addr r \<and> rt_dest_addr (the (rt_heap s q)) = rt_dest_addr r"
  let ?b = "tbl (rt_tbl s) ! fst (hashing (rt_dest_addr r))"
  obtain q where q: "find ?P ?b = Some q"
    using find_not_None[of p ?b ?P] ok 3(2) by (auto simp: entry_ok_def)
  have i: "fst (hashing (rt_dest_addr r)) < length (tbl (rt_tbl s))"
    using hash_index_less[of "rt_dest_addr r"] rt_wfD(1)[OF 3(1)] by simp
  have "q \<in> dom (rt_heap s)"
    using find_SomeD[OF q] rt_wfD(3)[OF 3(1)] nth_mem[OF i] by fastforce
  then have "q = p" using find_SomeD[OF q] rt_wfD(6)[OF 3(1)] 3(2) by fastforce
  moreover have "num_entries (rt_tbl s) \<noteq> 0" using rt_wf_num_entries_0[OF 3(1)] 3(2) by fastforce
  ultimately show ?case using q 3(1) by (simp add: rt_table_find_eq)
qed

end
