(* ===== verification/Packet_Queue.thy ===== *)
theory Packet_Queue
  imports Rt_Lookup
begin

text \<open>
  \<open>ns-2/packet_queue.cc\<close>: the FIFO in which data packets wait while a route is sought. Its
  invariant \<open>pq_ok\<close> (the length field is the length of the list and at most 512), what adding,
  garbage collection and each verdict do to the queue and to the packets, and the contract of
  a bounded FIFO (locale \<open>bounded_fifo\<close>) with the model of \<open>packet_queue_add\<close> as its instance.
\<close>

section \<open>Operations\<close>

definition MAX_QUEUE_LENGTH :: nat where [simp]: "MAX_QUEUE_LENGTH = 512"
definition MAX_QUEUE_TIME :: int where [simp]: "MAX_QUEUE_TIME = 10000"
definition GARBAGE_COLLECT_TIME :: int where [simp]: "GARBAGE_COLLECT_TIME = 1000"
definition ARP_DELAY :: double where [simp]: "ARP_DELAY = 0x3F747AE147AE147B"

datatype verdict = PQ_DROP | PQ_SEND | PQ_ENC_SEND

definition pq_set :: "q_pkt list \<Rightarrow> u32 \<Rightarrow> aodv \<Rightarrow> aodv" where
  "pq_set qs n s = s\<lparr>PQ := (PQ s)\<lparr>pq_head := qs, pq_len := n\<rparr>\<rparr>"

definition packet_queue_init :: "ext \<Rightarrow> aodv \<Rightarrow> aodv" where
  "packet_queue_init E s = s\<lparr>PQ := \<lparr>pq_head = [], pq_len = 0,
     pq_garbage_collect_timer = x_timer_set_timeout E (now s) GARBAGE_COLLECT_TIME
       (x_timer_init E Packet_queue_timeout (pq_garbage_collect_timer (PQ s)))\<rparr>\<rparr>"

fun drop_all :: "drop_reason \<Rightarrow> q_pkt list \<Rightarrow> aodv \<Rightarrow> aodv" where
  "drop_all why [] s = s"
| "drop_all why (q # qs) s = drop_all why qs (drop_pkt (qp_p q) why s)"

text \<open>The three loops detach some nodes and keep the others; \<open>kept\<close> are those already passed.\<close>

fun destroy_loop :: "q_pkt list \<Rightarrow> aodv \<Rightarrow> aodv" where
  "destroy_loop [] s = pq_set [] (pq_len (PQ s)) s"
| "destroy_loop (q # qs) s =
     destroy_loop qs (pq_set qs (pq_len (PQ s) - 1) (drop_pkt (qp_p q) DROP_END_OF_SIMULATION s))"

definition packet_queue_destroy :: "aodv \<Rightarrow> aodv" where
  "packet_queue_destroy s = destroy_loop (pq_head (PQ s)) s"

fun gc_loop :: "ext \<Rightarrow> q_pkt list \<Rightarrow> q_pkt list \<Rightarrow> int \<Rightarrow> aodv \<Rightarrow> int \<times> aodv" where
  "gc_loop E [] kept count s = (count, pq_set kept (pq_len (PQ s)) s)"
| "gc_loop E (q # qs) kept count s =
     (if x_timeval_diff E (now s) (qp_q_time q) > MAX_QUEUE_TIME then
        gc_loop E qs kept (count + 1)
          (pq_set (kept @ qs) (pq_len (PQ s) - 1) (drop_pkt (qp_p q) DROP_RTR_QTIMEOUT s))
      else gc_loop E qs (kept @ [q]) count s)"

definition packet_queue_garbage_collect :: "ext \<Rightarrow> aodv \<Rightarrow> int \<times> aodv" where
  "packet_queue_garbage_collect E s = gc_loop E (pq_head (PQ s)) [] 0 s"

definition pq_make_room :: "aodv \<Rightarrow> aodv" where
  "pq_make_room s =
     (if of_nat MAX_QUEUE_LENGTH \<le> pq_len (PQ s) then
        (case pq_head (PQ s) of [] \<Rightarrow> s
         | q # qs \<Rightarrow> pq_set qs (pq_len (PQ s) - 1) (drop_pkt (qp_p q) DROP_RTR_QFULL s))
      else s)"

definition packet_queue_add :: "ext \<Rightarrow> packet \<Rightarrow> in_addr \<Rightarrow> aodv \<Rightarrow> aodv option" where
  "packet_queue_add E p dest_addr s =
     (if pk_daddr p \<noteq> dest_addr then None
      else let s = pq_make_room s in do {
        _ \<leftarrow> malloc_node E;
        Some (pq_set (pq_head (PQ s) @ [\<lparr>qp_dest_addr = dest_addr, qp_q_time = now s, qp_p = p\<rparr>])
                (pq_len (PQ s) + 1) s)
      })"

text \<open>
  The loop of \<open>packet_queue_set_verdict\<close>. \<open>Inl\<close> is the early \<open>return -1\<close>, which comes after
  the node was detached and before the length was decremented. Without \<open>CONFIG_GATEWAY\<close> the
  switch has no case for \<open>PQ_ENC_SEND\<close>.
\<close>

fun verdict_loop ::
  "ext \<Rightarrow> in_addr \<Rightarrow> verdict \<Rightarrow> rtp option \<Rightarrow> q_pkt list \<Rightarrow> q_pkt list \<Rightarrow> double \<Rightarrow> int \<Rightarrow> aodv
    \<Rightarrow> (aodv + int \<times> aodv) option" where
  "verdict_loop E d v rt [] kept delay count s =
     Some (Inr (count, pq_set kept (pq_len (PQ s)) s))"
| "verdict_loop E d v rt (q # qs) kept delay count s =
     (if qp_dest_addr q = d then
        (case v of
           PQ_SEND \<Rightarrow>
             (case rt of None \<Rightarrow> Some (Inl (pq_set (kept @ qs) (pq_len (PQ s)) s))
              | Some p \<Rightarrow> do {
                  r \<leftarrow> rt_heap s p;
                  s \<leftarrow> sendPacket E (qp_p q) (rt_next_hop r) delay
                         (pq_set (kept @ qs) (pq_len (PQ s)) s);
                  verdict_loop E d v rt qs kept (fp_add (x_fp E) delay ARP_DELAY) (count + 1)
                    (pq_set (kept @ qs) (pq_len (PQ s) - 1) s)
                })
         | PQ_DROP \<Rightarrow> verdict_loop E d v rt qs kept delay (count + 1)
             (pq_set (kept @ qs) (pq_len (PQ s) - 1) (drop_pkt (qp_p q) DROP_RTR_NO_ROUTE s))
         | PQ_ENC_SEND \<Rightarrow> verdict_loop E d v rt qs kept delay (count + 1)
             (pq_set (kept @ qs) (pq_len (PQ s) - 1) s))
      else verdict_loop E d v rt qs (kept @ [q]) delay count s)"

text \<open>The refreshing of timeouts after the loop.\<close>

definition verdict_update_timeouts ::
  "ext \<Rightarrow> in_addr \<Rightarrow> verdict \<Rightarrow> rtp option \<Rightarrow> rtp option \<Rightarrow> aodv \<Rightarrow> aodv option" where
  "verdict_update_timeouts E d v rt inet_rt s = (case rt of None \<Rightarrow> Some s | Some p \<Rightarrow> do {
     r \<leftarrow> rt_heap s p;
     if rt_state r = VALID \<and> (v = PQ_SEND \<or> v = PQ_ENC_SEND) then do {
       dev \<leftarrow> DEV_IFINDEX (rt_ifindex r) s;
       if d \<noteq> dv_ipaddr dev then do {
         s \<leftarrow> (if v = PQ_ENC_SEND then rt_table_update_timeout E inet_rt (active_timeout s) s
              else Some s);
         s \<leftarrow> rt_table_update_timeout E (Some p) (active_timeout s) s;
         next_hop_rt \<leftarrow> rt_table_find (rt_next_hop r) s;
         (case next_hop_rt of None \<Rightarrow> Some s | Some n \<Rightarrow> do {
            rn \<leftarrow> rt_heap s n;
            if rt_state rn = VALID \<and> rt_dest_addr rn \<noteq> rt_dest_addr r
            then rt_table_update_timeout E (Some n) (active_timeout s) s else Some s
          })
       } else Some s
     } else Some s
   })"

definition packet_queue_set_verdict ::
  "ext \<Rightarrow> in_addr \<Rightarrow> verdict \<Rightarrow> aodv \<Rightarrow> (int \<times> aodv) option" where
  "packet_queue_set_verdict E d v s = do {
     inet_rt \<leftarrow> (if v = PQ_ENC_SEND then rt_table_find d s else Some None);
     if v = PQ_ENC_SEND \<and> inet_rt = None then Some (-1, s)
     else do {
       rt \<leftarrow> (case inet_rt of None \<Rightarrow> rt_table_find d s
             | Some i \<Rightarrow> do { ri \<leftarrow> rt_heap s i; rt_table_find (rt_next_hop ri) s });
       res \<leftarrow> verdict_loop E d v rt (pq_head (PQ s)) [] 0 0 s;
       (case res of Inl s \<Rightarrow> Some (-1, s)
        | Inr (count, s) \<Rightarrow> do {
            s \<leftarrow> verdict_update_timeouts E d v rt inet_rt s;
            Some (count, s)
          })
     }
   }"

section \<open>Invariant\<close>

definition pq_ok :: "aodv \<Rightarrow> bool" where
  "pq_ok s \<longleftrightarrow> length (pq_head (PQ s)) \<le> MAX_QUEUE_LENGTH
     \<and> pq_len (PQ s) = of_nat (length (pq_head (PQ s)))"

lemma pq_set_simps [simp]:
  "pq_head (PQ (pq_set qs n s)) = qs" "pq_len (PQ (pq_set qs n s)) = n"
  "out (pq_set qs n s) = out s" "now (pq_set qs n s) = now s" "rt_heap (pq_set qs n s) = rt_heap s"
  "rt_tbl (pq_set qs n s) = rt_tbl s" "pq_set qs n (pq_set qs' n' s) = pq_set qs n s"
  "cfg (pq_set qs n s) = cfg s" "this_host (pq_set qs n s) = this_host s"
  "dev_indices (pq_set qs n s) = dev_indices s"
  by (simp_all add: pq_set_def)

text \<open>Fields of the queue and the fields that sending changes do not overlap.\<close>

lemma pq_set_commute:
  "pq_set qs n (s\<lparr>out := e\<rparr>) = (pq_set qs n s)\<lparr>out := e\<rparr>"
  "pq_set qs n (s\<lparr>rng := k\<rparr>) = (pq_set qs n s)\<lparr>rng := k\<rparr>"
  by (cases s, simp add: pq_set_def)+

lemma drop_pkt_pq_set: "drop_pkt p why (pq_set qs n s) = pq_set qs n (drop_pkt p why s)"
  by (simp add: drop_pkt_def pq_set_commute)

lemma drop_pkt_simps [simp]:
  "PQ (drop_pkt p why s) = PQ s" "out (drop_pkt p why s) = Drop p why # out s"
  "now (drop_pkt p why s) = now s" "rt_heap (drop_pkt p why s) = rt_heap s"
  "rt_tbl (drop_pkt p why s) = rt_tbl s"
  by (simp_all add: drop_pkt_def)

lemma pq_ok_len [simp]: "pq_ok s \<Longrightarrow> unat (pq_len (PQ s)) = length (pq_head (PQ s))"
  by (simp add: pq_ok_def unat_of_nat)

lemma pq_full_iff:
  assumes "pq_ok s"
  shows "of_nat MAX_QUEUE_LENGTH \<le> pq_len (PQ s) \<longleftrightarrow> length (pq_head (PQ s)) = MAX_QUEUE_LENGTH"
proof -
  have "unat (of_nat MAX_QUEUE_LENGTH :: u32) = MAX_QUEUE_LENGTH" by simp
  then show ?thesis using assms pq_ok_len[OF assms] by (auto simp: word_le_nat_alt pq_ok_def)
qed

lemma packet_queue_init_ok: "pq_ok (packet_queue_init E s)"
  by (simp add: pq_ok_def packet_queue_init_def)

subsection \<open>Adding\<close>

lemma pq_make_room_ok:
  assumes "pq_ok s"
  shows "pq_head (PQ (pq_make_room s)) =
      (if length (pq_head (PQ s)) = MAX_QUEUE_LENGTH then tl (pq_head (PQ s)) else pq_head (PQ s))"
    and "pq_ok (pq_make_room s)" and "now (pq_make_room s) = now s"
  using assms unfolding pq_make_room_def pq_full_iff[OF assms]
  by (auto simp: pq_ok_def split: list.splits)

lemma packet_queue_add_spec:
  assumes "pq_ok s" and "packet_queue_add E p d s = Some t"
  shows "pq_ok t" and "pq_head (PQ t) =
      (if length (pq_head (PQ s)) = MAX_QUEUE_LENGTH then tl (pq_head (PQ s)) else pq_head (PQ s))
      @ [\<lparr>qp_dest_addr = d, qp_q_time = now s, qp_p = p\<rparr>]"
    and "pk_daddr p = d"
  using assms pq_make_room_ok[OF assms(1)]
  by (auto simp: packet_queue_add_def Let_def pq_ok_def split: if_splits)

subsection \<open>Garbage collection and destruction\<close>

abbreviation too_old :: "ext \<Rightarrow> timeval \<Rightarrow> q_pkt \<Rightarrow> bool" where
  "too_old E t q \<equiv> x_timeval_diff E t (qp_q_time q) > MAX_QUEUE_TIME"

lemma gc_loop_eq:
  "gc_loop E qs kept count s =
     (count + int (length (filter (too_old E (now s)) qs)),
      pq_set (kept @ filter (\<lambda>q. \<not> too_old E (now s) q) qs)
        (pq_len (PQ s) - of_nat (length (filter (too_old E (now s)) qs)))
        (drop_all DROP_RTR_QTIMEOUT (filter (too_old E (now s)) qs) s))"
proof (induction qs arbitrary: kept count s)
  case Nil
  show ?case by simp
next
  case (Cons q qs)
  have drop_all_set: "drop_all why xs (pq_set a b s) = pq_set a b (drop_all why xs s)" for why xs a b s
    by (induction xs arbitrary: s) (simp_all add: drop_pkt_pq_set)
  show ?case using Cons by (simp add: drop_all_set algebra_simps)
qed

lemma drop_all_simps [simp]:
  "PQ (drop_all why qs s) = PQ s" "rt_heap (drop_all why qs s) = rt_heap s"
  "out (drop_all why qs s) = rev (map (\<lambda>q. Drop (qp_p q) why) qs) @ out s"
  by (induction qs arbitrary: s) simp_all

lemma filter_partition_length: "length (filter P xs) + length (filter (\<lambda>x. \<not> P x) xs) = length xs"
  by (induction xs) auto

lemma of_nat_partition: "of_nat (length xs) - of_nat (length (filter P xs)) =
    (of_nat (length (filter (\<lambda>x. \<not> P x) xs)) :: 'a::len word)"
  using filter_partition_length[of P xs]
  by (metis add_diff_cancel_left' of_nat_add)

lemma destroy_loop_eq:
  "pq_head (PQ (destroy_loop qs s)) = []"
  "pq_len (PQ (destroy_loop qs s)) = pq_len (PQ s) - of_nat (length qs)"
  "out (destroy_loop qs s) = rev (map (\<lambda>q. Drop (qp_p q) DROP_END_OF_SIMULATION) qs) @ out s"
  by (induction qs arbitrary: s) (simp_all add: algebra_simps)

subsection \<open>Verdicts\<close>

abbreviation for_dest :: "in_addr \<Rightarrow> q_pkt \<Rightarrow> bool" where
  "for_dest d q \<equiv> qp_dest_addr q = d"

lemma verdict_loop_drop:
  "\<exists>t. verdict_loop E d PQ_DROP rt qs kept delay count s =
     Some (Inr (count + int (length (filter (for_dest d) qs)), t))
   \<and> pq_head (PQ t) = kept @ filter (\<lambda>q. \<not> for_dest d q) qs
   \<and> pq_len (PQ t) = pq_len (PQ s) - of_nat (length (filter (for_dest d) qs))
   \<and> out t = rev (map (\<lambda>q. Drop (qp_p q) DROP_RTR_NO_ROUTE) (filter (for_dest d) qs)) @ out s
   \<and> rt_heap t = rt_heap s"
proof (induction qs arbitrary: kept count s)
  case Nil
  show ?case by simp
next
  case (Cons q qs)
  show ?case
  proof (cases "for_dest d q")
    case True
    then show ?thesis
      using Cons[of kept "count + 1"
          "pq_set (kept @ qs) (pq_len (PQ s) - 1) (drop_pkt (qp_p q) DROP_RTR_NO_ROUTE s)"]
      by (auto simp: algebra_simps)
  next
    case False
    then show ?thesis using Cons[of "kept @ [q]" count s] by simp
  qed
qed

text \<open>Sending: the packets of the destination, in queue order, each 5 ms after the last.\<close>

fun send_burst :: "ext \<Rightarrow> in_addr \<Rightarrow> q_pkt list \<Rightarrow> double \<Rightarrow> aodv \<Rightarrow> aodv option" where
  "send_burst E nh [] delay s = Some s"
| "send_burst E nh (q # qs) delay s = do {
     s \<leftarrow> sendPacket E (qp_p q) nh delay s;
     send_burst E nh qs (fp_add (x_fp E) delay ARP_DELAY) s
   }"

lemma schedule_pq: "schedule i p d (pq_set qs n s) = map_option (pq_set qs n) (schedule i p d s)"
proof -
  have "lllist (pq_set qs n s) = lllist s" by (simp add: pq_set_def)
  then show ?thesis by (cases "arr_get (lllist s) i") (simp_all add: schedule_def pq_set_commute)
qed

lemma for_each_map:
  assumes "\<And>x s. f x (g s) = map_option g (f x s)"
  shows "for_each xs f (g s) = map_option g (for_each xs f s)"
proof (induction xs arbitrary: s)
  case (Cons x xs)
  then show ?case by (cases "f x s") (simp_all add: assms)
qed simp

lemma sendPacket_pq:
  "sendPacket E p nh d (pq_set qs n s) = map_option (pq_set qs n) (sendPacket E p nh d s)"
proof -
  have rng_pq: "(pq_set qs n s)\<lparr>rng := k\<rparr> = pq_set qs n (s\<lparr>rng := k\<rparr>)" for k
    by (simp add: pq_set_commute)
  have each: "for_each xs (\<lambda>i. schedule (int i) (f i) d) (pq_set qs n s)
      = map_option (pq_set qs n) (for_each xs (\<lambda>i. schedule (int i) (f i) d) s)" for xs f d s
    by (rule for_each_map) (rule schedule_pq)
  have nif: "nIfaces (pq_set qs n s) = nIfaces s" "rng (pq_set qs n s) = rng s"
    "channelNum (pq_set qs n s) = channelNum s" for s by (simp_all add: pq_set_def)
  have dev: "DEV_NR i (pq_set qs n s) = DEV_NR i s" "DEV_IFINDEX k (pq_set qs n s) = DEV_IFINDEX k s"
    for i k by (simp_all add: DEV_NR_def DEV_IFINDEX_def ifindex2devindex_def pq_set_def)
  have so: "sendPacket_out E p nh d (pq_set qs n s) = map_option (pq_set qs n) (sendPacket_out E p nh d s)"
    for p
    by (cases "DEV_NR 0 s")
      (simp_all add: sendPacket_out_def Let_def dev rng_pq nif each schedule_pq)
  show ?thesis
    by (cases "DEV_IFINDEX NS_IFINDEX s")
      (simp_all add: sendPacket_def Let_def dev so drop_pkt_pq_set)
qed

lemma verdict_loop_send:
  assumes "rt_heap s p = Some r"
  shows "verdict_loop E d PQ_SEND (Some p) qs kept delay count s =
     map_option (\<lambda>t. Inr (count + int (length (filter (for_dest d) qs)),
        pq_set (kept @ filter (\<lambda>q. \<not> for_dest d q) qs)
          (pq_len (PQ s) - of_nat (length (filter (for_dest d) qs))) t))
      (send_burst E (rt_next_hop r) (filter (for_dest d) qs) delay s)"
  using assms
proof (induction qs arbitrary: kept delay count s)
  case Nil
  then show ?case by simp
next
  case (Cons q qs)
  show ?case
  proof (cases "for_dest d q")
    case False
    then show ?thesis using Cons by simp
  next
    case True
    have burst: "send_burst E nh xs dl (pq_set a b s) = map_option (pq_set a b) (send_burst E nh xs dl s)"
      for nh xs dl a b s
    proof (induction xs arbitrary: dl s)
      case (Cons x xs)
      then show ?case by (cases "sendPacket E (qp_p x) nh dl s") (simp_all add: sendPacket_pq)
    qed simp
    show ?thesis
    proof (cases "sendPacket E (qp_p q) (rt_next_hop r) delay s")
      case None
      then show ?thesis using True Cons.prems by (simp add: sendPacket_pq)
    next
      case (Some t)
      have h: "rt_heap t = rt_heap s" "PQ t = PQ s"
        using sent_from_fields[OF sendPacket_sent[OF Some]] by simp_all
      have hp: "rt_heap (pq_set (kept @ qs) (pq_len (PQ s) - 1) t) p = Some r"
        using Cons.prems h by simp
      show ?thesis
        using True Cons.prems Some h
        by (simp add: sendPacket_pq Cons.IH[OF hp] burst option.map_comp o_def algebra_simps)
    qed
  qed
qed

text \<open>Updating timeouts touches the queue in no way.\<close>

lemma rt_mod_pq: "rt_mod p f s = Some t \<Longrightarrow> PQ t = PQ s \<and> out t = out s"
  by (auto simp: rt_mod_def split: option.splits)

lemma rt_table_update_timeout_pq:
  "rt_table_update_timeout E rt l s = Some t \<Longrightarrow> PQ t = PQ s \<and> out t = out s"
  by (auto simp: rt_table_update_timeout_def Let_def split: option.splits if_splits dest: rt_mod_pq)

lemma verdict_update_timeouts_pq:
  "verdict_update_timeouts E d v rt ir s = Some t \<Longrightarrow> PQ t = PQ s \<and> out t = out s"
  unfolding verdict_update_timeouts_def
  by (auto split: option.splits if_splits dest!: rt_table_update_timeout_pq)

section \<open>The contract of a bounded FIFO\<close>

locale bounded_fifo =
  fixes enq :: "'a \<Rightarrow> 's \<Rightarrow> 's option"
    and contents :: "'s \<Rightarrow> 'a list"
    and wf :: "'s \<Rightarrow> bool"
    and cap :: nat
  assumes cap_pos: "0 < cap"
    and bounded: "wf s \<Longrightarrow> length (contents s) \<le> cap"
    and enq: "wf s \<Longrightarrow> enq x s = Some t \<Longrightarrow>
      wf t \<and> contents t = (if length (contents s) = cap then tl (contents s) else contents s) @ [x]"
begin

definition newest :: "'a list \<Rightarrow> 'a list" where
  "newest xs = drop (length xs - cap) xs"

lemma enq_newest: "wf s \<Longrightarrow> enq x s = Some t \<Longrightarrow> contents t = newest (contents s @ [x])"
  using enq[of s x t] bounded[of s] cap_pos by (cases "contents s") (auto simp: newest_def)

lemma newest_newest: "newest (newest xs @ [x]) = newest (xs @ [x])"
  using cap_pos by (cases "cap \<le> length xs") (auto simp: newest_def Suc_diff_le)

text \<open>After any sequence of arrivals the queue holds the newest \<open>cap\<close> ones in order.\<close>

lemma enq_all:
  "wf s \<Longrightarrow> for_each xs enq s = Some t \<Longrightarrow> wf t \<and> contents t = newest (contents s @ xs)"
proof (induction xs arbitrary: t rule: rev_induct)
  case Nil
  then show ?case using bounded[of s] by (simp add: newest_def)
next
  case (snoc x xs)
  then obtain u where u: "for_each xs enq s = Some u" "enq x u = Some t"
    by (auto simp: for_each_append)
  then have "wf u" "contents u = newest (contents s @ xs)" using snoc by auto
  then show ?case using enq[OF _ u(2)] enq_newest[OF _ u(2)] newest_newest[of "contents s @ xs" x]
    by simp
qed

end

text \<open>The instance: entries are packets (with their destination), the clock stands still.\<close>

definition pq_contents :: "aodv \<Rightarrow> packet list" where
  "pq_contents s = map qp_p (pq_head (PQ s))"

definition pq_enq :: "ext \<Rightarrow> packet \<Rightarrow> aodv \<Rightarrow> aodv option" where
  "pq_enq E p s = packet_queue_add E p (pk_daddr p) s"

interpretation pq: bounded_fifo "pq_enq E" pq_contents pq_ok MAX_QUEUE_LENGTH for E
proof (unfold_locales, goal_cases)
  case 1
  show ?case by simp
next
  case (2 s)
  then show ?case by (simp add: pq_ok_def pq_contents_def)
next
  case (3 s x t)
  then show ?case
    using packet_queue_add_spec[OF 3(1), of E x "pk_daddr x" t]
    by (simp add: pq_enq_def pq_contents_def map_tl)
qed

end
