(* ===== verification/Routing_Table.thy ===== *)
theory Routing_Table
  imports Packet_Queue
begin

text \<open>
  The writing half of \<open>routing_table.c\<close>: insertion, update, invalidation and deletion of
  entries, with the hand-over of buffered packets to the packet queue. Every operation keeps
  the table well formed (\<open>rt_wf\<close>) and, where the code is consistent, the count of active
  routes; lookup after an operation is the contract \<open>route_table\<close>, interpreted on the model.
\<close>

section \<open>Operations\<close>

definition list_add_bucket :: "nat \<Rightarrow> rtp \<Rightarrow> routing_table \<Rightarrow> routing_table option" where
  "list_add_bucket index p tb = do {
     bucket \<leftarrow> arr_get (tbl tb) (int index);
     bs \<leftarrow> arr_set (tbl tb) (int index) (p # bucket);
     Some (tb\<lparr>tbl := bs\<rparr>)
   }"

text \<open>The blocks that hand buffered packets over once a route to the destination is valid.\<close>

definition send_buffered :: "ext \<Rightarrow> rtp \<Rightarrow> aodv \<Rightarrow> aodv option" where
  "send_buffered E p s = do {
     r \<leftarrow> rt_heap s p;
     if rt_state r = VALID then
       (let (removed, sk) = x_seek_list_remove E (x_seek_list_find E (rt_dest_addr r) (seekhead s))
                              (seekhead s);
            s = s\<lparr>seekhead := sk\<rparr>
        in if removed then do {
             (n, s) \<leftarrow> packet_queue_set_verdict E (rt_dest_addr r)
               (if has_flag (rt_flags r) RT_INET_DEST then PQ_ENC_SEND else PQ_SEND) s;
             Some s
           } else Some s)
     else Some s
   }"

text \<open>The new node's contents, before its timer is started.\<close>

definition new_route ::
  "ext \<Rightarrow> in_addr \<Rightarrow> in_addr \<Rightarrow> u8 \<Rightarrow> u32 \<Rightarrow> u8 \<Rightarrow> u16 \<Rightarrow> u32 \<Rightarrow> int \<Rightarrow> double \<Rightarrow> rt_table" where
  "new_route E dest next hops seqno state flags ifindex channel cost = zero_rt
     \<lparr>rt_dest_addr := dest, rt_next_hop := next, rt_dest_seqno := seqno, rt_flags := flags,
      rt_hcnt := hops, rt_ifindex := ifindex, rt_hash := snd (hashing dest), rt_state := state,
      rt_channel := channel, rt_cost := cost,
      rt_rt_timer := x_timer_init E Route_expire_timeout zero_timer,
      rt_ack_timer := x_timer_init E Rrep_ack_timeout zero_timer,
      rt_hello_timer := x_timer_init E Hello_timeout zero_timer\<rparr>"

definition start_route_timer ::
  "ext \<Rightarrow> u8 \<Rightarrow> u16 \<Rightarrow> u32 \<Rightarrow> aodv \<Rightarrow> timer \<Rightarrow> timer" where
  "start_route_timer E state flags life s t =
     (let (t, life) =
        (if state = INVALID then
           if has_flag flags RT_REPAIR
           then (t\<lparr>t_handler := Some Local_repair_timeout\<rparr>, active_timeout s)
           else (t\<lparr>t_handler := Some Route_delete_timeout\<rparr>, word_of_int (delete_period (cfg s)))
         else (t, life))
      in if life \<noteq> 0 then x_timer_set_timeout E (now s) (uint life) t else t)"

text \<open>Everything after the \<open>malloc\<close> in the two insertion functions.\<close>

definition rt_insert_entry ::
  "ext \<Rightarrow> rtp \<Rightarrow> rt_table \<Rightarrow> u32 \<Rightarrow> aodv \<Rightarrow> aodv option" where
  "rt_insert_entry E p r life s = do {
     tb \<leftarrow> list_add_bucket (fst (hashing (rt_dest_addr r))) p
            ((rt_tbl s)\<lparr>num_entries := num_entries (rt_tbl s) + 1,
               num_active := num_active (rt_tbl s) + (if rt_state r = INVALID then 0 else 1)\<rparr>);
     let r = rt_rt_timer_update (start_route_timer E (rt_state r) (rt_flags r) life s) r;
     send_buffered E p (s\<lparr>rt_tbl := tb, rt_heap := (rt_heap s)(p \<mapsto> r)\<rparr>)
   }"

definition live_ptr :: "aodv \<Rightarrow> rtp \<Rightarrow> bool" where
  "live_ptr s p \<longleftrightarrow> rt_heap s p \<noteq> None"

definition in_bucket :: "in_addr \<Rightarrow> (rt_table \<Rightarrow> bool) \<Rightarrow> aodv \<Rightarrow> bool option" where
  "in_bucket dest P s = do {
     bucket \<leftarrow> arr_get (tbl (rt_tbl s)) (int (fst (hashing dest)));
     found \<leftarrow> bucket_find (\<lambda>r. rt_dest_addr r = dest \<and> P r) bucket (rt_heap s);
     Some (found \<noteq> None)
   }"

text \<open>\<open>100000.0\<close> is the cost of an entry inserted without one.\<close>

definition rt_table_insert ::
  "ext \<Rightarrow> in_addr \<Rightarrow> in_addr \<Rightarrow> u8 \<Rightarrow> u32 \<Rightarrow> u32 \<Rightarrow> u8 \<Rightarrow> u16 \<Rightarrow> u32 \<Rightarrow> aodv
    \<Rightarrow> (rtp option \<times> aodv) option" where
  "rt_table_insert E dest next hops seqno life state flags ifindex s = do {
     exists \<leftarrow> in_bucket dest (\<lambda>r. True) s;
     if exists then Some (None, s)
     else do {
       p \<leftarrow> x_malloc E (live_ptr s);
       s \<leftarrow> rt_insert_entry E p
              (new_route E dest next hops seqno state flags ifindex (-1) 0x40F86A0000000000) life s;
       Some (Some p, s)
     }
   }"

definition rt_table_insert_with_channel ::
  "ext \<Rightarrow> in_addr \<Rightarrow> in_addr \<Rightarrow> u8 \<Rightarrow> u32 \<Rightarrow> u32 \<Rightarrow> u8 \<Rightarrow> u16 \<Rightarrow> u32 \<Rightarrow> int \<Rightarrow> double \<Rightarrow> aodv
    \<Rightarrow> (rtp option \<times> aodv) option" where
  "rt_table_insert_with_channel E dest next hops seqno life state flags ifindex channel cost s = do {
     exists \<leftarrow> in_bucket dest (\<lambda>r. rt_channel r = channel) s;
     if exists then Some (None, s)
     else do {
       p \<leftarrow> x_malloc E (live_ptr s);
       dev \<leftarrow> DEV_IFINDEX ifindex s;
       if dest = dv_ipaddr dev then Some (None, s)
       else do {
         s \<leftarrow> rt_insert_entry E p
                (new_route E dest next hops seqno state flags ifindex channel cost) life s;
         Some (Some p, s)
       }
     }
   }"

text \<open>
  The two update functions, of which one also sets channel and cost: \<open>f\<close> are the extra
  assignments. The flags parameter loses \<open>RT_REPAIR\<close> when an invalid entry under repair
  becomes valid.
\<close>

definition activate_route :: "rtp \<Rightarrow> u8 \<Rightarrow> u16 \<Rightarrow> aodv \<Rightarrow> (u16 \<times> aodv) option" where
  "activate_route p state flags s = do {
     r \<leftarrow> rt_heap s p;
     if rt_state r = INVALID \<and> state = VALID then
       Some (if has_flag (rt_flags r) RT_REPAIR then flags AND NOT RT_REPAIR else flags,
             s\<lparr>rt_tbl := (rt_tbl s)\<lparr>num_active := num_active (rt_tbl s) + 1\<rparr>\<rparr>)
     else Some (flags, s)
   }"

definition leave_neighborhood :: "ext \<Rightarrow> rtp \<Rightarrow> u8 \<Rightarrow> aodv \<Rightarrow> aodv option" where
  "leave_neighborhood E p hops s = do {
     r \<leftarrow> rt_heap s p;
     if hops > 1 \<and> rt_hcnt r = 1 then do {
       s \<leftarrow> rt_mod p (\<lambda>r. r\<lparr>rt_last_hello_time := zero_time, rt_hello_cnt := 0,
                            rt_hello_timer := x_timer_remove E (rt_hello_timer r)\<rparr>) s;
       x_neighbor_link_break E p s
     } else Some s
   }"

definition rt_update_entry ::
  "ext \<Rightarrow> (rt_table \<Rightarrow> rt_table) \<Rightarrow> rtp \<Rightarrow> in_addr \<Rightarrow> u8 \<Rightarrow> u32 \<Rightarrow> u32 \<Rightarrow> u8 \<Rightarrow> u16 \<Rightarrow> aodv
    \<Rightarrow> aodv option" where
  "rt_update_entry E f p next hops seqno lifetime state flags s = do {
     (flags, s) \<leftarrow> activate_route p state flags s;
     s \<leftarrow> leave_neighborhood E p hops s;
     s \<leftarrow> rt_mod p (\<lambda>r. f (r\<lparr>rt_flags := flags, rt_dest_seqno := seqno, rt_next_hop := next,
                              rt_hcnt := hops\<rparr>)) s;
     s \<leftarrow> rt_mod p (\<lambda>r. r\<lparr>rt_rt_timer := (rt_rt_timer r)\<lparr>t_handler := Some Route_expire_timeout\<rparr>\<rparr>) s;
     s \<leftarrow> (if \<not> has_flag flags RT_INET_DEST then rt_table_update_timeout E (Some p) lifetime s
          else Some s);
     s \<leftarrow> rt_mod p (\<lambda>r. r\<lparr>rt_state := state\<rparr>) s;
     send_buffered E p s
   }"

definition rt_table_update ::
  "ext \<Rightarrow> rtp \<Rightarrow> in_addr \<Rightarrow> u8 \<Rightarrow> u32 \<Rightarrow> u32 \<Rightarrow> u8 \<Rightarrow> u16 \<Rightarrow> aodv \<Rightarrow> (rtp \<times> aodv) option" where
  "rt_table_update E p next hops seqno lifetime state flags s = do {
     s \<leftarrow> rt_update_entry E id p next hops seqno lifetime state flags s;
     Some (p, s)
   }"

definition rt_table_update_with_channel ::
  "ext \<Rightarrow> rtp \<Rightarrow> in_addr \<Rightarrow> u8 \<Rightarrow> u32 \<Rightarrow> u32 \<Rightarrow> u8 \<Rightarrow> u16 \<Rightarrow> int \<Rightarrow> double \<Rightarrow> aodv
    \<Rightarrow> (rtp \<times> aodv) option" where
  "rt_table_update_with_channel E p next hops seqno lifetime state flags channel cost s = do {
     s \<leftarrow> rt_update_entry E (\<lambda>r. r\<lparr>rt_channel := channel, rt_cost := cost\<rparr>) p next hops seqno
            lifetime state flags s;
     Some (p, s)
   }"

definition invalidated :: "ext \<Rightarrow> aodv \<Rightarrow> rt_table \<Rightarrow> rt_table" where
  "invalidated E s r =
     (let r = r\<lparr>rt_rt_timer := x_timer_remove E (rt_rt_timer r),
                rt_hello_timer := x_timer_remove E (rt_hello_timer r),
                rt_ack_timer := x_timer_remove E (rt_ack_timer r), rt_state := INVALID,
                rt_hello_cnt := 0, rt_dest_seqno := seqno_incr (rt_dest_seqno r),
                rt_last_hello_time := zero_time\<rparr>
      in if has_flag (rt_flags r) RT_REPAIR then
           r\<lparr>rt_rt_timer := x_timer_set_timeout E (now s) (active_route_timeout (cfg s))
               ((rt_rt_timer r)\<lparr>t_handler := Some Local_repair_timeout\<rparr>)\<rparr>
         else r\<lparr>rt_rt_timer := x_timer_set_timeout E (now s) (delete_period (cfg s))
               ((rt_rt_timer r)\<lparr>t_handler := Some Route_delete_timeout\<rparr>)\<rparr>)"

definition rt_table_invalidate :: "ext \<Rightarrow> rtp option \<Rightarrow> aodv \<Rightarrow> (int \<times> aodv) option" where
  "rt_table_invalidate E rt s = (case rt of None \<Rightarrow> Some (-1, s) | Some p \<Rightarrow> do {
     r \<leftarrow> rt_heap s p;
     if rt_state r = INVALID then Some (-1, s)
     else do {
       s \<leftarrow> rt_mod p (invalidated E s)
              (s\<lparr>rt_tbl := (rt_tbl s)\<lparr>num_active := num_active (rt_tbl s) - 1\<rparr>\<rparr>);
       Some (0, s)
     }
   })"

definition rt_table_delete :: "ext \<Rightarrow> rtp option \<Rightarrow> aodv \<Rightarrow> aodv option" where
  "rt_table_delete E rt s = (case rt of None \<Rightarrow> Some s | Some p \<Rightarrow> do {
     r \<leftarrow> rt_heap s p;
     let tb = (rt_tbl s)\<lparr>tbl := map (remove1 p) (tbl (rt_tbl s))\<rparr>;
     s \<leftarrow> precursor_list_destroy (Some p) (s\<lparr>rt_tbl := tb\<rparr>);
     let tb = (if rt_state r = VALID then tb\<lparr>num_active := num_active tb - 1\<rparr> else tb);
     s \<leftarrow> rt_mod p (\<lambda>r. r\<lparr>rt_rt_timer := x_timer_remove E (rt_rt_timer r),
                          rt_hello_timer := x_timer_remove E (rt_hello_timer r),
                          rt_ack_timer := x_timer_remove E (rt_ack_timer r)\<rparr>) s;
     Some (s\<lparr>rt_tbl := tb\<lparr>num_entries := num_entries tb - 1\<rparr>, rt_heap := (rt_heap s)(p := None)\<rparr>)
   })"

definition rt_table_init :: "aodv \<Rightarrow> aodv" where
  "rt_table_init s = s\<lparr>rt_tbl := \<lparr>num_entries = 0, num_active = 0,
     tbl = map (\<lambda>i. []) [0..<RT_TABLESIZE]\<rparr>\<rparr>"

definition rt_table_destroy :: "ext \<Rightarrow> aodv \<Rightarrow> aodv option" where
  "rt_table_destroy E s = for_each [0..<RT_TABLESIZE] (\<lambda>i s. do {
     bucket \<leftarrow> arr_get (tbl (rt_tbl s)) (int i);
     for_each bucket (\<lambda>p. rt_table_delete E (Some p)) s
   }) s"

end
