(* ===== verification/Rt_Frames.thy ===== *)
theory Rt_Frames
  imports Routing_Table
begin

text \<open>
  Frames of the routing table: which parts of it an operation may change. \<open>same_routes\<close>
  allows only the lifetime timers to differ, \<open>same_shape\<close> also everything that the
  well-formedness of the table does not depend on. Refreshing timeouts and handing over
  buffered packets keep the former, changes of one entry's contents the latter.
\<close>

section \<open>Frames\<close>

definition rt_static :: "rt_table \<Rightarrow> rt_table" where
  "rt_static r = r\<lparr>rt_rt_timer := zero_timer\<rparr>"

definition same_routes :: "aodv \<Rightarrow> aodv \<Rightarrow> bool" where
  "same_routes s t \<longleftrightarrow> rt_tbl t = rt_tbl s
     \<and> (\<forall>p. map_option rt_static (rt_heap t p) = map_option rt_static (rt_heap s p))"

definition rt_shape :: "rt_table \<Rightarrow> in_addr \<times> u32 \<times> int \<times> in_addr list" where
  "rt_shape r = (rt_dest_addr r, rt_hash r, rt_nprec r, rt_precursors r)"

definition same_shape :: "aodv \<Rightarrow> aodv \<Rightarrow> bool" where
  "same_shape s t \<longleftrightarrow> tbl (rt_tbl t) = tbl (rt_tbl s) \<and> num_entries (rt_tbl t) = num_entries (rt_tbl s)
     \<and> (\<forall>p. map_option rt_shape (rt_heap t p) = map_option rt_shape (rt_heap s p))"

text \<open>Entries stay allocated and keep their destination; new ones may appear.\<close>

definition keeps_routes :: "aodv \<Rightarrow> aodv \<Rightarrow> bool" where
  "keeps_routes s t \<longleftrightarrow> (\<forall>p r. rt_heap s p = Some r \<longrightarrow>
     (\<exists>r'. rt_heap t p = Some r' \<and> rt_dest_addr r' = rt_dest_addr r))"

lemma rt_static_eqD:
  assumes "rt_static r = rt_static r'"
  shows "rt_dest_addr r = rt_dest_addr r'" "rt_dest_seqno r = rt_dest_seqno r'"
    "rt_next_hop r = rt_next_hop r'" "rt_hcnt r = rt_hcnt r'" "rt_flags r = rt_flags r'"
    "rt_state r = rt_state r'" "rt_hash r = rt_hash r'" "rt_nprec r = rt_nprec r'"
    "rt_precursors r = rt_precursors r'" "rt_channel r = rt_channel r'" "rt_cost r = rt_cost r'"
    "rt_ifindex r = rt_ifindex r'" "rt_hello_timer r = rt_hello_timer r'"
    "rt_ack_timer r = rt_ack_timer r'"
  using assms unfolding rt_static_def by (cases r, cases r', simp)+

lemma same_routes_refl [simp]: "same_routes s s"
  by (simp add: same_routes_def)

lemma same_routes_trans: "same_routes s t \<Longrightarrow> same_routes t u \<Longrightarrow> same_routes s u"
  by (simp add: same_routes_def)

lemma same_shape_refl [simp]: "same_shape s s"
  by (simp add: same_shape_def)

lemma same_shape_trans: "same_shape s t \<Longrightarrow> same_shape t u \<Longrightarrow> same_shape s u"
  by (simp add: same_shape_def)

lemma keeps_routes_refl [simp]: "keeps_routes s s"
  by (simp add: keeps_routes_def)

lemma keeps_routes_trans: "keeps_routes s t \<Longrightarrow> keeps_routes t u \<Longrightarrow> keeps_routes s u"
  unfolding keeps_routes_def by fastforce

lemma rt_static_shape: "rt_shape r = rt_shape (rt_static r)"
  by (simp add: rt_shape_def rt_static_def)

lemma map_option_through: "(\<And>r. f r = f (g r)) \<Longrightarrow> map_option g x = map_option g y \<Longrightarrow>
    map_option f x = map_option f y"
  by (cases x; cases y) (auto, metis)

lemma same_routes_shape: "same_routes s t \<Longrightarrow> same_shape s t"
  unfolding same_routes_def same_shape_def by (auto intro: map_option_through[where f = rt_shape and g = rt_static, OF rt_static_shape])

lemma same_shape_keeps: "same_shape s t \<Longrightarrow> keeps_routes s t"
proof -
  assume sh: "same_shape s t"
  {
    fix p r assume "rt_heap s p = Some r"
    then have "map_option rt_shape (rt_heap t p) = Some (rt_shape r)"
      using sh by (simp add: same_shape_def)
    then have "\<exists>r'. rt_heap t p = Some r' \<and> rt_dest_addr r' = rt_dest_addr r"
      by (auto simp: rt_shape_def)
  }
  then show "keeps_routes s t" by (simp add: keeps_routes_def)
qed

lemma same_routesD:
  assumes "same_routes s t" and "rt_heap s p = Some r"
  obtains r' where "rt_heap t p = Some r'" "rt_static r' = rt_static r"
  using assms unfolding same_routes_def by (metis map_option_eq_Some)

lemma same_routes_None: "same_routes s t \<Longrightarrow> rt_heap s p = None \<longleftrightarrow> rt_heap t p = None"
  unfolding same_routes_def by (metis map_option_is_None)

text \<open>The well-formedness of the table depends on its shape only.\<close>

lemma same_shape_wf:
  assumes "same_shape s t" and "rt_wf s"
  shows "rt_wf t"
proof -
  have sh: "map_option rt_shape (rt_heap t p) = map_option rt_shape (rt_heap s p)" for p
    using assms(1) by (simp add: same_shape_def)
  have src: "\<exists>r'. rt_heap s p = Some r' \<and> rt_shape r' = rt_shape r" if "rt_heap t p = Some r" for p r
    using sh[of p] that by (metis map_option_eq_Some)
  have dm: "dom (rt_heap t) = dom (rt_heap s)"
    using sh by (metis (no_types, lifting) domIff option.map_disc_iff subsetI subset_antisym)
  have eqs: "tbl (rt_tbl t) = tbl (rt_tbl s)" "num_entries (rt_tbl t) = num_entries (rt_tbl s)"
    using assms(1) by (simp_all add: same_shape_def)
  have ok: "entry_ok (tbl (rt_tbl s)) p r" if "rt_heap t p = Some r" for p r
    using src[OF that] rt_wfD(5)[OF assms(2)] by (fastforce simp: entry_ok_def rt_shape_def)
  have inj: "p = q" if "rt_heap t p = Some r" "rt_heap t q = Some r'" "rt_dest_addr r = rt_dest_addr r'"
    for p q r r'
    using src[OF that(1)] src[OF that(2)] that(3) rt_wfD(6)[OF assms(2)]
    by (fastforce simp: rt_shape_def)
  show ?thesis
    unfolding rt_wf_def eqs dm RT_TABLESIZE_def using rt_wfD(1-4)[OF assms(2)] ok inj by blast
qed

lemma same_routes_wf: "same_routes s t \<Longrightarrow> rt_wf s \<Longrightarrow> rt_wf t"
  by (blast intro: same_shape_wf same_routes_shape)

lemma same_routes_find:
  assumes "same_routes s t" and "rt_wf s"
  shows "rt_table_find d t = rt_table_find d s"
proof (rule rs.find_cong[OF assms(2) same_routes_wf[OF assms]])
  fix p
  have key: "rt_dest_addr r = rt_dest_addr (rt_static r)" for r by (simp add: rt_static_def)
  have "map_option rt_static (rt_heap t p) = map_option rt_static (rt_heap s p)"
    using assms(1) by (simp add: same_routes_def)
  then show "map_option rt_dest_addr (rt_heap t p) = map_option rt_dest_addr (rt_heap s p)"
    by (rule map_option_through[where f = rt_dest_addr and g = rt_static, OF key])
qed

section \<open>Operations inside the frames\<close>

lemma rt_mod_SomeD:
  "rt_mod p f s = Some t \<Longrightarrow> \<exists>r. rt_heap s p = Some r \<and> t = s\<lparr>rt_heap := (rt_heap s)(p \<mapsto> f r)\<rparr>"
  by (auto simp: rt_mod_def split: option.splits)

lemma rt_mod_same_routes:
  "rt_mod p f s = Some t \<Longrightarrow> (\<And>r. rt_static (f r) = rt_static r) \<Longrightarrow> same_routes s t"
  by (auto simp: same_routes_def dest!: rt_mod_SomeD)

lemma rt_mod_same_shape:
  "rt_mod p f s = Some t \<Longrightarrow> (\<And>r. rt_shape (f r) = rt_shape r) \<Longrightarrow> same_shape s t"
  by (auto simp: same_shape_def dest!: rt_mod_SomeD)

lemma sent_from_same_routes: "sent_from s t \<Longrightarrow> same_routes s t"
  by (simp add: same_routes_def sent_from_fields)

lemma pq_set_same_routes [simp]: "same_routes s (pq_set qs n t) = same_routes s t"
  "same_routes (pq_set qs n s) t = same_routes s t"
  by (simp_all add: same_routes_def)

lemma drop_pkt_same_routes [simp]: "same_routes s (drop_pkt p why t) = same_routes s t"
  "same_routes (drop_pkt p why s) t = same_routes s t"
  by (simp_all add: same_routes_def)

lemma rt_table_update_timeout_same:
  "rt_table_update_timeout E rt l s = Some t \<Longrightarrow> same_routes s t"
  by (auto simp: rt_table_update_timeout_def Let_def rt_static_def split: option.splits if_splits
      elim!: rt_mod_same_routes)

lemma refresh_route_same: "refresh_route E P rt s = Some t \<Longrightarrow> same_routes s t"
  unfolding refresh_route_def
  by (auto split: option.splits if_splits dest!: rt_table_update_timeout_same
      intro: same_routes_trans)

lemma rt_table_update_route_timeouts_same:
  "rt_table_update_route_timeouts E f r s = Some t \<Longrightarrow> same_routes s t"
  unfolding rt_table_update_route_timeouts_def
  by (auto dest!: refresh_route_same intro: same_routes_trans)

lemma verdict_loop_same:
  "verdict_loop E d v rt qs kept delay n s = Some res \<Longrightarrow>
    (case res of Inl t \<Rightarrow> same_routes s t | Inr (k, t) \<Rightarrow> same_routes s t)"
proof (induction E d v rt qs kept delay n s rule: verdict_loop.induct)
  case (1 E d v rt kept delay count s)
  then show ?case by auto
next
  case (2 E d v rt q qs kept delay count s)
  show ?case
  proof (cases "qp_dest_addr q = d")
    case False
    then show ?thesis using 2 by auto
  next
    case True
    show ?thesis
    proof (cases v)
      case PQ_SEND
      show ?thesis
      proof (cases rt)
        case None
        then show ?thesis using 2(5) PQ_SEND True by auto
      next
        case (Some p)
        from 2(5) True PQ_SEND Some obtain r u where u: "rt_heap s p = Some r"
          "sendPacket E (qp_p q) (rt_next_hop r) delay (pq_set (kept @ qs) (pq_len (PQ s)) s) = Some u"
          "verdict_loop E d v rt qs kept (fp_add (x_fp E) delay ARP_DELAY) (count + 1)
             (pq_set (kept @ qs) (pq_len (PQ u) - 1) u) = Some res"
          using sent_from_fields(11)[OF sendPacket_sent] by (auto simp del: ARP_DELAY_def)
        have "same_routes s u" using sent_from_same_routes[OF sendPacket_sent[OF u(2)]] by simp
        moreover have "case res of Inl t \<Rightarrow> same_routes u t | Inr (k, t) \<Rightarrow> same_routes u t"
          using 2(2)[OF True PQ_SEND Some u(1) u(2)] u(3) PQ_SEND Some
          by (simp split: sum.splits prod.splits del: ARP_DELAY_def)
        ultimately show ?thesis by (auto split: sum.splits prod.splits intro: same_routes_trans)
      qed
    next
      case PQ_DROP
      then show ?thesis using 2 True by (auto split: sum.splits)
    next
      case PQ_ENC_SEND
      then show ?thesis using 2 True by (auto split: sum.splits)
    qed
  qed
qed

lemma verdict_update_timeouts_same:
  "verdict_update_timeouts E d v rt ir s = Some t \<Longrightarrow> same_routes s t"
  unfolding verdict_update_timeouts_def
  by (auto split: option.splits if_splits dest!: rt_table_update_timeout_same
      intro: same_routes_trans)

lemma packet_queue_set_verdict_same:
  "packet_queue_set_verdict E d v s = Some (n, t) \<Longrightarrow> same_routes s t"
proof -
  assume "packet_queue_set_verdict E d v s = Some (n, t)"
  then consider "t = s"
    | rt ir res where "verdict_loop E d v rt (pq_head (PQ s)) [] 0 0 s = Some res"
      "(case res of Inl s \<Rightarrow> Some (-1, s)
        | Inr (count, s) \<Rightarrow> do { s \<leftarrow> verdict_update_timeouts E d v rt ir s; Some (count, s) }) = Some (n, t)"
    unfolding packet_queue_set_verdict_def by (auto split: if_splits)
  then show "same_routes s t"
  proof cases
    case 2
    show ?thesis using verdict_loop_same[OF 2(1)] 2(2)
      by (auto split: sum.splits dest!: verdict_update_timeouts_same intro: same_routes_trans)
  qed simp
qed

lemma send_buffered_same: "send_buffered E p s = Some t \<Longrightarrow> same_routes s t"
proof -
  have sk: "same_routes (s\<lparr>seekhead := l\<rparr>) t = same_routes s t" "same_routes s (s\<lparr>seekhead := l\<rparr>)" for l
    by (simp_all add: same_routes_def)
  show "send_buffered E p s = Some t \<Longrightarrow> same_routes s t"
    unfolding send_buffered_def
    by (auto simp: Let_def sk split: if_splits prod.splits dest!: packet_queue_set_verdict_same)
qed

end
