(* ===== verification/Rt_Props.thy ===== *)
theory Rt_Props
  imports Rt_Frames
begin

text \<open>
  The correctness of the writing half of the routing table: what the code outside the
  repository promises (\<open>ext_ok\<close>), the effect of each operation on the set of entries, the
  preservation of \<open>rt_wf\<close>, the accounting of active routes (\<open>rt_counted\<close>), and the contract
  \<open>route_table\<close> of lookup after insertion, update and deletion.
\<close>

section \<open>What the outside code promises\<close>

text \<open>
  \<open>malloc\<close> returns an address that is not in use (addresses number the live objects, of which
  there are fewer than \<open>2 ^ 32 - 1\<close>); the two functions of the neighbour module keep the table
  well formed and never delete an entry.
\<close>

definition malloc_ok :: "ext \<Rightarrow> bool" where
  "malloc_ok E \<longleftrightarrow> (\<forall>live p. x_malloc E live = Some p \<longrightarrow> \<not> live p \<and> p < 2 ^ 32 - 1)"

lemma malloc_okD: "malloc_ok E \<Longrightarrow> x_malloc E live = Some p \<Longrightarrow> \<not> live p \<and> p < 2 ^ 32 - 1"
  unfolding malloc_ok_def by blast

definition neighbors_ok :: "ext \<Rightarrow> bool" where
  "neighbors_ok E \<longleftrightarrow>
     (\<forall>p s t. rt_wf s \<longrightarrow> x_neighbor_link_break E p s = Some t \<longrightarrow> rt_wf t \<and> keeps_routes s t)
   \<and> (\<forall>a i s t. rt_wf s \<longrightarrow> x_neighbor_add E a i s = Some t \<longrightarrow> rt_wf t \<and> keeps_routes s t)"

definition ext_ok :: "ext \<Rightarrow> bool" where
  "ext_ok E \<longleftrightarrow> malloc_ok E \<and> neighbors_ok E"

section \<open>Buckets\<close>

lemma list_decomp_at:
  assumes "i < length bs"
  obtains xs b ys where "bs = xs @ b # ys" "length xs = i"
  using assms by (metis id_take_nth_drop length_take min.absorb4)

lemma bucket_add:
  assumes "i < length bs" and "p \<notin> set (concat bs)" and "distinct (concat bs)"
  shows "distinct (concat (bs[i := p # bs ! i]))"
    and "set (concat (bs[i := p # bs ! i])) = insert p (set (concat bs))"
    and "length (concat (bs[i := p # bs ! i])) = Suc (length (concat bs))"
proof -
  obtain xs b ys where "bs = xs @ b # ys" "length xs = i" using list_decomp_at[OF assms(1)] .
  then show "distinct (concat (bs[i := p # bs ! i]))"
    and "set (concat (bs[i := p # bs ! i])) = insert p (set (concat bs))"
    and "length (concat (bs[i := p # bs ! i])) = Suc (length (concat bs))"
    using assms(2,3) by (auto simp: list_update_append nth_append)
qed

lemma bucket_remove:
  assumes "distinct (concat bs)"
  shows "concat (map (remove1 p) bs) = removeAll p (concat bs)"
  using assms by (induction bs) (auto simp: distinct_remove1_removeAll removeAll_append)

lemma length_removeAll_distinct:
  "distinct xs \<Longrightarrow> p \<in> set xs \<Longrightarrow> Suc (length (removeAll p xs)) = length xs"
  by (induction xs) auto

section \<open>Insertion\<close>

lemma rt_wf_add:
  assumes wf: "rt_wf s" and p: "rt_heap s p = None" "p < 2 ^ 32 - 1"
    and fresh: "\<And>q r'. rt_heap s q = Some r' \<Longrightarrow> rt_dest_addr r' \<noteq> rt_dest_addr r"
    and r: "rt_hash r = rt_dest_addr r" "rt_nprec r = 0" "rt_precursors r = []"
    and bs: "bs = (tbl (rt_tbl s))[fst (hashing (rt_dest_addr r)) := p # tbl (rt_tbl s) ! fst (hashing (rt_dest_addr r))]"
    and t: "tbl (rt_tbl t) = bs" "num_entries (rt_tbl t) = num_entries (rt_tbl s) + 1"
      "rt_heap t = (rt_heap s)(p \<mapsto> r)"
  shows "rt_wf t"
proof -
  let ?b = "tbl (rt_tbl s)" and ?i = "fst (hashing (rt_dest_addr r))"
  note w = rt_wfD[OF wf]
  have i: "?i < length ?b" using hash_index_less[of "rt_dest_addr r"] w(1) by simp
  have np: "p \<notin> set (concat ?b)" using p(1) w(3) by auto
  note add = bucket_add[OF i np w(2), folded bs]
  have mono: "x \<in> set (?b ! j) \<Longrightarrow> x \<in> set (bs ! j)" if "j < length ?b" for x j
    using that by (cases "j = ?i") (simp_all add: bs nth_list_update)
  have ok: "entry_ok bs q r'" if "rt_heap t q = Some r'" for q r'
  proof (cases "q = p")
    case True
    then show ?thesis using that t(3) i r p(2) by (simp add: entry_ok_def bs)
  next
    case False
    then have "entry_ok ?b q r'" using that t(3) w(5) by simp
    moreover have "fst (hashing (rt_dest_addr r')) < length ?b"
      using hash_index_less[of "rt_dest_addr r'"] w(1) by simp
    ultimately show ?thesis using mono by (simp add: entry_ok_def)
  qed
  have inj: "q = q'" if "rt_heap t q = Some r1" "rt_heap t q' = Some r2" "rt_dest_addr r1 = rt_dest_addr r2"
    for q q' r1 r2
    using that fresh w(6) by (auto simp: t(3) split: if_splits dest!: sym[of "rt_dest_addr r"])
  have dm: "dom (rt_heap t) = insert p (dom (rt_heap s))" by (simp add: t(3))
  show ?thesis
    unfolding rt_wf_def t(1,2) dm add(2,3) w(3) using add(1) w(1,4) ok inj
    by (auto simp: bs simp del: length_concat)
qed

lemma start_route_timer_static [simp]:
  "rt_static (rt_rt_timer_update f r) = rt_static r"
  by (simp add: rt_static_def)

text \<open>The state in which \<open>send_buffered\<close> is called at the end of an insertion.\<close>

lemma rt_insert_entry_spec:
  assumes wf: "rt_wf s" and p: "rt_heap s p = None" "p < 2 ^ 32 - 1"
    and fresh: "\<And>q r'. rt_heap s q = Some r' \<Longrightarrow> rt_dest_addr r' \<noteq> rt_dest_addr r"
    and r: "rt_hash r = rt_dest_addr r" "rt_nprec r = 0" "rt_precursors r = []"
    and ins: "rt_insert_entry E p r life s = Some t"
  obtains u r' where "rt_wf u" "same_routes u t" "rt_static r' = rt_static r"
    "rt_heap u = (rt_heap s)(p \<mapsto> r')"
    "num_active (rt_tbl u) = num_active (rt_tbl s) + (if rt_state r = INVALID then 0 else 1)"
    "num_entries (rt_tbl u) = num_entries (rt_tbl s) + 1"
proof -
  define r' where "r' = rt_rt_timer_update (start_route_timer E (rt_state r) (rt_flags r) life s) r"
  define tb where "tb = (rt_tbl s)\<lparr>num_entries := num_entries (rt_tbl s) + 1,
    num_active := num_active (rt_tbl s) + (if rt_state r = INVALID then 0 else 1),
    tbl := (tbl (rt_tbl s))[fst (hashing (rt_dest_addr r)) := p # tbl (rt_tbl s) ! fst (hashing (rt_dest_addr r))]\<rparr>"
  define u where "u = s\<lparr>rt_tbl := tb, rt_heap := (rt_heap s)(p \<mapsto> r')\<rparr>"
  have i: "fst (hashing (rt_dest_addr r)) < length (tbl (rt_tbl s))"
    using hash_index_less[of "rt_dest_addr r"] rt_wfD(1)[OF wf] by simp
  have d: "rt_dest_addr r' = rt_dest_addr r" by (simp add: r'_def)
  have "send_buffered E p u = Some t"
    using ins i unfolding rt_insert_entry_def list_add_bucket_def u_def tb_def r'_def
    by (auto simp: arr_get_def arr_set_def Let_def split: if_splits)
  then have "same_routes u t" by (rule send_buffered_same)
  moreover have "rt_wf u"
    by (rule rt_wf_add[OF wf p, of r' "tbl tb" u])
      (use fresh r in \<open>auto simp: u_def d tb_def r'_def\<close>)
  moreover have "rt_static r' = rt_static r" by (simp add: r'_def)
  ultimately show ?thesis using that[of u r'] by (simp add: u_def tb_def)
qed

lemma in_bucket_eq:
  assumes "rt_wf s"
  shows "in_bucket d P s = Some (\<exists>p r. rt_heap s p = Some r \<and> rt_dest_addr r = d \<and> P r)"
proof -
  let ?b = "tbl (rt_tbl s) ! fst (hashing d)"
  have i: "fst (hashing d) < length (tbl (rt_tbl s))"
    using hash_index_less[of d] rt_wfD(1)[OF assms] by simp
  have sub: "set ?b \<subseteq> dom (rt_heap s)" using rt_wfD(3)[OF assms] nth_mem[OF i] by auto
  have "(find (\<lambda>p. rt_dest_addr (the (rt_heap s p)) = d \<and> P (the (rt_heap s p))) ?b \<noteq> None) =
      (\<exists>p r. rt_heap s p = Some r \<and> rt_dest_addr r = d \<and> P r)" (is "?l = ?r")
  proof
    assume ?l
    then show ?r using sub find_SomeD by fastforce
  next
    assume ?r
    then obtain p r where pr: "rt_heap s p = Some r" "rt_dest_addr r = d" "P r" by blast
    then have "p \<in> set ?b" using rt_wfD(5)[OF assms] by (auto simp: entry_ok_def)
    then show ?l using pr find_not_None by fastforce
  qed
  then show ?thesis using i sub by (simp add: in_bucket_def arr_get_def bucket_find_spec)
qed

lemma new_route_simps [simp]:
  "rt_dest_addr (new_route E d n h q st fl i c w) = d" "rt_next_hop (new_route E d n h q st fl i c w) = n"
  "rt_hcnt (new_route E d n h q st fl i c w) = h" "rt_dest_seqno (new_route E d n h q st fl i c w) = q"
  "rt_state (new_route E d n h q st fl i c w) = st" "rt_flags (new_route E d n h q st fl i c w) = fl"
  "rt_hash (new_route E d n h q st fl i c w) = d" "rt_channel (new_route E d n h q st fl i c w) = c"
  "rt_cost (new_route E d n h q st fl i c w) = w" "rt_nprec (new_route E d n h q st fl i c w) = 0"
  "rt_precursors (new_route E d n h q st fl i c w) = []" "rt_ifindex (new_route E d n h q st fl i c w) = i"
  by (simp_all add: new_route_def zero_rt_def hashing_def)

text \<open>Both insertions in one: either nothing is inserted or one entry, with the contents given.\<close>

definition inserted :: "aodv \<Rightarrow> rtp \<Rightarrow> rt_table \<Rightarrow> aodv \<Rightarrow> bool" where
  "inserted s p r t \<longleftrightarrow> rt_wf t \<and> rt_heap s p = None
     \<and> map_option rt_static (rt_heap t p) = Some (rt_static r)
     \<and> (\<forall>q. q \<noteq> p \<longrightarrow> map_option rt_static (rt_heap t q) = map_option rt_static (rt_heap s q))
     \<and> num_active (rt_tbl t) = num_active (rt_tbl s) + (if rt_state r = INVALID then 0 else 1)
     \<and> num_entries (rt_tbl t) = num_entries (rt_tbl s) + 1"

lemma inserted_entry:
  assumes "rt_wf s" and "malloc_ok E" and "x_malloc E (live_ptr s) = Some p"
    and "\<And>q r'. rt_heap s q = Some r' \<Longrightarrow> rt_dest_addr r' \<noteq> d"
    and "rt_insert_entry E p (new_route E d n h q st fl i c w) life s = Some t"
  shows "inserted s p (new_route E d n h q st fl i c w) t"
proof -
  have p: "rt_heap s p = None" "p < 2 ^ 32 - 1" using malloc_okD[OF assms(2,3)] by (simp_all add: live_ptr_def)
  obtain u r' where u: "rt_wf u" "same_routes u t" "rt_static r' = rt_static (new_route E d n h q st fl i c w)"
    "rt_heap u = (rt_heap s)(p \<mapsto> r')"
    "num_active (rt_tbl u) = num_active (rt_tbl s) + (if st = INVALID then 0 else 1)"
    "num_entries (rt_tbl u) = num_entries (rt_tbl s) + 1"
    by (rule rt_insert_entry_spec[OF assms(1) p _ _ _ _ assms(5)]) (use assms(4) in auto)
  then show ?thesis using p(1) same_routes_wf[OF u(2,1)]
    by (simp add: inserted_def same_routes_def)
qed

lemma rt_table_insert_cases:
  assumes wf: "rt_wf s" and m: "malloc_ok E"
    and ins: "rt_table_insert E d n h q life st fl i s = Some (res, t)"
  shows "(\<exists>p r. rt_heap s p = Some r \<and> rt_dest_addr r = d) \<and> res = None \<and> t = s
    \<or> (\<exists>p. res = Some p \<and> (\<forall>q r. rt_heap s q = Some r \<longrightarrow> rt_dest_addr r \<noteq> d)
         \<and> inserted s p (new_route E d n h q st fl i (-1) 0x40F86A0000000000) t)"
proof (cases "\<exists>p r. rt_heap s p = Some r \<and> rt_dest_addr r = d")
  case True
  then show ?thesis using ins by (simp add: rt_table_insert_def in_bucket_eq[OF wf])
next
  case False
  then have "\<not> (\<exists>p r. rt_heap s p = Some r \<and> rt_dest_addr r = d)" .
  then obtain p where "x_malloc E (live_ptr s) = Some p" "res = Some p"
    "rt_insert_entry E p (new_route E d n h q st fl i (-1) 0x40F86A0000000000) life s = Some t"
    using ins by (auto simp: rt_table_insert_def in_bucket_eq[OF wf] split: if_splits)
  then show ?thesis using inserted_entry[OF wf m] False by blast
qed

lemma rt_table_insert_with_channel_cases:
  assumes wf: "rt_wf s" and m: "malloc_ok E" and new: "\<And>p r. rt_heap s p = Some r \<Longrightarrow> rt_dest_addr r \<noteq> d"
    and ins: "rt_table_insert_with_channel E d n h q life st fl i c w s = Some (res, t)"
  shows "res = None \<and> t = s \<and> (\<exists>dev. DEV_IFINDEX i s = Some dev \<and> d = dv_ipaddr dev)
    \<or> (\<exists>p. res = Some p \<and> inserted s p (new_route E d n h q st fl i c w) t)"
proof -
  have "in_bucket d (\<lambda>r. rt_channel r = c) s = Some False" using new by (auto simp: in_bucket_eq[OF wf])
  then obtain p dev where "x_malloc E (live_ptr s) = Some p" "DEV_IFINDEX i s = Some dev"
    "d = dv_ipaddr dev \<and> res = None \<and> t = s \<or> d \<noteq> dv_ipaddr dev \<and> res = Some p \<and>
      rt_insert_entry E p (new_route E d n h q st fl i c w) life s = Some t"
    using ins by (auto simp: rt_table_insert_with_channel_def split: if_splits)
  then show ?thesis using inserted_entry[OF wf m, where d = d] new by blast
qed

end
