(* ===== verification/Rt_Contract.thy ===== *)
theory Rt_Contract
  imports Rt_Props
begin

text \<open>
  Update, invalidation and deletion of routing entries, the accounting of active routes, and
  the contract of the whole table: what lookup returns after each operation (locale
  \<open>route_table\<close>, which extends \<open>route_store\<close>).
\<close>

section \<open>Update\<close>

lemma activate_route_shape: "activate_route p st fl s = Some (fl', t) \<Longrightarrow> same_shape s t"
  by (auto simp: activate_route_def same_shape_def split: if_splits)

lemma leave_neighborhood_wf:
  assumes "neighbors_ok E" and "rt_wf s" and "leave_neighborhood E p h s = Some t"
  shows "rt_wf t \<and> keeps_routes s t"
proof -
  obtain r where r: "rt_heap s p = Some r" using assms(3) by (auto simp: leave_neighborhood_def)
  show ?thesis
  proof (cases "h > 1 \<and> rt_hcnt r = 1")
    case False
    then show ?thesis using assms r by (auto simp: leave_neighborhood_def)
  next
    case True
    then obtain u where u: "rt_mod p (\<lambda>r. r\<lparr>rt_last_hello_time := zero_time, rt_hello_cnt := 0,
          rt_hello_timer := x_timer_remove E (rt_hello_timer r)\<rparr>) s = Some u"
      and lb: "x_neighbor_link_break E p u = Some t"
      using assms(3) r by (auto simp: leave_neighborhood_def)
    have sh: "same_shape s u" using rt_mod_same_shape[OF u] by (simp add: rt_shape_def)
    then have "rt_wf u" using assms(2) same_shape_wf by blast
    then show ?thesis using assms(1) lb same_shape_keeps[OF sh]
      unfolding neighbors_ok_def by (blast intro: keeps_routes_trans)
  qed
qed

lemma rt_mod_heap: "rt_mod p f s = Some t \<Longrightarrow> rt_heap s p = Some r \<Longrightarrow>
    rt_heap t = (rt_heap s)(p \<mapsto> f r) \<and> rt_tbl t = rt_tbl s"
  by (auto simp: rt_mod_def)

text \<open>What an update makes of the entry: everything given, and the state last.\<close>

definition updated_to :: "in_addr \<Rightarrow> u8 \<Rightarrow> u32 \<Rightarrow> u8 \<Rightarrow> u16 \<Rightarrow> rt_table \<Rightarrow> bool" where
  "updated_to next hops seqno state flags r \<longleftrightarrow> rt_next_hop r = next \<and> rt_hcnt r = hops
     \<and> rt_dest_seqno r = seqno \<and> rt_state r = state \<and> rt_flags r = flags"

definition update_flags :: "rt_table \<Rightarrow> u8 \<Rightarrow> u16 \<Rightarrow> u16" where
  "update_flags r state flags =
     (if rt_state r = INVALID \<and> state = VALID \<and> has_flag (rt_flags r) RT_REPAIR
      then flags AND NOT RT_REPAIR else flags)"

lemma activate_route_flags:
  "rt_heap s p = Some r0 \<Longrightarrow> \<exists>s1. activate_route p st fl s = Some (update_flags r0 st fl, s1)"
  by (simp add: activate_route_def update_flags_def)

lemma rt_update_entry_steps:
  assumes "rt_update_entry E f p n h q life st fl s = Some t" and "rt_heap s p = Some r0"
  obtains s1 s2 r2 s5 r5 where
    "activate_route p st fl s = Some (update_flags r0 st fl, s1)"
    "leave_neighborhood E p h s1 = Some s2" "rt_heap s2 p = Some r2"
    "same_routes (s2\<lparr>rt_heap := (rt_heap s2)(p \<mapsto> f (r2\<lparr>rt_flags := update_flags r0 st fl,
       rt_dest_seqno := q, rt_next_hop := n, rt_hcnt := h\<rparr>))\<rparr>) s5"
    "rt_heap s5 p = Some r5"
    "same_routes (s5\<lparr>rt_heap := (rt_heap s5)(p \<mapsto> r5\<lparr>rt_state := st\<rparr>)\<rparr>) t"
proof -
  let ?fl = "update_flags r0 st fl"
  let ?g = "\<lambda>r. f (r\<lparr>rt_flags := ?fl, rt_dest_seqno := q, rt_next_hop := n, rt_hcnt := h\<rparr>)"
  obtain s1 where act: "activate_route p st fl s = Some (?fl, s1)"
    using activate_route_flags[OF assms(2)] by blast
  obtain s2 s3 s4 s5 s6 where
    st1: "activate_route p st fl s = Some (?fl, s1)" and
    st2: "leave_neighborhood E p h s1 = Some s2" and
    st3: "rt_mod p ?g s2 = Some s3" and
    st4: "rt_mod p (\<lambda>r. r\<lparr>rt_rt_timer := (rt_rt_timer r)\<lparr>t_handler := Some Route_expire_timeout\<rparr>\<rparr>) s3 = Some s4" and
    st5: "(if \<not> has_flag ?fl RT_INET_DEST then rt_table_update_timeout E (Some p) life s4 else Some s4) = Some s5" and
    st6: "rt_mod p (\<lambda>r. r\<lparr>rt_state := st\<rparr>) s5 = Some s6" and
    st7: "send_buffered E p s6 = Some t"
    using assms(1) act unfolding rt_update_entry_def
    by (simp del: RT_INET_DEST_def) blast
  obtain r2 where r2: "rt_heap s2 p = Some r2" and s3: "s3 = s2\<lparr>rt_heap := (rt_heap s2)(p \<mapsto> ?g r2)\<rparr>"
    using rt_mod_SomeD[OF st3] by blast
  have "same_routes s3 s4" using rt_mod_same_routes[OF st4] by (simp add: rt_static_def)
  moreover have "same_routes s4 s5"
    using st5 by (auto split: if_splits dest: rt_table_update_timeout_same)
  ultimately have "same_routes s3 s5" by (rule same_routes_trans)
  moreover obtain r5 where "rt_heap s5 p = Some r5"
    and "s6 = s5\<lparr>rt_heap := (rt_heap s5)(p \<mapsto> r5\<lparr>rt_state := st\<rparr>)\<rparr>"
    using rt_mod_SomeD[OF st6] by blast
  ultimately show ?thesis using that st1 st2 r2 send_buffered_same[OF st7] by (simp add: s3)
qed

definition plain_update :: "(rt_table \<Rightarrow> rt_table) \<Rightarrow> bool" where
  "plain_update f \<longleftrightarrow> (\<forall>r. rt_shape (f r) = rt_shape r \<and> rt_next_hop (f r) = rt_next_hop r
     \<and> rt_hcnt (f r) = rt_hcnt r \<and> rt_dest_seqno (f r) = rt_dest_seqno r
     \<and> rt_state (f r) = rt_state r \<and> rt_flags (f r) = rt_flags r)"

lemma plain_updates [simp]: "plain_update id" "plain_update (\<lambda>r. r\<lparr>rt_channel := c, rt_cost := w\<rparr>)"
  by (simp_all add: plain_update_def rt_shape_def)

lemma same_shape_upd:
  "rt_heap s p = Some r \<Longrightarrow> rt_shape r' = rt_shape r \<Longrightarrow> same_shape s (s\<lparr>rt_heap := (rt_heap s)(p \<mapsto> r')\<rparr>)"
  by (simp add: same_shape_def)

lemma rt_update_entry_wf:
  assumes nb: "neighbors_ok E" and wf: "rt_wf s" and f: "plain_update f"
    and up: "rt_update_entry E f p n h q life st fl s = Some t"
  shows "rt_wf t \<and> keeps_routes s t"
proof -
  obtain r0 where r0: "rt_heap s p = Some r0"
    using up by (auto simp: rt_update_entry_def activate_route_def)
  obtain s1 s2 r2 s5 r5 where steps:
    "activate_route p st fl s = Some (update_flags r0 st fl, s1)"
    "leave_neighborhood E p h s1 = Some s2" "rt_heap s2 p = Some r2"
    "same_routes (s2\<lparr>rt_heap := (rt_heap s2)(p \<mapsto> f (r2\<lparr>rt_flags := update_flags r0 st fl,
       rt_dest_seqno := q, rt_next_hop := n, rt_hcnt := h\<rparr>))\<rparr>) s5"
    "rt_heap s5 p = Some r5"
    "same_routes (s5\<lparr>rt_heap := (rt_heap s5)(p \<mapsto> r5\<lparr>rt_state := st\<rparr>)\<rparr>) t"
    using rt_update_entry_steps[OF up r0] .
  have 1: "same_shape s s1" using activate_route_shape[OF steps(1)] .
  have 2: "rt_wf s2 \<and> keeps_routes s1 s2"
    using leave_neighborhood_wf[OF nb same_shape_wf[OF 1 wf] steps(2)] .
  have sh: "rt_shape (f (r2\<lparr>rt_flags := update_flags r0 st fl, rt_dest_seqno := q,
      rt_next_hop := n, rt_hcnt := h\<rparr>)) = rt_shape r2"
    using f by (simp add: plain_update_def rt_shape_def)
  have 3: "same_shape s2 s5"
    using same_shape_upd[OF steps(3) sh] same_routes_shape[OF steps(4)] by (rule same_shape_trans)
  have "same_shape s5 t"
    using same_shape_upd[OF steps(5), of "r5\<lparr>rt_state := st\<rparr>"] same_routes_shape[OF steps(6)]
    by (auto simp: rt_shape_def intro: same_shape_trans)
  then have 4: "same_shape s2 t" using 3 by (blast intro: same_shape_trans)
  show ?thesis using 2 same_shape_wf[OF 4] same_shape_keeps[OF 1] same_shape_keeps[OF 4]
    by (blast intro: keeps_routes_trans)
qed

lemma rt_update_entry_entry:
  assumes f: "plain_update f" and r0: "rt_heap s p = Some r0"
    and up: "rt_update_entry E f p n h q life st fl s = Some t"
  shows "\<exists>r'. rt_heap t p = Some r' \<and> updated_to n h q st (update_flags r0 st fl) r'
    \<and> (\<exists>r2. rt_channel r' = rt_channel (f r2) \<and> rt_cost r' = rt_cost (f r2))"
proof -
  obtain s1 s2 r2 s5 r5 where steps:
    "activate_route p st fl s = Some (update_flags r0 st fl, s1)"
    "leave_neighborhood E p h s1 = Some s2" "rt_heap s2 p = Some r2"
    "same_routes (s2\<lparr>rt_heap := (rt_heap s2)(p \<mapsto> f (r2\<lparr>rt_flags := update_flags r0 st fl,
       rt_dest_seqno := q, rt_next_hop := n, rt_hcnt := h\<rparr>))\<rparr>) s5"
    "rt_heap s5 p = Some r5"
    "same_routes (s5\<lparr>rt_heap := (rt_heap s5)(p \<mapsto> r5\<lparr>rt_state := st\<rparr>)\<rparr>) t"
    using rt_update_entry_steps[OF up r0] .
  let ?r3 = "f (r2\<lparr>rt_flags := update_flags r0 st fl, rt_dest_seqno := q, rt_next_hop := n, rt_hcnt := h\<rparr>)"
  have "rt_static r5 = rt_static ?r3"
    using same_routesD[OF steps(4), of p ?r3] steps(5) by auto
  note e5 = rt_static_eqD[OF this]
  obtain r' where r': "rt_heap t p = Some r'" "rt_static r' = rt_static (r5\<lparr>rt_state := st\<rparr>)"
    using same_routesD[OF steps(6), of p "r5\<lparr>rt_state := st\<rparr>"] by auto
  show ?thesis
    using r'(1) rt_static_eqD[OF r'(2)] e5 f
    by (intro exI[of _ r'] conjI exI[of _ "r2\<lparr>rt_flags := update_flags r0 st fl, rt_dest_seqno := q,
        rt_next_hop := n, rt_hcnt := h\<rparr>"]) (auto simp: updated_to_def plain_update_def)
qed

section \<open>Invalidation\<close>

lemma invalidated_simps [simp]:
  "rt_shape (invalidated E s r) = rt_shape r" "rt_state (invalidated E s r) = INVALID"
  "rt_dest_seqno (invalidated E s r) = seqno_incr (rt_dest_seqno r)"
  "rt_flags (invalidated E s r) = rt_flags r" "rt_next_hop (invalidated E s r) = rt_next_hop r"
  "rt_hcnt (invalidated E s r) = rt_hcnt r" "rt_channel (invalidated E s r) = rt_channel r"
  "rt_hello_cnt (invalidated E s r) = 0"
  by (simp_all add: invalidated_def Let_def rt_shape_def)

lemma rt_table_invalidate_cases:
  assumes "rt_table_invalidate E (Some p) s = Some (res, t)"
  obtains r where "rt_heap s p = Some r" "rt_state r = INVALID" "res = -1" "t = s"
  | r where "rt_heap s p = Some r" "rt_state r \<noteq> INVALID" "res = 0"
    "t = s\<lparr>rt_tbl := (rt_tbl s)\<lparr>num_active := num_active (rt_tbl s) - 1\<rparr>,
           rt_heap := (rt_heap s)(p \<mapsto> invalidated E s r)\<rparr>"
  using assms by (auto simp: rt_table_invalidate_def rt_mod_def split: if_splits)

lemma rt_table_invalidate_shape:
  "rt_table_invalidate E rt s = Some (res, t) \<Longrightarrow> same_shape s t"
proof (cases rt)
  case None
  then show "rt_table_invalidate E rt s = Some (res, t) \<Longrightarrow> same_shape s t"
    by (simp add: rt_table_invalidate_def)
next
  case (Some p)
  then show "rt_table_invalidate E rt s = Some (res, t) \<Longrightarrow> same_shape s t"
    by (auto simp: same_shape_def elim!: rt_table_invalidate_cases)
qed

section \<open>Deletion\<close>

text \<open>The counters after a deletion, and the entry gone.\<close>

lemma rt_table_delete_eq:
  assumes "rt_heap s p = Some r"
  shows "rt_table_delete E (Some p) s = Some (s\<lparr>rt_tbl := (rt_tbl s)\<lparr>
      tbl := map (remove1 p) (tbl (rt_tbl s)), num_entries := num_entries (rt_tbl s) - 1,
      num_active := num_active (rt_tbl s) - (if rt_state r = VALID then 1 else 0)\<rparr>,
      rt_heap := (rt_heap s)(p := None)\<rparr>)"
  using assms by (simp add: rt_table_delete_def precursor_list_destroy_def rt_mod_def Let_def)

lemma rt_wf_delete:
  assumes wf: "rt_wf s" and p: "rt_heap s p = Some r"
    and t: "tbl (rt_tbl t) = map (remove1 p) (tbl (rt_tbl s))"
      "num_entries (rt_tbl t) = num_entries (rt_tbl s) - 1" "rt_heap t = (rt_heap s)(p := None)"
  shows "rt_wf t"
proof -
  let ?b = "tbl (rt_tbl s)"
  note w = rt_wfD[OF wf]
  have rem: "concat (map (remove1 p) ?b) = removeAll p (concat ?b)" by (rule bucket_remove[OF w(2)])
  have "p \<in> set (concat ?b)" using p w(3) by auto
  then have len: "Suc (length (removeAll p (concat ?b))) = length (concat ?b)"
    by (rule length_removeAll_distinct[OF w(2)])
  have ne: "num_entries (rt_tbl s) - 1 = of_nat (length (removeAll p (concat ?b)))"
    unfolding w(4) len[symmetric] by simp
  have ok: "entry_ok (map (remove1 p) ?b) q r'" if "rt_heap t q = Some r'" for q r'
  proof -
    have q: "q \<noteq> p" "rt_heap s q = Some r'" using that t(3) by (auto split: if_splits)
    have "fst (hashing (rt_dest_addr r')) < length ?b"
      using hash_index_less[of "rt_dest_addr r'"] w(1) by simp
    then show ?thesis using w(5)[OF q(2)] q(1) by (simp add: entry_ok_def)
  qed
  have inj: "q = q'" if "rt_heap t q = Some r1" "rt_heap t q' = Some r2" "rt_dest_addr r1 = rt_dest_addr r2"
    for q q' r1 r2
    using that w(6) by (auto simp: t(3) split: if_splits)
  have dm: "dom (rt_heap t) = set (removeAll p (concat ?b))" unfolding t(3) set_removeAll w(3) by auto
  show ?thesis
    unfolding rt_wf_def t(1,2) rem dm ne using w(1,2) ok inj
    by (auto simp: distinct_removeAll simp del: length_concat)
qed

lemma rt_table_delete_wf:
  assumes "rt_wf s" and "rt_table_delete E (Some p) s = Some t"
  shows "rt_wf t \<and> rt_heap t = (rt_heap s)(p := None)"
proof -
  obtain r where r: "rt_heap s p = Some r" using assms(2) by (auto simp: rt_table_delete_def)
  note eq = assms(2)[unfolded rt_table_delete_eq[OF r] option.inject, symmetric]
  have "rt_wf t" by (rule rt_wf_delete[OF assms(1) r]) (simp_all add: eq)
  then show ?thesis by (simp add: eq)
qed

section \<open>Initialisation and destruction\<close>

lemma concat_empty_buckets: "concat (map (\<lambda>i. []) xs) = []"
  by (induction xs) simp_all

lemma rt_table_init_wf:
  assumes "rt_heap s = (\<lambda>p. None)"
  shows "rt_wf (rt_table_init s)"
  using assms unfolding rt_wf_def rt_table_init_def by (simp add: concat_empty_buckets)

text \<open>Deleting the nodes of a bucket, or of all buckets, in the order of the loops.\<close>

lemma delete_list:
  assumes "rt_wf s" and "distinct ps" and "set ps \<subseteq> dom (rt_heap s)"
  shows "\<exists>t. for_each ps (\<lambda>p. rt_table_delete E (Some p)) s = Some t \<and> rt_wf t
    \<and> rt_heap t = (\<lambda>q. if q \<in> set ps then None else rt_heap s q)
    \<and> tbl (rt_tbl t) = map (\<lambda>b. filter (\<lambda>q. q \<notin> set ps) b) (tbl (rt_tbl s))"
  using assms
proof (induction ps arbitrary: s)
  case Nil
  then show ?case by simp
next
  case (Cons p ps)
  obtain r where r: "rt_heap s p = Some r" using Cons.prems(3) by auto
  obtain u where u: "rt_table_delete E (Some p) s = Some u" using rt_table_delete_eq[OF r] by blast
  note du = rt_table_delete_wf[OF Cons.prems(1) u]
  have sub: "set ps \<subseteq> dom (rt_heap u)" using du Cons.prems(2,3) by auto
  obtain t where t: "for_each ps (\<lambda>p. rt_table_delete E (Some p)) u = Some t" "rt_wf t"
    "rt_heap t = (\<lambda>q. if q \<in> set ps then None else rt_heap u q)"
    "tbl (rt_tbl t) = map (\<lambda>b. filter (\<lambda>q. q \<notin> set ps) b) (tbl (rt_tbl u))"
    using Cons.IH[OF conjunct1[OF du] _ sub] Cons.prems(2) by auto
  have rm: "remove1 p b = filter (\<lambda>q. q \<noteq> p) b" if "b \<in> set (tbl (rt_tbl s))" for b
  proof -
    have "distinct b" using that rt_wfD(2)[OF Cons.prems(1)] by (simp add: distinct_concat_iff)
    then have "remove1 p b = removeAll p b" by (rule distinct_remove1_removeAll)
    then show ?thesis by (simp add: removeAll_filter_not_eq) (auto intro: filter_cong)
  qed
  have "tbl (rt_tbl u) = map (\<lambda>b. filter (\<lambda>q. q \<noteq> p) b) (tbl (rt_tbl s))"
    using u rm by (auto simp: rt_table_delete_eq[OF r])
  then have "tbl (rt_tbl t) = map (\<lambda>b. filter (\<lambda>q. q \<notin> set (p # ps)) b) (tbl (rt_tbl s))"
    using t(4) by (auto simp: conj_commute)
  moreover have "rt_heap t = (\<lambda>q. if q \<in> set (p # ps) then None else rt_heap s q)"
    using t(3) du by (auto simp: fun_eq_iff)
  ultimately show ?case using u t(1,2) by auto
qed

lemma destroy_buckets:
  assumes "rt_wf s" and "k \<le> RT_TABLESIZE"
  shows "\<exists>t. for_each [0..<k] (\<lambda>i s. do {
        bucket \<leftarrow> arr_get (tbl (rt_tbl s)) (int i);
        for_each bucket (\<lambda>p. rt_table_delete E (Some p)) s }) s = Some t
    \<and> rt_wf t \<and> (\<forall>i<k. tbl (rt_tbl t) ! i = [])"
  using assms(2)
proof (induction k)
  case 0
  then show ?case using assms(1) by simp
next
  case (Suc k)
  let ?f = "\<lambda>i s. do { bucket \<leftarrow> arr_get (tbl (rt_tbl s)) (int i);
        for_each bucket (\<lambda>p. rt_table_delete E (Some p)) s }"
  obtain u where u: "for_each [0..<k] ?f s = Some u" "rt_wf u" "\<forall>i<k. tbl (rt_tbl u) ! i = []"
    using Suc by auto
  have len: "length (tbl (rt_tbl u)) = 64" using rt_wfD(1)[OF u(2)] .
  let ?b = "tbl (rt_tbl u) ! k"
  have b: "?b \<in> set (tbl (rt_tbl u))" using len Suc.prems by (intro nth_mem) simp
  have "distinct ?b" "set ?b \<subseteq> dom (rt_heap u)"
    using b rt_wfD(2,3)[OF u(2)] by (auto simp: distinct_concat_iff)
  then obtain t where t: "for_each ?b (\<lambda>p. rt_table_delete E (Some p)) u = Some t" "rt_wf t"
    "tbl (rt_tbl t) = map (\<lambda>b. filter (\<lambda>q. q \<notin> set ?b) b) (tbl (rt_tbl u))"
    using delete_list[OF u(2)] by blast
  have "tbl (rt_tbl t) ! i = []" if "i < Suc k" for i
    using that u(3) len Suc.prems t(3) by (cases "i = k") (auto simp: less_Suc_eq)
  moreover have "for_each [0..<Suc k] ?f s = Some t"
    using u(1) t(1) len Suc.prems by (simp add: for_each_append arr_get_def)
  ultimately show ?case using t(2) by blast
qed

lemma rt_table_destroy_all:
  assumes "rt_wf s"
  shows "\<exists>t. rt_table_destroy E s = Some t \<and> rt_wf t \<and> rt_heap t = (\<lambda>p. None)
    \<and> num_entries (rt_tbl t) = 0"
proof -
  obtain t where t: "rt_table_destroy E s = Some t" "rt_wf t" "\<forall>i<64. tbl (rt_tbl t) ! i = []"
    using destroy_buckets[OF assms order_refl, of E] unfolding rt_table_destroy_def by auto
  have "b = []" if "b \<in> set (tbl (rt_tbl t))" for b
    using that t(3) rt_wfD(1)[OF t(2)] by (auto simp: in_set_conv_nth)
  then have e: "concat (tbl (rt_tbl t)) = []" by auto
  then have "dom (rt_heap t) = {}" using rt_wfD(3)[OF t(2)] by (simp only: list.set)
  moreover have "num_entries (rt_tbl t) = 0"
    unfolding rt_wfD(4)[OF t(2)] e by simp
  ultimately show ?thesis using t(1,2) by auto
qed

section \<open>The accounting of active routes\<close>

definition rt_counted :: "aodv \<Rightarrow> bool" where
  "rt_counted s \<longleftrightarrow> num_active (rt_tbl s) = of_nat (num_valid s)
     \<and> (\<forall>p r. rt_heap s p = Some r \<longrightarrow> rt_state r = INVALID \<or> rt_state r = VALID)"

definition one_if :: "bool \<Rightarrow> u32" where
  "one_if b = (if b then 1 else 0)"

lemma num_valid_upd:
  assumes "finite (dom (rt_heap s))"
    and "\<And>q. q \<noteq> p \<Longrightarrow> map_option rt_state (rt_heap t q) = map_option rt_state (rt_heap s q)"
  shows "(of_nat (num_valid t) :: u32) = of_nat (num_valid s)
    - one_if (map_option rt_state (rt_heap s p) = Some VALID)
    + one_if (map_option rt_state (rt_heap t p) = Some VALID)"
proof -
  let ?V = "\<lambda>h. {p. \<exists>r. h p = Some r \<and> rt_state r = VALID}"
  let ?in = "\<lambda>h. map_option rt_state (h p) = Some VALID"
  have nv: "num_valid x = card (?V (rt_heap x))" for x by (simp add: num_valid_def)
  have "?V h = {q. map_option rt_state (h q) = Some VALID}" for h :: "rtp \<Rightarrow> rt_table option"
    by auto
  note V = this
  have "?V (rt_heap s) \<subseteq> dom (rt_heap s)" by auto
  then have fin: "finite (?V (rt_heap s))" using assms(1) finite_subset by blast
  have diff: "?V (rt_heap t) - {p} = ?V (rt_heap s) - {p}"
  proof (rule set_eqI)
    fix q
    show "q \<in> ?V (rt_heap t) - {p} \<longleftrightarrow> q \<in> ?V (rt_heap s) - {p}"
    proof (cases "q = p")
      case False
      show ?thesis unfolding V mem_Collect_eq Diff_iff assms(2)[OF False] ..
    qed simp
  qed
  then have fin': "finite (?V (rt_heap t))" 
    using finite_Diff[OF fin, of "{p}"] by (simp only: diff[symmetric] finite_Diff2 finite.intros)
  have card: "of_nat (card (?V h)) = of_nat (card (?V h - {p})) + one_if (?in h)"
    if "finite (?V h)" for h :: "rtp \<Rightarrow> rt_table option"
  proof (cases "?in h")
    case True
    then have "p \<in> ?V h" unfolding V by simp
    then have "card (?V h) = Suc (card (?V h - {p}))" using that by (simp add: card.remove del: card_Diff_insert)
    then show ?thesis using True by (simp add: one_if_def)
  next
    case False
    then have "p \<notin> ?V h" unfolding V by simp
    then show ?thesis using False by (simp add: one_if_def)
  qed
  show ?thesis unfolding nv card[OF fin] card[OF fin'] diff by simp
qed

lemma rt_wf_finite: "rt_wf s \<Longrightarrow> finite (dom (rt_heap s))"
  using rt_wfD(3) by (metis List.finite_set)

lemma rt_counted_state:
  "rt_counted s \<Longrightarrow> map_option rt_state (rt_heap s p) \<in> {None, Some INVALID, Some VALID}"
  by (cases "rt_heap s p") (auto simp: rt_counted_def)

lemma states_countedI:
  assumes "\<And>p. map_option rt_state (rt_heap t p) \<in> {None, Some INVALID, Some VALID}"
    and "num_active (rt_tbl t) = of_nat (num_valid t)"
  shows "rt_counted t"
proof -
  have "rt_state r = INVALID \<or> rt_state r = VALID" if "rt_heap t p = Some r" for p r
    using assms(1)[of p] that by auto
  then show ?thesis using assms(2) by (simp add: rt_counted_def)
qed

lemma same_routes_counted:
  assumes "same_routes s t" and "rt_counted s" and "rt_wf s"
  shows "rt_counted t"
proof -
  have st: "map_option rt_state (rt_heap t q) = map_option rt_state (rt_heap s q)" for q
    using assms(1) unfolding same_routes_def
    by (auto intro: map_option_through[where f = rt_state and g = rt_static] simp: rt_static_def)
  have "(of_nat (num_valid t) :: u32) = of_nat (num_valid s)"
    using num_valid_upd[OF rt_wf_finite[OF assms(3)], of undefined t] st by simp
  then show ?thesis
    using assms(1,2) st rt_counted_state[OF assms(2)]
    by (intro states_countedI) (simp_all add: rt_counted_def same_routes_def)
qed

text \<open>One entry changes (or appears, or goes) and the counter follows.\<close>

lemma counted_step:
  assumes wf: "rt_wf s" and c: "rt_counted s"
    and oth: "\<And>q. q \<noteq> p \<Longrightarrow> map_option rt_state (rt_heap t q) = map_option rt_state (rt_heap s q)"
    and p: "map_option rt_state (rt_heap t p) \<in> {None, Some INVALID, Some VALID}"
    and n: "num_active (rt_tbl t) = num_active (rt_tbl s)
      - one_if (map_option rt_state (rt_heap s p) = Some VALID)
      + one_if (map_option rt_state (rt_heap t p) = Some VALID)"
  shows "rt_counted t"
proof (rule states_countedI)
  fix q
  show "map_option rt_state (rt_heap t q) \<in> {None, Some INVALID, Some VALID}"
    using p oth[of q] rt_counted_state[OF c, of q] by (cases "q = p") auto
  show "num_active (rt_tbl t) = of_nat (num_valid t)"
    using num_valid_upd[OF rt_wf_finite[OF wf] oth] n c by (simp add: rt_counted_def)
qed

lemma rt_table_init_counted: "rt_heap s = (\<lambda>p. None) \<Longrightarrow> rt_counted (rt_table_init s)"
  by (simp add: rt_counted_def rt_table_init_def num_valid_def)

lemma inserted_counted:
  assumes "rt_wf s" and "rt_counted s" and "inserted s p r t"
    and "rt_state r = INVALID \<or> rt_state r = VALID"
  shows "rt_counted t"
proof (rule counted_step[OF assms(1,2), of p])
  have st: "map_option rt_state x = map_option rt_state y"
    if "map_option rt_static x = map_option rt_static y" for x y
    using that by (rule map_option_through[where f = rt_state and g = rt_static, rotated]) (simp add: rt_static_def)
  have i: "map_option rt_static (rt_heap t p) = Some (rt_static r)" "rt_heap s p = None"
    "num_active (rt_tbl t) = num_active (rt_tbl s) + (if rt_state r = INVALID then 0 else 1)"
    "\<And>q. q \<noteq> p \<Longrightarrow> map_option rt_static (rt_heap t q) = map_option rt_static (rt_heap s q)"
    using assms(3) unfolding inserted_def by auto
  have new: "map_option rt_state (rt_heap t p) = Some (rt_state r)"
    using st[of "rt_heap t p" "Some r"] i(1) by simp
  show "map_option rt_state (rt_heap t p) \<in> {None, Some INVALID, Some VALID}"
    using new assms(4) by auto
  show "num_active (rt_tbl t) = num_active (rt_tbl s)
      - one_if (map_option rt_state (rt_heap s p) = Some VALID)
      + one_if (map_option rt_state (rt_heap t p) = Some VALID)"
    using i(2,3) new assms(4) by (auto simp: one_if_def)
  show "map_option rt_state (rt_heap t q) = map_option rt_state (rt_heap s q)" if "q \<noteq> p" for q
    using st i(4)[OF that] by blast
qed

lemma rt_table_invalidate_counted:
  assumes "rt_wf s" and "rt_counted s" and "rt_table_invalidate E (Some p) s = Some (res, t)"
  shows "rt_counted t"
  using assms(3)
proof (cases rule: rt_table_invalidate_cases)
  case (1 r)
  then show ?thesis using assms(2) by simp
next
  case (2 r)
  then have "rt_state r = VALID" using assms(2) by (auto simp: rt_counted_def)
  then show ?thesis using 2 by (intro counted_step[OF assms(1,2), of p]) (auto simp: one_if_def)
qed

lemma rt_table_delete_counted:
  assumes "rt_wf s" and "rt_counted s" and "rt_table_delete E (Some p) s = Some t"
  shows "rt_counted t"
proof -
  obtain r where r: "rt_heap s p = Some r" using assms(3) by (auto simp: rt_table_delete_def)
  show ?thesis using assms(3) r
    by (intro counted_step[OF assms(1,2), of p]) (auto simp: rt_table_delete_eq[OF r] one_if_def)
qed

subsection \<open>Update and the counter\<close>

lemma map_state_static:
  "map_option rt_static x = map_option rt_static y \<Longrightarrow> map_option rt_state x = map_option rt_state y"
  by (rule map_option_through[where f = rt_state and g = rt_static, rotated]) (simp_all add: rt_static_def)

lemma same_routes_state:
  "same_routes s t \<Longrightarrow> map_option rt_state (rt_heap t q) = map_option rt_state (rt_heap s q)"
  unfolding same_routes_def by (blast intro: map_state_static)

text \<open>Between the break of the link and the end only the entry's own state changes.\<close>

lemma rt_update_tail_states:
  assumes f: "plain_update f" and r2: "rt_heap s2 p = Some r2"
    and s5: "same_routes (s2\<lparr>rt_heap := (rt_heap s2)(p \<mapsto> f (r2\<lparr>rt_flags := fl,
       rt_dest_seqno := sq, rt_next_hop := n, rt_hcnt := h\<rparr>))\<rparr>) s5" "rt_heap s5 p = Some r5"
    and t: "same_routes (s5\<lparr>rt_heap := (rt_heap s5)(p \<mapsto> r5\<lparr>rt_state := st\<rparr>)\<rparr>) t"
  shows "rt_tbl t = rt_tbl s2" and "map_option rt_state (rt_heap t p) = Some st"
    and "q \<noteq> p \<Longrightarrow> map_option rt_state (rt_heap t q) = map_option rt_state (rt_heap s2 q)"
proof -
  show "rt_tbl t = rt_tbl s2" using s5 t by (simp add: same_routes_def)
  show "map_option rt_state (rt_heap t p) = Some st" using same_routes_state[OF t, of p] by simp
  assume "q \<noteq> p"
  then show "map_option rt_state (rt_heap t q) = map_option rt_state (rt_heap s2 q)"
    using same_routes_state[OF t, of q] same_routes_state[OF s5(1), of q] by simp
qed

lemma rt_update_entry_counted:
  assumes wf: "rt_wf s" and c: "rt_counted s" and f: "plain_update f" and r0: "rt_heap s p = Some r0"
    and stay: "\<not> (h > 1 \<and> rt_hcnt r0 = 1)" and st: "st = VALID \<or> st = INVALID \<and> rt_state r0 = INVALID"
    and up: "rt_update_entry E f p n h q life st fl s = Some t"
  shows "rt_counted t"
proof -
  obtain s1 s2 r2 s5 r5 where steps:
    "activate_route p st fl s = Some (update_flags r0 st fl, s1)"
    "leave_neighborhood E p h s1 = Some s2" "rt_heap s2 p = Some r2"
    "same_routes (s2\<lparr>rt_heap := (rt_heap s2)(p \<mapsto> f (r2\<lparr>rt_flags := update_flags r0 st fl,
       rt_dest_seqno := q, rt_next_hop := n, rt_hcnt := h\<rparr>))\<rparr>) s5"
    "rt_heap s5 p = Some r5"
    "same_routes (s5\<lparr>rt_heap := (rt_heap s5)(p \<mapsto> r5\<lparr>rt_state := st\<rparr>)\<rparr>) t"
    using rt_update_entry_steps[OF up r0] .
  have s1: "rt_heap s1 = rt_heap s"
    "num_active (rt_tbl s1) = num_active (rt_tbl s) + one_if (rt_state r0 = INVALID \<and> st = VALID)"
    using steps(1) r0 by (auto simp: activate_route_def one_if_def split: if_splits)
  have "s2 = s1" using steps(2) r0 s1 stay by (auto simp: leave_neighborhood_def)
  note tail = rt_update_tail_states[OF f steps(3-6), unfolded this]
  have r0st: "rt_state r0 = INVALID \<or> rt_state r0 = VALID" using c r0 by (auto simp: rt_counted_def)
  show ?thesis
  proof (rule counted_step[OF wf c, of p])
    show "num_active (rt_tbl t) = num_active (rt_tbl s)
        - one_if (map_option rt_state (rt_heap s p) = Some VALID)
        + one_if (map_option rt_state (rt_heap t p) = Some VALID)"
      using tail(1,2) s1(2) r0 r0st st by (auto simp: one_if_def)
    show "map_option rt_state (rt_heap t p) \<in> {None, Some INVALID, Some VALID}"
      using tail(2) st by auto
    fix k assume "k \<noteq> p"
    then show "map_option rt_state (rt_heap t k) = map_option rt_state (rt_heap s k)"
      using rt_update_tail_states(3)[OF f steps(3-6)] \<open>s2 = s1\<close> s1(1) by simp
  qed
qed

section \<open>The contract of the table\<close>

locale route_table = route_store find_route entry key wf
  for find_route :: "in_addr \<Rightarrow> 's \<Rightarrow> 'p option option" and entry :: "'s \<Rightarrow> 'p \<Rightarrow> 'r option"
    and key :: "'r \<Rightarrow> in_addr" and wf :: "'s \<Rightarrow> bool" +
  fixes ins :: "'a \<Rightarrow> 's \<Rightarrow> ('p option \<times> 's) option"
    and arg_key :: "'a \<Rightarrow> in_addr"
    and upd :: "'u \<Rightarrow> 'p \<Rightarrow> 's \<Rightarrow> 's option"
    and del :: "'p \<Rightarrow> 's \<Rightarrow> 's option"
  assumes ins_present: "wf s \<Longrightarrow> entry s q = Some r \<Longrightarrow> key r = arg_key a \<Longrightarrow>
      ins a s = Some (res, t) \<Longrightarrow> res = None \<and> t = s"
    and ins_absent: "wf s \<Longrightarrow> (\<And>q r. entry s q = Some r \<Longrightarrow> key r \<noteq> arg_key a) \<Longrightarrow>
      ins a s = Some (res, t) \<Longrightarrow> \<exists>p. res = Some p \<and> wf t \<and> entry s p = None
        \<and> map_option key (entry t p) = Some (arg_key a)
        \<and> (\<forall>q. q \<noteq> p \<longrightarrow> map_option key (entry t q) = map_option key (entry s q))"
    and upd: "wf s \<Longrightarrow> upd u p s = Some t \<Longrightarrow>
      wf t \<and> (\<forall>q r. entry s q = Some r \<longrightarrow> (\<exists>r'. entry t q = Some r' \<and> key r' = key r))"
    and del: "wf s \<Longrightarrow> entry s p = Some r \<Longrightarrow> del p s = Some t \<Longrightarrow>
      wf t \<and> entry t p = None \<and> (\<forall>q. q \<noteq> p \<longrightarrow> entry t q = entry s q)"
begin

lemma ins_wf: "wf s \<Longrightarrow> ins a s = Some (res, t) \<Longrightarrow> wf t"
  using ins_present ins_absent by metis

text \<open>After an insertion the destination is found, whether it was there or not.\<close>

lemma find_after_ins:
  assumes "wf s" and "ins a s = Some (res, t)"
  shows "\<exists>p. find_route (arg_key a) t = Some (Some p) \<and> (res = None \<or> res = Some p)"
proof (cases rule: find_cases[OF assms(1), of "arg_key a"])
  case 1
  then obtain p r where "res = Some p" "wf t" "entry t p = Some r" "key r = arg_key a"
    using ins_absent[OF assms(1) _ assms(2)] find_none_iff[OF assms(1)] by fastforce
  then show ?thesis using find_complete[of t p r] by simp
next
  case (2 p r)
  then show ?thesis using ins_present[OF assms(1) 2(2,3) assms(2)] by blast
qed

lemma find_other_after_ins:
  assumes "wf s" and "ins a s = Some (res, t)" and "d \<noteq> arg_key a"
  shows "find_route d t = find_route d s"
proof (cases rule: find_cases[OF assms(1), of "arg_key a"])
  case 1
  have no: "key r \<noteq> arg_key a" if "entry s q = Some r" for q r
    using 1 find_none_iff[OF assms(1)] that by blast
  obtain p where p: "wf t" "entry s p = None" "map_option key (entry t p) = Some (arg_key a)"
    "\<And>q. q \<noteq> p \<Longrightarrow> map_option key (entry t q) = map_option key (entry s q)"
    using ins_absent[OF assms(1) _ assms(2)] no by blast
  show ?thesis
  proof (cases rule: find_cases[OF assms(1), of d])
    case 1
    have "key r \<noteq> d" if "entry t q = Some r" for q r
    proof (cases "q = p")
      case True
      then show ?thesis using p(3) that assms(3) by auto
    next
      case False
      then have "map_option key (entry s q) = Some (key r)" using p(4)[OF False] that by simp
      then show ?thesis using 1 find_none_iff[OF assms(1)] by auto
    qed
    then show ?thesis using 1 find_none_iff[OF p(1), of d] by simp
  next
    case (2 q r)
    have "q \<noteq> p" using 2(2) p(2) by auto
    then obtain r' where "entry t q = Some r'" "key r' = d" using p(4)[of q] 2 by auto
    then show ?thesis using 2(1) find_complete[OF p(1), of q r'] by simp
  qed
next
  case (2 p r)
  then show ?thesis using ins_present[OF assms(1) 2(2,3) assms(2)] by simp
qed

lemma find_after_upd:
  assumes "wf s" and "upd u p s = Some t" and "find_route d s = Some (Some q)"
  shows "find_route d t = Some (Some q)"
proof -
  obtain r where "entry s q = Some r" "key r = d" using find_sound[OF assms(1,3)] by blast
  moreover have "wf t" "\<exists>r'. entry t q = Some r' \<and> key r' = key r"
    using upd[OF assms(1,2)] calculation(1) by blast+
  ultimately show ?thesis using find_complete by fastforce
qed

lemma find_after_del:
  assumes "wf s" and "entry s p = Some r" and "del p s = Some t"
  shows "find_route d t = (if d = key r then Some None else find_route d s)"
proof -
  note dl = del[OF assms]
  have other: "key r' \<noteq> key r" if "entry t q = Some r'" for q r'
  proof
    assume k: "key r' = key r"
    have "q \<noteq> p" using dl that by auto
    moreover from this have "entry s q = Some r'" using dl that by simp
    ultimately show False using find_complete[OF assms(1), of q r'] find_complete[OF assms(1,2)] k by simp
  qed
  show ?thesis
  proof (cases "d = key r")
    case True
    then show ?thesis using other find_none_iff[of t] dl by auto
  next
    case False
    show ?thesis
    proof (cases rule: find_cases[OF assms(1), of d])
      case 1
      then have "key r' \<noteq> d" if "entry t q = Some r'" for q r'
        using find_none_iff[OF assms(1)] dl that by (metis option.distinct(1))
      then show ?thesis using 1 False find_none_iff[of t] dl by auto
    next
      case (2 q r')
      then have "q \<noteq> p" using False assms(2) by auto
      then have "entry t q = Some r'" using dl 2(2) by simp
      then show ?thesis using 2 False dl find_complete by auto
    qed
  qed
qed

text \<open>A destination can be inserted again once its entry is deleted.\<close>

lemma reinsert_after_del:
  assumes "wf s" and "entry s p = Some r" and "del p s = Some t" and "arg_key a = key r"
    and "ins a t = Some (res, u)"
  shows "\<exists>q. res = Some q \<and> find_route (key r) u = Some (Some q)"
proof -
  have wt: "wf t" using del[OF assms(1-3)] by blast
  have "find_route (arg_key a) t = Some None" using find_after_del[OF assms(1-3)] assms(4) by simp
  then have "\<exists>q. res = Some q" using ins_absent[OF wt _ assms(5)] find_none_iff[OF wt] by blast
  then show ?thesis using find_after_ins[OF wt assms(5)] assms(4) by auto
qed

end

text \<open>
  The instance on the model: the arguments of \<open>rt_table_insert\<close> and \<open>rt_table_update\<close> are
  bundled in tuples, and well-formedness includes the promises of the outside code.
\<close>

definition insert_route ::
  "ext \<Rightarrow> in_addr \<times> in_addr \<times> u8 \<times> u32 \<times> u32 \<times> u8 \<times> u16 \<times> u32 \<Rightarrow> aodv \<Rightarrow> (rtp option \<times> aodv) option" where
  "insert_route E a s = (case a of (d, n, h, q, life, st, fl, i) \<Rightarrow> rt_table_insert E d n h q life st fl i s)"

definition update_route ::
  "ext \<Rightarrow> in_addr \<times> u8 \<times> u32 \<times> u32 \<times> u8 \<times> u16 \<Rightarrow> rtp \<Rightarrow> aodv \<Rightarrow> aodv option" where
  "update_route E u p s = (case u of (n, h, q, life, st, fl) \<Rightarrow>
     map_option snd (rt_table_update E p n h q life st fl s))"

definition table_ok :: "ext \<Rightarrow> aodv \<Rightarrow> bool" where
  "table_ok E s \<longleftrightarrow> ext_ok E \<and> rt_wf s"

lemma map_key_static:
  "map_option rt_static x = map_option rt_static y \<Longrightarrow>
    map_option rt_dest_addr x = map_option rt_dest_addr y"
  by (rule map_option_through[where f = rt_dest_addr and g = rt_static, rotated]) (simp_all add: rt_static_def)

interpretation rtab: route_table rt_table_find rt_heap rt_dest_addr "table_ok E" "insert_route E" fst
  "update_route E" "\<lambda>p. rt_table_delete E (Some p)" for E
proof (unfold_locales, goal_cases)
  case (1 s d)
  then show ?case using rs.find_total by (simp add: table_ok_def)
next
  case (2 s d p)
  then show ?case using rs.find_sound by (simp add: table_ok_def)
next
  case (3 s p r)
  then show ?case using rs.find_complete by (simp add: table_ok_def)
next
  case (4 s q r a res t)
  then show ?case using rt_table_insert_cases[of s E]
    by (fastforce simp: table_ok_def ext_ok_def insert_route_def split: prod.splits)
next
  case (5 s a res t)
  obtain d n h q life st fl i where a: "a = (d, n, h, q, life, st, fl, i)" by (cases a) auto
  have ok: "malloc_ok E" "rt_wf s" "ext_ok E" using 5(1) by (auto simp: table_ok_def ext_ok_def)
  have ins: "rt_table_insert E d n h q life st fl i s = Some (res, t)"
    using 5(3) by (simp add: a insert_route_def)
  obtain p where p: "res = Some p" "inserted s p (new_route E d n h q st fl i (-1) 0x40F86A0000000000) t"
    using rt_table_insert_cases[OF ok(2,1) ins] 5(2) a by auto
  then show ?case
    using ok map_key_static[of "rt_heap t p" "Some (new_route E d n h q st fl i (-1) 0x40F86A0000000000)"]
    by (auto simp: inserted_def table_ok_def a intro!: map_key_static)
next
  case (6 s u p t)
  then show ?case using rt_update_entry_wf[OF _ _ plain_updates(1)]
    by (fastforce simp: table_ok_def ext_ok_def update_route_def rt_table_update_def keeps_routes_def
        split: prod.splits)
next
  case (7 s p r t)
  then show ?case using rt_table_delete_wf[of s E p t] by (auto simp: table_ok_def)
qed

section \<open>Precursors\<close>

text \<open>Changing the precursor list keeps it duplicate free and counted.\<close>

lemma rt_mod_wf:
  assumes "rt_wf s" and "rt_mod p f s = Some t"
    and "\<And>r. rt_heap s p = Some r \<Longrightarrow> rt_dest_addr (f r) = rt_dest_addr r \<and> rt_hash (f r) = rt_hash r
      \<and> rt_nprec (f r) = int (length (rt_precursors (f r))) \<and> distinct (rt_precursors (f r))"
  shows "rt_wf t"
proof -
  obtain r where r: "rt_heap s p = Some r" and t: "t = s\<lparr>rt_heap := (rt_heap s)(p \<mapsto> f r)\<rparr>"
    using rt_mod_SomeD[OF assms(2)] by blast
  note w = rt_wfD[OF assms(1)] and fr = assms(3)[OF r]
  have dm: "dom (rt_heap t) = dom (rt_heap s)" using r by (auto simp: t)
  have tb: "rt_tbl t = rt_tbl s" by (simp add: t)
  have ok: "entry_ok (tbl (rt_tbl s)) q r'" if "rt_heap t q = Some r'" for q r'
    using that w(5)[OF r] w(5)[of q r'] fr by (auto simp: t entry_ok_def split: if_splits)
  have inj: "q = q'" if "rt_heap t q = Some r1" "rt_heap t q' = Some r2" "rt_dest_addr r1 = rt_dest_addr r2"
    for q q' r1 r2
    using that fr w(6)[OF r, of q' r2] w(6)[OF r, of q r1] w(6)[of q r1 q' r2]
    by (auto simp: t split: if_splits)
  show ?thesis unfolding rt_wf_def dm tb RT_TABLESIZE_def using w(1-4) ok inj by blast
qed

lemma nprec_of_wf:
  "rt_wf s \<Longrightarrow> rt_heap s p = Some r \<Longrightarrow> rt_nprec r = int (length (rt_precursors r)) \<and> distinct (rt_precursors r)"
  using rt_wfD(5) by (auto simp: entry_ok_def)

lemma precursors_wf:
  assumes wf: "rt_wf s"
  shows "precursor_add E (Some p) a s = Some t \<Longrightarrow> rt_wf t"
    and "precursor_remove (Some p) a s = Some t \<Longrightarrow> rt_wf t"
    and "precursor_list_destroy (Some p) s = Some t \<Longrightarrow> rt_wf t"
proof -
  note np = nprec_of_wf[OF wf]
  show "rt_wf t" if add: "precursor_add E (Some p) a s = Some t"
  proof -
    obtain r where r: "rt_heap s p = Some r" using add by (auto simp: precursor_add_def)
    show ?thesis
    proof (cases "a \<in> set (rt_precursors r)")
      case True
      then show ?thesis using add r wf by (simp add: precursor_add_def)
    next
      case False
      then have "rt_mod p (\<lambda>r. r\<lparr>rt_precursors := a # rt_precursors r, rt_nprec := rt_nprec r + 1\<rparr>) s = Some t"
        using add r by (simp add: precursor_add_def)
      then show ?thesis by (rule rt_mod_wf[OF wf]) (use r np False in auto)
    qed
  qed
  show "rt_wf t" if rem: "precursor_remove (Some p) a s = Some t"
  proof -
    obtain r where r: "rt_heap s p = Some r" using rem by (auto simp: precursor_remove_def)
    show ?thesis
    proof (cases "a \<in> set (rt_precursors r)")
      case False
      then show ?thesis using rem r wf by (simp add: precursor_remove_def)
    next
      case True
      then obtain m where "length (rt_precursors r) = Suc m" by (cases "rt_precursors r") auto
      moreover have "rt_mod p (\<lambda>r. r\<lparr>rt_precursors := remove1 a (rt_precursors r),
          rt_nprec := rt_nprec r - 1\<rparr>) s = Some t"
        using rem r True by (simp add: precursor_remove_def)
      ultimately show ?thesis
        by (intro rt_mod_wf[OF wf]) (use r np True in \<open>auto simp: length_remove1\<close>)
    qed
  qed
  show "precursor_list_destroy (Some p) s = Some t \<Longrightarrow> rt_wf t"
    by (auto simp: precursor_list_destroy_def np intro: rt_mod_wf[OF wf])
qed

end
