(* ===== verification/Aodv_Ext.thy ===== *)
theory Aodv_Ext
  imports Rt_Contract
begin

text \<open>
  The extension area of messages: reading and writing members of a message in a buffer, the
  two writers \<open>rreq_add_ext\<close> and \<open>rrep_add_ext\<close>, and the loop
  \<open>while ((len - extlen) > SIZE)\<close> by which the receivers walk over extensions. The loop is
  shown equal to a traversal of the extensions it visits; what it visits after a writer is in
  \<open>Message_Facts\<close>.
\<close>

section \<open>Members in a buffer\<close>

definition get32 :: "bytes \<Rightarrow> nat \<Rightarrow> u32 option" where
  "get32 b i = (if i + 4 \<le> length b then Some (u32_at b i) else None)"

definition put32 :: "nat \<Rightarrow> u32 \<Rightarrow> bytes \<Rightarrow> bytes option" where
  "put32 i w b = store i (bytes_of_word 4 w) b"

definition get64 :: "bytes \<Rightarrow> nat \<Rightarrow> double option" where
  "get64 b i = map_option word_of_bytes (load 8 i b)"

definition put64 :: "nat \<Rightarrow> double \<Rightarrow> bytes \<Rightarrow> bytes option" where
  "put64 i w b = store i (bytes_of_word 8 w) b"

definition rreq_mod :: "(RREQ \<Rightarrow> RREQ) \<Rightarrow> bytes \<Rightarrow> bytes option" where
  "rreq_mod f b = map_option (\<lambda>r. rreq_put (f r) b) (rreq_at b)"

definition rrep_mod :: "(RREP \<Rightarrow> RREP) \<Rightarrow> bytes \<Rightarrow> bytes option" where
  "rrep_mod f b = map_option (\<lambda>r. rrep_put (f r) b) (rrep_at b)"

definition rerr_mod :: "(RERR \<Rightarrow> RERR) \<Rightarrow> bytes \<Rightarrow> bytes option" where
  "rerr_mod f b = map_option (\<lambda>r. rerr_put (f r) b) (rerr_at b)"

definition rrep_ack_mod :: "(RREP_ack \<Rightarrow> RREP_ack) \<Rightarrow> bytes \<Rightarrow> bytes option" where
  "rrep_ack_mod f b = map_option (\<lambda>r. rrep_ack_put (f r) b) (rrep_ack_at b)"

text \<open>A message under construction lies in \<open>send_buf\<close>, the one being processed in \<open>recv_buf\<close>.\<close>

definition in_send :: "(bytes \<Rightarrow> bytes option) \<Rightarrow> aodv \<Rightarrow> aodv option" where
  "in_send f s = map_option (\<lambda>b. s\<lparr>send_buf := b\<rparr>) (f (send_buf s))"

definition in_recv :: "(bytes \<Rightarrow> bytes option) \<Rightarrow> aodv \<Rightarrow> aodv option" where
  "in_recv f s = map_option (\<lambda>b. s\<lparr>recv_buf := b\<rparr>) (f (recv_buf s))"

section \<open>Writing extensions\<close>

text \<open>The body shared by \<open>rreq_add_ext\<close> and \<open>rrep_add_ext\<close>; \<open>NULL\<close> results leave the buffer alone.\<close>

definition add_ext :: "nat \<Rightarrow> u8 \<Rightarrow> u32 \<Rightarrow> bytes \<Rightarrow> bytes \<Rightarrow> bytes option" where
  "add_ext fixed type offset data b =
     (if unat offset < fixed then Some b
      else store (unat offset) (type # of_nat (length data) # data) b)"

definition rreq_add_ext :: "u8 \<Rightarrow> u32 \<Rightarrow> bytes \<Rightarrow> bytes \<Rightarrow> bytes option" where
  "rreq_add_ext = add_ext RREQ_SIZE"

definition rrep_add_ext :: "u8 \<Rightarrow> u32 \<Rightarrow> bytes \<Rightarrow> bytes \<Rightarrow> bytes option" where
  "rrep_add_ext = add_ext RREP_SIZE"

text \<open>
  \<open>RREQ_EXT_OFFSET\<close> and \<open>RREP_EXT_OFFSET\<close>, converted to the 32-bit \<open>offset\<close> parameter: the
  fixed part and, for each additional destination, an extension header and an entry.
\<close>

definition RREQ_EXT_OFFSET :: "RREQ \<Rightarrow> u32" where
  "RREQ_EXT_OFFSET r = 2 * (rq_dest_count r - 1) + (32 + (rq_dest_count r - 1) * 12)"

definition RREP_EXT_OFFSET :: "RREP \<Rightarrow> u32" where
  "RREP_EXT_OFFSET r = 2 * (rp_dest_count r - 1) + (32 + (rp_dest_count r - 1) * 8)"

definition rreq_add_udest :: "in_addr \<Rightarrow> u32 \<Rightarrow> bytes \<Rightarrow> bytes option" where
  "rreq_add_udest udest udest_seqno b = do {
     r \<leftarrow> rreq_at b;
     b \<leftarrow> rreq_add_ext RREQ_UDEST_EXT (RREQ_EXT_OFFSET r)
            (bytes_of_word 4 udest @ bytes_of_word 4 udest_seqno @ bytes_of_word 4 (1 :: u32)) b;
     rreq_mod (\<lambda>r. r\<lparr>rq_dest_count := rq_dest_count r + 1\<rparr>) b
   }"

definition rrep_add_udest :: "in_addr \<Rightarrow> u32 \<Rightarrow> bytes \<Rightarrow> bytes option" where
  "rrep_add_udest udest udest_seqno b = do {
     r \<leftarrow> rrep_at b;
     b \<leftarrow> rrep_add_ext RREP_UDEST_EXT (RREP_EXT_OFFSET r)
            (bytes_of_word 4 udest @ bytes_of_word 4 udest_seqno) b;
     rrep_mod (\<lambda>r. r\<lparr>rp_dest_count := rp_dest_count r + 1\<rparr>) b
   }"

section \<open>Walking over extensions\<close>

text \<open>
  The loop in \<open>rreq_process\<close>, \<open>rreq_process_lr\<close>, \<open>rrep_process\<close> and \<open>rrep_process_lr\<close>. The
  length is a signed \<open>int\<close>, \<open>extlen\<close> unsigned, so that the difference is taken modulo
  \<open>2 ^ 32\<close>; the pointer \<open>ext\<close> is the offset \<open>off\<close> into \<open>recv_buf\<close>. Reading behind the buffer
  fails. \<open>body off type\<close> is the \<open>switch\<close>.
\<close>

function (sequential) ext_loop ::
  "(nat \<Rightarrow> u8 \<Rightarrow> aodv \<Rightarrow> aodv option) \<Rightarrow> nat \<Rightarrow> int \<Rightarrow> u32 \<Rightarrow> nat \<Rightarrow> aodv \<Rightarrow> aodv option" where
  "ext_loop body fixed len extlen off s =
     (if fixed < unat (word_of_int len - extlen) then
        if AODV_MSG_MAX_SIZE < off + 2 then None
        else do {
          type \<leftarrow> arr_get (recv_buf s) (int off);
          s \<leftarrow> body off type s;
          l \<leftarrow> arr_get (recv_buf s) (int off + 1);
          ext_loop body fixed len (extlen + (2 + ucast l)) (off + (2 + unat l)) s
        }
      else Some s)"
  by pat_completeness auto
termination
  by (relation "measure (\<lambda>(body, fixed, len, extlen, off, s). AODV_MSG_MAX_SIZE - off)") auto

declare ext_loop.simps [simp del]

text \<open>The extensions the loop visits: offset and type of each.\<close>

function (sequential) ext_scan :: "nat \<Rightarrow> int \<Rightarrow> u32 \<Rightarrow> nat \<Rightarrow> bytes \<Rightarrow> (nat \<times> u8) list option" where
  "ext_scan fixed len extlen off b =
     (if fixed < unat (word_of_int len - extlen) then
        if AODV_MSG_MAX_SIZE < off + 2 then None
        else do {
          type \<leftarrow> arr_get b (int off);
          l \<leftarrow> arr_get b (int off + 1);
          es \<leftarrow> ext_scan fixed len (extlen + (2 + ucast l)) (off + (2 + unat l)) b;
          Some ((off, type) # es)
        }
      else Some [])"
  by pat_completeness auto
termination
  by (relation "measure (\<lambda>(fixed, len, extlen, off, b). AODV_MSG_MAX_SIZE - off)") auto

declare ext_scan.simps [simp del]

text \<open>
  If no body changes the buffer, the loop is the body run over the extensions visited.
\<close>

lemma ext_loop_scan:
  assumes "\<And>off type s t. body off type s = Some t \<Longrightarrow> recv_buf t = recv_buf s"
    and "ext_scan fixed len extlen off (recv_buf s) = Some es"
  shows "ext_loop body fixed len extlen off s = for_each es (\<lambda>(off, type). body off type) s"
  using assms(2)
proof (induction fixed len extlen off "recv_buf s" arbitrary: s es rule: ext_scan.induct)
  case (1 fixed len extlen off)
  show ?case
  proof (cases "fixed < unat (word_of_int len - extlen)")
    case False
    then show ?thesis using 1(2) by (simp add: ext_loop.simps ext_scan.simps[of fixed])
  next
    case True
    then have "\<not> AODV_MSG_MAX_SIZE < off + 2" using 1(2) by (auto simp: ext_scan.simps[of fixed])
    then obtain ty l es' where e: "arr_get (recv_buf s) (int off) = Some ty"
      "arr_get (recv_buf s) (int off + 1) = Some l" "es = (off, ty) # es'"
      "ext_scan fixed len (extlen + (2 + ucast l)) (off + (2 + unat l)) (recv_buf s) = Some es'"
      using 1(2) True by (auto simp: ext_scan.simps[of fixed len extlen])
    show ?thesis
    proof (cases "body off ty s")
      case None
      then show ?thesis using True e \<open>\<not> AODV_MSG_MAX_SIZE < off + 2\<close>
        by (simp add: ext_loop.simps[of body fixed len extlen])
    next
      case (Some t)
      then have "recv_buf t = recv_buf s" by (rule assms(1))
      then show ?thesis using True e Some \<open>\<not> AODV_MSG_MAX_SIZE < off + 2\<close>
          1(1)[OF True \<open>\<not> AODV_MSG_MAX_SIZE < off + 2\<close> e(1,2), of t es']
        by (simp add: ext_loop.simps[of body fixed len extlen])
    qed
  qed
qed

end
