(* ===== verification/Aodv_Assemble.thy ===== *)
theory Aodv_Assemble
  imports Aodv_Ext
begin

text \<open>
  The functions that assemble a message in \<open>send_buf\<close>: \<open>rreq_create\<close>, \<open>rrep_create\<close>,
  \<open>rerr_create\<close> and their variants. The pointer a function returns is always \<open>send_buf\<close>, so
  that the model returns the state only. The lemmas state what a receiver of the buffer reads.
\<close>

section \<open>RREQ\<close>

definition rreq_set_flags :: "u8 \<Rightarrow> RREQ \<Rightarrow> RREQ" where
  "rreq_set_flags flags r = r\<lparr>rq_j := rq_j r \<or> has_flag flags RREQ_JOIN,
     rq_r := rq_r r \<or> has_flag flags RREQ_REPAIR, rq_g := rq_g r \<or> has_flag flags RREQ_GRATUITOUS,
     rq_d := rq_d r \<or> has_flag flags RREQ_DEST_ONLY\<rparr>"

definition rreq_create :: "u8 \<Rightarrow> in_addr \<Rightarrow> u32 \<Rightarrow> in_addr \<Rightarrow> aodv \<Rightarrow> aodv option" where
  "rreq_create flags dest_addr dest_seqno orig_addr s = do {
     let s = aodv_socket_new_msg s;
     let h = this_host s;
     let seqno = seqno_incr (hi_seqno h);
     s \<leftarrow> in_send (rreq_mod (\<lambda>r. rreq_set_flags flags (r\<lparr>rq_type := AODV_RREQ, rq_res1 := 0,
            rq_res2 := 0, rq_hcnt := 0, rq_rreq_id := hi_rreq_id h, rq_dest_addr := dest_addr,
            rq_dest_seqno := dest_seqno, rq_orig_addr := orig_addr, rq_dest_count := 1,
            rq_orig_seqno := seqno\<rparr>))) s;
     let s = s\<lparr>this_host := h\<lparr>hi_rreq_id := hi_rreq_id h + 1, hi_seqno := seqno\<rparr>\<rparr>;
     if has_flag flags RREQ_LOCAL_REPAIR
     then in_send (rreq_mod (\<lambda>r. r\<lparr>rq_type := AODV_RREQ_LR, rq_lr := True\<rparr>)) s
     else Some s
   }"

definition rreq_create_with_cost ::
  "u8 \<Rightarrow> in_addr \<Rightarrow> u32 \<Rightarrow> in_addr \<Rightarrow> double \<Rightarrow> aodv \<Rightarrow> aodv option" where
  "rreq_create_with_cost flags dest_addr dest_seqno orig_addr cost s = do {
     let s = aodv_socket_new_msg s;
     let h = this_host s;
     s \<leftarrow> in_send (rreq_mod (\<lambda>r. rreq_set_flags flags (r\<lparr>rq_type := AODV_RREQ, rq_res1 := 0,
            rq_res2 := 0, rq_hcnt := 0, rq_rreq_id := hi_rreq_id h, rq_dest_addr := dest_addr,
            rq_dest_seqno := dest_seqno, rq_orig_addr := orig_addr,
            rq_orig_seqno := hi_seqno h + 1\<rparr>))) s;
     let s = s\<lparr>this_host := h\<lparr>hi_rreq_id := hi_rreq_id h + 1\<rparr>\<rparr>;
     in_send (rreq_add_ext RREQ_COST_EXT (of_nat RREQ_SIZE) (bytes_of_word 8 cost)) s
   }"

text \<open>The package copied lies in \<open>recv_buf\<close>.\<close>

definition rreq_copy_with_cost :: "aodv \<Rightarrow> aodv option" where
  "rreq_copy_with_cost s = do {
     cost \<leftarrow> get64 (recv_buf s) (RREQ_SIZE + AODV_EXT_HDR_SIZE);
     package \<leftarrow> rreq_at (recv_buf s);
     s \<leftarrow> rreq_create_with_cost 0 0 (rq_dest_seqno package) 0 cost s;
     in_send (rreq_mod (\<lambda>r. r\<lparr>rq_dest_addr := rq_dest_addr package,
       rq_orig_addr := rq_orig_addr package, rq_j := rq_j package, rq_r := rq_r package,
       rq_g := rq_g package, rq_d := rq_d package\<rparr>)) s
   }"

section \<open>RREP\<close>

definition rrep_fill ::
  "u8 \<Rightarrow> u8 \<Rightarrow> u8 \<Rightarrow> in_addr \<Rightarrow> u32 \<Rightarrow> in_addr \<Rightarrow> u32 \<Rightarrow> RREP \<Rightarrow> RREP" where
  "rrep_fill flags prefix hcnt dest_addr dest_seqno orig_addr life r =
     r\<lparr>rp_type := AODV_RREP, rp_res1 := 0, rp_res2 := 0, rp_prefix := ucast prefix,
       rp_hcnt := hcnt, rp_dest_addr := dest_addr, rp_dest_seqno := dest_seqno,
       rp_orig_addr := orig_addr, rp_lifetime := life,
       rp_r := rp_r r \<or> has_flag flags RREP_REPAIR, rp_a := rp_a r \<or> has_flag flags RREP_ACK\<rparr>"

definition rrep_create ::
  "u8 \<Rightarrow> u8 \<Rightarrow> u8 \<Rightarrow> in_addr \<Rightarrow> u32 \<Rightarrow> in_addr \<Rightarrow> u32 \<Rightarrow> aodv \<Rightarrow> aodv option" where
  "rrep_create flags prefix hcnt dest_addr dest_seqno orig_addr life s = do {
     let s = aodv_socket_new_msg s;
     s \<leftarrow> in_send (rrep_mod (\<lambda>r. (rrep_fill flags prefix hcnt dest_addr dest_seqno orig_addr life r)
            \<lparr>rp_dest_count := 1\<rparr>)) s;
     if has_flag flags RREP_LOCAL_REPAIR
     then in_send (rrep_mod (\<lambda>r. r\<lparr>rp_lr := True, rp_type := AODV_RREP_LR\<rparr>)) s
     else Some s
   }"

definition rrep_create_with_cost ::
  "u8 \<Rightarrow> u8 \<Rightarrow> u8 \<Rightarrow> in_addr \<Rightarrow> u32 \<Rightarrow> in_addr \<Rightarrow> u32 \<Rightarrow> double \<Rightarrow> aodv \<Rightarrow> aodv option" where
  "rrep_create_with_cost flags prefix hcnt dest_addr dest_seqno orig_addr life cost s = do {
     let s = aodv_socket_new_msg s;
     s \<leftarrow> in_send (rrep_mod (rrep_fill flags prefix hcnt dest_addr dest_seqno orig_addr life)) s;
     in_send (rrep_add_ext RREP_COST_EXT (of_nat RREP_SIZE) (bytes_of_word 8 cost)) s
   }"

definition rrep_ack_create :: "aodv \<Rightarrow> aodv option" where
  "rrep_ack_create s = in_send (rrep_ack_mod (\<lambda>a. a\<lparr>ra_type := AODV_RREP_ACK,
     ra_is_hello_ack := 0, ra_hello_index := 0, ra_host_stability := 0\<rparr>)) (aodv_socket_new_msg s)"

text \<open>\<open>rrep_add_hello_ext\<close> returns the offset behind the extension.\<close>

definition rrep_add_hello_ext :: "int \<Rightarrow> u32 \<Rightarrow> bytes \<Rightarrow> (int \<times> bytes) option" where
  "rrep_add_hello_ext offset interval b =
     (if int RREP_SIZE + offset < 0 then None else do {
        b \<leftarrow> store (nat (int RREP_SIZE + offset))
               (RREP_HELLO_INTERVAL_EXT # 4 # bytes_of_word 4 interval) b;
        Some (offset + 6, b)
      })"

section \<open>RERR\<close>

definition rerr_create :: "u8 \<Rightarrow> in_addr \<Rightarrow> u32 \<Rightarrow> aodv \<Rightarrow> aodv option" where
  "rerr_create flags dest_addr dest_seqno s = in_send (rerr_mod (\<lambda>r. r
     \<lparr>re_type := (if has_flag flags RERR_LOCAL_REPAIR then AODV_RERR_LR else AODV_RERR),
      re_n := re_n r \<or> has_flag flags RERR_NODELETE,
      re_lr := re_lr r \<or> has_flag flags RERR_LOCAL_REPAIR, re_res1 := 0, re_res2 := 0,
      re_dest_addr := dest_addr, re_dest_seqno := dest_seqno, re_dest_count := 1\<rparr>))
     (aodv_socket_new_msg s)"

definition RERR_CALC_SIZE :: "RERR \<Rightarrow> int" where
  "RERR_CALC_SIZE r = 24 + (uint (re_dest_count r) - 1) * 8"

definition rerr_add_udest :: "in_addr \<Rightarrow> u32 \<Rightarrow> bytes \<Rightarrow> bytes option" where
  "rerr_add_udest udest udest_seqno b = do {
     r \<leftarrow> rerr_at b;
     b \<leftarrow> put32 (nat (RERR_CALC_SIZE r)) udest b;
     b \<leftarrow> put32 (nat (RERR_CALC_SIZE r) + 4) udest_seqno b;
     rerr_mod (\<lambda>r. r\<lparr>re_dest_count := re_dest_count r + 1\<rparr>) b
   }"

end
