(* ===== verification/Message_Facts.thy ===== *)
theory Message_Facts
  imports Aodv_Assemble
begin

text \<open>
  What a reader of a buffer finds after a writer: a changed header, a member behind the header,
  and the extensions appended to a message (locale \<open>ext_writer\<close>, the contract of
  \<open>rreq_add_udest\<close> and \<open>rrep_add_udest\<close>, interpreted for both).
\<close>

section \<open>Headers\<close>

lemma mod_at:
  "rreq_mod f b = Some c \<Longrightarrow> \<exists>r. rreq_at b = Some r \<and> rreq_at c = Some (f r)"
  "rrep_mod g b = Some c \<Longrightarrow> \<exists>r. rrep_at b = Some r \<and> rrep_at c = Some (g r)"
  "rerr_mod h b = Some c \<Longrightarrow> \<exists>r. rerr_at b = Some r \<and> rerr_at c = Some (h r)"
  "rrep_ack_mod k b = Some c \<Longrightarrow> \<exists>r. rrep_ack_at b = Some r \<and> rrep_ack_at c = Some (k r)"
proof -
  have "RREQ_SIZE \<le> length b" if "rreq_at b = Some r" for r using that by (auto simp: rreq_at_def split: if_splits)
  then show "rreq_mod f b = Some c \<Longrightarrow> \<exists>r. rreq_at b = Some r \<and> rreq_at c = Some (f r)"
    by (auto simp: rreq_mod_def rreq_at_put)
  have "RREP_SIZE \<le> length b" if "rrep_at b = Some r" for r using that by (auto simp: rrep_at_def split: if_splits)
  then show "rrep_mod g b = Some c \<Longrightarrow> \<exists>r. rrep_at b = Some r \<and> rrep_at c = Some (g r)"
    by (auto simp: rrep_mod_def rrep_at_put)
  have "RERR_SIZE \<le> length b" if "rerr_at b = Some r" for r using that by (auto simp: rerr_at_def split: if_splits)
  then show "rerr_mod h b = Some c \<Longrightarrow> \<exists>r. rerr_at b = Some r \<and> rerr_at c = Some (h r)"
    by (auto simp: rerr_mod_def rerr_at_put)
  have "RREP_ACK_SIZE \<le> length b" if "rrep_ack_at b = Some r" for r using that by (auto simp: rrep_ack_at_def split: if_splits)
  then show "rrep_ack_mod k b = Some c \<Longrightarrow> \<exists>r. rrep_ack_at b = Some r \<and> rrep_ack_at c = Some (k r)"
    by (auto simp: rrep_ack_mod_def rrep_ack_at_put)
qed

lemma mod_total:
  "rreq_at b = Some r \<Longrightarrow> \<exists>c. rreq_mod f b = Some c \<and> rreq_at c = Some (f r)"
  "rrep_at b = Some p \<Longrightarrow> \<exists>c. rrep_mod g b = Some c \<and> rrep_at c = Some (g p)"
  using mod_at(1)[of f b] mod_at(2)[of g b] by (auto simp: rreq_mod_def rrep_mod_def)

text \<open>Writing behind the header leaves the header, and writing the header leaves the rest.\<close>

lemma nth_store_before: "store i bs b = Some c \<Longrightarrow> k < i \<Longrightarrow> k < length b \<Longrightarrow> c ! k = b ! k"
  by (simp add: nth_store)

lemma u32_at_store_before: "store i bs b = Some c \<Longrightarrow> k + 4 \<le> i \<Longrightarrow> i \<le> length b \<Longrightarrow> u32_at c k = u32_at b k"
  using store_length[of i bs b c] by (simp add: u32_at_nth nth_store)

lemma headers_store:
  assumes "store i bs b = Some c"
  shows "RREQ_SIZE \<le> i \<Longrightarrow> rreq_at c = rreq_at b" "RREP_SIZE \<le> i \<Longrightarrow> rrep_at c = rrep_at b"
    "RERR_SIZE \<le> i \<Longrightarrow> rerr_at c = rerr_at b"
proof -
  have i: "i \<le> length b" "length c = length b" using assms by (auto simp: store_def split: if_splits)
  have 0: "c ! 0 = b ! 0" if "0 < i" using that i(1) by (intro nth_store_before[OF assms]) auto
  show "RREQ_SIZE \<le> i \<Longrightarrow> rreq_at c = rreq_at b"
    using i 0 by (simp add: rreq_at_def nth_store[OF assms] u32_at_store_before[OF assms])
  show "RREP_SIZE \<le> i \<Longrightarrow> rrep_at c = rrep_at b"
    using i 0 by (simp add: rrep_at_def nth_store[OF assms] u32_at_store_before[OF assms])
  show "RERR_SIZE \<le> i \<Longrightarrow> rerr_at c = rerr_at b"
    using i 0 by (simp add: rerr_at_def nth_store[OF assms] u32_at_store_before[OF assms])
qed

lemma drop_overwrite: "i + length bs \<le> length b \<Longrightarrow> i + length bs \<le> k \<Longrightarrow> drop k (overwrite i bs b) = drop k b"
  by (simp add: overwrite_def drop_append)

lemma put_drop:
  "RREQ_SIZE \<le> length b \<Longrightarrow> RREQ_SIZE \<le> k \<Longrightarrow> drop k (rreq_put r b) = drop k b"
  "RREP_SIZE \<le> length b \<Longrightarrow> RREP_SIZE \<le> k \<Longrightarrow> drop k (rrep_put p b) = drop k b"
  "RERR_SIZE \<le> length b \<Longrightarrow> RERR_SIZE \<le> k \<Longrightarrow> drop k (rerr_put e b) = drop k b"
  by (simp_all add: rreq_put_def rrep_put_def rerr_put_def drop_overwrite)

section \<open>The extension area\<close>

text \<open>The layout of a list of extensions, and where each of them lies.\<close>

definition ext_bytes :: "u8 \<times> bytes \<Rightarrow> bytes" where
  "ext_bytes e = fst e # of_nat (length (snd e)) # snd e"

definition exts_bytes :: "(u8 \<times> bytes) list \<Rightarrow> bytes" where
  "exts_bytes es = concat (map ext_bytes es)"

fun ext_offsets :: "nat \<Rightarrow> (u8 \<times> bytes) list \<Rightarrow> (nat \<times> u8) list" where
  "ext_offsets off [] = []"
| "ext_offsets off (e # es) = (off, fst e) # ext_offsets (off + 2 + length (snd e)) es"

lemma exts_bytes_simps [simp]:
  "exts_bytes [] = []" "exts_bytes (e # es) = ext_bytes e @ exts_bytes es"
  "exts_bytes (es @ fs) = exts_bytes es @ exts_bytes fs" "length (ext_bytes e) = 2 + length (snd e)"
  by (simp_all add: exts_bytes_def ext_bytes_def)

text \<open>The loop over the extensions visits exactly those that lie there.\<close>

lemma ext_scan_written:
  assumes "length b = AODV_MSG_MAX_SIZE" and "off + length (exts_bytes es) \<le> AODV_MSG_MAX_SIZE"
    and "take (length (exts_bytes es)) (drop off b) = exts_bytes es"
    and "\<forall>e \<in> set es. length (snd e) < 256"
    and "unat (word_of_int len - extlen) = fixed + length (exts_bytes es)"
  shows "ext_scan fixed len extlen off b = Some (ext_offsets off es)"
  using assms(2-)
proof (induction es arbitrary: off extlen)
  case Nil
  then show ?case by (simp add: ext_scan.simps[of fixed])
next
  case (Cons e es)
  let ?n = "length (snd e)"
  let ?m = "length (exts_bytes es)"
  have l: "unat (of_nat ?n :: u8) = ?n" using Cons.prems(3) by (simp add: unat_of_nat)
  have seg: "take (2 + ?n + ?m) (drop off b) = fst e # of_nat ?n # snd e @ exts_bytes es"
    using Cons.prems(2) by (simp add: ext_bytes_def)
  have nth: "b ! (off + k) = (fst e # of_nat ?n # snd e @ exts_bytes es) ! k" if "k < 2 + ?n + ?m" for k
    using that Cons.prems(1) assms(1) by (simp add: seg[symmetric])
  have g: "arr_get b (int off) = Some (fst e)" "arr_get b (int off + 1) = Some (of_nat ?n)"
    using nth[of 0] nth[of 1] Cons.prems(1) assms(1) by (simp_all add: arr_get_def nat_add_distrib)
  have d: "take ?m (drop (off + (2 + ?n)) b) = exts_bytes es"
  proof -
    have "take ?m (drop (off + (2 + ?n)) b) = drop (2 + ?n) (take (2 + ?n + ?m) (drop off b))"
      by (simp add: drop_take add.commute)
    then show ?thesis unfolding seg by simp
  qed
  define w where "w = (word_of_int len - extlen :: u32)"
  have w: "unat w = fixed + (2 + ?n + ?m)" using Cons.prems(4) by (simp add: w_def)
  have small: "2 + ?n < 2 ^ LENGTH(32)" using Cons.prems(3) by simp
  have A: "unat (w - of_nat (2 + ?n)) = fixed + ?m"
  proof -
    have u: "unat (of_nat (2 + ?n) :: u32) = 2 + ?n" using small by (simp only: unat_of_nat mod_less)
    then have "(of_nat (2 + ?n) :: u32) \<le> w" using w by (simp add: word_le_nat_alt)
    then show ?thesis using u w by (simp only: unat_sub)
  qed
  have B: "word_of_int len - (extlen + (2 + ucast (of_nat ?n :: u8))) = w - of_nat (2 + ?n)"
  proof -
    have "(ucast (of_nat ?n :: u8) :: u32) = of_nat ?n"
      by (metis l of_nat_unat)
    then show ?thesis by (simp add: w_def)
  qed
  have "ext_scan fixed len (extlen + (2 + ucast (of_nat ?n :: u8))) (off + (2 + ?n)) b
      = Some (ext_offsets (off + (2 + ?n)) es)"
  proof (rule Cons.IH)
    show "unat (word_of_int len - (extlen + (2 + ucast (of_nat ?n :: u8)))) = fixed + ?m"
      by (simp only: A B)
  qed (use Cons.prems(1,3) d in simp_all)
  moreover have "fixed < unat w" "\<not> AODV_MSG_MAX_SIZE < off + 2" using w Cons.prems(1) by simp_all
  ultimately show ?case using g l
    by (simp add: ext_scan.simps[of fixed len extlen] w_def add.assoc)
qed

text \<open>The data of an extension that lies there can be loaded.\<close>

lemma ext_data_written:
  assumes "take (length (exts_bytes es)) (drop off b) = exts_bytes es" and "i < length es"
    and "off + length (exts_bytes es) \<le> length b"
  shows "load (length (snd (es ! i))) (fst (ext_offsets off es ! i) + 2) b = Some (snd (es ! i))"
  using assms
proof (induction es arbitrary: off i)
  case (Cons e es)
  let ?n = "length (snd e)"
  let ?m = "length (exts_bytes es)"
  have seg: "take (2 + ?n + ?m) (drop off b) = ext_bytes e @ exts_bytes es"
    using Cons.prems(1) by simp
  show ?case
  proof (cases i)
    case 0
    have "take ?n (drop (off + 2) b) = take ?n (drop 2 (take (2 + ?n + ?m) (drop off b)))"
      by (simp add: drop_take add.commute)
    also have "\<dots> = snd e" unfolding seg by (simp add: ext_bytes_def)
    finally show ?thesis using 0 Cons.prems(3) by (simp add: load_def)
  next
    case (Suc j)
    have "take ?m (drop (off + 2 + ?n) b) = drop (2 + ?n) (take (2 + ?n + ?m) (drop off b))"
      by (simp add: drop_take add.commute add.left_commute)
    then have "take ?m (drop (off + 2 + ?n) b) = exts_bytes es" unfolding seg by simp
    from Cons.IH[OF this, of j] show ?thesis using Suc Cons.prems(2,3) by simp
  qed
qed simp

text \<open>
  The contract: \<open>extcount\<close> reads from the header how many extensions a message has, \<open>append\<close>
  writes one more behind them and counts it.
\<close>

locale ext_writer =
  fixes extcount :: "bytes \<Rightarrow> nat option" and append :: "'d \<Rightarrow> bytes \<Rightarrow> bytes option"
    and enc :: "'d \<Rightarrow> bytes" and ty :: u8 and dsz :: nat
  assumes enc_length: "length (enc d) = dsz" and dsz_small: "dsz < 256"
    and append_total: "extcount b = Some n \<Longrightarrow> length b = AODV_MSG_MAX_SIZE \<Longrightarrow>
      32 + (2 + dsz) * (n + 1) \<le> AODV_MSG_MAX_SIZE \<Longrightarrow> append d b \<noteq> None"
    and append_spec: "extcount b = Some n \<Longrightarrow> length b = AODV_MSG_MAX_SIZE \<Longrightarrow>
      32 + (2 + dsz) * (n + 1) \<le> AODV_MSG_MAX_SIZE \<Longrightarrow> append d b = Some c \<Longrightarrow>
      extcount c = Some (n + 1) \<and> length c = AODV_MSG_MAX_SIZE \<and>
      take ((2 + dsz) * (n + 1)) (drop 32 c) = take ((2 + dsz) * n) (drop 32 b) @ ext_bytes (ty, enc d)"
begin

definition written :: "'d list \<Rightarrow> bytes \<Rightarrow> bool" where
  "written ds b \<longleftrightarrow> extcount b = Some (length ds) \<and> length b = AODV_MSG_MAX_SIZE
     \<and> take ((2 + dsz) * length ds) (drop 32 b) = exts_bytes (map (\<lambda>d. (ty, enc d)) ds)"

definition fits :: "nat \<Rightarrow> bool" where
  "fits n \<longleftrightarrow> 32 + (2 + dsz) * n \<le> AODV_MSG_MAX_SIZE"

lemma fits_less: "fits n \<Longrightarrow> m \<le> n \<Longrightarrow> fits m"
  unfolding fits_def by (meson add_le_mono1 le_trans mult_le_mono2 nat_add_left_cancel_le)

lemma length_exts: "length (exts_bytes (map (\<lambda>d. (ty, enc d)) ds)) = (2 + dsz) * length ds"
  by (induction ds) (simp_all add: enc_length)

lemma append_written:
  assumes "written ds b" and "fits (length ds + 1)"
  shows "\<exists>c. append d b = Some c \<and> written (ds @ [d]) c"
proof -
  have p: "extcount b = Some (length ds)" "length b = AODV_MSG_MAX_SIZE"
    "32 + (2 + dsz) * (length ds + 1) \<le> AODV_MSG_MAX_SIZE"
    using assms by (simp_all add: written_def fits_def)
  obtain c where c: "append d b = Some c" using append_total[OF p] by fast
  show ?thesis using append_spec[OF p c] assms(1) c by (auto simp: written_def simp del: ext_bytes_def)
qed

lemma appends_written:
  assumes "written ds b" and "fits (length ds + length es)"
  shows "\<exists>c. for_each es append b = Some c \<and> written (ds @ es) c"
  using assms
proof (induction es arbitrary: ds b)
  case (Cons d es)
  have "fits (length ds + 1)" by (rule fits_less[OF Cons.prems(2)]) simp
  from append_written[OF Cons.prems(1) this] obtain c where
    c: "append d b = Some c" "written (ds @ [d]) c" by blast
  then show ?case using Cons.IH[OF c(2)] Cons.prems(2) by simp
qed simp

lemma offsets: "ext_offsets off (map (\<lambda>d. (ty, enc d)) ds) =
    map (\<lambda>i. (off + (2 + dsz) * i, ty)) [0..<length ds]"
proof (induction ds arbitrary: off)
  case (Cons d ds)
  have "[0..<length (d # ds)] = 0 # map Suc [0..<length ds]"
    by (simp add: map_Suc_upt upt_conv_Cons del: upt_Suc)
  then show ?case using Cons by (simp add: enc_length add.assoc add.left_commute)
qed simp

lemma written_scan:
  assumes "written ds b" and "fits (length ds)"
  shows "ext_scan 32 (int (32 + (2 + dsz) * length ds)) 0 32 b =
    Some (map (\<lambda>i. (32 + (2 + dsz) * i, ty)) [0..<length ds])"
proof -
  have n: "32 + (2 + dsz) * length ds < 2 ^ LENGTH(32)" using assms(2) by (simp add: fits_def)
  show ?thesis unfolding offsets[symmetric]
  proof (rule ext_scan_written)
    have "(word_of_int (int (32 + (2 + dsz) * length ds)) :: u32) = of_nat (32 + (2 + dsz) * length ds)"
      by simp
    then show "unat (word_of_int (int (32 + (2 + dsz) * length ds)) - (0 :: u32)) =
        32 + length (exts_bytes (map (\<lambda>d. (ty, enc d)) ds))"
      using n by (simp only: length_exts unat_of_nat mod_less diff_zero)
  qed (use assms in \<open>auto simp: written_def fits_def length_exts enc_length dsz_small\<close>)
qed

lemma written_data:
  assumes "written ds b" and "fits (length ds)" and "i < length ds"
  shows "load dsz (32 + (2 + dsz) * i + 2) b = Some (enc (ds ! i))"
proof -
  have "load (length (snd (map (\<lambda>d. (ty, enc d)) ds ! i)))
      (fst (ext_offsets 32 (map (\<lambda>d. (ty, enc d)) ds) ! i) + 2) b = Some (snd (map (\<lambda>d. (ty, enc d)) ds ! i))"
    by (rule ext_data_written) (use assms in \<open>simp_all add: written_def fits_def length_exts\<close>)
  then show ?thesis using assms(3) by (simp add: offsets enc_length)
qed

end

section \<open>The two extension writers of the program\<close>

lemma ext_offset_nat:
  fixes d :: u32
  assumes "unat d = n" and "32 + (2 + k) * n \<le> AODV_MSG_MAX_SIZE"
  shows "unat (2 * d + (32 + d * of_nat k)) = 32 + (2 + k) * n"
proof -
  have d: "d = of_nat n" unfolding assms(1)[symmetric] by simp
  have "2 * d + (32 + d * of_nat k) = of_nat (32 + (2 + k) * n)"
    unfolding d by (simp add: algebra_simps)
  moreover have "32 + (2 + k) * n < 2 ^ LENGTH(32)" using assms(2) by simp
  ultimately show ?thesis by (simp only: unat_of_nat mod_less)
qed

lemma add_ext_at:
  assumes "unat off = 32 + m" and "length b = AODV_MSG_MAX_SIZE"
    and "32 + m + (2 + length data) \<le> AODV_MSG_MAX_SIZE"
  obtains c where "add_ext 32 ty off data b = Some c" "length c = AODV_MSG_MAX_SIZE"
    "store (32 + m) (ext_bytes (ty, data)) b = Some c"
    "take (m + (2 + length data)) (drop 32 c) = take m (drop 32 b) @ ext_bytes (ty, data)"
proof -
  define bs where "bs = ext_bytes (ty, data)"
  have bs: "ty # of_nat (length data) # data = bs" "length bs = 2 + length data"
    by (simp_all add: ext_bytes_def bs_def)
  have fit: "32 + m + length bs \<le> length b" using assms bs(2) by simp
  define c where "c = overwrite (32 + m) bs b"
  have st: "store (32 + m) bs b = Some c" unfolding c_def by (rule store_overwrite[OF fit])
  have l: "length c = AODV_MSG_MAX_SIZE" using store_length[OF st] assms(2) by simp
  have "take (m + length bs) (drop 32 c) = take m (drop 32 b) @ bs"
  proof (rule nth_equalityI)
    show "length (take (m + length bs) (drop 32 c)) = length (take m (drop 32 b) @ bs)"
      using fit assms(2) l by simp
    fix i assume "i < length (take (m + length bs) (drop 32 c))"
    then show "take (m + length bs) (drop 32 c) ! i = (take m (drop 32 b) @ bs) ! i"
      using fit l assms(2) by (auto simp: nth_store[OF st] nth_append)
  qed
  moreover have "add_ext 32 ty off data b = Some c"
    using st assms(1) by (simp add: add_ext_def bs(1))
  ultimately show ?thesis using st l unfolding bs(2) by (intro that) (simp_all add: bs_def)
qed

definition rreq_udest_bytes :: "in_addr \<times> u32 \<Rightarrow> bytes" where
  "rreq_udest_bytes = (\<lambda>(a, q). bytes_of_word 4 a @ bytes_of_word 4 q @ bytes_of_word 4 (1 :: u32))"

definition rrep_udest_bytes :: "in_addr \<times> u32 \<Rightarrow> bytes" where
  "rrep_udest_bytes = (\<lambda>(a, q). bytes_of_word 4 a @ bytes_of_word 4 q)"

lemma rreq_udest_append:
  assumes "rreq_at b = Some r" and "unat (rq_dest_count r - 1) = n" and "length b = AODV_MSG_MAX_SIZE"
    and "32 + (2 + 12) * (n + 1) \<le> AODV_MSG_MAX_SIZE"
  shows "\<exists>c. rreq_add_udest a q b = Some c \<and> rreq_at c = Some (r\<lparr>rq_dest_count := rq_dest_count r + 1\<rparr>)
    \<and> length c = AODV_MSG_MAX_SIZE
    \<and> take ((2 + 12) * (n + 1)) (drop 32 c) = take ((2 + 12) * n) (drop 32 b)
        @ ext_bytes (RREQ_UDEST_EXT, rreq_udest_bytes (a, q))"
proof -
  have o: "unat (RREQ_EXT_OFFSET r) = 32 + (2 + 12) * n"
    unfolding RREQ_EXT_OFFSET_def using ext_offset_nat[OF assms(2), of 12] assms(4) by simp
  have l: "length (rreq_udest_bytes (a, q)) = 12" by (simp add: rreq_udest_bytes_def)
  obtain b' where b': "add_ext 32 RREQ_UDEST_EXT (RREQ_EXT_OFFSET r) (rreq_udest_bytes (a, q)) b = Some b'"
    "length b' = AODV_MSG_MAX_SIZE"
    "store (32 + (2 + 12) * n) (ext_bytes (RREQ_UDEST_EXT, rreq_udest_bytes (a, q))) b = Some b'"
    "take ((2 + 12) * n + (2 + length (rreq_udest_bytes (a, q)))) (drop 32 b') = take ((2 + 12) * n) (drop 32 b)
        @ ext_bytes (RREQ_UDEST_EXT, rreq_udest_bytes (a, q))"
  proof (rule add_ext_at[OF o assms(3), of "rreq_udest_bytes (a, q)" RREQ_UDEST_EXT])
    show "32 + (2 + 12) * n + (2 + length (rreq_udest_bytes (a, q))) \<le> AODV_MSG_MAX_SIZE"
      using assms(4) by (simp add: l)
  qed (rule that)
  have r: "rreq_at b' = Some r" using headers_store(1)[OF b'(3)] assms(1) by simp
  define c where "c = rreq_put (r\<lparr>rq_dest_count := rq_dest_count r + 1\<rparr>) b'"
  have c: "rreq_add_udest a q b = Some c"
    using assms(1) r b'(1) by (simp add: rreq_add_udest_def rreq_add_ext_def rreq_mod_def c_def rreq_udest_bytes_def)
  have "rreq_at c = Some (r\<lparr>rq_dest_count := rq_dest_count r + 1\<rparr>)" "length c = AODV_MSG_MAX_SIZE"
    "drop 32 c = drop 32 b'"
    using b'(2) by (simp_all add: c_def rreq_at_put put_drop)
  then show ?thesis using c b'(4) by (simp add: l add.commute)
qed

lemma rrep_udest_append:
  assumes "rrep_at b = Some r" and "unat (rp_dest_count r - 1) = n" and "length b = AODV_MSG_MAX_SIZE"
    and "32 + (2 + 8) * (n + 1) \<le> AODV_MSG_MAX_SIZE"
  shows "\<exists>c. rrep_add_udest a q b = Some c \<and> rrep_at c = Some (r\<lparr>rp_dest_count := rp_dest_count r + 1\<rparr>)
    \<and> length c = AODV_MSG_MAX_SIZE
    \<and> take ((2 + 8) * (n + 1)) (drop 32 c) = take ((2 + 8) * n) (drop 32 b)
        @ ext_bytes (RREP_UDEST_EXT, rrep_udest_bytes (a, q))"
proof -
  have o: "unat (RREP_EXT_OFFSET r) = 32 + (2 + 8) * n"
    unfolding RREP_EXT_OFFSET_def using ext_offset_nat[OF assms(2), of 8] assms(4) by simp
  have l: "length (rrep_udest_bytes (a, q)) = 8" by (simp add: rrep_udest_bytes_def)
  obtain b' where b': "add_ext 32 RREP_UDEST_EXT (RREP_EXT_OFFSET r) (rrep_udest_bytes (a, q)) b = Some b'"
    "length b' = AODV_MSG_MAX_SIZE"
    "store (32 + (2 + 8) * n) (ext_bytes (RREP_UDEST_EXT, rrep_udest_bytes (a, q))) b = Some b'"
    "take ((2 + 8) * n + (2 + length (rrep_udest_bytes (a, q)))) (drop 32 b') = take ((2 + 8) * n) (drop 32 b)
        @ ext_bytes (RREP_UDEST_EXT, rrep_udest_bytes (a, q))"
  proof (rule add_ext_at[OF o assms(3), of "rrep_udest_bytes (a, q)" RREP_UDEST_EXT])
    show "32 + (2 + 8) * n + (2 + length (rrep_udest_bytes (a, q))) \<le> AODV_MSG_MAX_SIZE"
      using assms(4) by (simp add: l)
  qed (rule that)
  have r: "rrep_at b' = Some r" using headers_store(2)[OF b'(3)] assms(1) by simp
  define c where "c = rrep_put (r\<lparr>rp_dest_count := rp_dest_count r + 1\<rparr>) b'"
  have c: "rrep_add_udest a q b = Some c"
    using assms(1) r b'(1) by (simp add: rrep_add_udest_def rrep_add_ext_def rrep_mod_def c_def rrep_udest_bytes_def)
  have "rrep_at c = Some (r\<lparr>rp_dest_count := rp_dest_count r + 1\<rparr>)" "length c = AODV_MSG_MAX_SIZE"
    "drop 32 c = drop 32 b'"
    using b'(2) by (simp_all add: c_def rrep_at_put put_drop)
  then show ?thesis using c b'(4) by (simp add: l add.commute)
qed

lemma count_succ:
  assumes "unat (c - 1 :: u32) = n" and "n + 1 < 2 ^ 32"
  shows "unat c = n + 1"
proof -
  have "c - 1 = of_nat n" unfolding assms(1)[symmetric] by simp
  then have "c = of_nat (n + 1)" by (simp add: diff_eq_eq)
  then show ?thesis using assms(2) unat_of_nat[of "n + 1", where 'a = 32] by simp
qed

interpretation rreq_exts: ext_writer "\<lambda>b. map_option (\<lambda>r. unat (rq_dest_count r - 1)) (rreq_at b)"
  "\<lambda>(a, q). rreq_add_udest a q" rreq_udest_bytes RREQ_UDEST_EXT 12
proof (unfold_locales, goal_cases)
  case (1 d)
  then show ?case by (cases d) (simp add: rreq_udest_bytes_def)
next
  case (3 b n d)
  then show ?case using rreq_udest_append[of b _ n "fst d" "snd d"] by (cases d) auto
next
  case (4 b n d c)
  obtain r where r: "rreq_at b = Some r" "unat (rq_dest_count r - 1) = n" using 4(1) by auto
  have "unat (rq_dest_count r) = n + 1" using count_succ[OF r(2)] 4(3) by simp
  then show ?case using 4 rreq_udest_append[OF r 4(2,3), of "fst d" "snd d"] by (cases d) simp
qed simp

interpretation rrep_exts: ext_writer "\<lambda>b. map_option (\<lambda>r. unat (rp_dest_count r - 1)) (rrep_at b)"
  "\<lambda>(a, q). rrep_add_udest a q" rrep_udest_bytes RREP_UDEST_EXT 8
proof (unfold_locales, goal_cases)
  case (1 d)
  then show ?case by (cases d) (simp add: rrep_udest_bytes_def)
next
  case (3 b n d)
  then show ?case using rrep_udest_append[of b _ n "fst d" "snd d"] by (cases d) auto
next
  case (4 b n d c)
  obtain r where r: "rrep_at b = Some r" "unat (rp_dest_count r - 1) = n" using 4(1) by auto
  have "unat (rp_dest_count r) = n + 1" using count_succ[OF r(2)] 4(3) by simp
  then show ?case using 4 rrep_udest_append[OF r 4(2,3), of "fst d" "snd d"] by (cases d) simp
qed simp

end
