(* ===== verification/Agent_Inv.thy ===== *)
theory Agent_Inv
  imports Aodv_Assemble
begin

text \<open>
  The invariant of an agent (\<open>agent_ok\<close>): the routing table is well formed, the packet queue's
  length field counts its nodes, both message buffers have their full size, the two rate
  limiters are within their arrays, and no two buffered records have the same key or address. \<open>okM P m\<close>
  says that the result of \<open>m\<close> satisfies \<open>P\<close> if \<open>m\<close> does not fail; its rules follow the
  structure of a \<open>do\<close>-block, so that the preservation of the invariant by a handler is
  proved by walking through its body (\<open>ok_rules\<close>).
\<close>

section \<open>Reading statements\<close>

text \<open>Statements that only read: nothing is known of the value but the equation.\<close>

lemmas okM_reads = okM_bind_eq[where m = m1] okM_bind_eq[where m = m2] okM_bind_eq[where m = m3]
  okM_bind_eq[where m = m4] okM_bind_eq[where m = m5] okM_bind_eq[where m = m6]
  okM_bind_eq[where m = m7] okM_bind_eq[where m = m8] okM_bind_eq[where m = m9]
  okM_bind_eq[where m = m10] okM_bind_eq[where m = m11]
  for m1 :: "rtp option" and m2 :: "rtp option option" and m3 :: "rt_table option"
    and m4 :: "dev_info option" and m5 :: "RREQ option" and m6 :: "RREP option"
    and m7 :: "RERR option" and m8 :: "'w::len word option" and m9 :: "int option"
    and m10 :: "(u32 \<times> u8) option" and m11 :: "bool option"

section \<open>The invariant\<close>

type_synonym agent_rest = "bytes \<times> bytes \<times> (int \<times> timeval list) \<times> (int \<times> timeval list)
  \<times> rreq_record list \<times> blacklist list \<times> rerr_record list"

definition agent_rest :: "aodv \<Rightarrow> agent_rest" where
  "agent_rest s = (send_buf s, recv_buf s, (num_rreq s, rreq_ratel s), (num_rerr s, rerr_ratel s),
     rreq_records s, rreq_blacklist s, rerr_records s)"

definition rreq_key :: "rreq_record \<Rightarrow> in_addr \<times> u32" where
  "rreq_key r = (rr_orig_addr r, rr_rreq_id r)"

definition rerr_key :: "rerr_record \<Rightarrow> in_addr \<times> u32 \<times> u32" where
  "rerr_key r = (er_orig_addr r, er_rerr_id r, er_last_addr r)"

definition rest_ok :: "agent_rest \<Rightarrow> bool" where
  "rest_ok = (\<lambda>(sb, rb, l, k, rs, bs, es). length sb = AODV_MSG_MAX_SIZE
     \<and> length rb = AODV_MSG_MAX_SIZE \<and> rl_ok RREQ_RATELIMIT l \<and> rl_ok RERR_RATELIMIT k
     \<and> distinct (map rreq_key rs) \<and> distinct (map rr_ptr rs)
     \<and> distinct (map bl_dest_addr bs) \<and> distinct (map bl_ptr bs)
     \<and> distinct (map rerr_key es) \<and> distinct (map er_ptr es))"

definition agent_ok :: "aodv \<Rightarrow> bool" where
  "agent_ok s \<longleftrightarrow> rt_wf s \<and> pq_ok s \<and> rest_ok (agent_rest s)"

lemma agent_okD:
  assumes "agent_ok s"
  shows "rt_wf s" "pq_ok s" "length (send_buf s) = AODV_MSG_MAX_SIZE"
    "length (recv_buf s) = AODV_MSG_MAX_SIZE"
  using assms by (auto simp: agent_ok_def rest_ok_def agent_rest_def)

text \<open>
  The two functions of the neighbour module, which themselves call operations of the agent,
  keep its invariant.
\<close>

definition outside_ok :: "ext \<Rightarrow> bool" where
  "outside_ok E \<longleftrightarrow> ext_ok E
     \<and> (\<forall>p s. agent_ok s \<longrightarrow> okM agent_ok (x_neighbor_link_break E p s))
     \<and> (\<forall>a i s. agent_ok s \<longrightarrow> okM agent_ok (x_neighbor_add E a i s))"

lemma outside_okD:
  assumes "outside_ok E"
  shows "ext_ok E" "malloc_ok E" "neighbors_ok E"
    "agent_ok s \<Longrightarrow> okM agent_ok (x_neighbor_link_break E p s)"
    "agent_ok s \<Longrightarrow> okM agent_ok (x_neighbor_add E a i s)"
  using assms by (auto simp: outside_ok_def ext_ok_def)

section \<open>Steps that do not touch what the invariant is about\<close>

text \<open>\<open>same_agent s t\<close>: the routes' shape, the queue and the rest are unchanged.\<close>

definition same_agent :: "aodv \<Rightarrow> aodv \<Rightarrow> bool" where
  "same_agent s t \<longleftrightarrow> same_shape s t \<and> PQ t = PQ s \<and> agent_rest t = agent_rest s"

lemma same_agent_ok: "same_agent s t \<Longrightarrow> agent_ok s \<Longrightarrow> agent_ok t"
  by (auto simp: same_agent_def agent_ok_def pq_ok_def dest: same_shape_wf)

lemma agent_ok_update [simp]:
  "agent_ok (s\<lparr>this_host := h\<rparr>) = agent_ok s" "agent_ok (s\<lparr>channelNum := c\<rparr>) = agent_ok s"
  "agent_ok (s\<lparr>hello_timer := t\<rparr>) = agent_ok s" "agent_ok (s\<lparr>seekhead := l\<rparr>) = agent_ok s"
  "agent_ok (s\<lparr>rng := n\<rparr>) = agent_ok s" "agent_ok (s\<lparr>out := e\<rparr>) = agent_ok s"
  "agent_ok (s\<lparr>wait_on_reboot := b\<rparr>) = agent_ok s" "agent_ok (s\<lparr>worb_timer := t\<rparr>) = agent_ok s"
  "agent_ok (s\<lparr>ifqueue := i\<rparr>) = agent_ok s" "agent_ok (s\<lparr>cfg := g\<rparr>) = agent_ok s"
  "agent_ok (s\<lparr>now := tv\<rparr>) = agent_ok s"
  by (simp_all add: agent_ok_def rt_wf_def pq_ok_def agent_rest_def)

lemma rt_shape_update [simp]:
  "rt_shape (rt_flags_update g1 r) = rt_shape r" "rt_shape (rt_dest_seqno_update g2 r) = rt_shape r"
  "rt_shape (rt_next_hop_update g3 r) = rt_shape r" "rt_shape (rt_hcnt_update g4 r) = rt_shape r"
  "rt_shape (rt_state_update g4 r) = rt_shape r" "rt_shape (rt_rt_timer_update g5 r) = rt_shape r"
  "rt_shape (rt_ack_timer_update g5 r) = rt_shape r" "rt_shape (rt_hello_timer_update g5 r) = rt_shape r"
  "rt_shape (rt_last_hello_time_update g6 r) = rt_shape r" "rt_shape (rt_hello_cnt_update g4 r) = rt_shape r"
  "rt_shape (rt_channel_update g7 r) = rt_shape r" "rt_shape (rt_cost_update g8 r) = rt_shape r"
  by (simp_all add: rt_shape_def)

lemma rt_mod_ok:
  assumes "agent_ok s" and "\<And>r. rt_shape (f r) = rt_shape r"
  shows "okM agent_ok (rt_mod p f s)"
proof -
  have "agent_ok t" if m: "rt_mod p f s = Some t" for t
  proof (rule same_agent_ok[OF _ assms(1)])
    have "same_shape s t" by (rule rt_mod_same_shape[OF m]) (simp add: assms(2))
    then show "same_agent s t" using m
      by (auto simp: same_agent_def agent_rest_def dest!: rt_mod_SomeD)
  qed
  then show ?thesis by (simp add: okM_def)
qed

lemma drop_pkt_ok [simp]: "agent_ok (drop_pkt p why s) = agent_ok s"
  by (simp add: drop_pkt_def)

section \<open>Sending\<close>

lemmas ok_rules = okM_Let okM_if okM_case_option okM_case_prod okM_case_sum

lemma schedule_ok: "agent_ok s \<Longrightarrow> okM agent_ok (schedule i p d s)"
  unfolding schedule_def by (rule okM_bind_any) simp

lemma sendPacket_ok: "agent_ok s \<Longrightarrow> okM agent_ok (sendPacket E p nh d s)"
  unfolding sendPacket_def sendPacket_out_def
  by (intro okM_bind_any okM_if okM_Let okM_for_each schedule_ok) simp_all

lemma ratelimit_ok:
  assumes "2 \<le> limit" and "rl_ok limit (n, l)"
    and "ratelimit_check E limit t n l = Some (Some (n', l'))"
  shows "rl_ok limit (n', l')"
  using rate_limiter.admit[OF rate_limiter_ratelimit_check[OF assms(1)] assms(2), of E t "(n', l')"] assms(3)
  by simp

lemma aodv_socket_send_out_ok: "agent_ok s \<Longrightarrow> okM agent_ok (aodv_socket_send_out E p d s)"
  unfolding aodv_socket_send_out_def by (intro okM_if sendPacket_ok) simp_all

lemma agent_ok_limits:
  "agent_ok s \<Longrightarrow> rl_ok RREQ_RATELIMIT (n, l) \<Longrightarrow> agent_ok (s\<lparr>num_rreq := n, rreq_ratel := l\<rparr>)"
  "agent_ok s \<Longrightarrow> rl_ok RERR_RATELIMIT (n, l) \<Longrightarrow> agent_ok (s\<lparr>num_rerr := n, rerr_ratel := l\<rparr>)"
  by (simp_all add: agent_ok_def rt_wf_def pq_ok_def agent_rest_def rest_ok_def)

lemma agent_ok_limitsD:
  "agent_ok s \<Longrightarrow> rl_ok RREQ_RATELIMIT (num_rreq s, rreq_ratel s)"
  "agent_ok s \<Longrightarrow> rl_ok RERR_RATELIMIT (num_rerr s, rerr_ratel s)"
  by (simp_all add: agent_ok_def agent_rest_def rest_ok_def)

lemma aodv_socket_send_ok:
  assumes s: "agent_ok s"
  shows "okM agent_ok (aodv_socket_send E m dst len ttl dev s)"
  unfolding aodv_socket_send_def
proof (rule okM_bind_any, intro okM_if, goal_cases)
  case (3 ty)
  show ?case
  proof (rule okM_bind_any, intro okM_if, goal_cases)
    case (1 p)
    have "okM agent_ok (aodv_socket_send_out E p dst (s\<lparr>num_rreq := n, rreq_ratel := l\<rparr>))"
      if "ratelimit_check E RREQ_RATELIMIT (now s) (num_rreq s) (rreq_ratel s) = Some (Some (n, l))" for n l
      by (intro aodv_socket_send_out_ok agent_ok_limits s ratelimit_ok[OF _ agent_ok_limitsD(1)[OF s] that]) simp
    then show ?case using s by (auto simp: okM_def simp del: RREQ_RATELIMIT_def split: option.splits)
  next
    case (2 p)
    have "okM agent_ok (aodv_socket_send_out E p dst (s\<lparr>num_rerr := n, rerr_ratel := l\<rparr>))"
      if "ratelimit_check E RERR_RATELIMIT (now s) (num_rerr s) (rerr_ratel s) = Some (Some (n, l))" for n l
      by (intro aodv_socket_send_out_ok agent_ok_limits s ratelimit_ok[OF _ agent_ok_limitsD(2)[OF s] that]) simp
    then show ?case using s by (auto simp: okM_def simp del: RERR_RATELIMIT_def split: option.splits)
  next
    case (3 p)
    show ?case by (rule aodv_socket_send_out_ok[OF s])
  qed
qed (simp_all add: s)

section \<open>Routing table and packet queue\<close>

lemma rt_table_update_timeout_ok: "agent_ok s \<Longrightarrow> okM agent_ok (rt_table_update_timeout E rt l s)"
  unfolding rt_table_update_timeout_def
  by (intro okM_case_option okM_bind_any okM_Let okM_if rt_mod_ok) simp_all

lemma refresh_route_ok: "agent_ok s \<Longrightarrow> okM agent_ok (refresh_route E P rt s)"
  unfolding refresh_route_def
  by (intro okM_case_option okM_bind_any okM_if okM_bind[of agent_ok] rt_table_update_timeout_ok; simp)

lemma rt_table_update_route_timeouts_ok:
  "agent_ok s \<Longrightarrow> okM agent_ok (rt_table_update_route_timeouts E f r s)"
  unfolding rt_table_update_route_timeouts_def
  by (rule okM_bind[OF refresh_route_ok refresh_route_ok])

lemma agent_ok_wf_eq:
  "rt_wf t \<Longrightarrow> PQ t = PQ s \<Longrightarrow> agent_rest t = agent_rest s \<Longrightarrow> agent_ok s \<Longrightarrow> agent_ok t"
  by (simp add: agent_ok_def pq_ok_def)

lemma rt_mod_rest: "rt_mod p f s = Some t \<Longrightarrow> PQ t = PQ s \<and> agent_rest t = agent_rest s"
  by (auto simp: agent_rest_def dest!: rt_mod_SomeD)

lemma precursors_ok:
  assumes "agent_ok s"
  shows "okM agent_ok (precursor_add E rt a s)" "okM agent_ok (precursor_remove rt a s)"
    "okM agent_ok (precursor_list_destroy rt s)"
proof -
  note wf = precursors_wf[OF agent_okD(1)[OF assms]]
  show "okM agent_ok (precursor_add E rt a s)"
  proof (cases rt)
    case (Some p)
    have "PQ t = PQ s \<and> agent_rest t = agent_rest s" if "precursor_add E (Some p) a s = Some t" for t
      using that by (auto simp: precursor_add_def split: if_splits dest: rt_mod_rest)
    then show ?thesis using wf(1) agent_ok_wf_eq assms by (auto simp: okM_def Some)
  qed (simp add: precursor_add_def assms)
  show "okM agent_ok (precursor_remove rt a s)"
  proof (cases rt)
    case (Some p)
    have "PQ t = PQ s \<and> agent_rest t = agent_rest s" if "precursor_remove (Some p) a s = Some t" for t
      using that by (auto simp: precursor_remove_def split: if_splits dest: rt_mod_rest)
    then show ?thesis using wf(2) agent_ok_wf_eq assms by (auto simp: okM_def Some)
  qed (simp add: precursor_remove_def assms)
  show "okM agent_ok (precursor_list_destroy rt s)"
  proof (cases rt)
    case (Some p)
    have "PQ t = PQ s \<and> agent_rest t = agent_rest s" if "precursor_list_destroy (Some p) s = Some t" for t
      using that by (auto simp: precursor_list_destroy_def dest: rt_mod_rest)
    then show ?thesis using wf(3) agent_ok_wf_eq assms by (auto simp: okM_def Some)
  qed (simp add: precursor_list_destroy_def assms)
qed

lemma agent_ok_pq_set:
  assumes "agent_ok s" and "length qs \<le> MAX_QUEUE_LENGTH" and "n = of_nat (length qs)"
  shows "agent_ok (pq_set qs n s)"
  using assms by (simp add: agent_ok_def rt_wf_def pq_ok_def agent_rest_def pq_set_def)

text \<open>A step of one of the three loops over the queue, which takes a node out.\<close>

lemma agent_ok_detach:
  assumes "agent_ok s" and "pq_head (PQ s) = kept @ q # qs"
  shows "agent_ok (pq_set (kept @ qs) (pq_len (PQ s) - 1) s)"
  using agent_okD(2)[OF assms(1)] assms(2)
  by (intro agent_ok_pq_set[OF assms(1)]) (simp_all add: pq_ok_def)

lemma verdict_loop_ok:
  assumes "agent_ok s" and "pq_head (PQ s) = kept @ qs" and "v = PQ_SEND \<Longrightarrow> rt \<noteq> None"
  shows "okM (\<lambda>res. case res of Inl _ \<Rightarrow> False | Inr (k, t) \<Rightarrow> agent_ok t)
    (verdict_loop E d v rt qs kept delay n s)"
  using assms
proof (induction qs arbitrary: kept delay n s)
  case Nil
  then show ?case using agent_okD(2)[OF Nil(1)] by (simp add: agent_ok_pq_set pq_ok_def)
next
  case (Cons q qs)
  note det = agent_ok_detach[OF Cons.prems(1,2)]
  show ?case
  proof (cases "qp_dest_addr q = d")
    case False
    then show ?thesis using Cons.IH[of s "kept @ [q]"] Cons.prems by simp
  next
    case True
    show ?thesis
    proof (cases v)
      case PQ_DROP
      then show ?thesis using True Cons.prems det
          Cons.IH[of "pq_set (kept @ qs) (pq_len (PQ s) - 1) (drop_pkt (qp_p q) DROP_RTR_NO_ROUTE s)" kept]
        by (simp flip: drop_pkt_pq_set)
    next
      case PQ_ENC_SEND
      then show ?thesis using True Cons.prems det
          Cons.IH[of "pq_set (kept @ qs) (pq_len (PQ s) - 1) s" kept] by simp
    next
      case PQ_SEND
      then obtain p where rt: "rt = Some p" using Cons.prems(3) by auto
      have IH: "okM (\<lambda>res. case res of Inl _ \<Rightarrow> False | Inr (k, t) \<Rightarrow> agent_ok t)
          (verdict_loop E d v rt qs kept dl k (pq_set (kept @ qs) (pq_len (PQ u) - 1) u))"
        if u: "agent_ok u" "PQ u = PQ s" for u dl k
        using agent_ok_detach[of u kept q qs] Cons.prems(2,3) u by (intro Cons.IH) simp_all
      have "okM (\<lambda>res. case res of Inl _ \<Rightarrow> False | Inr (k, t) \<Rightarrow> agent_ok t)
          (verdict_loop E d v rt qs kept dl k
            (pq_set (kept @ qs) (pq_len (PQ w) - 1) w))"
        if w: "sendPacket E (qp_p q) nh delay (pq_set (kept @ qs) (pq_len (PQ s)) s) = Some w" for w nh dl k
      proof -
        obtain u where u: "sendPacket E (qp_p q) nh delay s = Some u"
          "w = pq_set (kept @ qs) (pq_len (PQ s)) u" using w by (auto simp: sendPacket_pq)
        have "agent_ok u" using okM_D[OF sendPacket_ok[OF Cons.prems(1)] u(1)] .
        moreover have "PQ u = PQ s" using sent_from_fields(11)[OF sendPacket_sent[OF u(1)]] .
        ultimately show ?thesis using IH[of u] u(2) by simp
      qed
      then show ?thesis using True PQ_SEND rt
        by (auto simp: okM_def simp del: ARP_DELAY_def)
    qed
  qed
qed

lemma verdict_update_timeouts_ok:
  "agent_ok s \<Longrightarrow> okM agent_ok (verdict_update_timeouts E d v rt ir s)"
  unfolding verdict_update_timeouts_def
  by (intro okM_case_option okM_bind_any okM_if okM_bind[of agent_ok] rt_table_update_timeout_ok; simp)

lemma packet_queue_set_verdict_ok:
  assumes s: "agent_ok s" and d: "v = PQ_SEND \<Longrightarrow> rt_table_find d s \<noteq> Some None"
  shows "okM (\<lambda>(n, t). agent_ok t) (packet_queue_set_verdict E d v s)"
  unfolding packet_queue_set_verdict_def
proof (rule okM_bind_eq, rule okM_if, goal_cases)
  case (2 ir)
  show ?case
  proof (rule okM_bind_eq)
    fix rt
    assume rt: "(case ir of None \<Rightarrow> rt_table_find d s
      | Some i \<Rightarrow> rt_heap s i \<bind> (\<lambda>ri. rt_table_find (rt_next_hop ri) s)) = Some rt"
    have "rt \<noteq> None" if "v = PQ_SEND" using 2(1) rt d[OF that] that by (auto split: if_splits)
    then have l: "okM (\<lambda>res. case res of Inl _ \<Rightarrow> False | Inr (k, t) \<Rightarrow> agent_ok t)
        (verdict_loop E d v rt (pq_head (PQ s)) [] 0 0 s)"
      by (intro verdict_loop_ok[OF s]) simp_all
    show "okM (\<lambda>(n, t). agent_ok t) (verdict_loop E d v rt (pq_head (PQ s)) [] 0 0 s \<bind>
       (\<lambda>res. case res of Inl s \<Rightarrow> Some (- 1, s)
         | Inr (count, s) \<Rightarrow> verdict_update_timeouts E d v rt ir s \<bind> (\<lambda>s. Some (count, s))))"
    proof (rule okM_bind[OF l])
      fix res :: "aodv + int \<times> aodv" assume "case res of Inl _ \<Rightarrow> False | Inr (k, t) \<Rightarrow> agent_ok t"
      then obtain k t where "res = Inr (k, t)" "agent_ok t" by (auto split: sum.splits)
      then show "okM (\<lambda>(n, t). agent_ok t) (case res of Inl s \<Rightarrow> Some (- 1, s)
         | Inr (count, s) \<Rightarrow> verdict_update_timeouts E d v rt ir s \<bind> (\<lambda>s. Some (count, s)))"
        by (auto intro!: okM_bind[OF verdict_update_timeouts_ok])
    qed
  qed
qed (use s in simp)

lemma send_buffered_ok:
  assumes s: "agent_ok s"
  shows "okM agent_ok (send_buffered E p s)"
  unfolding send_buffered_def
proof (rule okM_bind_eq, rule okM_if, goal_cases)
  case (1 r)
  have "rt_table_find (rt_dest_addr r) t \<noteq> Some None" if "t = s\<lparr>seekhead := l\<rparr>" for t l
  proof -
    have "rt_table_find (rt_dest_addr r) s = Some (Some p)"
      using rs.find_iff[OF agent_okD(1)[OF s]] 1(1) by blast
    moreover have "rt_table_find (rt_dest_addr r) t = rt_table_find (rt_dest_addr r) s"
      by (simp add: that rt_table_find_def)
    ultimately show ?thesis by simp
  qed
  then show ?case
    by (intro okM_Let okM_case_prod okM_if okM_bind[OF packet_queue_set_verdict_ok])
      (use s in auto)
qed (use s in simp)

text \<open>Insertion, where the destination is new.\<close>

lemma rt_insert_entry_ok:
  assumes s: "agent_ok s" and p: "rt_heap s p = None" "p < 2 ^ 32 - 1"
    and fresh: "\<And>q r'. rt_heap s q = Some r' \<Longrightarrow> rt_dest_addr r' \<noteq> rt_dest_addr r"
    and r: "rt_hash r = rt_dest_addr r" "rt_nprec r = 0" "rt_precursors r = []"
  shows "okM agent_ok (rt_insert_entry E p r life s)"
proof -
  note wf = agent_okD(1)[OF s]
  define r' where "r' = rt_rt_timer_update (start_route_timer E (rt_state r) (rt_flags r) life s) r"
  have i: "fst (hashing (rt_dest_addr r)) < length (tbl (rt_tbl s))"
    using hash_index_less[of "rt_dest_addr r"] rt_wfD(1)[OF wf] by simp
  have d: "rt_dest_addr r' = rt_dest_addr r" by (simp add: r'_def)
  have "agent_ok (s\<lparr>rt_tbl := tb, rt_heap := (rt_heap s)(p \<mapsto> r')\<rparr>)"
    if "list_add_bucket (fst (hashing (rt_dest_addr r))) p
      ((rt_tbl s)\<lparr>num_entries := num_entries (rt_tbl s) + 1, num_active := na\<rparr>) = Some tb" for tb na
  proof (rule agent_ok_wf_eq[OF _ _ _ s])
    show "rt_wf (s\<lparr>rt_tbl := tb, rt_heap := (rt_heap s)(p \<mapsto> r')\<rparr>)"
      by (rule rt_wf_add[OF wf p, of r' "tbl tb"])
        (use fresh r i that in \<open>auto simp: d r'_def list_add_bucket_def arr_get_def arr_set_def\<close>)
  qed (simp_all add: agent_rest_def)
  then show ?thesis unfolding rt_insert_entry_def r'_def[symmetric] Let_def
    by (intro okM_bind_eq send_buffered_ok)
qed

text \<open>The results of the functions that also return a pointer or a number.\<close>

abbreviation okP :: "('a \<times> aodv) option \<Rightarrow> bool" where
  "okP m \<equiv> okM (\<lambda>(x, t). agent_ok t) m"

lemma new_entry_ok:
  assumes s: "agent_ok s" and m: "malloc_ok E" and p: "x_malloc E (live_ptr s) = Some p"
    and new: "\<And>q r. rt_heap s q = Some r \<Longrightarrow> rt_dest_addr r \<noteq> d"
  shows "okM agent_ok (rt_insert_entry E p (new_route E d n h q st fl i c w) life s)"
  by (rule rt_insert_entry_ok[OF s]) (use malloc_okD[OF m p] new in \<open>auto simp: live_ptr_def\<close>)

lemma rt_table_insert_ok:
  assumes s: "agent_ok s" and m: "malloc_ok E"
  shows "okP (rt_table_insert E d n h q life st fl i s)"
  unfolding rt_table_insert_def in_bucket_eq[OF agent_okD(1)[OF s]] bind.bind_lunit
  by (intro okM_if okM_bind_eq okM_bind[OF new_entry_ok[OF s m]]) (use s in auto)

lemma rt_table_insert_with_channel_ok:
  assumes s: "agent_ok s" and m: "malloc_ok E" and new: "rt_table_find d s = Some None"
  shows "okP (rt_table_insert_with_channel E d n h q life st fl i c w s)"
proof -
  have "rt_dest_addr r \<noteq> d" if "rt_heap s p = Some r" for p r
    using rs.find_none_iff[OF agent_okD(1)[OF s]] new that by blast
  then show ?thesis
    unfolding rt_table_insert_with_channel_def
    by (intro okM_if okM_bind_eq okM_bind[OF new_entry_ok[OF s m]]) (use s in auto)
qed

text \<open>Update, invalidation and deletion.\<close>

lemma agent_ok_num_active [simp]:
  "agent_ok (s\<lparr>rt_tbl := (rt_tbl s)\<lparr>num_active := n\<rparr>\<rparr>) = agent_ok s"
  by (simp add: agent_ok_def rt_wf_def pq_ok_def agent_rest_def)

lemma rt_update_entry_ok:
  assumes s: "agent_ok s" and E: "outside_ok E" and f: "\<And>r. rt_shape (f r) = rt_shape r"
  shows "okM agent_ok (rt_update_entry E f p n h q life st fl s)"
proof -
  have act: "okP (activate_route p st fl s)"
    unfolding activate_route_def
    by (intro okM_bind_any okM_if) (use s in auto)
  have leave: "okM agent_ok (leave_neighborhood E p h t)" if "agent_ok t" for t
    unfolding leave_neighborhood_def
    by (intro okM_bind_any okM_if okM_bind[of agent_ok] rt_mod_ok outside_okD[OF E])
      (use that in auto)
  show ?thesis
    unfolding rt_update_entry_def
    by (rule okM_bind[OF act], intro okM_case_prod okM_bind[of agent_ok] leave rt_mod_ok okM_if
          rt_table_update_timeout_ok send_buffered_ok)
      (auto simp: f)
qed

lemma rt_table_update_ok:
  assumes "agent_ok s" and "outside_ok E"
  shows "okP (rt_table_update E p n h q life st fl s)"
    "okP (rt_table_update_with_channel E p n h q life st fl c w s)"
  unfolding rt_table_update_def rt_table_update_with_channel_def
  by (intro okM_bind[OF rt_update_entry_ok[OF assms]]; simp)+

lemma rt_table_invalidate_ok:
  assumes s: "agent_ok s"
  shows "okP (rt_table_invalidate E rt s)"
  unfolding rt_table_invalidate_def
  by (intro okM_case_option okM_bind[OF rt_mod_ok] okM_bind_any okM_if) (use s in auto)

lemma rt_table_delete_ok:
  assumes s: "agent_ok s"
  shows "okM agent_ok (rt_table_delete E rt s)"
proof (cases rt)
  case (Some p)
  show ?thesis
  proof (cases "rt_heap s p")
    case (Some r)
    have "PQ t = PQ s \<and> agent_rest t = agent_rest s" if "rt_table_delete E (Some p) s = Some t" for t
      using that unfolding rt_table_delete_eq[OF Some] by (auto simp: agent_rest_def)
    then show ?thesis using rt_table_delete_wf[OF agent_okD(1)[OF s]] agent_ok_wf_eq s
      by (auto simp: okM_def \<open>rt = Some p\<close>)
  qed (simp add: rt_table_delete_def Some)
qed (simp add: rt_table_delete_def s)

section \<open>Packet queue\<close>

lemma pq_make_room_agent_ok: "agent_ok s \<Longrightarrow> agent_ok (pq_make_room s)"
  using agent_ok_detach[of s "[]"]
  by (auto simp: pq_make_room_def drop_pkt_pq_set[symmetric] split: list.splits)

lemma packet_queue_add_ok:
  assumes "agent_ok s"
  shows "okM agent_ok (packet_queue_add E p d s)"
proof -
  note r = pq_make_room_agent_ok[OF assms] pq_make_room_ok[OF agent_okD(2)[OF assms]]
  show ?thesis unfolding packet_queue_add_def Let_def
    by (intro okM_if okM_bind_any) (use r in \<open>auto simp: pq_ok_def intro!: agent_ok_pq_set\<close>)
qed

lemma packet_queue_garbage_collect_ok:
  assumes "agent_ok s"
  shows "agent_ok (snd (packet_queue_garbage_collect E s))"
proof -
  have "pq_head (PQ s) = kept @ qs \<Longrightarrow> agent_ok s \<Longrightarrow> agent_ok (snd (gc_loop E qs kept n s))" for qs kept n s
  proof (induction qs arbitrary: kept n s)
    case Nil
    then show ?case using agent_okD(2)[OF Nil(2)] by (simp add: agent_ok_pq_set pq_ok_def)
  next
    case (Cons q qs)
    then show ?case using agent_ok_detach[OF Cons(3,2)]
      by (auto simp: drop_pkt_pq_set[symmetric])
  qed
  then show ?thesis using assms by (simp add: packet_queue_garbage_collect_def)
qed

section \<open>Message buffers\<close>

lemma agent_ok_send_buf:
  "agent_ok s \<Longrightarrow> agent_ok (s\<lparr>send_buf := b\<rparr>) \<longleftrightarrow> length b = AODV_MSG_MAX_SIZE"
  "agent_ok s \<Longrightarrow> agent_ok (s\<lparr>recv_buf := b\<rparr>) \<longleftrightarrow> length b = AODV_MSG_MAX_SIZE"
  by (auto simp: agent_ok_def rt_wf_def pq_ok_def agent_rest_def rest_ok_def)

lemma aodv_socket_new_msg_ok [simp]: "agent_ok s \<Longrightarrow> agent_ok (aodv_socket_new_msg s)"
  by (simp add: aodv_socket_new_msg_def agent_ok_send_buf)

text \<open>Writers of a buffer keep its length.\<close>

definition keeps_length :: "(bytes \<Rightarrow> bytes option) \<Rightarrow> bool" where
  "keeps_length f \<longleftrightarrow> (\<forall>b c. f b = Some c \<longrightarrow> length c = length b)"

lemma keeps_length_mods [simp]:
  "keeps_length (rreq_mod f)" "keeps_length (rrep_mod g)" "keeps_length (rerr_mod h)"
  "keeps_length (rrep_ack_mod k)" "keeps_length (put32 i w)" "keeps_length (put64 i d)"
  by (auto simp: keeps_length_def rreq_mod_def rrep_mod_def rerr_mod_def rrep_ack_mod_def rreq_at_def
      rrep_at_def rerr_at_def rrep_ack_at_def put32_def put64_def store_length split: if_splits)

lemma keeps_length_ext [simp]:
  "keeps_length (rreq_add_ext ty off data)" "keeps_length (rrep_add_ext ty off data)"
  by (auto simp: keeps_length_def rreq_add_ext_def rrep_add_ext_def add_ext_def store_length
      split: if_splits)

lemma keeps_lengthD: "keeps_length f \<Longrightarrow> f b = Some c \<Longrightarrow> length c = length b"
  by (simp add: keeps_length_def)

lemma keeps_length_udest [simp]:
  "keeps_length (rreq_add_udest a q)" "keeps_length (rrep_add_udest a q)"
  "keeps_length (rerr_add_udest a q)"
  unfolding keeps_length_def[of "rreq_add_udest a q"] keeps_length_def[of "rrep_add_udest a q"]
    keeps_length_def[of "rerr_add_udest a q"] rreq_add_udest_def rrep_add_udest_def rerr_add_udest_def
  by (auto dest!: keeps_lengthD[OF keeps_length_mods(1)] keeps_lengthD[OF keeps_length_mods(2)]
      keeps_lengthD[OF keeps_length_mods(3)] keeps_lengthD[OF keeps_length_mods(5)]
      keeps_lengthD[OF keeps_length_ext(1)] keeps_lengthD[OF keeps_length_ext(2)])

lemma in_send_ok: "agent_ok s \<Longrightarrow> keeps_length f \<Longrightarrow> okM agent_ok (in_send f s)"
  by (auto simp: okM_def in_send_def agent_ok_send_buf agent_okD keeps_length_def)

lemma in_recv_ok: "agent_ok s \<Longrightarrow> keeps_length f \<Longrightarrow> okM agent_ok (in_recv f s)"
  by (auto simp: okM_def in_recv_def agent_ok_send_buf agent_okD keeps_length_def)

lemma aodv_socket_queue_msg_ok: "agent_ok s \<Longrightarrow> okM agent_ok (aodv_socket_queue_msg m len s)"
  by (auto simp: okM_def aodv_socket_queue_msg_def agent_ok_send_buf agent_okD dest!: store_length
      split: if_splits)

lemma creates_ok:
  assumes "agent_ok s"
  shows "okM agent_ok (rreq_create fl d q a s)" "okM agent_ok (rreq_create_with_cost fl d q a c s)"
    "okM agent_ok (rrep_create fl' pr hc d q a li s)"
    "okM agent_ok (rrep_create_with_cost fl' pr hc d q a li c s)"
    "okM agent_ok (rrep_ack_create s)" "okM agent_ok (rerr_create fl' d q s)"
  unfolding rreq_create_def rreq_create_with_cost_def rrep_create_def rrep_create_with_cost_def
    rrep_ack_create_def rerr_create_def Let_def
  by (intro okM_bind[of agent_ok] okM_if in_send_ok; simp add: assms)+

lemma rreq_copy_with_cost_ok: "agent_ok s \<Longrightarrow> okM agent_ok (rreq_copy_with_cost s)"
  unfolding rreq_copy_with_cost_def
  by (intro okM_bind_any okM_bind[of agent_ok] creates_ok in_send_ok) simp_all

end
