(* ===== verification/Aodv_Hello.thy ===== *)
theory Aodv_Hello
  imports Agent_Inv
begin

text \<open>
  \<open>aodv_hello.c\<close> and \<open>getCost\<close> of \<open>ns-2/aodv-uu.h\<close>: the sending of HELLO messages with the
  estimation of link costs, their processing, and the bookkeeping of neighbours and of the
  host's own stability. The lemmas show that every operation preserves the agent's invariant;
  what the operations achieve is in \<open>Hello_Claims\<close>.
\<close>

definition ROUTE_TIMEOUT_SLACK :: u32 where [simp]: "ROUTE_TIMEOUT_SLACK = 100"
definition HELLO_DELAY :: int where [simp]: "HELLO_DELAY = 50"
definition MAX_NEIGHBORS :: nat where [simp]: "MAX_NEIGHBORS = 20"

section \<open>The neighbour array\<close>

text \<open>
  \<open>for (i = 0; i < neighbor_num; i++) if (P) break;\<close>: the index at which the loop stops. The
  array has a fixed size, \<open>neighbor_num\<close> is not checked against it.
\<close>

fun nb_search :: "(neighbor_info \<Rightarrow> bool) \<Rightarrow> neighbor_info list \<Rightarrow> int \<Rightarrow> int \<Rightarrow> int option" where
  "nb_search P [] i num = (if i < num then None else Some i)"
| "nb_search P (n # ns) i num =
     (if i < num then if P n then Some i else nb_search P ns (i + 1) num else Some i)"

definition neighbor_index :: "(neighbor_info \<Rightarrow> bool) \<Rightarrow> aodv \<Rightarrow> int option" where
  "neighbor_index P s = nb_search P (hi_neighbors (this_host s)) 0 (hi_neighbor_num (this_host s))"

definition nb_mod :: "int \<Rightarrow> (neighbor_info \<Rightarrow> neighbor_info option) \<Rightarrow> aodv \<Rightarrow> aodv option" where
  "nb_mod i f s = do {
     n \<leftarrow> arr_get (hi_neighbors (this_host s)) i;
     n \<leftarrow> f n;
     ns \<leftarrow> arr_set (hi_neighbors (this_host s)) i n;
     Some (s\<lparr>this_host := (this_host s)\<lparr>hi_neighbors := ns\<rparr>\<rparr>)
   }"

definition nb_append :: "(neighbor_info \<Rightarrow> neighbor_info) \<Rightarrow> aodv \<Rightarrow> aodv option" where
  "nb_append f s = do {
     s \<leftarrow> nb_mod (hi_neighbor_num (this_host s)) (\<lambda>n. Some (f n)) s;
     Some (s\<lparr>this_host := (this_host s)\<lparr>hi_neighbor_num := hi_neighbor_num (this_host s) + 1\<rparr>\<rparr>)
   }"

definition getCost :: "ext \<Rightarrow> in_addr \<Rightarrow> in_addr \<Rightarrow> int \<Rightarrow> aodv \<Rightarrow> double option" where
  "getCost E src_addr dest_addr channel s = do {
     index \<leftarrow> neighbor_index (\<lambda>n. ni_ipaddr n = src_addr) s;
     if index < hi_neighbor_num (this_host s) then do {
       n \<leftarrow> arr_get (hi_neighbors (this_host s)) index;
       c \<leftarrow> arr_get (ni_channel_cost n) channel;
       Some (d_min 0x40F86A0000000000 (d_neg (fp_log (x_fp E) (d_max 0x3EB0C6F7A0B5ED8D c))))
     } else Some 0x40F86A0000000000
   }"

section \<open>Stability of the host\<close>

text \<open>The entries of the routing table in the order of the buckets.\<close>

definition all_routes :: "aodv \<Rightarrow> rt_table list option" where
  "all_routes s = those (map (rt_heap s) (concat (take RT_TABLESIZE (tbl (rt_tbl s)))))"

definition hello_from :: "in_addr \<Rightarrow> rt_table list \<Rightarrow> bool" where
  "hello_from a rs \<longleftrightarrow> (\<exists>r \<in> set rs. t_used (rt_hello_timer r) \<and> rt_dest_addr r = a)"

definition set_stability :: "(sta_info \<Rightarrow> sta_info) \<Rightarrow> aodv \<Rightarrow> aodv" where
  "set_stability f s = s\<lparr>this_host := (this_host s)\<lparr>hi_stability := f (hi_stability (this_host s))\<rparr>\<rparr>"

text \<open>The first loop of \<open>update_sta_info\<close>, for one entry; \<open>nbs\<close> is the local array.\<close>

definition count_neighbor :: "rt_table \<Rightarrow> in_addr list \<times> aodv \<Rightarrow> (in_addr list \<times> aodv) option" where
  "count_neighbor r = (\<lambda>(nbs, s). do {
     let st = hi_stability (this_host s);
     if t_used (rt_hello_timer r) \<and> rt_dest_addr r \<notin> set (take (nat (st_neighbor_num st)) nbs) then do {
       nbs \<leftarrow> arr_set nbs (st_neighbor_num st) (rt_dest_addr r);
       j \<leftarrow> neighbor_index (\<lambda>n. ni_ipaddr n = rt_dest_addr r \<and> ni_isValid n = 1) s;
       let new = (j = hi_neighbor_num (this_host s));
       Some (nbs, set_stability (\<lambda>st. st\<lparr>st_neighbor_num := st_neighbor_num st + 1,
         st_neighbor_change := st_neighbor_change st + (if new then 1 else 0)\<rparr>) s)
     } else Some (nbs, s)
   })"

definition count_lost :: "rt_table list \<Rightarrow> nat \<Rightarrow> aodv \<Rightarrow> aodv option" where
  "count_lost rs j s = do {
     n \<leftarrow> arr_get (hi_neighbors (this_host s)) (int j);
     if ni_isValid n = 0 \<or> hello_from (ni_ipaddr n) rs then Some s
     else Some (set_stability (\<lambda>st. st\<lparr>st_neighbor_change := st_neighbor_change st + 1\<rparr>) s)
   }"

definition survey_channel :: "nat \<Rightarrow> aodv \<Rightarrow> aodv option" where
  "survey_channel i s = do {
     state \<leftarrow> arr_get (mac_state s) (int i);
     snr \<leftarrow> arr_get (mac_snr s) (int i);
     Some (set_stability (\<lambda>st. st
       \<lparr>st_ava_channel_num := st_ava_channel_num st + (if state = 1 then 1 else 0),
        st_best_channel_SNR := (if d_less (st_best_channel_SNR st) snr then snr
                                else st_best_channel_SNR st)\<rparr>) s)
   }"

definition svm_result :: "fp \<Rightarrow> sta_info \<Rightarrow> double" where
  "svm_result F st = fp_add F (fp_add F (fp_add F (fp_add F
       (fp_mul F (fp_of_int F (st_neighbor_num st)) 0x3FE8A093A3B6530E)
       (fp_mul F (fp_of_int F (st_neighbor_change st)) 0xBFD952D8B5385B91))
       (fp_mul F (fp_of_int F (st_ava_channel_num st)) 0x3FFFD0BD54B4B82E))
       (fp_mul F (st_best_channel_SNR st) 0x40101D3BC4A7396A))
       0xC02A2BE0EB92B5A5"

definition update_sta_info :: "ext \<Rightarrow> aodv \<Rightarrow> aodv option" where
  "update_sta_info E s = do {
     rs \<leftarrow> all_routes s;
     let s = set_stability (\<lambda>st. st\<lparr>st_neighbor_num := 0, st_neighbor_change := 0,
               st_ava_channel_num := 0, st_best_channel_SNR := 0\<rparr>) s;
     (nbs, s) \<leftarrow> for_each rs count_neighbor (replicate MAX_NEIGHBORS 0, s);
     s \<leftarrow> for_each [0..<nat (hi_neighbor_num (this_host s))] (count_lost rs) s;
     s \<leftarrow> for_each [0..<3] survey_channel s;
     let s = set_stability (\<lambda>st. if d_less 0x4008000000000000 (st_best_channel_SNR st)
               then st\<lparr>st_best_channel_SNR := 0x4008000000000000\<rparr> else st) s;
     Some (set_stability (\<lambda>st. st\<lparr>st_isStable :=
       (if d_less (svm_result (x_fp E) st) 0 \<or> st_neighbor_num st = 0 \<or> st_ava_channel_num st = 0
        then 0 else 1)\<rparr>) s)
   }"

definition note_neighbor :: "rt_table \<Rightarrow> aodv \<Rightarrow> aodv option" where
  "note_neighbor r s = (if t_used (rt_hello_timer r) then do {
       j \<leftarrow> neighbor_index (\<lambda>n. ni_ipaddr n = rt_dest_addr r) s;
       if j < hi_neighbor_num (this_host s) then nb_mod j (\<lambda>n. Some (n\<lparr>ni_isValid := 1\<rparr>)) s
       else nb_append (\<lambda>n. n\<lparr>ni_ipaddr := rt_dest_addr r, ni_neighbor_sta := 0, ni_isValid := 1\<rparr>) s
     } else Some s)"

definition forget_neighbor :: "rt_table list \<Rightarrow> nat \<Rightarrow> aodv \<Rightarrow> aodv option" where
  "forget_neighbor rs j s = nb_mod (int j) (\<lambda>n. Some (if ni_isValid n = 0 \<or> hello_from (ni_ipaddr n) rs
     then n else n\<lparr>ni_isValid := 0\<rparr>)) s"

definition update_neighbor_info :: "aodv \<Rightarrow> aodv option" where
  "update_neighbor_info s = do {
     rs \<leftarrow> all_routes s;
     s \<leftarrow> for_each rs note_neighbor s;
     for_each [0..<nat (hi_neighbor_num (this_host s))] (forget_neighbor rs) s
   }"

section \<open>Link costs\<close>

text \<open>The products of the fractions of HELLOs received in either direction, at most 1.\<close>

definition d_ratio :: "fp \<Rightarrow> double \<Rightarrow> double \<Rightarrow> double" where
  "d_ratio F received sent = (if d_less 0 sent then fp_div F received sent else 0)"

definition deliver_rate :: "fp \<Rightarrow> int \<Rightarrow> int \<Rightarrow> neighbor_info \<Rightarrow> double option" where
  "deliver_rate F hello_tail channel n = do {
     self_received \<leftarrow> arr_get (ni_channel_hello_self_received n) channel;
     remote_received \<leftarrow> arr_get (ni_channel_hello_remote_received n) channel;
     let positive_rate = d_ratio F (fp_of_int F remote_received) (fp_of_int F hello_tail);
     let negative_rate = d_ratio F (fp_of_int F self_received)
                           (fp_of_int F (ni_channel_hello_remote_sent n));
     let rate = fp_mul F positive_rate negative_rate;
     Some (if d_less 0x3FF0000000000000 rate then 0x3FF0000000000000 else rate)
   }"

definition predict_connect_time :: "fp \<Rightarrow> int \<Rightarrow> int \<Rightarrow> neighbor_info \<Rightarrow> double option" where
  "predict_connect_time F tail channel n = do {
     hello_series \<leftarrow> arr_get (ni_channel_hello_sequence n) channel;
     h0 \<leftarrow> arr_get hello_series (c_mod tail MAX_SEQUENCE_LEN);
     h1 \<leftarrow> arr_get hello_series (c_mod (tail - 1) MAX_SEQUENCE_LEN);
     h2 \<leftarrow> arr_get hello_series (c_mod (tail - 2) MAX_SEQUENCE_LEN);
     Some (fp_add F (fp_add F (fp_add F 0x3FEC6071C53F39D2
         (fp_mul F 0x3FA4723AAFFF36AC (fp_of_int F h0)))
         (fp_mul F 0x3FE698F3ECCC4695 (fp_of_int F h1)))
         (fp_mul F 0x3FB49D9D3458CD21 (fp_of_int F h2)))
   }"

text \<open>
  \<open>for (now_index = head; now_index < tail; ++now_index)\<close>: the two sequences are indexed with
  the counter itself, not modulo their length.
\<close>

definition stable_count :: "int \<Rightarrow> int \<Rightarrow> int list \<Rightarrow> neighbor_info \<Rightarrow> int option" where
  "stable_count head tail self n = for_each [head..tail - 1] (\<lambda>i c. do {
     a \<leftarrow> arr_get self i;
     if a = 0 then Some c else do {
       b \<leftarrow> arr_get (ni_host_stability_sequence n) i;
       Some (if b = 0 then c else c + 1)
     }
   }) 0"

definition channel_cost ::
  "fp \<Rightarrow> int \<Rightarrow> int \<Rightarrow> int list \<Rightarrow> int \<Rightarrow> neighbor_info \<Rightarrow> double option" where
  "channel_cost F head tail self channel n = do {
     rate \<leftarrow> deliver_rate F tail channel n;
     if c_mod head MAX_SEQUENCE_LEN = c_mod (tail + 1) MAX_SEQUENCE_LEN then do {
       predicted \<leftarrow> predict_connect_time F tail channel n;
       k \<leftarrow> stable_count head tail self n;
       let possibility = fp_div F (fp_mul F 0x3FF0000000000000 (fp_of_int F k))
                           (fp_of_int F MAX_SEQUENCE_LEN);
       Some (fp_add F (fp_add F (fp_mul F 0x3FD51EB851EB851F rate)
         (fp_mul F 0x3FD51EB851EB851F predicted)) (fp_mul F 0x3FD51EB851EB851F possibility))
     } else Some (if d_less rate 0x3F847AE147AE147B then 0x3F847AE147AE147B else rate)
   }"

definition update_cost :: "fp \<Rightarrow> nat \<Rightarrow> nat \<Rightarrow> aodv \<Rightarrow> aodv option" where
  "update_cost F neib_index channel s = (let h = this_host s in nb_mod (int neib_index) (\<lambda>n. do {
     c \<leftarrow> channel_cost F (hi_hello_head h) (hi_hello_tail h) (hi_stability_sequence h) (int channel) n;
     cs \<leftarrow> arr_set (ni_channel_cost n) (int channel) c;
     Some (n\<lparr>ni_channel_cost := cs\<rparr>)
   }) s)"

definition clear_hello_slot :: "nat \<Rightarrow> nat \<Rightarrow> aodv \<Rightarrow> aodv option" where
  "clear_hello_slot now_neib now_channel s = nb_mod (int now_neib) (\<lambda>n. do {
     sq \<leftarrow> arr_get (ni_channel_hello_sequence n) (int now_channel);
     sq \<leftarrow> arr_set sq (c_mod (hi_hello_tail (this_host s)) MAX_SEQUENCE_LEN) 0;
     sqs \<leftarrow> arr_set (ni_channel_hello_sequence n) (int now_channel) sq;
     Some (n\<lparr>ni_channel_hello_sequence := sqs\<rparr>)
   }) s"

text \<open>The block of \<open>hello_send\<close> between the assembly of the message and its extension.\<close>

definition hello_update_costs :: "ext \<Rightarrow> aodv \<Rightarrow> aodv option" where
  "hello_update_costs E s = do {
     let h = this_host s;
     let head = hi_hello_head h;
     let tail = hi_hello_tail h;
     sq \<leftarrow> arr_set (hi_stability_sequence h) (c_mod tail MAX_SEQUENCE_LEN) (st_isStable (hi_stability h));
     let s = s\<lparr>this_host := h\<lparr>hi_stability_sequence := sq\<rparr>\<rparr>;
     s \<leftarrow> for_each [0..<nat (hi_neighbor_num h)]
            (\<lambda>i. for_each [0..<MAX_CHANNEL_NUM] (update_cost (x_fp E) i)) s;
     let s = s\<lparr>this_host := (this_host s)
       \<lparr>hi_hello_head := (if c_mod head MAX_SEQUENCE_LEN = c_mod (tail + 1) MAX_SEQUENCE_LEN
                         then head + 1 else head),
        hi_hello_tail := tail + 1\<rparr>\<rparr>;
     for_each [0..<20] (\<lambda>i. for_each [0..<MAX_CHANNEL_NUM] (clear_hello_slot i)) s
   }"

section \<open>Sending HELLOs\<close>

definition hello_jitter :: "ext \<Rightarrow> aodv \<Rightarrow> int \<times> aodv" where
  "hello_jitter E s = (if hello_jittering (cfg s)
     then (x_jitter E (rng s), s\<lparr>rng := Suc (rng s)\<rparr>) else (0, s))"

definition hello_stop :: "ext \<Rightarrow> aodv \<Rightarrow> aodv" where
  "hello_stop E s = s\<lparr>hello_timer := x_timer_remove E (hello_timer s)\<rparr>"

text \<open>
  The neighbour set extension at offset \<open>off\<close>: every address is copied to the beginning of the
  extension's data, the 8-bit length grows by 4 each time.
\<close>

definition add_to_neighbor_set :: "nat \<Rightarrow> rt_table \<Rightarrow> aodv \<Rightarrow> aodv option" where
  "add_to_neighbor_set off r s = (if t_used (rt_hello_timer r) then do {
       s \<leftarrow> in_send (put32 (off + 2) (rt_dest_addr r)) s;
       l \<leftarrow> arr_get (send_buf s) (int off + 1);
       in_send (store (off + 1) [l + 4]) s
     } else Some s)"

definition hello_neighbor_set :: "nat option \<Rightarrow> int \<Rightarrow> aodv \<Rightarrow> (nat \<times> int \<times> aodv) option" where
  "hello_neighbor_set ext msg_size s = do {
     off \<leftarrow> (case ext of None \<Rightarrow> Some RREP_SIZE
             | Some o1 \<Rightarrow> do { l \<leftarrow> arr_get (send_buf s) (int o1 + 1); Some (o1 + 2 + unat l) });
     s \<leftarrow> in_send (store off [RREP_HELLO_NEIGHBOR_SET_EXT, 0]) s;
     rs \<leftarrow> all_routes s;
     s \<leftarrow> for_each rs (add_to_neighbor_set off) s;
     l \<leftarrow> arr_get (send_buf s) (int off + 1);
     Some (off, if l \<noteq> 0 then int RREP_SIZE + 2 + uint l else msg_size, s)
   }"

text \<open>The body of the loop over the interfaces; \<open>ext\<close> and \<open>msg_size\<close> live outside the loop.\<close>

definition hello_send_on ::
  "ext \<Rightarrow> dev_info \<Rightarrow> nat option \<times> int \<times> aodv \<Rightarrow> (nat option \<times> int \<times> aodv) option" where
  "hello_send_on E dev = (\<lambda>(ext, msg_size, s). do {
     s \<leftarrow> rrep_create 0 0 0 (dv_ipaddr dev) (hi_seqno (this_host s)) (dv_ipaddr dev)
            (word_of_int (ALLOWED_HELLO_LOSS * HELLO_INTERVAL)) s;
     s \<leftarrow> hello_update_costs E s;
     (ext, msg_size, s) \<leftarrow> (if unidir_hack (cfg s)
        then map_option (\<lambda>(off, n, s). (Some off, n, s)) (hello_neighbor_set ext msg_size s)
        else Some (ext, msg_size, s));
     s \<leftarrow> update_sta_info E s;
     s \<leftarrow> update_neighbor_info s;
     s \<leftarrow> in_send (rrep_mod (\<lambda>r. r\<lparr>rp_res1 := word_of_int (st_isStable (hi_stability (this_host s))),
            rp_hello_sent := word_of_int (hi_hello_tail (this_host s))\<rparr>)) s;
     s \<leftarrow> aodv_socket_send E (send_buf s) AODV_BROADCAST msg_size 1 dev s;
     Some (ext, msg_size, s)
   })"

definition set_hello_timer :: "ext \<Rightarrow> int \<Rightarrow> aodv \<Rightarrow> aodv" where
  "set_hello_timer E msec s = s\<lparr>hello_timer := x_timer_set_timeout E (now s) msec (hello_timer s)\<rparr>"

definition hello_send :: "ext \<Rightarrow> aodv \<Rightarrow> aodv option" where
  "hello_send E s =
     (if optimized_hellos (cfg s)
         \<and> x_timeval_diff E (now s) (hi_fwd_time (this_host s)) > active_route_timeout (cfg s)
      then Some (hello_stop E s)
      else
        let time_diff = x_timeval_diff E (now s) (hi_bcast_time (this_host s));
            (jitter, s) = hello_jitter E s
        in if time_diff \<ge> HELLO_INTERVAL then do {
             (ext, msg_size, s) \<leftarrow> for_each (enabled_devs s) (hello_send_on E) (None, int RREP_SIZE, s);
             Some (set_hello_timer E (HELLO_INTERVAL + jitter) s)
           }
           else if HELLO_INTERVAL - time_diff + jitter < 0
           then Some (set_hello_timer E (HELLO_INTERVAL - time_diff - jitter) s)
           else Some (set_hello_timer E (HELLO_INTERVAL - time_diff + jitter) s))"

definition hello_start :: "ext \<Rightarrow> aodv \<Rightarrow> aodv option" where
  "hello_start E s = (if t_used (hello_timer s) then Some s
     else hello_send E (s\<lparr>this_host := (this_host s)\<lparr>hi_fwd_time := now s\<rparr>,
            hello_timer := x_timer_init E Hello_send (hello_timer s)\<rparr>))"

section \<open>Processing HELLOs\<close>

definition hello_update_timeout :: "ext \<Rightarrow> rtp \<Rightarrow> timeval \<Rightarrow> int \<Rightarrow> aodv \<Rightarrow> aodv option" where
  "hello_update_timeout E p t time s = rt_mod p (\<lambda>r. r
     \<lparr>rt_hello_timer := x_timer_set_timeout E (now s) (time + HELLO_DELAY) (rt_hello_timer r),
      rt_last_hello_time := t\<rparr>) s"

text \<open>The entry of the sender in the neighbour array is found or appended.\<close>

definition hello_note_sender :: "RREP \<Rightarrow> aodv \<Rightarrow> aodv option" where
  "hello_note_sender hello s = do {
     i \<leftarrow> neighbor_index (\<lambda>n. ni_ipaddr n = rp_dest_addr hello) s;
     if i < hi_neighbor_num (this_host s)
     then nb_mod i (\<lambda>n. Some (n\<lparr>ni_neighbor_sta := uint (rp_res1 hello)\<rparr>)) s
     else nb_append (\<lambda>n. n\<lparr>ni_ipaddr := rp_dest_addr hello,
            ni_neighbor_sta := uint (rp_res1 hello)\<rparr>) s
   }"

definition hello_count_received :: "RREP \<Rightarrow> aodv \<Rightarrow> (int \<times> aodv) option" where
  "hello_count_received hello s = do {
     i \<leftarrow> neighbor_index (\<lambda>n. ni_ipaddr n = rp_dest_addr hello \<or> ni_ipaddr n = 0) s;
     s \<leftarrow> (if i < hi_neighbor_num (this_host s)
           then nb_mod i (\<lambda>n. Some (n\<lparr>ni_ipaddr := rp_dest_addr hello\<rparr>)) s else Some s);
     s \<leftarrow> nb_mod i (\<lambda>n. do {
            k \<leftarrow> arr_get (ni_channel_hello_self_received n) (uint (rp_channel hello));
            ks \<leftarrow> arr_set (ni_channel_hello_self_received n) (uint (rp_channel hello)) (k + 1);
            Some (n\<lparr>ni_channel_hello_self_received := ks,
                   ni_channel_hello_remote_sent := sint (rp_hello_sent hello)\<rparr>)
          }) s;
     n \<leftarrow> arr_get (hi_neighbors (this_host s)) i;
     k \<leftarrow> arr_get (ni_channel_hello_self_received n) (uint (rp_channel hello));
     Some (k, s)
   }"

definition hello_acknowledge :: "ext \<Rightarrow> RREP \<Rightarrow> u32 \<Rightarrow> int \<Rightarrow> aodv \<Rightarrow> aodv option" where
  "hello_acknowledge E hello ifindex received s = do {
     s \<leftarrow> rrep_ack_create s;
     s \<leftarrow> in_send (rrep_ack_mod (\<lambda>a. a\<lparr>ra_is_hello_ack := 1, ra_channel := rp_channel hello,
            ra_hello_index := ucast (rp_hello_sent hello),
            ra_channel_hello_received := word_of_int received,
            ra_host_stability := word_of_int (st_isStable (hi_stability (this_host s)))\<rparr>)) s;
     let s = s\<lparr>channelNum := uint (rp_channel hello)\<rparr>;
     dev \<leftarrow> DEV_IFINDEX ifindex s;
     aodv_socket_send E (send_buf s) (rp_dest_addr hello) (int RREP_ACK_SIZE) MAXTTL dev s
   }"

text \<open>The loop over the extensions yields the interval and the flags.\<close>

definition ext_neighbors :: "bytes \<Rightarrow> nat \<Rightarrow> u8 \<Rightarrow> in_addr list option" where
  "ext_neighbors b off l = those (map (\<lambda>k. get32 b (off + 2 + 4 * k)) [0..<(unat l + 3) div 4])"

function (sequential) hello_exts ::
  "in_addr \<Rightarrow> bytes \<Rightarrow> int \<Rightarrow> nat \<Rightarrow> u32 \<times> u8 \<Rightarrow> (u32 \<times> u8) option" where
  "hello_exts self b rreplen off (hello_interval, flags) =
     (if rreplen > int RREP_SIZE then do {
        type \<leftarrow> arr_get b (int off);
        l \<leftarrow> arr_get b (int off + 1);
        if type = RREP_HELLO_INTERVAL_EXT then do {
          v \<leftarrow> (if l = 4 then get32 b (off + 2) else Some hello_interval);
          hello_exts self b (rreplen - (2 + uint l)) (off + 2 + unat l) (v, flags)
        }
        else if type = RREP_HELLO_NEIGHBOR_SET_EXT then do {
          ns \<leftarrow> ext_neighbors b off l;
          hello_exts self b (rreplen - (2 + uint l)) (off + 2 + unat l)
            (hello_interval, if self \<in> set ns then flags AND NOT (ucast RT_UNIDIR) else flags)
        }
        else Some (hello_interval, flags)
      } else Some (hello_interval, flags))"
  by pat_completeness auto
termination
  by (relation "measure (\<lambda>(self, b, rreplen, off, st). nat rreplen)")
    (auto intro: order_less_le_trans[OF _ unsigned_greater_eq])

definition hello_process :: "ext \<Rightarrow> int \<Rightarrow> u32 \<Rightarrow> aodv \<Rightarrow> aodv option" where
  "hello_process E rreplen ifindex s = do {
     hello \<leftarrow> rrep_at (recv_buf s);
     let hello_dest = rp_dest_addr hello;
     s \<leftarrow> hello_note_sender hello s;
     (received, s) \<leftarrow> hello_count_received hello s;
     s \<leftarrow> hello_acknowledge E hello ifindex received s;
     rt \<leftarrow> rt_table_find hello_dest s;
     flags \<leftarrow> (case rt of None \<Rightarrow> Some 0 | Some p \<Rightarrow> do { r \<leftarrow> rt_heap s p; Some (ucast (rt_flags r)) });
     let flags = (if unidir_hack (cfg s) then flags OR ucast RT_UNIDIR else flags);
     dev \<leftarrow> DEV_IFINDEX ifindex s;
     (hello_interval, flags) \<leftarrow> hello_exts (dv_ipaddr dev) (recv_buf s) rreplen RREP_SIZE
        (word_of_int HELLO_INTERVAL, flags);
     let state = (if receive_n_hellos (cfg s) \<noteq> 0 then INVALID else VALID);
     let timeout = word_of_int ALLOWED_HELLO_LOSS * hello_interval + ROUTE_TIMEOUT_SLACK;
     let hello_time = uint (word_of_int ALLOWED_HELLO_LOSS * hello_interval);
     (case rt of
        None \<Rightarrow> do {
          (rt, s) \<leftarrow> rt_table_insert E hello_dest hello_dest 1 (rp_dest_seqno hello) timeout state
                     (ucast flags) ifindex s;
          p \<leftarrow> rt;
          s \<leftarrow> rt_mod p (\<lambda>r. r\<lparr>rt_hello_cnt := 1\<rparr>) s;
          hello_update_timeout E p (now s) hello_time s
        }
      | Some p \<Rightarrow> do {
          r \<leftarrow> rt_heap s p;
          if has_flag flags (ucast RT_UNIDIR) \<and> rt_state r = VALID \<and> rt_hcnt r > 1
          then hello_update_timeout E p (now s) hello_time s
          else if receive_n_hellos (cfg s) \<noteq> 0 \<and> uint (rt_hello_cnt r) < receive_n_hellos (cfg s) - 1
          then rt_mod p (\<lambda>r. r\<lparr>rt_hello_cnt :=
                 (if x_timeval_diff E (now s) (rt_last_hello_time r)
                       < uint (hello_interval + hello_interval div 2)
                  then rt_hello_cnt r + 1 else 1), rt_last_hello_time := now s\<rparr>) s
          else do {
            (p, s) \<leftarrow> rt_table_update E p hello_dest 1 (rp_dest_seqno hello) timeout VALID (ucast flags) s;
            hello_update_timeout E p (now s) hello_time s
          }
        })
   }"

section \<open>The invariant is kept\<close>

lemma nb_mod_ok: "agent_ok s \<Longrightarrow> okM agent_ok (nb_mod i f s)"
  unfolding nb_mod_def by (intro okM_bind_any) simp

lemma nb_append_ok: "agent_ok s \<Longrightarrow> okM agent_ok (nb_append f s)"
  unfolding nb_append_def by (intro okM_bind[OF nb_mod_ok]) simp_all

lemma set_stability_ok [simp]: "agent_ok (set_stability f s) = agent_ok s"
  by (simp add: set_stability_def)

lemma set_hello_timer_ok [simp]:
  "agent_ok (set_hello_timer E m s) = agent_ok s" "agent_ok (hello_stop E s) = agent_ok s"
  by (simp_all add: set_hello_timer_def hello_stop_def)

lemma update_sta_info_ok: "agent_ok s \<Longrightarrow> okM agent_ok (update_sta_info E s)"
proof -
  have 1: "okM (\<lambda>(nbs, t). agent_ok t) (count_neighbor r x)" if "(\<lambda>(nbs, t). agent_ok t) x" for r x
    unfolding count_neighbor_def
    by (intro okM_case_prod okM_Let okM_if okM_bind_any) (use that in auto)
  have 2: "okM agent_ok (count_lost rs j t)" "okM agent_ok (survey_channel j t)" if "agent_ok t" for rs j t
    unfolding count_lost_def survey_channel_def by (intro okM_bind_any okM_if; simp add: that)+
  show "agent_ok s \<Longrightarrow> okM agent_ok (update_sta_info E s)"
    unfolding update_sta_info_def
    by (rule okM_bind_any, intro okM_Let okM_bind[OF okM_for_each[OF _ 1]] okM_case_prod
          okM_bind[OF okM_for_each[OF _ 2(1)]] okM_bind[OF okM_for_each[OF _ 2(2)]]) auto
qed

lemma update_neighbor_info_ok: "agent_ok s \<Longrightarrow> okM agent_ok (update_neighbor_info s)"
  unfolding update_neighbor_info_def note_neighbor_def forget_neighbor_def
  by (rule okM_bind_any, intro okM_bind[of agent_ok] okM_for_each okM_if nb_mod_ok nb_append_ok
        okM_bind_any[where m = "neighbor_index P s" for P s]) simp_all

lemma hello_update_costs_ok: "agent_ok s \<Longrightarrow> okM agent_ok (hello_update_costs E s)"
  unfolding hello_update_costs_def update_cost_def clear_hello_slot_def Let_def
  by (rule okM_bind_any, intro okM_bind[of agent_ok] okM_for_each nb_mod_ok) simp_all

lemma keeps_length_store [simp]: "keeps_length (store i bs)"
  by (simp add: keeps_length_def store_length)

lemma hello_neighbor_set_ok: "agent_ok s \<Longrightarrow> okM (\<lambda>(off, n, t). agent_ok t) (hello_neighbor_set ext n s)"
proof -
  have 1: "okM agent_ok (add_to_neighbor_set off r t)" if "agent_ok t" for off r t
    unfolding add_to_neighbor_set_def
    by (intro okM_if okM_bind[of agent_ok] in_send_ok okM_bind_any[where m = "arr_get b i" for b i])
      (simp_all add: that)
  show "agent_ok s \<Longrightarrow> okM (\<lambda>(off, n, t). agent_ok t) (hello_neighbor_set ext n s)"
    unfolding hello_neighbor_set_def
    by (rule okM_bind_any, rule okM_bind[OF in_send_ok], simp, simp, rule okM_bind_any,
        rule okM_bind[OF okM_for_each[OF _ 1]], simp, simp, rule okM_bind_any, simp)
qed

lemma hello_send_on_ok:
  "(\<lambda>(ext, n, t). agent_ok t) x \<Longrightarrow> okM (\<lambda>(ext, n, t). agent_ok t) (hello_send_on E dev x)"
proof -
  assume x: "(\<lambda>(ext, n, t). agent_ok t) x"
  have u: "okM (\<lambda>(ext, n, t). agent_ok t) (if c
        then map_option (\<lambda>(off, n, s). (Some off, n, s)) (hello_neighbor_set ext m s)
        else Some (ext, m, s))" if "agent_ok s" for ext m s c
    using hello_neighbor_set_ok[OF that, of ext m] that by (auto simp: okM_def)
  show ?thesis
    unfolding hello_send_on_def
    by (intro okM_case_prod okM_bind[of agent_ok] okM_bind[OF u] creates_ok hello_update_costs_ok
          update_sta_info_ok update_neighbor_info_ok in_send_ok aodv_socket_send_ok) (use x in auto)
qed

lemma hello_send_ok: "agent_ok s \<Longrightarrow> okM agent_ok (hello_send E s)"
  unfolding hello_send_def hello_jitter_def
  by (intro okM_if okM_Let okM_case_prod okM_bind[OF okM_for_each[OF _ hello_send_on_ok]])
    (auto split: if_splits)

lemma hello_start_ok: "agent_ok s \<Longrightarrow> okM agent_ok (hello_start E s)"
  unfolding hello_start_def by (intro okM_if hello_send_ok) simp_all

lemma hello_note_sender_ok: "agent_ok s \<Longrightarrow> okM agent_ok (hello_note_sender h s)"
  unfolding hello_note_sender_def by (intro okM_bind_any okM_if nb_mod_ok nb_append_ok) simp_all

lemma hello_count_received_ok: "agent_ok s \<Longrightarrow> okP (hello_count_received h s)"
  unfolding hello_count_received_def
  by (rule okM_bind_any, intro okM_bind[of agent_ok] okM_if nb_mod_ok okM_bind_any) simp_all

lemma hello_acknowledge_ok: "agent_ok s \<Longrightarrow> okM agent_ok (hello_acknowledge E h i k s)"
  unfolding hello_acknowledge_def Let_def
  by (rule okM_bind[OF creates_ok(5)], simp, rule okM_bind[OF in_send_ok], simp, simp,
      rule okM_bind_any, rule aodv_socket_send_ok, simp)

lemma hello_update_timeout_ok: "agent_ok s \<Longrightarrow> okM agent_ok (hello_update_timeout E p t m s)"
  unfolding hello_update_timeout_def by (rule rt_mod_ok) simp_all

lemma hello_process_ok:
  assumes "agent_ok s" and E: "outside_ok E"
  shows "okM agent_ok (hello_process E len i s)"
  unfolding hello_process_def
  by (intro okM_reads okM_Let okM_bind[OF hello_note_sender_ok] okM_bind[OF hello_count_received_ok]
        okM_bind[OF hello_acknowledge_ok] okM_case_prod okM_case_option okM_if
        okM_bind[OF rt_table_insert_ok] okM_bind[OF rt_table_update_ok(1)]
        okM_bind[OF rt_mod_ok] rt_mod_ok hello_update_timeout_ok)
    (use assms outside_okD(2)[OF E] in auto)

end
