(* ===== verification/Rrep_Send.thy ===== *)
theory Rrep_Send
  imports Aodv_Hello
begin

text \<open>
  The sending half of \<open>aodv_rrep.c\<close>: \<open>rrep_send\<close>, \<open>rrep_send_with_channel\<close>, \<open>rrep_forward\<close>
  and \<open>rrep_ack_process\<close>. The RREP sent lies in \<open>send_buf\<close>, the one forwarded in \<open>recv_buf\<close>.
  Route pointers are optional, as in the source.
\<close>

section \<open>Sending\<close>

text \<open>
  The check for a unidirectional link. The local \<open>rrep_flags\<close> of the source, set here to
  \<open>RREP_ACK\<close>, is never read, so that it has no counterpart.
\<close>

definition rrep_request_ack :: "ext \<Rightarrow> rtp \<Rightarrow> aodv \<Rightarrow> aodv option" where
  "rrep_request_ack E rev_rt s = do {
     r \<leftarrow> rt_heap s rev_rt;
     if rt_state r = VALID \<and> has_flag (rt_flags r) RT_UNIDIR \<or> rt_hcnt r = 1 \<and> unidir_hack (cfg s)
     then do {
       neighbor \<leftarrow> rt_table_find (rt_next_hop r) s;
       (case neighbor of None \<Rightarrow> Some s | Some q \<Rightarrow> do {
          n \<leftarrow> rt_heap s q;
          if rt_state n = VALID \<and> \<not> t_used (rt_ack_timer n) then do {
            s \<leftarrow> rt_mod q (\<lambda>n. n\<lparr>rt_flags := rt_flags n OR RT_UNIDIR,
                   rt_hello_timer := x_timer_remove E (rt_hello_timer n)\<rparr>) s;
            s \<leftarrow> x_neighbor_link_break E q s;
            rt_mod q (\<lambda>n. n\<lparr>rt_ack_timer := x_timer_set_timeout E (now s) NEXT_HOP_WAIT (rt_ack_timer n)\<rparr>) s
          } else Some s
        })
     } else Some s
   }"

text \<open>Both routes become precursors of each other, when both exist.\<close>

definition link_precursors :: "ext \<Rightarrow> rtp \<Rightarrow> rtp \<Rightarrow> aodv \<Rightarrow> aodv option" where
  "link_precursors E fwd_rt rev_rt s = do {
     rev \<leftarrow> rt_heap s rev_rt;
     s \<leftarrow> precursor_add E (Some fwd_rt) (rt_next_hop rev) s;
     fwd \<leftarrow> rt_heap s fwd_rt;
     precursor_add E (Some rev_rt) (rt_next_hop fwd) s
   }"

definition rrep_send_finish :: "ext \<Rightarrow> rtp \<Rightarrow> rtp option \<Rightarrow> int \<Rightarrow> aodv \<Rightarrow> aodv option" where
  "rrep_send_finish E rev_rt fwd_rt sz s = do {
     r \<leftarrow> rt_heap s rev_rt;
     dev \<leftarrow> DEV_IFINDEX (rt_ifindex r) s;
     s \<leftarrow> aodv_socket_send E (send_buf s) (rt_next_hop r) sz MAXTTL dev s;
     s \<leftarrow> (case fwd_rt of None \<Rightarrow> Some s | Some f \<Rightarrow> link_precursors E f rev_rt s);
     if \<not> llfeedback (cfg s) \<and> optimized_hellos (cfg s) then hello_start E s else Some s
   }"

definition rrep_send :: "ext \<Rightarrow> rtp option \<Rightarrow> rtp option \<Rightarrow> int \<Rightarrow> aodv \<Rightarrow> aodv option" where
  "rrep_send E rev_rt fwd_rt sz s = (case rev_rt of None \<Rightarrow> Some s | Some p \<Rightarrow> do {
     s \<leftarrow> rrep_request_ack E p s;
     rrep_send_finish E p fwd_rt sz s
   })"

definition rrep_send_with_channel ::
  "ext \<Rightarrow> rtp option \<Rightarrow> rtp option \<Rightarrow> int \<Rightarrow> int \<Rightarrow> aodv \<Rightarrow> aodv option" where
  "rrep_send_with_channel E rev_rt fwd_rt sz channel s = (case rev_rt of None \<Rightarrow> Some s | Some p \<Rightarrow> do {
     s \<leftarrow> rrep_request_ack E p s;
     rrep_send_finish E p fwd_rt sz (s\<lparr>channelNum := channel\<rparr>)
   })"

section \<open>Forwarding\<close>

text \<open>The block under \<open>if (0)\<close> is dead code.\<close>

definition rrep_forward :: "ext \<Rightarrow> int \<Rightarrow> rtp option \<Rightarrow> rtp option \<Rightarrow> int \<Rightarrow> aodv \<Rightarrow> aodv option" where
  "rrep_forward E sz rev_rt fwd_rt ttl s = (case (rev_rt, fwd_rt) of
     (Some p, Some f) \<Rightarrow> do {
       s \<leftarrow> aodv_socket_queue_msg (recv_buf s) sz s;
       fwd \<leftarrow> rt_heap s f;
       s \<leftarrow> in_send (rrep_mod (\<lambda>m. m\<lparr>rp_hcnt := rt_hcnt fwd\<rparr>)) s;
       rev \<leftarrow> rt_heap s p;
       dev \<leftarrow> DEV_IFINDEX (rt_ifindex rev) s;
       s \<leftarrow> aodv_socket_send E (send_buf s) (rt_next_hop rev) sz (word_of_int ttl) dev s;
       s \<leftarrow> link_precursors E f p s;
       rt_table_update_timeout E (Some p) (active_timeout s) s
     }
   | _ \<Rightarrow> Some s)"

section \<open>Acknowledgements\<close>

text \<open>An acknowledged HELLO updates the neighbour found, or the cell behind the last one.\<close>

definition hello_ack_record :: "RREP_ack \<Rightarrow> in_addr \<Rightarrow> aodv \<Rightarrow> aodv option" where
  "hello_ack_record a ip_src s = do {
     i \<leftarrow> neighbor_index (\<lambda>n. ni_ipaddr n = ip_src) s;
     let slot = c_mod (uint (ra_hello_index a)) MAX_SEQUENCE_LEN;
     let channel = uint (ra_channel a);
     s \<leftarrow> (if uint (ra_hello_index a) \<ge> hi_hello_head (this_host s) then nb_mod i (\<lambda>n. do {
              hs \<leftarrow> arr_set (ni_host_stability_sequence n) slot (uint (ra_host_stability a));
              sq \<leftarrow> arr_get (ni_channel_hello_sequence n) channel;
              sq \<leftarrow> arr_set sq slot 1;
              sqs \<leftarrow> arr_set (ni_channel_hello_sequence n) channel sq;
              Some (n\<lparr>ni_host_stability_sequence := hs, ni_channel_hello_sequence := sqs\<rparr>)
            }) s
          else Some s);
     nb_mod i (\<lambda>n. do {
       rs \<leftarrow> arr_set (ni_channel_hello_remote_received n) channel (uint (ra_channel_hello_received a));
       Some (n\<lparr>ni_channel_hello_remote_received := rs\<rparr>)
     }) s
   }"

definition rrep_ack_process :: "ext \<Rightarrow> in_addr \<Rightarrow> aodv \<Rightarrow> aodv option" where
  "rrep_ack_process E ip_src s = do {
     a \<leftarrow> rrep_ack_at (recv_buf s);
     rt \<leftarrow> rt_table_find ip_src s;
     if ra_is_hello_ack a \<noteq> 0 then hello_ack_record a ip_src s
     else (case rt of None \<Rightarrow> Some s
       | Some p \<Rightarrow> rt_mod p (\<lambda>r. r\<lparr>rt_ack_timer := x_timer_remove E (rt_ack_timer r)\<rparr>) s)
   }"

section \<open>The invariant is kept\<close>

lemma rrep_request_ack_ok:
  "agent_ok s \<Longrightarrow> outside_ok E \<Longrightarrow> okM agent_ok (rrep_request_ack E p s)"
  unfolding rrep_request_ack_def
  by (intro okM_reads okM_if okM_case_option okM_bind[OF rt_mod_ok] okM_bind[OF outside_okD(4)] rt_mod_ok)
    auto

lemma link_precursors_ok: "agent_ok s \<Longrightarrow> okM agent_ok (link_precursors E f p s)"
  unfolding link_precursors_def by (intro okM_reads okM_bind[OF precursors_ok(1)] precursors_ok)

lemma rrep_send_finish_ok: "agent_ok s \<Longrightarrow> okM agent_ok (rrep_send_finish E p f n s)"
  unfolding rrep_send_finish_def
  by (intro okM_reads okM_bind[OF aodv_socket_send_ok] okM_if hello_start_ok okM_case_option
        okM_bind[of agent_ok] link_precursors_ok) auto

lemma rrep_send_ok:
  assumes "agent_ok s" and "outside_ok E"
  shows "okM agent_ok (rrep_send E rev_rt fwd_rt n s)"
    "okM agent_ok (rrep_send_with_channel E rev_rt fwd_rt n c s)"
  unfolding rrep_send_def rrep_send_with_channel_def
  by (intro okM_case_option okM_bind[OF rrep_request_ack_ok] rrep_send_finish_ok; simp add: assms)+

lemma rrep_forward_ok: "agent_ok s \<Longrightarrow> okM agent_ok (rrep_forward E n rev_rt fwd_rt ttl s)"
  unfolding rrep_forward_def
  by (intro okM_case_prod okM_case_option okM_reads okM_bind[OF aodv_socket_queue_msg_ok]
        okM_bind[OF in_send_ok] okM_bind[OF aodv_socket_send_ok] okM_bind[OF link_precursors_ok]
        rt_table_update_timeout_ok) auto

lemma rrep_ack_process_ok: "agent_ok s \<Longrightarrow> okM agent_ok (rrep_ack_process E a s)"
  unfolding rrep_ack_process_def hello_ack_record_def
  by (rule okM_bind_any, intro okM_reads okM_if okM_Let okM_case_option okM_bind[of agent_ok] nb_mod_ok rt_mod_ok)
    auto

end
