(* ===== verification/Aodv_Buffers.thy ===== *)
theory Aodv_Buffers
  imports Agent_Inv
begin

text \<open>
  The three buffers of recently seen things: the RREQ records and the black list of
  \<open>aodv_rreq.c\<close> and the RERR records of \<open>aodv_rerr.c\<close>. All three are lists with a lookup by
  key, an insertion that leaves a buffered key alone, and a timeout that removes one record;
  this is the contract \<open>record_buffer\<close>, interpreted for each of them. A pointer returned by an
  insertion is used by no caller; a lookup returns the record found.
\<close>

section \<open>RREQ records\<close>

definition rreq_record_find :: "in_addr \<Rightarrow> u32 \<Rightarrow> aodv \<Rightarrow> rreq_record option" where
  "rreq_record_find orig_addr rreq_id s =
     find (\<lambda>rec. rr_orig_addr rec = orig_addr \<and> rr_rreq_id rec = rreq_id) (rreq_records s)"

definition rreq_record_find_less_cost ::
  "in_addr \<Rightarrow> u32 \<Rightarrow> double \<Rightarrow> aodv \<Rightarrow> rreq_record option" where
  "rreq_record_find_less_cost orig_addr rreq_id cost s =
     find (\<lambda>rec. rr_orig_addr rec = orig_addr \<and> rr_rreq_id rec = rreq_id \<and> d_less (rr_cost rec) cost)
       (rreq_records s)"

text \<open>\<open>timer_init\<close> and \<open>timer_set_timeout\<close> on the timer of a record just allocated.\<close>

definition record_timer :: "ext \<Rightarrow> handler \<Rightarrow> int \<Rightarrow> aodv \<Rightarrow> timer" where
  "record_timer E h msec s = x_timer_set_timeout E (now s) msec (x_timer_init E h zero_timer)"

definition rreq_record_insert_with_cost :: "ext \<Rightarrow> in_addr \<Rightarrow> u32 \<Rightarrow> double \<Rightarrow> aodv \<Rightarrow> aodv option" where
  "rreq_record_insert_with_cost E orig_addr rreq_id cost s =
     (case rreq_record_find orig_addr rreq_id s of
        Some rec \<Rightarrow> Some s
      | None \<Rightarrow> do {
          p \<leftarrow> x_malloc E (\<lambda>p. p \<in> rr_ptr ` set (rreq_records s));
          Some (s\<lparr>rreq_records := \<lparr>rr_ptr = p, rr_orig_addr = orig_addr, rr_rreq_id = rreq_id,
            rr_rec_timer = record_timer E Rreq_record_timeout PATH_DISCOVERY_TIME s,
            rr_cost = cost\<rparr> # rreq_records s\<rparr>)
        })"

text \<open>\<open>rreq_record_insert\<close> leaves the cost of the new record uninitialised.\<close>

definition rreq_record_insert :: "ext \<Rightarrow> in_addr \<Rightarrow> u32 \<Rightarrow> aodv \<Rightarrow> aodv option" where
  "rreq_record_insert E orig_addr rreq_id s =
     rreq_record_insert_with_cost E orig_addr rreq_id (x_uninit E) s"

text \<open>\<open>list_detach\<close> and \<open>free\<close> of the record that the timer's argument points to.\<close>

definition rreq_record_timeout :: "nat \<Rightarrow> aodv \<Rightarrow> aodv option" where
  "rreq_record_timeout p s = (if p \<in> rr_ptr ` set (rreq_records s)
     then Some (s\<lparr>rreq_records := filter (\<lambda>rec. rr_ptr rec \<noteq> p) (rreq_records s)\<rparr>) else None)"

section \<open>The black list\<close>

definition rreq_blacklist_find :: "in_addr \<Rightarrow> aodv \<Rightarrow> blacklist option" where
  "rreq_blacklist_find dest_addr s = find (\<lambda>bl. bl_dest_addr bl = dest_addr) (rreq_blacklist s)"

definition rreq_blacklist_insert :: "ext \<Rightarrow> in_addr \<Rightarrow> aodv \<Rightarrow> aodv option" where
  "rreq_blacklist_insert E dest_addr s = (case rreq_blacklist_find dest_addr s of
     Some bl \<Rightarrow> Some s
   | None \<Rightarrow> do {
       p \<leftarrow> x_malloc E (\<lambda>p. p \<in> bl_ptr ` set (rreq_blacklist s));
       Some (s\<lparr>rreq_blacklist := \<lparr>bl_ptr = p, bl_dest_addr = dest_addr,
         bl_timer = record_timer E Rreq_blacklist_timeout (BLACKLIST_TIMEOUT (ttl_start (cfg s))) s\<rparr>
         # rreq_blacklist s\<rparr>)
     })"

definition rreq_blacklist_timeout :: "nat \<Rightarrow> aodv \<Rightarrow> aodv option" where
  "rreq_blacklist_timeout p s = (if p \<in> bl_ptr ` set (rreq_blacklist s)
     then Some (s\<lparr>rreq_blacklist := filter (\<lambda>bl. bl_ptr bl \<noteq> p) (rreq_blacklist s)\<rparr>) else None)"

section \<open>RERR records\<close>

definition rerr_record_find :: "in_addr \<Rightarrow> u32 \<Rightarrow> u32 \<Rightarrow> aodv \<Rightarrow> rerr_record option" where
  "rerr_record_find orig_addr rerr_id last_addr s =
     find (\<lambda>rec. er_orig_addr rec = orig_addr \<and> er_rerr_id rec = rerr_id \<and> er_last_addr rec = last_addr)
       (rerr_records s)"

definition rerr_record_insert :: "ext \<Rightarrow> in_addr \<Rightarrow> u32 \<Rightarrow> u32 \<Rightarrow> aodv \<Rightarrow> aodv option" where
  "rerr_record_insert E orig_addr rerr_id last_addr s =
     (case rerr_record_find orig_addr rerr_id last_addr s of
        Some rec \<Rightarrow> Some s
      | None \<Rightarrow> do {
          p \<leftarrow> x_malloc E (\<lambda>p. p \<in> er_ptr ` set (rerr_records s));
          Some (s\<lparr>rerr_records := \<lparr>er_ptr = p, er_orig_addr = orig_addr, er_rerr_id = rerr_id,
            er_last_addr = last_addr,
            er_rec_timer = record_timer E Rerr_record_timeout RERR_TIME s\<rparr> # rerr_records s\<rparr>)
        })"

definition rerr_record_timeout :: "nat \<Rightarrow> aodv \<Rightarrow> aodv option" where
  "rerr_record_timeout p s = (if p \<in> er_ptr ` set (rerr_records s)
     then Some (s\<lparr>rerr_records := filter (\<lambda>rec. er_ptr rec \<noteq> p) (rerr_records s)\<rparr>) else None)"

section \<open>The contract of a buffer\<close>

locale record_buffer =
  fixes records :: "'s \<Rightarrow> 'r list" and key :: "'r \<Rightarrow> 'k" and ptr :: "'r \<Rightarrow> nat"
    and lookup :: "'k \<Rightarrow> 's \<Rightarrow> 'r option" and ins :: "'k \<Rightarrow> 's \<Rightarrow> 's option"
    and expire :: "nat \<Rightarrow> 's \<Rightarrow> 's option" and promise :: bool
  assumes lookup_find: "lookup k s = find (\<lambda>r. key r = k) (records s)"
    and ins_old: "lookup k s = Some r \<Longrightarrow> ins k s = Some s"
    and ins_new: "promise \<Longrightarrow> lookup k s = None \<Longrightarrow> ins k s = Some t \<Longrightarrow>
      \<exists>r. records t = r # records s \<and> key r = k \<and> ptr r \<notin> ptr ` set (records s)"
    and expire_removes: "expire p s = Some t \<Longrightarrow> records t = filter (\<lambda>r. ptr r \<noteq> p) (records s)"
    and expire_total: "r \<in> set (records s) \<Longrightarrow> expire (ptr r) s \<noteq> None"
begin

definition ok :: "'s \<Rightarrow> bool" where
  "ok s \<longleftrightarrow> distinct (map key (records s)) \<and> distinct (map ptr (records s))"

lemma lookup_SomeD: "lookup k s = Some r \<Longrightarrow> r \<in> set (records s) \<and> key r = k"
  unfolding lookup_find by (rule find_SomeD)

lemma lookup_None_iff: "lookup k s = None \<longleftrightarrow> k \<notin> key ` set (records s)"
  unfolding lookup_find by (auto simp: find_None_iff)

lemma ins_ok: "promise \<Longrightarrow> ok s \<Longrightarrow> ins k s = Some t \<Longrightarrow> ok t"
proof (cases "lookup k s")
  case None
  assume a: "promise" "ok s" "ins k s = Some t"
  then show "ok t" using ins_new[OF a(1) None a(3)] None by (auto simp: ok_def lookup_None_iff)
next
  case (Some r)
  assume "promise" "ok s" "ins k s = Some t"
  then show "ok t" using ins_old[OF Some] by simp
qed

lemma expire_ok: "ok s \<Longrightarrow> expire p s = Some t \<Longrightarrow> ok t"
  by (auto simp: ok_def expire_removes distinct_map_filter)

text \<open>A key is found from its insertion until its own record expires.\<close>

lemma lookup_after_ins: "promise \<Longrightarrow> ins k s = Some t \<Longrightarrow> lookup k t \<noteq> None"
proof (cases "lookup k s")
  case None
  assume "promise" "ins k s = Some t"
  from ins_new[OF this(1) None this(2)] show ?thesis by (auto simp: lookup_find)
next
  case (Some r)
  assume "ins k s = Some t"
  then show ?thesis using ins_old[OF Some] Some by simp
qed

lemma lookup_other_after_ins: "promise \<Longrightarrow> ins k s = Some t \<Longrightarrow> k' \<noteq> k \<Longrightarrow> lookup k' t = lookup k' s"
proof (cases "lookup k s")
  case None
  assume a: "promise" "ins k s = Some t" "k' \<noteq> k"
  from ins_new[OF a(1) None a(2)] a(3) show ?thesis by (auto simp: lookup_find)
next
  case (Some r)
  assume "ins k s = Some t"
  then show ?thesis using ins_old[OF Some] by simp
qed

lemma lookup_after_expire:
  assumes "ok s" and "lookup k s = Some r" and "expire p s = Some t"
  shows "lookup k t = (if p = ptr r then None else Some r)"
proof -
  note r = lookup_SomeD[OF assms(2)]
  have un: "r' = r" if "r' \<in> set (records s)" "key r' = k" for r'
    using assms(1) r that by (auto simp: ok_def distinct_map dest: inj_onD)
  show ?thesis
  proof (cases "p = ptr r")
    case True
    then have "lookup k t = None" unfolding lookup_None_iff expire_removes[OF assms(3)] using un by auto
    then show ?thesis using True by simp
  next
    case False
    then have "lookup k t \<noteq> None" unfolding lookup_None_iff expire_removes[OF assms(3)] using r by auto
    then obtain r' where r': "lookup k t = Some r'" by blast
    then have "r' \<in> set (records s)" "key r' = k"
      using lookup_SomeD[OF r'] by (auto simp: expire_removes[OF assms(3)])
    then show ?thesis using r' un False by simp
  qed
qed

end

lemma malloc_fresh: "malloc_ok E \<Longrightarrow> x_malloc E (\<lambda>p. p \<in> f ` A) = Some (f x) \<Longrightarrow> x \<notin> A"
  by (auto dest: malloc_okD)

interpretation rreq_buf: record_buffer rreq_records rreq_key rr_ptr "\<lambda>(a, i). rreq_record_find a i"
  "\<lambda>(a, i). rreq_record_insert_with_cost E a i c" rreq_record_timeout "malloc_ok E" for E c
proof (unfold_locales, goal_cases)
  case (3 k s t)
  have "p \<notin> rr_ptr ` set (rreq_records s)" if "x_malloc E (\<lambda>p. p \<in> rr_ptr ` set (rreq_records s)) = Some p" for p
    using malloc_okD[OF 3(1) that] by simp
  then show ?case using 3(2,3)
    by (auto simp: rreq_record_find_def rreq_key_def rreq_record_insert_with_cost_def
      rreq_record_timeout_def split: prod.splits)
qed (auto simp: rreq_record_find_def rreq_key_def rreq_record_insert_with_cost_def
      rreq_record_timeout_def split: option.splits if_splits)

interpretation blacklist_buf: record_buffer rreq_blacklist bl_dest_addr bl_ptr rreq_blacklist_find
  "rreq_blacklist_insert E" rreq_blacklist_timeout "malloc_ok E" for E
  by unfold_locales
    (auto simp: rreq_blacklist_find_def rreq_blacklist_insert_def
      rreq_blacklist_timeout_def dest: malloc_fresh split: option.splits if_splits)

interpretation rerr_buf: record_buffer rerr_records rerr_key er_ptr "\<lambda>(a, i, l). rerr_record_find a i l"
  "\<lambda>(a, i, l). rerr_record_insert E a i l" rerr_record_timeout "malloc_ok E" for E
proof (unfold_locales, goal_cases)
  case (3 k s t)
  have "p \<notin> er_ptr ` set (rerr_records s)" if "x_malloc E (\<lambda>p. p \<in> er_ptr ` set (rerr_records s)) = Some p" for p
    using malloc_okD[OF 3(1) that] by simp
  then show ?case using 3(2,3)
    by (auto simp: rerr_record_find_def rerr_key_def rerr_record_insert_def
      rerr_record_timeout_def split: prod.splits)
qed (auto simp: rerr_record_find_def rerr_key_def rerr_record_insert_def
      rerr_record_timeout_def split: option.splits if_splits)

section \<open>The invariant is kept\<close>

lemma agent_ok_buffers:
  assumes "agent_ok s"
  shows "rreq_buf.ok (s\<lparr>rreq_records := rs\<rparr>) \<Longrightarrow> agent_ok (s\<lparr>rreq_records := rs\<rparr>)"
    "blacklist_buf.ok (s\<lparr>rreq_blacklist := bs\<rparr>) \<Longrightarrow> agent_ok (s\<lparr>rreq_blacklist := bs\<rparr>)"
    "rerr_buf.ok (s\<lparr>rerr_records := es\<rparr>) \<Longrightarrow> agent_ok (s\<lparr>rerr_records := es\<rparr>)"
  using assms
  by (simp_all add: agent_ok_def rt_wf_def pq_ok_def agent_rest_def rest_ok_def rreq_buf.ok_def
      blacklist_buf.ok_def rerr_buf.ok_def)

lemma agent_ok_buffersD:
  assumes "agent_ok s"
  shows "rreq_buf.ok s" "blacklist_buf.ok s" "rerr_buf.ok s"
  using assms
  by (simp_all add: agent_ok_def agent_rest_def rest_ok_def rreq_buf.ok_def blacklist_buf.ok_def
      rerr_buf.ok_def)

lemma rreq_record_insert_ok:
  assumes s: "agent_ok s" and m: "malloc_ok E"
  shows "okM agent_ok (rreq_record_insert_with_cost E a i c s)" "okM agent_ok (rreq_record_insert E a i s)"
proof -
  have *: "agent_ok t" if t: "rreq_record_insert_with_cost E a i c s = Some t" for t c
  proof -
    have "rreq_buf.ok t" using rreq_buf.ins_ok[OF m agent_ok_buffersD(1)[OF s], where k = "(a, i)" and c = c and t = t] t by simp
    moreover have "\<exists>rs. t = s\<lparr>rreq_records := rs\<rparr>"
      using t by (auto simp: rreq_record_insert_with_cost_def split: option.splits intro: exI[of _ "rreq_records s"])
    ultimately show ?thesis using agent_ok_buffers(1)[OF s] by blast
  qed
  then show "okM agent_ok (rreq_record_insert_with_cost E a i c s)" "okM agent_ok (rreq_record_insert E a i s)"
    by (simp_all add: okM_def rreq_record_insert_def)
qed

lemma rreq_blacklist_insert_ok:
  assumes s: "agent_ok s" and m: "malloc_ok E"
  shows "okM agent_ok (rreq_blacklist_insert E a s)"
proof -
  have "agent_ok t" if t: "rreq_blacklist_insert E a s = Some t" for t
  proof -
    have "blacklist_buf.ok t" by (rule blacklist_buf.ins_ok[OF m agent_ok_buffersD(2)[OF s] t])
    moreover have "\<exists>bs. t = s\<lparr>rreq_blacklist := bs\<rparr>"
      using t by (auto simp: rreq_blacklist_insert_def split: option.splits intro: exI[of _ "rreq_blacklist s"])
    ultimately show ?thesis using agent_ok_buffers(2)[OF s] by blast
  qed
  then show ?thesis by (simp add: okM_def)
qed

lemma rerr_record_insert_ok:
  assumes s: "agent_ok s" and m: "malloc_ok E"
  shows "okM agent_ok (rerr_record_insert E a i l s)"
proof -
  have "agent_ok t" if t: "rerr_record_insert E a i l s = Some t" for t
  proof -
    have "rerr_buf.ok t" using rerr_buf.ins_ok[OF m agent_ok_buffersD(3)[OF s], where k = "(a, i, l)" and t = t] t by simp
    moreover have "\<exists>es. t = s\<lparr>rerr_records := es\<rparr>"
      using t by (auto simp: rerr_record_insert_def split: option.splits intro: exI[of _ "rerr_records s"])
    ultimately show ?thesis using agent_ok_buffers(3)[OF s] by blast
  qed
  then show ?thesis by (simp add: okM_def)
qed

lemma record_timeouts_ok:
  assumes s: "agent_ok s"
  shows "okM agent_ok (rreq_record_timeout p s)" "okM agent_ok (rreq_blacklist_timeout p s)"
    "okM agent_ok (rerr_record_timeout p s)"
  using rreq_buf.expire_ok[OF agent_ok_buffersD(1)[OF s], of p]
    blacklist_buf.expire_ok[OF agent_ok_buffersD(2)[OF s], of p]
    rerr_buf.expire_ok[OF agent_ok_buffersD(3)[OF s], of p] agent_ok_buffers[OF s]
  by (auto simp: okM_def rreq_record_timeout_def rreq_blacklist_timeout_def rerr_record_timeout_def)

end
