(* ===== verification/Aodv_Rreq_Send.thy ===== *)
theory Aodv_Rreq_Send
  imports Rrep_Send Aodv_Buffers
begin

text \<open>
  The originating half of \<open>aodv_rreq.c\<close>: \<open>rreq_send\<close>, \<open>rreq_forward\<close> and their variants,
  \<open>rreq_route_discovery\<close> and \<open>rreq_local_repair\<close>. A RREQ that is forwarded lies in
  \<open>recv_buf\<close>, every RREQ sent in \<open>send_buf\<close>.
\<close>

section \<open>Broadcasting\<close>

definition rreq_send_on ::
  "ext \<Rightarrow> in_addr \<Rightarrow> u32 \<Rightarrow> int \<Rightarrow> u8 \<Rightarrow> nat \<Rightarrow> dev_info \<Rightarrow> aodv \<Rightarrow> aodv option" where
  "rreq_send_on E dest_addr dest_seqno ttl flags sz dev s = do {
     s \<leftarrow> rreq_create_with_cost flags dest_addr dest_seqno (dv_ipaddr dev) 0 s;
     aodv_socket_send E (send_buf s) AODV_BROADCAST (int sz) (word_of_int ttl) dev s
   }"

definition rreq_gratuitous_flags :: "u8 \<Rightarrow> aodv \<Rightarrow> u8" where
  "rreq_gratuitous_flags flags s =
     (if rreq_gratuitous (cfg s) then flags OR RREQ_GRATUITOUS else flags)"

definition rreq_send_with_channel ::
  "ext \<Rightarrow> in_addr \<Rightarrow> u32 \<Rightarrow> int \<Rightarrow> u8 \<Rightarrow> int \<Rightarrow> aodv \<Rightarrow> aodv option" where
  "rreq_send_with_channel E dest_addr dest_seqno ttl flags channel s =
     for_each (enabled_devs s)
       (rreq_send_on E dest_addr dest_seqno ttl (rreq_gratuitous_flags flags s) RREQ_COST_SIZE)
       (s\<lparr>channelNum := channel\<rparr>)"

definition rreq_send :: "ext \<Rightarrow> in_addr \<Rightarrow> u32 \<Rightarrow> int \<Rightarrow> u8 \<Rightarrow> aodv \<Rightarrow> aodv option" where
  "rreq_send E dest_addr dest_seqno ttl flags s =
     for_each (enabled_devs s)
       (rreq_send_on E dest_addr dest_seqno ttl (rreq_gratuitous_flags flags s) RREQ_SIZE) s"

section \<open>Forwarding\<close>

text \<open>The copy in the send buffer with its hop count increased.\<close>

definition rreq_copy_to_send :: "int \<Rightarrow> aodv \<Rightarrow> aodv option" where
  "rreq_copy_to_send sz s = do {
     s \<leftarrow> aodv_socket_queue_msg (recv_buf s) sz s;
     in_send (rreq_mod (\<lambda>r. r\<lparr>rq_hcnt := rq_hcnt r + 1\<rparr>)) s
   }"

definition rreq_broadcast :: "ext \<Rightarrow> int \<Rightarrow> int \<Rightarrow> aodv \<Rightarrow> aodv option" where
  "rreq_broadcast E sz ttl s = for_each (enabled_devs s)
     (\<lambda>dev s. aodv_socket_send E (send_buf s) AODV_BROADCAST sz (word_of_int ttl) dev s) s"

definition rreq_forward :: "ext \<Rightarrow> int \<Rightarrow> int \<Rightarrow> aodv \<Rightarrow> aodv option" where
  "rreq_forward E sz ttl s = do {
     s \<leftarrow> rreq_copy_to_send sz s;
     rreq_broadcast E sz ttl s
   }"

definition rreq_forward_with_cost :: "ext \<Rightarrow> int \<Rightarrow> int \<Rightarrow> aodv \<Rightarrow> aodv option" where
  "rreq_forward_with_cost E sz ttl s = do {
     s \<leftarrow> rreq_copy_to_send sz s;
     rreq_broadcast E sz ttl s
   }"

definition rreq_forward_with_channel :: "ext \<Rightarrow> int \<Rightarrow> int \<Rightarrow> int \<Rightarrow> aodv \<Rightarrow> aodv option" where
  "rreq_forward_with_channel E sz ttl channel s = do {
     s \<leftarrow> rreq_copy_to_send sz s;
     rreq_broadcast E sz ttl (s\<lparr>channelNum := channel\<rparr>)
   }"

text \<open>\<open>for (int i = 0; i < Channel_Count; ++ i)\<close>.\<close>

definition on_all_channels :: "(int \<Rightarrow> aodv \<Rightarrow> aodv option) \<Rightarrow> aodv \<Rightarrow> aodv option" where
  "on_all_channels f = for_each [0..<Channel_Count] (\<lambda>i. f (int i))"

section \<open>The seek list\<close>

definition seek_mod :: "nat \<Rightarrow> (seek_list_t \<Rightarrow> seek_list_t) \<Rightarrow> aodv \<Rightarrow> aodv option" where
  "seek_mod p f s = (if p \<in> sk_ptr ` set (seekhead s)
     then Some (s\<lparr>seekhead := map (\<lambda>e. if sk_ptr e = p then f e else e) (seekhead s)\<rparr>) else None)"

text \<open>The insertion of a destination and the start of its timer.\<close>

definition start_seeking ::
  "ext \<Rightarrow> in_addr \<Rightarrow> u32 \<Rightarrow> int \<Rightarrow> u8 \<Rightarrow> int \<Rightarrow> aodv \<Rightarrow> aodv option" where
  "start_seeking E dest_addr dest_seqno ttl flags msec s = do {
     let (p, sk) = x_seek_list_insert E dest_addr dest_seqno ttl flags (seekhead s);
     seek_mod p (\<lambda>e. e\<lparr>sk_seek_timer := x_timer_set_timeout E (now s) msec (sk_seek_timer e)\<rparr>)
       (s\<lparr>seekhead := sk\<rparr>)
   }"

text \<open>A route waiting for a RREP is kept for \<open>2 * NET_TRAVERSAL_TIME\<close>.\<close>

definition keep_route :: "ext \<Rightarrow> rtp \<Rightarrow> aodv \<Rightarrow> aodv option" where
  "keep_route E p s = do {
     r \<leftarrow> rt_heap s p;
     if x_timeval_diff E (t_timeout (rt_rt_timer r)) (now s) < 2 * NET_TRAVERSAL_TIME
     then rt_table_update_timeout E (Some p) (word_of_int (2 * NET_TRAVERSAL_TIME)) s
     else Some s
   }"

section \<open>Route discovery\<close>

text \<open>
  The initial TTL computed for the expanding ring search is overwritten by 32 before it is
  used; the local \<open>channel\<close> is never used.
\<close>

definition rreq_route_discovery :: "ext \<Rightarrow> in_addr \<Rightarrow> u8 \<Rightarrow> aodv \<Rightarrow> aodv option" where
  "rreq_route_discovery E dest_addr flags s =
     (if x_seek_list_find E dest_addr (seekhead s) \<noteq> None then Some s
      else do {
        rt \<leftarrow> rt_table_find dest_addr s;
        (dest_seqno, s) \<leftarrow> (case rt of
            None \<Rightarrow> Some (0, s)
          | Some p \<Rightarrow> do {
              r \<leftarrow> rt_heap s p;
              s \<leftarrow> keep_route E p s;
              Some (rt_dest_seqno r, s)
            });
        let ttl = 32;
        s \<leftarrow> on_all_channels (rreq_send_with_channel E dest_addr dest_seqno ttl flags) s;
        let s = s\<lparr>this_host := (this_host s)\<lparr>hi_seqno := seqno_incr (hi_seqno (this_host s))\<rparr>\<rparr>;
        start_seeking E dest_addr dest_seqno ttl flags
          (if expanding_ring_search (cfg s) then RING_TRAVERSAL_TIME ttl else NET_TRAVERSAL_TIME) s
      })"

section \<open>Local repair\<close>

definition mark_for_repair :: "ext \<Rightarrow> rtp \<Rightarrow> aodv \<Rightarrow> aodv option" where
  "mark_for_repair E p s = do {
     s \<leftarrow> rt_mod p (\<lambda>r. r\<lparr>rt_flags := rt_flags r OR RT_REPAIR,
            rt_rt_timer := (rt_rt_timer r)\<lparr>t_handler := Some Route_expire_timeout\<rparr>\<rparr>) s;
     keep_route E p s
   }"

text \<open>
  The loop over the table: every other route over the lost next hop is marked and its
  destination added to the message; the route to the next hop itself gives its sequence number.
\<close>

definition repair_other :: "ext \<Rightarrow> rt_table \<Rightarrow> rtp \<Rightarrow> int \<times> aodv \<Rightarrow> (int \<times> aodv) option" where
  "repair_other E rt p = (\<lambda>(max_ttl, s). do {
     u \<leftarrow> rt_heap s p;
     if rt_next_hop u = rt_next_hop rt \<and> rt_dest_addr u \<noteq> rt_dest_addr rt then do {
       s \<leftarrow> mark_for_repair E p s;
       s \<leftarrow> (if rt_dest_addr u = rt_next_hop rt
             then in_send (rreq_mod (\<lambda>q. q\<lparr>rq_dest_seqno := rt_dest_seqno u\<rparr>)) s
             else in_send (rreq_add_udest (rt_dest_addr u) (rt_dest_seqno u)) s);
       Some (max max_ttl (uint (rt_hcnt u)), s)
     } else Some (max_ttl, s)
   })"

text \<open>
  Without an enabled device the loop ends at \<open>MAX_NR_INTERFACES\<close>, the extra cell of the array.
\<close>

definition first_enabled :: "aodv \<Rightarrow> dev_info option" where
  "first_enabled s = (case enabled_devs s of [] \<Rightarrow> DEV_NR MAX_NR_INTERFACES s | dev # _ \<Rightarrow> Some dev)"

text \<open>
  The debug output, which \<open>defs.h\<close> switches on, reads \<open>rt->next_hop\<close> before the test for a
  null pointer, so that a null \<open>rt\<close> fails. \<open>src_entry\<close> is looked up and not used. The timeout of the expanding ring search is computed
  from the local \<open>ttl\<close>, which is never assigned.
\<close>

definition rreq_local_repair :: "ext \<Rightarrow> rtp option \<Rightarrow> in_addr \<Rightarrow> aodv \<Rightarrow> aodv option" where
  "rreq_local_repair E rt src_addr s = (case rt of None \<Rightarrow> None | Some p \<Rightarrow> do {
     r \<leftarrow> rt_heap s p;
     if \<not> has_flag (rt_flags r) RT_REPAIR then Some s
     else do {
       let flags = RREQ_LOCAL_REPAIR OR RREQ_DEST_ONLY;
       src_entry \<leftarrow> rt_table_find src_addr s;
       dev \<leftarrow> first_enabled s;
       s \<leftarrow> rreq_create flags (rt_next_hop r) 0 (dv_ipaddr dev) s;
       s \<leftarrow> (if rt_next_hop r \<noteq> rt_dest_addr r
             then in_send (rreq_add_udest (rt_dest_addr r) (rt_dest_seqno r)) s else Some s);
       s \<leftarrow> mark_for_repair E p s;
       (max_ttl, s) \<leftarrow> for_each (concat (take RT_TABLESIZE (tbl (rt_tbl s)))) (repair_other E r)
                         (uint (rt_hcnt r), s);
       q \<leftarrow> rreq_at (send_buf s);
       s \<leftarrow> aodv_socket_send E (send_buf s) AODV_BROADCAST (sint (RREQ_EXT_OFFSET q))
              (word_of_int (max_ttl + 1)) dev s;
       start_seeking E (rt_next_hop r) (rq_dest_seqno q) (max_ttl + LOCAL_ADD_TTL) flags
         (if expanding_ring_search (cfg s)
          then 2 * sint (ucast (x_uninit E) :: u32) * NODE_TRAVERSAL_TIME
          else NET_TRAVERSAL_TIME) s
     }
   })"

section \<open>The invariant is kept\<close>

lemma rreq_send_on_ok: "agent_ok s \<Longrightarrow> okM agent_ok (rreq_send_on E d q ttl fl n dev s)"
  unfolding rreq_send_on_def by (rule okM_bind[OF creates_ok(2) aodv_socket_send_ok])

lemma rreq_send_ok:
  assumes "agent_ok s"
  shows "okM agent_ok (rreq_send E d q ttl fl s)" "okM agent_ok (rreq_send_with_channel E d q ttl fl c s)"
  unfolding rreq_send_def rreq_send_with_channel_def
  by (rule okM_for_each; simp add: assms rreq_send_on_ok)+

lemma rreq_copy_to_send_ok: "agent_ok s \<Longrightarrow> okM agent_ok (rreq_copy_to_send n s)"
  unfolding rreq_copy_to_send_def by (intro okM_bind[OF aodv_socket_queue_msg_ok] in_send_ok) simp_all

lemma rreq_broadcast_ok: "agent_ok s \<Longrightarrow> okM agent_ok (rreq_broadcast E n ttl s)"
  unfolding rreq_broadcast_def by (intro okM_for_each aodv_socket_send_ok)

lemma rreq_forward_ok:
  assumes "agent_ok s"
  shows "okM agent_ok (rreq_forward E n ttl s)" "okM agent_ok (rreq_forward_with_cost E n ttl s)"
    "okM agent_ok (rreq_forward_with_channel E n ttl c s)"
  unfolding rreq_forward_def rreq_forward_with_cost_def rreq_forward_with_channel_def
  by (intro okM_bind[OF rreq_copy_to_send_ok[OF assms]] rreq_broadcast_ok; simp)+

lemma on_all_channels_ok:
  "agent_ok s \<Longrightarrow> (\<And>c t. agent_ok t \<Longrightarrow> okM agent_ok (f c t)) \<Longrightarrow> okM agent_ok (on_all_channels f s)"
  unfolding on_all_channels_def by (rule okM_for_each)

lemma seek_mod_ok: "agent_ok s \<Longrightarrow> okM agent_ok (seek_mod p f s)"
  by (simp add: seek_mod_def)

lemma start_seeking_ok: "agent_ok s \<Longrightarrow> okM agent_ok (start_seeking E d q ttl fl m s)"
  unfolding start_seeking_def by (intro okM_Let okM_case_prod seek_mod_ok) simp

lemma keep_route_ok: "agent_ok s \<Longrightarrow> okM agent_ok (keep_route E p s)"
  unfolding keep_route_def by (intro okM_reads okM_if rt_table_update_timeout_ok) simp_all

lemma rreq_route_discovery_ok: "agent_ok s \<Longrightarrow> okM agent_ok (rreq_route_discovery E d fl s)"
proof -
  have *: "okP (case rt of None \<Rightarrow> Some (0, s)
      | Some p \<Rightarrow> rt_heap s p \<bind> (\<lambda>r. keep_route E p s \<bind> (\<lambda>s. Some (rt_dest_seqno r, s))))"
    if "agent_ok s" for rt s
    by (intro okM_case_option okM_reads okM_bind[OF keep_route_ok]) (simp_all add: that)
  show "agent_ok s \<Longrightarrow> okM agent_ok (rreq_route_discovery E d fl s)"
    unfolding rreq_route_discovery_def
    by (intro okM_if okM_bind_eq[where m = "rt_table_find a s" for a s] okM_bind[OF *] okM_case_prod okM_Let
          okM_bind[OF on_all_channels_ok] rreq_send_ok start_seeking_ok) auto
qed

lemma mark_for_repair_ok: "agent_ok s \<Longrightarrow> okM agent_ok (mark_for_repair E p s)"
  unfolding mark_for_repair_def by (intro okM_bind[OF rt_mod_ok] keep_route_ok) simp_all

lemma repair_other_ok: "(\<lambda>(m, t). agent_ok t) x \<Longrightarrow> okP (repair_other E r p x)"
  unfolding repair_other_def
  by (intro okM_case_prod okM_reads okM_if okM_bind[OF mark_for_repair_ok] okM_bind[of agent_ok] in_send_ok)
    auto

lemma rreq_local_repair_ok: "agent_ok s \<Longrightarrow> okM agent_ok (rreq_local_repair E rt a s)"
  unfolding rreq_local_repair_def
  by (intro okM_case_option okM_reads okM_if okM_Let okM_bind[OF creates_ok(1)]
        okM_bind[OF mark_for_repair_ok] okM_bind[OF okM_for_each[OF _ repair_other_ok]] okM_case_prod
        okM_bind[OF aodv_socket_send_ok] start_seeking_ok okM_bind[of agent_ok] in_send_ok) auto

end
