(* ===== verification/Aodv_Rreq.thy ===== *)
theory Aodv_Rreq
  imports Aodv_Rreq_Send
begin

text \<open>
  The receiving half of \<open>aodv_rreq.c\<close>: \<open>rreq_process\<close> and \<open>rreq_process_lr\<close>, cut at the
  comments of the source into the processing of extensions, the reverse route, the answer of
  the destination, the answer of an intermediate node and the forwarding. The message lies in
  \<open>recv_buf\<close>; \<open>rq\<close> is its header as received. The blocks under \<open>CONFIG_GATEWAY\<close> and
  \<open>DISABLED\<close> are not compiled.
\<close>

section \<open>Shared blocks\<close>

text \<open>\<open>rreq_new_hcnt\<close> is a 32-bit number, truncated to 8 bits where it becomes a hop count.\<close>

definition rreq_new_hcnt :: "RREQ \<Rightarrow> u32" where
  "rreq_new_hcnt rq = ucast (rq_hcnt rq) + 1"

definition minimal_lifetime :: "u32 \<Rightarrow> u32" where
  "minimal_lifetime hcnt = word_of_int PATH_DISCOVERY_TIME - 2 * hcnt * word_of_int NODE_TRAVERSAL_TIME"

definition MY_ROUTE_TIMEOUT :: "aodv \<Rightarrow> u32" where
  "MY_ROUTE_TIMEOUT s = word_of_int (2 * active_route_timeout (cfg s))"

text \<open>The node's sequence number becomes at least the one asked for.\<close>

definition raise_seqno :: "u32 \<Rightarrow> aodv \<Rightarrow> aodv" where
  "raise_seqno q s = (let own = hi_seqno (this_host s) in
     if q = 0 then s
     else if s32_less own q then s\<lparr>this_host := (this_host s)\<lparr>hi_seqno := q\<rparr>\<rparr>
     else if own = q then s\<lparr>this_host := (this_host s)\<lparr>hi_seqno := seqno_incr own\<rparr>\<rparr>
     else s)"

definition raise_dest_seqno :: "RREQ \<Rightarrow> rtp option \<Rightarrow> aodv \<Rightarrow> aodv option" where
  "raise_dest_seqno rq fwd_rt s = (case fwd_rt of None \<Rightarrow> Some s | Some f \<Rightarrow> do {
     r \<leftarrow> rt_heap s f;
     if \<not> has_flag (rt_flags r) RT_INET_DEST \<and> s32_less (rq_dest_seqno rq) (rt_dest_seqno r)
     then in_recv (rreq_mod (\<lambda>q. q\<lparr>rq_dest_seqno := rt_dest_seqno r\<rparr>)) s
     else Some s
   })"

text \<open>The label \<open>forward\<close>.\<close>

definition rreq_flood :: "ext \<Rightarrow> RREQ \<Rightarrow> rtp option \<Rightarrow> int \<Rightarrow> int \<Rightarrow> aodv \<Rightarrow> aodv option" where
  "rreq_flood E rq fwd_rt sz ip_ttl s =
     (if ip_ttl > 1 then do {
        s \<leftarrow> raise_dest_seqno rq fwd_rt s;
        on_all_channels (rreq_forward_with_channel E sz (ip_ttl - 1)) s
      } else Some s)"

section \<open>\<open>rreq_process_lr\<close>\<close>

definition lr_reverse_route ::
  "ext \<Rightarrow> RREQ \<Rightarrow> in_addr \<Rightarrow> u32 \<Rightarrow> aodv \<Rightarrow> (rtp option \<times> aodv) option" where
  "lr_reverse_route E rq ip_src ifindex s = do {
     rev_rt \<leftarrow> rt_table_find (rq_orig_addr rq) s;
     let hcnt = rreq_new_hcnt rq;
     let life = minimal_lifetime hcnt;
     (case rev_rt of
        None \<Rightarrow> rt_table_insert E (rq_orig_addr rq) ip_src (ucast hcnt) (rq_orig_seqno rq) life
                  VALID 0 ifindex s
      | Some p \<Rightarrow> do {
          r \<leftarrow> rt_heap s p;
          if rt_dest_seqno r = 0 \<or> s32_less (rt_dest_seqno r) (rq_orig_seqno rq)
             \<or> rq_orig_seqno rq = rt_dest_seqno r \<and> (rt_state r = INVALID \<or> hcnt < ucast (rt_hcnt r))
          then map_option (apfst Some) (rt_table_update E p ip_src (ucast hcnt) (rq_orig_seqno rq)
                 life VALID (rt_flags r) s)
          else Some (Some p, s)
        })
   }"

text \<open>Assembling an answer to the originator about this node.\<close>

definition lr_answer_create :: "rtp option \<Rightarrow> aodv \<Rightarrow> aodv option" where
  "lr_answer_create rev_rt s = do {
     p \<leftarrow> rev_rt;
     r \<leftarrow> rt_heap s p;
     dev \<leftarrow> DEV_IFINDEX (rt_ifindex r) s;
     rrep_create RREP_LOCAL_REPAIR 0 0 (dv_ipaddr dev) (hi_seqno (this_host s)) (rt_dest_addr r)
       (MY_ROUTE_TIMEOUT s) s
   }"

definition lr_answer_send :: "ext \<Rightarrow> rtp option \<Rightarrow> aodv \<Rightarrow> aodv option" where
  "lr_answer_send E rev_rt s = do {
     rrep \<leftarrow> rrep_at (send_buf s);
     rrep_send E rev_rt None (sint (RREP_EXT_OFFSET rrep)) s
   }"

text \<open>The \<open>switch\<close> over one extension: an additional destination that is this node.\<close>

definition lr_udest :: "ext \<Rightarrow> rtp option \<Rightarrow> u32 \<Rightarrow> nat \<Rightarrow> u8 \<Rightarrow> aodv \<Rightarrow> aodv option" where
  "lr_udest E rev_rt ifindex off type s =
     (if type = RREQ_UDEST_EXT then do {
        if_valid \<leftarrow> get32 (recv_buf s) (off + 10);
        udest \<leftarrow> get32 (recv_buf s) (off + 2);
        dev \<leftarrow> DEV_IFINDEX ifindex s;
        if if_valid \<noteq> 0 \<and> udest = dv_ipaddr dev then do {
          s \<leftarrow> in_recv (put32 (off + 10) 0) s;
          q \<leftarrow> get32 (recv_buf s) (off + 6);
          s \<leftarrow> lr_answer_create rev_rt (raise_seqno q s);
          s \<leftarrow> in_send (rrep_add_udest udest (hi_seqno (this_host s))) s;
          lr_answer_send E rev_rt s
        } else Some s
      } else Some s)"

text \<open>The second loop, in the answer of the destination, copies the additional destinations.\<close>

definition lr_copy_udest :: "nat \<Rightarrow> u8 \<Rightarrow> aodv \<Rightarrow> aodv option" where
  "lr_copy_udest off type s =
     (if type = RREQ_UDEST_EXT then do {
        udest \<leftarrow> get32 (recv_buf s) (off + 2);
        q \<leftarrow> get32 (recv_buf s) (off + 6);
        in_send (rrep_add_udest udest q) s
      } else Some s)"

definition lr_destination :: "ext \<Rightarrow> RREQ \<Rightarrow> rtp option \<Rightarrow> int \<Rightarrow> aodv \<Rightarrow> aodv option" where
  "lr_destination E rq rev_rt rreqlen s = do {
     s \<leftarrow> lr_answer_create rev_rt (raise_seqno (rq_dest_seqno rq) s);
     s \<leftarrow> ext_loop lr_copy_udest RREQ_SIZE rreqlen 0 RREQ_SIZE s;
     lr_answer_send E rev_rt s
   }"

text \<open>The remaining lifetime of a route, from \<open>timeval_diff\<close> to 32 bits.\<close>

definition remaining_lifetime :: "ext \<Rightarrow> rt_table \<Rightarrow> aodv \<Rightarrow> u32" where
  "remaining_lifetime E r s = word_of_int (x_timeval_diff E (t_timeout (rt_rt_timer r)) (now s))"

text \<open>\<open>None\<close> in the result is \<open>goto forward\<close>.\<close>

definition lr_intermediate ::
  "ext \<Rightarrow> RREQ \<Rightarrow> rtp option \<Rightarrow> rtp option \<Rightarrow> aodv \<Rightarrow> aodv option option" where
  "lr_intermediate E rq rev_rt fwd_rt s = (case fwd_rt of None \<Rightarrow> Some None | Some f \<Rightarrow> do {
     fwd \<leftarrow> rt_heap s f;
     if rt_state fwd = VALID \<and> \<not> rq_d rq \<and> rt_dest_seqno fwd \<noteq> 0
        \<and> s32_le (rq_dest_seqno rq) (rt_dest_seqno fwd)
     then do {
       let lifetime = remaining_lifetime E fwd s;
       p \<leftarrow> rev_rt;
       rev \<leftarrow> rt_heap s p;
       s \<leftarrow> rrep_create 0 0 (rt_hcnt fwd) (rt_dest_addr fwd) (rt_dest_seqno fwd) (rt_dest_addr rev)
              lifetime s;
       s \<leftarrow> rrep_send E rev_rt fwd_rt (int RREP_SIZE) s;
       s \<leftarrow> (if rq_g rq then do {
              rev \<leftarrow> rt_heap s p;
              fwd \<leftarrow> rt_heap s f;
              s \<leftarrow> rrep_create 0 0 (rt_hcnt rev) (rt_dest_addr rev) (rt_dest_seqno rev)
                     (rt_dest_addr fwd) lifetime s;
              rrep_send E fwd_rt rev_rt (int RREP_SIZE) s
            } else Some s);
       Some (Some s)
     } else Some None
   })"

definition rreq_process_lr :: "ext \<Rightarrow> int \<Rightarrow> in_addr \<Rightarrow> int \<Rightarrow> u32 \<Rightarrow> aodv \<Rightarrow> aodv option" where
  "rreq_process_lr E rreqlen ip_src ip_ttl ifindex s = do {
     rq \<leftarrow> rreq_at (recv_buf s);
     dev \<leftarrow> DEV_IFINDEX ifindex s;
     if rq_orig_addr rq = dv_ipaddr dev then Some s
     else if rreqlen < int RREQ_SIZE then Some s
     else if rreq_blacklist_find ip_src s \<noteq> None then Some s
     else if rreq_record_find (rq_orig_addr rq) (rq_rreq_id rq) s \<noteq> None then Some s
     else do {
       s \<leftarrow> rreq_record_insert E (rq_orig_addr rq) (rq_rreq_id rq) s;
       (rev_rt, s) \<leftarrow> lr_reverse_route E rq ip_src ifindex s;
       s \<leftarrow> ext_loop (lr_udest E rev_rt ifindex) RREQ_SIZE rreqlen 0 RREQ_SIZE s;
       dev \<leftarrow> DEV_IFINDEX ifindex s;
       if rq_dest_addr rq = dv_ipaddr dev then lr_destination E rq rev_rt rreqlen s
       else do {
         fwd_rt \<leftarrow> rt_table_find (rq_dest_addr rq) s;
         answer \<leftarrow> lr_intermediate E rq rev_rt fwd_rt s;
         (case answer of Some s \<Rightarrow> Some s | None \<Rightarrow> rreq_flood E rq fwd_rt rreqlen ip_ttl s)
       }
     }
   }"

section \<open>\<open>rreq_process\<close>\<close>

text \<open>
  The \<open>switch\<close> over one extension of a RREQ: the link's cost is added to the path cost, in the
  message too. The local \<open>cost\<close> is the cost of the last such extension (\<open>rreq_path_cost\<close>).
\<close>

definition rreq_add_cost :: "ext \<Rightarrow> in_addr \<Rightarrow> in_addr \<Rightarrow> int \<Rightarrow> nat \<Rightarrow> aodv \<Rightarrow> (double \<times> aodv) option" where
  "rreq_add_cost E ip_src self channel off s = do {
     path \<leftarrow> get64 (recv_buf s) (off + 2);
     link \<leftarrow> getCost E ip_src self channel s;
     let cost = fp_add (x_fp E) path link;
     s \<leftarrow> in_recv (put64 (off + 2) cost) s;
     Some (cost, s)
   }"

function (sequential) rreq_cost_loop ::
  "ext \<Rightarrow> in_addr \<Rightarrow> in_addr \<Rightarrow> int \<Rightarrow> int \<Rightarrow> u32 \<Rightarrow> nat \<Rightarrow> double \<Rightarrow> aodv \<Rightarrow> (double \<times> aodv) option" where
  "rreq_cost_loop E ip_src self channel rreqlen extlen off cost s =
     (if RREQ_SIZE < unat (word_of_int rreqlen - extlen) then
        if AODV_MSG_MAX_SIZE < off + 2 then None
        else do {
          type \<leftarrow> arr_get (recv_buf s) (int off);
          (cost, s) \<leftarrow> (if type = RREQ_COST_EXT then rreq_add_cost E ip_src self channel off s
                       else Some (cost, s));
          l \<leftarrow> arr_get (recv_buf s) (int off + 1);
          rreq_cost_loop E ip_src self channel rreqlen (extlen + (2 + ucast l)) (off + (2 + unat l))
            cost s
        }
      else Some (cost, s))"
  by pat_completeness auto
termination
  by (relation "measure (\<lambda>(E, ip_src, self, channel, rreqlen, extlen, off, cost, s).
        AODV_MSG_MAX_SIZE - off)") auto

declare rreq_cost_loop.simps [simp del]

text \<open>\<open>Some None\<close> is the early \<open>return\<close> behind the output \<open>RREQ-ABORT\<close>.\<close>

definition rreq_reverse_route ::
  "ext \<Rightarrow> RREQ \<Rightarrow> in_addr \<Rightarrow> u32 \<Rightarrow> double \<Rightarrow> aodv \<Rightarrow> (rtp option \<times> aodv) option option" where
  "rreq_reverse_route E rq ip_src ifindex cost s = do {
     rev_rt \<leftarrow> rt_table_find (rq_orig_addr rq) s;
     let hcnt = rreq_new_hcnt rq;
     let life = minimal_lifetime hcnt;
     let channel = uint (rq_channel rq);
     (case rev_rt of
        None \<Rightarrow> map_option Some (rt_table_insert_with_channel E (rq_orig_addr rq) ip_src (ucast hcnt)
                  (rq_orig_seqno rq) life VALID 0 ifindex channel cost s)
      | Some p \<Rightarrow> do {
          r \<leftarrow> rt_heap s p;
          if rt_dest_seqno r = 0 \<or> s32_less (rt_dest_seqno r) (rq_orig_seqno rq)
             \<or> rq_orig_seqno rq = rt_dest_seqno r \<and> (rt_state r = INVALID \<or> d_less cost (rt_cost r))
          then map_option (Some \<circ> apfst Some) (rt_table_update_with_channel E p ip_src (ucast hcnt)
                 (rq_orig_seqno rq) life VALID (rt_flags r) channel cost s)
          else Some None
        })
   }"

definition rreq_destination :: "ext \<Rightarrow> RREQ \<Rightarrow> rtp option \<Rightarrow> aodv \<Rightarrow> aodv option" where
  "rreq_destination E rq rev_rt s = do {
     let s = raise_seqno (rq_dest_seqno rq) s;
     p \<leftarrow> rev_rt;
     r \<leftarrow> rt_heap s p;
     dev \<leftarrow> DEV_IFINDEX (rt_ifindex r) s;
     s \<leftarrow> rrep_create_with_cost 0 0 0 (dv_ipaddr dev) (hi_seqno (this_host s)) (rt_dest_addr r)
            (MY_ROUTE_TIMEOUT s) 0 s;
     rrep_send_with_channel E rev_rt None (int RREP_COST_SIZE) (uint (rq_channel rq)) s
   }"

text \<open>A route without a channel is deleted when a RREQ asks for its destination.\<close>

definition rreq_forward_route :: "ext \<Rightarrow> RREQ \<Rightarrow> aodv \<Rightarrow> (rtp option \<times> aodv) option" where
  "rreq_forward_route E rq s = do {
     fwd_rt \<leftarrow> rt_table_find (rq_dest_addr rq) s;
     (case fwd_rt of None \<Rightarrow> Some (None, s) | Some f \<Rightarrow> do {
        r \<leftarrow> rt_heap s f;
        if rt_channel r = -1 then do {
          s \<leftarrow> rt_table_delete E (Some f) s;
          Some (None, s)
        } else Some (Some f, s)
      })
   }"

definition rreq_intermediate ::
  "ext \<Rightarrow> RREQ \<Rightarrow> rtp option \<Rightarrow> rtp option \<Rightarrow> aodv \<Rightarrow> aodv option option" where
  "rreq_intermediate E rq rev_rt fwd_rt s = (case fwd_rt of None \<Rightarrow> Some None | Some f \<Rightarrow> do {
     fwd \<leftarrow> rt_heap s f;
     let next_channel = rt_channel fwd;
     if rt_state fwd = VALID \<and> \<not> rq_d rq \<and> rt_dest_seqno fwd \<noteq> 0
        \<and> s32_le (rq_dest_seqno rq) (rt_dest_seqno fwd)
     then do {
       let lifetime = remaining_lifetime E fwd s;
       p \<leftarrow> rev_rt;
       rev \<leftarrow> rt_heap s p;
       s \<leftarrow> rrep_create_with_cost 0 0 (rt_hcnt fwd) (rt_dest_addr fwd) (rt_dest_seqno fwd)
              (rt_dest_addr rev) lifetime (rt_cost fwd) s;
       s \<leftarrow> rrep_send_with_channel E rev_rt fwd_rt (int RREQ_COST_SIZE) next_channel s;
       s \<leftarrow> (if rq_g rq then do {
              rev \<leftarrow> rt_heap s p;
              fwd \<leftarrow> rt_heap s f;
              s \<leftarrow> rrep_create_with_cost 0 0 (rt_hcnt rev) (rt_dest_addr rev) (rt_dest_seqno rev)
                     (rt_dest_addr fwd) lifetime (rt_cost fwd) s;
              rrep_send_with_channel E fwd_rt rev_rt (int RREP_SIZE) next_channel s
            } else Some s);
       Some (Some s)
     } else Some None
   })"

text \<open>The part of \<open>rreq_process\<close> behind the reverse route.\<close>

definition rreq_respond :: "ext \<Rightarrow> RREQ \<Rightarrow> rtp option \<Rightarrow> int \<Rightarrow> u32 \<Rightarrow> aodv \<Rightarrow> aodv option" where
  "rreq_respond E rq rev_rt ip_ttl ifindex s = do {
     dev \<leftarrow> DEV_IFINDEX ifindex s;
     if rq_dest_addr rq = dv_ipaddr dev then rreq_destination E rq rev_rt s
     else do {
       (fwd_rt, s) \<leftarrow> rreq_forward_route E rq s;
       answer \<leftarrow> rreq_intermediate E rq rev_rt fwd_rt s;
       (case answer of Some s \<Rightarrow> Some s
        | None \<Rightarrow> rreq_flood E rq fwd_rt (int RREQ_COST_SIZE) ip_ttl s)
     }
   }"

definition rreq_process :: "ext \<Rightarrow> int \<Rightarrow> in_addr \<Rightarrow> int \<Rightarrow> u32 \<Rightarrow> aodv \<Rightarrow> aodv option" where
  "rreq_process E rreqlen ip_src ip_ttl ifindex s = do {
     self \<leftarrow> DEV_NR 0 s;
     rq \<leftarrow> rreq_at (recv_buf s);
     if rq_type rq = AODV_RREQ_LR then rreq_process_lr E rreqlen ip_src ip_ttl ifindex s
     else do {
       dev \<leftarrow> DEV_IFINDEX ifindex s;
       if rq_orig_addr rq = dv_ipaddr dev then Some s
       else if rreqlen < int RREQ_SIZE then Some s
       else if rreq_blacklist_find ip_src s \<noteq> None then Some s
       else do {
         (cost, s) \<leftarrow> rreq_cost_loop E ip_src (dv_ipaddr self) (uint (rq_channel rq)) rreqlen 0
            RREQ_SIZE (fp_log (x_fp E) MAX_NUM) s;
         if rreq_record_find_less_cost (rq_orig_addr rq) (rq_rreq_id rq) cost s \<noteq> None then Some s
         else do {
           s \<leftarrow> rreq_record_insert_with_cost E (rq_orig_addr rq) (rq_rreq_id rq) cost s;
           res \<leftarrow> rreq_reverse_route E rq ip_src ifindex cost s;
           (case res of None \<Rightarrow> Some s
            | Some (rev_rt, s) \<Rightarrow> rreq_respond E rq rev_rt ip_ttl ifindex s)
         }
       }
     }
   }"

section \<open>The invariant is kept\<close>

lemma raise_seqno_ok [simp]: "agent_ok (raise_seqno q s) = agent_ok s"
  by (simp add: raise_seqno_def Let_def)

lemma ext_loop_ok:
  assumes "\<And>off ty s. agent_ok s \<Longrightarrow> okM agent_ok (body off ty s)" and "agent_ok s"
  shows "okM agent_ok (ext_loop body fixed len extlen off s)"
  using assms
proof (induction body fixed len extlen off s rule: ext_loop.induct)
  case (1 body fixed len extlen off s)
  show ?case
  proof (subst ext_loop.simps, rule okM_if, rule okM_if, goal_cases)
    case 2
    show ?case
    proof (rule okM_bind_eq, rule okM_bind_eq, rule okM_bind_eq)
      fix ty t l
      assume a: "arr_get (recv_buf s) (int off) = Some ty" "body off ty s = Some t"
        "arr_get (recv_buf t) (int off + 1) = Some l"
      show "okM agent_ok (ext_loop body fixed len (extlen + (2 + ucast l)) (off + (2 + unat l)) t)"
        by (rule "1.IH"[OF 2 a]) (use 1(2,3) okM_D[OF _ a(2)] in auto)
    qed
  qed (use 1 in simp_all)
qed

lemma raise_dest_seqno_ok: "agent_ok s \<Longrightarrow> okM agent_ok (raise_dest_seqno rq f s)"
  unfolding raise_dest_seqno_def by (intro okM_case_option okM_reads okM_if in_recv_ok) simp_all

lemma rreq_flood_ok: "agent_ok s \<Longrightarrow> okM agent_ok (rreq_flood E rq f n ttl s)"
  unfolding rreq_flood_def
  by (intro okM_if okM_bind[OF raise_dest_seqno_ok] on_all_channels_ok rreq_forward_ok) simp_all

lemma map_option_apfst_ok: "okP m \<Longrightarrow> okP (map_option (apfst f) m)"
  by (auto simp: okM_def apfst_def map_prod_def split: prod.splits)

lemma lr_reverse_route_ok:
  "agent_ok s \<Longrightarrow> outside_ok E \<Longrightarrow> okP (lr_reverse_route E rq a i s)"
  unfolding lr_reverse_route_def
  by (intro okM_reads okM_Let okM_case_option okM_if rt_table_insert_ok map_option_apfst_ok
        rt_table_update_ok) (auto dest: outside_okD)

lemma lr_answer_create_ok: "agent_ok s \<Longrightarrow> okM agent_ok (lr_answer_create rt s)"
  unfolding lr_answer_create_def by (intro okM_reads creates_ok)

lemma lr_answer_send_ok: "agent_ok s \<Longrightarrow> outside_ok E \<Longrightarrow> okM agent_ok (lr_answer_send E rt s)"
  unfolding lr_answer_send_def by (intro okM_reads rrep_send_ok)

lemma lr_udest_ok: "agent_ok s \<Longrightarrow> outside_ok E \<Longrightarrow> okM agent_ok (lr_udest E rt i off ty s)"
  unfolding lr_udest_def
  by (intro okM_if okM_reads okM_bind[OF in_recv_ok] okM_bind[OF lr_answer_create_ok]
        okM_bind[OF in_send_ok] lr_answer_send_ok) simp_all

lemma lr_copy_udest_ok: "agent_ok s \<Longrightarrow> okM agent_ok (lr_copy_udest off ty s)"
  unfolding lr_copy_udest_def by (intro okM_if okM_reads in_send_ok) simp_all

lemma lr_destination_ok: "agent_ok s \<Longrightarrow> outside_ok E \<Longrightarrow> okM agent_ok (lr_destination E rq rt n s)"
  unfolding lr_destination_def
  by (intro okM_bind[OF lr_answer_create_ok] okM_bind[OF ext_loop_ok] lr_copy_udest_ok lr_answer_send_ok)
    simp_all

abbreviation okO :: "aodv option option \<Rightarrow> bool" where
  "okO m \<equiv> okM (\<lambda>r. case r of None \<Rightarrow> True | Some t \<Rightarrow> agent_ok t) m"

lemma lr_intermediate_ok:
  "agent_ok s \<Longrightarrow> outside_ok E \<Longrightarrow> okO (lr_intermediate E rq rt f s)"
  unfolding lr_intermediate_def
  by (intro okM_case_option okM_reads okM_if okM_Let okM_bind[OF creates_ok(3)] okM_bind[OF rrep_send_ok(1)]
        okM_bind[of agent_ok] rrep_send_ok) auto

lemma rreq_process_lr_ok:
  assumes s: "agent_ok s" and E: "outside_ok E"
  shows "okM agent_ok (rreq_process_lr E n a ttl i s)"
  unfolding rreq_process_lr_def
  by (intro okM_reads okM_if okM_bind[OF rreq_record_insert_ok(2)] okM_bind[OF lr_reverse_route_ok]
        okM_bind[OF ext_loop_ok] lr_udest_ok lr_destination_ok okM_bind[OF lr_intermediate_ok]
        okM_case_prod okM_case_option rreq_flood_ok)
    (use s E outside_okD(2)[OF E] in \<open>auto split: option.splits\<close>)

lemma rreq_add_cost_ok: "agent_ok s \<Longrightarrow> okP (rreq_add_cost E a b c off s)"
  unfolding rreq_add_cost_def by (intro okM_reads okM_Let okM_bind[OF in_recv_ok]) simp_all

lemma rreq_cost_loop_ok: "agent_ok s \<Longrightarrow> okP (rreq_cost_loop E a b c len extlen off cost s)"
proof (induction E a b c len extlen off cost s rule: rreq_cost_loop.induct)
  case (1 E a b c len extlen off cost s)
  show ?case
  proof (subst rreq_cost_loop.simps, rule okM_if, rule okM_if, goal_cases)
    case 2
    show ?case
    proof (rule okM_bind_eq, rule okM_bind_eq, rule okM_case_prod, rule okM_bind_eq)
      fix ty x c' t l
      assume b: "arr_get (recv_buf s) (int off) = Some ty"
        "(if ty = RREQ_COST_EXT then rreq_add_cost E a b c off s else Some (cost, s)) = Some x"
        "x = (c', t)" "arr_get (recv_buf t) (int off + 1) = Some l"
      have "okP (if ty = RREQ_COST_EXT then rreq_add_cost E a b c off s else Some (cost, s))"
        using 1(2) rreq_add_cost_ok by simp
      then have "agent_ok t" using b(2,3) by (auto dest: okM_D)
      then show "okP (rreq_cost_loop E a b c len (extlen + (2 + ucast l)) (off + (2 + unat l)) c' t)"
        by (intro "1.IH"[OF 2 b(1,2) b(3)[symmetric] b(4)])
    qed
  qed (use 1 in simp_all)
qed

lemma map_option_Some_ok: "okP m \<Longrightarrow> okM (\<lambda>r. case r of None \<Rightarrow> True | Some x \<Rightarrow> agent_ok (snd x)) (map_option Some m)"
  "okP m' \<Longrightarrow> okM (\<lambda>r. case r of None \<Rightarrow> True | Some x \<Rightarrow> agent_ok (snd x)) (map_option (Some \<circ> apfst Some) m')"
  by (auto simp: okM_def)

lemma rreq_reverse_route_ok:
  "agent_ok s \<Longrightarrow> outside_ok E \<Longrightarrow>
    okM (\<lambda>r. case r of None \<Rightarrow> True | Some x \<Rightarrow> agent_ok (snd x)) (rreq_reverse_route E rq a i c s)"
  unfolding rreq_reverse_route_def
  by (intro okM_reads okM_Let okM_case_option okM_if map_option_Some_ok
        rt_table_insert_with_channel_ok rt_table_update_ok) (auto dest: outside_okD)

lemma rreq_destination_ok: "agent_ok s \<Longrightarrow> outside_ok E \<Longrightarrow> okM agent_ok (rreq_destination E rq rt s)"
  unfolding rreq_destination_def Let_def
  by (intro okM_reads okM_bind[OF creates_ok(4)] rrep_send_ok) simp_all

lemma rreq_forward_route_ok: "agent_ok s \<Longrightarrow> okP (rreq_forward_route E rq s)"
  unfolding rreq_forward_route_def
  by (intro okM_reads okM_case_option okM_if okM_bind[OF rt_table_delete_ok]) auto

lemma rreq_intermediate_ok:
  "agent_ok s \<Longrightarrow> outside_ok E \<Longrightarrow> okO (rreq_intermediate E rq rt f s)"
  unfolding rreq_intermediate_def
  by (intro okM_case_option okM_reads okM_if okM_Let okM_bind[OF creates_ok(4)] okM_bind[OF rrep_send_ok(2)]
        okM_bind[of agent_ok] rrep_send_ok) auto

lemma rreq_respond_ok: "agent_ok s \<Longrightarrow> outside_ok E \<Longrightarrow> okM agent_ok (rreq_respond E rq rt ttl i s)"
  unfolding rreq_respond_def
  by (intro okM_reads okM_if rreq_destination_ok okM_bind[OF rreq_forward_route_ok] okM_case_prod
        okM_bind[OF rreq_intermediate_ok] okM_case_option rreq_flood_ok) (auto split: option.splits)

lemma rreq_process_ok:
  assumes s: "agent_ok s" and E: "outside_ok E"
  shows "okM agent_ok (rreq_process E n a ttl i s)"
  unfolding rreq_process_def
  by (intro okM_reads okM_if rreq_process_lr_ok okM_bind[OF rreq_cost_loop_ok] okM_case_prod
        okM_bind[OF rreq_record_insert_ok(1)] okM_bind[OF rreq_reverse_route_ok] okM_case_option
        rreq_respond_ok)
    (use s E outside_okD(2)[OF E] in \<open>auto split: option.splits\<close>)

end
