(* ===== verification/Ns_Ifq.thy ===== *)
theory Ns_Ifq
  imports Agent_Inv
begin

text \<open>
  \<open>interfaceQueue\<close> of \<open>ns-2/aodv-uu.cc\<close>: packets waiting in the interface queue are dropped
  or moved to the packet buffer. The queue's two filters are code of the simulator. The two
  loops \<open>while ((q_pkt = ifqueue->filter(addr)))\<close> end only if the filter takes packets out, so
  that they are partial functions; \<open>None\<close> is also the loop that does not end. The lemmas: both
  loops end when every packet found is taken out of the queue.
\<close>

datatype ifq_action = IFQ_DROP | IFQ_DROP_BY_DEST | IFQ_BUFFER

definition ifqueue_filter_on_dest :: "in_addr \<Rightarrow> packet \<Rightarrow> bool" where
  "ifqueue_filter_on_dest addr p \<longleftrightarrow> pk_daddr p = addr"

text \<open>\<open>ifqueue->filter(addr)\<close>; the queue pointer was checked before.\<close>

definition ifq_take :: "ext \<Rightarrow> in_addr \<Rightarrow> aodv \<Rightarrow> (packet \<times> aodv) option" where
  "ifq_take E addr s = (case ifqueue s of None \<Rightarrow> None | Some q \<Rightarrow>
     (case x_ifq_filter E addr q of None \<Rightarrow> None
      | Some (p, q) \<Rightarrow> Some (p, s\<lparr>ifqueue := Some q\<rparr>)))"

partial_function (option) ifq_loop ::
  "ext \<Rightarrow> in_addr \<Rightarrow> (packet \<Rightarrow> aodv \<Rightarrow> aodv option) \<Rightarrow> aodv \<Rightarrow> aodv option" where
  "ifq_loop E addr body s = (case ifq_take E addr s of None \<Rightarrow> Some s
     | Some (p, s) \<Rightarrow> body p s \<bind> (\<lambda>s. ifq_loop E addr body s))"

declare ifq_loop.simps [code]

definition interfaceQueue :: "ext \<Rightarrow> in_addr \<Rightarrow> ifq_action \<Rightarrow> aodv \<Rightarrow> aodv option" where
  "interfaceQueue E addr action s = (case ifqueue s of None \<Rightarrow> Some s | Some q \<Rightarrow> (case action of
       IFQ_DROP \<Rightarrow> ifq_loop E addr (\<lambda>p s. Some (drop_pkt p DROP_RTR_NO_ROUTE s)) s
     | IFQ_DROP_BY_DEST \<Rightarrow> Some (s\<lparr>ifqueue := Some (x_ifq_filter_by E (ifqueue_filter_on_dest addr) q),
         out := Ifq_drop_by_dest addr # out s\<rparr>)
     | IFQ_BUFFER \<Rightarrow> ifq_loop E addr (\<lambda>p. packet_queue_add E p (pk_daddr p)) s))"

section \<open>The loops end\<close>

definition ifq_ok :: "ext \<Rightarrow> bool" where
  "ifq_ok E \<longleftrightarrow> (\<forall>a q p r. x_ifq_filter E a q = Some (p, r) \<longrightarrow> length r < length q)"

definition ifq_len :: "aodv \<Rightarrow> nat" where
  "ifq_len s = (case ifqueue s of None \<Rightarrow> 0 | Some q \<Rightarrow> length q)"

lemma ifq_take_less: "ifq_ok E \<Longrightarrow> ifq_take E a s = Some (p, t) \<Longrightarrow> ifq_len t < ifq_len s"
  by (auto simp: ifq_take_def ifq_ok_def ifq_len_def split: option.splits prod.splits)

lemma ifq_loop_ends:
  assumes E: "ifq_ok E" and body: "\<And>p s. \<exists>t. body p s = Some t \<and> ifqueue t = ifqueue s"
  shows "\<exists>t. ifq_loop E a body s = Some t \<and> ifq_take E a t = None"
proof (induction "ifq_len s" arbitrary: s rule: less_induct)
  case less
  show ?case
  proof (cases "ifq_take E a s")
    case None
    then show ?thesis by (simp add: ifq_loop.simps)
  next
    case (Some x)
    then obtain p t where t: "ifq_take E a s = Some (p, t)" by (cases x) auto
    obtain u where u: "body p t = Some u" "ifqueue u = ifqueue t" using body by blast
    have "ifq_len u < ifq_len s" using ifq_take_less[OF E t] u(2) by (simp add: ifq_len_def)
    from less[OF this] show ?thesis using t u(1) by (simp add: ifq_loop.simps[of E a body s])
  qed
qed

section \<open>The invariant is kept\<close>

lemma ifq_loop_inv:
  "ifq_loop E a body s = Some t \<Longrightarrow> (\<forall>p s. agent_ok s \<longrightarrow> okM agent_ok (body p s)) \<Longrightarrow>
    agent_ok s \<Longrightarrow> agent_ok t"
proof (induction rule: ifq_loop.raw_induct[rotated, consumes 1, case_names step])
  case (step f E a body s t)
  show ?case
  proof (cases "ifq_take E a s")
    case None
    then show ?thesis using step by simp
  next
    case (Some x)
    then obtain p u v where x: "x = (p, u)" "body p u = Some v" "f E a body v = Some t"
      using step.hyps by (cases x) auto
    have "agent_ok u" using Some step.prems by (auto simp: x ifq_take_def split: option.splits prod.splits)
    then have "agent_ok v" using step.prems x(2) by (auto simp: okM_def)
    then show ?thesis using step.IH[OF x(3)] step.prems by blast
  qed
qed

lemma ifq_loop_ok:
  "(\<And>p s. agent_ok s \<Longrightarrow> okM agent_ok (body p s)) \<Longrightarrow> agent_ok s \<Longrightarrow> okM agent_ok (ifq_loop E a body s)"
  unfolding okM_def[of agent_ok "ifq_loop E a body s"] using ifq_loop_inv by blast

lemma interfaceQueue_ok: "agent_ok s \<Longrightarrow> okM agent_ok (interfaceQueue E a act s)"
  unfolding interfaceQueue_def
  by (intro okM_case_option)
    (auto split: ifq_action.splits intro!: ifq_loop_ok packet_queue_add_ok)

end
