(* ===== verification/Aodv_Rerr.thy ===== *)
theory Aodv_Rerr
  imports Aodv_Rreq_Send Ns_Ifq
begin

text \<open>
  The receiving half of \<open>aodv_rerr.c\<close>. The message received lies in \<open>recv_buf\<close>, the new one
  is built up in \<open>send_buf\<close>; \<open>created\<close> says whether \<open>new_rerr\<close> is set and \<open>unicast\<close> is
  \<open>rerr_unicast_dest\<close>. The two blocks that also occur in \<open>rrep_process_lr\<close> (collecting an
  unreachable destination, sending the result) are definitions of their own.
\<close>

section \<open>Building up a RERR\<close>

type_synonym rerr_state = "bool \<times> in_addr \<times> aodv"

text \<open>
  The destination of the unicast stays while every precursor of every destination is the same.
\<close>

definition keep_unicast :: "rt_table \<Rightarrow> in_addr \<Rightarrow> in_addr" where
  "keep_unicast r unicast =
     (if unicast \<noteq> 0 \<and> (\<exists>a \<in> set (rt_precursors r). a \<noteq> unicast) then 0 else unicast)"

text \<open>\<open>ident\<close> yields identifier and originator of a new message.\<close>

definition rerr_collect ::
  "u8 \<Rightarrow> (aodv \<Rightarrow> (u32 \<times> in_addr \<times> aodv) option) \<Rightarrow> rt_table \<Rightarrow> rerr_state \<Rightarrow> rerr_state option" where
  "rerr_collect flags ident r = (\<lambda>(created, unicast, s).
     if \<not> created then do {
       s \<leftarrow> rerr_create flags (rt_dest_addr r) (rt_dest_seqno r) s;
       (rerr_id, origin, s) \<leftarrow> ident s;
       s \<leftarrow> in_send (rerr_mod (\<lambda>e. e\<lparr>re_rerr_id := rerr_id, re_rerr_origin_addr := origin\<rparr>)) s;
       if rt_nprec r = 1 then do {
         a \<leftarrow> FIRST_PREC r;
         Some (True, a, s)
       } else Some (True, unicast, s)
     } else do {
       s \<leftarrow> in_send (rerr_add_udest (rt_dest_addr r) (rt_dest_seqno r)) s;
       Some (True, keep_unicast r unicast, s)
     })"

text \<open>The code behind \<open>if (new_rerr)\<close> at the end.\<close>

definition rerr_transmit :: "ext \<Rightarrow> in_addr \<Rightarrow> aodv \<Rightarrow> aodv option" where
  "rerr_transmit E unicast s = do {
     rt \<leftarrow> rt_table_find unicast s;
     e \<leftarrow> rerr_at (send_buf s);
     if rt \<noteq> None \<and> re_dest_count e = 1 \<and> unicast \<noteq> 0 then do {
       p \<leftarrow> rt;
       r \<leftarrow> rt_heap s p;
       dev \<leftarrow> DEV_IFINDEX (rt_ifindex r) s;
       aodv_socket_send E (send_buf s) unicast (RERR_CALC_SIZE e) 1 dev s
     }
     else if re_dest_count e > 0 then
       for_each (enabled_devs s)
         (\<lambda>dev s. aodv_socket_send E (send_buf s) AODV_BROADCAST (RERR_CALC_SIZE e) 1 dev s) s
     else Some s
   }"

section \<open>\<open>rerr_process\<close>\<close>

definition rerr_flags :: "RERR \<Rightarrow> u8" where
  "rerr_flags e = (if re_n e then RERR_NODELETE else 0) OR (if re_lr e then RERR_LOCAL_REPAIR else 0)"

text \<open>A route over the sender to an unreachable destination.\<close>

definition rerr_break_route :: "ext \<Rightarrow> RERR \<Rightarrow> u32 \<Rightarrow> rtp \<Rightarrow> rerr_state \<Rightarrow> rerr_state option" where
  "rerr_break_route E e dest_seqno p = (\<lambda>(created, unicast, s). do {
     r \<leftarrow> rt_heap s p;
     s \<leftarrow> interfaceQueue E (rt_dest_addr r) IFQ_DROP_BY_DEST s;
     s \<leftarrow> (if \<not> re_n e then map_option snd (rt_table_invalidate E (Some p) s) else Some s);
     s \<leftarrow> (if re_lr e then rreq_route_discovery E (rt_dest_addr r) 0 s else Some s);
     s \<leftarrow> rt_mod p (\<lambda>r. r\<lparr>rt_dest_seqno := dest_seqno\<rparr>) s;
     r \<leftarrow> rt_heap s p;
     (created, unicast, s) \<leftarrow> (if rt_nprec r \<noteq> 0 \<and> \<not> has_flag (rt_flags r) RT_REPAIR
        then rerr_collect (rerr_flags e) (\<lambda>s. Some (re_rerr_id e, re_rerr_origin_addr e, s)) r
               (created, unicast, s)
        else Some (created, unicast, s));
     s \<leftarrow> (if rt_state r = INVALID then precursor_list_destroy (Some p) s else Some s);
     Some (created, unicast, s)
   })"

text \<open>
  One turn of the loop: \<open>RERR_UDEST_FIRST\<close> is the member \<open>dest_addr\<close> at offset 8 and
  \<open>RERR_UDEST_NEXT\<close> goes on by the 8 bytes of an entry. \<open>dest_count\<close> is counted down in the
  message.
\<close>

definition rerr_udest ::
  "ext \<Rightarrow> RERR \<Rightarrow> in_addr \<Rightarrow> nat \<Rightarrow> rerr_state \<Rightarrow> rerr_state option" where
  "rerr_udest E e ip_src i = (\<lambda>(created, unicast, s). do {
     udest_addr \<leftarrow> get32 (recv_buf s) (8 + RERR_UDEST_SIZE * i);
     dest_seqno \<leftarrow> get32 (recv_buf s) (8 + RERR_UDEST_SIZE * i + 4);
     rt \<leftarrow> rt_table_find udest_addr s;
     (created, unicast, s) \<leftarrow> (case rt of None \<Rightarrow> Some (created, unicast, s) | Some p \<Rightarrow> do {
        r \<leftarrow> rt_heap s p;
        if rt_state r = VALID \<and> rt_next_hop r = ip_src
        then rerr_break_route E e dest_seqno p (created, unicast, s)
        else Some (created, unicast, s)
      });
     s \<leftarrow> in_recv (rerr_mod (\<lambda>e. e\<lparr>re_dest_count := re_dest_count e - 1\<rparr>)) s;
     Some (created, unicast, s)
   })"

definition rerr_process :: "ext \<Rightarrow> int \<Rightarrow> in_addr \<Rightarrow> aodv \<Rightarrow> aodv option" where
  "rerr_process E rerrlen ip_src s = do {
     e \<leftarrow> rerr_at (recv_buf s);
     if rerr_record_find (re_rerr_origin_addr e) (re_rerr_id e) ip_src s \<noteq> None then Some s
     else do {
       s \<leftarrow> rerr_record_insert E (re_rerr_origin_addr e) (re_rerr_id e) ip_src s;
       if rerrlen < RERR_CALC_SIZE e then Some s
       else do {
         (created, unicast, s) \<leftarrow> for_each [0..<unat (re_dest_count e)] (rerr_udest E e ip_src)
            (False, 0, s);
         if created then rerr_transmit E unicast s else Some s
       }
     }
   }"

section \<open>The invariant is kept\<close>

abbreviation okR :: "rerr_state option \<Rightarrow> bool" where
  "okR m \<equiv> okM (\<lambda>(c, u, t). agent_ok t) m"

lemma rerr_collect_ok:
  assumes "\<And>t. agent_ok t \<Longrightarrow> okM (\<lambda>(i, a, u). agent_ok u) (ident t)" and "(\<lambda>(c, u, t). agent_ok t) x"
  shows "okR (rerr_collect fl ident r x)"
  unfolding rerr_collect_def
  by (intro okM_case_prod okM_if okM_bind[OF creates_ok(6)] okM_bind[OF assms(1)] okM_bind[OF in_send_ok]
        okM_reads) (use assms(2) in auto)

lemma rerr_transmit_ok: "agent_ok s \<Longrightarrow> okM agent_ok (rerr_transmit E u s)"
  unfolding rerr_transmit_def
  by (intro okM_reads okM_if aodv_socket_send_ok okM_for_each) simp_all

lemma map_option_snd_ok: "okP m \<Longrightarrow> okM agent_ok (map_option snd m)"
  by (auto simp: okM_def)

lemma rerr_break_route_ok:
  assumes "(\<lambda>(c, u, t). agent_ok t) x"
  shows "okR (rerr_break_route E e q p x)"
proof -
  have c: "okR (if b then rerr_collect fl (\<lambda>s. Some (i, a, s)) r (cr, u, t) else Some (cr, u, t))"
    if "agent_ok t" for b fl i a r cr u t
    using rerr_collect_ok[of "\<lambda>s. Some (i, a, s)" "(cr, u, t)"] that by simp
  show ?thesis unfolding rerr_break_route_def
    by (intro okM_case_prod okM_reads okM_bind[OF interfaceQueue_ok] okM_bind[OF rt_mod_ok] okM_bind[OF c]
          okM_bind[of agent_ok] okM_if map_option_snd_ok rt_table_invalidate_ok rreq_route_discovery_ok
          precursors_ok) (use assms in auto)
qed

lemma rerr_udest_ok:
  assumes "(\<lambda>(c, u, t). agent_ok t) x"
  shows "okR (rerr_udest E e a i x)"
proof -
  have b: "okR (case rt of None \<Rightarrow> Some (cr, u, t) | Some p \<Rightarrow> rt_heap t p \<bind> (\<lambda>r.
      if rt_state r = VALID \<and> rt_next_hop r = a then rerr_break_route E e q p (cr, u, t)
      else Some (cr, u, t)))" if "agent_ok t" for rt cr u t q
    by (intro okM_case_option okM_reads okM_if rerr_break_route_ok) (simp_all add: that)
  show ?thesis unfolding rerr_udest_def
    by (intro okM_case_prod okM_reads okM_bind[OF b] okM_bind[OF in_recv_ok]) (use assms in auto)
qed

lemma rerr_process_ok:
  assumes "agent_ok s" and "outside_ok E"
  shows "okM agent_ok (rerr_process E n a s)"
  unfolding rerr_process_def
  by (intro okM_reads okM_if okM_bind[OF rerr_record_insert_ok] okM_bind[OF okM_for_each[OF _ rerr_udest_ok]]
        okM_case_prod rerr_transmit_ok) (use assms outside_okD(2)[OF assms(2)] in auto)

end
