(* ===== verification/Aodv_Rrep.thy ===== *)
theory Aodv_Rrep
  imports Aodv_Rreq Aodv_Rerr
begin

text \<open>
  The receiving half of \<open>aodv_rrep.c\<close>: \<open>rrep_process\<close> and \<open>rrep_process_lr\<close>. The message lies
  in \<open>recv_buf\<close>; \<open>rp\<close> is its header as received.
\<close>

section \<open>Shared blocks\<close>

definition rrep_new_hcnt :: "RREP \<Rightarrow> u32" where
  "rrep_new_hcnt rp = ucast (rp_hcnt rp) + 1"

text \<open>
  The acknowledgement: its length argument is the timeout \<open>NEXT_HOP_WAIT\<close>. Then the flag is
  removed from the message.
\<close>

definition rrep_acknowledge :: "ext \<Rightarrow> RREP \<Rightarrow> rtp option \<Rightarrow> aodv \<Rightarrow> aodv option" where
  "rrep_acknowledge E rp fwd_rt s = (if rp_a rp then do {
       s \<leftarrow> rrep_ack_create s;
       f \<leftarrow> fwd_rt;
       r \<leftarrow> rt_heap s f;
       dev \<leftarrow> DEV_IFINDEX (rt_ifindex r) s;
       s \<leftarrow> aodv_socket_send E (send_buf s) (rt_next_hop r) NEXT_HOP_WAIT MAXTTL dev s;
       in_recv (rrep_mod (\<lambda>p. p\<lparr>rp_a := False\<rparr>)) s
     } else Some s)"

definition rrep_hello_start :: "ext \<Rightarrow> aodv \<Rightarrow> aodv option" where
  "rrep_hello_start E s =
     (if \<not> llfeedback (cfg s) \<and> optimized_hellos (cfg s) then hello_start E s else Some s)"

text \<open>
  The loop over the extensions is that of \<open>rreq_process\<close>: the type of the cost extension and
  the size of the header are the same.
\<close>

definition rrep_cost_loop ::
  "ext \<Rightarrow> in_addr \<Rightarrow> in_addr \<Rightarrow> int \<Rightarrow> int \<Rightarrow> double \<Rightarrow> aodv \<Rightarrow> (double \<times> aodv) option" where
  "rrep_cost_loop E ip_src self channel rreplen cost s =
     rreq_cost_loop E ip_src self channel rreplen 0 RREP_SIZE cost s"

section \<open>\<open>rrep_process_lr\<close>\<close>

text \<open>
  A route learned by an insertion is at once updated with the flags \<open>flags & (!RT_REPAIR)\<close>,
  which is 0. An existing one keeps its flags.
\<close>

definition lr_forward_route :: "ext \<Rightarrow> RREP \<Rightarrow> in_addr \<Rightarrow> in_addr \<Rightarrow> u32 \<Rightarrow> aodv \<Rightarrow> (rtp option \<times> aodv) option" where
  "lr_forward_route E rp dest ip_src ifindex s = do {
     let hcnt = ucast (rrep_new_hcnt rp);
     fwd_rt \<leftarrow> rt_table_find dest s;
     (case fwd_rt of
        None \<Rightarrow> do {
          (rt, s) \<leftarrow> rt_table_insert E dest ip_src hcnt (rp_dest_seqno rp) (rp_lifetime rp) VALID 0 ifindex s;
          f \<leftarrow> rt;
          map_option (apfst Some) (rt_table_update E f ip_src hcnt (rp_dest_seqno rp) (rp_lifetime rp) VALID 0 s)
        }
      | Some f \<Rightarrow> do {
          r \<leftarrow> rt_heap s f;
          map_option (apfst Some) (rt_table_update E f ip_src hcnt (rp_dest_seqno rp) (rp_lifetime rp)
            VALID (rt_flags r) s)
        })
   }"

definition lr_rrep_udest :: "ext \<Rightarrow> RREP \<Rightarrow> in_addr \<Rightarrow> u32 \<Rightarrow> nat \<Rightarrow> u8 \<Rightarrow> aodv \<Rightarrow> aodv option" where
  "lr_rrep_udest E rp ip_src ifindex off type s =
     (if type = RREP_UDEST_EXT then do {
        dev \<leftarrow> DEV_IFINDEX ifindex s;
        if rp_orig_addr rp \<noteq> dv_ipaddr dev then do {
          udest \<leftarrow> get32 (recv_buf s) (off + 2);
          map_option snd (lr_forward_route E rp udest ip_src ifindex s)
        } else Some s
      } else Some s)"

text \<open>
  At the originator: every route under repair to the destination found or over it is renewed,
  and reported to its precursors.
\<close>

definition lr_repair_ident :: "aodv \<Rightarrow> (u32 \<times> in_addr \<times> aodv) option" where
  "lr_repair_ident s = do {
     dev \<leftarrow> DEV_NR 0 s;
     Some (hi_rerr_id (this_host s), dv_ipaddr dev,
       s\<lparr>this_host := (this_host s)\<lparr>hi_rerr_id := hi_rerr_id (this_host s) + 1\<rparr>\<rparr>)
   }"

definition lr_report :: "rtp \<Rightarrow> rerr_state \<Rightarrow> rerr_state option" where
  "lr_report p = (\<lambda>(created, unicast, s). do {
     r \<leftarrow> rt_heap s p;
     if rt_nprec r \<noteq> 0
     then rerr_collect (RERR_NODELETE OR RERR_LOCAL_REPAIR) lr_repair_ident r (created, unicast, s)
     else Some (created, unicast, s)
   })"

definition lr_repair_route ::
  "ext \<Rightarrow> RREP \<Rightarrow> in_addr \<Rightarrow> rtp \<Rightarrow> rerr_state \<Rightarrow> rerr_state option" where
  "lr_repair_route E rp ip_src p = (\<lambda>(created, unicast, s). do {
     r \<leftarrow> rt_heap s p;
     if \<not> has_flag (rt_flags r) RT_REPAIR then Some (created, unicast, s)
     else if rt_dest_addr r = rp_dest_addr rp then do {
       (q, s) \<leftarrow> rt_table_update E p ip_src (ucast (rrep_new_hcnt rp)) (rp_dest_seqno rp)
                  (rp_lifetime rp) VALID 0 s;
       lr_report p (created, unicast, s)
     }
     else if rt_next_hop r = rp_dest_addr rp then do {
       (q, s) \<leftarrow> rt_table_update E p ip_src (ucast (rrep_new_hcnt rp - 1 + ucast (rt_hcnt r)))
                  (rt_dest_seqno r) (rp_lifetime rp) VALID 0 s;
       lr_report p (created, unicast, s)
     }
     else Some (created, unicast, s)
   })"

text \<open>The local \<open>rerr_unicast_dest\<close> is not initialised.\<close>

definition lr_originator :: "ext \<Rightarrow> RREP \<Rightarrow> in_addr \<Rightarrow> aodv \<Rightarrow> aodv option" where
  "lr_originator E rp ip_src s = do {
     (created, unicast, s) \<leftarrow> for_each (concat (take RT_TABLESIZE (tbl (rt_tbl s))))
        (lr_repair_route E rp ip_src) (False, ucast (x_uninit E), s);
     if created then rerr_transmit E unicast s else Some s
   }"

definition rrep_process_lr :: "ext \<Rightarrow> int \<Rightarrow> in_addr \<Rightarrow> int \<Rightarrow> u32 \<Rightarrow> aodv \<Rightarrow> aodv option" where
  "rrep_process_lr E rreplen ip_src ip_ttl ifindex s = do {
     rp \<leftarrow> rrep_at (recv_buf s);
     if rreplen < int RREP_SIZE then Some s
     else do {
       dev \<leftarrow> DEV_IFINDEX ifindex s;
       if rp_dest_addr rp = dv_ipaddr dev then Some s
       else do {
         s \<leftarrow> ext_loop (lr_rrep_udest E rp ip_src ifindex) RREP_SIZE rreplen 0 RREP_SIZE s;
         rev_rt \<leftarrow> rt_table_find (rp_orig_addr rp) s;
         if rp_orig_addr rp = dv_ipaddr dev then do {
           s \<leftarrow> lr_originator E rp ip_src s;
           rrep_hello_start E s
         } else do {
           (fwd_rt, s) \<leftarrow> lr_forward_route E rp (rp_dest_addr rp) ip_src ifindex s;
           s \<leftarrow> rrep_acknowledge E rp fwd_rt s;
           s \<leftarrow> (case rev_rt of None \<Rightarrow> Some s | Some p \<Rightarrow> do {
                  r \<leftarrow> rt_heap s p;
                  if rt_state r = VALID then rrep_forward E rreplen rev_rt fwd_rt (ip_ttl - 1) s
                  else Some s
                });
           rrep_hello_start E s
         }
       }
     }
   }"

section \<open>\<open>rrep_process\<close>\<close>

text \<open>
  The forward route with the values it had before: \<open>Some None\<close> is the early \<open>return\<close> for a RREP
  that is not better.
\<close>

definition rrep_forward_route ::
  "ext \<Rightarrow> RREP \<Rightarrow> in_addr \<Rightarrow> u32 \<Rightarrow> double \<Rightarrow> aodv \<Rightarrow> (rtp option \<times> u8 \<times> u8 \<times> aodv) option option" where
  "rrep_forward_route E rp ip_src ifindex cost s = do {
     let hcnt = ucast (rrep_new_hcnt rp);
     let channel = uint (rp_channel rp);
     fwd_rt \<leftarrow> rt_table_find (rp_dest_addr rp) s;
     (case fwd_rt of
        None \<Rightarrow> do {
          (rt, s) \<leftarrow> rt_table_insert_with_channel E (rp_dest_addr rp) ip_src hcnt (rp_dest_seqno rp)
                       (rp_lifetime rp) VALID 0 ifindex channel cost s;
          Some (Some (rt, 0, 0, s))
        }
      | Some f \<Rightarrow> do {
          r \<leftarrow> rt_heap s f;
          if rt_dest_seqno r = 0 \<or> s32_less (rt_dest_seqno r) (rp_dest_seqno rp)
             \<or> rp_dest_seqno rp = rt_dest_seqno r \<and> (rt_state r = INVALID
                \<or> has_flag (rt_flags r) RT_UNIDIR \<or> d_less cost (rt_cost r))
          then do {
            (p, s) \<leftarrow> rt_table_update_with_channel E f ip_src hcnt (rp_dest_seqno rp) (rp_lifetime rp)
                       VALID (rt_flags r) channel cost s;
            Some (Some (Some p, rt_hcnt r, ucast (rt_flags r), s))
          } else Some None
        })
   }"

text \<open>
  At the originator: a route that was in repair and has become longer is reported. The RERR is
  assembled even if there is no precursor to report it to.
\<close>

definition rrep_report_repaired :: "ext \<Rightarrow> rtp option \<Rightarrow> u8 \<Rightarrow> u8 \<Rightarrow> aodv \<Rightarrow> aodv option" where
  "rrep_report_repaired E fwd_rt pre_repair_hcnt pre_repair_flags s =
     (if has_flag pre_repair_flags (ucast RT_REPAIR) then do {
        f \<leftarrow> fwd_rt;
        r \<leftarrow> rt_heap s f;
        if rt_hcnt r > pre_repair_hcnt then do {
          s \<leftarrow> rerr_create RERR_NODELETE (rt_dest_addr r) (rt_dest_seqno r) s;
          if rt_nprec r \<noteq> 0 then do {
            e \<leftarrow> rerr_at (send_buf s);
            dev \<leftarrow> DEV_IFINDEX (rt_ifindex r) s;
            aodv_socket_send E (send_buf s) AODV_BROADCAST (RERR_CALC_SIZE e) 1 dev s
          } else Some s
        } else Some s
      } else Some s)"

definition rrep_pass_on :: "ext \<Rightarrow> rtp option \<Rightarrow> rtp option \<Rightarrow> int \<Rightarrow> aodv \<Rightarrow> aodv option" where
  "rrep_pass_on E rev_rt fwd_rt ip_ttl s = (case rev_rt of None \<Rightarrow> Some s | Some p \<Rightarrow> do {
     r \<leftarrow> rt_heap s p;
     if rt_state r = VALID
     then rrep_forward E (int RREP_COST_SIZE) rev_rt fwd_rt (ip_ttl - 1) (s\<lparr>channelNum := rt_channel r\<rparr>)
     else Some s
   })"

definition rrep_process :: "ext \<Rightarrow> int \<Rightarrow> in_addr \<Rightarrow> int \<Rightarrow> u32 \<Rightarrow> aodv \<Rightarrow> aodv option" where
  "rrep_process E rreplen ip_src ip_ttl ifindex s = do {
     self \<leftarrow> DEV_NR 0 s;
     rp \<leftarrow> rrep_at (recv_buf s);
     if rp_lr rp then rrep_process_lr E rreplen ip_src ip_ttl ifindex s
     else if rreplen < int RREP_SIZE then Some s
     else do {
       dev \<leftarrow> DEV_IFINDEX ifindex s;
       if rp_dest_addr rp = dv_ipaddr dev then Some s
       else do {
         (cost, s) \<leftarrow> rrep_cost_loop E ip_src (dv_ipaddr self) (uint (rp_channel rp)) rreplen
            (fp_log (x_fp E) MAX_NUM) s;
         rev_rt \<leftarrow> rt_table_find (rp_orig_addr rp) s;
         res \<leftarrow> rrep_forward_route E rp ip_src ifindex cost s;
         (case res of None \<Rightarrow> Some s
          | Some (fwd_rt, pre_repair_hcnt, pre_repair_flags, s) \<Rightarrow> do {
              s \<leftarrow> rrep_acknowledge E rp fwd_rt s;
              s \<leftarrow> (if rp_orig_addr rp = dv_ipaddr dev
                   then rrep_report_repaired E fwd_rt pre_repair_hcnt pre_repair_flags s
                   else rrep_pass_on E rev_rt fwd_rt ip_ttl s);
              rrep_hello_start E s
            })
       }
     }
   }"

section \<open>The invariant is kept\<close>

lemma rrep_acknowledge_ok: "agent_ok s \<Longrightarrow> okM agent_ok (rrep_acknowledge E rp f s)"
  unfolding rrep_acknowledge_def
  by (intro okM_if okM_bind[OF creates_ok(5)] okM_reads okM_bind[OF aodv_socket_send_ok] in_recv_ok) simp_all

lemma rrep_hello_start_ok: "agent_ok s \<Longrightarrow> okM agent_ok (rrep_hello_start E s)"
  unfolding rrep_hello_start_def by (intro okM_if hello_start_ok) simp_all

lemma lr_forward_route_ok:
  "agent_ok s \<Longrightarrow> outside_ok E \<Longrightarrow> okP (lr_forward_route E rp d a i s)"
  unfolding lr_forward_route_def
  by (intro okM_Let okM_reads okM_case_option okM_bind[OF rt_table_insert_ok] okM_case_prod
        map_option_apfst_ok rt_table_update_ok) (auto dest: outside_okD)

lemma lr_rrep_udest_ok:
  "agent_ok s \<Longrightarrow> outside_ok E \<Longrightarrow> okM agent_ok (lr_rrep_udest E rp a i off ty s)"
  unfolding lr_rrep_udest_def
  by (intro okM_if okM_reads map_option_snd_ok lr_forward_route_ok) simp_all

lemma lr_report_ok: "(\<lambda>(c, u, t). agent_ok t) x \<Longrightarrow> okR (lr_report p x)"
proof -
  assume x: "(\<lambda>(c, u, t). agent_ok t) x"
  have "okM (\<lambda>(i, a, u). agent_ok u) (lr_repair_ident t)" if "agent_ok t" for t
    unfolding lr_repair_ident_def by (intro okM_reads) (simp add: that)
  then show ?thesis unfolding lr_report_def
    by (intro okM_case_prod okM_reads okM_if rerr_collect_ok) (use x in auto)
qed

lemma lr_repair_route_ok:
  assumes "(\<lambda>(c, u, t). agent_ok t) x" and "outside_ok E"
  shows "okR (lr_repair_route E rp a p x)"
  unfolding lr_repair_route_def
  by (intro okM_case_prod okM_reads okM_if okM_bind[OF rt_table_update_ok(1)] lr_report_ok)
    (use assms in auto)

lemma lr_originator_ok: "agent_ok s \<Longrightarrow> outside_ok E \<Longrightarrow> okM agent_ok (lr_originator E rp a s)"
  unfolding lr_originator_def
  by (intro okM_bind[OF okM_for_each[OF _ lr_repair_route_ok]] okM_case_prod okM_if rerr_transmit_ok) auto

lemma rrep_process_lr_ok:
  assumes "agent_ok s" and "outside_ok E"
  shows "okM agent_ok (rrep_process_lr E n a ttl i s)"
  unfolding rrep_process_lr_def
  by (intro okM_reads okM_if okM_bind[OF ext_loop_ok] lr_rrep_udest_ok okM_bind[OF lr_originator_ok]
        okM_bind[OF lr_forward_route_ok] okM_bind[OF rrep_acknowledge_ok] okM_case_prod okM_case_option
        okM_bind[of agent_ok] rrep_forward_ok rrep_hello_start_ok) (use assms in auto)

lemma rrep_forward_route_ok:
  "agent_ok s \<Longrightarrow> outside_ok E \<Longrightarrow>
    okM (\<lambda>r. case r of None \<Rightarrow> True | Some (f, h, g, t) \<Rightarrow> agent_ok t) (rrep_forward_route E rp a i c s)"
  unfolding rrep_forward_route_def
  by (intro okM_Let okM_reads okM_case_option okM_if okM_bind[OF rt_table_insert_with_channel_ok]
        okM_bind[OF rt_table_update_ok(2)] okM_case_prod) (auto dest: outside_okD)

lemma rrep_report_repaired_ok: "agent_ok s \<Longrightarrow> okM agent_ok (rrep_report_repaired E f h g s)"
  unfolding rrep_report_repaired_def
  by (intro okM_if okM_reads okM_bind[OF creates_ok(6)] aodv_socket_send_ok) simp_all

lemma rrep_pass_on_ok: "agent_ok s \<Longrightarrow> okM agent_ok (rrep_pass_on E r f ttl s)"
  unfolding rrep_pass_on_def by (intro okM_case_option okM_reads okM_if rrep_forward_ok) simp_all

lemma rrep_process_ok:
  assumes "agent_ok s" and "outside_ok E"
  shows "okM agent_ok (rrep_process E n a ttl i s)"
  unfolding rrep_process_def rrep_cost_loop_def
  by (intro okM_reads okM_if rrep_process_lr_ok okM_bind[OF rreq_cost_loop_ok]
        okM_bind[OF rrep_forward_route_ok] okM_case_prod okM_case_option
        okM_bind[OF rrep_acknowledge_ok] okM_bind[of agent_ok] rrep_report_repaired_ok rrep_pass_on_ok
        rrep_hello_start_ok) (use assms in \<open>auto split: option.splits\<close>)

end
