(* ===== verification/Samples.thy ===== *)
theory Samples
  imports Rt_Contract
begin

text \<open>
  Concrete parameters and a concrete node, on which the properties are instantiated: a timer
  queue that counts milliseconds, an allocator that hands out the lowest free address, a
  neighbour module that invalidates the broken route and enters new neighbours, a seek list that puts
  new entries in front. The node has address 1 on one interface and an empty routing table.
\<close>

definition sample_time :: "int \<Rightarrow> timeval" where
  "sample_time ms = \<lparr>tv_sec = ms div 1000, tv_usec = (ms mod 1000) * 1000\<rparr>"

definition sample_ms :: "timeval \<Rightarrow> int" where
  "sample_ms t = tv_sec t * 1000 + tv_usec t div 1000"

definition sample_packet :: packet where
  "sample_packet = \<lparr>pk_ptype = PT_TCP, pk_direction = DOWN, pk_size = 0, pk_iface = 0,
     pk_error = 0, pk_prev_hop = 0, pk_next_hop = 0, pk_addr_type = NS_AF_NONE,
     pk_num_forwards = 0, pk_xmit_failure = False, pk_saddr = 1, pk_daddr = 7, pk_sport = 0,
     pk_dport = 0, pk_ttl = 32, pk_aodv = [], pk_channel = 0\<rparr>"

definition sample_fp :: fp where
  "sample_fp = \<lparr>fp_add = (\<lambda>x y. x + y), fp_mul = (\<lambda>x y. x), fp_div = (\<lambda>x y. x),
     fp_log = (\<lambda>x. x), fp_of_int = word_of_int\<rparr>"

fun fresh_seek :: "seek_list_t list \<Rightarrow> nat" where
  "fresh_seek [] = 0"
| "fresh_seek (e # es) = max (Suc (sk_ptr e)) (fresh_seek es)"

definition sample_base :: ext where
  "sample_base = \<lparr>
     x_timer_init = (\<lambda>h t. \<lparr>t_used = False, t_timeout = zero_time, t_handler = Some h\<rparr>),
     x_timer_set_timeout = (\<lambda>n ms t. t\<lparr>t_used := True, t_timeout := sample_time (sample_ms n + ms)\<rparr>),
     x_timer_remove = (\<lambda>t. t\<lparr>t_used := False\<rparr>),
     x_timeval_diff = (\<lambda>a b. sample_ms a - sample_ms b),
     x_timeval_add_msec = (\<lambda>t ms. sample_time (sample_ms t + ms)),
     x_malloc = (\<lambda>live. find (\<lambda>p. \<not> live p) [0..<8]),
     x_seek_list_find = (\<lambda>a l. map_option sk_ptr (find (\<lambda>e. sk_dest_addr e = a) l)),
     x_seek_list_insert = (\<lambda>a q ttl fl l. let p = fresh_seek l in
        (p, \<lparr>sk_ptr = p, sk_dest_addr = a, sk_dest_seqno = q, sk_flags = fl, sk_reqs = 0,
              sk_ttl = ttl, sk_seek_timer = zero_timer\<rparr> # l)),
     x_seek_list_remove = (\<lambda>p l. case p of None \<Rightarrow> (False, l)
        | Some a \<Rightarrow> (True, filter (\<lambda>e. sk_ptr e \<noteq> a) l)),
     x_neighbor_add = (\<lambda>a i s. Some s), x_neighbor_link_break = (\<lambda>p s. Some s),
     x_allocpkt = sample_packet, x_IP_HDR_LEN = 20, x_IP_BROADCAST = 0xFFFFFFFF,
     x_ifq_filter = (\<lambda>a q. None),
     x_ifq_filter_by = (\<lambda>P q. filter (\<lambda>p. \<not> P p) q),
     x_uniform = (\<lambda>n. 0), x_jitter = (\<lambda>n. 0), x_uninit = 0,
     x_fp = sample_fp\<rparr>"

definition sample_ext :: ext where
  "sample_ext = sample_base
     \<lparr>x_neighbor_link_break := (\<lambda>p s. map_option snd (rt_table_invalidate sample_base (Some p) s)),
      x_neighbor_add := (\<lambda>a i s. map_option snd (rt_table_insert sample_base a a 1 0 3000 VALID 0 i s))\<rparr>"

definition sample_cfg :: config where
  "sample_cfg = \<lparr>unidir_hack = False, rreq_gratuitous = False, expanding_ring_search = True,
     local_repair = False, receive_n_hellos = 0, hello_jittering = False,
     optimized_hellos = False, ratelimit = True, llfeedback = False,
     active_route_timeout = 3000, ttl_start = 2, delete_period = 15000\<rparr>"

definition sample_dev :: dev_info where
  "sample_dev = \<lparr>dv_enabled = True, dv_ifindex = 0, dv_ipaddr = 1, dv_netmask = 0xFFFFFF00,
     dv_broadcast = 0xFFFFFFFF\<rparr>"

definition sample_host :: host_info where
  "sample_host = \<lparr>hi_seqno = 1, hi_bcast_time = zero_time, hi_fwd_time = zero_time,
     hi_rreq_id = 0, hi_rerr_id = 0, hi_nif = 1, hi_devs = [sample_dev], hi_neighbors = [],
     hi_neighbor_num = 0,
     hi_stability = \<lparr>st_neighbor_num = 0, st_neighbor_change = 0, st_ava_channel_num = 3,
       st_best_channel_SNR = 0, st_isStable = 1\<rparr>,
     hi_hello_head = 0, hi_hello_tail = 0, hi_stability_sequence = replicate 10 0\<rparr>"

definition sample_node :: aodv where
  "sample_node = rt_table_init
     \<lparr>this_host = sample_host, dev_indices = [0], cfg = sample_cfg, wait_on_reboot = False,
      worb_timer = zero_timer, rt_tbl = \<lparr>num_entries = 0, num_active = 0, tbl = []\<rparr>,
      rt_heap = (\<lambda>p. None), rreq_records = [], rreq_blacklist = [], rerr_records = [],
      seekhead = [], recv_buf = replicate 824 0, send_buf = replicate 824 0,
      hello_timer = zero_timer, num_rreq = 0, num_rerr = 0,
      rreq_ratel = replicate 9 zero_time, rerr_ratel = replicate 9 zero_time,
      PQ = \<lparr>pq_head = [], pq_len = 0, pq_garbage_collect_timer = zero_timer\<rparr>, channelNum = 0,
      nIfaces = 3, lllist = [True, True, True], ifqueue = None, mac_state = [0, 0, 0],
      mac_snr = [0, 0, 0], initialized = True, now = sample_time 50000, rng = 0, out = []\<rparr>"

lemma sample_malloc_ok: "malloc_ok sample_base"
  unfolding malloc_ok_def
proof (intro allI impI)
  fix live p
  assume "x_malloc sample_base live = Some p"
  then have "find (\<lambda>p. \<not> live p) [0..<8] = Some p" by (simp add: sample_base_def)
  from find_SomeD[OF this] show "\<not> live p \<and> p < 2 ^ 32 - 1" by simp
qed

lemma sample_malloc_ok_ext: "malloc_ok sample_ext"
proof -
  have "x_malloc sample_ext = x_malloc sample_base" by (simp add: sample_ext_def)
  then show ?thesis using sample_malloc_ok unfolding malloc_ok_def by (simp only:)
qed

lemma inserted_keeps: "inserted s p r t \<Longrightarrow> keeps_routes s t"
  unfolding inserted_def keeps_routes_def
  by (metis map_key_static map_option_eq_Some option.distinct(1))

lemma sample_neighbors_ok: "neighbors_ok sample_ext"
  unfolding neighbors_ok_def
proof (intro conjI allI impI)
  fix p s t assume wf: "rt_wf s" and "x_neighbor_link_break sample_ext p s = Some t"
  then obtain n where "rt_table_invalidate sample_base (Some p) s = Some (n, t)"
    by (auto simp: sample_ext_def)
  then have "same_shape s t" by (rule rt_table_invalidate_shape)
  then show "rt_wf t" "keeps_routes s t" using wf same_shape_wf same_shape_keeps by blast+
next
  fix a i s t assume wf: "rt_wf s" and "x_neighbor_add sample_ext a i s = Some t"
  then obtain res where "rt_table_insert sample_base a a 1 0 3000 VALID 0 i s = Some (res, t)"
    by (auto simp: sample_ext_def)
  from rt_table_insert_cases[OF wf sample_malloc_ok this]
  consider "t = s" | p r where "inserted s p r t" by blast
  then have "rt_wf t \<and> keeps_routes s t"
  proof cases
    case 1
    then show ?thesis using wf by simp
  next
    case 2
    then show ?thesis using inserted_keeps[OF 2] by (simp add: inserted_def)
  qed
  then show "rt_wf t" "keeps_routes s t" by blast+
qed

lemma sample_ext_ok: "ext_ok sample_ext"
  by (simp add: ext_ok_def sample_malloc_ok_ext sample_neighbors_ok)

lemma sample_node_wf: "rt_wf sample_node"
  unfolding sample_node_def by (rule rt_table_init_wf) simp

lemma sample_node_counted: "rt_counted sample_node"
  unfolding sample_node_def by (rule rt_table_init_counted) simp

text \<open>The node with routes to 7 (through neighbour 2, on channel 1) and to neighbour 2.\<close>

definition sample_routed :: aodv where
  "sample_routed = (case rt_table_insert_with_channel sample_ext 7 2 3 5 3000 VALID 0 0 1 9 sample_node of
     Some (_, s) \<Rightarrow> (case rt_table_insert sample_ext 2 2 1 8 3000 VALID 0 0 s of
        Some (_, t) \<Rightarrow> t | None \<Rightarrow> s) | None \<Rightarrow> sample_node)"

lemma case_Some_Some_pairD:
  "(case x of Some (Some p, s) \<Rightarrow> P p s | _ \<Rightarrow> False) \<Longrightarrow> \<exists>p s. x = Some (Some p, s) \<and> P p s"
  by (cases x) (auto split: option.splits)

lemma sample_routed_steps:
  obtains s p q where
    "rt_table_insert_with_channel sample_ext 7 2 3 5 3000 VALID 0 0 1 9 sample_node = Some (Some p, s)"
    "rt_table_insert sample_ext 2 2 1 8 3000 VALID 0 0 s = Some (Some q, sample_routed)"
proof -
  have "case rt_table_insert_with_channel sample_ext 7 2 3 5 3000 VALID 0 0 1 9 sample_node of
      Some (Some p, s) \<Rightarrow> (case rt_table_insert sample_ext 2 2 1 8 3000 VALID 0 0 s of
        Some (Some q, t) \<Rightarrow> True | _ \<Rightarrow> False) | _ \<Rightarrow> False"
    by code_simp
  from case_Some_Some_pairD[OF this]
  obtain p s where s: "rt_table_insert_with_channel sample_ext 7 2 3 5 3000 VALID 0 0 1 9 sample_node = Some (Some p, s)"
    and "case rt_table_insert sample_ext 2 2 1 8 3000 VALID 0 0 s of Some (Some q, t) \<Rightarrow> True | _ \<Rightarrow> False"
    by blast
  moreover from case_Some_Some_pairD[OF this(2)]
  obtain q t where "rt_table_insert sample_ext 2 2 1 8 3000 VALID 0 0 s = Some (Some q, t)" by blast
  ultimately show ?thesis using that by (simp add: sample_routed_def)
qed

end
