(* ===== verification/Message_Claims.thy ===== *)
theory Message_Claims
  imports Message_Facts Aodv_Rrep Samples
begin

text \<open>
  Properties of the message formats: the additional destinations of a local repair, what a
  receiver reads of them, and the layout of route errors.
\<close>

section \<open>Reading additional destinations\<close>

text \<open>
  The destinations a receiver finds: address and sequence number of every extension of the
  type \<open>ty\<close> that the loop over the extensions visits.
\<close>

definition ext_udests :: "u8 \<Rightarrow> int \<Rightarrow> bytes \<Rightarrow> (in_addr \<times> u32) list option" where
  "ext_udests ty len b = do {
     es \<leftarrow> ext_scan 32 len 0 32 b;
     those (map (\<lambda>(off, t). do {
       a \<leftarrow> get32 b (off + 2);
       q \<leftarrow> get32 b (off + 6);
       Some (a, q)
     }) (filter (\<lambda>(off, t). t = ty) es))
   }"

lemma those_map_Some: "(\<And>x. x \<in> set xs \<Longrightarrow> f x = Some (g x)) \<Longrightarrow> those (map f xs) = Some (map g xs)"
  by (induction xs) auto

lemma get32_load: "load n i b = Some bs \<Longrightarrow> k + 4 \<le> n \<Longrightarrow> get32 b (i + k) = Some (u32_at bs k)"
  by (auto simp: load_def get32_def u32_at_def drop_take min_def add.commute split: if_splits)

text \<open>The entries at the offsets of the writers, as read one by one.\<close>

lemma udest_entry:
  assumes "load k off b = Some (bytes_of_word 4 a @ bytes_of_word 4 q @ rest)" and "8 \<le> k"
  shows "get32 b off = Some a" "get32 b (off + 4) = Some q"
proof -
  have "get32 b (off + 0) = Some (u32_at (bytes_of_word 4 a @ bytes_of_word 4 q @ rest) 0)"
    by (rule get32_load[OF assms(1)]) (use assms(2) in simp)
  then show "get32 b off = Some a" by (simp only: u32_at_bytes_append add_0_right)
  have "get32 b (off + 4) = Some (u32_at (bytes_of_word 4 a @ bytes_of_word 4 q @ rest) 4)"
    by (rule get32_load[OF assms(1)]) (use assms(2) in simp)
  then show "get32 b (off + 4) = Some q" by (simp add: u32_at_bytes_append del: bytes_of_word_numeral)
qed

lemma ext_udests_written:
  assumes "ext_scan 32 len 0 32 b = Some (map (\<lambda>i. (32 + k' * i, ty)) [0..<length ds])"
    and "\<And>i. i < length ds \<Longrightarrow> load k (32 + k' * i + 2) b
      = Some (bytes_of_word 4 (fst (ds ! i)) @ bytes_of_word 4 (snd (ds ! i)) @ rest)" and "8 \<le> k"
  shows "ext_udests ty len b = Some ds"
proof -
  have f: "filter (\<lambda>(off, t). t = ty) (map (\<lambda>i. (32 + k' * i, ty)) [0..<length ds])
      = map (\<lambda>i. (32 + k' * i, ty)) [0..<length ds]" by (rule filter_True) auto
  have "those (map ((\<lambda>(off, t). get32 b (off + 2) \<bind> (\<lambda>a. get32 b (off + 6) \<bind> (\<lambda>q. Some (a, q))))
      \<circ> (\<lambda>i. (32 + k' * i, ty))) [0..<length ds]) = Some (map (\<lambda>i. ds ! i) [0..<length ds])"
  proof (rule those_map_Some)
    fix i assume "i \<in> set [0..<length ds]"
    then have "i < length ds" by simp
    from udest_entry[OF assms(2)[OF this] assms(3)]
    show "((\<lambda>(off, t). get32 b (off + 2) \<bind> (\<lambda>a. get32 b (off + 6) \<bind> (\<lambda>q. Some (a, q))))
      \<circ> (\<lambda>i. (32 + k' * i, ty))) i = Some (ds ! i)" by simp
  qed
  then show ?thesis unfolding ext_udests_def assms(1) bind.bind_lunit f by (simp only: map_map map_nth)
qed

lemma rreq_written_udests:
  assumes "rreq_exts.written ds b" and "rreq_exts.fits (length ds)"
  shows "ext_udests RREQ_UDEST_EXT (int (32 + (2 + 12) * length ds)) b = Some ds"
  by (rule ext_udests_written[OF rreq_exts.written_scan[OF assms], where k = 12
        and rest = "bytes_of_word 4 (1 :: u32)"])
    (use rreq_exts.written_data[OF assms] in \<open>simp_all add: rreq_udest_bytes_def case_prod_unfold\<close>)

lemma rrep_written_udests:
  assumes "rrep_exts.written ds b" and "rrep_exts.fits (length ds)"
  shows "ext_udests RREP_UDEST_EXT (int (32 + (2 + 8) * length ds)) b = Some ds"
  by (rule ext_udests_written[OF rrep_exts.written_scan[OF assms], where k = 8 and rest = "[]"])
    (use rrep_exts.written_data[OF assms] in \<open>simp_all add: rrep_udest_bytes_def case_prod_unfold\<close>)

text \<open>The length that the senders pass for a message with the extensions written.\<close>

lemma sint_small:
  assumes "unat (w :: u32) = n" and "n < 2 ^ 31"
  shows "sint w = int n"
proof -
  have u: "uint w = int n" unfolding assms(1)[symmetric] by (rule uint_nat)
  then have "signed_take_bit 31 (uint w) = uint w"
    using assms(2) by (intro signed_take_bit_int_eq_self) simp_all
  then show ?thesis using u by (simp add: sint_uint)
qed

text \<open>Nothing of the header but the count changes.\<close>

lemma add_ext_headers: "add_ext 32 ty off data b = Some c \<Longrightarrow> rreq_at c = rreq_at b \<and> rrep_at c = rrep_at b"
  using headers_store(1,2)[of "unat off" _ b c] by (auto simp: add_ext_def split: if_splits)

definition rreq_header :: "bytes \<Rightarrow> RREQ option" where
  "rreq_header b = map_option (\<lambda>r. r\<lparr>rq_dest_count := 0\<rparr>) (rreq_at b)"

definition rrep_header :: "bytes \<Rightarrow> RREP option" where
  "rrep_header b = map_option (\<lambda>r. r\<lparr>rp_dest_count := 0\<rparr>) (rrep_at b)"

lemma add_udest_header:
  "rreq_add_udest a q b = Some c \<Longrightarrow> rreq_header c = rreq_header b"
  "rrep_add_udest a q b = Some c \<Longrightarrow> rrep_header c = rrep_header b"
  by (auto simp: rreq_add_udest_def rreq_add_ext_def rrep_add_udest_def rrep_add_ext_def
      rreq_header_def rrep_header_def dest!: mod_at(1,2) add_ext_headers)

lemma for_each_keeps:
  assumes "for_each xs f s = Some t" and "\<And>x s t. f x s = Some t \<Longrightarrow> g t = g s"
  shows "g t = g s"
  by (rule for_each_inv[OF assms(1), where P = "\<lambda>u. g u = g s"]) (use assms(2) in auto)

lemma rreq_written_header:
  assumes "rreq_exts.written ds c" and "length ds < 2 ^ 31" and "rreq_header c = rreq_header b" and "rreq_at b = Some r"
  shows "rreq_at c = Some (r\<lparr>rq_dest_count := of_nat (length ds + 1)\<rparr>)"
proof -
  obtain r' where r': "rreq_at c = Some r'" "unat (rq_dest_count r' - 1) = length ds"
    using assms(1) unfolding rreq_exts.written_def by auto
  have "rq_dest_count r' = of_nat (length ds + 1)"
    using r'(2) by (simp add: eq_diff_eq diff_eq_eq flip: r'(2))
  moreover have "r'\<lparr>rq_dest_count := 0\<rparr> = r\<lparr>rq_dest_count := 0\<rparr>"
    using assms(3,4) r'(1) by (simp add: rreq_header_def)
  ultimately show ?thesis using r'(1) by (cases r; cases r') simp
qed

lemma rrep_written_header:
  assumes "rrep_exts.written ds c" and "rrep_header c = rrep_header b" and "rrep_at b = Some r"
  shows "rrep_at c = Some (r\<lparr>rp_dest_count := of_nat (length ds + 1)\<rparr>)"
proof -
  obtain r' where r': "rrep_at c = Some r'" "unat (rp_dest_count r' - 1) = length ds"
    using assms(1) unfolding rrep_exts.written_def by auto
  have "rp_dest_count r' = of_nat (length ds + 1)"
    using r'(2) by (simp add: eq_diff_eq diff_eq_eq flip: r'(2))
  moreover have "r'\<lparr>rp_dest_count := 0\<rparr> = r\<lparr>rp_dest_count := 0\<rparr>"
    using assms(2,3) r'(1) by (simp add: rrep_header_def)
  ultimately show ?thesis using r'(1) by (cases r; cases r') simp
qed

lemma ext_offset_small:
  "n \<le> 56 \<Longrightarrow> sint (RREQ_EXT_OFFSET (r\<lparr>rq_dest_count := of_nat (n + 1)\<rparr>)) = int (32 + (2 + 12) * n)"
  "m \<le> 79 \<Longrightarrow> sint (RREP_EXT_OFFSET (p\<lparr>rp_dest_count := of_nat (m + 1)\<rparr>)) = int (32 + (2 + 8) * m)"
proof -
  show "n \<le> 56 \<Longrightarrow> sint (RREQ_EXT_OFFSET (r\<lparr>rq_dest_count := of_nat (n + 1)\<rparr>)) = int (32 + (2 + 12) * n)"
    unfolding RREQ_EXT_OFFSET_def using ext_offset_nat[of "of_nat n" n 12]
    by (intro sint_small) (simp_all add: unat_of_nat)
  show "m \<le> 79 \<Longrightarrow> sint (RREP_EXT_OFFSET (p\<lparr>rp_dest_count := of_nat (m + 1)\<rparr>)) = int (32 + (2 + 8) * m)"
    unfolding RREP_EXT_OFFSET_def using ext_offset_nat[of "of_nat m" m 8]
    by (intro sint_small) (simp_all add: unat_of_nat)
qed

text \<open>C23: A RREQ for a local repair can carry up to 56 additional destinations: adding them one by
  one succeeds, leaves the rest of the header alone, and a receiver that walks over the
  extensions reads back exactly these destinations with their sequence numbers, in order.\<close>

theorem additional_destinations_round_trip:
  assumes "rreq_at b = Some r" and "rq_dest_count r = 1" and "length b = AODV_MSG_MAX_SIZE"
    and "length ds \<le> 56"
  shows "\<exists>c r'. for_each ds (\<lambda>(a, q). rreq_add_udest a q) b = Some c
    \<and> r' = r\<lparr>rq_dest_count := of_nat (length ds + 1)\<rparr> \<and> rreq_at c = Some r'
    \<and> ext_udests RREQ_UDEST_EXT (sint (RREQ_EXT_OFFSET r')) c = Some ds"
proof -
  have w: "rreq_exts.written [] b" unfolding rreq_exts.written_def using assms by simp
  have f: "rreq_exts.fits (length ([] :: (in_addr \<times> u32) list) + length ds)" "rreq_exts.fits (length ds)"
    using assms(4) by (simp_all add: rreq_exts.fits_def)
  from rreq_exts.appends_written[OF w f(1)] obtain c where
    c: "for_each ds (\<lambda>(a, q). rreq_add_udest a q) b = Some c" "rreq_exts.written ds c" by auto
  have "rreq_header c = rreq_header b"
    by (rule for_each_keeps[OF c(1)]) (auto dest: add_udest_header)
  then have "rreq_at c = Some (r\<lparr>rq_dest_count := of_nat (length ds + 1)\<rparr>)"
    using rreq_written_header[OF c(2) _ _ assms(1)] assms(4) by simp
  moreover have "ext_udests RREQ_UDEST_EXT
      (sint (RREQ_EXT_OFFSET (r\<lparr>rq_dest_count := of_nat (length ds + 1)\<rparr>))) c = Some ds"
    unfolding ext_offset_small(1)[OF assms(4)] by (rule rreq_written_udests[OF c(2) f(2)])
  ultimately show ?thesis using c(1) by blast
qed

lemma sample_rreq_at: "rreq_at (rreq_put r (replicate AODV_MSG_MAX_SIZE 0)) = Some r"
  by (simp add: rreq_at_put)

definition sample_rreq :: RREQ where
  "sample_rreq = \<lparr>rq_channel = 0, rq_type = AODV_RREQ_LR, rq_res1 = 0, rq_lr = True, rq_d = True,
     rq_g = False, rq_r = False, rq_j = False, rq_res2 = 0, rq_hcnt = 0, rq_rreq_id = 4,
     rq_dest_addr = 7, rq_dest_seqno = 5, rq_orig_addr = 1, rq_orig_seqno = 3, rq_dest_count = 1\<rparr>"

theorem additional_destinations_round_trip_witness:
  "\<exists>c r'. for_each [(8, 3), (9, 5)] (\<lambda>(a, q). rreq_add_udest a q)
      (rreq_put sample_rreq (replicate AODV_MSG_MAX_SIZE 0)) = Some c
    \<and> r' = sample_rreq\<lparr>rq_dest_count := 3\<rparr> \<and> rreq_at c = Some r'
    \<and> ext_udests RREQ_UDEST_EXT (sint (RREQ_EXT_OFFSET r')) c = Some [(8, 3), (9, 5)]"
  using additional_destinations_round_trip[OF sample_rreq_at, of sample_rreq "[(8, 3), (9, 5)]"]
  by (simp add: sample_rreq_def)

text \<open>The 57th additional destination does not fit into the message buffer: whoever adds more than
  56, as the local repair of a link under more than 56 other routes does, writes behind the end
  of the buffer.\<close>

theorem additional_destinations_overflow:
  assumes "rreq_at b = Some r" and "rq_dest_count r = 1" and "length b = AODV_MSG_MAX_SIZE"
    and "56 < length ds"
  shows "for_each ds (\<lambda>(a, q). rreq_add_udest a q) b = None"
proof -
  obtain d es where ds: "ds = take 56 ds @ d # es"
    using assms(4) id_take_nth_drop[of 56 ds] by blast
  have l: "length (take 56 ds) = 56" using assms(4) by simp
  have w: "rreq_exts.written [] b" unfolding rreq_exts.written_def using assms by simp
  have "rreq_exts.fits (length ([] :: (in_addr \<times> u32) list) + length (take 56 ds))"
    using l by (simp add: rreq_exts.fits_def)
  from rreq_exts.appends_written[OF w this] obtain c where
    c: "for_each (take 56 ds) (\<lambda>(a, q). rreq_add_udest a q) b = Some c" "rreq_exts.written (take 56 ds) c"
    by auto
  obtain r' where r': "rreq_at c = Some r'" "unat (rq_dest_count r' - 1) = 56" "length c = AODV_MSG_MAX_SIZE"
    using c(2) l unfolding rreq_exts.written_def by auto
  have o: "unat (RREQ_EXT_OFFSET r') = 816"
    unfolding RREQ_EXT_OFFSET_def using ext_offset_nat[OF r'(2), of 12] by simp
  have "rreq_add_udest (fst d) (snd d) c = None"
    using r' o by (simp add: rreq_add_udest_def rreq_add_ext_def add_ext_def store_def)
  then show ?thesis
    by (subst ds, simp only: for_each_append c(1) bind.bind_lunit) (simp add: case_prod_unfold)
qed

theorem additional_destinations_overflow_witness:
  "for_each (replicate 57 (8, 3)) (\<lambda>(a, q). rreq_add_udest a q)
      (rreq_put sample_rreq (replicate AODV_MSG_MAX_SIZE 0)) = None"
  by (rule additional_destinations_overflow[OF sample_rreq_at]) (simp_all add: sample_rreq_def)

text \<open>The loop that answers a local repair runs over these destinations.\<close>

lemma copy_udests:
  assumes "recv_buf s = c" and "\<And>i. i \<in> set is \<Longrightarrow> get32 c (off i + 2) = Some (fst (ds ! i))"
    and "\<And>i. i \<in> set is \<Longrightarrow> get32 c (off i + 6) = Some (snd (ds ! i))"
  shows "for_each (map (\<lambda>i. (off i, RREQ_UDEST_EXT)) is) (\<lambda>(o', t). lr_copy_udest o' t) s
    = map_option (\<lambda>b. s\<lparr>send_buf := b\<rparr>)
        (for_each (map (\<lambda>i. ds ! i) is) (\<lambda>(a, q). rrep_add_udest a q) (send_buf s))"
  using assms
proof (induction "is" arbitrary: s)
  case (Cons i "is")
  have g: "get32 (recv_buf s) (off i + 2) = Some (fst (ds ! i))"
    "get32 (recv_buf s) (off i + 6) = Some (snd (ds ! i))"
    using Cons.prems by simp_all
  show ?case
  proof (cases "rrep_add_udest (fst (ds ! i)) (snd (ds ! i)) (send_buf s)")
    case None
    then show ?thesis using g by (simp add: lr_copy_udest_def in_send_def case_prod_unfold)
  next
    case (Some b)
    then have "lr_copy_udest (off i) RREQ_UDEST_EXT s = Some (s\<lparr>send_buf := b\<rparr>)"
      using g by (simp add: lr_copy_udest_def in_send_def)
    then show ?thesis
      using Cons.IH[of "s\<lparr>send_buf := b\<rparr>"] Cons.prems Some by (simp add: case_prod_unfold)
  qed
qed simp

text \<open>C24: The destination of a local repair answers for all destinations of the request: the loop of
  \<open>rreq_process_lr\<close> over the extensions of a RREQ with up to 56 additional destinations copies
  them into the RREP, where a receiver reads back exactly these, and changes nothing else.\<close>

theorem answer_lists_destinations:
  assumes "rreq_at b = Some r" and "rq_dest_count r = 1" and "length b = AODV_MSG_MAX_SIZE"
    and "length ds \<le> 56" and "for_each ds (\<lambda>(a, q). rreq_add_udest a q) b = Some (recv_buf s)"
    and "rrep_at (send_buf s) = Some p" and "rp_dest_count p = 1"
    and "length (send_buf s) = AODV_MSG_MAX_SIZE"
  shows "\<exists>c p'. ext_loop lr_copy_udest RREQ_SIZE (int (32 + 14 * length ds)) 0 RREQ_SIZE s
      = Some (s\<lparr>send_buf := c\<rparr>)
    \<and> p' = p\<lparr>rp_dest_count := of_nat (length ds + 1)\<rparr> \<and> rrep_at c = Some p'
    \<and> ext_udests RREP_UDEST_EXT (sint (RREP_EXT_OFFSET p')) c = Some ds"
proof -
  have w: "rreq_exts.written [] b" unfolding rreq_exts.written_def using assms by simp
  have f: "rreq_exts.fits (length ([] :: (in_addr \<times> u32) list) + length ds)" "rreq_exts.fits (length ds)"
    using assms(4) by (simp_all add: rreq_exts.fits_def)
  from rreq_exts.appends_written[OF w f(1)] assms(5)
  have W: "rreq_exts.written ds (recv_buf s)" by simp
  have scan: "ext_scan RREQ_SIZE (int (32 + 14 * length ds)) 0 RREQ_SIZE (recv_buf s)
      = Some (map (\<lambda>i. (32 + 14 * i, RREQ_UDEST_EXT)) [0..<length ds])"
    using rreq_exts.written_scan[OF W f(2)] by simp
  have e: "get32 (recv_buf s) (32 + 14 * i + 2) = Some (fst (ds ! i))"
    "get32 (recv_buf s) (32 + 14 * i + 6) = Some (snd (ds ! i))" if "i \<in> set [0..<length ds]" for i
  proof -
    have i: "i < length ds" using that by simp
    have "load 12 (32 + 14 * i + 2) (recv_buf s) = Some (bytes_of_word 4 (fst (ds ! i))
        @ bytes_of_word 4 (snd (ds ! i)) @ bytes_of_word 4 (1 :: u32))"
      using rreq_exts.written_data[OF W f(2) i] by (simp add: rreq_udest_bytes_def case_prod_unfold)
    from udest_entry[OF this] show "get32 (recv_buf s) (32 + 14 * i + 2) = Some (fst (ds ! i))"
      "get32 (recv_buf s) (32 + 14 * i + 6) = Some (snd (ds ! i))" by (simp_all add: add.commute)
  qed
  have v: "rrep_exts.written [] (send_buf s)" unfolding rrep_exts.written_def using assms by simp
  have g: "rrep_exts.fits (length ([] :: (in_addr \<times> u32) list) + length ds)" "rrep_exts.fits (length ds)"
    using assms(4) by (simp_all add: rrep_exts.fits_def)
  from rrep_exts.appends_written[OF v g(1)] obtain c where
    c: "for_each ds (\<lambda>(a, q). rrep_add_udest a q) (send_buf s) = Some c" "rrep_exts.written ds c" by auto
  have "rrep_header c = rrep_header (send_buf s)"
    by (rule for_each_keeps[OF c(1)]) (auto dest: add_udest_header)
  then have h: "rrep_at c = Some (p\<lparr>rp_dest_count := of_nat (length ds + 1)\<rparr>)"
    by (rule rrep_written_header[OF c(2) _ assms(6)])
  have "ext_loop lr_copy_udest RREQ_SIZE (int (32 + 14 * length ds)) 0 RREQ_SIZE s
      = for_each (map (\<lambda>i. (32 + 14 * i, RREQ_UDEST_EXT)) [0..<length ds]) (\<lambda>(o', t). lr_copy_udest o' t) s"
    by (rule ext_loop_scan[OF _ scan]) (auto simp: lr_copy_udest_def in_send_def split: if_splits)
  also have "\<dots> = Some (s\<lparr>send_buf := c\<rparr>)"
    using copy_udests[OF refl e] c(1) by (simp only: map_nth option.map)
  finally have "ext_loop lr_copy_udest RREQ_SIZE (int (32 + 14 * length ds)) 0 RREQ_SIZE s
      = Some (s\<lparr>send_buf := c\<rparr>)" .
  moreover have "length ds \<le> 79" using assms(4) by simp
  from ext_offset_small(2)[OF this, of p] rrep_written_udests[OF c(2) g(2)]
  have "ext_udests RREP_UDEST_EXT (sint (RREP_EXT_OFFSET (p\<lparr>rp_dest_count := of_nat (length ds + 1)\<rparr>))) c
      = Some ds" by (simp only:)
  ultimately show ?thesis using h by blast
qed

definition sample_rrep :: RREP where
  "sample_rrep = \<lparr>rp_channel = 0, rp_type = AODV_RREP_LR, rp_res1 = 0, rp_lr = True, rp_a = False,
     rp_r = False, rp_prefix = 0, rp_res2 = 0, rp_hcnt = 0, rp_dest_addr = 1, rp_dest_seqno = 5,
     rp_orig_addr = 7, rp_lifetime = 3000, rp_dest_count = 1, rp_hello_sent = 0\<rparr>"

theorem answer_lists_destinations_witness:
  "\<exists>s t p'. ext_loop lr_copy_udest RREQ_SIZE 60 0 RREQ_SIZE s = Some t
    \<and> rrep_at (send_buf t) = Some p'
    \<and> ext_udests RREP_UDEST_EXT (sint (RREP_EXT_OFFSET p')) (send_buf t) = Some [(8, 3), (9, 5)]"
proof -
  let ?b = "rreq_put sample_rreq (replicate AODV_MSG_MAX_SIZE 0)"
  let ?ds = "[(8, 3), (9, 5)] :: (in_addr \<times> u32) list"
  have "rreq_exts.written [] ?b"
    unfolding rreq_exts.written_def by (simp add: rreq_at_put sample_rreq_def)
  from rreq_exts.appends_written[OF this, of ?ds] obtain c where
    c: "for_each ?ds (\<lambda>(a, q). rreq_add_udest a q) ?b = Some c" by (auto simp: rreq_exts.fits_def)
  let ?s = "sample_node\<lparr>recv_buf := c, send_buf := rrep_put sample_rrep (replicate AODV_MSG_MAX_SIZE 0)\<rparr>"
  have "\<exists>c' p'. ext_loop lr_copy_udest RREQ_SIZE (int (32 + 14 * length ?ds)) 0 RREQ_SIZE ?s
      = Some (?s\<lparr>send_buf := c'\<rparr>)
    \<and> p' = sample_rrep\<lparr>rp_dest_count := of_nat (length ?ds + 1)\<rparr> \<and> rrep_at c' = Some p'
    \<and> ext_udests RREP_UDEST_EXT (sint (RREP_EXT_OFFSET p')) c' = Some ?ds"
    by (rule answer_lists_destinations[OF sample_rreq_at, of sample_rreq ?ds])
      (use c in \<open>simp_all add: sample_rreq_def sample_rrep_def rrep_at_put\<close>)
  then obtain c' p' where "ext_loop lr_copy_udest RREQ_SIZE 60 0 RREQ_SIZE ?s = Some (?s\<lparr>send_buf := c'\<rparr>)"
    "rrep_at c' = Some p'" "ext_udests RREP_UDEST_EXT (sint (RREP_EXT_OFFSET p')) c' = Some ?ds" by auto
  then show ?thesis by (intro exI[of _ ?s] exI[of _ "?s\<lparr>send_buf := c'\<rparr>"] exI[of _ p']) simp
qed

section \<open>Assembled messages\<close>

lemma zero_buffer_at:
  "rreq_at (replicate 824 0) = Some \<lparr>rq_channel = 0, rq_type = 0, rq_res1 = 0,
     rq_lr = False, rq_d = False, rq_g = False, rq_r = False, rq_j = False, rq_res2 = 0, rq_hcnt = 0,
     rq_rreq_id = 0, rq_dest_addr = 0, rq_dest_seqno = 0, rq_orig_addr = 0, rq_orig_seqno = 0,
     rq_dest_count = 0\<rparr>"
  by (simp add: rreq_at_def u32_at_nth)

lemma in_sendD: "in_send f s = Some t \<Longrightarrow> \<exists>b. f (send_buf s) = Some b \<and> t = s\<lparr>send_buf := b\<rparr>"
  by (auto simp: in_send_def)

text \<open>C33: A RREQ assembled by \<open>rreq_create_with_cost\<close> reads, at every receiver, as a normal RREQ with
  hop count 0, the node's fresh RREQ identifier and its next sequence number, the addresses and
  flags given, and the path cost in its extension; the identifier is used up, the node's own
  sequence number is not advanced.\<close>

theorem request_contents:
  assumes "rreq_create_with_cost flags dest q orig cost s = Some t"
  shows "rreq_at (send_buf t) = Some \<lparr>rq_channel = 0, rq_type = AODV_RREQ, rq_res1 = 0, rq_lr = False,
      rq_d = has_flag flags RREQ_DEST_ONLY, rq_g = has_flag flags RREQ_GRATUITOUS,
      rq_r = has_flag flags RREQ_REPAIR, rq_j = has_flag flags RREQ_JOIN, rq_res2 = 0, rq_hcnt = 0,
      rq_rreq_id = hi_rreq_id (this_host s), rq_dest_addr = dest, rq_dest_seqno = q,
      rq_orig_addr = orig, rq_orig_seqno = hi_seqno (this_host s) + 1, rq_dest_count = 0\<rparr>
    \<and> ext_scan RREQ_SIZE (int RREQ_COST_SIZE) 0 RREQ_SIZE (send_buf t) = Some [(RREQ_SIZE, RREQ_COST_EXT)]
    \<and> get64 (send_buf t) (RREQ_SIZE + 2) = Some cost
    \<and> t = s\<lparr>send_buf := send_buf t,
        this_host := (this_host s)\<lparr>hi_rreq_id := hi_rreq_id (this_host s) + 1\<rparr>\<rparr>"
proof -
  obtain u where u: "in_send (rreq_mod (\<lambda>r. rreq_set_flags flags (r\<lparr>rq_type := AODV_RREQ, rq_res1 := 0,
            rq_res2 := 0, rq_hcnt := 0, rq_rreq_id := hi_rreq_id (this_host s), rq_dest_addr := dest,
            rq_dest_seqno := q, rq_orig_addr := orig,
            rq_orig_seqno := hi_seqno (this_host s) + 1\<rparr>))) (aodv_socket_new_msg s) = Some u"
    and t: "in_send (rreq_add_ext RREQ_COST_EXT (of_nat RREQ_SIZE) (bytes_of_word 8 cost))
      (u\<lparr>this_host := (this_host s)\<lparr>hi_rreq_id := hi_rreq_id (this_host s) + 1\<rparr>\<rparr>) = Some t"
    using assms unfolding rreq_create_with_cost_def Let_def by (auto simp: aodv_socket_new_msg_def)
  note A = in_sendD[OF u]
  obtain b where b: "rreq_mod (\<lambda>r. rreq_set_flags flags (r\<lparr>rq_type := AODV_RREQ, rq_res1 := 0,
            rq_res2 := 0, rq_hcnt := 0, rq_rreq_id := hi_rreq_id (this_host s), rq_dest_addr := dest,
            rq_dest_seqno := q, rq_orig_addr := orig,
            rq_orig_seqno := hi_seqno (this_host s) + 1\<rparr>)) (replicate AODV_MSG_MAX_SIZE 0) = Some b"
      "u = s\<lparr>send_buf := b\<rparr>"
    using A by (auto simp: aodv_socket_new_msg_def)
  have lb: "length b = AODV_MSG_MAX_SIZE" using b(1) by (auto simp: rreq_mod_def)
  obtain c where c: "store 32 (ext_bytes (RREQ_COST_EXT, bytes_of_word 8 cost)) b = Some c"
    "t = s\<lparr>send_buf := c, this_host := (this_host s)\<lparr>hi_rreq_id := hi_rreq_id (this_host s) + 1\<rparr>\<rparr>"
    using in_sendD[OF t] b(2) by (auto simp: rreq_add_ext_def add_ext_def ext_bytes_def)
  have lc: "length c = AODV_MSG_MAX_SIZE" using store_length[OF c(1)] lb by simp
  have seg: "take 10 (drop 32 c) = exts_bytes [(RREQ_COST_EXT, bytes_of_word 8 cost)]"
    using load_store_same[OF c(1)] by (simp add: load_def del: bytes_of_word_numeral split: if_splits)
  have "ext_scan 32 42 0 32 c = Some (ext_offsets 32 [(RREQ_COST_EXT, bytes_of_word 8 cost)])"
    by (rule ext_scan_written) (use lc seg in \<open>simp_all del: bytes_of_word_numeral\<close>)
  moreover have "load 8 (32 + 2) c = Some (bytes_of_word 8 cost)"
    using ext_data_written[of "[(RREQ_COST_EXT, bytes_of_word 8 cost)]" 32 c 0] seg lc
    by (simp del: bytes_of_word_numeral)
  ultimately show ?thesis
    using mod_at(1)[OF b(1)] headers_store(1)[OF c(1)] c(2)
    by (simp add: zero_buffer_at rreq_set_flags_def get64_def word_of_bytes_of_word_id del: bytes_of_word_numeral)
qed

lemma request_created: "\<exists>t. rreq_create_with_cost flags dest q orig cost s = Some t"
proof -
  let ?f = "\<lambda>r. rreq_set_flags flags (r\<lparr>rq_type := AODV_RREQ, rq_res1 := 0,
            rq_res2 := 0, rq_hcnt := 0, rq_rreq_id := hi_rreq_id (this_host s), rq_dest_addr := dest,
            rq_dest_seqno := q, rq_orig_addr := orig, rq_orig_seqno := hi_seqno (this_host s) + 1\<rparr>)"
  obtain b where b: "rreq_mod ?f (replicate 824 0) = Some b"
    using mod_total(1)[OF zero_buffer_at, of ?f] by blast
  then have "length b = AODV_MSG_MAX_SIZE" by (auto simp: rreq_mod_def)
  then obtain c where "rreq_add_ext RREQ_COST_EXT (of_nat RREQ_SIZE) (bytes_of_word 8 cost) b = Some c"
    by (simp add: rreq_add_ext_def add_ext_def store_def)
  then show ?thesis using b
    unfolding rreq_create_with_cost_def Let_def aodv_socket_new_msg_def in_send_def by simp
qed

theorem request_contents_witness:
  "\<exists>t. rreq_create_with_cost RREQ_GRATUITOUS 7 0 1 0 sample_node = Some t
    \<and> (\<exists>r. rreq_at (send_buf t) = Some r \<and> rq_g r \<and> \<not> rq_d r \<and> rq_orig_seqno r = 2)
    \<and> hi_seqno (this_host t) = 1"
proof -
  obtain t where t: "rreq_create_with_cost RREQ_GRATUITOUS 7 0 1 0 sample_node = Some t"
    using request_created by blast
  have n: "hi_seqno (this_host sample_node) = 1"
    by (simp add: sample_node_def sample_host_def rt_table_init_def)
  note c = request_contents[OF t]
  then have "this_host t = this_host (sample_node\<lparr>send_buf := send_buf t,
        this_host := (this_host sample_node)\<lparr>hi_rreq_id := hi_rreq_id (this_host sample_node) + 1\<rparr>\<rparr>)"
    by (intro arg_cong[of t _ this_host]) blast
  then have h: "hi_seqno (this_host t) = 1" using n by simp
  have r: "\<exists>r. rreq_at (send_buf t) = Some r \<and> rq_g r = has_flag RREQ_GRATUITOUS RREQ_GRATUITOUS
      \<and> rq_d r = has_flag RREQ_GRATUITOUS RREQ_DEST_ONLY \<and> rq_orig_seqno r = hi_seqno (this_host sample_node) + 1"
    by (rule exI, rule conjI, rule c[THEN conjunct1]) simp
  show ?thesis using t h r n by (auto simp: has_flag_def)
qed

text \<open>The flag value of a local repair overlaps other flags: the RREQ that \<open>rreq_local_repair\<close>
  assembles asks for a multicast repair and for a gratuitous RREP, besides the flags it means
  to set.\<close>

theorem local_repair_request_flags:
  assumes "rreq_create (RREQ_LOCAL_REPAIR OR RREQ_DEST_ONLY) dest q orig s = Some t"
  shows "\<exists>r. rreq_at (send_buf t) = Some r \<and> rq_type r = AODV_RREQ_LR \<and> rq_lr r \<and> rq_d r
    \<and> rq_dest_addr r = dest \<and> rq_dest_seqno r = q \<and> rq_orig_addr r = orig \<and> rq_dest_count r = 1
    \<and> rq_orig_seqno r = hi_seqno (this_host t) \<and> rq_r r \<and> rq_g r \<and> \<not> rq_j r"
proof -
  have f: "has_flag (30 :: u8) 22" "has_flag (30 :: u8) 2" "has_flag (30 :: u8) 4"
    "has_flag (30 :: u8) 8" "\<not> has_flag (30 :: u8) 1"
    by (simp_all add: has_flag_def)
  show ?thesis
    using assms
    by (auto simp: rreq_create_def Let_def aodv_socket_new_msg_def f zero_buffer_at
        rreq_set_flags_def dest!: in_sendD mod_at(1))
qed

lemma local_repair_created: "\<exists>t. rreq_create fl dest q orig s = Some t"
proof -
  have "\<exists>u. in_send (rreq_mod f) v = Some u \<and> length (send_buf u) = AODV_MSG_MAX_SIZE"
    if "length (send_buf v) = AODV_MSG_MAX_SIZE" for f and v :: aodv
    using that by (simp add: in_send_def rreq_mod_def rreq_at_def)
  note step = this
  let ?h = "this_host s"
  obtain u where u: "in_send (rreq_mod (\<lambda>r. rreq_set_flags fl (r\<lparr>rq_type := AODV_RREQ, rq_res1 := 0,
            rq_res2 := 0, rq_hcnt := 0, rq_rreq_id := hi_rreq_id ?h, rq_dest_addr := dest,
            rq_dest_seqno := q, rq_orig_addr := orig, rq_dest_count := 1,
            rq_orig_seqno := seqno_incr (hi_seqno ?h)\<rparr>))) (aodv_socket_new_msg s) = Some u"
      "length (send_buf u) = AODV_MSG_MAX_SIZE"
    using step[of "aodv_socket_new_msg s"] by (auto simp: aodv_socket_new_msg_def)
  have h: "this_host (aodv_socket_new_msg s) = ?h" by (simp add: aodv_socket_new_msg_def)
  show ?thesis unfolding rreq_create_def Let_def h u(1) bind.bind_lunit
    using step[of "u\<lparr>this_host := ?h\<lparr>hi_rreq_id := hi_rreq_id ?h + 1, hi_seqno := seqno_incr (hi_seqno ?h)\<rparr>\<rparr>"] u(2)
    by auto
qed

theorem local_repair_request_flags_witness:
  "\<exists>t r. rreq_create (RREQ_LOCAL_REPAIR OR RREQ_DEST_ONLY) 2 0 1 sample_node = Some t
    \<and> rreq_at (send_buf t) = Some r \<and> rq_type r = AODV_RREQ_LR \<and> rq_g r"
proof -
  obtain t where t: "rreq_create (RREQ_LOCAL_REPAIR OR RREQ_DEST_ONLY) 2 0 1 sample_node = Some t"
    using local_repair_created by blast
  show ?thesis using t local_repair_request_flags[OF t] by blast
qed

section \<open>Route errors\<close>

lemma rerr_members: "rerr_at b = Some e \<Longrightarrow> get32 b 16 = Some (re_rerr_id e) \<and> get32 b 20 = Some (re_rerr_origin_addr e)"
  by (auto simp: rerr_at_def get32_def split: if_splits)

text \<open>C36: The receiver of a RERR with more than one destination does not find the second one: the loop of
  \<open>rerr_process\<close> takes the RERR identifier for the second address, so that without a route to
  that number the turn changes nothing but the counter in the message, while the destination
  that \<open>rerr_add_udest\<close> wrote lies 8 bytes further on.\<close>

theorem second_destination_misread:
  assumes "rerr_at b = Some e" and "re_dest_count e = 1" and "length b = AODV_MSG_MAX_SIZE"
    and "rerr_add_udest addr q b = Some (recv_buf s)"
    and "rt_table_find (re_rerr_id e) s = Some None"
  shows "get32 (recv_buf s) 24 = Some addr \<and> get32 (recv_buf s) 28 = Some q
    \<and> (\<exists>c. rerr_udest E (e\<lparr>re_dest_count := 2\<rparr>) ip_src 1 (created, unicast, s)
          = Some (created, unicast, s\<lparr>recv_buf := c\<rparr>)
        \<and> rerr_at c = Some (e\<lparr>re_dest_count := 1\<rparr>))"
proof -
  have sz: "nat (RERR_CALC_SIZE e) = 24" by (simp add: RERR_CALC_SIZE_def assms(2))
  obtain b1 b2 where b1: "store 24 (bytes_of_word 4 addr) b = Some b1"
    and b2: "store 28 (bytes_of_word 4 q) b1 = Some b2"
    and c: "rerr_mod (\<lambda>r. r\<lparr>re_dest_count := re_dest_count r + 1\<rparr>) b2 = Some (recv_buf s)"
    using assms(1,4) sz by (auto simp: rerr_add_udest_def put32_def simp del: bytes_of_word_numeral)
  have len: "length b1 = 824" "length b2 = 824" "length (recv_buf s) = 824"
    using store_length[OF b1] store_length[OF b2] assms(3) keeps_lengthD[OF keeps_length_mods(3) c] by simp_all
  have at2: "rerr_at b2 = Some e"
    using headers_store(3)[OF b1] headers_store(3)[OF b2] assms(1) by simp
  have at: "rerr_at (recv_buf s) = Some (e\<lparr>re_dest_count := 2\<rparr>)"
    using mod_at(3)[OF c] at2 assms(2) by simp
  have l2: "load 4 24 b2 = Some (bytes_of_word 4 addr)" "load 4 28 b2 = Some (bytes_of_word 4 q)"
    using load_store_disjoint[OF b2, of 24 4] load_store_same[OF b1] load_store_same[OF b2]
    by (simp_all del: bytes_of_word_numeral)
  have d: "drop 24 (recv_buf s) = drop 24 b2"
  proof -
    have "recv_buf s = rerr_put (e\<lparr>re_dest_count := re_dest_count e + 1\<rparr>) b2"
      using c at2 by (simp add: rerr_mod_def)
    then show ?thesis by (simp add: put_drop(3) len(2))
  qed
  have "drop 4 (drop 24 (recv_buf s)) = drop 4 (drop 24 b2)" by (rule arg_cong[OF d])
  then have d': "drop 28 (recv_buf s) = drop 28 b2" by simp
  have "load 4 24 (recv_buf s) = load 4 24 b2" "load 4 28 (recv_buf s) = load 4 28 b2"
    using d d' len by (simp_all add: load_def)
  then have l: "load 4 24 (recv_buf s) = Some (bytes_of_word 4 addr)"
    "load 4 28 (recv_buf s) = Some (bytes_of_word 4 q)" using l2 by simp_all
  have g: "get32 (recv_buf s) 24 = Some addr" "get32 (recv_buf s) 28 = Some q"
    using get32_load[OF l(1), of 0] get32_load[OF l(2), of 0]
    by (simp_all add: u32_at_bytes_append del: bytes_of_word_numeral)
  have r: "get32 (recv_buf s) 16 = Some (re_rerr_id e)" "get32 (recv_buf s) 20 = Some (re_rerr_origin_addr e)"
    using rerr_members[OF at] by simp_all
  obtain c' where c': "rerr_mod (\<lambda>e. e\<lparr>re_dest_count := re_dest_count e - 1\<rparr>) (recv_buf s) = Some c'"
    "rerr_at c' = Some (e\<lparr>re_dest_count := 1\<rparr>)"
    using at mod_at(3)[of "\<lambda>e. e\<lparr>re_dest_count := re_dest_count e - 1\<rparr>" "recv_buf s"]
    by (auto simp: rerr_mod_def)
  have "rerr_udest E (e\<lparr>re_dest_count := 2\<rparr>) ip_src 1 (created, unicast, s)
      = Some (created, unicast, s\<lparr>recv_buf := c'\<rparr>)"
    using r assms(5) c'(1) by (simp add: rerr_udest_def in_recv_def)
  then show ?thesis using g c'(2) by blast
qed

definition sample_rerr :: RERR where
  "sample_rerr = \<lparr>re_channel = 0, re_type = AODV_RERR, re_res1 = 0, re_lr = False, re_n = False,
     re_res2 = 0, re_dest_count = 1, re_dest_addr = 9, re_dest_seqno = 4, re_rerr_id = 3,
     re_rerr_origin_addr = 2\<rparr>"

theorem second_destination_misread_witness:
  "\<exists>s c. rerr_add_udest 7 6 (rerr_put sample_rerr (replicate AODV_MSG_MAX_SIZE 0)) = Some (recv_buf s)
    \<and> get32 (recv_buf s) 24 = Some 7
    \<and> rerr_udest sample_ext (sample_rerr\<lparr>re_dest_count := 2\<rparr>) 2 1 (False, 0, s)
      = Some (False, 0, s\<lparr>recv_buf := c\<rparr>)"
proof -
  let ?b = "rerr_put sample_rerr (replicate AODV_MSG_MAX_SIZE 0)"
  have b: "rerr_at ?b = Some sample_rerr" "length ?b = AODV_MSG_MAX_SIZE"
    by (simp_all add: rerr_at_put)
  have at: "rerr_at b' = Some sample_rerr"
    if "store 24 x ?b = Some b1" "store 28 y b1 = Some b'" for b1 b' x y
    using headers_store(3)[OF that(1)] headers_store(3)[OF that(2)] b(1) by simp
  have "\<exists>c. rerr_add_udest 7 6 ?b = Some c"
  proof -
    have "nat (RERR_CALC_SIZE sample_rerr) = 24" by (simp add: RERR_CALC_SIZE_def sample_rerr_def)
    moreover obtain b1 where b1: "store 24 (bytes_of_word 4 (7 :: u32)) ?b = Some b1"
      using b(2) by (simp add: store_def)
    moreover obtain b2 where b2: "store 28 (bytes_of_word 4 (6 :: u32)) b1 = Some b2"
      using store_length[OF b1] b(2) by (simp add: store_def)
    moreover have "\<exists>c. rerr_mod (\<lambda>r. r\<lparr>re_dest_count := re_dest_count r + 1\<rparr>) b2 = Some c"
      using at[OF b1 b2] by (simp add: rerr_mod_def)
    ultimately show ?thesis using b(1) by (simp add: rerr_add_udest_def put32_def del: bytes_of_word_numeral)
  qed
  then obtain c where c: "rerr_add_udest 7 6 ?b = Some c" by blast
  let ?s = "sample_node\<lparr>recv_buf := c\<rparr>"
  have f: "rt_table_find (re_rerr_id sample_rerr) ?s = Some None" by code_simp
  have "rerr_add_udest 7 6 ?b = Some (recv_buf ?s)" using c by simp
  from second_destination_misread[OF b(1) _ b(2) this f, of sample_ext 2 False 0] c
  show ?thesis by (auto simp: sample_rerr_def intro!: exI[of _ ?s])
qed

end
