(* ===== verification/Routing_Claims.thy ===== *)
theory Routing_Claims
  imports Samples
begin

text \<open>
  The properties of the routing table and of the packet queue, stated over their whole life:
  \<open>rt_step\<close> is one call of any operation of \<open>routing_table.c\<close>, and the invariants hold in
  every state reached by such calls.
\<close>

section \<open>Runs of the routing table\<close>

text \<open>
  The callers look a destination up before they insert it with a channel (premise of
  \<open>insert_channel\<close>), and states are always \<open>VALID\<close> or \<open>INVALID\<close>. With \<open>strict\<close> set, no update
  turns a neighbour into a node further away, and a valid route is only made invalid by
  \<open>rt_table_invalidate\<close>.
\<close>

inductive rt_step :: "bool \<Rightarrow> ext \<Rightarrow> aodv \<Rightarrow> aodv \<Rightarrow> bool" for strict E where
  insert: "rt_table_insert E d n h q life st fl i s = Some (res, t) \<Longrightarrow> st = VALID \<or> st = INVALID \<Longrightarrow>
    rt_step strict E s t"
| insert_channel: "rt_table_find d s = Some None \<Longrightarrow> st = VALID \<or> st = INVALID \<Longrightarrow>
    rt_table_insert_with_channel E d n h q life st fl i c w s = Some (res, t) \<Longrightarrow> rt_step strict E s t"
| update: "rt_heap s p = Some r \<Longrightarrow>
    (strict \<longrightarrow> \<not> (h > 1 \<and> rt_hcnt r = 1) \<and> (st = VALID \<or> st = INVALID \<and> rt_state r = INVALID)) \<Longrightarrow>
    rt_table_update E p n h q life st fl s = Some (p', t) \<Longrightarrow> rt_step strict E s t"
| update_channel: "rt_heap s p = Some r \<Longrightarrow>
    (strict \<longrightarrow> \<not> (h > 1 \<and> rt_hcnt r = 1) \<and> (st = VALID \<or> st = INVALID \<and> rt_state r = INVALID)) \<Longrightarrow>
    rt_table_update_with_channel E p n h q life st fl c w s = Some (p', t) \<Longrightarrow> rt_step strict E s t"
| invalidate: "rt_table_invalidate E (Some p) s = Some (k, t) \<Longrightarrow> rt_step strict E s t"
| delete: "rt_table_delete E (Some p) s = Some t \<Longrightarrow> rt_step strict E s t"
| timeout: "rt_table_update_timeout E rt life s = Some t \<Longrightarrow> rt_step strict E s t"
| timeouts: "rt_table_update_route_timeouts E f r s = Some t \<Longrightarrow> rt_step strict E s t"
| add_precursor: "precursor_add E (Some p) a s = Some t \<Longrightarrow> rt_step strict E s t"
| remove_precursor: "precursor_remove (Some p) a s = Some t \<Longrightarrow> rt_step strict E s t"
| destroy_precursors: "precursor_list_destroy (Some p) s = Some t \<Longrightarrow> rt_step strict E s t"
| verdict: "packet_queue_set_verdict E d v s = Some (k, t) \<Longrightarrow> rt_step strict E s t"

inductive_cases rt_stepE: "rt_step strict E s t"

lemma rt_step_wf: "rt_step strict E s t \<Longrightarrow> ext_ok E \<Longrightarrow> rt_wf s \<Longrightarrow> rt_wf t"
proof (erule rt_stepE, goal_cases)
  case (1 d n h q life st fl i res)
  then show ?case using rt_table_insert_cases[of s E] by (fastforce simp: ext_ok_def inserted_def)
next
  case (2 d st n h q life fl i c w res)
  have "rt_dest_addr r \<noteq> d" if "rt_heap s p = Some r" for p r
    using 2 that rs.find_none_iff by blast
  then show ?case using 2 rt_table_insert_with_channel_cases[of s E d n h q life st fl i c w res t]
    by (auto simp: ext_ok_def inserted_def)
next
  case (3 p r h st n q life fl p')
  then show ?case using rt_update_entry_wf[OF _ _ plain_updates(1)]
    by (fastforce simp: ext_ok_def rt_table_update_def)
next
  case (4 p r h st n q life fl c w p')
  then show ?case using rt_update_entry_wf[OF _ _ plain_updates(2)]
    by (fastforce simp: ext_ok_def rt_table_update_with_channel_def)
next
  case 5
  then show ?case using rt_table_invalidate_shape same_shape_wf by blast
next
  case 6
  then show ?case using rt_table_delete_wf by blast
next
  case 7
  then show ?case using rt_table_update_timeout_same same_routes_wf by blast
next
  case 8
  then show ?case using rt_table_update_route_timeouts_same same_routes_wf by blast
next
  case 12
  then show ?case using packet_queue_set_verdict_same same_routes_wf by blast
qed (auto dest: precursors_wf)

lemma rt_mod_counted:
  assumes "rt_wf s" and "rt_counted s" and "rt_mod p f s = Some t"
    and "\<And>r. rt_state (f r) = rt_state r"
  shows "rt_counted t"
proof -
  obtain r where r: "rt_heap s p = Some r" and t: "t = s\<lparr>rt_heap := (rt_heap s)(p \<mapsto> f r)\<rparr>"
    using rt_mod_SomeD[OF assms(3)] by blast
  show ?thesis
    by (rule counted_step[OF assms(1,2), of p])
      (use r assms(4) rt_counted_state[OF assms(2), of p] in \<open>auto simp: t one_if_def\<close>)
qed

lemma precursors_counted:
  assumes "rt_wf s" and "rt_counted s"
  shows "precursor_add E (Some p) a s = Some t \<Longrightarrow> rt_counted t"
    and "precursor_remove (Some p) a s = Some t \<Longrightarrow> rt_counted t"
    and "precursor_list_destroy (Some p) s = Some t \<Longrightarrow> rt_counted t"
  using assms
  by (auto simp: precursor_add_def precursor_remove_def precursor_list_destroy_def
      split: if_splits elim!: rt_mod_counted[OF assms])

lemma rt_step_counted:
  "rt_step True E s t \<Longrightarrow> ext_ok E \<Longrightarrow> rt_wf s \<Longrightarrow> rt_counted s \<Longrightarrow> rt_counted t"
proof (erule rt_stepE, goal_cases)
  case (1 d n h q life st fl i res)
  then show ?case using rt_table_insert_cases[of s E d n h q life st fl i res t]
      inserted_counted[of s _ "new_route E d n h q st fl i (-1) 0x40F86A0000000000" t]
    by (auto simp: ext_ok_def)
next
  case (2 d st n h q life fl i c w res)
  have "rt_dest_addr r \<noteq> d" if "rt_heap s p = Some r" for p r
    using 2 that rs.find_none_iff by blast
  then show ?case using 2 rt_table_insert_with_channel_cases[of s E d n h q life st fl i c w res t]
      inserted_counted[of s _ "new_route E d n h q st fl i c w" t]
    by (auto simp: ext_ok_def)
next
  case (3 p r h st n q life fl p')
  then have up: "rt_update_entry E id p n h q life st fl s = Some t" by (auto simp: rt_table_update_def)
  show ?case
    by (rule rt_update_entry_counted[OF 3(2,3) plain_updates(1) 3(4) _ _ up]) (use 3(5) in simp_all)
next
  case (4 p r h st n q life fl c w p')
  then have up: "rt_update_entry E (\<lambda>r. r\<lparr>rt_channel := c, rt_cost := w\<rparr>) p n h q life st fl s = Some t"
    by (auto simp: rt_table_update_with_channel_def)
  show ?case
    by (rule rt_update_entry_counted[OF 4(2,3) plain_updates(2) 4(4) _ _ up]) (use 4(5) in simp_all)
next
  case 5
  then show ?case using rt_table_invalidate_counted by blast
next
  case 6
  then show ?case using rt_table_delete_counted by blast
next
  case 7
  then show ?case using rt_table_update_timeout_same same_routes_counted by blast
next
  case 8
  then show ?case using rt_table_update_route_timeouts_same same_routes_counted by blast
next
  case 12
  then show ?case using packet_queue_set_verdict_same same_routes_counted by blast
qed (auto dest: precursors_counted)

text \<open>The run that builds the sample table.\<close>

lemma sample_run: "(rt_step strict sample_ext)\<^sup>*\<^sup>* sample_node sample_routed"
proof -
  obtain s p q where
    a: "rt_table_insert_with_channel sample_ext 7 2 3 5 3000 VALID 0 0 1 9 sample_node = Some (Some p, s)" and
    b: "rt_table_insert sample_ext 2 2 1 8 3000 VALID 0 0 s = Some (Some q, sample_routed)"
    using sample_routed_steps .
  have "rt_table_find 7 sample_node = Some None"
    by (simp add: rt_table_find_def sample_node_def rt_table_init_def)
  from rt_step.insert_channel[OF this _ a]
  have 1: "rt_step strict sample_ext sample_node s" by simp
  have 2: "rt_step strict sample_ext s sample_routed" using b by (rule rt_step.insert) simp
  show ?thesis by (rule converse_rtranclp_into_rtranclp, rule 1, rule r_into_rtranclp, rule 2)
qed

lemma sample_routed_wf: "rt_wf sample_routed"
  using sample_run[of False]
  by (induction rule: rtranclp_induct) (auto simp: sample_node_wf intro: rt_step_wf sample_ext_ok)

section \<open>Properties of the routing table\<close>


lemma sample_node_init: "rt_table_init sample_node = sample_node"
  by (simp add: sample_node_def rt_table_init_def)

lemma sample_node_empty: "rt_heap sample_node = (\<lambda>p. None)"
  by (simp add: sample_node_def rt_table_init_def)




text \<open>C10: Lookup in a well-formed table returns the entry for the address exactly when there is
  one, and never fails.\<close>

theorem lookup_correct:
  assumes "rt_wf s"
  shows "((rt_table_find d s = Some (Some p)) = (\<exists>r. rt_heap s p = Some r \<and> rt_dest_addr r = d))
    \<and> ((rt_table_find d s = Some None) = (\<forall>p r. rt_heap s p = Some r \<longrightarrow> rt_dest_addr r \<noteq> d))"
  using rs.find_iff[OF assms] rs.find_none_iff[OF assms] by blast+

theorem lookup_correct_witness: "rt_table_find 9 sample_node = Some None"
  using lookup_correct[OF sample_node_wf, of 9] by (simp add: sample_node_empty)

text \<open>After inserting a destination it is found, at the new entry unless it was there
  already (then the table is unchanged and the insertion says so), and the lookup of every
  other destination is unaffected.\<close>

theorem find_after_insert:
  assumes "ext_ok E" and "rt_wf s"
    and "rt_table_insert E d n h q life st fl i s = Some (res, t)"
  shows "(\<exists>p. rt_table_find d t = Some (Some p) \<and>
      (case res of None \<Rightarrow> t = s | Some p' \<Rightarrow> p' = p \<and> rt_heap s p = None \<and>
        (\<exists>r. rt_heap t p = Some r \<and> updated_to n h q st fl r)))
    \<and> (\<forall>d'. d' \<noteq> d \<longrightarrow> rt_table_find d' t = rt_table_find d' s)"
proof -
  have ok: "table_ok E s" using assms by (simp add: table_ok_def)
  have ins: "insert_route E (d, n, h, q, life, st, fl, i) s = Some (res, t)"
    using assms(3) by (simp add: insert_route_def)
  obtain p where p: "rt_table_find d t = Some (Some p)" "res = None \<or> res = Some p"
    using rtab.find_after_ins[OF ok ins] by auto
  have "case res of None \<Rightarrow> t = s | Some p' \<Rightarrow> p' = p \<and> rt_heap s p = None \<and>
      (\<exists>r. rt_heap t p = Some r \<and> updated_to n h q st fl r)"
  proof (cases res)
    case None
    then show ?thesis using rt_table_insert_cases[OF assms(2) _ assms(3)] assms(1)
      by (auto simp: ext_ok_def)
  next
    case (Some p')
    then have i: "inserted s p (new_route E d n h q st fl i (-1) 0x40F86A0000000000) t"
      using rt_table_insert_cases[OF assms(2) _ assms(3)] assms(1) p(2) by (auto simp: ext_ok_def)
    then obtain r where "rt_heap t p = Some r"
      "rt_static r = rt_static (new_route E d n h q st fl i (-1) 0x40F86A0000000000)"
      by (auto simp: inserted_def)
    then show ?thesis using Some p(2) i rt_static_eqD[of r]
      by (auto simp: inserted_def updated_to_def)
  qed
  then show ?thesis using p(1) rtab.find_other_after_ins[OF ok ins] by auto
qed

lemma sample_insert: "\<exists>res t. rt_table_insert sample_ext 9 2 4 1 3000 VALID 0 0 sample_node = Some (res, t)"
proof -
  have "case rt_table_insert sample_ext 9 2 4 1 3000 VALID 0 0 sample_node of None \<Rightarrow> False | Some _ \<Rightarrow> True"
    by code_simp
  then show ?thesis by (auto split: option.splits)
qed

theorem find_after_insert_witness:
  "\<exists>res t p. rt_table_insert sample_ext 9 2 4 1 3000 VALID 0 0 sample_node = Some (res, t)
    \<and> rt_table_find 9 t = Some (Some p)"
  using sample_insert find_after_insert[OF sample_ext_ok sample_node_wf] by blast

text \<open>After deleting an entry its destination is not found, the lookup of every other
  destination is unaffected, and the destination can be inserted again.\<close>

theorem find_after_delete:
  assumes "ext_ok E" and "rt_wf s" and "rt_heap s p = Some r"
    and "rt_table_delete E (Some p) s = Some t"
  shows "(\<forall>d. rt_table_find d t = (if d = rt_dest_addr r then Some None else rt_table_find d s))
    \<and> (\<forall>n h q life st fl i res u.
         rt_table_insert E (rt_dest_addr r) n h q life st fl i t = Some (res, u) \<longrightarrow> res \<noteq> None)"
proof -
  have ok: "table_ok E s" using assms by (simp add: table_ok_def)
  have "res \<noteq> None" if "rt_table_insert E (rt_dest_addr r) n h q life st fl i t = Some (res, u)"
    for n h q life st fl i res u
    using rtab.reinsert_after_del[OF ok assms(3,4), of "(rt_dest_addr r, n, h, q, life, st, fl, i)" res u] that
    by (auto simp: insert_route_def)
  then show ?thesis using rtab.find_after_del[OF ok assms(3,4)] by blast
qed

lemma sample_routed_entries:
  "map_option rt_dest_addr (rt_heap sample_routed 0) = Some 7"
  "map_option rt_dest_addr (rt_heap sample_routed 1) = Some 2"
  by code_simp+

theorem find_after_delete_witness:
  "\<exists>t. rt_table_delete sample_ext (Some 0) sample_routed = Some t \<and> rt_table_find 7 t = Some None"
proof -
  obtain r where r: "rt_heap sample_routed 0 = Some r" "rt_dest_addr r = 7"
    using sample_routed_entries(1) by auto
  obtain t where "rt_table_delete sample_ext (Some 0) sample_routed = Some t"
    using rt_table_delete_eq[OF r(1)] by blast
  then show ?thesis using find_after_delete[OF sample_ext_ok sample_routed_wf r(1)] r(2) by auto
qed

text \<open>Updating an entry with a channel stores exactly the next hop, hop count, sequence
  number, state, channel and cost given, and the flags given except that \<open>RT_REPAIR\<close> is
  removed when an invalid entry under repair becomes valid; every lookup that succeeded before
  the update gives the same entry after it.\<close>

theorem update_effect:
  assumes "ext_ok E" and "rt_wf s" and "rt_heap s p = Some r0"
    and "rt_table_update_with_channel E p n h q life st fl c w s = Some (p', t)"
  shows "p' = p
    \<and> (\<exists>r. rt_heap t p = Some r \<and> rt_next_hop r = n \<and> rt_hcnt r = h \<and> rt_dest_seqno r = q
         \<and> rt_state r = st \<and> rt_channel r = c \<and> rt_cost r = w \<and> rt_dest_addr r = rt_dest_addr r0
         \<and> rt_flags r = (if rt_state r0 = INVALID \<and> st = VALID \<and> has_flag (rt_flags r0) RT_REPAIR
                          then fl AND NOT RT_REPAIR else fl))
    \<and> (\<forall>d p'. rt_table_find d s = Some (Some p') \<longrightarrow> rt_table_find d t = Some (Some p'))"
proof -
  let ?f = "\<lambda>r. r\<lparr>rt_channel := c, rt_cost := w\<rparr>"
  have up: "p' = p" "rt_update_entry E ?f p n h q life st fl s = Some t"
    using assms(4) by (auto simp: rt_table_update_with_channel_def)
  obtain r where r: "rt_heap t p = Some r" "updated_to n h q st (update_flags r0 st fl) r"
    "rt_channel r = c" "rt_cost r = w"
    using rt_update_entry_entry[OF plain_updates(2) assms(3) up(2)] by auto
  have wf: "rt_wf t" "keeps_routes s t"
    using rt_update_entry_wf[OF _ assms(2) plain_updates(2) up(2)] assms(1) by (auto simp: ext_ok_def)
  have "rt_dest_addr r = rt_dest_addr r0" using wf(2) assms(3) r(1) by (fastforce simp: keeps_routes_def)
  moreover have "rt_table_find d t = Some (Some k)" if f: "rt_table_find d s = Some (Some k)" for d k
  proof -
    obtain rk where "rt_heap s k = Some rk" "rt_dest_addr rk = d" using rs.find_sound[OF assms(2) f] by blast
    then obtain rk' where "rt_heap t k = Some rk'" "rt_dest_addr rk' = d"
      using wf(2) by (fastforce simp: keeps_routes_def)
    then show ?thesis using rs.find_iff[OF wf(1)] by blast
  qed
  ultimately show ?thesis using up(1) r by (auto simp: updated_to_def update_flags_def)
qed

theorem update_effect_witness:
  "\<exists>t r. rt_table_update_with_channel sample_ext 0 3 2 6 3000 VALID 0 2 8 sample_routed = Some (0, t)
    \<and> rt_heap t 0 = Some r \<and> rt_next_hop r = 3 \<and> rt_channel r = 2"
proof -
  obtain r0 where r0: "rt_heap sample_routed 0 = Some r0" using sample_routed_entries(1) by auto
  have "case rt_table_update_with_channel sample_ext 0 3 2 6 3000 VALID 0 2 8 sample_routed of
      None \<Rightarrow> False | Some _ \<Rightarrow> True"
    by code_simp
  then obtain p t where t: "rt_table_update_with_channel sample_ext 0 3 2 6 3000 VALID 0 2 8 sample_routed = Some (p, t)"
    by (auto split: option.splits)
  show ?thesis using update_effect[OF sample_ext_ok sample_routed_wf r0 t] t by auto
qed

text \<open>Invalidating a valid route makes it invalid, advances its sequence number, stops the
  Hello and acknowledgement timers and leaves the lifetime timer running towards a local
  repair or a deletion, whichever the repair flag says; one route fewer is active, no other
  entry changes, and a second invalidation does nothing.\<close>

theorem invalidate_effect:
  assumes "rt_heap s p = Some r" and "rt_state r \<noteq> INVALID"
    and "rt_table_invalidate E (Some p) s = Some (res, t)"
  shows "res = 0 \<and> num_active (rt_tbl t) = num_active (rt_tbl s) - 1
    \<and> (\<forall>q. q \<noteq> p \<longrightarrow> rt_heap t q = rt_heap s q)
    \<and> (\<exists>r'. rt_heap t p = Some r' \<and> rt_state r' = INVALID
         \<and> rt_dest_seqno r' = seqno_incr (rt_dest_seqno r) \<and> rt_flags r' = rt_flags r
         \<and> rt_hello_timer r' = x_timer_remove E (rt_hello_timer r)
         \<and> rt_ack_timer r' = x_timer_remove E (rt_ack_timer r)
         \<and> rt_rt_timer r' = (if has_flag (rt_flags r) RT_REPAIR
             then x_timer_set_timeout E (now s) (active_route_timeout (cfg s))
               ((x_timer_remove E (rt_rt_timer r))\<lparr>t_handler := Some Local_repair_timeout\<rparr>)
             else x_timer_set_timeout E (now s) (delete_period (cfg s))
               ((x_timer_remove E (rt_rt_timer r))\<lparr>t_handler := Some Route_delete_timeout\<rparr>)))
    \<and> rt_table_invalidate E (Some p) t = Some (-1, t)"
  using assms(3)
proof (cases rule: rt_table_invalidate_cases)
  case (1 r')
  then show ?thesis using assms(1,2) by simp
next
  case (2 r')
  then have "r' = r" using assms(1) by simp
  then show ?thesis using 2
    by (simp add: rt_table_invalidate_def, simp add: invalidated_def Let_def)
qed

theorem invalidate_effect_witness:
  "\<exists>t r'. rt_table_invalidate sample_ext (Some 0) sample_routed = Some (0, t)
    \<and> rt_heap t 0 = Some r' \<and> rt_state r' = INVALID"
proof -
  have "case rt_heap sample_routed 0 of None \<Rightarrow> False | Some r \<Rightarrow> rt_state r \<noteq> INVALID" by code_simp
  then obtain r where r: "rt_heap sample_routed 0 = Some r" "rt_state r \<noteq> INVALID"
    by (auto split: option.splits)
  then obtain res t where t: "rt_table_invalidate sample_ext (Some 0) sample_routed = Some (res, t)"
    by (simp add: rt_table_invalidate_def rt_mod_def)
  show ?thesis using invalidate_effect[OF r t] t by auto
qed

text \<open>Destroying a well-formed table never fails: it frees every entry and leaves an empty
  well-formed table whose entry counter is 0.\<close>

theorem destroy_frees_all:
  assumes "rt_wf s"
  shows "\<exists>t. rt_table_destroy E s = Some t \<and> rt_wf t \<and> rt_heap t = (\<lambda>p. None)
    \<and> num_entries (rt_tbl t) = 0"
  using assms by (rule rt_table_destroy_all)

theorem destroy_frees_all_witness:
  "\<exists>t. rt_table_destroy sample_ext sample_routed = Some t \<and> rt_heap t = (\<lambda>p. None)"
  using destroy_frees_all[OF sample_routed_wf] by blast

text \<open>C40: An update that moves a valid neighbour further away undercounts the active routes: the
  break of the link invalidates the entry and takes it off the counter, and the update then
  makes it valid again without putting it back.\<close>

theorem update_neighbor_undercounts:
  assumes "rt_wf s" and "rt_counted s" and "rt_heap s p = Some r" and "rt_state r = VALID"
    and "rt_hcnt r = 1" and "h > 1"
    and break_counts: "\<And>u v. x_neighbor_link_break E p u = Some v \<Longrightarrow> rt_wf u \<Longrightarrow> rt_counted u \<Longrightarrow>
      rt_wf v \<and> rt_counted v \<and> map_option rt_state (rt_heap v p) = Some INVALID"
    and "rt_table_update E p n h q life VALID fl s = Some (p', t)"
  shows "of_nat (num_valid t) = num_active (rt_tbl t) + 1"
proof -
  have up: "rt_update_entry E id p n h q life VALID fl s = Some t"
    using assms(8) by (auto simp: rt_table_update_def)
  obtain s1 s2 r2 s5 r5 where steps:
    "activate_route p VALID fl s = Some (update_flags r VALID fl, s1)"
    "leave_neighborhood E p h s1 = Some s2" "rt_heap s2 p = Some r2"
    "same_routes (s2\<lparr>rt_heap := (rt_heap s2)(p \<mapsto> id (r2\<lparr>rt_flags := update_flags r VALID fl,
       rt_dest_seqno := q, rt_next_hop := n, rt_hcnt := h\<rparr>))\<rparr>) s5"
    "rt_heap s5 p = Some r5"
    "same_routes (s5\<lparr>rt_heap := (rt_heap s5)(p \<mapsto> r5\<lparr>rt_state := VALID\<rparr>)\<rparr>) t"
    using rt_update_entry_steps[OF up assms(3)] .
  have s1: "s1 = s" using steps(1) assms(3,4) by (auto simp: activate_route_def)
  let ?g = "\<lambda>r. r\<lparr>rt_last_hello_time := zero_time, rt_hello_cnt := 0,
      rt_hello_timer := x_timer_remove E (rt_hello_timer r)\<rparr>"
  obtain u where u: "rt_mod p ?g s = Some u" "x_neighbor_link_break E p u = Some s2"
    using steps(2) assms(3,5,6) by (auto simp: s1 leave_neighborhood_def)
  have "rt_wf u"
    using rt_mod_same_shape[OF u(1)] same_shape_wf[OF _ assms(1)] by (simp add: rt_shape_def)
  moreover have "rt_counted u" by (rule rt_mod_counted[OF assms(1,2) u(1)]) simp
  ultimately have v: "rt_wf s2" "rt_counted s2" "map_option rt_state (rt_heap s2 p) = Some INVALID"
    using break_counts[OF u(2)] by blast+
  note tail = rt_update_tail_states[OF plain_updates(1) steps(3-6)]
  have "(of_nat (num_valid t) :: u32) = of_nat (num_valid s2)
    - one_if (map_option rt_state (rt_heap s2 p) = Some VALID)
    + one_if (map_option rt_state (rt_heap t p) = Some VALID)"
    by (rule num_valid_upd[OF rt_wf_finite[OF v(1)] tail(3)])
  then show ?thesis using v(2) unfolding v(3) tail(2) by (simp add: one_if_def rt_counted_def tail(1))
qed

lemma sample_break:
  assumes "x_neighbor_link_break sample_ext p u = Some v" and "rt_wf u" and "rt_counted u"
  shows "rt_wf v \<and> rt_counted v \<and> map_option rt_state (rt_heap v p) = Some INVALID"
proof -
  obtain k where k: "rt_table_invalidate sample_base (Some p) u = Some (k, v)"
    using assms(1) by (auto simp: sample_ext_def)
  have "map_option rt_state (rt_heap v p) = Some INVALID"
    using k by (cases rule: rt_table_invalidate_cases) auto
  then show ?thesis using rt_table_invalidate_counted[OF assms(2,3) k]
      same_shape_wf[OF rt_table_invalidate_shape[OF k] assms(2)] by blast
qed

lemma sample_routed_counted: "rt_counted sample_routed"
proof -
  from sample_run[of True] have "rt_wf sample_routed \<and> rt_counted sample_routed"
    by (induction rule: rtranclp_induct)
      (auto simp: sample_node_wf sample_node_counted intro: rt_step_wf rt_step_counted sample_ext_ok)
  then show ?thesis by blast
qed

theorem update_neighbor_undercounts_witness:
  "\<exists>t. rt_table_update sample_ext 1 3 2 9 3000 VALID 0 sample_routed = Some (1, t)
    \<and> of_nat (num_valid t) = num_active (rt_tbl t) + 1"
proof -
  have "case rt_heap sample_routed 1 of None \<Rightarrow> False | Some r \<Rightarrow> rt_state r = VALID \<and> rt_hcnt r = 1"
    by code_simp
  then obtain r where r: "rt_heap sample_routed 1 = Some r" "rt_state r = VALID" "rt_hcnt r = 1"
    by (auto split: option.splits)
  have "case rt_table_update sample_ext 1 3 2 9 3000 VALID 0 sample_routed of
      None \<Rightarrow> False | Some (p, _) \<Rightarrow> p = 1"
    by code_simp
  then obtain t where t: "rt_table_update sample_ext 1 3 2 9 3000 VALID 0 sample_routed = Some (1, t)"
    by (auto split: option.splits)
  show ?thesis
    using update_neighbor_undercounts[OF sample_routed_wf sample_routed_counted r _ sample_break t] t
    by simp
qed

text \<open>\<open>rt_table_insert_with_channel\<close> compares destination and channel, so that called for
  a destination that is already in the table on another channel it inserts a second entry for
  it and the table is no longer well formed; its callers must look the destination up first.\<close>

theorem insert_with_channel_duplicates:
  assumes "malloc_ok E" and "rt_wf s" and "rt_heap s p = Some r" and "rt_dest_addr r = d"
    and "rt_channel r \<noteq> c"
    and "rt_table_insert_with_channel E d n h q life st fl i c w s = Some (Some p', t)"
  shows "p' \<noteq> p \<and> (\<exists>r'. rt_heap t p = Some r' \<and> rt_dest_addr r' = d)
    \<and> (\<exists>r'. rt_heap t p' = Some r' \<and> rt_dest_addr r' = d) \<and> \<not> rt_wf t"
proof -
  have "in_bucket d (\<lambda>r. rt_channel r = c) s = Some False"
    using assms(4,5) rt_wfD(6)[OF assms(2,3)] assms(3) by (fastforce simp: in_bucket_eq[OF assms(2)])
  then have m: "x_malloc E (live_ptr s) = Some p'" and
    ins: "rt_insert_entry E p' (new_route E d n h q st fl i c w) life s = Some t"
    using assms(6) by (auto simp: rt_table_insert_with_channel_def split: if_splits)
  have ne: "p' \<noteq> p" using malloc_okD[OF assms(1) m] assms(3) by (auto simp: live_ptr_def)
  obtain u where u: "same_routes u t"
    "map_option rt_dest_addr (rt_heap u p') = Some d" "rt_heap u p = Some r"
    using ins ne assms(3) unfolding rt_insert_entry_def Let_def
    by (auto dest!: send_buffered_same)
  obtain r1 where r1: "rt_heap t p = Some r1" "rt_dest_addr r1 = d"
    using same_routesD[OF u(1,3)] assms(4) rt_static_eqD(1) by metis
  obtain r0 where "rt_heap u p' = Some r0" "rt_dest_addr r0 = d" using u(2) by auto
  then obtain r2 where r2: "rt_heap t p' = Some r2" "rt_dest_addr r2 = d"
    using same_routesD[OF u(1)] rt_static_eqD(1) by metis
  have "\<not> rt_wf t" using rt_wfD(6)[of t p' r2 p r1] r1 r2 ne by auto
  then show ?thesis using ne r1 r2 by blast
qed

theorem insert_with_channel_duplicates_witness:
  "\<exists>p t. rt_table_insert_with_channel sample_ext 7 3 2 6 3000 VALID 0 0 2 4 sample_routed = Some (Some p, t)
    \<and> \<not> rt_wf t"
proof -
  have "case rt_heap sample_routed 0 of None \<Rightarrow> False | Some r \<Rightarrow> rt_dest_addr r = 7 \<and> rt_channel r \<noteq> 2"
    by code_simp
  then obtain r where r: "rt_heap sample_routed 0 = Some r" "rt_dest_addr r = 7" "rt_channel r \<noteq> 2"
    by (auto split: option.splits)
  have "case rt_table_insert_with_channel sample_ext 7 3 2 6 3000 VALID 0 0 2 4 sample_routed of
      Some (Some p, t) \<Rightarrow> True | _ \<Rightarrow> False"
    by code_simp
  from case_Some_Some_pairD[OF this] obtain p t where
    t: "rt_table_insert_with_channel sample_ext 7 3 2 6 3000 VALID 0 0 2 4 sample_routed = Some (Some p, t)"
    by blast
  show ?thesis
    using insert_with_channel_duplicates[OF sample_malloc_ok_ext sample_routed_wf r t] t by blast
qed

end
