(* ===== verification/Route_Choice.thy ===== *)
theory Route_Choice
  imports Aodv_Rrep Routing_Claims
begin

text \<open>
  The abstract specification of route learning and its refinement: a RREQ or RREP that arrives
  offers a route, and what the table says about the destination afterwards is the choice
  between the offer and the route known before, by sequence number first and path cost second.
\<close>

section \<open>The specification\<close>

record route_info =
  ro_next :: in_addr
  ro_hops :: u8
  ro_seqno :: u32
  ro_state :: u8
  ro_flags :: u16
  ro_channel :: int
  ro_cost :: double

text \<open>A route without a sequence number gives way to every offer. \<open>doubt\<close> are the flags of a
  route that an equally fresh offer replaces whatever its cost.\<close>

definition better :: "u16 \<Rightarrow> route_info \<Rightarrow> route_info \<Rightarrow> bool" where
  "better doubt new old \<longleftrightarrow> ro_seqno old = 0 \<or> s32_less (ro_seqno old) (ro_seqno new)
     \<or> ro_seqno new = ro_seqno old
       \<and> (ro_state old = INVALID \<or> has_flag (ro_flags old) doubt \<or> d_less (ro_cost new) (ro_cost old))"

text \<open>A route replaced keeps its flags, but a repaired one is no longer under repair.\<close>

definition renewed :: "route_info \<Rightarrow> route_info \<Rightarrow> route_info" where
  "renewed new old = new\<lparr>ro_flags := (if ro_state old = INVALID \<and> has_flag (ro_flags old) RT_REPAIR
     then ro_flags old AND NOT RT_REPAIR else ro_flags old)\<rparr>"

fun preferred :: "u16 \<Rightarrow> route_info \<Rightarrow> route_info option \<Rightarrow> route_info" where
  "preferred doubt new None = new"
| "preferred doubt new (Some old) = (if better doubt new old then renewed new old else old)"

text \<open>What the table says about a destination.\<close>

definition info :: "rt_table \<Rightarrow> route_info" where
  "info r = \<lparr>ro_next = rt_next_hop r, ro_hops = rt_hcnt r, ro_seqno = rt_dest_seqno r,
     ro_state = rt_state r, ro_flags = rt_flags r, ro_channel = rt_channel r, ro_cost = rt_cost r\<rparr>"

definition route_view :: "in_addr \<Rightarrow> aodv \<Rightarrow> route_info option" where
  "route_view d s = (case rt_table_find d s of Some (Some p) \<Rightarrow> map_option info (rt_heap s p) | _ \<Rightarrow> None)"

text \<open>The offers of the two messages.\<close>

definition rreq_offer :: "RREQ \<Rightarrow> in_addr \<Rightarrow> double \<Rightarrow> route_info" where
  "rreq_offer rq ip_src cost = \<lparr>ro_next = ip_src, ro_hops = ucast (rreq_new_hcnt rq),
     ro_seqno = rq_orig_seqno rq, ro_state = VALID, ro_flags = 0, ro_channel = uint (rq_channel rq),
     ro_cost = cost\<rparr>"

definition rrep_offer :: "RREP \<Rightarrow> in_addr \<Rightarrow> double \<Rightarrow> route_info" where
  "rrep_offer rp ip_src cost = \<lparr>ro_next = ip_src, ro_hops = ucast (rrep_new_hcnt rp),
     ro_seqno = rp_dest_seqno rp, ro_state = VALID, ro_flags = 0, ro_channel = uint (rp_channel rp),
     ro_cost = cost\<rparr>"

section \<open>Insertion and update as seen from outside\<close>

lemma info_static: "info r = info (rt_static r)"
  by (simp add: info_def rt_static_def)

lemma view_found: "rt_table_find d s = Some (Some p) \<Longrightarrow> rt_heap s p = Some r \<Longrightarrow> route_view d s = Some (info r)"
  by (simp add: route_view_def)

lemma inserted_view:
  assumes "inserted s p r t" and "rt_dest_addr r = d"
  shows "rt_wf t \<and> keeps_routes s t \<and> rt_table_find d t = Some (Some p) \<and> route_view d t = Some (info r)"
proof -
  obtain r' where r': "rt_heap t p = Some r'" "rt_static r' = rt_static r"
    using assms(1) by (auto simp: inserted_def)
  have wf: "rt_wf t" using assms(1) by (simp add: inserted_def)
  have f: "rt_table_find d t = Some (Some p)"
    using rs.find_complete[OF wf r'(1)] rt_static_eqD(1)[OF r'(2)] assms(2) by simp
  have "info r' = info r" using r'(2) info_static by metis
  then show ?thesis using wf f view_found[OF f r'(1)] inserted_keeps[OF assms(1)] by simp
qed

lemma insert_view:
  assumes "rt_wf s" and "malloc_ok E" and "rt_table_find d s = Some None"
    and "\<And>dev. DEV_IFINDEX i s = Some dev \<Longrightarrow> d \<noteq> dv_ipaddr dev"
    and "rt_table_insert_with_channel E d n h q life st fl i c w s = Some (res, t)"
  shows "\<exists>p. res = Some p \<and> rt_wf t \<and> keeps_routes s t \<and> rt_table_find d t = Some (Some p)
    \<and> route_view d t = Some \<lparr>ro_next = n, ro_hops = h, ro_seqno = q, ro_state = st, ro_flags = fl,
        ro_channel = c, ro_cost = w\<rparr>"
proof -
  have new: "rt_dest_addr r \<noteq> d" if "rt_heap s p = Some r" for p r
    using assms(3) rs.find_none_iff[OF assms(1)] that by blast
  from rt_table_insert_with_channel_cases[OF assms(1,2) _ assms(5)] new assms(4)
  obtain p where p: "res = Some p" "inserted s p (new_route E d n h q st fl i c w) t" by blast
  show ?thesis using p(1) inserted_view[OF p(2), of d] by (simp add: info_def)
qed

lemma update_view:
  assumes "ext_ok E" and "rt_wf s" and "rt_table_find d s = Some (Some p)" and "rt_heap s p = Some r0"
    and "rt_table_update_with_channel E p n h q life VALID (rt_flags r0) c w s = Some (p', t)"
  shows "p' = p \<and> rt_wf t \<and> keeps_routes s t \<and> rt_table_find d t = Some (Some p)
    \<and> route_view d t = Some (renewed \<lparr>ro_next = n, ro_hops = h, ro_seqno = q, ro_state = VALID,
        ro_flags = fl, ro_channel = c, ro_cost = w\<rparr> (info r0))"
proof -
  let ?f = "\<lambda>r. r\<lparr>rt_channel := c, rt_cost := w\<rparr>"
  have up: "p' = p" "rt_update_entry E ?f p n h q life VALID (rt_flags r0) s = Some t"
    using assms(5) by (auto simp: rt_table_update_with_channel_def)
  obtain r where r: "rt_heap t p = Some r" "updated_to n h q VALID (update_flags r0 VALID (rt_flags r0)) r"
    "rt_channel r = c" "rt_cost r = w"
    using rt_update_entry_entry[OF plain_updates(2) assms(4) up(2)] by auto
  have wf: "rt_wf t" "keeps_routes s t"
    using rt_update_entry_wf[OF _ assms(2) plain_updates(2) up(2)] assms(1) by (auto simp: ext_ok_def)
  have "rt_dest_addr r0 = d" using rs.find_iff[OF assms(2)] assms(3,4) by auto
  then have "rt_dest_addr r = d" using wf(2) assms(4) r(1) by (fastforce simp: keeps_routes_def)
  then have f: "rt_table_find d t = Some (Some p)" using rs.find_complete[OF wf(1) r(1)] by simp
  have "info r = renewed \<lparr>ro_next = n, ro_hops = h, ro_seqno = q, ro_state = VALID,
        ro_flags = fl, ro_channel = c, ro_cost = w\<rparr> (info r0)"
    using r(2-4) by (simp add: info_def renewed_def updated_to_def update_flags_def)
  then show ?thesis using up(1) wf f view_found[OF f r(1)] by simp
qed

section \<open>The reverse route of a RREQ\<close>

lemma reverse_route_choice:
  assumes E: "ext_ok E" and wf: "rt_wf s"
    and own: "\<And>dev. DEV_IFINDEX i s = Some dev \<Longrightarrow> rq_orig_addr rq \<noteq> dv_ipaddr dev"
    and run: "rreq_reverse_route E rq ip_src i cost s = Some res"
  shows "case res of
      None \<Rightarrow> (\<exists>old. route_view (rq_orig_addr rq) s = Some old \<and> \<not> better 0 (rreq_offer rq ip_src cost) old)
    | Some (rt, t) \<Rightarrow> rt_wf t \<and> keeps_routes s t
        \<and> rt_table_find (rq_orig_addr rq) t = Some rt \<and> rt \<noteq> None
        \<and> (\<forall>old. route_view (rq_orig_addr rq) s = Some old \<longrightarrow> better 0 (rreq_offer rq ip_src cost) old)
        \<and> route_view (rq_orig_addr rq) t
          = Some (preferred 0 (rreq_offer rq ip_src cost) (route_view (rq_orig_addr rq) s))"
proof (cases rule: rs.find_cases[OF wf, of "rq_orig_addr rq"])
  case 1
  then obtain rt t where t: "rt_table_insert_with_channel E (rq_orig_addr rq) ip_src
      (ucast (rreq_new_hcnt rq)) (rq_orig_seqno rq) (minimal_lifetime (rreq_new_hcnt rq)) VALID 0 i
      (uint (rq_channel rq)) cost s = Some (rt, t)" "res = Some (rt, t)"
    using run by (auto simp: rreq_reverse_route_def Let_def)
  have "malloc_ok E" using E by (simp add: ext_ok_def)
  from insert_view[OF wf this 1 own t(1)] show ?thesis
    using 1 t(2) by (auto simp: route_view_def rreq_offer_def)
next
  case (2 p r)
  have v: "route_view (rq_orig_addr rq) s = Some (info r)" by (rule view_found[OF 2(1,2)])
  have b: "better 0 (rreq_offer rq ip_src cost) (info r) \<longleftrightarrow> rt_dest_seqno r = 0
      \<or> s32_less (rt_dest_seqno r) (rq_orig_seqno rq)
      \<or> rq_orig_seqno rq = rt_dest_seqno r \<and> (rt_state r = INVALID \<or> d_less cost (rt_cost r))"
    by (simp add: better_def info_def rreq_offer_def has_flag_def)
  show ?thesis
  proof (cases "better 0 (rreq_offer rq ip_src cost) (info r)")
    case False
    then have "res = None" using run 2 b by (auto simp: rreq_reverse_route_def Let_def)
    then show ?thesis using v False by simp
  next
    case True
    then obtain p' t where t: "rt_table_update_with_channel E p ip_src (ucast (rreq_new_hcnt rq))
        (rq_orig_seqno rq) (minimal_lifetime (rreq_new_hcnt rq)) VALID (rt_flags r)
        (uint (rq_channel rq)) cost s = Some (p', t)" "res = Some (Some p', t)"
      using run 2 b by (auto simp: rreq_reverse_route_def Let_def)
    from update_view[OF E wf 2(1,2) t(1), of 0] show ?thesis
      using v True t(2) by (simp add: rreq_offer_def)
  qed
qed

section \<open>The forward route of a RREP\<close>

lemma forward_route_choice:
  assumes E: "ext_ok E" and wf: "rt_wf s"
    and own: "\<And>dev. DEV_IFINDEX i s = Some dev \<Longrightarrow> rp_dest_addr rp \<noteq> dv_ipaddr dev"
    and run: "rrep_forward_route E rp ip_src i cost s = Some res"
  shows "case res of
      None \<Rightarrow> (\<exists>old. route_view (rp_dest_addr rp) s = Some old
        \<and> \<not> better RT_UNIDIR (rrep_offer rp ip_src cost) old)
    | Some (rt, h, fl, t) \<Rightarrow> rt_wf t \<and> keeps_routes s t
        \<and> rt_table_find (rp_dest_addr rp) t = Some rt \<and> rt \<noteq> None
        \<and> (\<forall>old. route_view (rp_dest_addr rp) s = Some old \<longrightarrow>
              better RT_UNIDIR (rrep_offer rp ip_src cost) old)
        \<and> route_view (rp_dest_addr rp) t
          = Some (preferred RT_UNIDIR (rrep_offer rp ip_src cost) (route_view (rp_dest_addr rp) s))"
proof (cases rule: rs.find_cases[OF wf, of "rp_dest_addr rp"])
  case 1
  then obtain rt t where t: "rt_table_insert_with_channel E (rp_dest_addr rp) ip_src
      (ucast (rrep_new_hcnt rp)) (rp_dest_seqno rp) (rp_lifetime rp) VALID 0 i
      (uint (rp_channel rp)) cost s = Some (rt, t)" "res = Some (rt, 0, 0, t)"
    using run by (auto simp: rrep_forward_route_def Let_def)
  have "malloc_ok E" using E by (simp add: ext_ok_def)
  from insert_view[OF wf this 1 own t(1)] show ?thesis
    using 1 t(2) by (auto simp: route_view_def rrep_offer_def)
next
  case (2 p r)
  have v: "route_view (rp_dest_addr rp) s = Some (info r)" by (rule view_found[OF 2(1,2)])
  have b: "better RT_UNIDIR (rrep_offer rp ip_src cost) (info r) \<longleftrightarrow> rt_dest_seqno r = 0
      \<or> s32_less (rt_dest_seqno r) (rp_dest_seqno rp)
      \<or> rp_dest_seqno rp = rt_dest_seqno r \<and> (rt_state r = INVALID \<or> has_flag (rt_flags r) RT_UNIDIR
          \<or> d_less cost (rt_cost r))"
    by (simp add: better_def info_def rrep_offer_def)
  show ?thesis
  proof (cases "better RT_UNIDIR (rrep_offer rp ip_src cost) (info r)")
    case False
    then have "res = None" using run 2 b by (auto simp: rrep_forward_route_def Let_def)
    then show ?thesis using v False by simp
  next
    case True
    then obtain p' t where t: "rt_table_update_with_channel E p ip_src (ucast (rrep_new_hcnt rp))
        (rp_dest_seqno rp) (rp_lifetime rp) VALID (rt_flags r)
        (uint (rp_channel rp)) cost s = Some (p', t)" "res = Some (Some p', rt_hcnt r, ucast (rt_flags r), t)"
      using run 2 b by (auto simp: rrep_forward_route_def Let_def)
    from update_view[OF E wf 2(1,2) t(1), of 0] show ?thesis
      using v True t(2) by (simp add: rrep_offer_def)
  qed
qed

section \<open>Properties\<close>

text \<open>C5: The reverse route a RREQ sets up refines the abstract choice: for the originator the table says
  afterwards what the specification chooses between the route offered by the RREQ and the one
  known before, by sequence number, then validity, then path cost; the RREQ is abandoned exactly
  when the route known is kept, and every destination known before is still known.\<close>

theorem reverse_route_refines:
  assumes "ext_ok E" and "rt_wf s" and "\<forall>dev. DEV_IFINDEX i s = Some dev \<longrightarrow> rq_orig_addr rq \<noteq> dv_ipaddr dev"
    and "rreq_reverse_route E rq ip_src i cost s = Some res"
  shows "let t = (case res of None \<Rightarrow> s | Some (rt, t) \<Rightarrow> t);
      old = route_view (rq_orig_addr rq) s; new = preferred 0 (rreq_offer rq ip_src cost) old
    in route_view (rq_orig_addr rq) t = Some new
      \<and> (res = None \<longleftrightarrow> (\<exists>r. old = Some r \<and> \<not> better 0 (rreq_offer rq ip_src cost) r))
      \<and> (\<forall>d. route_view d s \<noteq> None \<longrightarrow> route_view d t \<noteq> None)"
proof -
  have kept: "route_view d t \<noteq> None" if "rt_wf t" "keeps_routes s t" "route_view d s \<noteq> None" for d t
    using that rs.find_iff[OF assms(2), of d] rs.find_iff[OF that(1), of d]
    by (fastforce simp: route_view_def keeps_routes_def split: option.splits)
  show ?thesis using reverse_route_choice[OF assms(1,2) _ assms(4)] assms(3) kept
    by (auto simp: Let_def split: option.splits)
qed

definition sample_request :: RREQ where
  "sample_request = \<lparr>rq_channel = 2, rq_type = AODV_RREQ, rq_res1 = 0, rq_lr = False, rq_d = False,
     rq_g = False, rq_r = False, rq_j = False, rq_res2 = 0, rq_hcnt = 3, rq_rreq_id = 4,
     rq_dest_addr = 1, rq_dest_seqno = 0, rq_orig_addr = 7, rq_orig_seqno = 6, rq_dest_count = 1\<rparr>"

definition sample_reply :: RREP where
  "sample_reply = \<lparr>rp_channel = 2, rp_type = AODV_RREP, rp_res1 = 0, rp_lr = False, rp_a = False,
     rp_r = False, rp_prefix = 0, rp_res2 = 0, rp_hcnt = 3, rp_dest_addr = 7, rp_dest_seqno = 6,
     rp_orig_addr = 1, rp_lifetime = 3000, rp_dest_count = 1, rp_hello_sent = 0\<rparr>"

lemma sample_own_address: "\<forall>dev. DEV_IFINDEX 0 sample_routed = Some dev \<longrightarrow> 7 \<noteq> dv_ipaddr dev"
proof -
  have "case DEV_IFINDEX 0 sample_routed of Some dev \<Rightarrow> dv_ipaddr dev \<noteq> 7 | None \<Rightarrow> True" by code_simp
  then show ?thesis by (auto split: option.splits)
qed

theorem reverse_route_refines_witness:
  "\<exists>rt t r. rreq_reverse_route sample_ext sample_request 3 0 4 sample_routed = Some (Some (rt, t))
    \<and> route_view 7 t = Some r \<and> ro_next r = 3 \<and> ro_seqno r = 6 \<and> ro_channel r = 2"
proof -
  have "case rreq_reverse_route sample_ext sample_request 3 0 4 sample_routed of
      Some (Some _) \<Rightarrow> True | _ \<Rightarrow> False"
    by code_simp
  then obtain rt t where t: "rreq_reverse_route sample_ext sample_request 3 0 4 sample_routed = Some (Some (rt, t))"
    by (auto split: option.splits)
  have "case route_view 7 sample_routed of Some old \<Rightarrow>
      better 0 (rreq_offer sample_request 3 4) old | None \<Rightarrow> False" by code_simp
  then obtain old where old: "route_view 7 sample_routed = Some old" "better 0 (rreq_offer sample_request 3 4) old"
    by (auto split: option.splits)
  have d: "rq_orig_addr sample_request = 7" by (simp add: sample_request_def)
  have "route_view 7 t = Some (renewed (rreq_offer sample_request 3 4) old)"
    using reverse_route_refines[OF sample_ext_ok sample_routed_wf _ t, unfolded d, OF sample_own_address] old
    unfolding Let_def by simp
  moreover have "ro_next (renewed (rreq_offer sample_request 3 4) old) = 3"
    "ro_seqno (renewed (rreq_offer sample_request 3 4) old) = 6"
    "ro_channel (renewed (rreq_offer sample_request 3 4) old) = 2"
    by (simp_all add: renewed_def rreq_offer_def sample_request_def)
  ultimately show ?thesis using t by blast
qed

text \<open>C6: The forward route a RREP sets up refines the same choice, except that a route suspected to be
  unidirectional gives way to an equally fresh one of any cost.\<close>

theorem forward_route_refines:
  assumes "ext_ok E" and "rt_wf s" and "\<forall>dev. DEV_IFINDEX i s = Some dev \<longrightarrow> rp_dest_addr rp \<noteq> dv_ipaddr dev"
    and "rrep_forward_route E rp ip_src i cost s = Some res"
  shows "let t = (case res of None \<Rightarrow> s | Some (rt, h, fl, t) \<Rightarrow> t);
      old = route_view (rp_dest_addr rp) s; new = preferred RT_UNIDIR (rrep_offer rp ip_src cost) old
    in route_view (rp_dest_addr rp) t = Some new
      \<and> (res = None \<longleftrightarrow> (\<exists>r. old = Some r \<and> \<not> better RT_UNIDIR (rrep_offer rp ip_src cost) r))"
  using forward_route_choice[OF assms(1,2) _ assms(4)] assms(3)
  by (auto simp: Let_def split: option.splits)

theorem forward_route_refines_witness:
  "\<exists>rt h fl t r. rrep_forward_route sample_ext sample_reply 3 0 4 sample_routed = Some (Some (rt, h, fl, t))
    \<and> route_view 7 t = Some r \<and> ro_next r = 3 \<and> ro_cost r = 4"
proof -
  have "case rrep_forward_route sample_ext sample_reply 3 0 4 sample_routed of
      Some (Some _) \<Rightarrow> True | _ \<Rightarrow> False"
    by code_simp
  then obtain rt h fl t where t: "rrep_forward_route sample_ext sample_reply 3 0 4 sample_routed
      = Some (Some (rt, h, fl, t))"
    by (auto split: option.splits)
  have "case route_view 7 sample_routed of Some old \<Rightarrow>
      better RT_UNIDIR (rrep_offer sample_reply 3 4) old | None \<Rightarrow> False" by code_simp
  then obtain old where old: "route_view 7 sample_routed = Some old"
      "better RT_UNIDIR (rrep_offer sample_reply 3 4) old"
    by (auto split: option.splits)
  have d: "rp_dest_addr sample_reply = 7" by (simp add: sample_reply_def)
  have "route_view 7 t = Some (renewed (rrep_offer sample_reply 3 4) old)"
    using forward_route_refines[OF sample_ext_ok sample_routed_wf _ t, unfolded d, OF sample_own_address] old
    unfolding Let_def by (simp del: RT_UNIDIR_def)
  moreover have "ro_next (renewed (rrep_offer sample_reply 3 4) old) = 3"
    "ro_cost (renewed (rrep_offer sample_reply 3 4) old) = 4"
    by (simp_all add: renewed_def rrep_offer_def)
  ultimately show ?thesis using t by blast
qed



end
