(* ===== verification/Aodv_Timeout.thy ===== *)
theory Aodv_Timeout
  imports Aodv_Rrep
begin

text \<open>
  \<open>aodv_timeout.c\<close>: what happens when a timer fires. The argument of a callback is the
  pointer stored in the timer, \<open>None\<close> where the source tests it for null.
\<close>

section \<open>Route discovery\<close>

definition seek_find :: "nat \<Rightarrow> aodv \<Rightarrow> seek_list_t option" where
  "seek_find p s = find (\<lambda>e. sk_ptr e = p) (seekhead s)"

definition local_repair_timeout :: "ext \<Rightarrow> rtp option \<Rightarrow> aodv \<Rightarrow> aodv option" where
  "local_repair_timeout E rt s = (case rt of None \<Rightarrow> Some s | Some p \<Rightarrow> do {
     s \<leftarrow> rt_mod p (\<lambda>r. r\<lparr>rt_flags := rt_flags r AND NOT RT_REPAIR\<rparr>) s;
     r \<leftarrow> rt_heap s p;
     s \<leftarrow> (if rt_nprec r \<noteq> 0 then do {
            s \<leftarrow> rerr_create 0 (rt_dest_addr r) (rt_dest_seqno r) s;
            e \<leftarrow> rerr_at (send_buf s);
            if rt_nprec r = 1 then do {
              rerr_dest \<leftarrow> FIRST_PREC r;
              dev \<leftarrow> DEV_IFINDEX (rt_ifindex r) s;
              aodv_socket_send E (send_buf s) rerr_dest (RERR_CALC_SIZE e) 1 dev s
            } else for_each (enabled_devs s)
                (\<lambda>dev s. aodv_socket_send E (send_buf s) AODV_BROADCAST (RERR_CALC_SIZE e) 1 dev s) s
          } else Some s);
     s \<leftarrow> precursor_list_destroy (Some p) s;
     rt_mod p (\<lambda>r. r\<lparr>rt_rt_timer := x_timer_set_timeout E (now s) (delete_period (cfg s))
       ((rt_rt_timer r)\<lparr>t_handler := Some Route_delete_timeout\<rparr>)\<rparr>) s
   })"

text \<open>The entry with its next TTL and its timer set, while there are retries left.\<close>

definition seek_again :: "ext \<Rightarrow> aodv \<Rightarrow> seek_list_t \<Rightarrow> seek_list_t" where
  "seek_again E s e =
     (if expanding_ring_search (cfg s) then
        let e = (if sk_ttl e < TTL_THRESHOLD then e\<lparr>sk_ttl := sk_ttl e + TTL_INCREMENT\<rparr>
                 else e\<lparr>sk_ttl := NET_DIAMETER, sk_reqs := sk_reqs e + 1\<rparr>)
        in e\<lparr>sk_seek_timer := x_timer_set_timeout E (now s) (RING_TRAVERSAL_TIME (sk_ttl e)) (sk_seek_timer e)\<rparr>
      else
        let e = e\<lparr>sk_reqs := sk_reqs e + 1\<rparr>
        in e\<lparr>sk_seek_timer := x_timer_set_timeout E (now s) (sk_reqs e * 2 * NET_TRAVERSAL_TIME)
               (sk_seek_timer e)\<rparr>)"

definition seek_retry :: "ext \<Rightarrow> nat \<Rightarrow> aodv \<Rightarrow> aodv option" where
  "seek_retry E p s = do {
     s \<leftarrow> seek_mod p (seek_again E s) s;
     e \<leftarrow> seek_find p s;
     rt \<leftarrow> rt_table_find (sk_dest_addr e) s;
     s \<leftarrow> (case rt of None \<Rightarrow> Some s | Some r \<Rightarrow> keep_route E r s);
     on_all_channels (rreq_send_with_channel E (sk_dest_addr e) (sk_dest_seqno e) (sk_ttl e) (sk_flags e)) s
   }"

definition seek_give_up :: "ext \<Rightarrow> nat \<Rightarrow> in_addr \<Rightarrow> aodv \<Rightarrow> aodv option" where
  "seek_give_up E p dest_addr s = do {
     (n, s) \<leftarrow> packet_queue_set_verdict E dest_addr PQ_DROP s;
     repair_rt \<leftarrow> rt_table_find dest_addr s;
     let s = s\<lparr>seekhead := snd (x_seek_list_remove E (Some p) (seekhead s))\<rparr>;
     (case repair_rt of None \<Rightarrow> Some s | Some q \<Rightarrow> do {
        r \<leftarrow> rt_heap s q;
        if has_flag (rt_flags r) RT_REPAIR then local_repair_timeout E (Some q) s else Some s
      })
   }"

definition route_discovery_timeout :: "ext \<Rightarrow> nat option \<Rightarrow> aodv \<Rightarrow> aodv option" where
  "route_discovery_timeout E arg s = (case arg of None \<Rightarrow> Some s | Some p \<Rightarrow> do {
     e \<leftarrow> seek_find p s;
     if sk_reqs e < RREQ_RETRIES then seek_retry E p s
     else seek_give_up E p (sk_dest_addr e) s
   })"

section \<open>Routes and links\<close>

definition route_expire_timeout :: "ext \<Rightarrow> rtp option \<Rightarrow> aodv \<Rightarrow> aodv option" where
  "route_expire_timeout E rt s = (case rt of None \<Rightarrow> Some s | Some p \<Rightarrow> do {
     r \<leftarrow> rt_heap s p;
     if rt_hcnt r = 1 then x_neighbor_link_break E p s
     else do {
       (n, s) \<leftarrow> rt_table_invalidate E (Some p) s;
       precursor_list_destroy (Some p) s
     }
   })"

definition route_delete_timeout :: "ext \<Rightarrow> rtp option \<Rightarrow> aodv \<Rightarrow> aodv option" where
  "route_delete_timeout E rt s = (case rt of None \<Rightarrow> Some s | Some p \<Rightarrow> rt_table_delete E (Some p) s)"

definition hello_timeout :: "ext \<Rightarrow> rtp option \<Rightarrow> aodv \<Rightarrow> aodv option" where
  "hello_timeout E rt s = (case rt of None \<Rightarrow> Some s | Some p \<Rightarrow> do {
     r \<leftarrow> rt_heap s p;
     if rt_state r = VALID \<and> \<not> has_flag (rt_flags r) RT_UNIDIR then do {
       s \<leftarrow> (if local_repair (cfg s) \<and> uint (rt_hcnt r) \<le> MAX_REPAIR_TTL then do {
              s \<leftarrow> rt_mod p (\<lambda>r. r\<lparr>rt_flags := rt_flags r OR RT_REPAIR\<rparr>) s;
              interfaceQueue E (rt_dest_addr r) IFQ_BUFFER s
            } else Some s);
       x_neighbor_link_break E p s
     } else Some s
   })"

definition rrep_ack_timeout :: "ext \<Rightarrow> rtp option \<Rightarrow> aodv \<Rightarrow> aodv option" where
  "rrep_ack_timeout E rt s = (case rt of None \<Rightarrow> Some s | Some p \<Rightarrow> do {
     r \<leftarrow> rt_heap s p;
     rreq_blacklist_insert E (rt_dest_addr r) s
   })"

definition wait_on_reboot_timeout :: "aodv \<Rightarrow> aodv" where
  "wait_on_reboot_timeout s = s\<lparr>wait_on_reboot := False\<rparr>"

definition packet_queue_timeout :: "ext \<Rightarrow> aodv \<Rightarrow> aodv" where
  "packet_queue_timeout E s = (let s = snd (packet_queue_garbage_collect E s) in
     s\<lparr>PQ := (PQ s)\<lparr>pq_garbage_collect_timer :=
       x_timer_set_timeout E (now s) GARBAGE_COLLECT_TIME (pq_garbage_collect_timer (PQ s))\<rparr>\<rparr>)"

section \<open>The invariant is kept\<close>

lemma local_repair_timeout_ok: "agent_ok s \<Longrightarrow> okM agent_ok (local_repair_timeout E rt s)"
  unfolding local_repair_timeout_def
  by (intro okM_case_option okM_bind[OF rt_mod_ok] okM_reads okM_bind[OF creates_ok(6)] okM_if
        okM_bind[OF precursors_ok(3)] okM_bind[of agent_ok] aodv_socket_send_ok okM_for_each rt_mod_ok)
    auto

lemma seek_retry_ok: "agent_ok s \<Longrightarrow> okM agent_ok (seek_retry E p s)"
  unfolding seek_retry_def
  by (intro okM_bind[OF seek_mod_ok] okM_bind_any[where m = "seek_find p s" for p s] okM_reads
        okM_bind[of agent_ok] okM_case_option keep_route_ok on_all_channels_ok rreq_send_ok) simp_all

lemma seek_give_up_ok: "agent_ok s \<Longrightarrow> okM agent_ok (seek_give_up E p d s)"
  unfolding seek_give_up_def
  by (intro okM_bind[OF packet_queue_set_verdict_ok] okM_case_prod okM_reads okM_Let okM_case_option
        okM_if local_repair_timeout_ok) auto

lemma route_discovery_timeout_ok: "agent_ok s \<Longrightarrow> okM agent_ok (route_discovery_timeout E a s)"
  unfolding route_discovery_timeout_def
  by (intro okM_case_option okM_bind_any[where m = "seek_find p s" for p s] okM_if seek_retry_ok
        seek_give_up_ok) simp_all

lemma route_timeouts_ok:
  assumes "agent_ok s" and "outside_ok E"
  shows "okM agent_ok (route_expire_timeout E rt s)" "okM agent_ok (route_delete_timeout E rt s)"
    "okM agent_ok (hello_timeout E rt s)" "okM agent_ok (rrep_ack_timeout E rt s)"
proof -
  show "okM agent_ok (route_expire_timeout E rt s)" unfolding route_expire_timeout_def
    by (intro okM_case_option okM_reads okM_if outside_okD(4) okM_bind[OF rt_table_invalidate_ok]
          okM_case_prod precursors_ok) (use assms in auto)
  show "okM agent_ok (route_delete_timeout E rt s)" unfolding route_delete_timeout_def
    by (intro okM_case_option rt_table_delete_ok) (use assms in auto)
  show "okM agent_ok (hello_timeout E rt s)" unfolding hello_timeout_def
    by (intro okM_case_option okM_reads okM_if okM_bind[of agent_ok] okM_bind[OF rt_mod_ok]
          interfaceQueue_ok outside_okD(4)) (use assms in auto)
  show "okM agent_ok (rrep_ack_timeout E rt s)" unfolding rrep_ack_timeout_def
    by (intro okM_case_option okM_reads rreq_blacklist_insert_ok) (use assms outside_okD(2) in auto)
qed

lemma packet_queue_timeout_ok: "agent_ok s \<Longrightarrow> agent_ok (packet_queue_timeout E s)"
  using packet_queue_garbage_collect_ok[of s E]
  by (auto simp: packet_queue_timeout_def Let_def agent_ok_def rt_wf_def pq_ok_def agent_rest_def)

end
