(* ===== verification/Aodv_Input.thy ===== *)
theory Aodv_Input
  imports Aodv_Timeout
begin

text \<open>
  The entry points of the agent: the reception of control messages
  (\<open>aodv_socket_process_packet\<close>, \<open>recvAODVUUPacket\<close> of \<open>aodv_socket.c\<close>), of data packets
  (\<open>processPacket\<close> of \<open>ns-2/packet_input.cc\<close>), \<open>recv\<close>, \<open>packetFailed\<close>, the constructor and
  \<open>startAODVUUAgent\<close> of \<open>ns-2/aodv-uu.cc\<close>. A failed \<open>assert\<close> is \<open>None\<close>.
\<close>

section \<open>Control messages\<close>

definition aodv_socket_process_packet ::
  "ext \<Rightarrow> int \<Rightarrow> in_addr \<Rightarrow> in_addr \<Rightarrow> int \<Rightarrow> u32 \<Rightarrow> aodv \<Rightarrow> aodv option" where
  "aodv_socket_process_packet E len src dst ttl ifindex s = do {
     type \<leftarrow> arr_get (recv_buf s) 1;
     if type = AODV_RREP \<and> ttl = 1 \<and> dst = AODV_BROADCAST then hello_process E len ifindex s
     else do {
       s \<leftarrow> x_neighbor_add E src ifindex s;
       type \<leftarrow> arr_get (recv_buf s) 1;
       if type = AODV_RREQ_LR \<or> type = AODV_RREQ then rreq_process E len src ttl ifindex s
       else if type = AODV_RREP \<or> type = AODV_RREP_LR then rrep_process E len src ttl ifindex s
       else if type = AODV_RERR \<or> type = AODV_RERR_LR then rerr_process E len src s
       else if type = AODV_RREP_ACK then rrep_ack_process E src s
       else Some s
     }
   }"

definition recvAODVUUPacket :: "ext \<Rightarrow> packet \<Rightarrow> aodv \<Rightarrow> aodv option" where
  "recvAODVUUPacket E p s =
     (if pk_ptype p \<noteq> PT_AODVUU \<or> pk_direction p \<noteq> UP then None
      else do {
        msg \<leftarrow> load AODV_MSG_MAX_SIZE 0 (pk_aodv p);
        msg \<leftarrow> arr_set msg 0 (pk_channel p);
        let s = s\<lparr>recv_buf := msg\<rparr>;
        if \<exists>dev \<in> set (enabled_devs s). dv_ipaddr dev = pk_saddr p then Some s
        else aodv_socket_process_packet E (pk_size p - x_IP_HDR_LEN E) (pk_saddr p) (pk_daddr p)
               (pk_ttl p) NS_IFINDEX s
      })"

section \<open>Data packets\<close>

definition recv_up :: "packet \<Rightarrow> aodv \<Rightarrow> aodv" where
  "recv_up p s = s\<lparr>out := Recv_up p # out s\<rparr>"

text \<open>No usable route, and the packet comes from another node.\<close>

definition report_no_route :: "ext \<Rightarrow> packet \<Rightarrow> rtp option \<Rightarrow> rtp option \<Rightarrow> aodv \<Rightarrow> aodv option" where
  "report_no_route E p fwd_rt rev_rt s = do {
     s \<leftarrow> (case fwd_rt of
            None \<Rightarrow> rerr_create 0 (pk_daddr p) 0 s
          | Some f \<Rightarrow> do {
              r \<leftarrow> rt_heap s f;
              s \<leftarrow> rerr_create 0 (rt_dest_addr r) (rt_dest_seqno r) s;
              rt_table_update_timeout E (Some f) (word_of_int (delete_period (cfg s))) s
            });
     rerr_dest \<leftarrow> (case rev_rt of None \<Rightarrow> Some AODV_BROADCAST | Some q \<Rightarrow> do {
        r \<leftarrow> rt_heap s q;
        Some (if rt_state r = VALID then rt_next_hop r else AODV_BROADCAST)
      });
     e \<leftarrow> rerr_at (send_buf s);
     dev \<leftarrow> DEV_IFINDEX NS_IFINDEX s;
     s \<leftarrow> aodv_socket_send E (send_buf s) rerr_dest (RERR_CALC_SIZE e) 1 dev s;
     let s = (if wait_on_reboot s
       then s\<lparr>worb_timer := x_timer_set_timeout E (now s) (delete_period (cfg s)) (worb_timer s)\<rparr> else s);
     Some (drop_pkt p DROP_RTR_NO_ROUTE s)
   }"

text \<open>The label \<open>route_discovery\<close>; \<open>repair\<close> is \<open>fwd_rt && (fwd_rt->flags & RT_REPAIR)\<close>.\<close>

definition buffer_and_discover ::
  "ext \<Rightarrow> packet \<Rightarrow> rtp option \<Rightarrow> bool \<Rightarrow> aodv \<Rightarrow> aodv option" where
  "buffer_and_discover E p fwd_rt repair s = do {
     s \<leftarrow> packet_queue_add E p (pk_daddr p) s;
     if repair then rreq_local_repair E fwd_rt (pk_saddr p) s
     else rreq_route_discovery E (pk_daddr p)
            (if pk_ptype p = PT_TCP then RREQ_GRATUITOUS else 0) s
   }"

definition forward_data :: "ext \<Rightarrow> packet \<Rightarrow> in_addr \<Rightarrow> aodv \<Rightarrow> aodv option" where
  "forward_data E p next_hop s = do {
     s \<leftarrow> sendPacket E p next_hop 0 s;
     let s = s\<lparr>this_host := (this_host s)\<lparr>hi_fwd_time := now s\<rparr>\<rparr>;
     rrep_hello_start E s
   }"

text \<open>What the entry found says: the route is usable or not, and whether it is in repair.\<close>

definition route_usable :: "rt_table option \<Rightarrow> bool" where
  "route_usable r = (case r of None \<Rightarrow> False
     | Some r \<Rightarrow> rt_state r \<noteq> INVALID \<and> \<not> (rt_hcnt r = 1 \<and> has_flag (rt_flags r) RT_UNIDIR))"

definition processPacket :: "ext \<Rightarrow> packet \<Rightarrow> aodv \<Rightarrow> aodv option" where
  "processPacket E p s =
     (if pk_direction p = NONE then Some (drop_pkt p DROP_UNSPECIFIED s)
      else do {
        dev \<leftarrow> DEV_IFINDEX NS_IFINDEX s;
        if pk_daddr p = x_IP_BROADCAST E \<or> pk_daddr p = dv_broadcast dev then
          (if pk_direction p = DOWN then sendPacket E p (pk_daddr p) 0 s else Some (recv_up p s))
        else do {
          rev_rt \<leftarrow> rt_table_find (pk_saddr p) s;
          fwd_rt \<leftarrow> rt_table_find (pk_daddr p) s;
          s \<leftarrow> rt_table_update_route_timeouts E fwd_rt rev_rt s;
          if pk_daddr p = dv_ipaddr dev
          then Some (recv_up (p\<lparr>pk_size := pk_size p - x_IP_HDR_LEN E\<rparr>) s)
          else do {
            fwd \<leftarrow> (case fwd_rt of None \<Rightarrow> Some None | Some f \<Rightarrow> map_option Some (rt_heap s f));
            let repair = (case fwd of None \<Rightarrow> False | Some r \<Rightarrow> has_flag (rt_flags r) RT_REPAIR);
            if \<not> route_usable fwd then
              (if \<not> repair \<and> pk_direction p = UP then report_no_route E p fwd_rt rev_rt s
               else buffer_and_discover E p fwd_rt repair s)
            else do {
              r \<leftarrow> fwd;
              forward_data E p (rt_next_hop r) s
            }
          }
        }
      })"

section \<open>\<open>recv\<close> and \<open>packetFailed\<close>\<close>

definition recv_packet :: "ext \<Rightarrow> packet \<Rightarrow> aodv \<Rightarrow> aodv option" where
  "recv_packet E p s =
     (if \<not> initialized s then None
      else do {
        dev \<leftarrow> DEV_IFINDEX NS_IFINDEX s;
        if pk_saddr p = dv_ipaddr dev \<and> pk_num_forwards p \<noteq> 0
        then Some (drop_pkt p DROP_RTR_ROUTE_LOOP s)
        else
          let p = (if pk_saddr p = dv_ipaddr dev
                   then p\<lparr>pk_direction := DOWN, pk_size := pk_size p + x_IP_HDR_LEN E\<rparr>
                   else p\<lparr>pk_direction := UP\<rparr>)
          in if pk_ptype p = PT_AODVUU then recvAODVUUPacket E p s else processPacket E p s
      })"

text \<open>The label \<open>drop\<close>.\<close>

definition drop_failed :: "ext \<Rightarrow> packet \<Rightarrow> aodv \<Rightarrow> aodv option" where
  "drop_failed E p s =
     interfaceQueue E (pk_next_hop p) IFQ_DROP (drop_pkt p DROP_RTR_MAC_CALLBACK s)"

definition packetFailed :: "ext \<Rightarrow> packet \<Rightarrow> aodv \<Rightarrow> aodv option" where
  "packetFailed E p s =
     (if \<not> (DATA_PACKET (pk_ptype p) \<or> pk_ptype p = PT_PING \<or> pk_ptype p = PT_ENCAPSULATED)
         \<or> pk_daddr p = x_IP_BROADCAST E
         \<or> pk_daddr p = AODV_BROADCAST
      then Some (drop_pkt p DROP_RTR_MAC_CALLBACK s)
      else if x_seek_list_find E (pk_daddr p) (seekhead s) \<noteq> None
      then packet_queue_add E p (pk_daddr p) s
      else do {
        next_rt \<leftarrow> rt_table_find (pk_next_hop p) s;
        rt \<leftarrow> rt_table_find (pk_daddr p) s;
        (case (next_rt, rt) of
           (Some n, Some q) \<Rightarrow> do {
             rn \<leftarrow> rt_heap s n;
             r \<leftarrow> rt_heap s q;
             if rt_state rn = INVALID \<or> rt_state r = INVALID then drop_failed E p s
             else if rt_next_hop r \<noteq> pk_next_hop p then Some (drop_pkt p DROP_RTR_MAC_CALLBACK s)
             else if local_repair (cfg s) \<and> uint (rt_hcnt r) \<le> MAX_REPAIR_TTL then do {
               s \<leftarrow> packet_queue_add E p (pk_daddr p) s;
               s \<leftarrow> interfaceQueue E (pk_next_hop p) IFQ_BUFFER s;
               s \<leftarrow> rt_mod n (\<lambda>r. r\<lparr>rt_flags := rt_flags r OR RT_REPAIR\<rparr>) s;
               s \<leftarrow> x_neighbor_link_break E n s;
               rreq_local_repair E (Some q) (pk_saddr p) s
             }
             else do {
               s \<leftarrow> x_neighbor_link_break E n s;
               drop_failed E p s
             }
           }
         | _ \<Rightarrow> drop_failed E p s)
      })"

section \<open>Constructor and start\<close>

definition zero_dev :: dev_info where
  "zero_dev = \<lparr>dv_enabled = False, dv_ifindex = 0, dv_ipaddr = 0, dv_netmask = 0, dv_broadcast = 0\<rparr>"

definition zero_neighbor :: neighbor_info where
  "zero_neighbor = \<lparr>ni_ipaddr = 0, ni_neighbor_sta = 0, ni_isValid = 0,
     ni_channel_hello_self_received = replicate MAX_CHANNEL_NUM 0, ni_channel_hello_remote_sent = 0,
     ni_channel_hello_remote_received = replicate MAX_CHANNEL_NUM 0,
     ni_channel_hello_sequence = replicate MAX_CHANNEL_NUM (replicate (nat MAX_SEQUENCE_LEN) 0),
     ni_host_stability_sequence = replicate (nat MAX_SEQUENCE_LEN) 0,
     ni_channel_cost = replicate MAX_CHANNEL_NUM 0\<rparr>"

text \<open>
  \<open>this_host\<close> after the constructor. The loop that sets the costs to 0.5 runs over the first
  \<open>MAX_SEQUENCE_LEN\<close> of the 20 neighbours.
\<close>

definition initial_neighbors :: "neighbor_info list" where
  "initial_neighbors =
     replicate (nat MAX_SEQUENCE_LEN)
       (zero_neighbor\<lparr>ni_channel_cost := replicate MAX_CHANNEL_NUM 0x3FE0000000000000\<rparr>)
     @ replicate (MAX_NEIGHBORS - nat MAX_SEQUENCE_LEN) zero_neighbor"

definition initial_host :: host_info where
  "initial_host = \<lparr>hi_seqno = 1, hi_bcast_time = zero_time, hi_fwd_time = zero_time, hi_rreq_id = 0,
     hi_rerr_id = 0, hi_nif = 1,
     hi_devs = zero_dev\<lparr>dv_enabled := True, dv_ifindex := NS_IFINDEX, dv_broadcast := AODV_BROADCAST\<rparr>
       # replicate MAX_NR_INTERFACES zero_dev,
     hi_neighbors = initial_neighbors, hi_neighbor_num = 0,
     hi_stability = \<lparr>st_neighbor_num = 0, st_neighbor_change = 0, st_ava_channel_num = 0,
       st_best_channel_SNR = 0, st_isStable = 0\<rparr>,
     hi_hello_head = 0, hi_hello_tail = 0,
     hi_stability_sequence = replicate (nat MAX_SEQUENCE_LEN) 0\<rparr>"

text \<open>
  The constructor, applied to an object \<open>s\<close> whose bound variables (\<open>cfg\<close>,
  \<open>wait_on_reboot\<close>) have been read from Tcl and whose heap is empty. \<open>local_repair\<close> is
  set back after its binding. The list \<open>rerr_records\<close> is not a member and is not initialised.
\<close>

definition AODVUU_init :: "ext \<Rightarrow> aodv \<Rightarrow> aodv" where
  "AODVUU_init E s = packet_queue_init E (rt_table_init (aodv_socket_init
     (s\<lparr>this_host := initial_host, dev_indices := replicate MAX_NR_INTERFACES NS_IFINDEX,
        cfg := (cfg s)\<lparr>local_repair := False\<rparr>, rreq_records := [], rreq_blacklist := [],
        seekhead := [], worb_timer := (worb_timer s)\<lparr>t_used := False\<rparr>,
        hello_timer := (hello_timer s)\<lparr>t_used := False\<rparr>, nIfaces := 0, channelNum := 0,
        ifqueue := None, initialized := False\<rparr>)))"

text \<open>The timeouts are chosen after the first HELLO. The result says \<open>TCL_OK\<close> or \<open>TCL_ERROR\<close>.\<close>

definition start_config :: "config \<Rightarrow> config" where
  "start_config c = (if llfeedback c
     then c\<lparr>active_route_timeout := ACTIVE_ROUTE_TIMEOUT_LLF, ttl_start := TTL_START_LLF,
            delete_period := DELETE_PERIOD_LLF\<rparr>
     else c\<lparr>active_route_timeout := ACTIVE_ROUTE_TIMEOUT_HELLO, ttl_start := TTL_START_HELLO,
            delete_period := DELETE_PERIOD_HELLO\<rparr>)"

definition startAODVUUAgent :: "ext \<Rightarrow> aodv \<Rightarrow> (bool \<times> aodv) option" where
  "startAODVUUAgent E s =
     (if initialized s then Some (False, s)
      else do {
        let s = (if wait_on_reboot s
          then s\<lparr>worb_timer := x_timer_set_timeout E (now s) (delete_period (cfg s))
                  (x_timer_init E Wait_on_reboot_timeout (worb_timer s))\<rparr> else s);
        s \<leftarrow> hello_start E s;
        Some (True, s\<lparr>initialized := True, cfg := start_config (cfg s)\<rparr>)
      })"

section \<open>The invariant is kept\<close>

lemma agent_ok_initialized [simp]: "agent_ok (s\<lparr>initialized := b\<rparr>) = agent_ok s"
  by (simp add: agent_ok_def rt_wf_def pq_ok_def agent_rest_def)

lemma aodv_socket_process_packet_ok:
  assumes "agent_ok s" and "outside_ok E"
  shows "okM agent_ok (aodv_socket_process_packet E n src dst ttl i s)"
  unfolding aodv_socket_process_packet_def
  by (intro okM_reads okM_if hello_process_ok okM_bind[OF outside_okD(5)] rreq_process_ok rrep_process_ok
        rerr_process_ok rrep_ack_process_ok) (use assms in auto)

lemma recvAODVUUPacket_ok:
  assumes "agent_ok s" and "outside_ok E"
  shows "okM agent_ok (recvAODVUUPacket E p s)"
proof (cases "pk_ptype p \<noteq> PT_AODVUU \<or> pk_direction p \<noteq> UP")
  case False
  show ?thesis unfolding recvAODVUUPacket_def
  proof (intro okM_if okM_bind_eq okM_Let, goal_cases)
    case (2 m m')
    then show ?case using assms arr_set_length[of m 0 "pk_channel p" m'] load_length
      by (simp add: agent_ok_send_buf)
  next
    case (3 m m')
    have "agent_ok (s\<lparr>recv_buf := m'\<rparr>)"
      using 3 assms arr_set_length[of m 0 "pk_channel p" m'] load_length by (simp add: agent_ok_send_buf)
    then show ?case by (rule aodv_socket_process_packet_ok) (rule assms(2))
  qed (use False in simp_all)
qed (simp add: recvAODVUUPacket_def)

lemma recv_up_ok [simp]: "agent_ok (recv_up p s) = agent_ok s"
  by (simp add: recv_up_def)

lemma report_no_route_ok: "agent_ok s \<Longrightarrow> okM agent_ok (report_no_route E p f r s)"
  unfolding report_no_route_def Let_def
  by (intro okM_bind[of agent_ok] okM_case_option creates_ok okM_reads okM_bind[OF creates_ok(6)]
        rt_table_update_timeout_ok aodv_socket_send_ok) auto

lemma buffer_and_discover_ok: "agent_ok s \<Longrightarrow> okM agent_ok (buffer_and_discover E p f r s)"
  unfolding buffer_and_discover_def
  by (intro okM_bind[OF packet_queue_add_ok] okM_if rreq_local_repair_ok rreq_route_discovery_ok)

lemma forward_data_ok: "agent_ok s \<Longrightarrow> okM agent_ok (forward_data E p nh s)"
  unfolding forward_data_def Let_def by (intro okM_bind[OF sendPacket_ok] rrep_hello_start_ok) simp_all

lemma processPacket_ok: "agent_ok s \<Longrightarrow> okM agent_ok (processPacket E p s)"
  unfolding processPacket_def
  by (intro okM_if okM_reads sendPacket_ok okM_bind[OF rt_table_update_route_timeouts_ok] okM_Let
        okM_bind_any[where m = "m :: rt_table option option" for m] report_no_route_ok
        buffer_and_discover_ok forward_data_ok) simp_all

lemma recv_packet_ok: "agent_ok s \<Longrightarrow> outside_ok E \<Longrightarrow> okM agent_ok (recv_packet E p s)"
  unfolding recv_packet_def Let_def
  by (intro okM_if okM_reads recvAODVUUPacket_ok processPacket_ok) simp_all

lemma packetFailed_ok:
  assumes "agent_ok s" and "outside_ok E"
  shows "okM agent_ok (packetFailed E p s)"
  unfolding packetFailed_def drop_failed_def
  by (intro okM_if okM_reads packet_queue_add_ok okM_bind[OF packet_queue_add_ok] okM_case_prod okM_case_option
        interfaceQueue_ok okM_bind[OF interfaceQueue_ok] okM_bind[OF rt_mod_ok] okM_bind[OF outside_okD(4)]
        rreq_local_repair_ok) (use assms in auto)

lemma startAODVUUAgent_ok: "agent_ok s \<Longrightarrow> okP (startAODVUUAgent E s)"
  unfolding startAODVUUAgent_def by (intro okM_if okM_Let okM_bind[OF hello_start_ok]) auto

end
