(* ===== verification/Agent_Run.thy ===== *)
theory Agent_Run
  imports Aodv_Input Samples
begin

text \<open>
  The agent as a state machine: \<open>agent_step\<close> is one call of an entry point of the agent by the
  simulator (a packet arrives, a transmission fails, a timer fires, the agent is started) or a
  change of its surroundings (time passes, link layers are attached, the interface queue or the
  radio changes). The
  invariant \<open>agent_ok\<close> holds after the constructor and is kept by every step. The sample
  parameters satisfy the promises that the invariant rests on.
\<close>

section \<open>Steps\<close>

inductive agent_step :: "ext \<Rightarrow> aodv \<Rightarrow> aodv \<Rightarrow> bool" for E where
  start: "startAODVUUAgent E s = Some (ok, t) \<Longrightarrow> agent_step E s t"
| receive: "recv_packet E p s = Some t \<Longrightarrow> agent_step E s t"
| failed: "packetFailed E p s = Some t \<Longrightarrow> agent_step E s t"
| discovery: "route_discovery_timeout E a s = Some t \<Longrightarrow> agent_step E s t"
| repair: "local_repair_timeout E rt s = Some t \<Longrightarrow> agent_step E s t"
| expire: "route_expire_timeout E rt s = Some t \<Longrightarrow> agent_step E s t"
| delete: "route_delete_timeout E rt s = Some t \<Longrightarrow> agent_step E s t"
| hello_lost: "hello_timeout E rt s = Some t \<Longrightarrow> agent_step E s t"
| no_ack: "rrep_ack_timeout E rt s = Some t \<Longrightarrow> agent_step E s t"
| hello: "hello_send E s = Some t \<Longrightarrow> agent_step E s t"
| record_old: "rreq_record_timeout p s = Some t \<Longrightarrow> agent_step E s t"
| pardon: "rreq_blacklist_timeout p s = Some t \<Longrightarrow> agent_step E s t"
| error_old: "rerr_record_timeout p s = Some t \<Longrightarrow> agent_step E s t"
| reboot_over: "agent_step E s (wait_on_reboot_timeout s)"
| collect: "agent_step E s (packet_queue_timeout E s)"
| clock: "agent_step E s (s\<lparr>now := tv\<rparr>)"
| attach: "agent_step E s (s\<lparr>nIfaces := n, lllist := l\<rparr>)"
| radio: "agent_step E s (s\<lparr>ifqueue := q, mac_state := ms, mac_snr := ns\<rparr>)"

inductive_cases agent_stepE: "agent_step E s t"

lemma agent_ok_radio [simp]:
  "agent_ok (s\<lparr>mac_state := ms\<rparr>) = agent_ok s" "agent_ok (s\<lparr>mac_snr := ns\<rparr>) = agent_ok s"
  "agent_ok (s\<lparr>nIfaces := n\<rparr>) = agent_ok s" "agent_ok (s\<lparr>lllist := l\<rparr>) = agent_ok s"
  by (simp_all add: agent_ok_def rt_wf_def pq_ok_def agent_rest_def)

lemma agent_step_ok:
  assumes "agent_step E s t" and E: "outside_ok E" and s: "agent_ok s"
  shows "agent_ok t"
  using assms(1)
proof (cases rule: agent_step.cases)
  case start
  then show ?thesis using okM_D[OF startAODVUUAgent_ok[OF s]] by blast
next
  case receive
  then show ?thesis by (rule okM_D[OF recv_packet_ok[OF s E]])
next
  case failed
  then show ?thesis by (rule okM_D[OF packetFailed_ok[OF s E]])
next
  case discovery
  then show ?thesis by (rule okM_D[OF route_discovery_timeout_ok[OF s]])
next
  case repair
  then show ?thesis by (rule okM_D[OF local_repair_timeout_ok[OF s]])
next
  case hello
  then show ?thesis by (rule okM_D[OF hello_send_ok[OF s]])
qed (auto dest: okM_D[OF route_timeouts_ok(1)[OF s E]] okM_D[OF route_timeouts_ok(2)[OF s E]]
    okM_D[OF route_timeouts_ok(3)[OF s E]] okM_D[OF route_timeouts_ok(4)[OF s E]]
    okM_D[OF record_timeouts_ok(1)[OF s]] okM_D[OF record_timeouts_ok(2)[OF s]]
    okM_D[OF record_timeouts_ok(3)[OF s]]
    simp: wait_on_reboot_timeout_def s packet_queue_timeout_ok[OF s])

lemma agent_run_ok: "(agent_step E)\<^sup>*\<^sup>* s t \<Longrightarrow> outside_ok E \<Longrightarrow> agent_ok s \<Longrightarrow> agent_ok t"
  by (induction rule: rtranclp_induct) (auto intro: agent_step_ok)

section \<open>The constructor\<close>

text \<open>The memory of a new object: nothing allocated, arrays of the declared sizes.\<close>

definition new_object :: "aodv \<Rightarrow> bool" where
  "new_object s \<longleftrightarrow> rt_heap s = (\<lambda>p. None) \<and> rerr_records s = []
     \<and> length (send_buf s) = AODV_MSG_MAX_SIZE \<and> length (recv_buf s) = AODV_MSG_MAX_SIZE
     \<and> int (length (rreq_ratel s)) = RREQ_RATELIMIT - 1
     \<and> int (length (rerr_ratel s)) = RERR_RATELIMIT - 1"

lemma AODVUU_init_ok:
  assumes s: "new_object s"
  shows "agent_ok (AODVUU_init E s)"
proof -
  have wf: "rt_wf (rt_table_init u)" if "rt_heap u = (\<lambda>p. None)" for u :: aodv
    using that by (rule rt_table_init_wf)
  have "rt_wf (packet_queue_init E (rt_table_init u)) = rt_wf (rt_table_init u)" for u
    by (simp add: packet_queue_init_def rt_wf_def)
  moreover have "pq_ok (packet_queue_init E u)" for u by (rule packet_queue_init_ok)
  moreover have "rest_ok (agent_rest (AODVUU_init E s))" using s
    by (simp add: AODVUU_init_def agent_rest_def rest_ok_def rl_ok_def new_object_def rt_table_init_def
        packet_queue_init_def aodv_socket_init_def)
  ultimately show ?thesis using s
    unfolding agent_ok_def by (auto simp: AODVUU_init_def aodv_socket_init_def new_object_def intro: wf)
qed

section \<open>The samples\<close>

lemma sample_outside_ok: "outside_ok sample_ext"
  unfolding outside_ok_def
proof (intro conjI allI impI)
  fix p s assume s: "agent_ok s"
  show "okM agent_ok (x_neighbor_link_break sample_ext p s)"
    using map_option_snd_ok[OF rt_table_invalidate_ok[OF s, of sample_base "Some p"]]
    by (simp add: sample_ext_def)
next
  fix a i s assume s: "agent_ok s"
  show "okM agent_ok (x_neighbor_add sample_ext a i s)"
    using map_option_snd_ok[OF rt_table_insert_ok[OF s sample_malloc_ok, of a a 1 0 3000 VALID 0 i]]
    by (simp add: sample_ext_def)
qed (rule sample_ext_ok)

lemma sample_node_ok: "agent_ok sample_node"
  using sample_node_wf
  by (simp add: agent_ok_def sample_node_def rt_table_init_def pq_ok_def agent_rest_def rest_ok_def rl_ok_def)

end
