(* ===== verification/Agent_Frames.thy ===== *)
theory Agent_Frames
  imports Agent_Run Message_Facts
begin

text \<open>
  What the operations that only send, assemble messages or keep books leave alone: \<open>kept\<close>
  collects the packet queue, the message received, the three record buffers, the configuration
  and the devices; \<open>frame s t\<close> says that \<open>t\<close> agrees with \<open>s\<close> on these and that its routes
  differ at most in their lifetime. The lemmas go through the operations in the order of
  their calls, up to \<open>rreq_route_discovery\<close> and the bookkeeping part of \<open>hello_process\<close>;
  those of the last section only speak of \<open>kept\<close> and go up to \<open>rerr_process\<close>.
\<close>

section \<open>Frames\<close>

definition kept :: "aodv \<Rightarrow> packet_queue \<times> bytes \<times> rreq_record list \<times> blacklist list
    \<times> rerr_record list \<times> config \<times> u32 list \<times> int \<times> dev_info list \<times> timeval" where
  "kept s = (PQ s, recv_buf s, rreq_records s, rreq_blacklist s, rerr_records s, cfg s,
     dev_indices s, hi_nif (this_host s), hi_devs (this_host s), now s)"

definition frame :: "aodv \<Rightarrow> aodv \<Rightarrow> bool" where
  "frame s t \<longleftrightarrow> kept t = kept s \<and> same_routes s t"

lemma frame_refl [simp]: "frame s s"
  by (simp add: frame_def)

lemma frame_trans: "frame s t \<Longrightarrow> frame t u \<Longrightarrow> frame s u"
  by (auto simp: frame_def intro: same_routes_trans)

lemma frame_fields:
  assumes "frame s t"
  shows "PQ t = PQ s" "recv_buf t = recv_buf s" "rreq_records t = rreq_records s"
    "rreq_blacklist t = rreq_blacklist s" "rerr_records t = rerr_records s" "cfg t = cfg s"
    "DEV_IFINDEX i t = DEV_IFINDEX i s" "now t = now s"
  using assms by (simp_all add: frame_def kept_def DEV_IFINDEX_def ifindex2devindex_def)

lemma frame_find: "frame s t \<Longrightarrow> rt_wf s \<Longrightarrow> rt_table_find d t = rt_table_find d s"
  by (simp add: frame_def same_routes_find)

lemma same_routes_update [simp]:
  "same_routes s (t\<lparr>send_buf := b\<rparr>) = same_routes s t" "same_routes s (t\<lparr>this_host := h\<rparr>) = same_routes s t"
  "same_routes s (t\<lparr>seekhead := l\<rparr>) = same_routes s t" "same_routes s (t\<lparr>channelNum := c\<rparr>) = same_routes s t"
  by (simp_all add: same_routes_def)

lemma kept_update [simp]:
  "kept (t\<lparr>send_buf := b\<rparr>) = kept t" "kept (t\<lparr>seekhead := l\<rparr>) = kept t"
  "kept (t\<lparr>channelNum := c\<rparr>) = kept t" "kept (t\<lparr>rt_heap := h\<rparr>) = kept t"
  "kept (t\<lparr>rt_tbl := g\<rparr>) = kept t" "kept (t\<lparr>ifqueue := q\<rparr>) = kept t" "kept (t\<lparr>out := e\<rparr>) = kept t"
  by (simp_all add: kept_def)

lemma kept_host: "hi_nif h = hi_nif (this_host t) \<Longrightarrow> hi_devs h = hi_devs (this_host t) \<Longrightarrow>
    kept (t\<lparr>this_host := h\<rparr>) = kept t"
  by (simp add: kept_def)

lemma frame_update [simp]:
  "frame s (t\<lparr>send_buf := b\<rparr>) = frame s t" "frame s (t\<lparr>seekhead := l\<rparr>) = frame s t"
  "frame s (t\<lparr>channelNum := c\<rparr>) = frame s t"
  by (simp_all add: frame_def)

lemma frame_host: "hi_nif h = hi_nif (this_host t) \<Longrightarrow> hi_devs h = hi_devs (this_host t) \<Longrightarrow>
    frame s (t\<lparr>this_host := h\<rparr>) = frame s t"
  by (simp add: frame_def kept_host)

abbreviation frameM :: "aodv \<Rightarrow> aodv option \<Rightarrow> bool" where
  "frameM s \<equiv> okM (frame s)"

lemma sent_frame: "sent_from s t \<Longrightarrow> frame s t"
  by (simp add: frame_def kept_def sent_from_same_routes sent_from_fields)

lemma aodv_socket_send_frame: "frame s t \<Longrightarrow> frameM s (aodv_socket_send E m d n ttl dev t)"
  using aodv_socket_send_sent[of E m d n ttl dev t] by (auto simp: okM_def intro: frame_trans sent_frame)

lemma in_send_frame: "frame s t \<Longrightarrow> frameM s (in_send f t)"
  by (auto simp: okM_def in_send_def)

lemma new_msg_frame [simp]: "frame s (aodv_socket_new_msg t) = frame s t"
  by (simp add: aodv_socket_new_msg_def)

lemma creates_frame:
  assumes "frame s t"
  shows "frameM s (rreq_create fl d q a t)" "frameM s (rreq_create_with_cost fl d q a c t)"
    "frameM s (rrep_ack_create t)" "frameM s (rerr_create fl' d q t)"
  unfolding rreq_create_def rreq_create_with_cost_def rrep_ack_create_def rerr_create_def Let_def
  by (intro okM_bind[of "\<lambda>u. frame s u \<and> hi_nif (this_host u) = hi_nif (this_host t)
        \<and> hi_devs (this_host u) = hi_devs (this_host t)"] okM_if in_send_frame;
      auto simp: assms frame_host in_send_def aodv_socket_new_msg_def okM_def)+

lemma rreq_send_frame:
  assumes "frame s t"
  shows "frameM s (rreq_send E d q ttl fl t)" "frameM s (rreq_send_with_channel E d q ttl fl c t)"
  unfolding rreq_send_def rreq_send_with_channel_def rreq_send_on_def
  by (intro okM_for_each okM_bind[OF creates_frame(2)] aodv_socket_send_frame; simp add: assms)+

lemma on_all_channels_frame:
  "frame s t \<Longrightarrow> (\<And>c u. frame s u \<Longrightarrow> frameM s (f c u)) \<Longrightarrow> frameM s (on_all_channels f t)"
  unfolding on_all_channels_def by (rule okM_for_each)

lemma rt_mod_kept: "rt_mod p f t = Some u \<Longrightarrow> kept u = kept t"
  by (auto dest!: rt_mod_SomeD)

lemma update_timeout_kept: "rt_table_update_timeout E rt l t = Some u \<Longrightarrow> kept u = kept t"
  by (auto simp: rt_table_update_timeout_def Let_def split: option.splits if_splits dest: rt_mod_kept)

lemma update_timeout_frame: "frame s t \<Longrightarrow> frameM s (rt_table_update_timeout E rt l t)"
  using rt_table_update_timeout_same[of E rt l t] update_timeout_kept[of E rt l t]
  by (auto simp: okM_def frame_def intro: same_routes_trans)

lemma keep_route_frame: "frame s t \<Longrightarrow> frameM s (keep_route E p t)"
  unfolding keep_route_def by (intro okM_reads okM_if update_timeout_frame) simp_all

lemma start_seeking_frame: "frame s t \<Longrightarrow> frameM s (start_seeking E d q ttl fl m t)"
  unfolding start_seeking_def seek_mod_def by (intro okM_Let okM_case_prod okM_if) simp_all

lemma rreq_route_discovery_frame: "frame s t \<Longrightarrow> frameM s (rreq_route_discovery E d fl t)"
proof -
  have *: "okM (\<lambda>(q, u). frame s u) (case rt of None \<Rightarrow> Some (0, t)
      | Some p \<Rightarrow> rt_heap t p \<bind> (\<lambda>r. keep_route E p t \<bind> (\<lambda>u. Some (rt_dest_seqno r, u))))"
    if "frame s t" for rt t
    by (intro okM_case_option okM_reads okM_bind[OF keep_route_frame]) (simp_all add: that)
  show "frame s t \<Longrightarrow> frameM s (rreq_route_discovery E d fl t)"
    unfolding rreq_route_discovery_def
    by (intro okM_if okM_bind_eq[where m = "rt_table_find a s" for a s] okM_bind[OF *] okM_case_prod okM_Let
          okM_bind[OF on_all_channels_frame] rreq_send_frame start_seeking_frame)
      (auto simp: frame_host)
qed

section \<open>Processing of HELLOs\<close>

lemma nb_mod_frame: "frame s t \<Longrightarrow> frameM s (nb_mod i f t)"
  unfolding nb_mod_def by (intro okM_bind_any) (simp add: frame_host)

lemma nb_append_frame: "frame s t \<Longrightarrow> frameM s (nb_append f t)"
  unfolding nb_append_def by (intro okM_bind[OF nb_mod_frame]) (simp_all add: frame_host)

lemma hello_note_sender_frame: "frame s t \<Longrightarrow> frameM s (hello_note_sender h t)"
  unfolding hello_note_sender_def by (intro okM_bind_any okM_if nb_mod_frame nb_append_frame)

lemma hello_count_received_frame: "frame s t \<Longrightarrow> okM (\<lambda>(k, u). frame s u) (hello_count_received h t)"
  unfolding hello_count_received_def
  by (rule okM_bind_any, intro okM_bind[of "frame s"] okM_if nb_mod_frame okM_bind_any) simp_all

lemma hello_acknowledge_frame: "frame s t \<Longrightarrow> frameM s (hello_acknowledge E h i k t)"
  unfolding hello_acknowledge_def Let_def
  by (intro okM_bind[OF creates_frame(3)] okM_bind[OF in_send_frame] okM_reads aodv_socket_send_frame)
    simp_all

section \<open>Processing of RERRs\<close>

text \<open>The RERR in the receive buffer is about an identifier that is recorded.\<close>

definition noted :: "in_addr \<Rightarrow> u32 \<Rightarrow> u32 \<Rightarrow> aodv \<Rightarrow> bool" where
  "noted origin rid lst t \<longleftrightarrow> rerr_record_find origin rid lst t \<noteq> None
     \<and> (\<exists>e. rerr_at (recv_buf t) = Some e \<and> re_rerr_origin_addr e = origin \<and> re_rerr_id e = rid)"

abbreviation notedR :: "in_addr \<Rightarrow> u32 \<Rightarrow> u32 \<Rightarrow> (bool \<times> in_addr \<times> aodv) option \<Rightarrow> bool" where
  "notedR o' i a m \<equiv> okM (\<lambda>(c, u, t). noted o' i a t) m"

lemma noted_kept: "kept u = kept t \<Longrightarrow> noted o' i a t \<Longrightarrow> noted o' i a u"
  by (simp add: noted_def kept_def rerr_record_find_def)

lemma noted_frame: "frameM t m \<Longrightarrow> noted o' i a t \<Longrightarrow> okM (noted o' i a) m"
  by (auto simp: okM_def frame_def intro: noted_kept)

lemma noted_sending:
  assumes "noted o' i a t"
  shows "okM (noted o' i a) (aodv_socket_send E m d n ttl dev t)" "okM (noted o' i a) (in_send g t)"
    "okM (noted o' i a) (rerr_create fl d q t)" "okM (noted o' i a) (rreq_route_discovery E d fl t)"
  by (intro noted_frame[OF _ assms] aodv_socket_send_frame in_send_frame creates_frame
      rreq_route_discovery_frame; simp)+

lemma noted_rt_mod: "noted o' i a t \<Longrightarrow> okM (noted o' i a) (rt_mod p f t)"
  by (auto simp: okM_def dest: rt_mod_kept intro: noted_kept)

lemma noted_invalidate: "noted o' i a t \<Longrightarrow> okM (noted o' i a) (map_option snd (rt_table_invalidate E (Some p) t))"
  by (auto simp: okM_def elim!: rt_table_invalidate_cases noted_kept[rotated])

lemma noted_collect:
  assumes "noted o' i a t"
  shows "notedR o' i a (rerr_collect fl (\<lambda>s. Some (x, y, s)) r (c, u, t))"
  unfolding rerr_collect_def prod.case bind.bind_lunit
  by (intro okM_if okM_bind[OF noted_sending(3)] okM_bind[OF noted_sending(2)] okM_reads) (use assms in auto)

lemma noted_break_route:
  assumes "noted o' i a t"
  shows "notedR o' i a (rerr_break_route E e q p (c, u, t))"
proof -
  have 1: "okM (noted o' i a) (interfaceQueue E d IFQ_DROP_BY_DEST t)" if "noted o' i a t" for d t
    using that by (auto simp: interfaceQueue_def intro: noted_kept[rotated] split: option.splits)
  have 2: "okM (noted o' i a) (precursor_list_destroy (Some p) t)" if "noted o' i a t" for p t
    using noted_rt_mod[OF that] by (simp add: precursor_list_destroy_def)
  have 3: "notedR o' i a (if b then rerr_collect fl (\<lambda>s. Some (x, y, s)) r (c, u, t) else Some (c, u, t))"
    if "noted o' i a t" for b fl x y r c u t
    using noted_collect[OF that] that by simp
  show ?thesis unfolding rerr_break_route_def
    by (intro okM_case_prod okM_reads okM_bind[OF 1] okM_bind[OF noted_rt_mod] okM_bind[OF 3]
          okM_bind[of "noted o' i a"] okM_if noted_invalidate noted_sending 2) (use assms in auto)
qed

lemma noted_count_down: "noted o' i a t \<Longrightarrow>
    okM (noted o' i a) (in_recv (rerr_mod (\<lambda>e. e\<lparr>re_dest_count := n e\<rparr>)) t)"
  by (fastforce simp: okM_def noted_def in_recv_def rerr_record_find_def dest!: mod_at(3))

lemma noted_udest:
  assumes "(\<lambda>(c, u, t). noted o' i a t) x"
  shows "notedR o' i a (rerr_udest E e src k x)"
proof -
  have b: "notedR o' i a (case rt of None \<Rightarrow> Some (c, u, t) | Some p \<Rightarrow> rt_heap t p \<bind> (\<lambda>r.
      if rt_state r = VALID \<and> rt_next_hop r = src then rerr_break_route E e q p (c, u, t)
      else Some (c, u, t)))" if "noted o' i a t" for rt c u t q
    by (intro okM_case_option okM_reads okM_if noted_break_route) (simp_all add: that)
  show ?thesis unfolding rerr_udest_def
    by (intro okM_case_prod okM_reads okM_bind[OF b] okM_bind[OF noted_count_down]) (use assms in auto)
qed

lemma noted_transmit: "noted o' i a t \<Longrightarrow> okM (noted o' i a) (rerr_transmit E u t)"
  unfolding rerr_transmit_def
  by (intro okM_reads okM_if noted_sending okM_for_each) simp_all

end
