(* ===== verification/Request_Claims.thy ===== *)
theory Request_Claims
  imports Agent_Frames Route_Choice
begin

text \<open>
  Properties of the processing of route requests: which requests are ignored, what a request
  seen twice does, the node's sequence number, the lifetime of a reverse route and the routes a
  request removes.
\<close>

section \<open>Ignored requests\<close>


lemma sample_devices:
  obtains self dev rq where "DEV_NR 0 sample_routed = Some self" "DEV_IFINDEX 0 sample_routed = Some dev"
    "rreq_at (recv_buf sample_routed) = Some rq"
proof -
  have "case DEV_NR 0 sample_routed of None \<Rightarrow> False | Some _ \<Rightarrow> True"
    "case DEV_IFINDEX 0 sample_routed of None \<Rightarrow> False | Some _ \<Rightarrow> True"
    "case rreq_at (recv_buf sample_routed) of None \<Rightarrow> False | Some _ \<Rightarrow> True"
    by code_simp+
  then show ?thesis using that by (auto split: option.splits)
qed

lemma sample_routed_ok: "agent_ok sample_routed"
proof (rule sample_routed_steps)
  fix s p q
  assume i: "rt_table_insert_with_channel sample_ext 7 2 3 5 3000 VALID 0 0 1 9 sample_node = Some (Some p, s)"
    "rt_table_insert sample_ext 2 2 1 8 3000 VALID 0 0 s = Some (Some q, sample_routed)"
  have "rt_table_find 7 sample_node = Some None" by code_simp
  then have "agent_ok s"
    using okM_D[OF rt_table_insert_with_channel_ok[OF sample_node_ok sample_malloc_ok_ext] i(1)] by simp
  then show ?thesis using okM_D[OF rt_table_insert_ok[OF _ sample_malloc_ok_ext] i(2)] by simp
qed


section \<open>Requests seen before\<close>

lemma cost_loop_buffer:
  "rreq_cost_loop E a b c len extlen off cost s = Some (cost', t) \<Longrightarrow> \<exists>m. t = s\<lparr>recv_buf := m\<rparr>"
proof (induction E a b c len extlen off cost s arbitrary: cost' t rule: rreq_cost_loop.induct)
  case (1 E a b c len extlen off cost s)
  show ?case
  proof (cases "RREQ_SIZE < unat (word_of_int len - extlen) \<and> \<not> AODV_MSG_MAX_SIZE < off + 2")
    case False
    then show ?thesis using 1(2)
      by (subst (asm) rreq_cost_loop.simps) (auto split: if_splits intro: exI[of _ "recv_buf s"])
  next
    case True
    then obtain ty x l where x: "arr_get (recv_buf s) (int off) = Some ty"
      "(if ty = RREQ_COST_EXT then rreq_add_cost E a b c off s else Some (cost, s)) = Some x"
      "arr_get (recv_buf (snd x)) (int off + 1) = Some l"
      "rreq_cost_loop E a b c len (extlen + (2 + ucast l)) (off + (2 + unat l)) (fst x) (snd x) = Some (cost', t)"
      using 1(2) by (subst (asm) rreq_cost_loop.simps) (fastforce split: if_splits prod.splits)
    obtain m where "snd x = s\<lparr>recv_buf := m\<rparr>"
      using x(2) by (auto simp: rreq_add_cost_def in_recv_def Let_def split: if_splits
          intro: that[of "recv_buf s"])
    moreover have "\<exists>m. t = (snd x)\<lparr>recv_buf := m\<rparr>"
      by (rule 1(1)[of ty x "fst x" "snd x" l]) (use True x in simp_all)
    ultimately show ?thesis by auto
  qed
qed

lemma recv_buf_reads [simp]:
  "rreq_record_find_less_cost a i c (s\<lparr>recv_buf := m\<rparr>) = rreq_record_find_less_cost a i c s"
  by (simp add: rreq_record_find_less_cost_def)

text \<open>A RREQ that was seen before over a cheaper path is dropped: nothing changes but the path cost
  noted in the message received, whatever its other contents, length and TTL.\<close>

theorem costlier_duplicate_dropped:
  assumes "DEV_NR 0 s = Some self" and "DEV_IFINDEX i s = Some dev"
    and "rreq_at (recv_buf s) = Some rq" and "rq_type rq \<noteq> AODV_RREQ_LR"
    and "rreq_cost_loop E ip_src (dv_ipaddr self) (uint (rq_channel rq)) len 0 RREQ_SIZE
      (fp_log (x_fp E) MAX_NUM) s = Some (cost, u)"
    and "\<exists>rec \<in> set (rreq_records s). rr_orig_addr rec = rq_orig_addr rq
      \<and> rr_rreq_id rec = rq_rreq_id rq \<and> d_less (rr_cost rec) cost"
  shows "\<exists>m. rreq_process E len ip_src ttl i s = Some (s\<lparr>recv_buf := m\<rparr>)"
proof -
  obtain m where m: "u = s\<lparr>recv_buf := m\<rparr>" using cost_loop_buffer[OF assms(5)] by blast
  have dup: "rreq_record_find_less_cost (rq_orig_addr rq) (rq_rreq_id rq) cost s \<noteq> None"
    using assms(6) by (auto simp: rreq_record_find_less_cost_def find_None_iff)
  show ?thesis
  proof (cases "rq_orig_addr rq = dv_ipaddr dev \<or> len < int RREQ_SIZE \<or> rreq_blacklist_find ip_src s \<noteq> None")
    case True
    then have "rreq_process E len ip_src ttl i s = Some s"
      using assms(1-4) by (auto simp: rreq_process_def)
    then show ?thesis by (intro exI[of _ "recv_buf s"]) simp
  next
    case False
    then have "rreq_process E len ip_src ttl i s = Some u"
      using assms(1-5) dup m by (simp add: rreq_process_def)
    then show ?thesis using m by blast
  qed
qed

definition sample_duplicate :: aodv where
  "sample_duplicate = sample_routed\<lparr>recv_buf := rreq_put sample_request (replicate AODV_MSG_MAX_SIZE 0),
     rreq_records := [\<lparr>rr_ptr = 0, rr_orig_addr = 7, rr_rreq_id = 4, rr_rec_timer = zero_timer,
       rr_cost = 3\<rparr>]\<rparr>"

theorem costlier_duplicate_dropped_witness:
  "\<exists>m. rreq_process sample_ext 32 3 30 0 sample_duplicate = Some (sample_duplicate\<lparr>recv_buf := m\<rparr>)"
proof -
  obtain self dev rq where d: "DEV_NR 0 sample_routed = Some self" "DEV_IFINDEX 0 sample_routed = Some dev"
    "rreq_at (recv_buf sample_routed) = Some rq" by (rule sample_devices)
  have "DEV_NR 0 sample_duplicate = Some self" "DEV_IFINDEX 0 sample_duplicate = Some dev"
    using d by (simp_all add: sample_duplicate_def DEV_NR_def DEV_IFINDEX_def ifindex2devindex_def)
  moreover have "rreq_at (recv_buf sample_duplicate) = Some sample_request"
    by (simp add: sample_duplicate_def rreq_at_put)
  moreover have "rq_type sample_request \<noteq> AODV_RREQ_LR" by (simp add: sample_request_def)
  moreover have "rreq_cost_loop sample_ext 3 (dv_ipaddr self) (uint (rq_channel sample_request)) 32 0
      RREQ_SIZE (fp_log (x_fp sample_ext) MAX_NUM) sample_duplicate
      = Some (fp_log (x_fp sample_ext) MAX_NUM, sample_duplicate)"
    by (simp add: rreq_cost_loop.simps)
  moreover have "d_less 3 (fp_log (x_fp sample_ext) MAX_NUM)"
    by (simp add: sample_ext_def sample_base_def sample_fp_def d_less_def d_is_nan_def d_key_def d_mag_def)
  then have "\<exists>rec \<in> set (rreq_records sample_duplicate). rr_orig_addr rec = rq_orig_addr sample_request
      \<and> rr_rreq_id rec = rq_rreq_id sample_request \<and> d_less (rr_cost rec) (fp_log (x_fp sample_ext) MAX_NUM)"
    by (simp add: sample_duplicate_def sample_request_def)
  ultimately show ?thesis by (rule costlier_duplicate_dropped)
qed

text \<open>A record keeps the cost of the first copy of its RREQ: when a cheaper copy arrives the buffer
  stays as it is, so that every later copy that is no costlier than the first is processed and
  flooded again, even if it is costlier than the best copy forwarded.\<close>

theorem record_keeps_first_cost:
  assumes "rreq_record_find a i s = None" and "rreq_record_insert_with_cost E a i c s = Some t"
  shows "rreq_record_insert_with_cost E a i c' t = Some t
    \<and> (\<forall>c''. \<not> d_less c c'' \<longrightarrow> rreq_record_find_less_cost a i c'' t = None)"
proof -
  obtain rec where rec: "rreq_records t = rec # rreq_records s" "rr_orig_addr rec = a"
    "rr_rreq_id rec = i" "rr_cost rec = c"
    using assms by (auto simp: rreq_record_insert_with_cost_def)
  have old: "\<not> (rr_orig_addr r = a \<and> rr_rreq_id r = i)" if "r \<in> set (rreq_records s)" for r
    using assms(1) that by (auto simp: rreq_record_find_def find_None_iff)
  show ?thesis using rec old
    by (auto simp: rreq_record_insert_with_cost_def rreq_record_find_def
        rreq_record_find_less_cost_def find_None_iff)
qed

theorem record_keeps_first_cost_witness:
  "\<exists>t. rreq_record_insert_with_cost sample_ext 7 4 9 sample_node = Some t
    \<and> rreq_record_insert_with_cost sample_ext 7 4 2 t = Some t
    \<and> rreq_record_find_less_cost 7 4 5 t = None"
proof -
  have "rreq_record_find 7 4 sample_node = None"
    "case rreq_record_insert_with_cost sample_ext 7 4 9 sample_node of None \<Rightarrow> False | Some _ \<Rightarrow> True"
    by code_simp+
  moreover have "\<not> d_less 9 5" by (simp add: d_less_def d_key_def d_mag_def)
  ultimately show ?thesis using record_keeps_first_cost[of 7 4 sample_node sample_ext 9]
    by (auto split: option.splits)
qed

section \<open>The node's sequence number\<close>

lemma sint_plus_one:
  assumes "(w :: u32) \<noteq> 0x7FFFFFFF"
  shows "sint (w + 1) = sint w + 1"
proof -
  have "sint w \<noteq> 0x7FFFFFFF"
  proof
    assume "sint w = 0x7FFFFFFF"
    then have "word_of_int (sint w) = (0x7FFFFFFF :: u32)" by simp
    then show False using assms by simp
  qed
  moreover have "sint w < 2 ^ 31" "- (2 ^ 31) \<le> sint w"
    using sint_lt[of w] sint_ge[of w] by simp_all
  ultimately have "signed_take_bit 31 (sint w + 1) = sint w + 1"
    by (intro signed_take_bit_int_eq_self) simp_all
  moreover have "sint (word_of_int (sint w + 1) :: u32) = signed_take_bit 31 (sint w + 1)"
    by (simp only: signed_of_int) simp
  moreover have "word_of_int (sint w + 1) = w + 1" by simp
  ultimately show ?thesis by (simp only:)
qed

lemma seqno_incr_older: "w \<noteq> 0 \<Longrightarrow> s32_less (seqno_incr w) w \<longleftrightarrow> w = 0x7FFFFFFF"
  using sint_plus_one[of w] by (cases "w = 0x7FFFFFFF") (auto simp: seqno_incr_def s32_less_def)

text \<open>C35: Before it answers, the destination raises its sequence number to the one asked for: afterwards
  it is neither older than before nor older than the one asked for, with one exception, when both
  are the largest positive 32-bit number and the increment turns negative.\<close>

theorem raised_seqno_fresh:
  "q \<noteq> 0 \<and> s32_less (hi_seqno (this_host (raise_seqno q s))) q
      \<or> s32_less (hi_seqno (this_host (raise_seqno q s))) (hi_seqno (this_host s))
    \<longleftrightarrow> hi_seqno (this_host s) = 0x7FFFFFFF \<and> q = 0x7FFFFFFF"
  using seqno_incr_older[of q] s32_linear[of q "hi_seqno (this_host s)"]
  by (auto simp: raise_seqno_def Let_def dest: s32_less_trans)

section \<open>Routes of a request\<close>

text \<open>The lifetime of a reverse route falls by twice the node traversal time with every hop; from the
  36th hop on the difference is negative and becomes a lifetime of more than 49 days.\<close>

theorem reverse_lifetime_wraps:
  "uint (minimal_lifetime (rreq_new_hcnt rq))
    = (let life = 2450 - 70 * (uint (rq_hcnt rq) + 1) in if life < 0 then 2 ^ 32 + life else life)"
proof -
  have h: "uint (rq_hcnt rq) < 256" "0 \<le> uint (rq_hcnt rq)"
    using uint_lt2p[of "rq_hcnt rq"] by simp_all
  have "rreq_new_hcnt rq = word_of_int (uint (rq_hcnt rq) + 1)" by (simp add: rreq_new_hcnt_def)
  then have m: "minimal_lifetime (rreq_new_hcnt rq) = word_of_int (2450 - 70 * (uint (rq_hcnt rq) + 1))"
    by (simp add: minimal_lifetime_def)
  have "uint (word_of_int k :: u32) = k mod 2 ^ 32" for k
    by (simp add: unsigned_of_int take_bit_eq_mod)
  then have u: "uint (minimal_lifetime (rreq_new_hcnt rq)) = (2450 - 70 * (uint (rq_hcnt rq) + 1)) mod 2 ^ 32"
    unfolding m .
  show ?thesis
  proof (cases "2450 - 70 * (uint (rq_hcnt rq) + 1) < 0")
    case True
    have "(2 ^ 32 + (2450 - 70 * (uint (rq_hcnt rq) + 1))) mod 2 ^ 32 = 2 ^ 32 + (2450 - 70 * (uint (rq_hcnt rq) + 1))"
      using h True by (intro mod_pos_pos_trivial) simp_all
    moreover have "(2 ^ 32 + x) mod 2 ^ 32 = x mod 2 ^ 32" for x :: int by simp
    ultimately have "(2450 - 70 * (uint (rq_hcnt rq) + 1)) mod 2 ^ 32 = 2 ^ 32 + (2450 - 70 * (uint (rq_hcnt rq) + 1))"
      by (simp only:)
    then show ?thesis using u True by (simp add: Let_def)
  next
    case False
    then show ?thesis using u h by (simp add: Let_def)
  qed
qed

text \<open>C39: A RREQ for a destination known without a channel, as every neighbour learned from its HELLOs is,
  deletes that route: the request is then treated as if the destination were unknown; no other
  route is touched.\<close>

theorem request_deletes_hello_route:
  assumes "ext_ok E" and "rt_wf s" and "rt_table_find (rq_dest_addr rq) s = Some (Some p)"
    and "rt_heap s p = Some r" and "rt_channel r = -1"
  shows "\<exists>t. rreq_forward_route E rq s = Some (None, t)
    \<and> rt_table_find (rq_dest_addr rq) t = Some None \<and> rreq_intermediate E rq rev_rt None t = Some None
    \<and> (\<forall>d. d \<noteq> rq_dest_addr rq \<longrightarrow> rt_table_find d t = rt_table_find d s)"
proof -
  have ok: "table_ok E s" using assms by (simp add: table_ok_def)
  obtain t where t: "rt_table_delete E (Some p) s = Some t"
    using rt_table_delete_eq[OF assms(4)] by blast
  have "rt_dest_addr r = rq_dest_addr rq" using rs.find_sound[OF assms(2,3)] assms(4) by auto
  then show ?thesis using rtab.find_after_del[OF ok assms(4) t] assms(3-5) t
    by (auto simp: rreq_forward_route_def rreq_intermediate_def)
qed

theorem request_deletes_hello_route_witness:
  "\<exists>t. rreq_forward_route sample_ext (sample_request\<lparr>rq_dest_addr := 2\<rparr>) sample_routed = Some (None, t)
    \<and> rt_table_find 2 t = Some None"
proof -
  have "map_option rt_channel (rt_heap sample_routed 1) = Some (-1)" by code_simp
  then obtain r where r: "rt_heap sample_routed 1 = Some r" "rt_channel r = -1" by auto
  have "rt_table_find (rq_dest_addr (sample_request\<lparr>rq_dest_addr := 2\<rparr>)) sample_routed = Some (Some 1)"
    by code_simp
  from request_deletes_hello_route[OF sample_ext_ok sample_routed_wf this r, of None] show ?thesis by auto
qed

end
