(* ===== verification/Error_Claims.thy ===== *)
theory Error_Claims
  imports Agent_Frames Request_Claims Message_Claims
begin

text \<open>
  Properties of \<open>rerr_process\<close>: a route error is processed once, and without the flag for a
  local repair it breaks exactly routes over the neighbour that sent it.
\<close>

section \<open>Once\<close>

lemma rerr_process_noted:
  assumes "malloc_ok E" and "rerr_at (recv_buf s) = Some e"
  shows "okM (noted (re_rerr_origin_addr e) (re_rerr_id e) ip_src) (rerr_process E len ip_src s)"
proof -
  let ?N = "noted (re_rerr_origin_addr e) (re_rerr_id e) ip_src"
  have ins: "?N t" if "rerr_record_insert E (re_rerr_origin_addr e) (re_rerr_id e) ip_src s = Some t" for t
  proof -
    have "rerr_record_find (re_rerr_origin_addr e) (re_rerr_id e) ip_src t \<noteq> None"
      using rerr_buf.lookup_after_ins[OF assms(1), of "(re_rerr_origin_addr e, re_rerr_id e, ip_src)" s t] that
      by simp
    moreover have "recv_buf t = recv_buf s"
      using that by (auto simp: rerr_record_insert_def split: option.splits)
    ultimately show ?thesis using assms(2) by (simp add: noted_def)
  qed
  have loop: "notedR (re_rerr_origin_addr e) (re_rerr_id e) ip_src
      (for_each xs (rerr_udest E e ip_src) (False, 0, t))" if "?N t" for xs t
    by (rule okM_for_each) (use that noted_udest in auto)
  show ?thesis
  proof (cases "rerr_record_find (re_rerr_origin_addr e) (re_rerr_id e) ip_src s = None")
    case False
    then show ?thesis using assms(2) by (simp add: rerr_process_def noted_def)
  next
    case True
    have "okM ?N (rerr_record_insert E (re_rerr_origin_addr e) (re_rerr_id e) ip_src s \<bind> (\<lambda>t.
        if len < RERR_CALC_SIZE e then Some t
        else for_each [0..<unat (re_dest_count e)] (rerr_udest E e ip_src) (False, 0, t)
          \<bind> (\<lambda>(created, unicast, t). if created then rerr_transmit E unicast t else Some t)))"
      by (intro okM_bind_eq okM_if okM_bind[OF loop] okM_case_prod noted_transmit) (auto dest: ins)
    then show ?thesis using True assms(2) by (simp add: rerr_process_def)
  qed
qed

text \<open>C19: A RERR is processed once: after \<open>rerr_process\<close> every further RERR with the same originator and
  identifier that the same neighbour sends is ignored, whatever destinations it lists, until the
  record expires.\<close>

theorem error_processed_once:
  assumes "malloc_ok E" and "rerr_at (recv_buf s) = Some e" and "rerr_process E len ip_src s = Some t"
    and "rerr_at m = Some e'" and "re_rerr_origin_addr e' = re_rerr_origin_addr e"
    and "re_rerr_id e' = re_rerr_id e"
  shows "rerr_process E len' ip_src (t\<lparr>recv_buf := m\<rparr>) = Some (t\<lparr>recv_buf := m\<rparr>)"
proof -
  have "rerr_record_find (re_rerr_origin_addr e) (re_rerr_id e) ip_src t \<noteq> None"
    using okM_D[OF rerr_process_noted[OF assms(1,2)] assms(3)] by (simp add: noted_def)
  then show ?thesis using assms(4-6) by (auto simp: rerr_process_def rerr_record_find_def)
qed

definition sample_error :: aodv where
  "sample_error = sample_routed\<lparr>recv_buf := rerr_put (sample_rerr\<lparr>re_dest_addr := 7\<rparr>)
     (replicate AODV_MSG_MAX_SIZE 0)\<rparr>"

lemma sample_error_run:
  obtains t where "rerr_process sample_ext 24 2 sample_error = Some t"
proof -
  have "case rerr_process sample_ext 24 2 sample_error of None \<Rightarrow> False | Some _ \<Rightarrow> True" by code_simp
  then show ?thesis using that by (auto split: option.splits)
qed

lemma sample_error_at: "rerr_at (recv_buf sample_error) = Some (sample_rerr\<lparr>re_dest_addr := 7\<rparr>)"
  by (simp add: sample_error_def rerr_at_put)

theorem error_processed_once_witness:
  "\<exists>t. rerr_process sample_ext 24 2 sample_error = Some t
    \<and> rerr_process sample_ext 24 2 (t\<lparr>recv_buf := recv_buf sample_error\<rparr>)
      = Some (t\<lparr>recv_buf := recv_buf sample_error\<rparr>)"
proof -
  obtain t where t: "rerr_process sample_ext 24 2 sample_error = Some t" by (rule sample_error_run)
  show ?thesis
    using error_processed_once[OF sample_malloc_ok_ext sample_error_at t sample_error_at refl refl] t by blast
qed

section \<open>Only routes over the sender\<close>

text \<open>What may happen to the entries: those over the sender become invalid, unless the RERR forbids it.\<close>

definition broken :: "in_addr \<Rightarrow> bool \<Rightarrow> rt_table \<Rightarrow> rt_table \<Rightarrow> bool" where
  "broken ip n r r' \<longleftrightarrow> r' = r \<or> rt_state r = VALID \<and> rt_next_hop r = ip
     \<and> rt_next_hop r' = rt_next_hop r \<and> rt_dest_addr r' = rt_dest_addr r
     \<and> rt_state r' = (if n then VALID else INVALID)"

definition breaks :: "in_addr \<Rightarrow> bool \<Rightarrow> aodv \<Rightarrow> aodv \<Rightarrow> bool" where
  "breaks ip n s t \<longleftrightarrow> (\<forall>p. rt_heap s p = None \<longrightarrow> rt_heap t p = None)
     \<and> (\<forall>p r. rt_heap s p = Some r \<longrightarrow> (\<exists>r'. rt_heap t p = Some r' \<and> broken ip n r r'))"

lemma breaks_refl [simp]: "breaks ip n s s"
  by (simp add: breaks_def broken_def)

lemma broken_trans: "broken ip n r r' \<Longrightarrow> broken ip n r' r'' \<Longrightarrow> broken ip n r r''"
  unfolding broken_def by metis

lemma breaks_trans: "breaks ip n s t \<Longrightarrow> breaks ip n t u \<Longrightarrow> breaks ip n s u"
  unfolding breaks_def by (meson broken_trans)

text \<open>Everything but the entry at \<open>p\<close>, which \<open>P\<close> describes.\<close>

definition only_at :: "rtp \<Rightarrow> (rt_table \<Rightarrow> bool) \<Rightarrow> aodv \<Rightarrow> aodv \<Rightarrow> bool" where
  "only_at p P s t \<longleftrightarrow> (\<forall>q. q \<noteq> p \<longrightarrow> rt_heap t q = rt_heap s q) \<and> (\<exists>r. rt_heap t p = Some r \<and> P r)"

abbreviation same_heap :: "aodv \<Rightarrow> aodv \<Rightarrow> bool" where
  "same_heap t u \<equiv> rt_heap u = rt_heap t"

lemma breaks_okM: "okM (same_heap v) m \<Longrightarrow> breaks ip n s v \<Longrightarrow> okM (breaks ip n s) m"
  by (auto simp: okM_def breaks_def)

lemma same_heap_ops:
  "okM (same_heap t) (aodv_socket_send E m d n ttl dev t)" "okM (same_heap t) (in_send g t)"
  "okM (same_heap t) (in_recv g t)" "okM (same_heap t) (interfaceQueue E a IFQ_DROP_BY_DEST t)"
proof -
  show "okM (same_heap t) (aodv_socket_send E m d n ttl dev t)"
    unfolding okM_def using aodv_socket_send_sent sent_from_fields(2) by blast
qed (auto simp: okM_def in_send_def in_recv_def interfaceQueue_def split: option.splits)

lemma same_heap_create: "okM (same_heap t) (rerr_create fl d q t)"
  by (auto simp: rerr_create_def okM_def in_send_def aodv_socket_new_msg_def)

lemma same_heap_collect:
  assumes "rt_heap u = h"
  shows "okM (\<lambda>(c, a, u). rt_heap u = h) (rerr_collect fl (\<lambda>s. Some (x, y, s)) r (c, a, u))"
proof -
  have S: "okM (\<lambda>v. rt_heap v = h) (in_send g v)" if "rt_heap v = h" for g v
    using same_heap_ops(2)[of v g] that by (auto simp: okM_def)
  have C: "okM (\<lambda>v. rt_heap v = h) (rerr_create fl d q u)" for d q
    using same_heap_create[of u fl d q] assms by (auto simp: okM_def)
  show ?thesis unfolding rerr_collect_def prod.case bind.bind_lunit
    by (intro okM_if okM_bind[OF C] okM_bind[OF S] okM_reads) (use assms in auto)
qed

lemma only_at_heap: "only_at p P s t \<Longrightarrow> okM (same_heap t) m \<Longrightarrow> okM (only_at p P s) m"
  by (auto simp: okM_def only_at_def)

lemma only_at_mod: "only_at p P s t \<Longrightarrow> (\<And>r. P r \<Longrightarrow> P (f r)) \<Longrightarrow> okM (only_at p P s) (rt_mod p f t)"
  by (auto simp: okM_def only_at_def dest!: rt_mod_SomeD)

lemma invalidated_dest: "rt_dest_addr (invalidated E s r) = rt_dest_addr r"
  using invalidated_simps(1)[of E s r] by (simp add: rt_shape_def)

definition broken_from :: "bool \<Rightarrow> rt_table \<Rightarrow> rt_table \<Rightarrow> bool" where
  "broken_from n r r' \<longleftrightarrow> rt_next_hop r' = rt_next_hop r \<and> rt_dest_addr r' = rt_dest_addr r
    \<and> rt_state r' = (if n then VALID else INVALID)"

lemma only_at_breaks:
  assumes o: "only_at p (broken_from n r) s t" and r: "rt_heap s p = Some r" "rt_state r = VALID"
  shows "breaks (rt_next_hop r) n s t"
proof -
  obtain r1 where r1: "rt_heap t p = Some r1" "broken_from n r r1" using o by (auto simp: only_at_def)
  have "broken (rt_next_hop r) n r r1" using r(2) r1(2) by (simp add: broken_def broken_from_def)
  moreover have "rt_heap t q = rt_heap s q" if "q \<noteq> p" for q using o that by (simp add: only_at_def)
  moreover have "broken (rt_next_hop r) n r' r'" for r' by (simp add: broken_def)
  ultimately show ?thesis unfolding breaks_def using r(1) r1(1) by (metis option.inject option.distinct(1))
qed

lemma break_route_effect:
  assumes "\<not> re_lr e" and r: "rt_heap s p = Some r" "rt_state r = VALID"
  shows "okM (\<lambda>(c, u, t). only_at p (broken_from (re_n e) r) s t) (rerr_break_route E e q p (c, u, s))"
proof -
  let ?P = "broken_from (re_n e) r"
  have i: "okM (only_at p ?P s) (if \<not> re_n e then map_option snd (rt_table_invalidate E (Some p) t) else Some t)"
    if "rt_heap t = rt_heap s" for t
    using r that
    by (auto simp: okM_def only_at_def broken_from_def invalidated_dest elim!: rt_table_invalidate_cases)
  have d: "only_at p ?P s t \<Longrightarrow> okM (only_at p ?P s) (precursor_list_destroy (Some p) t)" for t
    unfolding precursor_list_destroy_def option.case by (rule only_at_mod) (simp_all add: broken_from_def)
  have c: "only_at p ?P s t \<Longrightarrow> okM (\<lambda>(c, u, t). only_at p ?P s t)
      (if b then rerr_collect fl (\<lambda>s. Some (x, y, s)) r' (c', u', t) else Some (c', u', t))" for t b fl x y r' c' u'
    using same_heap_collect[OF refl[of "rt_heap t"], of fl x y r' c' u'] by (auto simp: okM_def only_at_def)
  show ?thesis unfolding rerr_break_route_def prod.case
    by (intro okM_reads okM_bind[OF same_heap_ops(4)] okM_bind[OF i] okM_bind[of "only_at p ?P s"]
        okM_bind[OF only_at_mod] okM_bind[OF c] okM_case_prod okM_if d)
      (use assms in \<open>auto simp: broken_from_def\<close>)
qed

text \<open>One turn of the loop, and the whole.\<close>

lemma udest_breaks:
  assumes "\<not> re_lr e" and "breaks ip (re_n e) s t"
  shows "okM (\<lambda>(c, u, t). breaks ip (re_n e) s t) (rerr_udest E e ip i (c, u, t))"
proof -
  have b: "okM (\<lambda>(c, u, t). breaks ip (re_n e) s t) (case rt of None \<Rightarrow> Some (c, u, t) | Some p \<Rightarrow>
      rt_heap t p \<bind> (\<lambda>r. if rt_state r = VALID \<and> rt_next_hop r = ip
        then rerr_break_route E e q p (c, u, t) else Some (c, u, t)))" for rt q
  proof (intro okM_case_option okM_reads okM_if)
    fix p r assume r: "rt_heap t p = Some r" "rt_state r = VALID \<and> rt_next_hop r = ip"
    from break_route_effect[OF assms(1) r(1), of E q c u] r(2)
    show "okM (\<lambda>(c, u, t). breaks ip (re_n e) s t) (rerr_break_route E e q p (c, u, t))"
      using only_at_breaks[OF _ r(1)] breaks_trans[OF assms(2)] by (auto simp: okM_def)
  qed (use assms(2) in simp_all)
  have k: "okM (breaks ip (re_n e) s) (in_recv g v)" if "breaks ip (re_n e) s v" for g v
    by (rule breaks_okM[OF same_heap_ops(3) that])
  show ?thesis unfolding rerr_udest_def prod.case
    by (intro okM_reads okM_bind[OF b] okM_case_prod okM_bind[OF k]) auto
qed

lemma transmit_breaks: "breaks ip n s t \<Longrightarrow> okM (breaks ip n s) (rerr_transmit E u t)"
proof -
  have s: "okM (breaks ip n s) (aodv_socket_send E m d k ttl dev v)" if "breaks ip n s v" for m d k ttl dev v
    by (rule breaks_okM[OF same_heap_ops(1) that])
  show "breaks ip n s t \<Longrightarrow> okM (breaks ip n s) (rerr_transmit E u t)"
    unfolding rerr_transmit_def by (intro okM_reads okM_if s okM_for_each) simp_all
qed

lemma rerr_process_breaks:
  assumes "\<not> re_lr e" and "rerr_at (recv_buf s) = Some e"
  shows "okM (breaks ip (re_n e) s) (rerr_process E len ip s)"
proof -
  have i: "breaks ip (re_n e) s t" if "rerr_record_insert E a k l s = Some t" for a k l t
    using that by (auto simp: rerr_record_insert_def breaks_def broken_def split: option.splits)
  have loop: "okM (\<lambda>(c, u, t). breaks ip (re_n e) s t) (for_each xs (rerr_udest E e ip) (False, 0, t))"
    if "breaks ip (re_n e) s t" for xs t
    by (rule okM_for_each) (use that udest_breaks[OF assms(1)] in auto)
  show ?thesis unfolding rerr_process_def assms(2) bind.bind_lunit
    by (intro okM_bind_eq okM_if okM_bind[OF loop] okM_case_prod transmit_breaks) (auto dest: i)
qed

text \<open>C18: A RERR without the flag for a local repair breaks only routes over the neighbour that sent it:
  every other entry stays exactly as it is, and of a valid route over that neighbour the next hop
  and destination stay; if it changes at all, it is invalid afterwards, or still valid when the
  RERR forbids its removal.\<close>

theorem error_breaks_only_routes_over_sender:
  assumes "rerr_at (recv_buf s) = Some e" and "\<not> re_lr e" and "rerr_process E len ip_src s = Some t"
    and "rt_heap s p = Some r"
  shows "\<exists>r'. rt_heap t p = Some r' \<and> (r' = r \<or> rt_state r = VALID \<and> rt_next_hop r = ip_src
    \<and> rt_next_hop r' = rt_next_hop r \<and> rt_dest_addr r' = rt_dest_addr r
    \<and> rt_state r' = (if re_n e then VALID else INVALID))"
  using okM_D[OF rerr_process_breaks[OF assms(2,1)] assms(3)] assms(4)
  by (auto simp: breaks_def broken_def)

theorem error_breaks_only_routes_over_sender_witness:
  "\<exists>t. rerr_process sample_ext 24 5 sample_error = Some t \<and> rt_heap t 0 = rt_heap sample_error 0"
proof -
  have "case rerr_process sample_ext 24 5 sample_error of None \<Rightarrow> False | Some _ \<Rightarrow> True" by code_simp
  then obtain t where t: "rerr_process sample_ext 24 5 sample_error = Some t" by (auto split: option.splits)
  have "case rt_heap sample_error 0 of None \<Rightarrow> False | Some r \<Rightarrow> rt_next_hop r = 2" by code_simp
  then obtain r where r: "rt_heap sample_error 0 = Some r" "rt_next_hop r = 2"
    by (auto split: option.splits)
  have "\<not> re_lr (sample_rerr\<lparr>re_dest_addr := 7\<rparr>)" by (simp add: sample_rerr_def)
  from error_breaks_only_routes_over_sender[OF sample_error_at this t r(1)] show ?thesis using t r by auto
qed

end
