(* ===== verification/Transport_Claims.thy ===== *)
theory Transport_Claims
  imports Routing_Claims
begin

text \<open>
  Properties of the packet queue, of the rate limiting of control messages and of the message
  formats.
\<close>

section \<open>The packet queue\<close>


definition sample_data :: "packet list" where
  "sample_data = [sample_packet, sample_packet\<lparr>pk_daddr := 8\<rparr>, sample_packet\<lparr>pk_size := 5\<rparr>]"

definition sample_queued :: aodv where
  "sample_queued = (case for_each sample_data (pq_enq sample_ext) (packet_queue_init sample_ext sample_routed)
     of Some t \<Rightarrow> t | None \<Rightarrow> sample_routed)"

lemma sample_queued_run:
  "for_each sample_data (pq_enq sample_ext) (packet_queue_init sample_ext sample_routed) = Some sample_queued"
proof -
  have "case for_each sample_data (pq_enq sample_ext) (packet_queue_init sample_ext sample_routed)
      of None \<Rightarrow> False | Some t \<Rightarrow> True"
    by code_simp
  then show ?thesis by (auto simp: sample_queued_def split: option.splits)
qed


lemma set_verdict_drop:
  assumes "pq_ok s" and "rt_wf s"
  shows "\<exists>t. packet_queue_set_verdict E d PQ_DROP s
      = Some (int (length (filter (\<lambda>q. qp_dest_addr q = d) (pq_head (PQ s)))), t)
    \<and> pq_ok t \<and> pq_head (PQ t) = filter (\<lambda>q. qp_dest_addr q \<noteq> d) (pq_head (PQ s))
    \<and> out t = rev (map (\<lambda>q. Drop (qp_p q) DROP_RTR_NO_ROUTE)
        (filter (\<lambda>q. qp_dest_addr q = d) (pq_head (PQ s)))) @ out s"
proof -
  obtain rt where rt: "rt_table_find d s = Some rt" using rs.find_total[OF assms(2)] by blast
  obtain t where t: "verdict_loop E d PQ_DROP rt (pq_head (PQ s)) [] 0 0 s =
     Some (Inr (0 + int (length (filter (for_dest d) (pq_head (PQ s)))), t))"
    "pq_head (PQ t) = [] @ filter (\<lambda>q. \<not> for_dest d q) (pq_head (PQ s))"
    "pq_len (PQ t) = pq_len (PQ s) - of_nat (length (filter (for_dest d) (pq_head (PQ s))))"
    "out t = rev (map (\<lambda>q. Drop (qp_p q) DROP_RTR_NO_ROUTE) (filter (for_dest d) (pq_head (PQ s)))) @ out s"
    "rt_heap t = rt_heap s"
    using verdict_loop_drop[of E d rt "pq_head (PQ s)" "[]" 0 0 s] by blast
  have heap: "rt = Some p \<Longrightarrow> \<exists>r. rt_heap t p = Some r" for p
    using rs.find_sound[OF assms(2), of d p] rt t(5) by auto
  have ok: "pq_ok t"
    using assms(1) t(2,3) of_nat_partition[of "pq_head (PQ s)" "for_dest d"]
      filter_partition_length[of "for_dest d" "pq_head (PQ s)"] by (simp add: pq_ok_def)
  have "verdict_update_timeouts E d PQ_DROP rt None t = Some t"
    using heap by (cases rt) (auto simp: verdict_update_timeouts_def)
  then show ?thesis using rt t ok by (simp add: packet_queue_set_verdict_def)
qed

text \<open>A drop verdict removes exactly the packets for the destination, in queue order, hands
  each to the simulator as undeliverable, keeps the others in order, keeps the length field
  exact and returns the number dropped.\<close>

theorem verdict_drop:
  assumes "pq_ok s" and "rt_wf s"
  shows "\<exists>t. packet_queue_set_verdict E d PQ_DROP s
      = Some (int (length (filter (\<lambda>q. qp_dest_addr q = d) (pq_head (PQ s)))), t)
    \<and> pq_ok t \<and> pq_head (PQ t) = filter (\<lambda>q. qp_dest_addr q \<noteq> d) (pq_head (PQ s))
    \<and> out t = rev (map (\<lambda>q. Drop (qp_p q) DROP_RTR_NO_ROUTE)
        (filter (\<lambda>q. qp_dest_addr q = d) (pq_head (PQ s)))) @ out s"
  by (rule set_verdict_drop[OF assms])

lemma sample_queued_ok: "pq_ok sample_queued"
  using pq.enq_all[OF packet_queue_init_ok sample_queued_run] by blast

theorem verdict_drop_witness:
  "\<exists>n t. packet_queue_set_verdict sample_ext 7 PQ_DROP (packet_queue_init sample_ext sample_node) = Some (n, t)
    \<and> pq_head (PQ t) = []"
proof -
  have "rt_wf (packet_queue_init sample_ext sample_node)"
    using sample_node_wf by (simp add: rt_wf_def packet_queue_init_def)
  then show ?thesis
    using verdict_drop[OF packet_queue_init_ok, of sample_ext sample_node sample_ext 7]
    by (auto simp: packet_queue_init_def)
qed

text \<open>A send verdict with a route takes exactly the packets for the destination off the
  queue, keeps the others in order and the length field exact, and hands the packets in
  queue order to \<open>sendPacket\<close> towards the route's next hop, the first without delay and
  each further one \<open>ARP_DELAY\<close> later than the one before.\<close>

theorem verdict_send:
  assumes "pq_ok s" and "rt_wf s" and "rt_heap s p = Some r" and "rt_dest_addr r = d"
    and "packet_queue_set_verdict E d PQ_SEND s = Some (n, t)"
  shows "n = int (length (filter (\<lambda>q. qp_dest_addr q = d) (pq_head (PQ s))))
    \<and> pq_ok t \<and> pq_head (PQ t) = filter (\<lambda>q. qp_dest_addr q \<noteq> d) (pq_head (PQ s))
    \<and> (\<exists>u. send_burst E (rt_next_hop r) (filter (\<lambda>q. qp_dest_addr q = d) (pq_head (PQ s))) 0 s = Some u
         \<and> out t = out u)"
proof -
  have find: "rt_table_find d s = Some (Some p)" using rs.find_iff[OF assms(2)] assms(3,4) by blast
  let ?mine = "filter (for_dest d) (pq_head (PQ s))"
  let ?rest = "filter (\<lambda>q. \<not> for_dest d q) (pq_head (PQ s))"
  obtain u v where u: "send_burst E (rt_next_hop r) ?mine 0 s = Some u"
    and v: "v = pq_set ?rest (pq_len (PQ s) - of_nat (length ?mine)) u"
    and n: "n = int (length ?mine)" and ut: "verdict_update_timeouts E d PQ_SEND (Some p) None v = Some t"
    using assms(5) verdict_loop_send[OF assms(3), of E d "pq_head (PQ s)" "[]" 0 0]
    by (auto simp: packet_queue_set_verdict_def find)
  have "PQ t = PQ v" "out t = out v" using verdict_update_timeouts_pq[OF ut] by auto
  moreover have "pq_ok v"
    using assms(1) of_nat_partition[of "pq_head (PQ s)" "for_dest d"]
      filter_partition_length[of "for_dest d" "pq_head (PQ s)"] by (simp add: v pq_ok_def)
  ultimately show ?thesis using u n v by (simp add: pq_ok_def)
qed

lemma sample_queued_wf: "rt_wf sample_queued" "rt_heap sample_queued = rt_heap sample_routed"
proof -
  let ?P = "\<lambda>s. rt_heap s = rt_heap sample_routed \<and> rt_tbl s = rt_tbl sample_routed"
  have "?P sample_queued"
  proof (rule for_each_inv[OF sample_queued_run])
    fix x s t assume "pq_enq sample_ext x s = Some t" and "?P s"
    then show "?P t"
      by (auto simp: pq_enq_def packet_queue_add_def Let_def pq_make_room_def split: if_splits list.splits)
  qed (simp add: packet_queue_init_def)
  then show "rt_wf sample_queued" "rt_heap sample_queued = rt_heap sample_routed"
    using sample_routed_wf by (simp_all add: rt_wf_def)
qed

theorem verdict_send_witness:
  "\<exists>n t. packet_queue_set_verdict sample_ext 7 PQ_SEND sample_queued = Some (n, t) \<and> pq_ok t"
proof -
  have "case rt_heap sample_routed 0 of None \<Rightarrow> False | Some r \<Rightarrow> rt_dest_addr r = 7" by code_simp
  then obtain r where r: "rt_heap sample_queued 0 = Some r" "rt_dest_addr r = 7"
    by (auto simp: sample_queued_wf split: option.splits)
  have "case packet_queue_set_verdict sample_ext 7 PQ_SEND sample_queued of None \<Rightarrow> False | Some _ \<Rightarrow> True"
    by code_simp
  then obtain n t where t: "packet_queue_set_verdict sample_ext 7 PQ_SEND sample_queued = Some (n, t)"
    by (auto split: option.splits)
  show ?thesis using verdict_send[OF sample_queued_ok sample_queued_wf(1) r t] t by blast
qed

text \<open>A send verdict without a route loses the first packet for the destination: it leaves
  the queue, is neither sent nor dropped, and the length field still counts it.\<close>

theorem verdict_send_no_route_leaks:
  assumes "rt_wf s" and "\<And>p r. rt_heap s p = Some r \<Longrightarrow> rt_dest_addr r \<noteq> d"
    and "pq_head (PQ s) = before @ q # after" and "qp_dest_addr q = d"
    and "\<And>k. k \<in> set before \<Longrightarrow> qp_dest_addr k \<noteq> d"
  shows "\<exists>t. packet_queue_set_verdict E d PQ_SEND s = Some (-1, t) \<and> out t = out s
    \<and> pq_head (PQ t) = before @ after \<and> pq_len (PQ t) = pq_len (PQ s)"
proof -
  have find: "rt_table_find d s = Some None" using rs.find_none_iff[OF assms(1)] assms(2) by blast
  have "verdict_loop E d PQ_SEND None (before @ q # after) kept delay n s =
      Some (Inl (pq_set (kept @ before @ after) (pq_len (PQ s)) s))" for kept delay n
    using assms(5) by (induction before arbitrary: kept) (auto simp: assms(4))
  from this[of "[]" 0 0] show ?thesis by (simp add: packet_queue_set_verdict_def find assms(3))
qed

theorem verdict_send_no_route_leaks_witness:
  "\<exists>t. packet_queue_set_verdict sample_ext 8 PQ_SEND sample_queued = Some (-1, t)
    \<and> length (pq_head (PQ t)) = 2 \<and> pq_len (PQ t) = 3"
proof -
  have "pq_contents sample_queued = sample_data \<and> map qp_dest_addr (pq_head (PQ sample_queued)) = [7, 8, 7]
      \<and> pq_len (PQ sample_queued) = 3"
    by code_simp
  then obtain a b c where q: "pq_head (PQ sample_queued) = [a] @ b # [c]" "qp_dest_addr b = 8"
    "qp_dest_addr a = 7" "pq_len (PQ sample_queued) = 3"
    by (auto simp: Cons_eq_map_conv map_eq_Cons_conv)
  have "rt_table_find 8 sample_routed = Some None" by code_simp
  then have nr: "rt_dest_addr r \<noteq> 8" if "rt_heap sample_queued p = Some r" for p r
    using that rs.find_none_iff[OF sample_routed_wf] by (auto simp: sample_queued_wf)
  have "\<exists>t. packet_queue_set_verdict sample_ext 8 PQ_SEND sample_queued = Some (-1, t)
      \<and> out t = out sample_queued \<and> pq_head (PQ t) = [a] @ [c] \<and> pq_len (PQ t) = pq_len (PQ sample_queued)"
    by (rule verdict_send_no_route_leaks[OF sample_queued_wf(1) nr q(1,2)]) (use q(3) in auto)
  then show ?thesis using q(4) by auto
qed

text \<open>Garbage collection drops exactly the packets that have waited more than ten seconds,
  in queue order, keeps the others in order and the length field exact, and returns how many
  it dropped.\<close>

theorem garbage_collection:
  assumes "pq_ok s" and "packet_queue_garbage_collect E s = (n, t)"
  shows "let old = filter (\<lambda>q. x_timeval_diff E (now s) (qp_q_time q) > MAX_QUEUE_TIME) (pq_head (PQ s)) in
    n = int (length old) \<and> pq_ok t
    \<and> pq_head (PQ t) = filter (\<lambda>q. x_timeval_diff E (now s) (qp_q_time q) \<le> MAX_QUEUE_TIME) (pq_head (PQ s))
    \<and> out t = rev (map (\<lambda>q. Drop (qp_p q) DROP_RTR_QTIMEOUT) old) @ out s"
  using assms of_nat_partition[of "pq_head (PQ s)" "too_old E (now s)"]
    filter_partition_length[of "too_old E (now s)" "pq_head (PQ s)"]
  by (auto simp: packet_queue_garbage_collect_def gc_loop_eq pq_ok_def not_less)

theorem garbage_collection_witness:
  "fst (packet_queue_garbage_collect sample_ext sample_queued) = 0"
proof -
  obtain n t where e: "packet_queue_garbage_collect sample_ext sample_queued = (n, t)" by fastforce
  have "filter (\<lambda>q. x_timeval_diff sample_ext (now sample_queued) (qp_q_time q) > MAX_QUEUE_TIME)
      (pq_head (PQ sample_queued)) = []"
    by code_simp
  then show ?thesis using garbage_collection[OF sample_queued_ok e] e by simp
qed

section \<open>Rate limiting\<close>

text \<open>The times that the block of \<open>aodv_socket_send\<close> admits, of those offered one after the other.\<close>

fun rreq_admitted :: "ext \<Rightarrow> timeval list \<Rightarrow> int \<Rightarrow> timeval list \<Rightarrow> timeval list" where
  "rreq_admitted E [] num ratel = []"
| "rreq_admitted E (t # ts) num ratel = (case ratelimit_check E RREQ_RATELIMIT t num ratel of
     Some (Some (num', ratel')) \<Rightarrow> t # rreq_admitted E ts num' ratel'
   | _ \<Rightarrow> rreq_admitted E ts num ratel)"

lemma rreq_admitted_eq: "rreq_admitted E ts num ratel = rreq_limit.admitted E ts (num, ratel)"
  by (induction ts arbitrary: num ratel) (simp_all split: option.splits del: RREQ_RATELIMIT_def)

text \<open>For any sequence of send times offered to the RREQ limiter of a fresh agent, of the
  times it admits any two that are nine admissions apart differ by at least 1000 ms: never
  more than nine RREQs pass in a second.\<close>

theorem rreq_rate:
  assumes "i + 9 < length (rreq_admitted E ts 0 (replicate 9 z))"
  shows "1000 \<le> x_timeval_diff E (rreq_admitted E ts 0 (replicate 9 z) ! (i + 9))
    (rreq_admitted E ts 0 (replicate 9 z) ! i)"
  using rreq_limit.admitted_spaced[of "(0, replicate 9 z)" i E ts] assms
  unfolding rreq_admitted_eq by (simp add: rl_ok_def rl_window_def)

theorem rreq_rate_witness:
  "let ad = rreq_admitted sample_ext (map sample_time [1000, 1001, 1002, 1003, 1004, 1005, 1006,
      1007, 1008, 1009, 1500, 2000, 2100]) 0 (replicate 9 zero_time) in
    length ad = 11 \<and> 1000 \<le> x_timeval_diff sample_ext (ad ! 9) (ad ! 0)"
proof -
  let ?ad = "rreq_admitted sample_ext (map sample_time [1000, 1001, 1002, 1003, 1004, 1005, 1006,
      1007, 1008, 1009, 1500, 2000, 2100]) 0 (replicate 9 zero_time)"
  have l: "length ?ad = 11" by code_simp
  have "0 + 9 < length ?ad" unfolding l by simp
  from rreq_rate[OF this] have "1000 \<le> x_timeval_diff sample_ext (?ad ! 9) (?ad ! 0)"
    by (simp only: add_0)
  then show ?thesis using l unfolding Let_def by blast
qed

section \<open>Message formats\<close>



end
