(* ===== verification/Discovery_Claims.thy ===== *)
theory Discovery_Claims
  imports Agent_Frames Transport_Claims
begin

text \<open>
  The life of a route discovery: it starts once, keeps the packets that wait for it, is retried
  a bounded number of times and ends by dropping them. The list of sought destinations is
  outside the repository; \<open>seek_ok\<close> states what the agent relies on.
\<close>

section \<open>The list of sought destinations\<close>

definition seek_ok :: "ext \<Rightarrow> bool" where
  "seek_ok E \<longleftrightarrow> (\<forall>a l. x_seek_list_find E a l = None \<longleftrightarrow> a \<notin> sk_dest_addr ` set l)
     \<and> (\<forall>a q ttl fl l p l'. x_seek_list_insert E a q ttl fl l = (p, l') \<longrightarrow>
          p \<notin> sk_ptr ` set l \<and> (\<exists>e. set l' = insert e (set l) \<and> sk_ptr e = p \<and> sk_dest_addr e = a
            \<and> sk_ttl e = ttl \<and> sk_reqs e = 0))
     \<and> (\<forall>p l. snd (x_seek_list_remove E (Some p) l) = filter (\<lambda>e. sk_ptr e \<noteq> p) l)"

lemma seek_okD:
  assumes "seek_ok E"
  shows "x_seek_list_find E a l = None \<longleftrightarrow> a \<notin> sk_dest_addr ` set l"
    "x_seek_list_insert E a q ttl fl l = (p, l') \<Longrightarrow> p \<notin> sk_ptr ` set l \<and>
      (\<exists>e. set l' = insert e (set l) \<and> sk_ptr e = p \<and> sk_dest_addr e = a \<and> sk_ttl e = ttl \<and> sk_reqs e = 0)"
    "snd (x_seek_list_remove E (Some p) l) = filter (\<lambda>e. sk_ptr e \<noteq> p) l"
  using assms unfolding seek_ok_def by blast+

lemma fresh_seek_less: "e \<in> set l \<Longrightarrow> sk_ptr e < fresh_seek l"
  by (induction l) auto

lemma sample_seek_ok: "seek_ok sample_ext"
  unfolding seek_ok_def
proof (intro conjI allI impI)
  fix a l
  show "x_seek_list_find sample_ext a l = None \<longleftrightarrow> a \<notin> sk_dest_addr ` set l"
    by (auto simp: sample_ext_def sample_base_def find_None_iff)
next
  fix a q ttl fl l p l'
  assume "x_seek_list_insert sample_ext a q ttl fl l = (p, l')"
  then have i: "p = fresh_seek l" "l' = \<lparr>sk_ptr = p, sk_dest_addr = a, sk_dest_seqno = q, sk_flags = fl,
      sk_reqs = 0, sk_ttl = ttl, sk_seek_timer = zero_timer\<rparr> # l"
    by (auto simp: sample_ext_def sample_base_def Let_def)
  show "p \<notin> sk_ptr ` set l" using fresh_seek_less i(1) by fastforce
  show "\<exists>e. set l' = insert e (set l) \<and> sk_ptr e = p \<and> sk_dest_addr e = a \<and> sk_ttl e = ttl \<and> sk_reqs e = 0"
    using i(2) by (intro exI[of _ "hd l'"]) simp
next
  fix p l
  show "snd (x_seek_list_remove sample_ext (Some p) l) = filter (\<lambda>e. sk_ptr e \<noteq> p) l"
    by (simp add: sample_ext_def sample_base_def)
qed

section \<open>What leaves the list alone\<close>

abbreviation seekM :: "seek_list_t list \<Rightarrow> aodv option \<Rightarrow> bool" where
  "seekM l \<equiv> okM (\<lambda>t. seekhead t = l)"

lemma seek_send: "seekhead s = l \<Longrightarrow> seekM l (aodv_socket_send E m d n ttl dev s)"
  using aodv_socket_send_sent[of E m d n ttl dev s] by (auto simp: okM_def sent_from_fields(8))

lemma seek_in_send: "seekhead s = l \<Longrightarrow> seekM l (in_send f s)"
  by (auto simp: okM_def in_send_def)

lemma seek_creates:
  assumes "seekhead s = l"
  shows "seekM l (rreq_create_with_cost fl d q a c s)" "seekM l (rerr_create fl' d q s)"
  unfolding rreq_create_with_cost_def rerr_create_def Let_def
  by (intro okM_bind[OF seek_in_send] seek_in_send; simp add: assms aodv_socket_new_msg_def)+

lemma seek_rreq_send: "seekhead s = l \<Longrightarrow> seekM l (rreq_send_with_channel E d q ttl fl c s)"
  unfolding rreq_send_with_channel_def rreq_send_on_def
  by (intro okM_for_each okM_bind[OF seek_creates(1)] seek_send) simp_all

lemma seek_all_channels: "seekhead s = l \<Longrightarrow> seekM l (on_all_channels (rreq_send_with_channel E d q ttl fl) s)"
  unfolding on_all_channels_def by (intro okM_for_each seek_rreq_send)

lemma seek_rt_mod: "seekhead s = l \<Longrightarrow> seekM l (rt_mod p f s)"
  by (auto simp: okM_def rt_mod_def split: option.splits)

lemma seek_update_timeout: "seekhead s = l \<Longrightarrow> seekM l (rt_table_update_timeout E rt n s)"
  unfolding rt_table_update_timeout_def Let_def
  by (intro okM_case_option okM_reads okM_if seek_rt_mod) simp_all

lemma seek_keep_route: "seekhead s = l \<Longrightarrow> seekM l (keep_route E p s)"
  unfolding keep_route_def by (intro okM_reads okM_if seek_update_timeout) simp_all

lemma seek_repair_timeout: "seekhead s = l \<Longrightarrow> seekM l (local_repair_timeout E rt s)"
  unfolding local_repair_timeout_def precursor_list_destroy_def option.case
  by (intro okM_case_option okM_bind[OF seek_rt_mod] okM_reads okM_bind[OF seek_creates(2)] okM_if
        okM_bind[of "\<lambda>t. seekhead t = l"] seek_send okM_for_each seek_rt_mod) auto

section \<open>Discovery starts once\<close>

lemma discovery_sought:
  assumes "seek_ok E" and "rreq_route_discovery E d fl s = Some t"
  shows "d \<in> sk_dest_addr ` set (seekhead t)"
proof (cases "x_seek_list_find E d (seekhead s) = None")
  case False
  then show ?thesis using assms seek_okD(1)[OF assms(1)] by (auto simp: rreq_route_discovery_def)
next
  case True
  then obtain q m u where u: "start_seeking E d q 32 fl m u = Some t"
    using assms(2) by (auto simp: rreq_route_discovery_def Let_def split: prod.splits)
  obtain p l where i: "x_seek_list_insert E d q 32 fl (seekhead u) = (p, l)" by fastforce
  from seek_okD(2)[OF assms(1) i] obtain e where
    e: "e \<in> set l" "sk_ptr e = p" "sk_dest_addr e = d" by blast
  have "seekhead t = map (\<lambda>e. if sk_ptr e = p
      then e\<lparr>sk_seek_timer := x_timer_set_timeout E (now u) m (sk_seek_timer e)\<rparr> else e) l"
    using u i by (auto simp: start_seeking_def seek_mod_def split: if_splits)
  then have "map sk_dest_addr (seekhead t) = map sk_dest_addr l" by simp
  then have "sk_dest_addr ` set (seekhead t) = sk_dest_addr ` set l" by (metis list.set_map)
  then show ?thesis using e by blast
qed

text \<open>A route discovery is started once: after \<open>rreq_route_discovery\<close> the destination is sought, and
  while it is every further call for it changes nothing, whatever its flags.\<close>

theorem discovery_starts_once:
  assumes "seek_ok E" and "rreq_route_discovery E d fl s = Some t"
  shows "x_seek_list_find E d (seekhead t) \<noteq> None \<and> rreq_route_discovery E d fl' t = Some t"
  using discovery_sought[OF assms] seek_okD(1)[OF assms(1), of d "seekhead t"]
  by (auto simp: rreq_route_discovery_def)

text \<open>A node whose interface is switched off, so that a discovery sends nothing.\<close>

definition sample_quiet :: aodv where
  "sample_quiet = sample_node\<lparr>this_host := sample_host\<lparr>hi_devs := [sample_dev\<lparr>dv_enabled := False\<rparr>]\<rparr>\<rparr>"

theorem discovery_starts_once_witness:
  "\<exists>t. rreq_route_discovery sample_ext 9 0 sample_quiet = Some t
    \<and> rreq_route_discovery sample_ext 9 RREQ_GRATUITOUS t = Some t"
proof -
  have "case rreq_route_discovery sample_ext 9 0 sample_quiet of None \<Rightarrow> False | Some _ \<Rightarrow> True" by code_simp
  then obtain t where t: "rreq_route_discovery sample_ext 9 0 sample_quiet = Some t"
    by (auto split: option.splits)
  then show ?thesis using discovery_starts_once[OF sample_seek_ok t] by blast
qed

text \<open>C11: A data packet of this node without a route is not lost: \<open>processPacket\<close> puts it at the end of
  the packet queue and its destination is sought when it returns.\<close>

theorem packet_waits_for_route:
  assumes "seek_ok E" and "pq_ok s" and "rt_table_find (pk_daddr p) s = Some None"
    and "pk_direction p = DOWN" and "pk_daddr p \<noteq> x_IP_BROADCAST E"
    and "DEV_IFINDEX NS_IFINDEX s = Some dev" and "pk_daddr p \<noteq> dv_broadcast dev"
    and "pk_daddr p \<noteq> dv_ipaddr dev" and "processPacket E p s = Some t"
  shows "pq_contents t = (if length (pq_contents s) = MAX_QUEUE_LENGTH then tl (pq_contents s)
      else pq_contents s) @ [p]
    \<and> x_seek_list_find E (pk_daddr p) (seekhead t) \<noteq> None"
proof -
  obtain rev u where u: "rt_table_update_route_timeouts E None rev s = Some u"
    "buffer_and_discover E p None False u = Some t"
    using assms(3-9) by (auto simp: processPacket_def route_usable_def Let_def)
  have pq: "PQ u = PQ s"
    using u(1) by (auto simp: rt_table_update_route_timeouts_def refresh_route_def
        split: option.splits if_splits dest!: rt_table_update_timeout_pq)
  then have ok: "pq_ok u" using assms(2) by (simp add: pq_ok_def)
  obtain fl v where v: "packet_queue_add E p (pk_daddr p) u = Some v"
    "rreq_route_discovery E (pk_daddr p) fl v = Some t"
    using u(2) by (auto simp: buffer_and_discover_def)
  have "frame v t" using okM_D[OF rreq_route_discovery_frame[OF frame_refl] v(2)] .
  then have c: "pq_contents t = (if length (pq_contents s) = MAX_QUEUE_LENGTH then tl (pq_contents s)
      else pq_contents s) @ [p]"
    using packet_queue_add_spec(2)[OF ok v(1)] frame_fields(1) pq
    by (simp add: pq_contents_def map_tl)
  have "x_seek_list_find E (pk_daddr p) (seekhead t) \<noteq> None"
    using discovery_sought[OF assms(1) v(2)] seek_okD(1)[OF assms(1)] by blast
  then show ?thesis using c by blast
qed

definition sample_traffic :: packet where
  "sample_traffic = sample_packet\<lparr>pk_daddr := 9\<rparr>"

lemma sample_quiet_ok: "pq_ok sample_quiet" "rt_wf sample_quiet"
  using sample_node_ok sample_node_wf by (simp_all add: sample_quiet_def agent_ok_def pq_ok_def rt_wf_def)

theorem packet_waits_for_route_witness:
  "\<exists>t. processPacket sample_ext sample_traffic sample_quiet = Some t \<and> sample_traffic \<in> set (pq_contents t)
    \<and> x_seek_list_find sample_ext 9 (seekhead t) \<noteq> None"
proof -
  have "case DEV_IFINDEX NS_IFINDEX sample_quiet of None \<Rightarrow> False
      | Some dev \<Rightarrow> dv_broadcast dev = 0xFFFFFFFF \<and> dv_ipaddr dev = 1" by code_simp
  then obtain dev where dev: "DEV_IFINDEX NS_IFINDEX sample_quiet = Some dev"
      "dv_broadcast dev = 0xFFFFFFFF" "dv_ipaddr dev = 1"
    by (auto split: option.splits)
  have "case processPacket sample_ext sample_traffic sample_quiet of None \<Rightarrow> False | Some _ \<Rightarrow> True" by code_simp
  then obtain t where t: "processPacket sample_ext sample_traffic sample_quiet = Some t"
    by (auto split: option.splits)
  have "rt_table_find (pk_daddr sample_traffic) sample_quiet = Some None" by code_simp
  moreover have "pk_direction sample_traffic = DOWN" "pk_daddr sample_traffic = 9" "x_IP_BROADCAST sample_ext = 0xFFFFFFFF"
    by (simp_all add: sample_traffic_def sample_packet_def sample_ext_def sample_base_def)
  ultimately show ?thesis
    using packet_waits_for_route[OF sample_seek_ok sample_quiet_ok(1) _ _ _ dev(1) _ _ t] dev t by simp
qed

section \<open>Discovery ends\<close>

text \<open>
  The timeouts an entry has left: each of them uses up a retry or raises the TTL towards
  \<open>TTL_THRESHOLD\<close>, and the last one gives up.
\<close>

definition timeouts_left :: "seek_list_t \<Rightarrow> nat" where
  "timeouts_left e = nat (TTL_THRESHOLD - sk_ttl e) + nat (RREQ_RETRIES - sk_reqs e)"

lemma seek_again_left:
  assumes "sk_reqs e < RREQ_RETRIES"
  shows "timeouts_left (seek_again E s e) < timeouts_left e" "sk_ptr (seek_again E s e) = sk_ptr e"
    "sk_dest_addr (seek_again E s e) = sk_dest_addr e"
  using assms by (auto simp: timeouts_left_def seek_again_def Let_def)

lemma seek_find_mod:
  assumes "seek_find p s = Some e" and "seek_mod p f s = Some t" and "sk_ptr (f e) = sk_ptr e"
  shows "seek_find p t = Some (f e)"
proof -
  have t: "seekhead t = map (\<lambda>e. if sk_ptr e = p then f e else e) (seekhead s)"
    using assms(2) by (auto simp: seek_mod_def split: if_splits)
  have "find (\<lambda>e. sk_ptr e = p) (map (\<lambda>e. if sk_ptr e = p then f e else e) l) = Some (f e)"
    if "find (\<lambda>e. sk_ptr e = p) l = Some e" for l
    using that assms(3) by (induction l) (auto split: if_splits)
  then show ?thesis using assms(1) t by (simp add: seek_find_def)
qed

lemma seek_retry_effect:
  assumes "seek_find p s = Some e" and "sk_reqs e < RREQ_RETRIES" and "seek_retry E p s = Some t"
  shows "seek_find p t = Some (seek_again E s e)"
proof -
  obtain u where u: "seek_mod p (seek_again E s) s = Some u" using assms(3) by (auto simp: seek_retry_def)
  have f: "seek_find p u = Some (seek_again E s e)"
    by (rule seek_find_mod[OF assms(1) u seek_again_left(2)[OF assms(2)]])
  have k: "seekM (seekhead u) (case rt of None \<Rightarrow> Some u | Some r \<Rightarrow> keep_route E r u)" for rt
    by (intro okM_case_option seek_keep_route) simp_all
  have "seekM (seekhead u) (rt_table_find d u \<bind> (\<lambda>rt.
      (case rt of None \<Rightarrow> Some u | Some r \<Rightarrow> keep_route E r u) \<bind>
      on_all_channels (rreq_send_with_channel E d q ttl fl)))" for d q ttl fl
    by (intro okM_reads okM_bind[OF k] seek_all_channels)
  then have "seekhead t = seekhead u"
    using assms(3) u f by (auto simp: seek_retry_def okM_def)
  then show ?thesis using f by (simp add: seek_find_def)
qed

lemma seek_give_up_effect:
  assumes "seek_ok E" and "seek_give_up E p d s = Some t"
  shows "seek_find p t = None"
proof -
  obtain u where t: "(let s = u\<lparr>seekhead := snd (x_seek_list_remove E (Some p) (seekhead u))\<rparr>
      in rt_table_find d u \<bind> (\<lambda>rt. case rt of None \<Rightarrow> Some s | Some q \<Rightarrow> rt_heap s q \<bind> (\<lambda>r.
        if has_flag (rt_flags r) RT_REPAIR then local_repair_timeout E (Some q) s else Some s))) = Some t"
    using assms(2) by (auto simp: seek_give_up_def Let_def)
  let ?v = "u\<lparr>seekhead := snd (x_seek_list_remove E (Some p) (seekhead u))\<rparr>"
  have "seekM (seekhead ?v) (rt_table_find d u \<bind> (\<lambda>rt. case rt of None \<Rightarrow> Some ?v
      | Some q \<Rightarrow> rt_heap ?v q \<bind> (\<lambda>r.
        if has_flag (rt_flags r) RT_REPAIR then local_repair_timeout E (Some q) ?v else Some ?v)))"
    by (intro okM_reads okM_case_option okM_if seek_repair_timeout) simp_all
  then have "seekhead t = seekhead ?v" using t by (auto simp: okM_def Let_def)
  then show ?thesis using seek_okD(3)[OF assms(1)] by (simp add: seek_find_def find_None_iff)
qed

text \<open>
  A run of the agent as far as one entry is concerned: its timer fires, or anything else
  happens that leaves the entry alone. The number counts the timeouts.
\<close>

inductive seek_run :: "ext \<Rightarrow> nat \<Rightarrow> nat \<Rightarrow> aodv \<Rightarrow> aodv \<Rightarrow> bool" for E p where
  seek_start: "seek_run E p 0 s s"
| seek_fires: "seek_run E p n s t \<Longrightarrow> route_discovery_timeout E (Some p) t = Some u \<Longrightarrow> seek_run E p (Suc n) s u"
| seek_other: "seek_run E p n s t \<Longrightarrow> seek_find p u = seek_find p t \<Longrightarrow> seek_run E p n s u"

lemma seek_run_left:
  assumes "seek_ok E" and "seek_run E p n s t" and "seek_find p s = Some e"
  shows "(\<exists>e'. seek_find p t = Some e' \<and> n + timeouts_left e' \<le> timeouts_left e)
    \<or> seek_find p t = None \<and> n \<le> timeouts_left e + 1"
  using assms(2,3)
proof (induction rule: seek_run.induct)
  case (seek_fires n s t u)
  then obtain e' where e': "seek_find p t = Some e'"
    by (auto simp: route_discovery_timeout_def)
  then have le: "n + timeouts_left e' \<le> timeouts_left e" using seek_fires.IH[OF seek_fires.prems] by auto
  show ?case
  proof (cases "sk_reqs e' < RREQ_RETRIES")
    case True
    then have "seek_retry E p t = Some u" using seek_fires.hyps(2) e' by (simp add: route_discovery_timeout_def)
    from seek_retry_effect[OF e' True this] seek_again_left(1)[OF True, of E t] le show ?thesis by auto
  next
    case False
    then have "seek_give_up E p (sk_dest_addr e') t = Some u"
      using seek_fires.hyps(2) e' by (simp add: route_discovery_timeout_def)
    from seek_give_up_effect[OF assms(1) this] le show ?thesis by auto
  qed
qed auto

text \<open>C12: Every route discovery ends: however its timeouts are interleaved with other activity, an entry of
  the seek list sees at most as many timeouts as it has TTL steps and retries left and one more,
  and when it sees that one it is gone; an entry just made by \<open>rreq_route_discovery\<close> with TTL 32 is
  retried twice.\<close>

theorem discovery_ends:
  assumes "seek_ok E" and "seek_run E p n s t" and "seek_find p s = Some e"
  shows "n \<le> timeouts_left e + 1 \<and> (n = timeouts_left e + 1 \<longrightarrow> seek_find p t = None)
    \<and> (sk_ttl e = 32 \<and> sk_reqs e = 0 \<longrightarrow> timeouts_left e = 2)"
  using seek_run_left[OF assms] by (auto simp: timeouts_left_def)

definition sample_sought :: "int \<Rightarrow> aodv" where
  "sample_sought reqs = sample_quiet\<lparr>seekhead := [\<lparr>sk_ptr = 0, sk_dest_addr = 9, sk_dest_seqno = 0,
     sk_flags = 0, sk_reqs = reqs, sk_ttl = 32, sk_seek_timer = zero_timer\<rparr>]\<rparr>"

theorem discovery_ends_witness:
  "\<exists>t. seek_run sample_ext 0 3 (sample_sought 0) t \<and> seek_find 0 t = None"
proof -
  have "case route_discovery_timeout sample_ext (Some 0) (sample_sought 0) of None \<Rightarrow> False | Some t \<Rightarrow>
      (case route_discovery_timeout sample_ext (Some 0) t of None \<Rightarrow> False | Some u \<Rightarrow>
        (case route_discovery_timeout sample_ext (Some 0) u of None \<Rightarrow> False | Some v \<Rightarrow> True))"
    by code_simp
  then obtain t u v where "route_discovery_timeout sample_ext (Some 0) (sample_sought 0) = Some t"
    "route_discovery_timeout sample_ext (Some 0) t = Some u"
    "route_discovery_timeout sample_ext (Some 0) u = Some v" by (auto split: option.splits)
  then have r: "seek_run sample_ext 0 (Suc (Suc (Suc 0))) (sample_sought 0) v"
    by (rule seek_fires[OF seek_fires[OF seek_fires[OF seek_start]]])
  obtain e where e: "seek_find 0 (sample_sought 0) = Some e" "sk_ttl e = 32 \<and> sk_reqs e = 0"
    by (auto simp: seek_find_def sample_sought_def)
  show ?thesis using discovery_ends[OF sample_seek_ok r e(1)] e(2) r by (auto simp: numeral_3_eq_3)
qed

text \<open>C13: The timeout after the last retry gives up: \<open>route_discovery_timeout\<close> succeeds whenever the entry is
  there and the table well formed and has no route under repair, hands every waiting packet
  for the destination to the simulator as undeliverable, keeps the others in order, and removes
  the entry.\<close>

theorem discovery_gives_up:
  assumes "seek_ok E" and "pq_ok s" and "rt_wf s" and "seek_find p s = Some e"
    and "RREQ_RETRIES \<le> sk_reqs e"
    and "\<forall>q r. rt_heap s q = Some r \<and> rt_dest_addr r = sk_dest_addr e \<longrightarrow> \<not> has_flag (rt_flags r) RT_REPAIR"
  shows "\<exists>t. route_discovery_timeout E (Some p) s = Some t \<and> seek_find p t = None
    \<and> pq_head (PQ t) = filter (\<lambda>q. qp_dest_addr q \<noteq> sk_dest_addr e) (pq_head (PQ s))
    \<and> out t = rev (map (\<lambda>q. Drop (qp_p q) DROP_RTR_NO_ROUTE)
        (filter (\<lambda>q. qp_dest_addr q = sk_dest_addr e) (pq_head (PQ s)))) @ out s"
proof -
  let ?d = "sk_dest_addr e"
  obtain u where u: "packet_queue_set_verdict E ?d PQ_DROP s
      = Some (int (length (filter (\<lambda>q. qp_dest_addr q = ?d) (pq_head (PQ s)))), u)"
    "pq_head (PQ u) = filter (\<lambda>q. qp_dest_addr q \<noteq> ?d) (pq_head (PQ s))"
    "out u = rev (map (\<lambda>q. Drop (qp_p q) DROP_RTR_NO_ROUTE)
        (filter (\<lambda>q. qp_dest_addr q = ?d) (pq_head (PQ s)))) @ out s"
    using set_verdict_drop[OF assms(2,3), of E ?d] by blast
  have same: "same_routes s u" by (rule packet_queue_set_verdict_same[OF u(1)])
  let ?v = "u\<lparr>seekhead := snd (x_seek_list_remove E (Some p) (seekhead u))\<rparr>"
  have "seek_give_up E p ?d s = Some ?v"
  proof (cases rule: rs.find_cases[OF assms(3), of ?d])
    case 1
    then show ?thesis using u(1) same_routes_find[OF same assms(3)] by (simp add: seek_give_up_def)
  next
    case (2 q r)
    obtain r' where r': "rt_heap u q = Some r'" "rt_static r' = rt_static r"
      using same_routesD[OF same 2(2)] .
    have "\<not> has_flag (rt_flags r') RT_REPAIR"
      using assms(6) 2(2,3) rt_static_eqD(5)[OF r'(2)] by (simp del: RT_REPAIR_def)
    then show ?thesis
      using u(1) same_routes_find[OF same assms(3)] 2(1) r'(1)
      by (simp add: seek_give_up_def del: RT_REPAIR_def)
  qed
  moreover from seek_give_up_effect[OF assms(1) this] have "seek_find p ?v = None" .
  ultimately show ?thesis using assms(4,5) u(2,3) by (simp add: route_discovery_timeout_def)
qed

theorem discovery_gives_up_witness:
  "\<exists>t. route_discovery_timeout sample_ext (Some 0) (sample_sought 2) = Some t \<and> seek_find 0 t = None
    \<and> pq_head (PQ t) = []"
proof -
  obtain e where e: "seek_find 0 (sample_sought 2) = Some e" "RREQ_RETRIES \<le> sk_reqs e"
    by (auto simp: seek_find_def sample_sought_def)
  have ok: "pq_ok (sample_sought 2)" "rt_wf (sample_sought 2)"
    using sample_quiet_ok by (simp_all add: sample_sought_def pq_ok_def rt_wf_def)
  have "\<forall>q r. rt_heap (sample_sought 2) q = Some r \<and> rt_dest_addr r = sk_dest_addr e
      \<longrightarrow> \<not> has_flag (rt_flags r) RT_REPAIR" "pq_head (PQ (sample_sought 2)) = []"
    by (simp_all add: sample_sought_def sample_quiet_def sample_node_def rt_table_init_def)
  then show ?thesis using discovery_gives_up[OF sample_seek_ok ok e] by auto
qed

end
