(* ===== verification/Hello_Claims.thy ===== *)
theory Hello_Claims
  imports Agent_Frames Request_Claims
begin

text \<open>
  Properties of the HELLO messages: the route they give to a neighbour, and the estimation of
  link costs, whose window leaves its arrays.
\<close>

section \<open>The route to a neighbour\<close>

lemma rt_mod_view:
  assumes "rt_mod p f s = Some t" and "rt_wf s" and "rt_table_find d s = Some (Some p)"
    and "\<And>r. rt_shape (f r) = rt_shape r" and "\<And>r. info (f r) = info r"
  shows "rt_wf t \<and> rt_table_find d t = Some (Some p) \<and> route_view d t = route_view d s"
proof -
  obtain r where r: "rt_heap s p = Some r" "t = s\<lparr>rt_heap := (rt_heap s)(p \<mapsto> f r)\<rparr>"
    using rt_mod_SomeD[OF assms(1)] by blast
  have sh: "same_shape s t" unfolding r(2) by (rule same_shape_upd[OF r(1) assms(4)])
  have wf: "rt_wf t" by (rule same_shape_wf[OF sh assms(2)])
  have "rt_dest_addr r = d" using rs.find_sound[OF assms(2,3)] r(1) by auto
  then have "rt_dest_addr (f r) = d" using assms(4)[of r] by (simp add: rt_shape_def)
  then have f: "rt_table_find d t = Some (Some p)"
    using rs.find_complete[OF wf, of p "f r"] r(2) by simp
  show ?thesis using wf f view_found[OF f, of "f r"] view_found[OF assms(3) r(1)] r(2) assms(5) by simp
qed

text \<open>A HELLO from a neighbour without a route gives one: afterwards the table has a valid route of one
  hop to it, through itself, with the sequence number of the HELLO and no channel, and every
  destination known before is still known.\<close>

theorem hello_gives_route:
  assumes "ext_ok E" and "rt_wf s" and "rrep_at (recv_buf s) = Some hello"
    and "rt_table_find (rp_dest_addr hello) s = Some None" and "receive_n_hellos (cfg s) = 0"
    and "hello_process E len i s = Some t"
  shows "rt_wf t \<and> (\<exists>r. route_view (rp_dest_addr hello) t = Some r \<and> ro_next r = rp_dest_addr hello
      \<and> ro_hops r = 1 \<and> ro_seqno r = rp_dest_seqno hello \<and> ro_state r = VALID \<and> ro_channel r = -1)
    \<and> (\<forall>d. route_view d s \<noteq> None \<longrightarrow> route_view d t \<noteq> None)"
proof -
  let ?d = "rp_dest_addr hello"
  obtain a b k u where ops: "hello_note_sender hello s = Some a" "hello_count_received hello a = Some (k, b)"
    "hello_acknowledge E hello i k b = Some u"
    using assms(3,6) by (auto simp: hello_process_def Let_def simp del: hello_exts.simps)
  have fr: "frame s u"
    using okM_D[OF hello_note_sender_frame[OF frame_refl] ops(1)]
      okM_D[OF hello_count_received_frame ops(2)] okM_D[OF hello_acknowledge_frame ops(3)]
    by (auto intro: frame_trans)
  have same: "same_routes s u" using fr by (simp add: frame_def)
  have wf: "rt_wf u" by (rule same_routes_wf[OF same assms(2)])
  have none: "rt_table_find ?d u = Some None" using same_routes_find[OF same assms(2)] assms(4) by simp
  have n: "receive_n_hellos (cfg u) = 0" using frame_fields(6)[OF fr] assms(5) by simp
  obtain life fl res v w m where ins: "rt_table_insert E ?d ?d 1 (rp_dest_seqno hello) life VALID fl i u = Some (res, v)"
    and m: "res \<noteq> None" "rt_mod (the res) (\<lambda>r. r\<lparr>rt_hello_cnt := 1\<rparr>) v = Some w"
      "hello_update_timeout E (the res) (now w) m w = Some t"
    using assms(3,6) ops none n by (auto simp: hello_process_def Let_def simp del: hello_exts.simps)
  have "malloc_ok E" using assms(1) by (simp add: ext_ok_def)
  from rt_table_insert_cases[OF wf this ins] m(1) obtain p where
    p: "res = Some p" "inserted u p (new_route E ?d ?d 1 (rp_dest_seqno hello) VALID fl i (-1) 0x40F86A0000000000) v"
    by blast
  from inserted_view[OF p(2), of ?d] have v: "rt_wf v" "keeps_routes u v" "rt_table_find ?d v = Some (Some p)"
    "route_view ?d v = Some (info (new_route E ?d ?d 1 (rp_dest_seqno hello) VALID fl i (-1) 0x40F86A0000000000))"
    by simp_all
  have w: "rt_wf w" "rt_table_find ?d w = Some (Some p)" "route_view ?d w = route_view ?d v"
    using rt_mod_view[OF m(2) v(1), unfolded p(1) option.sel, OF v(3)] by (simp_all add: rt_shape_def info_def)
  have t: "rt_wf t" "route_view ?d t = route_view ?d w"
    using rt_mod_view[OF m(3)[unfolded hello_update_timeout_def p(1) option.sel] w(1,2)]
    by (simp_all add: rt_shape_def info_def)
  have "keeps_routes v w" "keeps_routes w t"
    using m(2,3) by (auto simp: keeps_routes_def hello_update_timeout_def dest!: rt_mod_SomeD)
  then have keep: "keeps_routes s t"
    using same_routes_shape[OF same, THEN same_shape_keeps] v(2) by (blast intro: keeps_routes_trans)
  have "route_view d t \<noteq> None" if "route_view d s \<noteq> None" for d
    using that rs.find_iff[OF assms(2), of d] rs.find_iff[OF t(1), of d] keep
    by (fastforce simp: route_view_def keeps_routes_def split: option.splits)
  then show ?thesis using t w(3) v(4) by (simp add: info_def)
qed

definition sample_hello :: RREP where
  "sample_hello = sample_reply\<lparr>rp_channel := 1, rp_hcnt := 0, rp_dest_addr := 3, rp_dest_seqno := 8,
     rp_orig_addr := 3, rp_hello_sent := 5\<rparr>"

definition sample_neighborhood :: aodv where
  "sample_neighborhood = sample_node\<lparr>this_host := sample_host\<lparr>hi_neighbors := initial_neighbors\<rparr>,
     recv_buf := rrep_put sample_hello (replicate AODV_MSG_MAX_SIZE 0)\<rparr>"

theorem hello_gives_route_witness:
  "\<exists>t r. hello_process sample_ext 32 0 sample_neighborhood = Some t \<and> route_view 3 t = Some r
    \<and> ro_next r = 3 \<and> ro_hops r = 1 \<and> ro_seqno r = 8"
proof -
  have "case hello_process sample_ext 32 0 sample_neighborhood of None \<Rightarrow> False | Some _ \<Rightarrow> True" by code_simp
  then obtain t where t: "hello_process sample_ext 32 0 sample_neighborhood = Some t"
    by (auto split: option.splits)
  have at: "rrep_at (recv_buf sample_neighborhood) = Some sample_hello"
    by (simp add: sample_neighborhood_def rrep_at_put)
  have d: "rp_dest_addr sample_hello = 3" "rp_dest_seqno sample_hello = 8"
    by (simp_all add: sample_hello_def)
  have "rt_table_find 3 sample_neighborhood = Some None" by code_simp
  moreover have "rt_wf sample_neighborhood"
    using sample_node_wf by (simp add: sample_neighborhood_def rt_wf_def)
  moreover have "receive_n_hellos (cfg sample_neighborhood) = 0"
    by (simp add: sample_neighborhood_def sample_node_def rt_table_init_def sample_cfg_def)
  ultimately show ?thesis
    using hello_gives_route[OF sample_ext_ok _ at _ _ t, unfolded d] t by auto
qed

section \<open>The window of link costs\<close>

lemma for_each_None: "x \<in> set xs \<Longrightarrow> (\<And>s. f x s = None) \<Longrightarrow> for_each xs f s = None"
  by (induction xs arbitrary: s) (auto simp: bind_eq_None_conv)

lemma stable_count_outside:
  assumes "head < tail" and "int (length self) < tail"
  shows "stable_count head tail self n = None"
  unfolding stable_count_def
proof (rule for_each_None)
  show "tail - 1 \<in> set [head..tail - 1]" using assms(1) by simp
  show "(arr_get self (tail - 1) \<bind> (\<lambda>a. if a = 0 then Some c else arr_get (ni_host_stability_sequence n) (tail - 1)
      \<bind> (\<lambda>b. Some (if b = 0 then c else c + 1)))) = None" for c
    using assms(2) arr_get_None_iff[of self "tail - 1"] by auto
qed

text \<open>C37: The window of the link cost estimation leaves its arrays: once the node has sent eleven HELLOs and
  knows a neighbour, the next HELLO reads the stability sequences behind their ten cells. The
  code's counters run from \<open>hello_head\<close> to \<open>hello_tail\<close> without being reduced modulo the length.\<close>

theorem hello_window_overflow:
  assumes "hi_hello_tail (this_host s) \<ge> 11"
    and "hi_hello_head (this_host s) = hi_hello_tail (this_host s) - 9"
    and "length (hi_stability_sequence (this_host s)) = 10" and "1 \<le> hi_neighbor_num (this_host s)"
    and "enabled_devs s \<noteq> []" and "\<not> optimized_hellos (cfg s)"
    and "HELLO_INTERVAL \<le> x_timeval_diff E (now s) (hi_bcast_time (this_host s))"
  shows "hello_send E s = None"
proof -
  let ?h = "this_host s"
  have cong: "c_mod (hi_hello_head ?h) MAX_SEQUENCE_LEN = c_mod (hi_hello_tail ?h + 1) MAX_SEQUENCE_LEN"
    using assms(1,2) mod_add_self2[of "hi_hello_tail ?h - 9" 10] by (simp add: c_mod_nonneg add.commute)
  have cost: "channel_cost F (hi_hello_head ?h) (hi_hello_tail ?h) self c n = None" if "length self = 10" for F self c n
    unfolding channel_cost_def using cong that assms(1,2)
    by (simp add: stable_count_outside bind_eq_None_conv)
  have upd: "update_cost F 0 0 v = None" if "hi_hello_head (this_host v) = hi_hello_head ?h"
    "hi_hello_tail (this_host v) = hi_hello_tail ?h" "length (hi_stability_sequence (this_host v)) = 10" for F v
    using that cost by (simp add: update_cost_def nb_mod_def Let_def bind_eq_None_conv)
  have costs: "hello_update_costs E u = None" if h: "hi_hello_head (this_host u) = hi_hello_head ?h"
    "hi_hello_tail (this_host u) = hi_hello_tail ?h"
    "hi_stability_sequence (this_host u) = hi_stability_sequence ?h"
    "hi_neighbor_num (this_host u) = hi_neighbor_num ?h" for u
  proof -
    have xs: "[0..<nat (hi_neighbor_num ?h)] = 0 # [1..<nat (hi_neighbor_num ?h)]"
      using assms(4) by (simp add: upt_conv_Cons)
    have ys: "[0..<MAX_CHANNEL_NUM] = 0 # [1..<MAX_CHANNEL_NUM]" by (simp add: upt_conv_Cons)
    have "update_cost (x_fp E) 0 0 (u\<lparr>this_host := (this_host u)\<lparr>hi_stability_sequence := sq\<rparr>\<rparr>) = None"
      if "arr_set (hi_stability_sequence ?h) k v = Some sq" for k v sq
      by (rule upd) (use h arr_set_length[OF that] assms(3) in simp_all)
    then show ?thesis unfolding hello_update_costs_def Let_def h xs ys
      by (auto simp: bind_eq_None_conv)
  qed
  have create: "this_host u = this_host v" if "rrep_create fl pre hc d q o' l v = Some u" for fl pre hc d q o' l u v
    using that by (auto simp: rrep_create_def in_send_def aodv_socket_new_msg_def Let_def split: if_splits)
  have on: "hello_send_on E dev (x, m, v) = None" if "this_host v = ?h" for dev x m v
    using that create costs by (fastforce simp: hello_send_on_def bind_eq_None_conv)
  obtain j v where j: "hello_jitter E s = (j, v)" "this_host v = ?h" "enabled_devs v = enabled_devs s"
    by (cases "hello_jittering (cfg s)") (auto simp: hello_jitter_def enabled_devs_def)
  obtain dev devs where "enabled_devs s = dev # devs" using assms(5) by (cases "enabled_devs s") auto
  then have "for_each (enabled_devs v) (hello_send_on E) (None, int RREP_SIZE, v) = None"
    using j on by simp
  then show ?thesis using assms(6,7) j(1) by (simp add: hello_send_def Let_def)
qed

text \<open>A node that has sent eleven HELLOs.\<close>

definition sample_stable :: aodv where
  "sample_stable = sample_node\<lparr>this_host := sample_host\<lparr>hi_hello_head := 2, hi_hello_tail := 11,
     hi_neighbor_num := 1\<rparr>\<rparr>"

theorem hello_window_overflow_witness: "hello_send sample_ext sample_stable = None"
proof (rule hello_window_overflow)
  show "enabled_devs sample_stable \<noteq> []"
    "HELLO_INTERVAL \<le> x_timeval_diff sample_ext (now sample_stable) (hi_bcast_time (this_host sample_stable))"
    by code_simp+
qed (simp_all add: sample_stable_def sample_host_def sample_node_def rt_table_init_def sample_cfg_def)

end
