(* ===== verification/Agent_Claims.thy ===== *)
theory Agent_Claims
  imports Agent_Run Routing_Claims
begin

text \<open>
  Properties of the agent as a whole: the invariant of all its runs, what happens to packets
  at its entry points, and the life of a route discovery.
\<close>

section \<open>The invariant\<close>

definition sample_object :: aodv where
  "sample_object = sample_node\<lparr>rt_tbl := \<lparr>num_entries = 0, num_active = 0, tbl = []\<rparr>,
     now := sample_time 20, initialized := False\<rparr>"

lemma sample_object_new: "new_object sample_object"
  by (simp add: new_object_def sample_object_def sample_node_def rt_table_init_def)

lemma sample_agent_run:
  obtains t where "(agent_step sample_ext)\<^sup>*\<^sup>* (AODVUU_init sample_ext sample_object) t" "initialized t"
proof -
  let ?s = "AODVUU_init sample_ext sample_object"
  let ?u = "?s\<lparr>nIfaces := 3, lllist := [True, True, True]\<rparr>"
  have "case startAODVUUAgent sample_ext ?u of Some (_, t) \<Rightarrow> initialized t | None \<Rightarrow> False"
    by code_simp
  then obtain ok t where t: "startAODVUUAgent sample_ext ?u = Some (ok, t)" "initialized t"
    by (auto split: option.splits)
  show ?thesis
    by (rule that[of t], rule converse_rtranclp_into_rtranclp, rule agent_step.attach[where n = 3 and l = "[True, True, True]"],
        rule r_into_rtranclp, rule agent_step.start[OF t(1)], rule t(2))
qed

text \<open>C2: Whatever packets arrive, transmissions fail and timers fire, in any order, an agent
  that was constructed in fresh memory keeps its invariant: the routing table is well formed,
  the packet queue is bounded and its length exact, both message buffers have their full size,
  the rate limiters stay within their arrays, and no two buffered records have the same key.\<close>

theorem agent_invariant:
  assumes "outside_ok E" and "new_object s" and "(agent_step E)\<^sup>*\<^sup>* (AODVUU_init E s) t"
  shows "rt_wf t \<and> pq_ok t \<and> length (send_buf t) = AODV_MSG_MAX_SIZE
    \<and> length (recv_buf t) = AODV_MSG_MAX_SIZE
    \<and> rl_ok RREQ_RATELIMIT (num_rreq t, rreq_ratel t) \<and> rl_ok RERR_RATELIMIT (num_rerr t, rerr_ratel t)
    \<and> distinct (map rreq_key (rreq_records t)) \<and> distinct (map bl_dest_addr (rreq_blacklist t))
    \<and> distinct (map rerr_key (rerr_records t))"
  using agent_run_ok[OF assms(3,1) AODVUU_init_ok[OF assms(2)]]
  unfolding agent_ok_def rest_ok_def agent_rest_def by simp

theorem agent_invariant_witness:
  "\<exists>t. initialized t \<and> rt_wf t \<and> distinct (map rreq_key (rreq_records t))"
proof -
  obtain t where t: "(agent_step sample_ext)\<^sup>*\<^sup>* (AODVUU_init sample_ext sample_object) t" "initialized t"
    by (rule sample_agent_run)
  show ?thesis using agent_invariant[OF sample_outside_ok sample_object_new t(1)] t(2) by blast
qed

end
