(* ===== verification/Mac_Defs.thy ===== *)
theory Mac_Defs
  imports Aodv_Defs
begin

text \<open>
  The data of the link layer below the agent: the frames of \<open>mac/mac-802_11.h\<close>, the two MIBs
  with their derived lengths and times, and the record \<open>mac\<close> of all members of class
  \<open>Mac802_11\<close>. Addresses are 32-bit words, where the source mixes \<open>int\<close> and \<open>u_int32_t\<close>. The
  base class, the timers of \<open>mac-timers.cc\<close>, floating point arithmetic, random numbers and what
  the layers above and the handlers do to the MAC are outside the repository: fields of \<open>mac_env\<close>.
\<close>

section \<open>Frames\<close>

definition MAC_ProtocolVersion :: u8 where [simp]: "MAC_ProtocolVersion = 0x00"
definition MAC_Type_Management :: u8 where [simp]: "MAC_Type_Management = 0x00"
definition MAC_Type_Control :: u8 where [simp]: "MAC_Type_Control = 0x01"
definition MAC_Type_Data :: u8 where [simp]: "MAC_Type_Data = 0x02"
definition MAC_Type_Reserved :: u8 where [simp]: "MAC_Type_Reserved = 0x03"
definition MAC_Subtype_RTS :: u8 where [simp]: "MAC_Subtype_RTS = 0x0B"
definition MAC_Subtype_CTS :: u8 where [simp]: "MAC_Subtype_CTS = 0x0C"
definition MAC_Subtype_ACK :: u8 where [simp]: "MAC_Subtype_ACK = 0x0D"
definition MAC_Subtype_Data :: u8 where [simp]: "MAC_Subtype_Data = 0x00"
definition MAC_Subtype_Noise :: u8 where [simp]: "MAC_Subtype_Noise = 0x02"
definition MAC_Subtype_80211_Beacon :: u8 where [simp]: "MAC_Subtype_80211_Beacon = 0x08"
definition MAC_Subtype_AssocReq :: u8 where [simp]: "MAC_Subtype_AssocReq = 0x00"
definition MAC_Subtype_AssocRep :: u8 where [simp]: "MAC_Subtype_AssocRep = 0x01"
definition MAC_Subtype_Auth :: u8 where [simp]: "MAC_Subtype_Auth = 0x0C"
definition MAC_Subtype_ProbeReq :: u8 where [simp]: "MAC_Subtype_ProbeReq = 0x04"
definition MAC_Subtype_ProbeRep :: u8 where [simp]: "MAC_Subtype_ProbeRep = 0x05"

definition XMIT_REASON_RTS :: int where [simp]: "XMIT_REASON_RTS = 0x01"
definition XMIT_REASON_ACK :: int where [simp]: "XMIT_REASON_ACK = 0x02"

record frame_control =
  fc_subtype :: u8
  fc_type :: u8
  fc_protocol_version :: u8
  fc_order :: bool
  fc_wep :: bool
  fc_more_data :: bool
  fc_pwr_mgt :: bool
  fc_retry :: bool
  fc_more_frag :: bool
  fc_from_ds :: bool
  fc_to_ds :: bool

text \<open>
  All frames start with the same members, so that one record serves for all of them;
  \<open>mf_\<close> are the members that only management frames have. Of \<open>dh_body\<close> there are the two bytes in use.
\<close>

record hdr_mac802_11 =
  dh_fc :: frame_control
  dh_duration :: u16
  dh_ra :: u32
  dh_ta :: u32
  dh_3a :: u32
  dh_4a :: u32
  dh_scontrol :: u16
  dh_body :: u16
  mf_timestamp :: double
  mf_bcninterval :: double
  mf_statuscode :: u16
  mf_algono :: u16
  mf_seqno :: u16

text \<open>The header after \<open>bzero(.., MAC_HDR_LEN)\<close> and the assignments of type and subtype.\<close>

definition frame_header :: "u8 \<Rightarrow> u8 \<Rightarrow> hdr_mac802_11" where
  "frame_header type subtype =
     \<lparr>dh_fc = \<lparr>fc_subtype = subtype, fc_type = type, fc_protocol_version = MAC_ProtocolVersion,
        fc_order = False, fc_wep = False, fc_more_data = False, fc_pwr_mgt = False,
        fc_retry = False, fc_more_frag = False, fc_from_ds = False, fc_to_ds = False\<rparr>,
      dh_duration = 0, dh_ra = 0, dh_ta = 0, dh_3a = 0, dh_4a = 0, dh_scontrol = 0,
      dh_body = 0, mf_timestamp = 0, mf_bcninterval = 0, mf_statuscode = 0, mf_algono = 0, mf_seqno = 0\<rparr>"

text \<open>A packet with the header fields that the MAC uses besides those that the agent uses.\<close>

record mac_packet = packet +
  mp_uid :: int
  mp_txtime :: double
  mp_xmit_reason :: int
  mp_RxPr :: double
  mp_CPThresh :: double
  mp_hdr :: hdr_mac802_11

definition set_hdr :: "(hdr_mac802_11 \<Rightarrow> hdr_mac802_11) \<Rightarrow> mac_packet \<Rightarrow> mac_packet" where
  "set_hdr f p = p\<lparr>mp_hdr := f (mp_hdr p)\<rparr>"

abbreviation pk_type :: "mac_packet \<Rightarrow> u8" where "pk_type p \<equiv> fc_type (dh_fc (mp_hdr p))"
abbreviation pk_subtype :: "mac_packet \<Rightarrow> u8" where "pk_subtype p \<equiv> fc_subtype (dh_fc (mp_hdr p))"
abbreviation pk_ra :: "mac_packet \<Rightarrow> u32" where "pk_ra p \<equiv> dh_ra (mp_hdr p)"
abbreviation pk_ta :: "mac_packet \<Rightarrow> u32" where "pk_ta p \<equiv> dh_ta (mp_hdr p)"
abbreviation pk_3a :: "mac_packet \<Rightarrow> u32" where "pk_3a p \<equiv> dh_3a (mp_hdr p)"

text \<open>The broadcast address has the value that \<open>mac.h\<close> of ns-2 gives it.\<close>

definition MAC_BROADCAST :: u32 where [simp]: "MAC_BROADCAST = 0xFFFFFFFF"
definition IBSS_ID :: u32 where [simp]: "IBSS_ID = MAC_BROADCAST"

section \<open>The MIBs\<close>

record phy_mib =
  CWMin :: u32
  CWMax :: u32
  SlotTime :: double
  SIFSTime :: double
  BeaconInterval :: double
  PreambleLength :: u32
  PLCPHeaderLength :: u32
  PLCPDataRate :: double

record mac_mib =
  RTSThreshold :: u32
  ShortRetryLimit :: u32
  LongRetryLimit :: u32
  mib_ScanType :: u32
  ProbeDelay :: double
  MaxChannelTime :: double
  MinChannelTime :: double
  ChannelTime :: double
  FailedCount :: u32
  RTSFailureCount :: u32
  ACKFailureCount :: u32

text \<open>
  The lengths, with the \<open>sizeof\<close> and \<open>offsetof\<close> of the frame structs written out
  (6 bytes per address, 4 for the checksum, doubles aligned to 8 bytes).
\<close>

definition getPLCPhdrLen :: "phy_mib \<Rightarrow> u32" where
  "getPLCPhdrLen m = drop_bit 3 (PreambleLength m + PLCPHeaderLength m)"

definition getHdrLen11 :: "phy_mib \<Rightarrow> u32" where "getHdrLen11 m = getPLCPhdrLen m + 30 + 4"
definition getNoiselen :: "phy_mib \<Rightarrow> u32" where "getNoiselen m = getPLCPhdrLen m + 20"
definition getRTSlen :: "phy_mib \<Rightarrow> u32" where "getRTSlen m = getPLCPhdrLen m + 20"
definition getCTSlen :: "phy_mib \<Rightarrow> u32" where "getCTSlen m = getPLCPhdrLen m + 14"
definition getACKlen :: "phy_mib \<Rightarrow> u32" where "getACKlen m = getPLCPhdrLen m + 14"
definition getBEACONlen :: "phy_mib \<Rightarrow> u32" where "getBEACONlen m = getPLCPhdrLen m + 48"
definition getASSOCREQlen :: "phy_mib \<Rightarrow> u32" where "getASSOCREQlen m = getPLCPhdrLen m + 28"
definition getASSOCREPlen :: "phy_mib \<Rightarrow> u32" where "getASSOCREPlen m = getPLCPhdrLen m + 30"
definition getAUTHENTICATElen :: "phy_mib \<Rightarrow> u32" where "getAUTHENTICATElen m = getPLCPhdrLen m + 34"
definition getPROBEREQlen :: "phy_mib \<Rightarrow> u32" where "getPROBEREQlen m = getPLCPhdrLen m + 28"
definition getPROBEREPlen :: "phy_mib \<Rightarrow> u32" where "getPROBEREPlen m = getPLCPhdrLen m + 48"

definition getDIFS :: "fp \<Rightarrow> phy_mib \<Rightarrow> double" where
  "getDIFS F m = fp_add F (SIFSTime m) (fp_mul F (fp_of_int F 2) (SlotTime m))"

definition getEIFS :: "fp \<Rightarrow> phy_mib \<Rightarrow> double" where
  "getEIFS F m = fp_add F (fp_add F (SIFSTime m) (getDIFS F m))
     (fp_div F (fp_of_int F (uint (8 * getACKlen m))) (PLCPDataRate m))"

text \<open>The constant \<open>0.000002\<close>.\<close>

definition DSSS_MaxPropagationDelay :: double where
  [simp]: "DSSS_MaxPropagationDelay = 0x3EC0C6F7A0B5ED8D"

section \<open>The MAC\<close>

text \<open>
  The states of \<open>mac.h\<close> that the source names; \<open>MAC_IDLE\<close> is the value 0. A timer shows whether it
  is busy, whether it is paused and how long it still runs.
\<close>

datatype MacState =
    MAC_IDLE | MAC_RECV | MAC_SEND | MAC_RTS | MAC_BCN | MAC_CTS | MAC_ACK | MAC_COLL | MAC_MGMT

record mac_timer =
  mt_busy :: bool
  mt_paused :: bool
  mt_expire :: double

datatype mac_drop =
    DROP_MAC_COLLISION | DROP_MAC_BUSY | DROP_MAC_RETRY_COUNT_EXCEEDED
  | DROP_MAC_INVALID_STATE | DROP_MAC_DUPLICATE | DROP_filtered | DROP_XXX

text \<open>What the MAC does to its surroundings, newest event first.\<close>

datatype mac_event =
    Send_down mac_packet            \<comment> \<open>\<open>downtarget_->recv\<close>\<close>
  | Pass_up mac_packet              \<comment> \<open>\<open>uptarget_->recv\<close>\<close>
  | Mac_drop mac_packet mac_drop    \<comment> \<open>\<open>drop\<close>\<close>
  | Mac_log mac_packet              \<comment> \<open>\<open>logtarget_->recv\<close>\<close>
  | Tap_out mac_packet              \<comment> \<open>\<open>tap_->tap\<close>\<close>
  | Eot_out mac_packet              \<comment> \<open>\<open>EOTtarget_->recv\<close>\<close>
  | Callback                        \<comment> \<open>\<open>h->handle\<close> of the layer above\<close>
  | Xmit_failure mac_packet         \<comment> \<open>\<open>ch->xmit_failure_\<close>\<close>

record client_table =
  client_id :: u32
  auth_status :: int
  assoc_status :: int

record ap_table =
  ap_id :: u32
  ap_power :: double

definition PASSIVE :: int where [simp]: "PASSIVE = 0"
definition ACTIVE :: int where [simp]: "ACTIVE = 1"

text \<open>
  The members of class \<open>Mac802_11\<close>. Flags that are only set to 0 and 1 are booleans, the
  linked list \<open>queue_head\<close> is a list (empty for \<open>NULL\<close>), \<open>cache\<close> holds the \<open>seqno\<close> of its
  elements. \<open>clock\<close> is the scheduler's time, \<open>mac_rng\<close> counts the random numbers drawn.
\<close>

record mac =
  mac_index :: u32
  phymib :: phy_mib
  macmib :: mac_mib
  bss_id :: u32
  basicRate :: double
  dataRate :: double
  bugFix_timer :: bool
  infra_mode :: bool
  BeaconTxtime :: double
  associated :: bool
  authenticated :: bool
  handoff :: bool
  Pr :: double
  ap_temp :: u32
  ap_addr :: u32
  tx_mgmt :: int
  associating_node :: u32
  authenticating_node :: u32
  ScanType :: int
  OnMinChannelTime :: bool
  OnMaxChannelTime :: bool
  Recv_Busy :: bool
  probe_delay :: bool
  client_list1 :: "client_table list"
  ap_list1 :: "ap_table list"
  queue_head :: "int list"
  mhIF :: mac_timer
  mhNav :: mac_timer
  mhRecv :: mac_timer
  mhSend :: mac_timer
  mhDefer :: mac_timer
  mhBackoff :: mac_timer
  mhBeacon :: mac_timer
  mhProbe :: mac_timer
  mhNoise :: mac_timer
  mhValid :: mac_timer
  nav :: double
  rx_state :: MacState
  tx_state :: MacState
  tx_active :: bool
  eotPacket :: "mac_packet option"
  pktTx :: "mac_packet option"
  pktRx :: "mac_packet option"
  pktRTS :: "mac_packet option"
  pktCTRL :: "mac_packet option"
  pktBEACON :: "mac_packet option"
  pktASSOCREQ :: "mac_packet option"
  pktASSOCREP :: "mac_packet option"
  pktAUTHENTICATE :: "mac_packet option"
  pktPROBEREQ :: "mac_packet option"
  pktPROBEREP :: "mac_packet option"
  cw :: u32
  ssrc :: u32
  slrc :: u32
  callback :: bool
  tap :: bool
  logtarget :: bool
  EOTtarget :: bool
  mac_initialized :: bool
  sta_seqno :: u16
  cache_node_count :: int
  cache :: "u32 list option"
  noiseChannel :: int
  workMode :: int
  noiseFlag :: bool
  noiseInterval :: double
  noisePower :: double
  validInterval :: double
  mac_channelNum :: int
  signalNum :: int
  noiseNum :: int
  channelSignal1 :: double
  channelSignal2 :: double
  channelSignal3 :: double
  channelNoise1 :: double
  channelNoise2 :: double
  channelNoise3 :: double
  clock :: double
  mac_rng :: nat
  mac_out :: "mac_event list"

section \<open>Code outside the repository\<close>

text \<open>
  The timers (starting, stopping, and for the backoff timer pausing and resuming fail where
  \<open>mac-timers.cc\<close> has an assertion), \<open>Packet::alloc\<close>, the conversions from doubles,
  the commands of the base class, and the three calls into other layers that may come back into the MAC.
\<close>

record mac_env =
  m_start :: "double \<Rightarrow> double \<Rightarrow> mac_timer \<Rightarrow> mac_timer option"
  m_stop :: "mac_timer \<Rightarrow> mac_timer option"
  m_backoff_start :: "double \<Rightarrow> nat \<Rightarrow> u32 \<Rightarrow> bool \<Rightarrow> double \<Rightarrow> mac_timer \<Rightarrow> mac_timer option"
  m_backoff_pause :: "double \<Rightarrow> mac_timer \<Rightarrow> mac_timer option"
  m_backoff_resume :: "double \<Rightarrow> double \<Rightarrow> mac_timer \<Rightarrow> mac_timer option"
  m_alloc :: mac_packet
  m_random :: "nat \<Rightarrow> int"
  m_floor_u16 :: "double \<Rightarrow> u16"
  m_to_int :: "double \<Rightarrow> int"
  m_uninit :: u32
  m_lookup :: "string \<Rightarrow> bool"
  m_atoi :: "string \<Rightarrow> int"
  m_base_command :: "string list \<Rightarrow> mac \<Rightarrow> (bool \<times> mac) option"
  m_callback :: "mac \<Rightarrow> mac option"
  m_up :: "mac_packet \<Rightarrow> mac \<Rightarrow> mac option"
  m_xmit_failure :: "mac_packet \<Rightarrow> mac \<Rightarrow> mac option"
  m_fp :: fp

end
