(* ===== verification/Mac_Base.thy ===== *)
theory Mac_Base
  imports Mac_Defs
begin

text \<open>
  The operations of \<open>mac-802_11.cc\<close> that all others share: carrier sense and the backoff timer,
  transmission times, the network allocation vector, the contention window, and what happens to
  packets that are discarded, captured or collide.
\<close>

section \<open>Timers and states\<close>

definition emit :: "mac_event \<Rightarrow> mac \<Rightarrow> mac" where
  "emit e s = s\<lparr>mac_out := e # mac_out s\<rparr>"

text \<open>\<open>mhX_.start(d)\<close> and \<open>mhX_.stop()\<close>, given the timer's selector and update.\<close>

definition timer_start ::
  "mac_env \<Rightarrow> (mac \<Rightarrow> mac_timer) \<Rightarrow> ((mac_timer \<Rightarrow> mac_timer) \<Rightarrow> mac \<Rightarrow> mac) \<Rightarrow> double \<Rightarrow> mac \<Rightarrow> mac option"
  where "timer_start M get upd d s = do {
     t \<leftarrow> m_start M (clock s) d (get s);
     Some (upd (\<lambda>_. t) s)
   }"

definition timer_stop ::
  "mac_env \<Rightarrow> (mac \<Rightarrow> mac_timer) \<Rightarrow> ((mac_timer \<Rightarrow> mac_timer) \<Rightarrow> mac \<Rightarrow> mac) \<Rightarrow> mac \<Rightarrow> mac option"
  where "timer_stop M get upd s = do {
     t \<leftarrow> m_stop M (get s);
     Some (upd (\<lambda>_. t) s)
   }"

definition is_idle :: "mac \<Rightarrow> bool" where
  "is_idle s \<longleftrightarrow> rx_state s = MAC_IDLE \<and> tx_state s = MAC_IDLE \<and> \<not> d_less (clock s) (nav s)"

text \<open>\<open>mhBackoff_.start(cw_, is_idle(), difs)\<close>.\<close>

definition backoff_start :: "mac_env \<Rightarrow> double \<Rightarrow> mac \<Rightarrow> mac option" where
  "backoff_start M difs s = do {
     t \<leftarrow> m_backoff_start M (clock s) (mac_rng s) (cw s) (is_idle s) difs (mhBackoff s);
     Some (s\<lparr>mhBackoff := t, mac_rng := mac_rng s + 1\<rparr>)
   }"

definition backoff_resume :: "mac_env \<Rightarrow> mac \<Rightarrow> mac option" where
  "backoff_resume M s = do {
     t \<leftarrow> m_backoff_resume M (clock s) (getDIFS (m_fp M) (phymib s)) (mhBackoff s);
     Some (s\<lparr>mhBackoff := t\<rparr>)
   }"

definition checkBackoffTimer :: "mac_env \<Rightarrow> mac \<Rightarrow> mac option" where
  "checkBackoffTimer M s = do {
     s \<leftarrow> (if is_idle s \<and> mt_paused (mhBackoff s) then backoff_resume M s else Some s);
     if \<not> is_idle s \<and> mt_busy (mhBackoff s) \<and> \<not> mt_paused (mhBackoff s)
     then do {
       t \<leftarrow> m_backoff_pause M (clock s) (mhBackoff s);
       Some (s\<lparr>mhBackoff := t\<rparr>)
     } else Some s
   }"

definition setRxState :: "mac_env \<Rightarrow> MacState \<Rightarrow> mac \<Rightarrow> mac option" where
  "setRxState M newState s = checkBackoffTimer M (s\<lparr>rx_state := newState\<rparr>)"

definition setTxState :: "mac_env \<Rightarrow> MacState \<Rightarrow> mac \<Rightarrow> mac option" where
  "setTxState M newState s = checkBackoffTimer M (s\<lparr>tx_state := newState\<rparr>)"

section \<open>Times\<close>

text \<open>The transmission time in the packet; a negative one ends the program.\<close>

definition txtime :: "mac_packet \<Rightarrow> double option" where
  "txtime p = (if d_less (mp_txtime p) 0 then None else Some (mp_txtime p))"

definition txtime_size :: "mac_env \<Rightarrow> mac \<Rightarrow> int \<Rightarrow> double \<Rightarrow> double" where
  "txtime_size M s psz drt =
     (let F = m_fp M; hdr = getPLCPhdrLen (phymib s);
        dsz = fp_add F (fp_of_int F psz) (d_neg (fp_of_int F (uint hdr)));
        plcp_hdr = sint (push_bit 3 hdr);
        datalen = 8 * m_to_int M dsz
      in fp_add F (fp_div F (fp_of_int F plcp_hdr) (PLCPDataRate (phymib s)))
           (fp_div F (fp_of_int F datalen) drt))"

text \<open>\<open>txtime(phymib_.getXlen(), basicRate_)\<close>.\<close>

definition basic_txtime :: "mac_env \<Rightarrow> u32 \<Rightarrow> mac \<Rightarrow> double" where
  "basic_txtime M len s = txtime_size M s (uint len) (basicRate s)"

text \<open>The constants are \<open>1.0e-6\<close>, \<open>1e6\<close> and \<open>0.5\<close>.\<close>

definition sec :: "mac_env \<Rightarrow> double \<Rightarrow> double" where
  "sec M t = fp_mul (m_fp M) t 0x3EB0C6F7A0B5ED8D"

definition usec :: "mac_env \<Rightarrow> double \<Rightarrow> u16" where
  "usec M t = m_floor_u16 M (fp_add (m_fp M) (fp_mul (m_fp M) t 0x412E848000000000) 0x3FE0000000000000)"

definition set_nav :: "mac_env \<Rightarrow> u16 \<Rightarrow> mac \<Rightarrow> mac option" where
  "set_nav M us s =
     (let t = fp_mul (m_fp M) (fp_of_int (m_fp M) (uint us)) 0x3EB0C6F7A0B5ED8D;
        until = fp_add (m_fp M) (clock s) t
      in if d_less (nav s) until then do {
           s \<leftarrow> (if mt_busy (mhNav s) then timer_stop M mhNav mhNav_update (s\<lparr>nav := until\<rparr>)
                else Some (s\<lparr>nav := until\<rparr>));
           timer_start M mhNav mhNav_update t s
         } else Some s)"

definition inc_cw :: "mac \<Rightarrow> mac" where
  "inc_cw s = (let c = push_bit 1 (cw s) + 1
     in s\<lparr>cw := (if CWMax (phymib s) < c then CWMax (phymib s) else c)\<rparr>)"

definition rst_cw :: "mac \<Rightarrow> mac" where
  "rst_cw s = s\<lparr>cw := CWMin (phymib s)\<rparr>"

section \<open>Contention\<close>

text \<open>\<open>mhDefer_.start(DIFS + (Random::random() % cw_) * SlotTime)\<close>.\<close>

definition defer_random :: "mac_env \<Rightarrow> mac \<Rightarrow> mac option" where
  "defer_random M s =
     (if cw s = 0 then None
      else let F = m_fp M;
        rTime = fp_mul F (fp_of_int F (c_mod (m_random M (mac_rng s)) (uint (cw s)))) (SlotTime (phymib s))
      in timer_start M mhDefer mhDefer_update (fp_add F (getDIFS F (phymib s)) rTime)
           (s\<lparr>mac_rng := mac_rng s + 1\<rparr>))"

text \<open>With \<open>bugFix_timer_\<close> the random wait is left to the backoff timer.\<close>

definition wait_difs :: "mac_env \<Rightarrow> mac \<Rightarrow> mac option" where
  "wait_difs M s = (if bugFix_timer s then backoff_start M (getDIFS (m_fp M) (phymib s)) s
     else defer_random M s)"

text \<open>The block at the end of \<open>send\<close> and of all functions that send management frames.\<close>

definition contend :: "mac_env \<Rightarrow> mac \<Rightarrow> mac option" where
  "contend M s =
     (if \<not> mt_busy (mhBackoff s) then
        if is_idle s then if \<not> mt_busy (mhDefer s) then wait_difs M s else Some s
        else backoff_start M 0 s
      else Some s)"

section \<open>Packets that are not received\<close>

text \<open>\<open>None\<close> is \<open>exit(1)\<close> on an invalid subtype.\<close>

definition discard :: "mac_packet \<Rightarrow> mac_drop \<Rightarrow> mac \<Rightarrow> mac option" where
  "discard p why s =
     (let here = (\<lambda>a. a = mac_index s); gone = Some (emit (Mac_drop p why) s) in
      if pk_error p \<noteq> 0 then Some s
      else if pk_type p = MAC_Type_Reserved then Some s
      else if pk_type p = MAC_Type_Management then
        if pk_subtype p = MAC_Subtype_Auth \<or> pk_subtype p = MAC_Subtype_AssocReq
           \<or> pk_subtype p = MAC_Subtype_ProbeReq then if here (pk_ra p) then gone else Some s
        else if pk_subtype p = MAC_Subtype_AssocRep \<or> pk_subtype p = MAC_Subtype_ProbeRep
           \<or> pk_subtype p = MAC_Subtype_80211_Beacon then Some s
        else None
      else if pk_type p = MAC_Type_Control then
        if pk_subtype p = MAC_Subtype_RTS \<and> here (pk_ta p) then gone
        else if pk_subtype p = MAC_Subtype_RTS \<or> pk_subtype p = MAC_Subtype_CTS
           \<or> pk_subtype p = MAC_Subtype_ACK then if here (pk_ra p) then gone else Some s
        else None
      else if pk_type p = MAC_Type_Data then
        if pk_subtype p = MAC_Subtype_Data then
          if here (pk_ra p) \<or> here (pk_ta p)
             \<or> pk_ra p = MAC_BROADCAST \<and> \<not> fc_to_ds (dh_fc (mp_hdr p)) then gone else Some s
        else None
      else None)"

definition capture :: "mac_env \<Rightarrow> mac_packet \<Rightarrow> mac \<Rightarrow> mac option" where
  "capture M p s = do {
     t \<leftarrow> txtime p;
     set_nav M (usec M (fp_add (m_fp M) (getEIFS (m_fp M) (phymib s)) t)) s
   }"

definition collision :: "mac_env \<Rightarrow> mac_packet \<Rightarrow> mac \<Rightarrow> mac option" where
  "collision M p s =
     (if rx_state s = MAC_RECV \<or> rx_state s = MAC_COLL then do {
        s \<leftarrow> (if rx_state s = MAC_RECV then setRxState M MAC_COLL s else Some s);
        r \<leftarrow> pktRx s;
        if \<not> mt_busy (mhRecv s) then None
        else do {
          t \<leftarrow> txtime p;
          if d_less (mt_expire (mhRecv s)) t then do {
            s \<leftarrow> timer_stop M mhRecv mhRecv_update s;
            s \<leftarrow> discard r DROP_MAC_COLLISION s;
            timer_start M mhRecv mhRecv_update t (s\<lparr>pktRx := Some p\<rparr>)
          } else discard p DROP_MAC_COLLISION s
        }
      } else None)"

section \<open>Transmission\<close>

definition transmit :: "mac_env \<Rightarrow> mac_packet \<Rightarrow> double \<Rightarrow> mac \<Rightarrow> mac option" where
  "transmit M p timeout s = do {
     let s = s\<lparr>tx_active := True\<rparr>;
     s \<leftarrow> (if EOTtarget s then if eotPacket s = None then Some (s\<lparr>eotPacket := Some p\<rparr>) else None
          else Some s);
     s \<leftarrow> (if rx_state s \<noteq> MAC_IDLE
          then map_option (\<lambda>r. s\<lparr>pktRx := Some (r\<lparr>pk_error := 1\<rparr>)\<rparr>) (pktRx s)
          else Some s);
     s \<leftarrow> timer_start M mhSend mhSend_update timeout (emit (Send_down p) s);
     t \<leftarrow> txtime p;
     timer_start M mhIF mhIF_update t s
   }"

text \<open>\<open>txHandler\<close>: the transmission is over.\<close>

definition txHandler :: "mac \<Rightarrow> mac option" where
  "txHandler s = (if EOTtarget s
     then map_option (\<lambda>p. (emit (Eot_out p) s)\<lparr>eotPacket := None, tx_active := False\<rparr>) (eotPacket s)
     else Some (s\<lparr>tx_active := False\<rparr>))"

definition navHandler :: "mac_env \<Rightarrow> mac \<Rightarrow> mac option" where
  "navHandler M s = (if is_idle s \<and> mt_paused (mhBackoff s) then backoff_resume M s else Some s)"

definition rx_resume :: "mac_env \<Rightarrow> mac \<Rightarrow> mac option" where
  "rx_resume M s =
     (if pktRx s = None \<and> \<not> mt_busy (mhRecv s) then setRxState M MAC_IDLE s else None)"

definition tx_resume :: "mac_env \<Rightarrow> mac \<Rightarrow> mac option" where
  "tx_resume M s =
     (if mt_busy (mhSend s) \<or> mt_busy (mhDefer s) then None
      else do {
        s \<leftarrow> (if pktCTRL s \<noteq> None then timer_start M mhDefer mhDefer_update (SIFSTime (phymib s)) s
             else if pktRTS s \<noteq> None then
               if \<not> mt_busy (mhBackoff s) then wait_difs M s else Some s
             else (case pktTx s of
                 Some p \<Rightarrow>
                   if \<not> mt_busy (mhBackoff s) then
                     if (word_of_int (pk_size p) :: u32) < RTSThreshold (macmib s)
                        \<or> pk_ra p = MAC_BROADCAST
                     then wait_difs M s
                     else timer_start M mhDefer mhDefer_update (SIFSTime (phymib s)) s
                   else Some s
               | None \<Rightarrow> if callback s then m_callback M (emit Callback (s\<lparr>callback := False\<rparr>))
                         else Some s));
        setTxState M MAC_IDLE s
      })"

end
