(* ===== verification/Mac_Tables.thy ===== *)
theory Mac_Tables
  imports Mac_Defs
begin

text \<open>
  The tables of the MAC in infrastructure mode: an access point's clients, the access points a
  station has heard, and the order in which management frames wait (\<open>queue_head\<close>), which is
  shown to be a FIFO (locale \<open>frame_fifo\<close>).
\<close>

section \<open>Clients of an access point\<close>

fun client_update :: "u32 \<Rightarrow> int \<Rightarrow> int \<Rightarrow> client_table list \<Rightarrow> client_table list option" where
  "client_update num a b [] = None"
| "client_update num a b (c # cs) =
     (if client_id c = num then Some (c\<lparr>auth_status := a, assoc_status := b\<rparr> # cs)
      else map_option ((#) c) (client_update num a b cs))"

definition update_client_table :: "u32 \<Rightarrow> int \<Rightarrow> int \<Rightarrow> mac \<Rightarrow> mac" where
  "update_client_table num a b s =
     (case client_update num a b (client_list1 s) of
        Some cs \<Rightarrow> s\<lparr>client_list1 := cs\<rparr>
      | None \<Rightarrow> s\<lparr>client_list1 :=
          \<lparr>client_id = num, auth_status = a, assoc_status = b\<rparr> # client_list1 s\<rparr>)"

definition find_client :: "u32 \<Rightarrow> mac \<Rightarrow> bool" where
  "find_client num s = (find (\<lambda>c. client_id c = num) (client_list1 s) \<noteq> None)"

section \<open>Access points\<close>

definition update_ap_table :: "u32 \<Rightarrow> double \<Rightarrow> mac \<Rightarrow> mac" where
  "update_ap_table num pw s = s\<lparr>ap_list1 := \<lparr>ap_id = num, ap_power = pw\<rparr> # ap_list1 s\<rparr>"

fun strongest :: "ap_table list \<Rightarrow> double \<Rightarrow> u32 \<Rightarrow> u32" where
  "strongest [] max_power ap = ap"
| "strongest (a # as) max_power ap =
     (if d_less max_power (ap_power a) then strongest as (ap_power a) (ap_id a)
      else strongest as max_power ap)"

text \<open>The result is uninitialised if no power is positive.\<close>

definition strongest_ap :: "mac_env \<Rightarrow> mac \<Rightarrow> u32" where
  "strongest_ap M s = (if ap_list1 s = [] then -1 else strongest (ap_list1 s) 0 (m_uninit M))"

fun ap_refresh :: "u32 \<Rightarrow> double \<Rightarrow> ap_table list \<Rightarrow> ap_table list option" where
  "ap_refresh num pw [] = None"
| "ap_refresh num pw (a # as) =
     (if ap_id a = num
      then Some ((if d_less (ap_power a) pw \<or> d_less pw (ap_power a)
                    \<or> d_is_nan (ap_power a) \<or> d_is_nan pw
                  then a\<lparr>ap_power := pw\<rparr> else a) # as)
      else map_option ((#) a) (ap_refresh num pw as))"

definition find_ap :: "u32 \<Rightarrow> double \<Rightarrow> mac \<Rightarrow> bool \<times> mac" where
  "find_ap num pw s = (case ap_refresh num pw (ap_list1 s) of
     Some as \<Rightarrow> (True, s\<lparr>ap_list1 := as\<rparr>) | None \<Rightarrow> (False, s))"

definition deletelist :: "mac \<Rightarrow> mac" where
  "deletelist s = s\<lparr>ap_list1 := []\<rparr>"

section \<open>Waiting management frames\<close>

text \<open>A single node with priority 0 stands for the empty queue.\<close>

definition push_priority :: "int \<Rightarrow> int list \<Rightarrow> int list" where
  "push_priority num q = q @ [num]"

definition add_priority_queue :: "int \<Rightarrow> int list \<Rightarrow> int list" where
  "add_priority_queue num q =
     (if q = [] then [num]
      else if tl q = [] \<and> hd q = 0 then [num]
      else push_priority num q)"

definition delete_lastnode :: "int list \<Rightarrow> int list" where
  "delete_lastnode q = (if q = [] \<or> tl q = [] then q else butlast q)"

fun move_priorities :: "int list \<Rightarrow> int list" where
  "move_priorities (x # y # q) = y # move_priorities (y # q)"
| "move_priorities q = q"

definition shift_priority_queue :: "int list \<Rightarrow> int list" where
  "shift_priority_queue q =
     (if q = [] then []
      else if tl q = [] then [0]
      else delete_lastnode (move_priorities q))"

definition waiting_frames :: "int list \<Rightarrow> int list" where
  "waiting_frames q = (if q = [0] then [] else q)"

definition frames_ok :: "int list \<Rightarrow> bool" where
  "frames_ok q \<longleftrightarrow> q = [0] \<or> 0 \<notin> set q"

lemma move_priorities: "q \<noteq> [] \<Longrightarrow> move_priorities q = tl q @ [last q]"
  by (induction q rule: move_priorities.induct) auto

lemma shift_priority_queue_tl: "tl q \<noteq> [] \<Longrightarrow> shift_priority_queue q = tl q"
  by (cases q) (simp_all add: shift_priority_queue_def delete_lastnode_def move_priorities butlast_append)

locale frame_fifo =
  fixes abs :: "'q \<Rightarrow> 'a list" and ok :: "'q \<Rightarrow> bool" and val :: "'a \<Rightarrow> bool"
    and add :: "'a \<Rightarrow> 'q \<Rightarrow> 'q" and shift :: "'q \<Rightarrow> 'q"
  assumes add_ok: "ok q \<Longrightarrow> val x \<Longrightarrow> ok (add x q)"
    and shift_ok: "ok q \<Longrightarrow> ok (shift q)"
    and abs_add: "ok q \<Longrightarrow> val x \<Longrightarrow> abs (add x q) = abs q @ [x]"
    and abs_shift: "ok q \<Longrightarrow> abs (shift q) = tl (abs q)"
begin

lemma adds:
  assumes "ok q" and "list_all val xs"
  shows "ok (fold add xs q) \<and> abs (fold add xs q) = abs q @ xs"
  using assms by (induction xs arbitrary: q) (simp_all add: add_ok abs_add)

lemma shifts:
  assumes "ok q" shows "ok ((shift ^^ n) q) \<and> abs ((shift ^^ n) q) = drop n (abs q)"
  using assms by (induction n) (simp_all add: shift_ok abs_shift drop_Suc tl_drop)

text \<open>After as many shifts as frames waited before, exactly those added later wait.\<close>

lemma first_in_first_out:
  assumes "ok q" and "list_all val xs"
  shows "abs ((shift ^^ length (abs q)) (fold add xs q)) = xs"
  using adds[OF assms] shifts[of "fold add xs q" "length (abs q)"] by simp

end

lemma shift_waiting:
  assumes "frames_ok q"
  shows "frames_ok (shift_priority_queue q)"
    "waiting_frames (shift_priority_queue q) = tl (waiting_frames q)"
proof -
  have "frames_ok (shift_priority_queue q) \<and> waiting_frames (shift_priority_queue q) = tl (waiting_frames q)"
  proof (cases "tl q = []")
    case True
    then show ?thesis
      by (cases q) (auto simp: shift_priority_queue_def frames_ok_def waiting_frames_def)
  next
    case False
    then have z: "0 \<notin> set q" using assms by (auto simp: frames_ok_def)
    then have "0 \<notin> set (tl q)" by (metis list.set_sel(2) False list.sel(2))
    then show ?thesis
      using False z by (auto simp: shift_priority_queue_tl frames_ok_def waiting_frames_def)
  qed
  then show "frames_ok (shift_priority_queue q)"
    "waiting_frames (shift_priority_queue q) = tl (waiting_frames q)" by simp_all
qed

lemma add_waiting:
  assumes "frames_ok q" and "n \<noteq> 0"
  shows "frames_ok (add_priority_queue n q)"
    "waiting_frames (add_priority_queue n q) = waiting_frames q @ [n]"
  using assms by (cases q; cases "tl q";
      auto simp: add_priority_queue_def push_priority_def frames_ok_def waiting_frames_def)+

interpretation mgmt: frame_fifo waiting_frames frames_ok "\<lambda>n. n \<noteq> 0" add_priority_queue
  shift_priority_queue
  by unfold_locales (simp_all add: add_waiting shift_waiting)

section \<open>Lookup\<close>

lemma client_update_ids: "client_update num a b cs = Some ds \<Longrightarrow> map client_id ds = map client_id cs"
  by (induction cs arbitrary: ds) (auto split: if_splits)

lemma client_update_None: "client_update num a b cs = None \<longleftrightarrow> num \<notin> client_id ` set cs"
  by (induction cs) auto

lemma find_client_iff: "find_client num s \<longleftrightarrow> num \<in> client_id ` set (client_list1 s)"
  by (auto simp: find_client_def find_None_iff)

lemma find_client_update:
  "find_client n (update_client_table num a b s) \<longleftrightarrow> n = num \<or> find_client n s"
proof (cases "client_update num a b (client_list1 s)")
  case None
  then show ?thesis by (auto simp: find_client_iff update_client_table_def)
next
  case (Some ds)
  have "num \<in> client_id ` set (client_list1 s)"
    using Some client_update_None[of num a b "client_list1 s"] by auto
  moreover have "client_id ` set ds = client_id ` set (client_list1 s)"
    using client_update_ids[OF Some] by (metis set_map)
  ultimately show ?thesis using Some by (auto simp: find_client_iff update_client_table_def)
qed

end
