(* ===== verification/Mac_Frames.thy ===== *)
theory Mac_Frames
  imports Mac_Base Mac_Tables
begin

text \<open>
  The frames that the MAC sends: assembling RTS, CTS, ACK and data frames, the header routines
  used by the layer above, and the three checks that put a waiting frame on the channel. A check
  returns whether it dealt with a frame (0 in the source) or found none (-1).
\<close>

section \<open>Headers\<close>

text \<open>With the default argument -2 the address is only read.\<close>

definition hdr_dst :: "mac \<Rightarrow> u32 \<Rightarrow> hdr_mac802_11 \<Rightarrow> hdr_mac802_11 \<times> u32" where
  "hdr_dst s dst h =
     (let h = (if -2 < sint dst then
          if bss_id s = IBSS_ID then h\<lparr>dh_ra := dst\<rparr>
          else if mac_index s = bss_id s then
            if find_client dst s \<or> dst = MAC_BROADCAST
            then h\<lparr>dh_ra := dst, dh_fc := (dh_fc h)\<lparr>fc_to_ds := False, fc_from_ds := True\<rparr>\<rparr>
            else h\<lparr>dh_ra := MAC_BROADCAST, dh_3a := dst,
                   dh_fc := (dh_fc h)\<lparr>fc_to_ds := True, fc_from_ds := True\<rparr>\<rparr>
          else h\<lparr>dh_ra := bss_id s, dh_3a := dst\<rparr>
        else h)
      in (h, dh_ra h))"

definition hdr_src :: "u32 \<Rightarrow> hdr_mac802_11 \<Rightarrow> hdr_mac802_11 \<times> u32" where
  "hdr_src src h = (let h = (if -2 < sint src then h\<lparr>dh_ta := src\<rparr> else h) in (h, dh_ta h))"

definition hdr_type :: "u16 \<Rightarrow> hdr_mac802_11 \<Rightarrow> hdr_mac802_11 \<times> u16" where
  "hdr_type type h = (let h = (if type \<noteq> 0 then h\<lparr>dh_body := type\<rparr> else h) in (h, dh_body h))"

section \<open>Assembling frames\<close>

text \<open>What all functions that assemble a control or management frame have in common.\<close>

definition new_frame :: "mac_env \<Rightarrow> u8 \<Rightarrow> u8 \<Rightarrow> u32 \<Rightarrow> mac \<Rightarrow> mac_packet" where
  "new_frame M type subtype len s =
     (m_alloc M)\<lparr>mp_uid := 0, pk_ptype := PT_MAC, pk_size := sint len, pk_iface := -2,
       pk_error := 0, mp_txtime := txtime_size M s (sint len) (basicRate s),
       mp_hdr := frame_header type subtype\<rparr>"

definition needs_rts :: "mac_packet \<Rightarrow> u32 \<Rightarrow> mac \<Rightarrow> bool" where
  "needs_rts p dst s \<longleftrightarrow>
     \<not> ((word_of_int (pk_size p) :: u32) < RTSThreshold (macmib s) \<or> dst = MAC_BROADCAST)"

definition sendRTS :: "mac_env \<Rightarrow> u32 \<Rightarrow> mac \<Rightarrow> mac option" where
  "sendRTS M dst s = (case pktTx s of None \<Rightarrow> None | Some q \<Rightarrow>
     if pktRTS s \<noteq> None then None
     else if \<not> needs_rts q dst s then Some s
     else do {
       t \<leftarrow> txtime q;
       let add = fp_add (m_fp M);
       let m = phymib s;
       let sifs = SIFSTime m;
       let p = new_frame M MAC_Type_Control MAC_Subtype_RTS (getRTSlen m) s;
       Some (s\<lparr>pktRTS := Some (set_hdr (\<lambda>h. h\<lparr>dh_ra := dst, dh_ta := mac_index s,
         dh_duration := usec M (add (add (add (add (add sifs
           (basic_txtime M (getCTSlen m) s)) sifs) t) sifs) (basic_txtime M (getACKlen m) s))\<rparr>) p)\<rparr>)
     })"

definition sendCTS :: "mac_env \<Rightarrow> u32 \<Rightarrow> double \<Rightarrow> mac \<Rightarrow> mac option" where
  "sendCTS M dst rts_duration s =
     (if pktCTRL s \<noteq> None then None
      else let F = m_fp M; m = phymib s;
        p = new_frame M MAC_Type_Control MAC_Subtype_CTS (getCTSlen m) s
      in Some (s\<lparr>pktCTRL := Some (set_hdr (\<lambda>h. h\<lparr>dh_ra := dst,
           dh_duration := usec M (fp_add F (fp_add F (sec M rts_duration) (d_neg (SIFSTime m)))
             (d_neg (basic_txtime M (getCTSlen m) s)))\<rparr>) p)\<rparr>))"

definition sendACK :: "mac_env \<Rightarrow> u32 \<Rightarrow> mac \<Rightarrow> mac option" where
  "sendACK M dst s =
     (if pktCTRL s \<noteq> None then None
      else let p = new_frame M MAC_Type_Control MAC_Subtype_ACK (getACKlen (phymib s)) s
      in Some (s\<lparr>pktCTRL := Some (set_hdr (\<lambda>h. h\<lparr>dh_ra := dst, dh_duration := 0\<rparr>) p)\<rparr>))"

text \<open>The frame control of a data frame; an access point leaves the two DS bits alone.\<close>

definition data_control :: "mac \<Rightarrow> frame_control \<Rightarrow> frame_control" where
  "data_control s c =
     (let c = c\<lparr>fc_protocol_version := MAC_ProtocolVersion, fc_type := MAC_Type_Data,
          fc_subtype := MAC_Subtype_Data, fc_more_frag := False, fc_retry := False,
          fc_pwr_mgt := False, fc_more_data := False, fc_wep := False, fc_order := False\<rparr>
      in if bss_id s \<noteq> IBSS_ID then
           if mac_index s \<noteq> ap_addr s then c\<lparr>fc_to_ds := True, fc_from_ds := False\<rparr> else c
         else c\<lparr>fc_to_ds := False, fc_from_ds := False\<rparr>)"

definition sendDATA :: "mac_env \<Rightarrow> mac_packet \<Rightarrow> mac \<Rightarrow> mac option" where
  "sendDATA M p s =
     (if pktTx s \<noteq> None then None
      else let m = phymib s; dst = pk_ra p;
        size = sint (word_of_int (pk_size p) + getHdrLen11 m);
        unicast = dst \<noteq> MAC_BROADCAST;
        p = p\<lparr>pk_size := size,
              mp_txtime := txtime_size M s size (if unicast then dataRate s else basicRate s)\<rparr>
      in Some (s\<lparr>pktTx := Some (set_hdr (\<lambda>h. h\<lparr>dh_fc := data_control s (dh_fc h),
           dh_duration := (if unicast
             then usec M (fp_add (m_fp M) (basic_txtime M (getACKlen m) s) (SIFSTime m)) else 0)\<rparr>) p)\<rparr>))"

section \<open>Putting frames on the channel\<close>

text \<open>\<open>inc_cw(); mhBackoff_.start(cw_, is_idle());\<close>: the medium is busy.\<close>

definition busy_medium :: "mac_env \<Rightarrow> mac \<Rightarrow> mac option" where
  "busy_medium M s = backoff_start M 0 (inc_cw s)"

text \<open>
  The common form of \<open>check_pktX\<close>: \<open>mark\<close> is done before the transmission and \<open>after\<close> behind
  it, neither of them if the medium is busy.
\<close>

definition check_frame ::
  "mac_env \<Rightarrow> mac_packet option \<Rightarrow> u8 \<Rightarrow> MacState \<Rightarrow> double \<Rightarrow> (mac \<Rightarrow> mac) \<Rightarrow> (mac \<Rightarrow> mac option)
    \<Rightarrow> mac \<Rightarrow> (bool \<times> mac) option" where
  "check_frame M pkt subtype st timeout mark after s =
     (if mt_busy (mhBackoff s) then None
      else case pkt of
        None \<Rightarrow> Some (False, s)
      | Some p \<Rightarrow>
          if pk_subtype p \<noteq> subtype then None
          else if \<not> is_idle s then map_option (Pair True) (busy_medium M s)
          else do {
            s \<leftarrow> setTxState M st s;
            s \<leftarrow> transmit M p timeout (mark s);
            s \<leftarrow> after s;
            Some (True, s)
          })"

definition check_pktCTRL :: "mac_env \<Rightarrow> mac \<Rightarrow> (bool \<times> mac) option" where
  "check_pktCTRL M s = (case pktCTRL s of None \<Rightarrow> Some (False, s) | Some p \<Rightarrow>
     if tx_state s = MAC_CTS \<or> tx_state s = MAC_ACK then Some (False, s)
     else if pk_subtype p = MAC_Subtype_CTS then
       if \<not> is_idle s
       then map_option (\<lambda>s. (True, s\<lparr>pktCTRL := None\<rparr>)) (discard p DROP_MAC_BUSY s)
       else do {
         let add = fp_add (m_fp M);
         let m = phymib s;
         let timeout = add (add (add (add (add (basic_txtime M (getCTSlen m) s)
               DSSS_MaxPropagationDelay)
               (sec M (fp_of_int (m_fp M) (uint (dh_duration (mp_hdr p))))))
               DSSS_MaxPropagationDelay)
               (d_neg (SIFSTime m)))
               (d_neg (basic_txtime M (getACKlen m) s));
         s \<leftarrow> setTxState M MAC_CTS s;
         s \<leftarrow> transmit M p timeout s;
         Some (True, s)
       }
     else if pk_subtype p = MAC_Subtype_ACK then do {
       s \<leftarrow> setTxState M MAC_ACK s;
       s \<leftarrow> transmit M p (basic_txtime M (getACKlen (phymib s)) s) s;
       Some (True, s)
     }
     else None)"

text \<open>\<open>x + DSSS_MaxPropagationDelay + y + z + DSSS_MaxPropagationDelay\<close>.\<close>

definition round_trip_time :: "mac_env \<Rightarrow> double \<Rightarrow> double \<Rightarrow> double \<Rightarrow> double" where
  "round_trip_time M x y z = (let add = fp_add (m_fp M)
     in add (add (add (add x DSSS_MaxPropagationDelay) y) z) DSSS_MaxPropagationDelay)"

definition check_pktRTS :: "mac_env \<Rightarrow> mac \<Rightarrow> (bool \<times> mac) option" where
  "check_pktRTS M s = (let m = phymib s in
     check_frame M (pktRTS s) MAC_Subtype_RTS MAC_RTS
       (round_trip_time M (basic_txtime M (getRTSlen m) s) (SIFSTime m) (basic_txtime M (getCTSlen m) s))
       id Some s)"

text \<open>A data frame of a station in a BSS is addressed to its access point again.\<close>

definition check_pktTx :: "mac_env \<Rightarrow> mac \<Rightarrow> (bool \<times> mac) option" where
  "check_pktTx M s =
     (if mt_busy (mhBackoff s) then None
      else case pktTx s of
        None \<Rightarrow> Some (False, s)
      | Some p \<Rightarrow> do {
          let p = (if mac_index s \<noteq> bss_id s \<and> bss_id s \<noteq> IBSS_ID \<and> \<not> handoff s
                   then set_hdr (\<lambda>h. h\<lparr>dh_ra := bss_id s\<rparr>) p else p);
          let s = s\<lparr>pktTx := Some p\<rparr>;
          if pk_subtype p \<noteq> MAC_Subtype_Data then None
          else if \<not> is_idle s then do {
            s \<leftarrow> sendRTS M (pk_ra p) s;
            s \<leftarrow> busy_medium M s;
            Some (True, s)
          } else do {
            s \<leftarrow> setTxState M MAC_SEND s;
            t \<leftarrow> txtime p;
            let m = phymib s;
            s \<leftarrow> transmit M p
              (if pk_ra p \<noteq> MAC_BROADCAST
               then round_trip_time M t (SIFSTime m) (basic_txtime M (getACKlen m) s) else t) s;
            Some (True, s)
          }
        })"

end
