(* ===== verification/Mac_Mgmt.thy ===== *)
theory Mac_Mgmt
  imports Mac_Frames
begin

text \<open>
  Infrastructure mode: beacons, scanning, authentication and association. Every frame is
  assembled, waits in a variable of its own, is put on the channel by its check, and is
  answered by the receiver.
\<close>

section \<open>Sending\<close>

definition mac_log :: "mac_packet \<Rightarrow> mac \<Rightarrow> mac option" where
  "mac_log p s = (if logtarget s then Some (emit (Mac_log p) s) else None)"

definition mgmt_frame :: "mac_env \<Rightarrow> u8 \<Rightarrow> u32 \<Rightarrow> u32 \<Rightarrow> u32 \<Rightarrow> u32 \<Rightarrow> mac \<Rightarrow> mac_packet" where
  "mgmt_frame M subtype len ra ta a3 s =
     set_hdr (\<lambda>h. h\<lparr>dh_ra := ra, dh_ta := ta, dh_3a := a3\<rparr>)
       (new_frame M MAC_Type_Management subtype len s)"

definition enqueue_frame :: "int \<Rightarrow> mac \<Rightarrow> mac" where
  "enqueue_frame n s = s\<lparr>queue_head := add_priority_queue n (queue_head s)\<rparr>"

definition sendBEACON :: "mac_env \<Rightarrow> u32 \<Rightarrow> mac \<Rightarrow> mac option" where
  "sendBEACON M src s =
     (let m = phymib s;
        p = mgmt_frame M MAC_Subtype_80211_Beacon (getBEACONlen m) MAC_BROADCAST src (ap_addr s) s;
        p = set_hdr (\<lambda>h. h\<lparr>mf_timestamp := clock s, mf_bcninterval := BeaconInterval m\<rparr>) p
      in contend M (enqueue_frame 2
           (s\<lparr>pktBEACON := Some p, BeaconTxtime := basic_txtime M (getBEACONlen m) s\<rparr>)))"

definition sendASSOCREQ :: "mac_env \<Rightarrow> u32 \<Rightarrow> mac \<Rightarrow> mac option" where
  "sendASSOCREQ M dst s = contend M (s\<lparr>pktASSOCREQ :=
     Some (mgmt_frame M MAC_Subtype_AssocReq (getASSOCREQlen (phymib s)) dst (mac_index s) dst s)\<rparr>)"

definition sendASSOCREP :: "mac_env \<Rightarrow> u32 \<Rightarrow> mac \<Rightarrow> mac option" where
  "sendASSOCREP M dst s = contend M (enqueue_frame 4 (s\<lparr>pktASSOCREP :=
     Some (set_hdr (\<lambda>h. h\<lparr>mf_statuscode := 0\<rparr>)
       (mgmt_frame M MAC_Subtype_AssocRep (getASSOCREPlen (phymib s)) dst (mac_index s) (mac_index s) s))\<rparr>))"

definition sendAUTHENTICATE :: "mac_env \<Rightarrow> u32 \<Rightarrow> mac \<Rightarrow> mac option" where
  "sendAUTHENTICATE M dst s =
     (let m = phymib s;
        station = mac_index s \<noteq> bss_id s;
        p = mgmt_frame M MAC_Subtype_Auth (getAUTHENTICATElen m) dst (mac_index s)
              (if station then dst else mac_index s) s;
        p = set_hdr (\<lambda>h. if station then h\<lparr>mf_algono := 0, mf_seqno := 1, dh_duration := 0\<rparr>
              else h\<lparr>mf_algono := 0, mf_seqno := 2, mf_statuscode := 0,
                dh_duration := usec M (fp_add (m_fp M) (basic_txtime M (getACKlen m) s) (SIFSTime m))\<rparr>) p;
        s = s\<lparr>pktAUTHENTICATE := Some p\<rparr>
      in contend M (if station then s else enqueue_frame 3 s))"

definition sendPROBEREQ :: "mac_env \<Rightarrow> u32 \<Rightarrow> mac \<Rightarrow> mac option" where
  "sendPROBEREQ M dst s = contend M (s\<lparr>pktPROBEREQ :=
     Some (mgmt_frame M MAC_Subtype_ProbeReq (getPROBEREQlen (phymib s)) dst (mac_index s) dst s)\<rparr>)"

definition sendPROBEREP :: "mac_env \<Rightarrow> u32 \<Rightarrow> mac \<Rightarrow> mac option" where
  "sendPROBEREP M dst s = contend M (enqueue_frame 1 (s\<lparr>pktPROBEREP :=
     Some (set_hdr (\<lambda>h. h\<lparr>mf_bcninterval := BeaconInterval (phymib s)\<rparr>)
       (mgmt_frame M MAC_Subtype_ProbeRep (getPROBEREPlen (phymib s)) dst (mac_index s) (mac_index s) s))\<rparr>))"

definition RetransmitPROBEREP :: "mac_env \<Rightarrow> mac \<Rightarrow> mac option" where
  "RetransmitPROBEREP M s = contend M s"

definition RetransmitAUTHENTICATE :: "mac_env \<Rightarrow> mac \<Rightarrow> mac option" where
  "RetransmitAUTHENTICATE M s = contend M s"

definition RetransmitASSOCREP :: "mac_env \<Rightarrow> mac \<Rightarrow> mac option" where
  "RetransmitASSOCREP M s = contend M s"

definition checkAssocAuthStatus :: "mac_env \<Rightarrow> mac \<Rightarrow> mac option" where
  "checkAssocAuthStatus M s =
     (if mac_index s \<noteq> bss_id s then do {
        s \<leftarrow> (if \<not> authenticated s \<and> \<not> associated s
             then sendAUTHENTICATE M (strongest_ap M s) s else Some s);
        if authenticated s \<and> \<not> associated s then sendASSOCREQ M (bss_id s) s else Some s
      } else Some s)"

definition passive_scan :: "mac_env \<Rightarrow> mac \<Rightarrow> mac option" where
  "passive_scan M s =
     (if mac_index s \<noteq> ap_addr s \<and> ScanType s = PASSIVE \<and> \<not> authenticated s \<and> \<not> associated s
      then let s = s\<lparr>ap_temp := strongest_ap M s\<rparr>
        in if pktAUTHENTICATE s = None then sendAUTHENTICATE M (ap_temp s) s else Some s
      else Some s)"

definition active_scan :: "mac_env \<Rightarrow> mac \<Rightarrow> mac option" where
  "active_scan M s =
     (if mac_index s \<noteq> ap_addr s \<and> ScanType s = ACTIVE \<and> \<not> authenticated s \<and> \<not> associated s
      then let s = s\<lparr>ap_temp := strongest_ap M s\<rparr> in sendAUTHENTICATE M (ap_temp s) s
      else Some s)"

section \<open>Putting management frames on the channel\<close>

text \<open>The beacon and the probe reply are read before the test for null.\<close>

definition stamp :: "mac \<Rightarrow> mac_packet \<Rightarrow> mac_packet" where
  "stamp s = set_hdr (\<lambda>h. h\<lparr>mf_timestamp := clock s\<rparr>)"

definition check_pktBEACON :: "mac_env \<Rightarrow> mac \<Rightarrow> (bool \<times> mac) option" where
  "check_pktBEACON M s = do {
     p \<leftarrow> pktBEACON s;
     let s = s\<lparr>pktBEACON := Some (stamp s p)\<rparr>;
     check_frame M (pktBEACON s) MAC_Subtype_80211_Beacon MAC_BCN
       (basic_txtime M (getBEACONlen (phymib s)) s) id Some s
   }"

definition check_pktASSOCREQ :: "mac_env \<Rightarrow> mac \<Rightarrow> (bool \<times> mac) option" where
  "check_pktASSOCREQ M s = (let m = phymib s in
     check_frame M (pktASSOCREQ s) MAC_Subtype_AssocReq MAC_MGMT
       (round_trip_time M (basic_txtime M (getASSOCREQlen m) s) (MaxChannelTime (macmib s))
          (basic_txtime M (getASSOCREPlen m) s)) id Some s)"

definition check_pktASSOCREP :: "mac_env \<Rightarrow> mac \<Rightarrow> (bool \<times> mac) option" where
  "check_pktASSOCREP M s = (let m = phymib s in
     check_frame M (pktASSOCREP s) MAC_Subtype_AssocRep MAC_MGMT
       (round_trip_time M (basic_txtime M (getASSOCREPlen m) s) (SIFSTime m)
          (basic_txtime M (getACKlen m) s)) (tx_mgmt_update (\<lambda>_. 4)) Some s)"

definition check_pktAUTHENTICATE :: "mac_env \<Rightarrow> mac \<Rightarrow> (bool \<times> mac) option" where
  "check_pktAUTHENTICATE M s =
     (let m = phymib s; len = basic_txtime M (getAUTHENTICATElen m) s in
      if mac_index s \<noteq> bss_id s
      then check_frame M (pktAUTHENTICATE s) MAC_Subtype_Auth MAC_MGMT
             (round_trip_time M len (MaxChannelTime (macmib s)) len) id Some s
      else check_frame M (pktAUTHENTICATE s) MAC_Subtype_Auth MAC_MGMT
             (round_trip_time M len (SIFSTime m) (basic_txtime M (getACKlen m) s))
             (tx_mgmt_update (\<lambda>_. 3)) Some s)"

definition check_pktPROBEREQ :: "mac_env \<Rightarrow> mac \<Rightarrow> (bool \<times> mac) option" where
  "check_pktPROBEREQ M s =
     check_frame M (pktPROBEREQ s) MAC_Subtype_ProbeReq MAC_MGMT
       (fp_add (m_fp M) (basic_txtime M (getPROBEREQlen (phymib s)) s) DSSS_MaxPropagationDelay) id
       (\<lambda>s. map_option (OnMinChannelTime_update (\<lambda>_. True))
          (timer_start M mhProbe mhProbe_update (MinChannelTime (macmib s)) s)) s"

definition check_pktPROBEREP :: "mac_env \<Rightarrow> mac \<Rightarrow> (bool \<times> mac) option" where
  "check_pktPROBEREP M s = do {
     p \<leftarrow> pktPROBEREP s;
     let s = s\<lparr>pktPROBEREP := Some (stamp s p)\<rparr>;
     let m = phymib s;
     check_frame M (pktPROBEREP s) MAC_Subtype_ProbeRep MAC_MGMT
       (round_trip_time M (basic_txtime M (getPROBEREPlen m) s) (SIFSTime m)
          (basic_txtime M (getACKlen m) s)) (tx_mgmt_update (\<lambda>_. 1)) Some s
   }"

section \<open>Receiving\<close>

definition recvBEACON :: "mac_packet \<Rightarrow> mac \<Rightarrow> mac option" where
  "recvBEACON p s =
     (if tx_state s \<noteq> MAC_IDLE then discard p DROP_MAC_BUSY s
      else let s = s\<lparr>infra_mode := True, Pr := mp_RxPr p\<rparr>;
        s = (if mac_index s \<noteq> ap_addr s \<and> ScanType s = PASSIVE \<and> \<not> authenticated s \<and> \<not> associated s
             then let (found, s) = find_ap (pk_ta p) (mp_RxPr p) s
               in if found then s else update_ap_table (pk_ta p) (mp_RxPr p) s
             else s)
      in mac_log p s)"

definition recvASSOCREQ :: "mac_env \<Rightarrow> mac_packet \<Rightarrow> mac \<Rightarrow> mac option" where
  "recvASSOCREQ M p s =
     (if tx_state s \<noteq> MAC_IDLE then discard p DROP_MAC_BUSY s
      else if pktASSOCREP s \<noteq> None then discard p DROP_MAC_BUSY s
      else do {
        s \<leftarrow> sendASSOCREP M (pk_ta p) s;
        s \<leftarrow> tx_resume M (s\<lparr>associating_node := pk_ta p\<rparr>);
        mac_log p s
      })"

text \<open>\<open>if (mhSend_.busy() == 0) tx_resume();\<close>.\<close>

definition resume_unless_sending :: "mac_env \<Rightarrow> mac \<Rightarrow> mac option" where
  "resume_unless_sending M s = (if \<not> mt_busy (mhSend s) then tx_resume M s else Some s)"

definition recvASSOCREP :: "mac_env \<Rightarrow> mac_packet \<Rightarrow> mac \<Rightarrow> mac option" where
  "recvASSOCREP M p s = (if pktASSOCREQ s = None then None else do {
     s \<leftarrow> timer_stop M mhSend mhSend_update (s\<lparr>pktASSOCREQ := None\<rparr>);
     s \<leftarrow> (if mf_statuscode (mp_hdr p) = 0
          then sendACK M (pk_ta p) ((deletelist (s\<lparr>associated := True\<rparr>))\<lparr>handoff := False\<rparr>)
          else Some s);
     s \<leftarrow> resume_unless_sending M s;
     mac_log p s
   })"

definition recvAUTHENTICATE :: "mac_env \<Rightarrow> mac_packet \<Rightarrow> mac \<Rightarrow> mac option" where
  "recvAUTHENTICATE M p s =
     (if mac_index s = bss_id s \<and> tx_state s \<noteq> MAC_IDLE then discard p DROP_MAC_BUSY s
      else do {
        s \<leftarrow> (if mac_index s \<noteq> bss_id s
             then if pktAUTHENTICATE s = None then None
               else timer_stop M mhSend mhSend_update (s\<lparr>pktAUTHENTICATE := None\<rparr>)
             else Some s);
        if mac_index s = ap_addr s \<and> mf_seqno (mp_hdr p) = 1 \<and> pktAUTHENTICATE s \<noteq> None
        then discard p DROP_MAC_BUSY s
        else do {
          s \<leftarrow> (if mac_index s = ap_addr s then
                 if mf_seqno (mp_hdr p) = 1
                 then map_option (authenticating_node_update (\<lambda>_. pk_ta p))
                        (sendAUTHENTICATE M (pk_ta p) s)
                 else Some s
               else if mf_seqno (mp_hdr p) = 2 \<and> mf_statuscode (mp_hdr p) = 0 then do {
                 s \<leftarrow> sendACK M (pk_ta p) (s\<lparr>authenticated := True, bss_id := pk_3a p\<rparr>);
                 let add = fp_add (m_fp M);
                 timer_start M mhProbe mhProbe_update
                   (add (add (SIFSTime (phymib s)) (basic_txtime M (getACKlen (phymib s)) s))
                      (MaxChannelTime (macmib s))) s
               }
               else Some s);
          s \<leftarrow> resume_unless_sending M s;
          mac_log p s
        }
      })"

definition recvPROBEREQ :: "mac_env \<Rightarrow> mac_packet \<Rightarrow> mac \<Rightarrow> mac option" where
  "recvPROBEREQ M p s =
     (if tx_state s \<noteq> MAC_IDLE then discard p DROP_MAC_BUSY s
      else if pktPROBEREP s \<noteq> None then discard p DROP_MAC_BUSY s
      else do {
        s \<leftarrow> sendPROBEREP M (pk_ta p) s;
        s \<leftarrow> tx_resume M s;
        mac_log p s
      })"

definition recvPROBEREP :: "mac_env \<Rightarrow> mac_packet \<Rightarrow> mac \<Rightarrow> mac option" where
  "recvPROBEREP M p s = do {
     s \<leftarrow> sendACK M (pk_ta p) (update_ap_table (pk_ta p) (mp_RxPr p) (s\<lparr>Pr := mp_RxPr p\<rparr>));
     s \<leftarrow> resume_unless_sending M s;
     mac_log p s
   }"

section \<open>Timers\<close>

definition BeaconHandler :: "mac_env \<Rightarrow> mac \<Rightarrow> mac option" where
  "BeaconHandler M s = do {
     s \<leftarrow> timer_start M mhBeacon mhBeacon_update (BeaconInterval (phymib s)) s;
     sendBEACON M (mac_index s) s
   }"

text \<open>The last statement of \<open>ProbeHandler\<close>.\<close>

definition probe_join :: "mac_env \<Rightarrow> mac \<Rightarrow> mac option" where
  "probe_join M s = (if bss_id s \<noteq> IBSS_ID \<and> \<not> mt_busy (mhProbe s) then checkAssocAuthStatus M s
     else Some s)"

definition ProbeHandler :: "mac_env \<Rightarrow> mac \<Rightarrow> mac option" where
  "ProbeHandler M s =
     (if ScanType s = ACTIVE then
        if (bss_id s = IBSS_ID \<or> handoff s) \<and> \<not> OnMinChannelTime s \<and> \<not> Recv_Busy s
           \<and> \<not> OnMaxChannelTime s then
          if probe_delay s
          then map_option (probe_delay_update (\<lambda>_. False)) (sendPROBEREQ M MAC_BROADCAST s)
          else checkAssocAuthStatus M s
        else if OnMinChannelTime s \<and> Recv_Busy s \<and> \<not> OnMaxChannelTime s then
          timer_start M mhProbe mhProbe_update (MaxChannelTime (macmib s))
            (s\<lparr>OnMinChannelTime := False, OnMaxChannelTime := True\<rparr>)
        else if \<not> OnMinChannelTime s \<and> Recv_Busy s \<and> OnMaxChannelTime s then
          let s = s\<lparr>OnMaxChannelTime := False, Recv_Busy := False\<rparr>
          in if -1 < sint (strongest_ap M s) then active_scan M s else Some s
        else if OnMinChannelTime s \<and> \<not> Recv_Busy s \<and> \<not> OnMaxChannelTime s then
          Some (s\<lparr>OnMinChannelTime := False\<rparr>)
        else probe_join M s
      else if ScanType s = PASSIVE \<and> bss_id s = IBSS_ID then passive_scan M s
      else probe_join M s)"

end
