(* ===== verification/Mac_Dcf.thy ===== *)
theory Mac_Dcf
  imports Mac_Mgmt
begin

text \<open>
  The distributed coordination function of \<open>mac-802_11.cc\<close>: retransmission, the handlers of
  the timers, sending a packet of the layer above, and receiving frames from the channel.
\<close>

section \<open>Retransmission\<close>

text \<open>
  The packet is given up: the layer above is told before the packet is dropped, with the size it
  had without the MAC header.
\<close>

definition give_up_packet :: "mac_env \<Rightarrow> int \<Rightarrow> mac \<Rightarrow> mac option" where
  "give_up_packet M reason s = do {
     q \<leftarrow> pktTx s;
     s \<leftarrow> (if pk_xmit_failure q then
            let q = q\<lparr>pk_size := sint (word_of_int (pk_size q) - getHdrLen11 (phymib s)),
                      mp_xmit_reason := reason\<rparr>
            in m_xmit_failure M q (emit (Xmit_failure q) (s\<lparr>pktTx := Some q\<rparr>))
          else Some s);
     q \<leftarrow> pktTx s;
     s \<leftarrow> discard q DROP_MAC_RETRY_COUNT_EXCEEDED s;
     Some (s\<lparr>pktTx := None\<rparr>)
   }"

definition set_retry :: "mac_packet \<Rightarrow> mac_packet" where
  "set_retry = set_hdr (\<lambda>h. h\<lparr>dh_fc := (dh_fc h)\<lparr>fc_retry := True\<rparr>\<rparr>)"

definition RetransmitRTS :: "mac_env \<Rightarrow> mac \<Rightarrow> mac option" where
  "RetransmitRTS M s =
     (if pktTx s = None \<or> mt_busy (mhBackoff s) then None
      else do {
        r \<leftarrow> pktRTS s;
        let s = s\<lparr>macmib := (macmib s)\<lparr>RTSFailureCount := RTSFailureCount (macmib s) + 1\<rparr>,
                  ssrc := ssrc s + 1\<rparr>;
        if ShortRetryLimit (macmib s) \<le> ssrc s then do {
          s \<leftarrow> discard r DROP_MAC_RETRY_COUNT_EXCEEDED s;
          s \<leftarrow> give_up_packet M XMIT_REASON_RTS (s\<lparr>pktRTS := None\<rparr>);
          Some (rst_cw (s\<lparr>ssrc := 0\<rparr>))
        } else busy_medium M (s\<lparr>pktRTS := Some (set_retry r)\<rparr>)
      })"

text \<open>\<open>rcount\<close> points to \<open>ssrc_\<close> or \<open>slrc_\<close>.\<close>

definition short_frame :: "mac_packet \<Rightarrow> mac \<Rightarrow> bool" where
  "short_frame q s \<longleftrightarrow> (word_of_int (pk_size q) :: u32) \<le> RTSThreshold (macmib s)"

definition rcount :: "bool \<Rightarrow> mac \<Rightarrow> u32" where
  "rcount short s = (if short then ssrc s else slrc s)"

definition set_rcount :: "bool \<Rightarrow> u32 \<Rightarrow> mac \<Rightarrow> mac" where
  "set_rcount short n s = (if short then s\<lparr>ssrc := n\<rparr> else s\<lparr>slrc := n\<rparr>)"

definition RetransmitDATA :: "mac_env \<Rightarrow> mac \<Rightarrow> mac option" where
  "RetransmitDATA M s =
     (if mt_busy (mhBackoff s) \<or> pktRTS s \<noteq> None then None
      else do {
        q \<leftarrow> pktTx s;
        if pk_ra q = MAC_BROADCAST then backoff_start M 0 (rst_cw (s\<lparr>pktTx := None\<rparr>))
        else do {
          let short = short_frame q s;
          let thresh = (if short then ShortRetryLimit (macmib s) else LongRetryLimit (macmib s));
          let s = s\<lparr>macmib := (macmib s)\<lparr>ACKFailureCount := ACKFailureCount (macmib s) + 1\<rparr>\<rparr>;
          let s = set_rcount short (rcount short s + 1) s;
          if bss_id s \<noteq> IBSS_ID \<and> rcount short s = 3 \<and> \<not> handoff s then
            sendPROBEREQ M MAC_BROADCAST
              (s\<lparr>associated := False, authenticated := False, handoff := True, ScanType := ACTIVE\<rparr>)
          else if thresh \<le> rcount short s then do {
            let s = s\<lparr>macmib := (macmib s)\<lparr>FailedCount := FailedCount (macmib s) + 1\<rparr>\<rparr>;
            s \<leftarrow> give_up_packet M XMIT_REASON_ACK s;
            Some (rst_cw (set_rcount short 0 s))
          } else do {
            s \<leftarrow> sendRTS M (pk_ra q) (s\<lparr>pktTx := Some (set_retry q)\<rparr>);
            busy_medium M s
          }
        }
      })"

section \<open>Timer handlers\<close>

text \<open>A check that has dealt with a frame ends the handler.\<close>

definition unless_done ::
  "(mac \<Rightarrow> (bool \<times> mac) option) \<Rightarrow> (mac \<Rightarrow> mac option) \<Rightarrow> mac \<Rightarrow> mac option" where
  "unless_done check rest s = do {
     (done, s) \<leftarrow> check s;
     if done then Some s else rest s
   }"

text \<open>\<open>pkt && queue_head->frame_priority == n\<close>.\<close>

definition frame_turn :: "int \<Rightarrow> mac_packet option \<Rightarrow> mac \<Rightarrow> bool option" where
  "frame_turn n pkt s = (if pkt = None then Some False
     else if queue_head s = [] then None else Some (hd (queue_head s) = n))"

definition ap_check :: "mac_env \<Rightarrow> mac \<Rightarrow> (bool \<times> mac) option" where
  "ap_check M s = do {
     b1 \<leftarrow> frame_turn 1 (pktPROBEREP s) s;
     if b1 then check_pktPROBEREP M s else do {
     b2 \<leftarrow> frame_turn 2 (pktBEACON s) s;
     if b2 then check_pktBEACON M s else do {
     b3 \<leftarrow> frame_turn 3 (pktAUTHENTICATE s) s;
     if b3 then check_pktAUTHENTICATE M s else do {
     b4 \<leftarrow> frame_turn 4 (pktASSOCREP s) s;
     if b4 then check_pktASSOCREP M s else Some (False, s) }}}
   }"

definition check_data :: "mac_env \<Rightarrow> mac \<Rightarrow> mac option" where
  "check_data M = unless_done (check_pktRTS M) (unless_done (check_pktTx M) Some)"

definition backoffHandler :: "mac_env \<Rightarrow> mac \<Rightarrow> mac option" where
  "backoffHandler M s =
     (let own = (\<lambda>s.
        if pktCTRL s \<noteq> None then if mt_busy (mhSend s) \<or> mt_busy (mhDefer s) then Some s else None
        else if mac_index s = bss_id s then unless_done (ap_check M) (check_data M) s
        else check_data M s)
      in if mac_index s \<noteq> bss_id s \<and> infra_mode s
         then unless_done (check_pktPROBEREQ M) (unless_done (check_pktAUTHENTICATE M)
                (unless_done (check_pktASSOCREQ M) own)) s
         else own s)"

definition deferHandler :: "mac_env \<Rightarrow> mac \<Rightarrow> mac option" where
  "deferHandler M s =
     (if pktCTRL s = None \<and> pktRTS s = None \<and> pktTx s = None then None
      else unless_done (check_pktCTRL M)
        (\<lambda>s. if mt_busy (mhBackoff s) then None else check_data M s) s)"

text \<open>A management frame of the access point has been dealt with: the next one may follow.\<close>

definition next_mgmt :: "mac_env \<Rightarrow> mac \<Rightarrow> mac option" where
  "next_mgmt M s = (let s = s\<lparr>queue_head := shift_priority_queue (queue_head s)\<rparr>
     in if mt_busy (mhBackoff s) then None else backoff_start M 0 s)"

definition send_timer_bcn :: "mac_env \<Rightarrow> mac \<Rightarrow> mac option" where
  "send_timer_bcn M s = (if pktBEACON s = None then None else next_mgmt M (s\<lparr>pktBEACON := None\<rparr>))"

text \<open>The case \<open>MAC_MGMT\<close> falls through into \<open>MAC_BCN\<close> if no test holds.\<close>

definition send_timer_mgmt :: "mac_env \<Rightarrow> mac \<Rightarrow> mac option" where
  "send_timer_mgmt M s =
     (if pktAUTHENTICATE s \<noteq> None \<and> mac_index s \<noteq> bss_id s
      then checkAssocAuthStatus M (s\<lparr>pktAUTHENTICATE := None\<rparr>)
      else if pktAUTHENTICATE s \<noteq> None \<and> tx_mgmt s = 3
      then next_mgmt M (s\<lparr>pktAUTHENTICATE := None\<rparr>)
      else if pktASSOCREQ s \<noteq> None
      then checkAssocAuthStatus M (s\<lparr>pktASSOCREQ := None\<rparr>)
      else if pktASSOCREP s \<noteq> None \<and> tx_mgmt s = 4
      then map_option (\<lambda>s. update_client_table (associating_node s) 1 2 s)
             (next_mgmt M (s\<lparr>pktASSOCREP := None\<rparr>))
      else if pktPROBEREQ s \<noteq> None then Some (s\<lparr>pktPROBEREQ := None\<rparr>)
      else if pktPROBEREP s \<noteq> None \<and> tx_mgmt s = 1
      then next_mgmt M (s\<lparr>pktPROBEREP := None\<rparr>)
      else send_timer_bcn M s)"

definition send_timer :: "mac_env \<Rightarrow> mac \<Rightarrow> mac option" where
  "send_timer M s = do {
     s \<leftarrow> (case tx_state s of
         MAC_MGMT \<Rightarrow> send_timer_mgmt M s
       | MAC_BCN \<Rightarrow> send_timer_bcn M s
       | MAC_RTS \<Rightarrow> RetransmitRTS M s
       | MAC_CTS \<Rightarrow> if pktCTRL s = None then None else Some (s\<lparr>pktCTRL := None\<rparr>)
       | MAC_SEND \<Rightarrow> RetransmitDATA M s
       | MAC_ACK \<Rightarrow> if pktCTRL s = None then None else Some (s\<lparr>pktCTRL := None\<rparr>)
       | MAC_IDLE \<Rightarrow> Some s
       | MAC_RECV \<Rightarrow> None
       | MAC_COLL \<Rightarrow> None);
     tx_resume M s
   }"

section \<open>Sending a packet\<close>

text \<open>The energy model of the node, outside the repository, is not part of the state.\<close>

definition send :: "mac_env \<Rightarrow> mac_packet \<Rightarrow> bool \<Rightarrow> mac \<Rightarrow> mac option" where
  "send M p h s = do {
     s \<leftarrow> sendDATA M p (s\<lparr>callback := h\<rparr>);
     s \<leftarrow> sendRTS M (pk_ra p) s;
     q \<leftarrow> pktTx s;
     contend M (s\<lparr>pktTx := Some (set_hdr (\<lambda>h. h\<lparr>dh_scontrol := sta_seqno s\<rparr>) q),
                  sta_seqno := sta_seqno s + 1\<rparr>)
   }"

section \<open>Receiving control and data frames\<close>

definition recvRTS :: "mac_env \<Rightarrow> mac_packet \<Rightarrow> mac \<Rightarrow> mac option" where
  "recvRTS M p s =
     (if tx_state s \<noteq> MAC_IDLE \<or> pktCTRL s \<noteq> None then discard p DROP_MAC_BUSY s
      else do {
        s \<leftarrow> sendCTS M (pk_ta p) (fp_of_int (m_fp M) (uint (dh_duration (mp_hdr p)))) s;
        s \<leftarrow> (if mt_busy (mhDefer s) then timer_stop M mhDefer mhDefer_update s else Some s);
        s \<leftarrow> tx_resume M s;
        mac_log p s
      })"

definition recvCTS :: "mac_env \<Rightarrow> mac_packet \<Rightarrow> mac \<Rightarrow> mac option" where
  "recvCTS M p s =
     (if tx_state s \<noteq> MAC_RTS then discard p DROP_MAC_INVALID_STATE s
      else if pktRTS s = None \<or> pktTx s = None then None
      else do {
        s \<leftarrow> timer_stop M mhSend mhSend_update (s\<lparr>pktRTS := None\<rparr>);
        s \<leftarrow> tx_resume M (s\<lparr>ssrc := 0\<rparr>);
        mac_log p s
      })"

text \<open>The acknowledgement of a data frame; \<open>False\<close> is the early return behind \<open>discard\<close>.\<close>

definition acknowledge :: "mac_env \<Rightarrow> mac_packet \<Rightarrow> u32 \<Rightarrow> mac \<Rightarrow> (bool \<times> mac) option" where
  "acknowledge M p sz s =
     (if pk_ra p = MAC_BROADCAST then Some (True, s)
      else if RTSThreshold (macmib s) \<le> sz then
        if tx_state s = MAC_CTS then
          if pktCTRL s = None then None
          else do {
            s \<leftarrow> timer_stop M mhSend mhSend_update (s\<lparr>pktCTRL := None\<rparr>);
            s \<leftarrow> sendACK M (pk_ta p) s;
            map_option (Pair True) (tx_resume M s)
          }
        else map_option (Pair False) (discard p DROP_MAC_BUSY s)
      else if pktCTRL s \<noteq> None then map_option (Pair False) (discard p DROP_MAC_BUSY s)
      else do {
        s \<leftarrow> sendACK M (pk_ta p) s;
        map_option (Pair True) (resume_unless_sending M s)
      })"

text \<open>
  The sequence number cache; \<open>True\<close> means a duplicate. A source behind its end is only
  reported on the output.
\<close>

definition seen_before :: "mac_packet \<Rightarrow> mac \<Rightarrow> (bool \<times> mac) option" where
  "seen_before p s =
     (let src = pk_ta p; no = ucast (dh_scontrol (mp_hdr p)) in
      if pk_ra p = MAC_BROADCAST then Some (False, s)
      else if src < word_of_int (cache_node_count s) then do {
        c \<leftarrow> cache s;
        q \<leftarrow> arr_get c (uint src);
        if q \<noteq> 0 \<and> q = no then Some (True, s)
        else do {
          c \<leftarrow> arr_set c (uint src) no;
          Some (False, s\<lparr>cache := Some c\<rparr>)
        }
      } else Some (False, s))"

definition pass_up :: "mac_env \<Rightarrow> mac_packet \<Rightarrow> mac \<Rightarrow> mac option" where
  "pass_up M p s = m_up M p (emit (Pass_up p) s)"

text \<open>An access point turns a packet for another station around.\<close>

definition ap_relay :: "mac_env \<Rightarrow> mac_packet \<Rightarrow> mac \<Rightarrow> (mac_packet \<times> mac) option" where
  "ap_relay M p s =
     (if bss_id s = mac_index s \<and> pk_ra p \<noteq> MAC_BROADCAST \<and> pk_3a p \<noteq> mac_index s
         \<and> \<not> fc_from_ds (dh_fc (mp_hdr p)) then do {
        let dst = pk_3a p;
        s \<leftarrow> (if dst = MAC_BROADCAST then pass_up M p s else Some s);
        Some (set_hdr (\<lambda>h. if find_client dst s \<or> dst = MAC_BROADCAST
                 then h\<lparr>dh_3a := dh_ta h\<rparr> else h\<lparr>dh_4a := dh_ta h\<rparr>)
               (p\<lparr>pk_next_hop := dst, pk_addr_type := NS_AF_ILINK, pk_direction := DOWN\<rparr>), s)
      } else Some (p, s))"

definition ap_forward :: "mac_packet \<Rightarrow> mac \<Rightarrow> mac_packet" where
  "ap_forward p s =
     (if bss_id s = mac_index s \<and> fc_to_ds (dh_fc (mp_hdr p)) \<and> fc_from_ds (dh_fc (mp_hdr p))
      then set_hdr (\<lambda>h. h\<lparr>dh_3a := dh_4a h\<rparr>)
             (p\<lparr>pk_next_hop := pk_3a p, pk_addr_type := NS_AF_ILINK, pk_direction := DOWN\<rparr>)
      else p)"

definition recvDATA :: "mac_env \<Rightarrow> mac_packet \<Rightarrow> mac \<Rightarrow> mac option" where
  "recvDATA M p s = do {
     let sz = (word_of_int (pk_size p) :: u32);
     let p = p\<lparr>pk_size := sint (sz - getHdrLen11 (phymib s)), pk_num_forwards := pk_num_forwards p + 1\<rparr>;
     (go, s) \<leftarrow> acknowledge M p sz s;
     if \<not> go then Some s
     else do {
       (dup, s) \<leftarrow> seen_before p s;
       if dup then discard p DROP_MAC_DUPLICATE s
       else do {
         (p, s) \<leftarrow> ap_relay M p s;
         pass_up M (ap_forward p s) s
       }
     }
   }"

definition recvACK :: "mac_env \<Rightarrow> mac_packet \<Rightarrow> mac \<Rightarrow> mac option" where
  "recvACK M p s =
     (if tx_state s = MAC_MGMT then do {
        s \<leftarrow> timer_stop M mhSend mhSend_update s;
        s \<leftarrow> (if mac_index s = bss_id s then
               let s = (if pktASSOCREP s \<noteq> None \<and> tx_mgmt s = 4
                     then update_client_table (associating_node s) 1 1 (s\<lparr>pktASSOCREP := None\<rparr>) else s);
                 s = (if pktPROBEREP s \<noteq> None \<and> tx_mgmt s = 1 then s\<lparr>pktPROBEREP := None\<rparr> else s);
                 s = (if pktAUTHENTICATE s \<noteq> None \<and> tx_mgmt s = 3
                     then update_client_table (authenticating_node s) 1 0 (s\<lparr>pktAUTHENTICATE := None\<rparr>)
                     else s)
               in next_mgmt M s
             else Some s);
        s \<leftarrow> tx_resume M s;
        mac_log p s
      }
      else if tx_state s \<noteq> MAC_SEND then discard p DROP_MAC_INVALID_STATE s
      else do {
        q \<leftarrow> pktTx s;
        s \<leftarrow> timer_stop M mhSend mhSend_update s;
        let s = (rst_cw (set_rcount (short_frame q s) 0 s))\<lparr>pktTx := None\<rparr>;
        s \<leftarrow> (if mt_busy (mhBackoff s) then None else backoff_start M 0 s);
        s \<leftarrow> tx_resume M s;
        mac_log p s
      })"

section \<open>Noise\<close>

text \<open>A radio whose work mode is negative jams its channel: it neither sends nor receives.\<close>

definition noiseHandler :: "mac_env \<Rightarrow> mac \<Rightarrow> mac option" where
  "noiseHandler M s =
     (let F = m_fp M; m = phymib s; twice = fp_mul F (fp_of_int F 2);
        p = set_hdr (\<lambda>h. h\<lparr>dh_ra := MAC_BROADCAST, dh_ta := mac_index s,
              dh_duration := usec M (fp_add F (twice (SIFSTime m))
                (twice (basic_txtime M (getNoiselen m) s)))\<rparr>)
              (new_frame M MAC_Type_Reserved MAC_Subtype_Noise (getNoiselen m) s);
        s = s\<lparr>tx_active := True\<rparr>
      in if EOTtarget s \<and> eotPacket s \<noteq> None then None
         else timer_start M mhNoise mhNoise_update (noiseInterval s)
           (emit (Send_down p) (if EOTtarget s then s\<lparr>eotPacket := Some p\<rparr> else s)))"

text \<open>\<open>validInterval\<close> is 2.\<close>

definition recvNoise :: "mac_env \<Rightarrow> mac_packet \<Rightarrow> mac \<Rightarrow> mac option" where
  "recvNoise M p s = do {
     let s = s\<lparr>noisePower := mp_RxPr p, noiseFlag := True, validInterval := 0x4000000000000000\<rparr>;
     s \<leftarrow> (if mt_busy (mhValid s) then timer_stop M mhValid mhValid_update s else Some s);
     timer_start M mhValid mhValid_update (validInterval s) s
   }"

definition validHandler :: "mac \<Rightarrow> mac" where
  "validHandler s = s\<lparr>noisePower := 0, noiseFlag := False\<rparr>"

definition getNoiseFlag :: "mac \<Rightarrow> bool" where "getNoiseFlag s = noiseFlag s"
definition getNoisePower :: "mac \<Rightarrow> double" where "getNoisePower s = noisePower s"

text \<open>What the agent asks for: whether the receiver is idle, and the signal to noise ratio.\<close>

definition getState :: "mac \<Rightarrow> int" where
  "getState s = (if rx_state s = MAC_IDLE then 1 else 0)"

definition average :: "fp \<Rightarrow> int \<Rightarrow> double \<Rightarrow> double \<Rightarrow> double \<Rightarrow> double" where
  "average F n a b c =
     (if n = 0 then 0
      else if n = 1 then a
      else if n = 2 then fp_div F (fp_add F a b) (fp_of_int F 2)
      else if n \<ge> 3 then fp_div F (fp_add F (fp_add F a b) c) (fp_of_int F 3)
      else 0)"

text \<open>Without noise the ratio is the constant 3.\<close>

definition getSNR :: "mac_env \<Rightarrow> mac \<Rightarrow> double" where
  "getSNR M s =
     (let F = m_fp M;
        avgSignal = average F (signalNum s) (channelSignal1 s) (channelSignal2 s) (channelSignal3 s);
        avgNoise = average F (noiseNum s) (channelNoise1 s) (channelNoise2 s) (channelNoise3 s)
      in if noiseNum s = 0 then 0x4008000000000000 else fp_div F avgSignal avgNoise)"

text \<open>The power of a frame that arrives is noted, in millionths, in the window of three.\<close>

definition note_noise :: "double \<Rightarrow> mac \<Rightarrow> mac" where
  "note_noise x s =
     (let s = s\<lparr>noiseNum := noiseNum s + 1\<rparr> in
      if noiseNum s = 0 then s\<lparr>channelNoise1 := x\<rparr>
      else if noiseNum s = 1 then s\<lparr>channelNoise2 := x\<rparr>
      else if noiseNum s = 2 then s\<lparr>channelNoise3 := x\<rparr>
      else if noiseNum s \<ge> 3
      then s\<lparr>channelNoise1 := channelNoise2 s, channelNoise2 := channelNoise3 s, channelNoise3 := x\<rparr>
      else s)"

definition note_signal :: "double \<Rightarrow> mac \<Rightarrow> mac" where
  "note_signal x s =
     (let s = s\<lparr>signalNum := signalNum s + 1\<rparr> in
      if signalNum s = 0 then s\<lparr>channelSignal1 := x\<rparr>
      else if signalNum s = 1 then s\<lparr>channelSignal2 := x\<rparr>
      else if signalNum s = 2 then s\<lparr>channelSignal3 := x\<rparr>
      else if signalNum s \<ge> 3
      then s\<lparr>channelSignal1 := channelSignal2 s, channelSignal2 := channelSignal3 s, channelSignal3 := x\<rparr>
      else s)"

section \<open>Reception\<close>

definition note_power :: "mac_env \<Rightarrow> mac_packet \<Rightarrow> mac \<Rightarrow> mac" where
  "note_power M p = (let x = fp_mul (m_fp M) (mp_RxPr p) 0x412E848000000000
     in if pk_type p = MAC_Type_Reserved then note_noise x else note_signal x)"

definition d_le :: "double \<Rightarrow> double \<Rightarrow> bool" where
  "d_le x y \<longleftrightarrow> \<not> d_is_nan x \<and> \<not> d_is_nan y \<and> d_key x \<le> d_key y"

text \<open>The first bit of a packet arrives from the channel, or a packet of the layer above.\<close>

definition recv :: "mac_env \<Rightarrow> mac_packet \<Rightarrow> bool \<Rightarrow> mac \<Rightarrow> mac option" where
  "recv M p h s =
     (let p = p\<lparr>pk_iface := sint (mac_index s)\<rparr> in
      if workMode s < 0 then Some s
      else if cache s = None \<or> \<not> logtarget s \<or> \<not> mac_initialized s then None
      else if pk_direction p = DOWN then send M p h s
      else do {
        let s = note_power M p s;
        let p = (if tx_active s \<and> pk_error p = 0 then p\<lparr>pk_error := 1\<rparr> else p);
        if rx_state s = MAC_IDLE then do {
          s \<leftarrow> setRxState M MAC_RECV s;
          t \<leftarrow> txtime p;
          timer_start M mhRecv mhRecv_update t
            (s\<lparr>pktRx := Some p,
               Recv_Busy := Recv_Busy s \<or> mt_busy (mhProbe s) \<and> OnMinChannelTime s\<rparr>)
        } else do {
          r \<leftarrow> pktRx s;
          if d_le (mp_CPThresh p) (fp_div (m_fp M) (mp_RxPr r) (mp_RxPr p))
          then capture M p s
          else collision M p s
        }
      })"

text \<open>The address filter of \<open>recv_timer\<close>.\<close>

definition filtered :: "mac_packet \<Rightarrow> mac \<Rightarrow> bool" where
  "filtered p s \<longleftrightarrow>
     (pk_ra p \<noteq> mac_index s \<and> pk_ra p \<noteq> MAC_BROADCAST)
     \<or> pk_ra p = MAC_BROADCAST \<and> fc_to_ds (dh_fc (mp_hdr p)) \<and> fc_from_ds (dh_fc (mp_hdr p))
        \<and> (mac_index s \<noteq> bss_id s \<or> \<not> find_client (pk_3a p) s)
     \<or> mac_index s = bss_id s \<and> pk_subtype p = MAC_Subtype_80211_Beacon
     \<or> mac_index s \<noteq> bss_id s \<and> pk_subtype p = MAC_Subtype_ProbeReq"

text \<open>The \<open>switch\<close> over type and subtype.\<close>

definition dispatch :: "mac_env \<Rightarrow> mac_packet \<Rightarrow> mac \<Rightarrow> mac option" where
  "dispatch M p s =
     (if pk_type p = MAC_Type_Management then
        if pk_subtype p = MAC_Subtype_80211_Beacon then recvBEACON p s
        else if pk_subtype p = MAC_Subtype_Auth then recvAUTHENTICATE M p s
        else if pk_subtype p = MAC_Subtype_AssocReq then recvASSOCREQ M p s
        else if pk_subtype p = MAC_Subtype_AssocRep then recvASSOCREP M p s
        else if pk_subtype p = MAC_Subtype_ProbeReq then recvPROBEREQ M p s
        else if pk_subtype p = MAC_Subtype_ProbeRep then recvPROBEREP M p s
        else None
      else if pk_type p = MAC_Type_Control then
        if pk_subtype p = MAC_Subtype_RTS then recvRTS M p s
        else if pk_subtype p = MAC_Subtype_CTS then recvCTS M p s
        else if pk_subtype p = MAC_Subtype_ACK then recvACK M p s
        else None
      else if pk_type p = MAC_Type_Data then
        if pk_subtype p = MAC_Subtype_Data then recvDATA M p s else None
      else if pk_type p = MAC_Type_Reserved then
        if pk_subtype p = MAC_Subtype_Noise then recvNoise M p s else None
      else None)"

definition recv_timer :: "mac_env \<Rightarrow> mac \<Rightarrow> mac option" where
  "recv_timer M s = do {
     p \<leftarrow> pktRx s;
     let eifs = usec M (getEIFS (m_fp M) (phymib s));
     s \<leftarrow> (if rx_state s \<noteq> MAC_RECV \<and> rx_state s \<noteq> MAC_COLL then None
          else if tx_active s then Some s
          else if rx_state s = MAC_COLL then do {
            s \<leftarrow> discard p DROP_MAC_COLLISION s;
            set_nav M eifs s
          }
          else if pk_error p \<noteq> 0 then set_nav M eifs s
          else do {
            s \<leftarrow> (if pk_ra p \<noteq> mac_index s then set_nav M (dh_duration (mp_hdr p)) s else Some s);
            let s = (if tap s \<and> pk_type p = MAC_Type_Data \<and> pk_subtype p = MAC_Subtype_Data
                     then emit (Tap_out p) s else s);
            if filtered p s then discard p DROP_filtered s else dispatch M p s
          });
     rx_resume M (s\<lparr>pktRx := None\<rparr>)
   }"

end
