(* ===== verification/Mac_Init.thy ===== *)
theory Mac_Init
  imports Mac_Dcf
begin

text \<open>
  The constructor of \<open>Mac802_11\<close> and its Tcl commands. Members that the constructor does not
  assign keep what \<open>u\<close>, the memory, holds; the values bound to Tcl variables are in \<open>u\<close> too.
\<close>

definition idle_timer :: mac_timer where
  "idle_timer = \<lparr>mt_busy = False, mt_paused = False, mt_expire = 0\<rparr>"

text \<open>The members of the base class, cleared by its constructor.\<close>

definition Mac_base_init :: "mac \<Rightarrow> mac" where
  "Mac_base_init u = u\<lparr>pktTx := None, pktRx := None, callback := False\<rparr>"

definition Mac_timers_init :: "mac \<Rightarrow> mac" where
  "Mac_timers_init u = u\<lparr>mhIF := idle_timer, mhNav := idle_timer, mhRecv := idle_timer,
     mhSend := idle_timer, mhNoise := idle_timer, mhValid := idle_timer, mhDefer := idle_timer,
     mhBackoff := idle_timer, mhBeacon := idle_timer, mhProbe := idle_timer\<rparr>"

definition Mac802_11_init :: "mac \<Rightarrow> mac" where
  "Mac802_11_init u = (Mac_timers_init (Mac_base_init u))
     \<lparr>nav := 0, tx_state := MAC_IDLE, rx_state := MAC_IDLE, tx_active := False,
      eotPacket := None, pktRTS := None, pktCTRL := None, pktBEACON := None, pktASSOCREP := None,
      pktASSOCREQ := None, pktAUTHENTICATE := None, pktPROBEREQ := None, pktPROBEREP := None,
      BeaconTxtime := 0, infra_mode := False, cw := CWMin (phymib u), ssrc := 0, slrc := 0,
      sta_seqno := 1, cache := None, cache_node_count := 0, client_list1 := [], ap_list1 := [],
      queue_head := [], Pr := 0, ap_temp := -1, ap_addr := -1, tx_mgmt := 0,
      associated := False, authenticated := False, OnMinChannelTime := False,
      OnMaxChannelTime := False, Recv_Busy := False, handoff := False, EOTtarget := False,
      bss_id := IBSS_ID, noiseChannel := 0, workMode := 0, noiseFlag := False,
      noiseInterval := 0x3FF0000000000000, noisePower := 0, validInterval := 0x3FF0000000000000,
      mac_channelNum := 0, signalNum := 0, noiseNum := 0, channelSignal1 := 0, channelSignal2 := 0,
      channelSignal3 := 0, channelNoise1 := 0, channelNoise2 := 0, channelNoise3 := 0\<rparr>"

text \<open>
  The commands; the result is \<open>TCL_OK\<close> (\<open>True\<close>) or \<open>TCL_ERROR\<close>. \<open>argv[0]\<close> is part of the
  arguments. The interval \<open>0.001\<close> is written as its bit pattern.
\<close>

definition set_ap :: "mac_env \<Rightarrow> mac \<Rightarrow> mac option" where
  "set_ap M s =
     (let s = s\<lparr>ap_addr := mac_index s, bss_id := mac_index s, infra_mode := True\<rparr>; F = m_fp M in
      if cw s = 0 then None
      else timer_start M mhBeacon mhBeacon_update
        (fp_mul F (fp_of_int F (c_mod (m_random M (mac_rng s)) (uint (cw s)))) (SlotTime (phymib s)))
        (s\<lparr>mac_rng := mac_rng s + 1\<rparr>))"

definition set_scan_type :: "mac_env \<Rightarrow> string \<Rightarrow> mac \<Rightarrow> mac option" where
  "set_scan_type M arg s =
     (if arg = ''ACTIVE'' then
        map_option (probe_delay_update (\<lambda>_. True))
          (timer_start M mhProbe mhProbe_update (ProbeDelay (macmib s))
             (s\<lparr>ScanType := ACTIVE, infra_mode := True\<rparr>))
      else if arg = ''PASSIVE'' then
        map_option (infra_mode_update (\<lambda>_. True))
          (timer_start M mhProbe mhProbe_update (ChannelTime (macmib s)) (s\<lparr>ScanType := PASSIVE\<rparr>))
      else Some s)"

definition set_workMode :: "mac_env \<Rightarrow> string \<Rightarrow> string \<Rightarrow> string \<Rightarrow> mac \<Rightarrow> mac option" where
  "set_workMode M mode noise channel s =
     (let s = s\<lparr>workMode := m_atoi M mode, noiseChannel := m_atoi M noise,
                mac_channelNum := m_atoi M channel, noiseInterval := 0x3F50624DD2F1A9FC\<rparr> in
      if workMode s < 0 \<and> (noiseChannel s = mac_channelNum s \<or> noiseChannel s = -1)
      then timer_start M mhNoise mhNoise_update (noiseInterval s) s
      else Some s)"

definition new_cache :: "int \<Rightarrow> mac \<Rightarrow> mac option" where
  "new_cache n s = (if n + 1 < 0 then None
     else Some (s\<lparr>cache_node_count := n, cache := Some (replicate (nat (n + 1)) 0)\<rparr>))"

definition mac_command :: "mac_env \<Rightarrow> string list \<Rightarrow> mac \<Rightarrow> (bool \<times> mac) option" where
  "mac_command M argv s = (case argv of
     [_, cmd, arg] \<Rightarrow>
       if cmd = ''eot-target'' then Some (m_lookup M arg, s\<lparr>EOTtarget := m_lookup M arg\<rparr>)
       else if cmd = ''ap'' then map_option (Pair True) (set_ap M s)
       else if cmd = ''ScanType'' then map_option (Pair True) (set_scan_type M arg s)
       else if cmd = ''log-target'' then Some (m_lookup M arg, s\<lparr>logtarget := m_lookup M arg\<rparr>)
       else if cmd = ''nodes'' then
         if cache s \<noteq> None then Some (False, s) else map_option (Pair True) (new_cache (m_atoi M arg) s)
       else if cmd = ''eventtrace'' then Some (True, s)
       else m_base_command M argv s
   | [_, cmd, mode, noise, channel] \<Rightarrow>
       if cmd = ''set-workMode'' then map_option (Pair True) (set_workMode M mode noise channel s)
       else m_base_command M argv s
   | _ \<Rightarrow> m_base_command M argv s)"

end
