(* ===== verification/Mac_Inv.thy ===== *)
theory Mac_Inv
  imports Mac_Init
begin

text \<open>
  The invariant of the MAC: the contention window stays within its bounds, the retry counters
  below their limits, the receiver holds a packet exactly while it is not idle, and every
  waiting frame has the type of its variable. Every operation preserves it, provided the layers above come back into the MAC only
  by sending packets.
\<close>

section \<open>The invariant\<close>

definition frame_is :: "u8 \<Rightarrow> u8 set \<Rightarrow> mac_packet option \<Rightarrow> bool" where
  "frame_is type subs pkt \<longleftrightarrow> (\<forall>p. pkt = Some p \<longrightarrow> pk_type p = type \<and> pk_subtype p \<in> subs)"

lemma frame_is_None [simp]: "frame_is type subs None"
  by (simp add: frame_is_def)

lemma frame_is_Some [simp]: "frame_is type subs (Some p) \<longleftrightarrow> pk_type p = type \<and> pk_subtype p \<in> subs"
  by (simp add: frame_is_def)

text \<open>What the limits are configured to (by default 31, 1023, 7 and 4).\<close>

definition mib_ok :: "mac \<Rightarrow> bool" where
  "mib_ok s \<longleftrightarrow> CWMin (phymib s) \<le> CWMax (phymib s) \<and> CWMax (phymib s) < 0x40000000
     \<and> 3 < ShortRetryLimit (macmib s) \<and> 3 < LongRetryLimit (macmib s)"

definition rx_ok :: "MacState \<Rightarrow> mac_packet option \<Rightarrow> bool" where
  "rx_ok st pkt \<longleftrightarrow> (st = MAC_IDLE \<and> pkt = None \<or> (st = MAC_RECV \<or> st = MAC_COLL) \<and> pkt \<noteq> None)"

definition mgmt_ok ::
  "mac_packet option \<times> mac_packet option \<times> mac_packet option \<times> mac_packet option
    \<times> mac_packet option \<times> mac_packet option \<times> int list \<Rightarrow> bool" where
  "mgmt_ok = (\<lambda>(b, q, r, a, pq, pr, l).
     frame_is MAC_Type_Management {MAC_Subtype_80211_Beacon} b
     \<and> frame_is MAC_Type_Management {MAC_Subtype_AssocReq} q
     \<and> frame_is MAC_Type_Management {MAC_Subtype_AssocRep} r
     \<and> frame_is MAC_Type_Management {MAC_Subtype_Auth} a
     \<and> frame_is MAC_Type_Management {MAC_Subtype_ProbeReq} pq
     \<and> frame_is MAC_Type_Management {MAC_Subtype_ProbeRep} pr \<and> frames_ok l)"

definition mgmt_part :: "mac \<Rightarrow> mac_packet option \<times> mac_packet option \<times> mac_packet option
    \<times> mac_packet option \<times> mac_packet option \<times> mac_packet option \<times> int list" where
  "mgmt_part s = (pktBEACON s, pktASSOCREQ s, pktASSOCREP s, pktAUTHENTICATE s, pktPROBEREQ s,
     pktPROBEREP s, queue_head s)"

definition data_ok :: "mac \<Rightarrow> bool" where
  "data_ok s \<longleftrightarrow> frame_is MAC_Type_Data {MAC_Subtype_Data} (pktTx s)
     \<and> frame_is MAC_Type_Control {MAC_Subtype_RTS} (pktRTS s)
     \<and> frame_is MAC_Type_Control {MAC_Subtype_CTS, MAC_Subtype_ACK} (pktCTRL s)"

definition cw_ok :: "mac \<Rightarrow> bool" where
  "cw_ok s \<longleftrightarrow> CWMin (phymib s) \<le> cw s \<and> cw s \<le> CWMax (phymib s)"

text \<open>\<open>a\<close> and \<open>b\<close> say whether the short and the long retry count are below their limits.\<close>

definition mac_inv :: "bool \<Rightarrow> bool \<Rightarrow> mac \<Rightarrow> bool" where
  "mac_inv a b s \<longleftrightarrow> mib_ok s \<and> cw_ok s \<and> rx_ok (rx_state s) (pktRx s) \<and> data_ok s
     \<and> mgmt_ok (mgmt_part s) \<and> (a \<longrightarrow> ssrc s < ShortRetryLimit (macmib s))
     \<and> (b \<longrightarrow> slrc s < LongRetryLimit (macmib s))"

abbreviation mac_ok :: "mac \<Rightarrow> bool" where "mac_ok \<equiv> mac_inv True True"

lemmas mac_inv_defs = mac_inv_def mib_ok_def cw_ok_def data_ok_def mgmt_part_def

text \<open>Members the invariant does not mention.\<close>

lemma mac_inv_frame [simp]:
  "mac_inv a b (s\<lparr>mhIF := t\<rparr>) = mac_inv a b s" "mac_inv a b (s\<lparr>mhNav := t\<rparr>) = mac_inv a b s"
  "mac_inv a b (s\<lparr>mhRecv := t\<rparr>) = mac_inv a b s" "mac_inv a b (s\<lparr>mhSend := t\<rparr>) = mac_inv a b s"
  "mac_inv a b (s\<lparr>mhDefer := t\<rparr>) = mac_inv a b s" "mac_inv a b (s\<lparr>mhBackoff := t\<rparr>) = mac_inv a b s"
  "mac_inv a b (s\<lparr>mhBeacon := t\<rparr>) = mac_inv a b s" "mac_inv a b (s\<lparr>mhProbe := t\<rparr>) = mac_inv a b s"
  "mac_inv a b (s\<lparr>mhNoise := t\<rparr>) = mac_inv a b s" "mac_inv a b (s\<lparr>mhValid := t\<rparr>) = mac_inv a b s"
  "mac_inv a b (s\<lparr>nav := x\<rparr>) = mac_inv a b s" "mac_inv a b (s\<lparr>tx_state := st\<rparr>) = mac_inv a b s"
  "mac_inv a b (s\<lparr>tx_active := c\<rparr>) = mac_inv a b s" "mac_inv a b (s\<lparr>eotPacket := p\<rparr>) = mac_inv a b s"
  "mac_inv a b (s\<lparr>mac_rng := n\<rparr>) = mac_inv a b s" "mac_inv a b (s\<lparr>mac_out := es\<rparr>) = mac_inv a b s"
  "mac_inv a b (s\<lparr>callback := c\<rparr>) = mac_inv a b s" "mac_inv a b (s\<lparr>clock := x\<rparr>) = mac_inv a b s"
  by (simp_all add: mac_inv_defs)

lemma mac_inv_frame2 [simp]:
  "mac_inv a b (s\<lparr>infra_mode := c\<rparr>) = mac_inv a b s" "mac_inv a b (s\<lparr>bss_id := u\<rparr>) = mac_inv a b s"
  "mac_inv a b (s\<lparr>BeaconTxtime := x\<rparr>) = mac_inv a b s" "mac_inv a b (s\<lparr>associated := c\<rparr>) = mac_inv a b s"
  "mac_inv a b (s\<lparr>authenticated := c\<rparr>) = mac_inv a b s" "mac_inv a b (s\<lparr>handoff := c\<rparr>) = mac_inv a b s"
  "mac_inv a b (s\<lparr>Pr := x\<rparr>) = mac_inv a b s" "mac_inv a b (s\<lparr>ap_temp := u\<rparr>) = mac_inv a b s"
  "mac_inv a b (s\<lparr>ap_addr := u\<rparr>) = mac_inv a b s" "mac_inv a b (s\<lparr>tx_mgmt := i\<rparr>) = mac_inv a b s"
  "mac_inv a b (s\<lparr>associating_node := u\<rparr>) = mac_inv a b s"
  "mac_inv a b (s\<lparr>authenticating_node := u\<rparr>) = mac_inv a b s"
  "mac_inv a b (s\<lparr>ScanType := i\<rparr>) = mac_inv a b s"
  "mac_inv a b (s\<lparr>OnMinChannelTime := c\<rparr>) = mac_inv a b s"
  "mac_inv a b (s\<lparr>OnMaxChannelTime := c\<rparr>) = mac_inv a b s"
  "mac_inv a b (s\<lparr>Recv_Busy := c\<rparr>) = mac_inv a b s" "mac_inv a b (s\<lparr>probe_delay := c\<rparr>) = mac_inv a b s"
  "mac_inv a b (s\<lparr>client_list1 := cs\<rparr>) = mac_inv a b s" "mac_inv a b (s\<lparr>ap_list1 := as\<rparr>) = mac_inv a b s"
  by (simp_all add: mac_inv_defs)

lemma mac_inv_frame3 [simp]:
  "mac_inv a b (s\<lparr>sta_seqno := n\<rparr>) = mac_inv a b s" "mac_inv a b (s\<lparr>cache := c\<rparr>) = mac_inv a b s"
  "mac_inv a b (s\<lparr>cache_node_count := i\<rparr>) = mac_inv a b s"
  "mac_inv a b (s\<lparr>logtarget := d\<rparr>) = mac_inv a b s" "mac_inv a b (s\<lparr>EOTtarget := d\<rparr>) = mac_inv a b s"
  "mac_inv a b (s\<lparr>mac_initialized := d\<rparr>) = mac_inv a b s"
  "mac_inv a b (s\<lparr>noiseChannel := i\<rparr>) = mac_inv a b s" "mac_inv a b (s\<lparr>workMode := i\<rparr>) = mac_inv a b s"
  "mac_inv a b (s\<lparr>noiseFlag := d\<rparr>) = mac_inv a b s" "mac_inv a b (s\<lparr>noiseInterval := x\<rparr>) = mac_inv a b s"
  "mac_inv a b (s\<lparr>noisePower := x\<rparr>) = mac_inv a b s" "mac_inv a b (s\<lparr>validInterval := x\<rparr>) = mac_inv a b s"
  "mac_inv a b (s\<lparr>mac_channelNum := i\<rparr>) = mac_inv a b s" "mac_inv a b (s\<lparr>signalNum := i\<rparr>) = mac_inv a b s"
  "mac_inv a b (s\<lparr>noiseNum := i\<rparr>) = mac_inv a b s" "mac_inv a b (s\<lparr>channelSignal1 := x\<rparr>) = mac_inv a b s"
  "mac_inv a b (s\<lparr>channelSignal2 := x\<rparr>) = mac_inv a b s" "mac_inv a b (s\<lparr>channelSignal3 := x\<rparr>) = mac_inv a b s"
  "mac_inv a b (s\<lparr>channelNoise1 := x\<rparr>) = mac_inv a b s" "mac_inv a b (s\<lparr>channelNoise2 := x\<rparr>) = mac_inv a b s"
  "mac_inv a b (s\<lparr>channelNoise3 := x\<rparr>) = mac_inv a b s"
  by (simp_all add: mac_inv_defs)

text \<open>Members it does mention.\<close>

lemma mac_inv_set [simp]:
  assumes "mac_inv a b s"
  shows "mac_inv a b (s\<lparr>pktCTRL := pkt\<rparr>)
      \<longleftrightarrow> frame_is MAC_Type_Control {MAC_Subtype_CTS, MAC_Subtype_ACK} pkt"
    "mac_inv a b (s\<lparr>pktRTS := pkt\<rparr>) \<longleftrightarrow> frame_is MAC_Type_Control {MAC_Subtype_RTS} pkt"
    "mac_inv a b (s\<lparr>pktTx := pkt\<rparr>) \<longleftrightarrow> frame_is MAC_Type_Data {MAC_Subtype_Data} pkt"
    "mac_inv a b (s\<lparr>pktRx := Some q\<rparr>) \<longleftrightarrow> rx_state s \<noteq> MAC_IDLE"
    "mac_inv a b (s\<lparr>cw := c\<rparr>) \<longleftrightarrow> CWMin (phymib s) \<le> c \<and> c \<le> CWMax (phymib s)"
  using assms by (auto simp: mac_inv_defs rx_ok_def)

lemma mac_inv_mgmt [simp]:
  assumes "mac_inv a b s"
  shows "mac_inv a b (s\<lparr>pktBEACON := p\<rparr>) \<longleftrightarrow> frame_is MAC_Type_Management {MAC_Subtype_80211_Beacon} p"
    "mac_inv a b (s\<lparr>pktASSOCREQ := p\<rparr>) \<longleftrightarrow> frame_is MAC_Type_Management {MAC_Subtype_AssocReq} p"
    "mac_inv a b (s\<lparr>pktASSOCREP := p\<rparr>) \<longleftrightarrow> frame_is MAC_Type_Management {MAC_Subtype_AssocRep} p"
    "mac_inv a b (s\<lparr>pktAUTHENTICATE := p\<rparr>) \<longleftrightarrow> frame_is MAC_Type_Management {MAC_Subtype_Auth} p"
    "mac_inv a b (s\<lparr>pktPROBEREQ := p\<rparr>) \<longleftrightarrow> frame_is MAC_Type_Management {MAC_Subtype_ProbeReq} p"
    "mac_inv a b (s\<lparr>pktPROBEREP := p\<rparr>) \<longleftrightarrow> frame_is MAC_Type_Management {MAC_Subtype_ProbeRep} p"
    "mac_inv a b (s\<lparr>queue_head := l\<rparr>) \<longleftrightarrow> frames_ok l"
  using assms by (auto simp: mac_inv_defs mgmt_ok_def)

lemma mac_invD:
  assumes "mac_inv a b s"
  shows "rx_ok (rx_state s) (pktRx s)" "mib_ok s" "cw_ok s" "frames_ok (queue_head s)"
    "frame_is MAC_Type_Data {MAC_Subtype_Data} (pktTx s)"
    "frame_is MAC_Type_Control {MAC_Subtype_RTS} (pktRTS s)"
  using assms by (auto simp: mac_inv_def data_ok_def mgmt_part_def mgmt_ok_def)

lemma mac_inv_cw [simp]:
  assumes "mac_inv a b s"
  shows "mac_inv a b (rst_cw s)" "mac_inv a b (inc_cw s)"
proof -
  have c: "CWMin (phymib s) \<le> cw s" "cw s \<le> CWMax (phymib s)" "CWMax (phymib s) < 0x40000000"
    "CWMin (phymib s) \<le> CWMax (phymib s)"
    using mac_invD(2,3)[OF assms] by (simp_all add: mib_ok_def cw_ok_def)
  then show "mac_inv a b (rst_cw s)" using assms by (simp add: rst_cw_def)
  have "cw s < 0x40000000" using c by simp
  then have "cw s \<le> push_bit 1 (cw s) + 1"
    by (simp add: word_le_nat_alt word_less_nat_alt unat_word_ariths push_bit_eq_mult)
  then show "mac_inv a b (inc_cw s)" using assms c by (auto simp: inc_cw_def Let_def)
qed

lemma mac_inv_emit [simp]: "mac_inv a b (emit e s) = mac_inv a b s"
  by (simp add: emit_def)

section \<open>The shared operations\<close>

lemma timer_start_ok:
  "mac_inv a b s \<Longrightarrow> (\<And>t. mac_inv a b (upd (\<lambda>_. t) s)) \<Longrightarrow> okM (mac_inv a b) (timer_start M get upd d s)"
  unfolding timer_start_def by (rule okM_bind_any) simp

lemma timer_stop_ok:
  "mac_inv a b s \<Longrightarrow> (\<And>t. mac_inv a b (upd (\<lambda>_. t) s)) \<Longrightarrow> okM (mac_inv a b) (timer_stop M get upd s)"
  unfolding timer_stop_def by (rule okM_bind_any) simp

lemma backoff_ok:
  assumes "mac_inv a b s"
  shows "okM (mac_inv a b) (backoff_start M d s)" "okM (mac_inv a b) (backoff_resume M s)"
  unfolding backoff_start_def backoff_resume_def
  by (rule okM_bind_any, simp add: assms del: mac_inv_set)+

lemma checkBackoffTimer_only: "okM (\<lambda>t. \<exists>x. t = s\<lparr>mhBackoff := x\<rparr>) (checkBackoffTimer M s)"
proof -
  have *: "okM (\<lambda>t. \<exists>x. t = s\<lparr>mhBackoff := x\<rparr>)
      (if \<not> is_idle v \<and> mt_busy (mhBackoff v) \<and> \<not> mt_paused (mhBackoff v)
       then m_backoff_pause M (clock v) (mhBackoff v) \<bind> (\<lambda>t. Some (v\<lparr>mhBackoff := t\<rparr>)) else Some v)"
    if "\<exists>x. v = s\<lparr>mhBackoff := x\<rparr>" for v
    using that by (intro okM_if okM_bind_any) (auto intro: exI[of _ "mhBackoff _"])
  have "\<exists>x. s = s\<lparr>mhBackoff := x\<rparr>" by (rule exI[of _ "mhBackoff s"]) simp
  then have "okM (\<lambda>t. \<exists>x. t = s\<lparr>mhBackoff := x\<rparr>)
      (if is_idle s \<and> mt_paused (mhBackoff s) then backoff_resume M s else Some s)"
    unfolding backoff_resume_def by (intro okM_if okM_bind_any) auto
  from okM_bind[OF this *] show ?thesis unfolding checkBackoffTimer_def by simp
qed

lemma checkBackoffTimer_ok: "mac_inv a b s \<Longrightarrow> okM (mac_inv a b) (checkBackoffTimer M s)"
  by (rule okM_mono[OF checkBackoffTimer_only]) auto

lemma setTxState_ok: "mac_inv a b s \<Longrightarrow> okM (mac_inv a b) (setTxState M st s)"
  unfolding setTxState_def by (rule checkBackoffTimer_ok) simp

lemma setRxState_ok:
  "mac_inv a b (s\<lparr>rx_state := st\<rparr>) \<Longrightarrow> okM (mac_inv a b) (setRxState M st s)"
  unfolding setRxState_def by (rule checkBackoffTimer_ok)

lemma set_nav_ok: "mac_inv a b s \<Longrightarrow> okM (mac_inv a b) (set_nav M us s)"
  unfolding set_nav_def Let_def
  by (intro okM_if okM_bind[where Q = "mac_inv a b"] timer_start_ok timer_stop_ok) simp_all

lemma wait_difs_ok: "mac_inv a b s \<Longrightarrow> okM (mac_inv a b) (wait_difs M s)"
  unfolding wait_difs_def defer_random_def Let_def
  by (intro okM_if backoff_ok timer_start_ok) simp_all

lemma contend_ok: "mac_inv a b s \<Longrightarrow> okM (mac_inv a b) (contend M s)"
  unfolding contend_def by (intro okM_if wait_difs_ok backoff_ok) simp_all

lemma busy_medium_ok: "mac_inv a b s \<Longrightarrow> okM (mac_inv a b) (busy_medium M s)"
  unfolding busy_medium_def by (rule backoff_ok) simp

lemma discard_ok: "mac_inv a b s \<Longrightarrow> okM (mac_inv a b) (discard p why s)"
  unfolding discard_def Let_def by (intro okM_if) simp_all

text \<open>Discarding only reports.\<close>

lemma discard_only: "okM (\<lambda>t. \<exists>l. t = s\<lparr>mac_out := l\<rparr>) (discard p why s)"
proof -
  have "\<exists>l. s = s\<lparr>mac_out := l\<rparr>" by (rule exI[of _ "mac_out s"]) simp
  moreover have "\<exists>l. emit e s = s\<lparr>mac_out := l\<rparr>" for e unfolding emit_def by blast
  ultimately show ?thesis unfolding discard_def Let_def by (intro okM_if) (simp_all only: okM_Some okM_None)
qed

lemma capture_ok: "mac_inv a b s \<Longrightarrow> okM (mac_inv a b) (capture M p s)"
  unfolding capture_def by (intro okM_bind_any set_nav_ok)

lemma collision_ok:
  assumes s: "mac_inv a b s" shows "okM (mac_inv a b) (collision M p s)"
proof -
  have c: "okM (\<lambda>t. mac_inv a b t \<and> rx_state t \<noteq> MAC_IDLE)
      (if rx_state s = MAC_RECV then setRxState M MAC_COLL s else Some s)"
    if "rx_state s = MAC_RECV \<or> rx_state s = MAC_COLL"
  proof (intro okM_if)
    assume "rx_state s = MAC_RECV"
    then have "mac_inv a b (s\<lparr>rx_state := MAC_COLL\<rparr>)" using s by (auto simp: mac_inv_defs rx_ok_def)
    then show "okM (\<lambda>t. mac_inv a b t \<and> rx_state t \<noteq> MAC_IDLE) (setRxState M MAC_COLL s)"
      unfolding setRxState_def by (intro okM_mono[OF checkBackoffTimer_only]) auto
  qed (use that s in auto)
  have d: "okM (mac_inv a b) (discard r DROP_MAC_COLLISION t \<bind>
        (\<lambda>s. timer_start M mhRecv mhRecv_update x (s\<lparr>pktRx := Some p\<rparr>)))"
    if "mac_inv a b t \<and> rx_state t \<noteq> MAC_IDLE" for t r x
  proof (rule okM_bind[OF discard_only], elim exE)
    fix v l assume v: "v = t\<lparr>mac_out := l\<rparr>"
    show "okM (mac_inv a b) (timer_start M mhRecv mhRecv_update x (v\<lparr>pktRx := Some p\<rparr>))"
      by (rule timer_start_ok) (use that in \<open>simp_all add: v\<close>)
  qed
  show ?thesis unfolding collision_def
  proof (intro okM_if, rule okM_bind[OF c], assumption, goal_cases)
    case (1 t)
    have e: "okM (mac_inv a b) (timer_stop M mhRecv mhRecv_update t \<bind>
        (\<lambda>s. discard r DROP_MAC_COLLISION s \<bind>
          (\<lambda>s. timer_start M mhRecv mhRecv_update x (s\<lparr>pktRx := Some p\<rparr>))))" for r x
      unfolding timer_stop_def
      by (rule okM_bind[where Q = "\<lambda>t. mac_inv a b t \<and> rx_state t \<noteq> MAC_IDLE", OF okM_bind_any d])
        (use 1 in simp)
    show ?case
      by (rule okM_bind_any, rule okM_if, simp, rule okM_bind_any, rule okM_if, rule e)
        (use 1 discard_ok in simp)
  qed simp
qed

lemma transmit_ok: "mac_inv a b s \<Longrightarrow> okM (mac_inv a b) (transmit M p t s)"
proof -
  assume s: "mac_inv a b s"
  have r: "okM (mac_inv a b) (if rx_state v \<noteq> MAC_IDLE
      then map_option (\<lambda>r. v\<lparr>pktRx := Some (r\<lparr>pk_error := 1\<rparr>)\<rparr>) (pktRx v) else Some v)"
    if "mac_inv a b v" for v
    using that by (auto intro!: okM_if okM_map_option simp: okM_def)
  show ?thesis unfolding transmit_def Let_def
    by (rule okM_bind[where Q = "mac_inv a b"], use s in \<open>simp split: if_split\<close>, rule okM_bind[OF r], assumption)
      (intro okM_bind[OF timer_start_ok] okM_bind_any timer_start_ok; simp)
qed

section \<open>Sending\<close>

lemma set_hdr_sel [simp]:
  "pk_size (set_hdr f p) = pk_size p" "mp_hdr (set_hdr f p) = f (mp_hdr p)"
  "pk_error (set_hdr f p) = pk_error p" "mp_txtime (set_hdr f p) = mp_txtime p"
  "pk_xmit_failure (set_hdr f p) = pk_xmit_failure p"
  by (simp_all add: set_hdr_def)

lemma new_frame_type [simp]:
  "pk_type (new_frame M type sub len s) = type" "pk_subtype (new_frame M type sub len s) = sub"
  by (simp_all add: new_frame_def frame_header_def)

lemma mgmt_frame_type [simp]:
  "pk_type (mgmt_frame M sub len ra ta a3 s) = MAC_Type_Management"
  "pk_subtype (mgmt_frame M sub len ra ta a3 s) = sub"
  by (simp_all add: mgmt_frame_def)

lemma data_control_type [simp]:
  "fc_type (data_control s c) = MAC_Type_Data" "fc_subtype (data_control s c) = MAC_Subtype_Data"
  by (simp_all add: data_control_def Let_def)

lemma sendRTS_ok: "mac_inv a b s \<Longrightarrow> okM (mac_inv a b) (sendRTS M dst s)"
  unfolding sendRTS_def Let_def by (intro okM_case_option okM_if okM_bind_any) simp_all

lemma sendCTS_ok: "mac_inv a b s \<Longrightarrow> okM (mac_inv a b) (sendCTS M dst d s)"
  unfolding sendCTS_def Let_def by (intro okM_if) simp_all

lemma sendACK_ok: "mac_inv a b s \<Longrightarrow> okM (mac_inv a b) (sendACK M dst s)"
  unfolding sendACK_def Let_def by (intro okM_if) simp_all

lemma sendDATA_ok: "mac_inv a b s \<Longrightarrow> okM (mac_inv a b) (sendDATA M p s)"
  unfolding sendDATA_def Let_def by (intro okM_if) simp_all

lemma send_ok: "mac_inv a b s \<Longrightarrow> okM (mac_inv a b) (send M p h s)"
proof -
  assume s: "mac_inv a b s"
  have c: "okM (mac_inv a b) (contend M (v\<lparr>pktTx := Some (set_hdr (\<lambda>h. h\<lparr>dh_scontrol := n\<rparr>) q), sta_seqno := k\<rparr>))"
    if "mac_inv a b v" "pktTx v = Some q" for v q n k
    by (rule contend_ok) (use that mac_invD(5)[OF that(1)] in simp)
  show ?thesis unfolding send_def
    by (intro okM_bind[OF sendDATA_ok] okM_bind[OF sendRTS_ok] okM_bind_eq c) (use s in simp_all)
qed

text \<open>
  What the layers above may do when the MAC calls them: send packets down, one after the other.
\<close>

inductive sends :: "mac_env \<Rightarrow> mac \<Rightarrow> mac \<Rightarrow> bool" for M where
  sends_none: "sends M s s"
| sends_more: "sends M s t \<Longrightarrow> send M p h t = Some u \<Longrightarrow> sends M s u"

definition env_ok :: "mac_env \<Rightarrow> bool" where
  "env_ok M \<longleftrightarrow> (\<forall>s. okM (sends M s) (m_callback M s)) \<and> (\<forall>p s. okM (sends M s) (m_up M p s))
     \<and> (\<forall>p s. okM (sends M s) (m_xmit_failure M p s))
     \<and> (\<forall>argv s. okM (\<lambda>(r, t). \<exists>i. t = s\<lparr>mac_initialized := i\<rparr>) (m_base_command M argv s))"

lemma sends_ok: "sends M s t \<Longrightarrow> mac_inv a b s \<Longrightarrow> mac_inv a b t"
  by (induction rule: sends.induct) (auto dest: okM_D[OF send_ok])

lemma env_okD:
  assumes "env_ok M" and "mac_inv a b s"
  shows "okM (mac_inv a b) (m_callback M s)" "okM (mac_inv a b) (m_up M p s)"
    "okM (mac_inv a b) (m_xmit_failure M p s)"
    "okM (\<lambda>(r, t). mac_inv a b t) (m_base_command M argv s)"
proof -
  have k: "okM (mac_inv a b) m" if "okM (sends M s) m" for m
    by (rule okM_mono[OF that]) (rule sends_ok[OF _ assms(2)])
  show "okM (mac_inv a b) (m_callback M s)" "okM (mac_inv a b) (m_up M p s)"
    "okM (mac_inv a b) (m_xmit_failure M p s)"
    using assms(1) unfolding env_ok_def by (blast intro: k)+
  have "okM (\<lambda>(r, t). \<exists>i. t = s\<lparr>mac_initialized := i\<rparr>) (m_base_command M argv s)"
    using assms(1) unfolding env_ok_def by blast
  then show "okM (\<lambda>(r, t). mac_inv a b t) (m_base_command M argv s)"
    by (rule okM_mono) (use assms(2) in auto)
qed

lemma tx_resume_ok:
  assumes "mac_inv a b s" and "env_ok M" shows "okM (mac_inv a b) (tx_resume M s)"
proof -
  have "okM (mac_inv a b) (if callback s then m_callback M (emit Callback (s\<lparr>callback := False\<rparr>)) else Some s)"
    using assms by (intro okM_if env_okD) simp_all
  note c = this
  show ?thesis unfolding tx_resume_def
    by (rule okM_if, simp, rule okM_bind[where Q = "mac_inv a b"])
      (use assms c in \<open>auto intro!: okM_if okM_case_option timer_start_ok wait_difs_ok setTxState_ok\<close>)
qed

section \<open>Management frames and checks\<close>

lemma enqueue_frame_ok [simp]: "mac_inv a b s \<Longrightarrow> n \<noteq> 0 \<Longrightarrow> mac_inv a b (enqueue_frame n s)"
  by (simp add: enqueue_frame_def mgmt.add_ok mac_invD(4))

lemma mgmt_sends_ok:
  assumes "mac_inv a b s"
  shows "okM (mac_inv a b) (sendBEACON M src s)" "okM (mac_inv a b) (sendASSOCREQ M d s)"
    "okM (mac_inv a b) (sendASSOCREP M d s)" "okM (mac_inv a b) (sendAUTHENTICATE M d s)"
    "okM (mac_inv a b) (sendPROBEREQ M d s)" "okM (mac_inv a b) (sendPROBEREP M d s)"
  unfolding sendBEACON_def sendASSOCREQ_def sendASSOCREP_def sendAUTHENTICATE_def sendPROBEREQ_def
    sendPROBEREP_def Let_def
  by (rule contend_ok, use assms in \<open>simp split: if_split\<close>)+

lemma checkAssocAuthStatus_ok: "mac_inv a b s \<Longrightarrow> okM (mac_inv a b) (checkAssocAuthStatus M s)"
  unfolding checkAssocAuthStatus_def
  by (intro okM_if okM_bind[where Q = "mac_inv a b"] mgmt_sends_ok) simp_all

lemma scan_ok:
  assumes "mac_inv a b s"
  shows "okM (mac_inv a b) (passive_scan M s)" "okM (mac_inv a b) (active_scan M s)"
  unfolding passive_scan_def active_scan_def Let_def
  by (intro okM_if mgmt_sends_ok; simp add: assms)+

abbreviation checked :: "bool \<Rightarrow> bool \<Rightarrow> bool \<times> mac \<Rightarrow> bool" where
  "checked a b \<equiv> \<lambda>(done, t). mac_inv a b t"

lemma check_frame_ok:
  assumes "mac_inv a b s" and "\<And>t. mac_inv a b t \<Longrightarrow> mac_inv a b (mark t)"
    and "\<And>t. mac_inv a b t \<Longrightarrow> okM (mac_inv a b) (after t)"
  shows "okM (checked a b) (check_frame M pkt sub st t mark after s)"
  unfolding check_frame_def
proof (intro okM_if okM_case_option)
  fix p
  show "okM (checked a b) (map_option (Pair True) (busy_medium M s))"
    by (rule okM_map_option) (simp add: assms busy_medium_ok)
  show "okM (checked a b) (setTxState M st s \<bind> (\<lambda>s. transmit M p t (mark s) \<bind>
      (\<lambda>s. after s \<bind> (\<lambda>s. Some (True, s)))))"
    by (rule okM_bind[OF setTxState_ok[OF assms(1)]], rule okM_bind[OF transmit_ok[OF assms(2)]],
        assumption, rule okM_bind[OF assms(3)], assumption) simp
qed (simp_all add: assms(1))

lemma checks_ok:
  assumes "mac_inv a b s"
  shows "okM (checked a b) (check_pktRTS M s)" "okM (checked a b) (check_pktASSOCREQ M s)"
    "okM (checked a b) (check_pktASSOCREP M s)" "okM (checked a b) (check_pktAUTHENTICATE M s)"
    "okM (checked a b) (check_pktPROBEREQ M s)"
  unfolding check_pktRTS_def check_pktASSOCREQ_def check_pktASSOCREP_def check_pktAUTHENTICATE_def
    check_pktPROBEREQ_def Let_def
  by (intro check_frame_ok okM_if okM_map_option timer_start_ok; simp add: assms timer_start_ok)+

end
