(* ===== verification/Mac_Run.thy ===== *)
theory Mac_Run
  imports Mac_Inv
begin

text \<open>
  The MAC as a state machine: \<open>mac_step\<close> is a packet from above or from the channel, the
  expiry of a timer (which is not busy any more when its handler runs), a Tcl command, or the
  passing of time. The invariant \<open>mac_ok\<close> holds after the constructor and is kept by every step.
\<close>

section \<open>Checks\<close>

lemma stamp_hdr [simp]: "pk_type (stamp s p) = pk_type p" "pk_subtype (stamp s p) = pk_subtype p"
  by (simp_all add: stamp_def)

lemma mgmt_frames:
  assumes "mac_inv a b s"
  shows "frame_is MAC_Type_Management {MAC_Subtype_80211_Beacon} (pktBEACON s)"
    "frame_is MAC_Type_Management {MAC_Subtype_ProbeRep} (pktPROBEREP s)"
  using assms by (simp_all add: mac_inv_def mgmt_ok_def mgmt_part_def)

lemma stamped_checks_ok:
  assumes "mac_inv a b s"
  shows "okM (checked a b) (check_pktBEACON M s)" "okM (checked a b) (check_pktPROBEREP M s)"
proof -
  show "okM (checked a b) (check_pktBEACON M s)" unfolding check_pktBEACON_def Let_def
    by (rule okM_bind_eq, rule check_frame_ok) (use assms mgmt_frames(1)[OF assms] in simp_all)
  show "okM (checked a b) (check_pktPROBEREP M s)" unfolding check_pktPROBEREP_def Let_def
    by (rule okM_bind_eq, rule check_frame_ok) (use assms mgmt_frames(2)[OF assms] in simp_all)
qed

text \<open>A frame that the medium is free for.\<close>

lemma put_on_air_ok:
  assumes "mac_inv a b s"
  shows "okM (checked a b) (setTxState M st s \<bind> (\<lambda>s. transmit M p (t s) s \<bind> (\<lambda>s. Some (True, s))))"
  by (rule okM_bind[OF setTxState_ok[OF assms]], rule okM_bind[OF transmit_ok], assumption) simp

lemma check_pktCTRL_ok: "mac_inv a b s \<Longrightarrow> okM (checked a b) (check_pktCTRL M s)"
  unfolding check_pktCTRL_def Let_def
  by (intro okM_case_option okM_if okM_map_option put_on_air_ok okM_mono[where Q = "mac_inv a b", OF discard_ok])
    simp_all

lemma check_pktTx_ok:
  assumes s: "mac_inv a b s" shows "okM (checked a b) (check_pktTx M s)"
  unfolding check_pktTx_def Let_def
proof (intro okM_if okM_case_option)
  fix p
  assume p: "pktTx s = Some p"
  let ?q = "if mac_index s \<noteq> bss_id s \<and> bss_id s \<noteq> IBSS_ID \<and> \<not> handoff s
    then set_hdr (\<lambda>h. h\<lparr>dh_ra := bss_id s\<rparr>) p else p"
  have q: "mac_inv a b (s\<lparr>pktTx := Some ?q\<rparr>)" using s mac_invD(5)[OF s] p by simp
  show "okM (checked a b) (sendRTS M (pk_ra ?q) (s\<lparr>pktTx := Some ?q\<rparr>) \<bind>
      (\<lambda>s. busy_medium M s \<bind> (\<lambda>s. Some (True, s))))"
    by (rule okM_bind[OF sendRTS_ok[OF q]], rule okM_bind[OF busy_medium_ok], assumption) simp
  show "okM (checked a b) (setTxState M MAC_SEND (s\<lparr>pktTx := Some ?q\<rparr>) \<bind> (\<lambda>s. txtime ?q \<bind>
      (\<lambda>t. transmit M ?q (if pk_ra ?q \<noteq> MAC_BROADCAST
          then round_trip_time M t (SIFSTime (phymib s)) (basic_txtime M (getACKlen (phymib s)) s)
          else t) s \<bind> (\<lambda>s. Some (True, s)))))"
    by (rule okM_bind[OF setTxState_ok[OF q]], rule okM_bind_any, rule okM_bind[OF transmit_ok], assumption) simp
qed (simp_all add: s)

section \<open>Receiving frames\<close>

lemma mac_log_ok: "mac_inv a b s \<Longrightarrow> okM (mac_inv a b) (mac_log p s)"
  by (simp add: mac_log_def)

lemma find_ap_ok: "mac_inv a b s \<Longrightarrow> find_ap n x s = (r, t) \<Longrightarrow> mac_inv a b t"
  by (auto simp: find_ap_def split: option.splits)

lemma tables_ok [simp]:
  "mac_inv a b (update_ap_table n x s) = mac_inv a b s"
  "mac_inv a b (update_client_table n i j s) = mac_inv a b s"
  "mac_inv a b (deletelist s) = mac_inv a b s"
  by (simp_all add: update_ap_table_def update_client_table_def deletelist_def split: option.split)

lemma recvBEACON_ok: "mac_inv a b s \<Longrightarrow> okM (mac_inv a b) (recvBEACON p s)"
  unfolding recvBEACON_def Let_def
  by (intro okM_if discard_ok mac_log_ok) (auto split: prod.split dest: find_ap_ok[rotated])

lemma resume_unless_sending_ok:
  "mac_inv a b s \<Longrightarrow> env_ok M \<Longrightarrow> okM (mac_inv a b) (resume_unless_sending M s)"
  unfolding resume_unless_sending_def by (intro okM_if tx_resume_ok) simp_all

lemma recv_mgmt_ok:
  assumes "mac_inv a b s" and "env_ok M"
  shows "okM (mac_inv a b) (recvASSOCREQ M p s)" "okM (mac_inv a b) (recvPROBEREQ M p s)"
    "okM (mac_inv a b) (recvPROBEREP M p s)"
  unfolding recvASSOCREQ_def recvPROBEREQ_def recvPROBEREP_def
  by (intro okM_if discard_ok okM_bind[OF mgmt_sends_ok(3)] okM_bind[OF mgmt_sends_ok(6)]
      okM_bind[OF sendACK_ok] okM_bind[OF tx_resume_ok] okM_bind[OF resume_unless_sending_ok] mac_log_ok;
    simp add: assms)+

lemma recvASSOCREP_ok:
  assumes "mac_inv a b s" and "env_ok M" shows "okM (mac_inv a b) (recvASSOCREP M p s)"
  unfolding recvASSOCREP_def
  by (intro okM_if okM_bind[OF timer_stop_ok] okM_bind[of "mac_inv a b" "if _ then _ else _"] sendACK_ok
      okM_bind[OF resume_unless_sending_ok] mac_log_ok) (simp_all add: assms)

lemma recvAUTHENTICATE_ok:
  assumes "mac_inv a b s" and E: "env_ok M" shows "okM (mac_inv a b) (recvAUTHENTICATE M p s)"
proof -
  have x: "okM (mac_inv a b) (if mac_index v = ap_addr v then
        if mf_seqno (mp_hdr p) = 1
        then map_option (authenticating_node_update (\<lambda>_. pk_ta p)) (sendAUTHENTICATE M (pk_ta p) v)
        else Some v
      else if mf_seqno (mp_hdr p) = 2 \<and> mf_statuscode (mp_hdr p) = 0
      then sendACK M (pk_ta p) (v\<lparr>authenticated := True, bss_id := pk_3a p\<rparr>) \<bind>
        (\<lambda>s. timer_start M mhProbe mhProbe_update (t s) s)
      else Some v)" if "mac_inv a b v" for v t
    by (intro okM_if okM_map_option okM_bind[OF sendACK_ok] timer_start_ok) (simp_all add: that mgmt_sends_ok)
  have y: "okM (mac_inv a b) (if mac_index s \<noteq> bss_id s then if pktAUTHENTICATE s = None then None
      else timer_stop M mhSend mhSend_update (s\<lparr>pktAUTHENTICATE := None\<rparr>) else Some s)"
    by (intro okM_if timer_stop_ok) (simp_all add: assms)
  show ?thesis unfolding recvAUTHENTICATE_def Let_def
    by (rule okM_if, simp add: discard_ok assms, rule okM_bind[OF y], rule okM_if, simp add: discard_ok,
        rule okM_bind[OF x], assumption, rule okM_bind[OF resume_unless_sending_ok[OF _ E]], assumption)
      (simp add: mac_log_ok)
qed

lemma recvRTS_ok:
  assumes "mac_inv a b s" and "env_ok M" shows "okM (mac_inv a b) (recvRTS M p s)"
  unfolding recvRTS_def
  by (intro okM_if discard_ok okM_bind[OF sendCTS_ok] okM_bind[of "mac_inv a b" "if _ then _ else _"]
      timer_stop_ok okM_bind[OF tx_resume_ok] mac_log_ok) (simp_all add: assms)

lemma mac_inv_reset [simp]:
  assumes "mac_inv a b s"
  shows "mac_inv a b (s\<lparr>ssrc := 0\<rparr>)" "mac_inv a b (s\<lparr>slrc := 0\<rparr>)" "mac_inv a b (set_rcount sh 0 s)"
  using assms by (auto simp: mac_inv_defs set_rcount_def word_less_nat_alt)

lemma recvCTS_ok:
  assumes "mac_inv a b s" and "env_ok M" shows "okM (mac_inv a b) (recvCTS M p s)"
  unfolding recvCTS_def
  by (intro okM_if discard_ok okM_bind[of "mac_inv a b", OF timer_stop_ok] okM_bind[OF tx_resume_ok] mac_log_ok)
    (simp_all add: assms)

lemma acknowledge_ok:
  assumes "mac_inv a b s" and "env_ok M" shows "okM (checked a b) (acknowledge M p n s)"
  unfolding acknowledge_def
  by (intro okM_if okM_map_option okM_bind[of "mac_inv a b", OF timer_stop_ok] okM_bind[of "mac_inv a b", OF sendACK_ok])
    (simp_all add: assms discard_ok tx_resume_ok resume_unless_sending_ok)

lemma seen_before_ok: "mac_inv a b s \<Longrightarrow> okM (checked a b) (seen_before p s)"
  unfolding seen_before_def Let_def by (intro okM_if okM_bind_any) simp_all

lemma pass_up_ok: "mac_inv a b s \<Longrightarrow> env_ok M \<Longrightarrow> okM (mac_inv a b) (pass_up M p s)"
  unfolding pass_up_def by (intro env_okD) simp_all

lemma ap_relay_ok:
  assumes "mac_inv a b s" and "env_ok M" shows "okM (\<lambda>(q, t). mac_inv a b t) (ap_relay M p s)"
  unfolding ap_relay_def Let_def
  by (intro okM_if okM_bind[of "mac_inv a b"]) (simp_all add: assms pass_up_ok)

lemma recvDATA_ok:
  assumes s: "mac_inv a b s" and E: "env_ok M" shows "okM (mac_inv a b) (recvDATA M p s)"
  unfolding recvDATA_def Let_def
  by (rule okM_bind[OF acknowledge_ok[OF s E]], intro okM_case_prod okM_if,
      simp, rule okM_bind[OF seen_before_ok], simp, intro okM_case_prod okM_if,
      simp add: discard_ok, rule okM_bind[OF ap_relay_ok[OF _ E]], simp)
    (auto simp: pass_up_ok E)

lemma next_mgmt_ok: "mac_inv a b s \<Longrightarrow> okM (mac_inv a b) (next_mgmt M s)"
  unfolding next_mgmt_def Let_def
  by (intro okM_if backoff_ok) (simp_all add: mgmt.shift_ok mac_invD(4))

lemma recvACK_ok:
  assumes "mac_inv a b s" and "env_ok M" shows "okM (mac_inv a b) (recvACK M p s)"
proof -
  have m: "okM (mac_inv a b) (if mac_index v = bss_id v then
      let s = (if pktASSOCREP v \<noteq> None \<and> tx_mgmt v = 4
              then update_client_table (associating_node v) 1 1 (v\<lparr>pktASSOCREP := None\<rparr>) else v);
          s = (if pktPROBEREP s \<noteq> None \<and> tx_mgmt s = 1 then s\<lparr>pktPROBEREP := None\<rparr> else s);
          s = (if pktAUTHENTICATE s \<noteq> None \<and> tx_mgmt s = 3
              then update_client_table (authenticating_node s) 1 0 (s\<lparr>pktAUTHENTICATE := None\<rparr>) else s)
      in next_mgmt M s else Some v)" if "mac_inv a b v" for v
    unfolding Let_def by (intro okM_if next_mgmt_ok) (use that in \<open>auto split: if_split\<close>)
  have d: "mac_inv a b ((rst_cw (set_rcount (short_frame q v) 0 v))\<lparr>pktTx := None\<rparr>)"
    if "mac_inv a b v" for q v
    using that by simp
  have t: "okM (mac_inv a b) (timer_stop M mhSend mhSend_update s)"
    by (rule timer_stop_ok) (simp_all add: assms)
  have r: "okM (mac_inv a b) (tx_resume M v \<bind> mac_log p)" if "mac_inv a b v" for v
    by (rule okM_bind[OF tx_resume_ok[OF that assms(2)]]) (rule mac_log_ok)
  show ?thesis unfolding recvACK_def Let_def
  proof (intro okM_if, goal_cases)
    case 1
    show ?case by (rule okM_bind[OF t], rule okM_bind[OF m[unfolded Let_def]], assumption, rule r)
  next
    case 3
    have k: "okM (mac_inv a b) (if mt_busy (mhBackoff v) then None else backoff_start M 0 v)"
      if "mac_inv a b v" for v
      by (intro okM_if backoff_ok) (simp_all add: that)
    show ?case by (rule okM_bind_any, rule okM_bind[OF t], rule okM_bind[OF k[OF d]], assumption, rule r)
  qed (simp add: discard_ok assms)
qed

section \<open>Giving up\<close>

text \<open>With a packet in the transmitter the layers above cannot send another one.\<close>

lemma sends_busy: "sends M s t \<Longrightarrow> pktTx s \<noteq> None \<Longrightarrow> t = s"
  by (induction rule: sends.induct) (auto simp: send_def sendDATA_def)

lemma give_up_packet_only:
  assumes "env_ok M"
  shows "okM (\<lambda>t. \<exists>l. t = s\<lparr>pktTx := None, mac_out := l\<rparr>) (give_up_packet M reason s)"
proof -
  have f: "okM (\<lambda>t. t = v) (m_xmit_failure M q v)" if "pktTx v \<noteq> None" for q v
    using assms that unfolding env_ok_def okM_def by (blast dest: sends_busy)
  have n: "okM (\<lambda>t. \<exists>q l. t = s\<lparr>pktTx := Some q, mac_out := l\<rparr>)
      (if pk_xmit_failure q then
         let q = q\<lparr>pk_size := sint (word_of_int (pk_size q) - getHdrLen11 (phymib s)), mp_xmit_reason := reason\<rparr>
         in m_xmit_failure M q (emit (Xmit_failure q) (s\<lparr>pktTx := Some q\<rparr>))
       else Some s)" if q: "pktTx s = Some q" for q
  proof (intro okM_if)
    have "s\<lparr>pktTx := Some q, mac_out := mac_out s\<rparr> = s" using q by simp
    then show "okM (\<lambda>t. \<exists>q l. t = s\<lparr>pktTx := Some q, mac_out := l\<rparr>) (Some s)"
      unfolding okM_Some by metis
  qed (unfold Let_def emit_def, rule okM_mono[OF f], simp, auto)
  show ?thesis unfolding give_up_packet_def
  proof (rule okM_bind_eq, rule okM_bind[OF n], assumption, elim exE)
    fix q v r l
    assume v: "v = s\<lparr>pktTx := Some r, mac_out := l\<rparr>"
    show "okM (\<lambda>t. \<exists>l. t = s\<lparr>pktTx := None, mac_out := l\<rparr>)
        (pktTx v \<bind> (\<lambda>q. discard q DROP_MAC_RETRY_COUNT_EXCEEDED v \<bind> (\<lambda>s. Some (s\<lparr>pktTx := None\<rparr>))))"
    proof (rule okM_bind_any, rule okM_bind[OF discard_only], elim exE)
      fix w l' assume "w = v\<lparr>mac_out := l'\<rparr>"
      then have "w\<lparr>pktTx := None\<rparr> = s\<lparr>pktTx := None, mac_out := l'\<rparr>" by (simp add: v)
      then show "okM (\<lambda>t. \<exists>l. t = s\<lparr>pktTx := None, mac_out := l\<rparr>) (Some (w\<lparr>pktTx := None\<rparr>))" by auto
    qed
  qed
qed

text \<open>The counters of the MIB do not matter.\<close>

lemma mac_inv_counts [simp]:
  "mac_inv a b (s\<lparr>macmib := (macmib s)\<lparr>RTSFailureCount := n\<rparr>\<rparr>) = mac_inv a b s"
  "mac_inv a b (s\<lparr>macmib := (macmib s)\<lparr>ACKFailureCount := n\<rparr>\<rparr>) = mac_inv a b s"
  "mac_inv a b (s\<lparr>macmib := (macmib s)\<lparr>FailedCount := n\<rparr>\<rparr>) = mac_inv a b s"
  by (simp_all add: mac_inv_defs)

lemma mac_inv_ssrc:
  "mac_inv a b s \<Longrightarrow> mac_inv c b (s\<lparr>ssrc := n\<rparr>) \<longleftrightarrow> (c \<longrightarrow> n < ShortRetryLimit (macmib s))"
  "mac_inv a b s \<Longrightarrow> mac_inv a c (s\<lparr>slrc := n\<rparr>) \<longleftrightarrow> (c \<longrightarrow> n < LongRetryLimit (macmib s))"
  by (auto simp: mac_inv_defs)

lemma limits_positive: "mac_inv a b s \<Longrightarrow> 0 < ShortRetryLimit (macmib s) \<and> 0 < LongRetryLimit (macmib s)"
  by (auto simp: mac_inv_def mib_ok_def word_less_nat_alt)

lemma RetransmitRTS_ok:
  assumes s: "mac_ok s" and E: "env_ok M" shows "okM mac_ok (RetransmitRTS M s)"
  unfolding RetransmitRTS_def Let_def
proof (rule okM_if, simp, rule okM_bind_eq, rule okM_if)
  fix r assume r: "pktRTS s = Some r"
  let ?m = "(macmib s)\<lparr>RTSFailureCount := RTSFailureCount (macmib s) + 1\<rparr>"
  let ?u = "s\<lparr>macmib := ?m, ssrc := ssrc s + 1\<rparr>"
  have u: "mac_inv False True ?u" using s by (simp add: mac_inv_ssrc[where a = True])
  show "okM mac_ok (discard r DROP_MAC_RETRY_COUNT_EXCEEDED ?u \<bind> (\<lambda>s. give_up_packet M XMIT_REASON_RTS
      (s\<lparr>pktRTS := None\<rparr>) \<bind> (\<lambda>s. Some (rst_cw (s\<lparr>ssrc := 0\<rparr>)))))"
  proof (rule okM_bind[OF discard_only], rule okM_bind[OF give_up_packet_only[OF E]], elim exE)
    fix v w l l'
    assume v: "v = ?u\<lparr>mac_out := l\<rparr>" and w: "w = v\<lparr>pktRTS := None, pktTx := None, mac_out := l'\<rparr>"
    have "mac_inv False True w" using u by (simp add: v w)
    then have "mac_ok (w\<lparr>ssrc := 0\<rparr>)" using limits_positive by (simp add: mac_inv_ssrc)
    then show "okM mac_ok (Some (rst_cw (w\<lparr>ssrc := 0\<rparr>)))" by simp
  qed
  assume "\<not> ShortRetryLimit (macmib ?u) \<le> ssrc ?u"
  then have "mac_ok ?u" using s by (simp add: mac_inv_ssrc[where a = True])
  then show "okM mac_ok (busy_medium M (?u\<lparr>pktRTS := Some (set_retry r)\<rparr>))"
    by (intro busy_medium_ok) (use mac_invD(6)[OF s] r in \<open>simp add: set_retry_def\<close>)
qed

lemma set_rcount_ok:
  assumes "mac_inv (\<not> sh) sh s"
  shows "mac_ok (set_rcount sh n s) \<longleftrightarrow>
    n < (if sh then ShortRetryLimit (macmib s) else LongRetryLimit (macmib s))"
  using assms by (auto simp: mac_inv_defs set_rcount_def)

lemma RetransmitDATA_ok:
  assumes s: "mac_ok s" and E: "env_ok M" shows "okM mac_ok (RetransmitDATA M s)"
  unfolding RetransmitDATA_def Let_def
proof (rule okM_if, simp, rule okM_bind_eq, rule okM_if)
  show "okM mac_ok (backoff_start M 0 (rst_cw (s\<lparr>pktTx := None\<rparr>)))"
    by (rule backoff_ok) (simp add: s)
next
  fix q assume q: "pktTx s = Some q"
  define sh where "sh = short_frame q s"
  define n where "n = rcount sh (s\<lparr>macmib := (macmib s)\<lparr>ACKFailureCount := ACKFailureCount (macmib s) + 1\<rparr>\<rparr>) + 1"
  define u where "u = set_rcount sh n (s\<lparr>macmib := (macmib s)\<lparr>ACKFailureCount := ACKFailureCount (macmib s) + 1\<rparr>\<rparr>)"
  have ns: "rcount sh u = n" by (simp add: u_def rcount_def set_rcount_def)
  have u: "mac_inv (\<not> sh) sh u" using s by (auto simp: u_def mac_inv_defs set_rcount_def)
  have uu: "set_rcount sh n u = u" by (simp add: u_def set_rcount_def)
  have lim: "3 < (if sh then ShortRetryLimit (macmib u) else LongRetryLimit (macmib u))"
    using mac_invD(2)[OF u] by (simp add: mib_ok_def)
  have th: "(if sh then ShortRetryLimit (macmib s) else LongRetryLimit (macmib s))
      = (if sh then ShortRetryLimit (macmib u) else LongRetryLimit (macmib u))"
    by (simp add: u_def set_rcount_def)
  have data: "frame_is MAC_Type_Data {MAC_Subtype_Data} (Some q)" using mac_invD(5)[OF s] q by simp
  have fail: "okM mac_ok (give_up_packet M XMIT_REASON_ACK (u\<lparr>macmib := (macmib u)\<lparr>FailedCount := f\<rparr>\<rparr>)
      \<bind> (\<lambda>s. Some (rst_cw (set_rcount sh 0 s))))" for f
  proof (rule okM_bind[OF give_up_packet_only[OF E]], elim exE)
    fix w l assume "w = u\<lparr>macmib := (macmib u)\<lparr>FailedCount := f\<rparr>, pktTx := None, mac_out := l\<rparr>"
    then have "mac_inv (\<not> sh) sh w" "macmib w = (macmib u)\<lparr>FailedCount := f\<rparr>"
      using u by simp_all
    then have "mac_ok (set_rcount sh 0 w)" using limits_positive[OF u] by (simp add: set_rcount_ok split: if_split)
    then show "okM mac_ok (Some (rst_cw (set_rcount sh 0 w)))" by simp
  qed
  have again: "okM mac_ok (sendRTS M (pk_ra q) (u\<lparr>pktTx := Some (set_retry q)\<rparr>) \<bind> busy_medium M)"
    if "mac_ok u"
    by (rule okM_bind[of mac_ok, OF sendRTS_ok]) (use that data in \<open>simp_all add: set_retry_def busy_medium_ok\<close>)
  have small: "mac_ok u" if "n < (if sh then ShortRetryLimit (macmib u) else LongRetryLimit (macmib u))"
    using set_rcount_ok[OF u, of n] that uu by simp
  show "okM mac_ok (if bss_id u \<noteq> IBSS_ID \<and> rcount sh u = 3 \<and> \<not> handoff u
     then sendPROBEREQ M MAC_BROADCAST
            (u\<lparr>associated := False, authenticated := False, handoff := True, ScanType := ACTIVE\<rparr>)
     else if (if sh then ShortRetryLimit (macmib s) else LongRetryLimit (macmib s)) \<le> rcount sh u
       then give_up_packet M XMIT_REASON_ACK (u\<lparr>macmib := (macmib u)\<lparr>FailedCount := FailedCount (macmib u) + 1\<rparr>\<rparr>)
              \<bind> (\<lambda>s. Some (rst_cw (set_rcount sh 0 s)))
       else sendRTS M (pk_ra q) (u\<lparr>pktTx := Some (set_retry q)\<rparr>) \<bind> busy_medium M)"
    unfolding ns th
  proof (intro okM_if mgmt_sends_ok fail again small)
    assume "bss_id u \<noteq> IBSS_ID \<and> n = 3 \<and> \<not> handoff u"
    then have "mac_ok u" using small lim by simp
    then show "mac_ok (u\<lparr>associated := False, authenticated := False, handoff := True, ScanType := ACTIVE\<rparr>)"
      by simp
  next
    assume "\<not> (if sh then ShortRetryLimit (macmib u) else LongRetryLimit (macmib u)) \<le> n"
    then show "n < (if sh then ShortRetryLimit (macmib u) else LongRetryLimit (macmib u))"
      by (cases sh) simp_all
  qed
qed

section \<open>Handlers\<close>

lemma unless_done_ok:
  "okM (checked a b) (c s) \<Longrightarrow> (\<And>t. mac_inv a b t \<Longrightarrow> okM (mac_inv a b) (r t)) \<Longrightarrow>
    okM (mac_inv a b) (unless_done c r s)"
  unfolding unless_done_def by (rule okM_bind, assumption, intro okM_case_prod okM_if) auto

lemma check_data_ok: "mac_inv a b s \<Longrightarrow> okM (mac_inv a b) (check_data M s)"
  unfolding check_data_def by (intro unless_done_ok checks_ok check_pktTx_ok) simp_all

lemma ap_check_ok: "mac_inv a b s \<Longrightarrow> okM (checked a b) (ap_check M s)"
  unfolding ap_check_def by (intro okM_bind_any okM_if checks_ok stamped_checks_ok) simp_all

lemma backoffHandler_ok:
  assumes "mac_inv a b s" shows "okM (mac_inv a b) (backoffHandler M s)"
proof -
  have own: "okM (mac_inv a b) (if pktCTRL v \<noteq> None
      then if mt_busy (mhSend v) \<or> mt_busy (mhDefer v) then Some v else None
      else if mac_index v = bss_id v then unless_done (ap_check M) (check_data M) v
      else check_data M v)" if "mac_inv a b v" for v
    using that by (intro okM_if unless_done_ok ap_check_ok check_data_ok) simp_all
  show ?thesis unfolding backoffHandler_def Let_def
    by (intro okM_if unless_done_ok checks_ok own assms)
qed

lemma deferHandler_ok: "mac_inv a b s \<Longrightarrow> okM (mac_inv a b) (deferHandler M s)"
  unfolding deferHandler_def by (intro okM_if unless_done_ok check_pktCTRL_ok check_data_ok) simp_all

lemma simple_handlers_ok:
  assumes "mac_inv a b s"
  shows "okM (mac_inv a b) (txHandler s)" "okM (mac_inv a b) (navHandler M s)"
    "okM (mac_inv a b) (BeaconHandler M s)" "mac_inv a b (validHandler s)"
    "okM (mac_inv a b) (noiseHandler M s)" "okM (mac_inv a b) (recvNoise M p s)"
proof -
  show "okM (mac_inv a b) (txHandler s)" unfolding txHandler_def
    by (intro okM_if okM_map_option) (simp_all add: assms okM_def)
  show "okM (mac_inv a b) (navHandler M s)" unfolding navHandler_def
    by (intro okM_if backoff_ok) (simp_all add: assms)
  show "okM (mac_inv a b) (BeaconHandler M s)" unfolding BeaconHandler_def
    by (rule okM_bind[of "mac_inv a b", OF timer_start_ok]) (simp_all add: assms mgmt_sends_ok)
  show "mac_inv a b (validHandler s)" by (simp add: validHandler_def assms)
  show "okM (mac_inv a b) (noiseHandler M s)" unfolding noiseHandler_def Let_def
    by (intro okM_if timer_start_ok) (simp_all add: assms split: if_split)
  show "okM (mac_inv a b) (recvNoise M p s)" unfolding recvNoise_def Let_def
    by (rule okM_bind[of "mac_inv a b"], intro okM_if timer_stop_ok)
      (simp_all add: assms timer_start_ok)
qed

lemma ProbeHandler_ok:
  assumes "mac_inv a b s" shows "okM (mac_inv a b) (ProbeHandler M s)"
proof -
  have j: "okM (mac_inv a b) (probe_join M s)" unfolding probe_join_def
    by (intro okM_if checkAssocAuthStatus_ok) (simp_all add: assms)
  show ?thesis unfolding ProbeHandler_def Let_def
    by (intro okM_if okM_map_option timer_start_ok checkAssocAuthStatus_ok scan_ok j)
      (simp_all add: assms mgmt_sends_ok)
qed

lemma send_timer_ok:
  assumes s: "mac_ok s" and E: "env_ok M" shows "okM mac_ok (send_timer M s)"
proof -
  have b: "okM mac_ok (send_timer_bcn M s)" unfolding send_timer_bcn_def
    by (intro okM_if next_mgmt_ok) (simp_all add: s)
  have m: "okM mac_ok (send_timer_mgmt M s)" unfolding send_timer_mgmt_def
    by (intro okM_if okM_map_option checkAssocAuthStatus_ok next_mgmt_ok b) (simp_all add: s next_mgmt_ok)
  have "okM mac_ok (case tx_state s of MAC_MGMT \<Rightarrow> send_timer_mgmt M s | MAC_BCN \<Rightarrow> send_timer_bcn M s
      | MAC_RTS \<Rightarrow> RetransmitRTS M s
      | MAC_CTS \<Rightarrow> if pktCTRL s = None then None else Some (s\<lparr>pktCTRL := None\<rparr>)
      | MAC_SEND \<Rightarrow> RetransmitDATA M s
      | MAC_ACK \<Rightarrow> if pktCTRL s = None then None else Some (s\<lparr>pktCTRL := None\<rparr>)
      | MAC_IDLE \<Rightarrow> Some s | MAC_RECV \<Rightarrow> None | MAC_COLL \<Rightarrow> None)"
    using m b RetransmitRTS_ok[OF s E] RetransmitDATA_ok[OF s E] s by (cases "tx_state s") simp_all
  then show ?thesis unfolding send_timer_def by (rule okM_bind) (rule tx_resume_ok[OF _ E])
qed

section \<open>Reception\<close>

lemma note_power_ok [simp]: "mac_inv a b (note_power M p s) = mac_inv a b s"
  by (simp add: note_power_def note_noise_def note_signal_def Let_def)

lemma recv_ok:
  assumes s: "mac_inv a b s" shows "okM (mac_inv a b) (recv M p h s)"
proof -
  let ?p = "p\<lparr>pk_iface := sint (mac_index s)\<rparr>"
  let ?s = "note_power M ?p s"
  have n: "mac_inv a b ?s" using s by simp
  have k: "mac_inv a b (?s\<lparr>rx_state := MAC_RECV, mhBackoff := x, pktRx := Some q, Recv_Busy := c\<rparr>)" for x q c
    using n by (simp add: mac_inv_defs rx_ok_def)
  have i: "okM (mac_inv a b) (setRxState M MAC_RECV ?s \<bind> (\<lambda>s. txtime q \<bind> (\<lambda>t.
      timer_start M mhRecv mhRecv_update t (s\<lparr>pktRx := Some q,
        Recv_Busy := Recv_Busy s \<or> mt_busy (mhProbe s) \<and> OnMinChannelTime s\<rparr>))))" for q
    unfolding setRxState_def
    by (rule okM_bind[OF checkBackoffTimer_only], elim exE, rule okM_bind_any, rule timer_start_ok)
      (use k in \<open>simp_all add: mac_inv_defs rx_ok_def\<close>)
  show ?thesis unfolding recv_def Let_def
    by (intro okM_if okM_bind_any send_ok i capture_ok collision_ok) (simp_all add: s)
qed

lemma dispatch_ok:
  assumes "mac_inv a b s" and "env_ok M" shows "okM (mac_inv a b) (dispatch M p s)"
  unfolding dispatch_def
  by (intro okM_if recvBEACON_ok recvAUTHENTICATE_ok recv_mgmt_ok recvASSOCREP_ok recvRTS_ok recvCTS_ok
      recvACK_ok recvDATA_ok simple_handlers_ok assms okM_None)

text \<open>What is received may have been answered, but the receiver still holds the packet.\<close>

lemma recv_timer_ok:
  assumes s: "mac_inv a b s" and E: "env_ok M" shows "okM (mac_inv a b) (recv_timer M s)"
proof -
  let ?eifs = "usec M (getEIFS (m_fp M) (phymib s))"
  have d: "okM (mac_inv a b) (if filtered p v then discard p DROP_filtered v else dispatch M p v)"
    if "mac_inv a b v" for p v
    using that by (intro okM_if discard_ok dispatch_ok E)
  have v: "okM (mac_inv a b) (if pk_ra p \<noteq> mac_index s then set_nav M (dh_duration (mp_hdr p)) s else Some s)" for p
    by (intro okM_if set_nav_ok) (simp_all add: s)
  have tp: "mac_inv a b (if c then emit e v else v)" if "mac_inv a b v" for c e v
    using that by simp
  have body: "okM (mac_inv a b) (if rx_state s \<noteq> MAC_RECV \<and> rx_state s \<noteq> MAC_COLL then None
      else if tx_active s then Some s
      else if rx_state s = MAC_COLL then discard p DROP_MAC_COLLISION s \<bind> set_nav M ?eifs
      else if pk_error p \<noteq> 0 then set_nav M ?eifs s
      else (if pk_ra p \<noteq> mac_index s then set_nav M (dh_duration (mp_hdr p)) s else Some s) \<bind>
        (\<lambda>s. let s = if tap s \<and> pk_type p = MAC_Type_Data \<and> pk_subtype p = MAC_Subtype_Data
                     then emit (Tap_out p) s else s
             in if filtered p s then discard p DROP_filtered s else dispatch M p s))" for p
    by (intro okM_if okM_bind[OF discard_ok[OF s]] set_nav_ok okM_bind[OF v] okM_Let d tp)
      (simp_all add: s)
  have e: "okM (mac_inv a b) (rx_resume M (v\<lparr>pktRx := None\<rparr>))" if "mac_inv a b v" for v
  proof -
    have "mac_inv a b (v\<lparr>pktRx := None, rx_state := MAC_IDLE\<rparr>)"
      using that by (simp add: mac_inv_defs rx_ok_def)
    then show ?thesis unfolding rx_resume_def by (intro okM_if setRxState_ok) simp_all
  qed
  show ?thesis unfolding recv_timer_def Let_def
    by (rule okM_bind_any, rule okM_bind[OF body[unfolded Let_def]], rule e)
qed

section \<open>Commands\<close>

lemma mac_command_ok:
  assumes s: "mac_inv a b s" and E: "env_ok M"
  shows "okM (\<lambda>(r, t). mac_inv a b t) (mac_command M argv s)"
proof -
  have c: "okM (mac_inv a b) (set_ap M s)" "okM (mac_inv a b) (set_scan_type M x s)"
    "okM (mac_inv a b) (set_workMode M x y z s)" "okM (mac_inv a b) (new_cache n s)" for x y z n
    unfolding set_ap_def set_scan_type_def set_workMode_def new_cache_def Let_def
    by (intro okM_if okM_map_option timer_start_ok; simp add: s timer_start_ok)+
  have three: "okM (\<lambda>(r, t). mac_inv a b t) (mac_command M [w, x, y] s)" for w x y
    unfolding mac_command_def list.case
    by (intro okM_if okM_map_option env_okD(4)[OF E s]) (simp_all add: s c)
  have five: "okM (\<lambda>(r, t). mac_inv a b t) (mac_command M [v, w, x, y, z] s)" for v w x y z
    unfolding mac_command_def list.case
    by (intro okM_if okM_map_option env_okD(4)[OF E s]) (simp_all add: c)
  have "mac_command M argv s = m_base_command M argv s \<or> (\<exists>w x y. argv = [w, x, y])
      \<or> (\<exists>v w x y z. argv = [v, w, x, y, z])"
    by (auto simp: mac_command_def split: list.splits)
  then show ?thesis using env_okD(4)[OF E s, of argv] three five by (elim disjE exE) simp_all
qed

section \<open>Runs\<close>

text \<open>The timer \<open>mhX\<close> fires: it is busy and not paused, and neither when its handler runs.\<close>

definition fires :: "mac_timer \<Rightarrow> bool" where
  "fires t \<longleftrightarrow> mt_busy t \<and> \<not> mt_paused t"

inductive mac_step :: "mac_env \<Rightarrow> mac \<Rightarrow> mac \<Rightarrow> bool" for M where
  step_recv: "recv M p h s = Some t \<Longrightarrow> mac_step M s t"
| step_rx: "fires (mhRecv s) \<Longrightarrow> recv_timer M (s\<lparr>mhRecv := idle_timer\<rparr>) = Some t \<Longrightarrow> mac_step M s t"
| step_tx: "fires (mhSend s) \<Longrightarrow> send_timer M (s\<lparr>mhSend := idle_timer\<rparr>) = Some t \<Longrightarrow> mac_step M s t"
| step_defer: "fires (mhDefer s) \<Longrightarrow> deferHandler M (s\<lparr>mhDefer := idle_timer\<rparr>) = Some t \<Longrightarrow> mac_step M s t"
| step_backoff: "fires (mhBackoff s) \<Longrightarrow> backoffHandler M (s\<lparr>mhBackoff := idle_timer\<rparr>) = Some t
    \<Longrightarrow> mac_step M s t"
| step_nav: "fires (mhNav s) \<Longrightarrow> navHandler M (s\<lparr>mhNav := idle_timer\<rparr>) = Some t \<Longrightarrow> mac_step M s t"
| step_if: "fires (mhIF s) \<Longrightarrow> txHandler (s\<lparr>mhIF := idle_timer\<rparr>) = Some t \<Longrightarrow> mac_step M s t"
| step_beacon: "fires (mhBeacon s) \<Longrightarrow> BeaconHandler M (s\<lparr>mhBeacon := idle_timer\<rparr>) = Some t
    \<Longrightarrow> mac_step M s t"
| step_probe: "fires (mhProbe s) \<Longrightarrow> ProbeHandler M (s\<lparr>mhProbe := idle_timer\<rparr>) = Some t
    \<Longrightarrow> mac_step M s t"
| step_noise: "fires (mhNoise s) \<Longrightarrow> noiseHandler M (s\<lparr>mhNoise := idle_timer\<rparr>) = Some t
    \<Longrightarrow> mac_step M s t"
| step_valid: "fires (mhValid s) \<Longrightarrow> mac_step M s (validHandler (s\<lparr>mhValid := idle_timer\<rparr>))"
| step_command: "mac_command M argv s = Some (r, t) \<Longrightarrow> mac_step M s t"
| step_clock: "mac_step M s (s\<lparr>clock := x\<rparr>)"

inductive_cases mac_stepE: "mac_step M s t"

lemma mac_step_ok:
  assumes "mac_step M s t" and E: "env_ok M" and s: "mac_ok s" shows "mac_ok t"
  using assms(1)
  by (elim mac_stepE) (use s E in \<open>auto dest: okM_D[OF recv_ok[OF s]] okM_D[OF mac_command_ok[OF s E]]
    okM_D[OF recv_timer_ok, rotated -1] okM_D[OF send_timer_ok, rotated -1]
    okM_D[OF deferHandler_ok, rotated -1] okM_D[OF backoffHandler_ok, rotated -1]
    okM_D[OF simple_handlers_ok(1), rotated -1] okM_D[OF simple_handlers_ok(2), rotated -1]
    okM_D[OF simple_handlers_ok(3), rotated -1] okM_D[OF simple_handlers_ok(5), rotated -1]
    okM_D[OF ProbeHandler_ok, rotated -1] intro: simple_handlers_ok\<close>)

lemma mac_run_ok: "(mac_step M)\<^sup>*\<^sup>* s t \<Longrightarrow> env_ok M \<Longrightarrow> mac_ok s \<Longrightarrow> mac_ok t"
  by (induction rule: rtranclp_induct) (auto dest: mac_step_ok)

lemma mac_init_ok: "mib_ok u \<Longrightarrow> mac_ok (Mac802_11_init u)"
  by (auto simp: Mac802_11_init_def Mac_timers_init_def Mac_base_init_def mac_inv_defs rx_ok_def
      mgmt_ok_def frames_ok_def word_less_nat_alt)

end
