(* ===== verification/Mac_Facts.thy ===== *)
theory Mac_Facts
  imports Mac_Run
begin

text \<open>
  What the operations of the MAC leave alone: \<open>stays s t\<close> says that \<open>t\<close> differs from \<open>s\<close> neither
  in the addresses, the tables and the duplicate cache nor in the packets passed up so far.
\<close>

section \<open>Packets passed up\<close>

fun pass_ups :: "mac_event list \<Rightarrow> mac_packet list" where
  "pass_ups [] = []"
| "pass_ups (e # es) = (case e of Pass_up p \<Rightarrow> p # pass_ups es | _ \<Rightarrow> pass_ups es)"

definition stays :: "mac \<Rightarrow> mac \<Rightarrow> bool" where
  "stays s t \<longleftrightarrow> mac_index t = mac_index s \<and> bss_id t = bss_id s \<and> cache t = cache s
     \<and> cache_node_count t = cache_node_count s \<and> phymib t = phymib s
     \<and> client_list1 t = client_list1 s \<and> pass_ups (mac_out t) = pass_ups (mac_out s)"

lemma stays_refl [simp]: "stays s s"
  by (simp add: stays_def)

lemma stays_trans: "stays s t \<Longrightarrow> stays t u \<Longrightarrow> stays s u"
  by (simp add: stays_def)

lemma okM_stays_bind:
  assumes "okM (stays s) m" and "\<And>t. stays s t \<Longrightarrow> okM (stays t) (f t)"
  shows "okM (stays s) (m \<bind> f)"
  by (rule okM_bind[OF assms(1)], rule okM_mono[OF assms(2)]) (auto elim: stays_trans)

lemma stays_set [simp]:
  "stays s (t\<lparr>mhBackoff := x\<rparr>) = stays s t" "stays s (t\<lparr>mhDefer := x\<rparr>) = stays s t"
  "stays s (t\<lparr>mhSend := x\<rparr>) = stays s t" "stays s (t\<lparr>mac_rng := n\<rparr>) = stays s t"
  "stays s (t\<lparr>pktTx := p\<rparr>) = stays s t" "stays s (t\<lparr>pktRTS := p\<rparr>) = stays s t"
  "stays s (t\<lparr>pktCTRL := p\<rparr>) = stays s t" "stays s (t\<lparr>callback := b\<rparr>) = stays s t"
  "stays s (t\<lparr>tx_state := st\<rparr>) = stays s t" "stays s (t\<lparr>sta_seqno := k\<rparr>) = stays s t"
  "stays s (emit Callback t) = stays s t" "stays s (emit (Mac_drop q why) t) = stays s t"
  by (simp_all add: stays_def emit_def)

section \<open>Contention\<close>

lemma timer_start_only: "okM (\<lambda>t. \<exists>x. t = upd (\<lambda>_. x) s) (timer_start M get upd d s)"
  unfolding timer_start_def by (rule okM_bind_any) auto

lemma timer_stop_only: "okM (\<lambda>t. \<exists>x. t = upd (\<lambda>_. x) s) (timer_stop M get upd s)"
  unfolding timer_stop_def by (rule okM_bind_any) auto

lemma backoff_start_only: "okM (\<lambda>t. \<exists>x n. t = s\<lparr>mhBackoff := x, mac_rng := n\<rparr>) (backoff_start M d s)"
  unfolding backoff_start_def by (rule okM_bind_any) auto

text \<open>Only the timers of contention and the random numbers change.\<close>

definition contends :: "mac \<Rightarrow> mac \<Rightarrow> bool" where
  "contends s t \<longleftrightarrow> t\<lparr>mhBackoff := idle_timer, mhDefer := idle_timer, mac_rng := 0\<rparr>
     = s\<lparr>mhBackoff := idle_timer, mhDefer := idle_timer, mac_rng := 0\<rparr>"

lemma contends_refl [simp]: "contends s s"
  by (simp add: contends_def)

lemma contends_sel:
  assumes "contends s t" and "\<And>v x y n. f (v\<lparr>mhBackoff := x, mhDefer := y, mac_rng := n\<rparr>) = f v"
  shows "f t = f s"
  using arg_cong[OF assms(1)[unfolded contends_def], of f] assms(2) by simp

lemma contends_out: "contends s t \<Longrightarrow> mac_out t = mac_out s"
  by (erule contends_sel) simp

lemma contends_stays: "contends s t \<Longrightarrow> stays s t"
  using contends_sel[of s t "stays s"] by simp

lemma backoff_start_contends: "okM (contends s) (backoff_start M d s)"
  by (rule okM_mono[OF backoff_start_only]) (auto simp: contends_def)

lemma defer_contends: "okM (contends s) (timer_start M mhDefer mhDefer_update d (s\<lparr>mac_rng := n\<rparr>))"
  by (rule okM_mono[OF timer_start_only]) (auto simp: contends_def)

lemma wait_difs_contends: "okM (contends s) (wait_difs M s)"
  unfolding wait_difs_def defer_random_def Let_def
  by (intro okM_if backoff_start_contends defer_contends) simp

lemma contend_contends: "okM (contends s) (contend M s)"
  unfolding contend_def by (intro okM_if wait_difs_contends backoff_start_contends) simp_all

section \<open>Sending\<close>

lemma sendRTS_only: "okM (\<lambda>t. \<exists>p. t = s\<lparr>pktRTS := p\<rparr>) (sendRTS M dst s)"
proof -
  have "\<exists>p. s = s\<lparr>pktRTS := p\<rparr>" by (rule exI[of _ "pktRTS s"]) simp
  then show ?thesis unfolding sendRTS_def Let_def
    by (intro okM_case_option okM_if okM_bind_any) (auto simp only: okM_Some okM_None)
qed

lemma send_stays: "okM (stays s) (send M p h s)"
  unfolding send_def
proof (rule okM_stays_bind, goal_cases)
  case 1
  show ?case unfolding sendDATA_def Let_def by (intro okM_if) simp_all
next
  case (2 t)
  show ?case
    by (rule okM_stays_bind, rule okM_mono[OF sendRTS_only], fastforce, rule okM_bind_any,
        rule okM_mono[OF contend_contends], drule contends_stays) (simp add: stays_def)
qed

lemma sends_stays: "sends M s t \<Longrightarrow> stays s t"
  by (induction rule: sends.induct) (auto dest: okM_D[OF send_stays] elim: stays_trans)

lemma env_stays:
  assumes "env_ok M"
  shows "okM (stays s) (m_callback M s)" "okM (stays s) (m_up M p s)"
  using assms unfolding env_ok_def by (blast intro: okM_mono sends_stays)+

lemma tx_resume_stays: "env_ok M \<Longrightarrow> okM (stays s) (tx_resume M s)"
proof -
  assume E: "env_ok M"
  have c: "okM (stays s) (m_callback M (emit Callback (s\<lparr>callback := False\<rparr>)))"
    by (rule okM_mono[OF env_stays(1)[OF E]]) (simp add: stays_def emit_def)
  have d: "okM (stays s) (timer_start M mhDefer mhDefer_update x s)" for x
    by (rule okM_mono[OF timer_start_only]) auto
  have w: "okM (stays s) (wait_difs M s)"
    by (rule okM_mono[OF wait_difs_contends]) (rule contends_stays)
  have t: "okM (stays v) (setTxState M MAC_IDLE v)" for v
    unfolding setTxState_def by (rule okM_mono[OF checkBackoffTimer_only]) auto
  show ?thesis unfolding tx_resume_def
    by (intro okM_if okM_stays_bind[OF _ t] okM_case_option c d w) simp_all
qed

section \<open>Acknowledging data\<close>

lemma sendACK_stays: "okM (stays s) (sendACK M d s)"
  unfolding sendACK_def Let_def by (intro okM_if) simp_all

lemma discard_stays: "okM (stays s) (discard p why s)"
  unfolding discard_def Let_def by (intro okM_if) simp_all

lemma stop_stays: "okM (stays s) (timer_stop M mhSend mhSend_update s)"
  by (rule okM_mono[OF timer_stop_only]) auto

lemma acknowledge_stays:
  assumes "env_ok M" shows "okM (\<lambda>(go, t). stays s t) (acknowledge M p sz s)"
proof -
  have a: "okM (\<lambda>(go, t). stays s t) (map_option (Pair g) m)" if "okM (stays s) m" for g m
    by (rule okM_map_option) (use that in simp)
  have r: "okM (stays s) (if \<not> mt_busy (mhSend v) then tx_resume M v else Some v)" if "stays s v" for v
    by (intro okM_if okM_mono[OF tx_resume_stays[OF assms]]) (use that in \<open>auto elim: stays_trans\<close>)
  have k: "okM (\<lambda>(go, t). stays s t) (sendACK M d v \<bind> (\<lambda>s. map_option (Pair True) (tx_resume M s)))"
    if "stays s v" for d v
    by (rule okM_bind[OF sendACK_stays], rule a, rule okM_mono[OF tx_resume_stays[OF assms]])
      (use that in \<open>blast intro: stays_trans\<close>)
  have c: "okM (\<lambda>(go, t). stays s t) (timer_stop M mhSend mhSend_update (s\<lparr>pktCTRL := None\<rparr>) \<bind>
      (\<lambda>s. sendACK M d s \<bind> (\<lambda>s. map_option (Pair True) (tx_resume M s))))" for d
    by (rule okM_bind[OF timer_stop_only], rule k) auto
  have e: "okM (\<lambda>(go, t). stays s t) (sendACK M d s \<bind>
      (\<lambda>s. map_option (Pair True) (resume_unless_sending M s)))" for d
    unfolding resume_unless_sending_def by (rule okM_bind[OF sendACK_stays], rule a, rule r)
  show ?thesis unfolding acknowledge_def
    by (intro okM_if c e a discard_stays) simp_all
qed

end
