(* ===== verification/Mac_Samples.thy ===== *)
theory Mac_Samples
  imports Mac_Facts
begin

text \<open>
  Concrete surroundings and a concrete MAC for the properties: timers that may be started only
  when idle and stopped only when busy, as \<open>mac-timers.cc\<close> asserts, layers above that only listen,
  and a station in ad hoc mode with the default parameters.
\<close>

definition sample_start :: "double \<Rightarrow> mac_timer \<Rightarrow> mac_timer option" where
  "sample_start d t = (if mt_busy t then None
     else Some \<lparr>mt_busy = True, mt_paused = False, mt_expire = d\<rparr>)"

definition sample_frame :: mac_packet where
  "sample_frame = \<lparr>pk_ptype = 2, pk_direction = DOWN, pk_size = 100, pk_iface = 0,
     pk_error = 0, pk_prev_hop = 0, pk_next_hop = 0, pk_addr_type = NS_AF_NONE,
     pk_num_forwards = 0, pk_xmit_failure = True, pk_saddr = 1, pk_daddr = 2, pk_sport = 0,
     pk_dport = 0, pk_ttl = 32, pk_aodv = [], pk_channel = 0, mp_uid = 1, mp_txtime = 0,
     mp_xmit_reason = 0, mp_RxPr = 0x3FF0000000000000, mp_CPThresh = 0x4024000000000000,
     mp_hdr = (frame_header MAC_Type_Data MAC_Subtype_Data)\<lparr>dh_ra := 2, dh_ta := 1\<rparr>\<rparr>"

definition sample_mac_fp :: fp where
  "sample_mac_fp = \<lparr>fp_add = (\<lambda>x y. x), fp_mul = (\<lambda>x y. x), fp_div = (\<lambda>x y. x),
     fp_log = (\<lambda>x. x), fp_of_int = word_of_int\<rparr>"

definition sample_mac_env :: mac_env where
  "sample_mac_env = \<lparr>m_start = (\<lambda>now d t. sample_start d t),
     m_stop = (\<lambda>t. if mt_busy t then Some idle_timer else None),
     m_backoff_start = (\<lambda>now n cw idle difs t. sample_start difs t),
     m_backoff_pause = (\<lambda>now t. if mt_busy t then Some (t\<lparr>mt_paused := True\<rparr>) else None),
     m_backoff_resume = (\<lambda>now difs t. Some (t\<lparr>mt_paused := False\<rparr>)),
     m_alloc = sample_frame, m_random = int, m_floor_u16 = ucast,
     m_to_int = uint, m_uninit = 0, m_lookup = (\<lambda>a. True), m_atoi = (\<lambda>a. 5),
     m_base_command = (\<lambda>argv s. Some (True, s\<lparr>mac_initialized := True\<rparr>)),
     m_callback = Some, m_up = (\<lambda>p. Some), m_xmit_failure = (\<lambda>p. Some), m_fp = sample_mac_fp\<rparr>"

lemma sample_env_ok: "env_ok sample_mac_env"
  by (auto simp: env_ok_def sample_mac_env_def intro: sends_none)

definition sample_phymib :: phy_mib where
  "sample_phymib = \<lparr>CWMin = 31, CWMax = 1023, SlotTime = 0x3EF4F8B588E368F1,
     SIFSTime = 0x3EE4F8B588E368F1, BeaconInterval = 0x3FB999999999999A, PreambleLength = 144,
     PLCPHeaderLength = 48, PLCPDataRate = 0x412E848000000000\<rparr>"

definition sample_macmib :: mac_mib where
  "sample_macmib = \<lparr>RTSThreshold = 3000, ShortRetryLimit = 7, LongRetryLimit = 4,
     mib_ScanType = 0, ProbeDelay = 0, MaxChannelTime = 0, MinChannelTime = 0, ChannelTime = 0,
     FailedCount = 0, RTSFailureCount = 0, ACKFailureCount = 0\<rparr>"

text \<open>What the memory of a new MAC holds where its constructor does not assign.\<close>

definition sample_memory :: mac where
  "sample_memory = \<lparr>mac_index = 1, phymib = sample_phymib, macmib = sample_macmib, bss_id = 0,
     basicRate = 0x412E848000000000, dataRate = 0x412E848000000000, bugFix_timer = True,
     infra_mode = False, BeaconTxtime = 0, associated = False, authenticated = False,
     handoff = False, Pr = 0, ap_temp = 0, ap_addr = 0, tx_mgmt = 0, associating_node = 0,
     authenticating_node = 0, ScanType = 0, OnMinChannelTime = False, OnMaxChannelTime = False,
     Recv_Busy = False, probe_delay = False, client_list1 = [], ap_list1 = [], queue_head = [],
     mhIF = idle_timer, mhNav = idle_timer, mhRecv = idle_timer, mhSend = idle_timer,
     mhDefer = idle_timer, mhBackoff = idle_timer, mhBeacon = idle_timer, mhProbe = idle_timer,
     mhNoise = idle_timer, mhValid = idle_timer, nav = 0, rx_state = MAC_IDLE,
     tx_state = MAC_IDLE, tx_active = False, eotPacket = None, pktTx = None, pktRx = None,
     pktRTS = None, pktCTRL = None, pktBEACON = None, pktASSOCREQ = None, pktASSOCREP = None,
     pktAUTHENTICATE = None, pktPROBEREQ = None, pktPROBEREP = None, cw = 31, ssrc = 0, slrc = 0,
     callback = False, tap = False, logtarget = True, EOTtarget = False, mac_initialized = True,
     sta_seqno = 1, cache_node_count = 5, cache = Some [0, 0, 0, 0, 0, 0], noiseChannel = 0,
     workMode = 0, noiseFlag = False, noiseInterval = 0, noisePower = 0, validInterval = 0,
     mac_channelNum = 0, signalNum = 0, noiseNum = 0, channelSignal1 = 0, channelSignal2 = 0,
     channelSignal3 = 0, channelNoise1 = 0, channelNoise2 = 0, channelNoise3 = 0, clock = 0,
     mac_rng = 0, mac_out = []\<rparr>"

text \<open>The constructed MAC, with its cache, and with a packet to send.\<close>

definition sample_mac :: mac where
  "sample_mac = (Mac802_11_init sample_memory)
     \<lparr>cache_node_count := 5, cache := Some [0, 0, 0, 0, 0, 0]\<rparr>"

definition sample_sender :: mac where
  "sample_sender = sample_mac\<lparr>pktTx := Some sample_frame\<rparr>"

lemmas sample_defs = sample_sender_def sample_mac_def sample_memory_def Mac802_11_init_def
  Mac_timers_init_def Mac_base_init_def sample_phymib_def sample_macmib_def idle_timer_def

lemma sample_mib_ok: "mib_ok sample_memory"
  by (simp add: mib_ok_def sample_defs)

lemma sample_mac_step: "mac_step sample_mac_env (Mac802_11_init sample_memory) sample_mac"
proof (rule step_command)
  show "mac_command sample_mac_env [''mac'', ''nodes'', ''5''] (Mac802_11_init sample_memory)
      = Some (True, sample_mac)"
    by (simp add: mac_command_def new_cache_def sample_mac_def Mac802_11_init_def sample_mac_env_def
        numeral_eq_Suc)
qed

end
