(* ===== verification/Mac_Claims.thy ===== *)
theory Mac_Claims
  imports Mac_Samples
begin

text \<open>
  Properties of the MAC: what holds in all its runs, carrier sense, which frames are not
  received, and retransmission.
\<close>

section \<open>Every run\<close>

lemma sample_send:
  obtains t where "mac_step sample_mac_env sample_mac t" "pktTx t \<noteq> None"
proof -
  have "case recv sample_mac_env sample_frame True sample_mac of Some t \<Rightarrow> pktTx t \<noteq> None | None \<Rightarrow> False"
    by (simp add: recv_def send_def sendDATA_def sendRTS_def contend_def wait_difs_def
        backoff_start_def is_idle_def sample_defs sample_mac_env_def sample_start_def Let_def
        sample_frame_def set_hdr_def frame_header_def needs_rts_def getHdrLen11_def getPLCPhdrLen_def)
  then obtain t where "recv sample_mac_env sample_frame True sample_mac = Some t" "pktTx t \<noteq> None"
    by (auto split: option.splits)
  then show ?thesis by (blast intro: that step_recv)
qed

text \<open>C21: Whatever packets arrive and timers fire, in any order, every frame that waits to be sent has
  the type and subtype of the variable it waits in, and the queue of management frames is
  either the single node 0 or free of it. The checks that put frames on the channel therefore
  never end the program because of an invalid subtype.\<close>

theorem waiting_frames_typed:
  assumes "env_ok M" and "mib_ok u" and "(mac_step M)\<^sup>*\<^sup>* (Mac802_11_init u) s"
  shows "frame_is MAC_Type_Data {MAC_Subtype_Data} (pktTx s)
    \<and> frame_is MAC_Type_Control {MAC_Subtype_RTS} (pktRTS s)
    \<and> frame_is MAC_Type_Control {MAC_Subtype_CTS, MAC_Subtype_ACK} (pktCTRL s)
    \<and> frame_is MAC_Type_Management {MAC_Subtype_80211_Beacon} (pktBEACON s)
    \<and> frame_is MAC_Type_Management {MAC_Subtype_AssocReq} (pktASSOCREQ s)
    \<and> frame_is MAC_Type_Management {MAC_Subtype_AssocRep} (pktASSOCREP s)
    \<and> frame_is MAC_Type_Management {MAC_Subtype_Auth} (pktAUTHENTICATE s)
    \<and> frame_is MAC_Type_Management {MAC_Subtype_ProbeReq} (pktPROBEREQ s)
    \<and> frame_is MAC_Type_Management {MAC_Subtype_ProbeRep} (pktPROBEREP s)
    \<and> frames_ok (queue_head s)"
  using mac_run_ok[OF assms(3,1) mac_init_ok[OF assms(2)]]
  unfolding mac_inv_def data_ok_def mgmt_ok_def mgmt_part_def by simp

theorem waiting_frames_typed_witness:
  "\<exists>(s::mac) p. pktTx s = Some p \<and> pk_type p = MAC_Type_Data"
proof -
  obtain t where t: "mac_step sample_mac_env sample_mac t" "pktTx t \<noteq> None" by (rule sample_send)
  have "(mac_step sample_mac_env)\<^sup>*\<^sup>* (Mac802_11_init sample_memory) t"
    using sample_mac_step t(1) by (meson converse_rtranclp_into_rtranclp r_into_rtranclp)
  from waiting_frames_typed[OF sample_env_ok sample_mib_ok this] t(2) show ?thesis by force
qed

text \<open>C4: In every run the contention window stays between its bounds, the retry counters stay below
  their limits, and the receiver holds a packet exactly while it is not idle.\<close>

theorem mac_invariant:
  assumes "env_ok M" and "mib_ok u" and "(mac_step M)\<^sup>*\<^sup>* (Mac802_11_init u) s"
  shows "CWMin (phymib s) \<le> cw s \<and> cw s \<le> CWMax (phymib s)
    \<and> ssrc s < ShortRetryLimit (macmib s) \<and> slrc s < LongRetryLimit (macmib s)
    \<and> (rx_state s = MAC_IDLE \<longleftrightarrow> pktRx s = None)
    \<and> (rx_state s = MAC_IDLE \<or> rx_state s = MAC_RECV \<or> rx_state s = MAC_COLL)"
  using mac_run_ok[OF assms(3,1) mac_init_ok[OF assms(2)]]
  unfolding mac_inv_def cw_ok_def rx_ok_def by auto

theorem mac_invariant_witness:
  "\<exists>s::mac. pktTx s \<noteq> None \<and> cw s \<le> CWMax (phymib s) \<and> ssrc s < ShortRetryLimit (macmib s)"
proof -
  obtain t where t: "mac_step sample_mac_env sample_mac t" "pktTx t \<noteq> None" by (rule sample_send)
  have "(mac_step sample_mac_env)\<^sup>*\<^sup>* (Mac802_11_init sample_memory) t"
    using sample_mac_step t(1) by (meson converse_rtranclp_into_rtranclp r_into_rtranclp)
  from mac_invariant[OF sample_env_ok sample_mib_ok this] t(2) show ?thesis by blast
qed

section \<open>Carrier sense\<close>

text \<open>A check that has put nothing on the channel, and the medium is still busy if it is not done.\<close>

abbreviation quiet :: "mac \<Rightarrow> bool \<times> mac \<Rightarrow> bool" where
  "quiet s \<equiv> \<lambda>(done, t). mac_out t = mac_out s \<and> (\<not> done \<longrightarrow> \<not> is_idle t)"

lemma inc_cw_out [simp]: "mac_out (inc_cw s) = mac_out s"
  by (simp add: inc_cw_def Let_def)

lemma busy_medium_out: "okM (\<lambda>t. mac_out t = mac_out s) (busy_medium M s)"
  unfolding busy_medium_def by (rule okM_mono[OF backoff_start_contends]) (auto dest: contends_out)

lemma check_frame_quiet: "\<not> is_idle s \<Longrightarrow> okM (quiet s) (check_frame M pkt sub st d mark after s)"
  unfolding check_frame_def
  by (intro okM_if okM_case_option okM_map_option okM_mono[OF busy_medium_out]) auto

lemma check_pktTx_quiet:
  assumes "\<not> is_idle s" shows "okM (quiet s) (check_pktTx M s)"
proof -
  have k: "okM (quiet s) (sendRTS M d (s\<lparr>pktTx := q\<rparr>) \<bind> (\<lambda>s. busy_medium M s \<bind> (\<lambda>s. Some (True, s))))"
    for d q
    by (rule okM_bind[OF sendRTS_only], rule okM_bind[OF busy_medium_out]) auto
  have "\<not> is_idle (s\<lparr>pktTx := q\<rparr>)" for q using assms by (simp add: is_idle_def)
  then show ?thesis unfolding check_pktTx_def Let_def
    by (intro okM_if okM_case_option k) (use assms in auto)
qed

lemma checks_quiet:
  assumes "\<not> is_idle s"
  shows "okM (quiet s) (check_pktRTS M s)" "okM (quiet s) (check_pktPROBEREQ M s)"
    "okM (quiet s) (check_pktAUTHENTICATE M s)" "okM (quiet s) (check_pktASSOCREQ M s)"
    "okM (quiet s) (check_pktASSOCREP M s)"
  unfolding check_pktRTS_def check_pktPROBEREQ_def check_pktAUTHENTICATE_def check_pktASSOCREQ_def
    check_pktASSOCREP_def Let_def
  by (intro okM_if check_frame_quiet assms)+

lemma stamped_checks_quiet:
  assumes "\<not> is_idle s"
  shows "okM (quiet s) (check_pktPROBEREP M s)" "okM (quiet s) (check_pktBEACON M s)"
proof -
  have "\<not> is_idle (s\<lparr>pktPROBEREP := p\<rparr>)" "\<not> is_idle (s\<lparr>pktBEACON := p\<rparr>)" for p
    using assms by (simp_all add: is_idle_def)
  from check_frame_quiet[OF this(1)] check_frame_quiet[OF this(2)]
  show "okM (quiet s) (check_pktPROBEREP M s)" "okM (quiet s) (check_pktBEACON M s)"
    unfolding check_pktPROBEREP_def check_pktBEACON_def Let_def by (auto intro!: okM_bind_any)
qed

lemma ap_check_quiet: "\<not> is_idle s \<Longrightarrow> okM (quiet s) (ap_check M s)"
  unfolding ap_check_def
  by (intro okM_bind_any okM_if stamped_checks_quiet checks_quiet) simp_all

lemma unless_done_quiet:
  assumes "okM (quiet s) (c s)"
    and "\<And>t. \<not> is_idle t \<Longrightarrow> okM (\<lambda>u. mac_out u = mac_out t) (r t)"
  shows "okM (\<lambda>u. mac_out u = mac_out s) (unless_done c r s)"
  unfolding unless_done_def
  by (rule okM_bind[OF assms(1)]) (use assms(2) in \<open>fastforce simp: okM_def split: if_splits\<close>)

lemma check_data_quiet: "\<not> is_idle s \<Longrightarrow> okM (\<lambda>u. mac_out u = mac_out s) (check_data M s)"
  unfolding check_data_def
  by (rule unless_done_quiet[OF checks_quiet(1)], assumption, rule unless_done_quiet[OF check_pktTx_quiet])
    simp_all

lemma transmit_out: "okM (\<lambda>t. mac_out t = Send_down p # mac_out s) (transmit M p d s)"
proof -
  have r: "okM (\<lambda>v. mac_out v = mac_out w) (if rx_state w \<noteq> MAC_IDLE
      then map_option (\<lambda>r. w\<lparr>pktRx := Some (r\<lparr>pk_error := 1\<rparr>)\<rparr>) (pktRx w) else Some w)" for w
    by (intro okM_if okM_map_option) (simp_all add: okM_def)
  have t: "okM (\<lambda>t. mac_out t = mac_out w) (timer_start M mhSend mhSend_update x w)"
    "okM (\<lambda>t. mac_out t = mac_out w) (timer_start M mhIF mhIF_update x w)" for w x
    by (rule okM_mono[OF timer_start_only], auto)+
  show ?thesis unfolding transmit_def Let_def
    by (rule okM_bind[where Q = "\<lambda>v. mac_out v = mac_out s"], simp, rule okM_bind[OF r],
        rule okM_bind[OF t(1)], rule okM_bind_any, rule okM_mono[OF t(2)]) (simp add: emit_def)
qed

lemma setTxState_out: "okM (\<lambda>t. mac_out t = mac_out s) (setTxState M st s)"
  unfolding setTxState_def by (rule okM_mono[OF checkBackoffTimer_only]) auto

lemma check_pktCTRL_busy:
  assumes "\<not> is_idle s"
  shows "okM (\<lambda>(done, t). (Send_down q \<in> set (mac_out t) \<longrightarrow> Send_down q \<in> set (mac_out s)
      \<or> pktCTRL s = Some q \<and> pk_subtype q = MAC_Subtype_ACK) \<and> (\<not> done \<longrightarrow> t = s)) (check_pktCTRL M s)"
proof -
  have d: "okM (\<lambda>t. Send_down q \<in> set (mac_out t) \<longrightarrow> Send_down q \<in> set (mac_out s)) (discard p why s)" for p why
    unfolding discard_def Let_def by (intro okM_if) (simp_all add: emit_def)
  have a: "okM (\<lambda>(done, t). mac_out t = Send_down p # mac_out s \<and> done)
      (setTxState M st s \<bind> (\<lambda>s. transmit M p (f s) s \<bind> (\<lambda>s. Some (True, s))))" for p st f
    by (rule okM_bind[OF setTxState_out], rule okM_bind[OF transmit_out]) simp
  show ?thesis unfolding check_pktCTRL_def Let_def
    by (intro okM_case_option okM_if okM_map_option okM_mono[OF d] okM_mono[OF a]) (use assms in auto)
qed

text \<open>C8: Carrier sense: while the medium is busy, physically or by the network allocation vector, the
  backoff timer puts nothing on the channel, and the defer timer nothing but the waiting
  acknowledgement.\<close>

theorem carrier_sense:
  assumes "\<not> is_idle s"
  shows "(backoffHandler M s = Some t \<longrightarrow> mac_out t = mac_out s)
    \<and> (deferHandler M s = Some t \<longrightarrow> Send_down p \<in> set (mac_out t) \<longrightarrow> Send_down p \<notin> set (mac_out s)
        \<longrightarrow> pktCTRL s = Some p \<and> pk_subtype p = MAC_Subtype_ACK)"
proof -
  have own: "okM (\<lambda>u. mac_out u = mac_out v) (if pktCTRL v \<noteq> None
      then if mt_busy (mhSend v) \<or> mt_busy (mhDefer v) then Some v else None
      else if mac_index v = bss_id v then unless_done (ap_check M) (check_data M) v
      else check_data M v)" if "\<not> is_idle v" for v
    using that by (intro okM_if unless_done_quiet ap_check_quiet check_data_quiet) simp_all
  have "okM (\<lambda>u. mac_out u = mac_out s) (backoffHandler M s)"
    unfolding backoffHandler_def Let_def
    by (intro okM_if unless_done_quiet checks_quiet own assms) simp_all
  moreover have "okM (\<lambda>u. Send_down p \<in> set (mac_out u) \<longrightarrow> Send_down p \<notin> set (mac_out s)
      \<longrightarrow> pktCTRL s = Some p \<and> pk_subtype p = MAC_Subtype_ACK) (deferHandler M s)"
    unfolding deferHandler_def unless_done_def
  proof (intro okM_if, simp, rule okM_bind[OF check_pktCTRL_busy[OF assms]])
    fix x :: "bool \<times> mac" let ?P = "\<lambda>u. Send_down p \<in> set (mac_out u) \<longrightarrow> Send_down p \<notin> set (mac_out s)
      \<longrightarrow> pktCTRL s = Some p \<and> pk_subtype p = MAC_Subtype_ACK"
    assume x: "case x of (done, t) \<Rightarrow> (Send_down p \<in> set (mac_out t) \<longrightarrow> Send_down p \<in> set (mac_out s)
      \<or> pktCTRL s = Some p \<and> pk_subtype p = MAC_Subtype_ACK) \<and> (\<not> done \<longrightarrow> t = s)"
    have "okM ?P (check_data M s)" by (rule okM_mono[OF check_data_quiet[OF assms]]) simp
    then show "okM ?P (case x of (done, s) \<Rightarrow> if done then Some s
        else if mt_busy (mhBackoff s) then None else check_data M s)"
      using x by (auto split: prod.splits)
  qed
  ultimately show ?thesis unfolding okM_def by blast
qed

text \<open>A station that hears another frame while its acknowledgement and a packet wait.\<close>

definition sample_busy :: mac where
  "sample_busy = sample_mac\<lparr>rx_state := MAC_RECV, pktRx := Some sample_frame, pktTx := Some sample_frame,
     pktCTRL := Some (sample_frame\<lparr>mp_hdr := frame_header MAC_Type_Control MAC_Subtype_ACK\<rparr>)\<rparr>"

theorem carrier_sense_witness:
  "\<exists>t. deferHandler sample_mac_env sample_busy = Some t \<and> mac_out t \<noteq> []
    \<and> (\<forall>p. Send_down p \<in> set (mac_out t) \<longrightarrow> pk_subtype p = MAC_Subtype_ACK)"
proof -
  have b: "\<not> is_idle sample_busy" by (simp add: is_idle_def sample_busy_def)
  have o: "mac_out sample_busy = []" by (simp add: sample_busy_def sample_defs)
  have "case deferHandler sample_mac_env sample_busy of Some t \<Rightarrow> mac_out t \<noteq> [] | None \<Rightarrow> False"
    by (simp add: deferHandler_def unless_done_def check_pktCTRL_def setTxState_def checkBackoffTimer_def
        is_idle_def transmit_def timer_start_def txtime_def emit_def sample_busy_def sample_defs
        sample_mac_env_def sample_start_def sample_frame_def frame_header_def)
  then obtain t where "deferHandler sample_mac_env sample_busy = Some t" "mac_out t \<noteq> []"
    by (auto split: option.splits)
  then show ?thesis using carrier_sense[OF b, of sample_mac_env t] o by auto
qed

section \<open>Frames that are not received\<close>

text \<open>Of the state, only what carrier sense needs has changed, and at most a drop of \<open>p\<close> or its
  copy for the tap was reported.\<close>

definition ignores :: "mac_packet \<Rightarrow> mac \<Rightarrow> mac \<Rightarrow> bool" where
  "ignores p s t \<longleftrightarrow> pktCTRL t = pktCTRL s \<and> pktTx t = pktTx s \<and> mgmt_part t = mgmt_part s
     \<and> cache t = cache s \<and> client_list1 t = client_list1 s \<and> ap_list1 t = ap_list1 s
     \<and> (\<exists>es. mac_out t = es @ mac_out s \<and> set es \<subseteq> insert (Tap_out p) (range (Mac_drop p)))
     \<and> bss_id t = bss_id s \<and> mac_index t = mac_index s"

lemma ignores_refl [simp]: "ignores p s s"
  by (simp add: ignores_def)

lemma ignores_trans: "ignores p s t \<Longrightarrow> ignores p t u \<Longrightarrow> ignores p s u"
  by (force simp: ignores_def)

lemma ignores_emit:
  "ignores p s t \<Longrightarrow> ignores p s (emit (Mac_drop p why) t)" "ignores p s t \<Longrightarrow> ignores p s (emit (Tap_out p) t)"
  by (auto simp: ignores_def emit_def mgmt_part_def intro: exI[of _ "_ # _"])

lemma ignores_set [simp]:
  "ignores p s (t\<lparr>nav := x\<rparr>) = ignores p s t" "ignores p s (t\<lparr>mhNav := m\<rparr>) = ignores p s t"
  "ignores p s (t\<lparr>mhBackoff := m\<rparr>) = ignores p s t" "ignores p s (t\<lparr>rx_state := st\<rparr>) = ignores p s t"
  "ignores p s (t\<lparr>pktRx := q\<rparr>) = ignores p s t"
  by (simp_all add: ignores_def mgmt_part_def)

lemma discard_ignores: "ignores p s t \<Longrightarrow> okM (ignores p s) (discard p why t)"
  unfolding discard_def Let_def by (intro okM_if) (simp_all add: ignores_emit)

lemma set_nav_ignores: "ignores p s t \<Longrightarrow> okM (ignores p s) (set_nav M us t)"
  unfolding set_nav_def Let_def
  by (intro okM_if okM_bind[where Q = "ignores p s"] okM_mono[OF timer_start_only]
      okM_mono[OF timer_stop_only]) auto

lemma filtered_ignores: "ignores p s t \<Longrightarrow> filtered q t = filtered q s"
  by (simp add: ignores_def filtered_def find_client_def)

lemma rx_resume_only:
  "okM (\<lambda>t. pktRx s = None \<and> (\<exists>x. t = s\<lparr>rx_state := MAC_IDLE, mhBackoff := x\<rparr>)) (rx_resume M s)"
  unfolding rx_resume_def setRxState_def
  by (rule okM_if, rule okM_mono[OF checkBackoffTimer_only]) auto

text \<open>C20: A frame that ends while the station itself transmits, that collided, that has an error or that is
  not for this station is not received: nothing is passed up, answered or noted in
  any table, at most its drop is reported, and the receiver is idle again.\<close>

theorem spoilt_frame_ignored:
  assumes "pktRx s = Some p" and "recv_timer M s = Some t"
    and "tx_active s \<or> rx_state s = MAC_COLL \<or> pk_error p \<noteq> 0 \<or> filtered p s"
  shows "rx_state t = MAC_IDLE \<and> pktRx t = None \<and> ignores p s t"
proof -
  have d: "okM (ignores p s) (let v = if c then emit (Tap_out p) v else v
      in if filtered p v then discard p DROP_filtered v else dispatch M p v)"
    if "ignores p s v" "filtered p s" for c v
  proof -
    have i: "ignores p s (if c then emit (Tap_out p) v else v)" using that(1) by (simp add: ignores_emit)
    then show ?thesis
      unfolding Let_def using filtered_ignores[OF i, of p] that(2) by (simp add: discard_ignores)
  qed
  have "okM (\<lambda>t. rx_state t = MAC_IDLE \<and> pktRx t = None \<and> ignores p s t) (recv_timer M s)"
    unfolding recv_timer_def Let_def assms(1) Option.bind.bind_lunit
    by (rule okM_bind[where Q = "ignores p s"],
        intro okM_if okM_bind[OF discard_ignores] okM_bind[where Q = "ignores p s"] set_nav_ignores
          d[unfolded Let_def], simp_all add: assms(3))
      (use assms(3) in \<open>auto intro: okM_mono[OF rx_resume_only]\<close>)
  then show ?thesis using assms(2) by (simp add: okM_def)
qed

text \<open>The end of a data frame for station 9.\<close>

definition sample_foreign :: mac where
  "sample_foreign = sample_mac\<lparr>rx_state := MAC_RECV,
     pktRx := Some (set_hdr (\<lambda>h. h\<lparr>dh_ra := 9\<rparr>) sample_frame)\<rparr>"

theorem spoilt_frame_ignored_witness:
  "\<exists>t. recv_timer sample_mac_env sample_foreign = Some t \<and> pktRx t = None
    \<and> cache t = Some [0, 0, 0, 0, 0, 0]"
proof -
  have "recv_timer sample_mac_env sample_foreign \<noteq> None"
    by (simp add: recv_timer_def filtered_def discard_def rx_resume_def setRxState_def set_nav_def
        checkBackoffTimer_def timer_start_def is_idle_def sample_foreign_def sample_defs Let_def
        sample_mac_env_def sample_start_def sample_frame_def frame_header_def set_hdr_def find_client_def
        sample_mac_fp_def emit_def)
  then obtain t where t: "recv_timer sample_mac_env sample_foreign = Some t" by blast
  have "cache sample_foreign = Some [0, 0, 0, 0, 0, 0]" "pktRx sample_foreign =
      Some (set_hdr (\<lambda>h. h\<lparr>dh_ra := 9\<rparr>) sample_frame)" "mac_index sample_foreign = 1"
    by (simp_all add: sample_foreign_def sample_defs)
  then show ?thesis
    using spoilt_frame_ignored[OF _ t, of "set_hdr (\<lambda>h. h\<lparr>dh_ra := 9\<rparr>) sample_frame"] t
    by (auto simp: filtered_def ignores_def)
qed

section \<open>Retransmission\<close>

text \<open>Idle timers can be started, and the layer above returns when it is told of a failure.\<close>

definition responds :: "mac_env \<Rightarrow> bool" where
  "responds M \<longleftrightarrow> (\<forall>now n c i d t. \<not> mt_busy t \<longrightarrow> m_backoff_start M now n c i d t \<noteq> None)
     \<and> (\<forall>p s. m_xmit_failure M p s \<noteq> None)"

text \<open>The packet as the layer above sees it when it is given up.\<close>

definition returned :: "mac_env \<Rightarrow> int \<Rightarrow> mac \<Rightarrow> mac_packet \<Rightarrow> mac_packet" where
  "returned M reason s q = q\<lparr>pk_size := sint (word_of_int (pk_size q) - getHdrLen11 (phymib s)),
     mp_xmit_reason := reason\<rparr>"

lemma give_up_reports:
  assumes E: "env_ok M" and R: "responds M" and q: "pktTx s = Some q"
    and d: "pk_type q = MAC_Type_Data" "pk_subtype q = MAC_Subtype_Data"
  obtains l where "give_up_packet M reason s = Some (s\<lparr>pktTx := None, mac_out := l\<rparr>)"
    "pk_xmit_failure q \<Longrightarrow> Xmit_failure (returned M reason s q) \<in> set l"
proof -
  have g: "\<exists>l. discard p why v = Some (v\<lparr>mac_out := l\<rparr>) \<and> set (mac_out v) \<subseteq> set l"
    if "pk_type p = MAC_Type_Data" "pk_subtype p = MAC_Subtype_Data" for p why v
  proof -
    have "v = v\<lparr>mac_out := mac_out v\<rparr>" by simp
    then show ?thesis using that unfolding discard_def Let_def emit_def
      by (auto intro: exI[of _ "mac_out v"] exI[of _ "_ # mac_out v"])
  qed
  let ?r = "returned M reason s q"
  let ?v = "s\<lparr>pktTx := Some ?r, mac_out := Xmit_failure ?r # mac_out s\<rparr>"
  have f: "m_xmit_failure M ?r ?v = Some ?v"
  proof -
    obtain w where w: "m_xmit_failure M ?r ?v = Some w" using R unfolding responds_def by blast
    have "okM (sends M ?v) (m_xmit_failure M ?r ?v)" using E by (simp add: env_ok_def)
    then have "w = ?v" using w sends_busy[of M ?v w] by (simp add: okM_def)
    then show ?thesis using w by simp
  qed
  show ?thesis
  proof (cases "pk_xmit_failure q")
    case True
    have "pk_type ?r = MAC_Type_Data" "pk_subtype ?r = MAC_Subtype_Data"
      using d by (simp_all add: returned_def)
    from g[OF this] obtain l where l: "discard ?r DROP_MAC_RETRY_COUNT_EXCEEDED ?v = Some (?v\<lparr>mac_out := l\<rparr>)"
      "set (mac_out ?v) \<subseteq> set l" by blast
    show ?thesis by (rule that[of l]) (use f l q True in \<open>simp_all add: give_up_packet_def emit_def Let_def returned_def\<close>)
  next
    case False
    from g[OF d, of DROP_MAC_RETRY_COUNT_EXCEEDED s]
    obtain l where l: "discard q DROP_MAC_RETRY_COUNT_EXCEEDED s = Some (s\<lparr>mac_out := l\<rparr>)" by blast
    show ?thesis by (rule that[of l]) (use l q False in \<open>simp_all add: give_up_packet_def\<close>)
  qed
qed

lemma busy_medium_starts:
  assumes "responds M" and "\<not> mt_busy (mhBackoff s)"
  obtains x n where "busy_medium M s = Some (s\<lparr>cw := min (cw s * 2 + 1) (CWMax (phymib s)), mhBackoff := x, mac_rng := n\<rparr>)"
proof -
  have c: "inc_cw s = s\<lparr>cw := min (cw s * 2 + 1) (CWMax (phymib s))\<rparr>"
    by (auto simp: inc_cw_def Let_def min_def push_bit_eq_mult)
  have "mt_busy (mhBackoff (inc_cw s)) = mt_busy (mhBackoff s)" by (simp add: c)
  then obtain t where "m_backoff_start M (clock (inc_cw s)) (mac_rng (inc_cw s)) (cw (inc_cw s))
      (is_idle (inc_cw s)) 0 (mhBackoff (inc_cw s)) = Some t"
    using assms unfolding responds_def by (metis option.exhaust)
  then show ?thesis using that by (simp add: busy_medium_def backoff_start_def c)
qed

lemma sendRTS_waits:
  assumes "pktTx s = Some q" and "pktRTS s = None" and "\<not> d_less (mp_txtime q) 0"
  obtains p where "sendRTS M d s = Some (s\<lparr>pktRTS := p\<rparr>)"
proof -
  have "s\<lparr>pktRTS := None\<rparr> = s" using assms(2) by simp
  then have "\<not> needs_rts q d s \<Longrightarrow> sendRTS M d s = Some (s\<lparr>pktRTS := None\<rparr>)"
    using assms by (simp add: sendRTS_def)
  moreover have "needs_rts q d s \<Longrightarrow> \<exists>p. sendRTS M d s = Some (s\<lparr>pktRTS := p\<rparr>)"
    using assms unfolding sendRTS_def txtime_def Let_def by (simp, blast)
  ultimately have "\<exists>p. sendRTS M d s = Some (s\<lparr>pktRTS := p\<rparr>)" by blast
  then show ?thesis using that by blast
qed



end
