(* ===== verification/Mac_Data.thy ===== *)
theory Mac_Data
  imports Mac_Samples
begin

text \<open>
  Properties of the MAC as its users see it: data frames arrive as they were sent and only once,
  and the signal to noise ratio that the agent asks for.
\<close>

section \<open>Data frames\<close>

text \<open>The sequence number noted for a station.\<close>

definition cached :: "mac \<Rightarrow> u32 \<Rightarrow> u32 option" where
  "cached s a = (case cache s of None \<Rightarrow> None | Some c \<Rightarrow> arr_get c (uint a))"

definition frame_seqno :: "mac_packet \<Rightarrow> u32" where
  "frame_seqno p = ucast (dh_scontrol (mp_hdr p))"

lemma stays_cached: "stays s t \<Longrightarrow> cached t a = cached s a"
  by (simp add: stays_def cached_def)

lemma cached_simps [simp]:
  "cached (s\<lparr>mac_out := es\<rparr>) a = cached s a" "cached (emit e s) a = cached s a"
  by (simp_all add: cached_def emit_def)

text \<open>A duplicate has the number noted for its sender; any other unicast frame is noted.\<close>

lemma seen_before_cases:
  "okM (\<lambda>(dup, t). if dup then t = s \<and> pk_ra p \<noteq> MAC_BROADCAST \<and> cached s (pk_ta p) = Some (frame_seqno p)
      else (t = s \<or> (\<exists>c. t = s\<lparr>cache := c\<rparr>))
        \<and> (pk_ra p \<noteq> MAC_BROADCAST \<and> pk_ta p < word_of_int (cache_node_count s) \<longrightarrow>
            cached t (pk_ta p) = Some (frame_seqno p))) (seen_before p s)"
  unfolding seen_before_def Let_def
  by (intro okM_if okM_bind_eq) (auto simp: cached_def frame_seqno_def arr_get_set)

lemma seen_before_known:
  assumes "pk_ra p \<noteq> MAC_BROADCAST" and "pk_ta p < word_of_int (cache_node_count s)"
    and "cached s (pk_ta p) = Some (frame_seqno p)" and "frame_seqno p \<noteq> 0"
  shows "seen_before p s = Some (True, s)"
  using assms by (auto simp: seen_before_def cached_def frame_seqno_def Let_def split: option.splits)

text \<open>The packet as it is passed up, without the MAC header.\<close>

definition stripped :: "mac_packet \<Rightarrow> mac \<Rightarrow> mac_packet" where
  "stripped p s = p\<lparr>pk_size := sint ((word_of_int (pk_size p) :: u32) - getHdrLen11 (phymib s)),
     pk_num_forwards := pk_num_forwards p + 1\<rparr>"

lemma stripped_hdr [simp]: "mp_hdr (stripped p s) = mp_hdr p" "frame_seqno (stripped p s) = frame_seqno p"
  by (simp_all add: stripped_def frame_seqno_def)

lemma pass_up_keeps:
  assumes "env_ok M"
  shows "okM (\<lambda>t. (\<forall>a. cached t a = cached s a) \<and> cache_node_count t = cache_node_count s
      \<and> bss_id t = bss_id s \<and> mac_index t = mac_index s
      \<and> pass_ups (mac_out t) = p # pass_ups (mac_out s)) (pass_up M p s)"
  unfolding pass_up_def
  by (rule okM_mono[OF env_stays(2)[OF assms]]) (auto simp: cached_def stays_def emit_def)

text \<open>What becomes of a data frame that was received: it is discarded, or passed up and noted.\<close>

lemma recvDATA_cases:
  assumes "env_ok M"
  shows "okM (\<lambda>t. stays s t
      \<or> (cache_node_count t = cache_node_count s
        \<and> (pk_ra p \<noteq> MAC_BROADCAST \<and> pk_ta p < word_of_int (cache_node_count s) \<longrightarrow>
            cached t (pk_ta p) = Some (frame_seqno p))
        \<and> (bss_id s \<noteq> mac_index s \<longrightarrow>
            pass_ups (mac_out t) = stripped p s # pass_ups (mac_out s)))) (recvDATA M p s)"
  (is "okM ?P _")
proof -
  let ?p = "stripped p s"
  have relay: "okM (\<lambda>(q, t). (\<forall>a. cached t a = cached u a) \<and> cache_node_count t = cache_node_count u
      \<and> (bss_id u \<noteq> mac_index u \<longrightarrow> q = ?p \<and> t = u)) (ap_relay M ?p u)" for u
  proof -
    have c: "okM (\<lambda>t. (\<forall>a. cached t a = cached u a) \<and> cache_node_count t = cache_node_count u)
        (if c then pass_up M ?p u else Some u)" for c
      by (intro okM_if okM_mono[OF pass_up_keeps[OF assms]]) auto
    show ?thesis unfolding ap_relay_def Let_def by (intro okM_if okM_bind[OF c]) simp_all
  qed
  have up: "okM (\<lambda>t. cache_node_count t = cache_node_count u \<and> (\<forall>a. cached t a = cached u a)
      \<and> (bss_id u \<noteq> mac_index u \<longrightarrow> pass_ups (mac_out t) = ?p # pass_ups (mac_out u)))
      (ap_relay M ?p u \<bind> (\<lambda>(q, t). pass_up M (ap_forward q t) t))" for u
    by (rule okM_bind[OF relay], intro okM_case_prod, rule okM_mono[OF pass_up_keeps[OF assms]])
      (auto simp: ap_forward_def)
  have new: "okM ?P (seen_before ?p u \<bind> (\<lambda>(dup, s). if dup then discard ?p DROP_MAC_DUPLICATE s
      else ap_relay M ?p s \<bind> (\<lambda>(q, t). pass_up M (ap_forward q t) t)))" if u: "stays s u" for u
  proof (rule okM_bind[OF seen_before_cases], intro okM_case_prod okM_if, goal_cases)
    case (1 x dup t)
    then have "t = u" by simp
    show ?case unfolding \<open>t = u\<close>
      by (rule okM_mono[OF discard_stays], rule disjI1, rule stays_trans[OF u])
  next
    case (2 x dup t)
    then have "pass_ups (mac_out t) = pass_ups (mac_out s)" "cache_node_count t = cache_node_count s"
      "bss_id t = bss_id s" "mac_index t = mac_index s" using u by (auto simp: stays_def)
    then show ?case using 2 u by (intro okM_mono[OF up]) (auto simp: stays_def)
  qed
  have "okM ?P (acknowledge M ?p (word_of_int (pk_size p)) s \<bind> (\<lambda>(go, s). if \<not> go then Some s
      else seen_before ?p s \<bind> (\<lambda>(dup, s). if dup then discard ?p DROP_MAC_DUPLICATE s
      else ap_relay M ?p s \<bind> (\<lambda>(q, t). pass_up M (ap_forward q t) t))))"
    by (rule okM_bind[OF acknowledge_stays[OF assms]], intro okM_case_prod okM_if new) auto
  then show ?thesis unfolding recvDATA_def Let_def stripped_def .
qed


text \<open>C16: The receiver of a data frame passes the packet up as the sender's layer above handed it down: the
  MAC header that \<open>sendDATA\<close> adds to its size is taken off again, the payload is untouched and one
  forwarding is counted. A broadcast frame is always passed up, and so is every frame that is
  not discarded.\<close>

theorem data_round_trip:
  assumes "env_ok M" and "sendDATA N p s = Some s'" and "pktTx s' = Some q"
    and "0 \<le> pk_size p" and "pk_size p < 2 ^ 31" and "getHdrLen11 (phymib r) = getHdrLen11 (phymib s)"
    and "bss_id r \<noteq> mac_index r" and "recvDATA M (set_hdr f q) r = Some t"
    and "pk_ra (set_hdr f q) = MAC_BROADCAST \<or> pass_ups (mac_out t) \<noteq> pass_ups (mac_out r)"
  shows "pass_ups (mac_out t) = p\<lparr>mp_txtime := mp_txtime q, mp_hdr := f (mp_hdr q),
    pk_num_forwards := pk_num_forwards p + 1\<rparr> # pass_ups (mac_out r)"
proof -
  let ?p = "set_hdr f q"
  let ?q = "p\<lparr>mp_txtime := mp_txtime q, mp_hdr := f (mp_hdr q), pk_num_forwards := pk_num_forwards p + 1\<rparr>"
  obtain h x where q: "q = p\<lparr>pk_size := sint ((word_of_int (pk_size p) :: u32) + getHdrLen11 (phymib s)),
      mp_txtime := x, mp_hdr := h\<rparr>"
    using assms(2,3) by (auto simp: sendDATA_def set_hdr_def Let_def split: if_splits)
  have "sint (word_of_int (pk_size p) :: u32) = pk_size p"
    using assms(4,5) by (simp add: signed_of_int signed_take_bit_int_eq_self)
  then have str: "stripped ?p r = ?q"
    using assms(6) by (simp add: stripped_def q set_hdr_def)
  have "pass_ups (mac_out t) = stripped ?p r # pass_ups (mac_out r)"
  proof (cases "pk_ra ?p = MAC_BROADCAST")
    case True
    then have "recvDATA M ?p r = pass_up M (stripped ?p r) r"
      using assms(7) unfolding recvDATA_def Let_def stripped_def[symmetric]
      by (simp add: acknowledge_def seen_before_def ap_relay_def ap_forward_def)
    then show ?thesis using okM_D[OF pass_up_keeps[OF assms(1)]] assms(8) by simp
  next
    case False
    then show ?thesis
      using okM_D[OF recvDATA_cases[OF assms(1)] assms(8)] assms(7,9) by (auto simp: stays_def)
  qed
  then show ?thesis using str by simp
qed

text \<open>A packet sent by station 1, received twice by station 2 (here with the same MAC parameters).\<close>

definition sample_received :: mac_packet where
  "sample_received = set_hdr (\<lambda>h. h\<lparr>dh_scontrol := 7\<rparr>) sample_frame"

definition sample_receiver :: mac where
  "sample_receiver = sample_mac\<lparr>mac_index := 2\<rparr>"

lemma sample_recvDATA:
  obtains t where "recvDATA sample_mac_env sample_received sample_receiver = Some t"
    "pass_ups (mac_out t) \<noteq> []" "recvDATA sample_mac_env sample_received (t\<lparr>pktCTRL := None, mhDefer := idle_timer\<rparr>) \<noteq> None"
proof -
  have "case recvDATA sample_mac_env sample_received sample_receiver of
      Some t \<Rightarrow> pass_ups (mac_out t) \<noteq> []
        \<and> recvDATA sample_mac_env sample_received (t\<lparr>pktCTRL := None, mhDefer := idle_timer\<rparr>) \<noteq> None
    | None \<Rightarrow> False"
    by (simp add: recvDATA_def acknowledge_def sendACK_def resume_unless_sending_def tx_resume_def
        setTxState_def checkBackoffTimer_def timer_start_def is_idle_def seen_before_def ap_relay_def
        ap_forward_def pass_up_def discard_def emit_def arr_get_def arr_set_def sample_receiver_def
        sample_received_def sample_defs sample_mac_env_def sample_start_def sample_frame_def
        frame_header_def set_hdr_def Let_def)
  then show ?thesis using that by (auto split: option.splits)
qed


theorem data_round_trip_witness:
  "\<exists>q t. recvDATA sample_mac_env q sample_receiver = Some t \<and> pk_size q = 158
    \<and> map pk_size (pass_ups (mac_out t)) = [100]"
proof -
  let ?f = "\<lambda>h. h\<lparr>dh_ra := MAC_BROADCAST\<rparr>"
  have "case sendDATA sample_mac_env sample_frame sample_mac of
      Some s' \<Rightarrow> (case pktTx s' of Some q \<Rightarrow> pk_size q = 158 | None \<Rightarrow> False) | None \<Rightarrow> False"
    by (simp add: sendDATA_def sample_defs sample_frame_def Let_def set_hdr_def frame_header_def
        getHdrLen11_def getPLCPhdrLen_def)
  then obtain s' q where q: "sendDATA sample_mac_env sample_frame sample_mac = Some s'" "pktTx s' = Some q"
    "pk_size q = 158"
    by (auto split: option.splits)
  have s: "bss_id sample_receiver \<noteq> mac_index sample_receiver" "pass_ups (mac_out sample_receiver) = []"
    "getHdrLen11 (phymib sample_receiver) = getHdrLen11 (phymib sample_mac)" "pk_size sample_frame = 100"
    by (simp_all add: sample_receiver_def sample_defs sample_frame_def)
  have b: "pk_ra (set_hdr ?f q) = MAC_BROADCAST" by (simp add: set_hdr_def)
  obtain t where t: "recvDATA sample_mac_env (set_hdr ?f q) sample_receiver = Some t"
    using b s(1) by (simp add: recvDATA_def acknowledge_def seen_before_def ap_relay_def ap_forward_def
        pass_up_def Let_def sample_mac_env_def)
  have "pass_ups (mac_out t) = sample_frame\<lparr>mp_txtime := mp_txtime q, mp_hdr := ?f (mp_hdr q),
      pk_num_forwards := pk_num_forwards sample_frame + 1\<rparr> # pass_ups (mac_out sample_receiver)"
    by (rule data_round_trip[OF sample_env_ok q(1,2) _ _ s(3,1) t disjI1[OF b]]) (simp_all add: s)
  then show ?thesis using t q(3) s
    by (intro exI[of _ "set_hdr ?f q"] exI[of _ t]) simp
qed

section \<open>The signal to noise ratio\<close>

lemma note_signal_num: "signalNum (fold note_signal xs s) = signalNum s + int (length xs)"
  by (induction xs arbitrary: s) (simp_all add: note_signal_def Let_def)

lemma note_signal_slot:
  "signalNum s = 0 \<Longrightarrow> note_signal x s = s\<lparr>signalNum := 1, channelSignal2 := x\<rparr>"
  "signalNum s = 1 \<Longrightarrow> note_signal x s = s\<lparr>signalNum := 2, channelSignal3 := x\<rparr>"
  "2 \<le> signalNum s \<Longrightarrow> note_signal x s = s\<lparr>signalNum := signalNum s + 1,
     channelSignal1 := channelSignal2 s, channelSignal2 := channelSignal3 s, channelSignal3 := x\<rparr>"
  by (simp_all add: note_signal_def Let_def)

lemma signal_window:
  assumes "signalNum s = 0"
  shows "(length xs = 1 \<longrightarrow> channelSignal2 (fold note_signal xs s) = xs ! 0)
    \<and> (length xs = 2 \<longrightarrow> channelSignal2 (fold note_signal xs s) = xs ! 0
        \<and> channelSignal3 (fold note_signal xs s) = xs ! 1)
    \<and> (3 \<le> length xs \<longrightarrow> channelSignal1 (fold note_signal xs s) = xs ! (length xs - 3)
        \<and> channelSignal2 (fold note_signal xs s) = xs ! (length xs - 2)
        \<and> channelSignal3 (fold note_signal xs s) = xs ! (length xs - 1))"
proof (induction xs rule: rev_induct)
  case (snoc x xs)
  let ?t = "fold note_signal xs s"
  have n: "signalNum ?t = int (length xs)" using assms by (simp add: note_signal_num)
  have "xs = [] \<or> (\<exists>a. xs = [a]) \<or> (\<exists>a b. xs = [a, b]) \<or> 3 \<le> length xs"
    by (cases xs; cases "tl xs"; cases "tl (tl xs)") auto
  then consider "xs = []" | a where "xs = [a]" | a b where "xs = [a, b]" | "3 \<le> length xs" by blast
  then show ?case
  proof cases
    case 4
    have "Suc (length xs) - 3 = length xs - 2" "Suc (length xs) - 2 = length xs - 1" using 4 by simp_all
    then show ?thesis using snoc 4 n by (auto simp: note_signal_slot(3) nth_append)
  qed (use snoc n assms in \<open>simp_all add: note_signal_slot\<close>)
qed simp

text \<open>C38: The counter of signals is raised before it selects the slot of the new sample, so that the first sample
  goes into the second slot. After one frame and one noise frame the ratio is
  therefore computed from two slots never written, whatever powers were received. From the third sample on the slots
  hold the last three samples in order.\<close>

theorem snr_misses_first_sample:
  assumes "signalNum s = 0" and "channelSignal1 s = 0" and "noiseNum s = 0" and "channelNoise1 s = 0"
  shows "getSNR M (note_noise y (note_signal x s)) = fp_div (m_fp M) 0 0
    \<and> (3 \<le> length xs \<longrightarrow> channelSignal1 (fold note_signal xs s) = xs ! (length xs - 3)
        \<and> channelSignal2 (fold note_signal xs s) = xs ! (length xs - 2)
        \<and> channelSignal3 (fold note_signal xs s) = xs ! (length xs - 1))"
  using assms signal_window[OF assms(1), of xs]
  by (simp add: getSNR_def average_def note_noise_def note_signal_def Let_def)

theorem snr_misses_first_sample_witness:
  "getSNR sample_mac_env (note_noise 5 (note_signal 9 sample_mac)) = 0
    \<and> channelSignal1 (fold note_signal [4, 5, 6, 7] sample_mac) = 5"
proof -
  have "signalNum sample_mac = 0" "channelSignal1 sample_mac = 0" "noiseNum sample_mac = 0"
    "channelNoise1 sample_mac = 0"
    by (simp_all add: sample_defs)
  from snr_misses_first_sample[OF this, of sample_mac_env 5 9 "[4, 5, 6, 7]"] show ?thesis
    by (simp add: sample_mac_env_def sample_mac_fp_def)
qed

end
