(* ===== verification/Node_Run.thy ===== *)
theory Node_Run
  imports Agent_Run Mac_Samples
begin

text \<open>
  A node: the agent with the MACs of its radio channels (\<open>maclist\<close>), the Tcl commands that connect
  them (\<open>command\<close> of \<open>ns-2/aodv-uu.cc\<close>), and \<open>node_step\<close>, in which a packet that a MAC passes up
  is received by the agent, a packet that a MAC gives up comes back to \<open>packetFailed\<close>, and the
  agent sees the state and the signal to noise ratio of its MACs. The invariants of agent and MAC
  hold in every reachable node.
\<close>

section \<open>Nodes\<close>

definition MAX_IF :: nat where [simp]: "MAX_IF = 11"

text \<open>An unconnected entry of \<open>maclist\<close> is \<open>None\<close>.\<close>

record node =
  nd_agent :: aodv
  nd_maclist :: "mac option list"

text \<open>
  What the agent sees of its MACs. Its loop over \<open>maclist\<close> starts at 0, so that it fails at the
  first entry not connected.
\<close>

fun connected :: "mac option list \<Rightarrow> mac list" where
  "connected (Some m # ms) = m # connected ms"
| "connected ms = []"

definition agent_view :: "mac_env \<Rightarrow> node \<Rightarrow> aodv" where
  "agent_view M n = (nd_agent n)\<lparr>mac_state := map getState (connected (nd_maclist n)),
     mac_snr := map (getSNR M) (connected (nd_maclist n))\<rparr>"

definition link_layer_callback :: "ext \<Rightarrow> packet \<Rightarrow> aodv \<Rightarrow> aodv option" where
  "link_layer_callback E p s = packetFailed E p s"

text \<open>The destructor; closing the logs has no effect on the state.\<close>

definition AODVUU_destroy :: "ext \<Rightarrow> aodv \<Rightarrow> aodv option" where
  "AODVUU_destroy E s = rt_table_destroy E s"

text \<open>
  The time as seconds and microseconds; \<open>to_long\<close> is the conversion that cuts off the fraction, and
  the constant is \<open>1e6\<close>.
\<close>

definition gettimeofday :: "fp \<Rightarrow> (double \<Rightarrow> int) \<Rightarrow> double \<Rightarrow> timeval" where
  "gettimeofday F to_long current_time =
     (let sec = to_long current_time;
        tmp = fp_mul F (fp_add F current_time (d_neg (fp_of_int F sec))) 0x412E848000000000
      in \<lparr>tv_sec = sec, tv_usec = to_long tmp\<rparr>)"

section \<open>Commands\<close>

text \<open>What the interpreter and the base class do, with the objects that names stand for.\<close>

record tcl =
  c_lookup :: "string \<Rightarrow> bool"
  c_str2addr :: "string \<Rightarrow> in_addr"
  c_atoi :: "string \<Rightarrow> int"
  c_queue :: "string \<Rightarrow> packet list"
  c_mac :: "string \<Rightarrow> mac option"
  c_base_command :: "string list \<Rightarrow> aodv \<Rightarrow> (bool \<times> aodv) option"

definition lower :: "char \<Rightarrow> char" where
  "lower c = (let n = of_char c :: nat in if 65 \<le> n \<and> n \<le> 90 then char_of (n + 32) else c)"

text \<open>\<open>strcasecmp(a, b) == 0\<close>.\<close>

definition same_word :: "string \<Rightarrow> string \<Rightarrow> bool" where
  "same_word a b \<longleftrightarrow> map lower a = map lower b"

definition set_addr :: "in_addr \<Rightarrow> aodv \<Rightarrow> aodv option" where
  "set_addr a s = do {
     dev \<leftarrow> DEV_NR 0 s;
     devs \<leftarrow> arr_set (hi_devs (this_host s)) 0 (dev\<lparr>dv_ipaddr := a\<rparr>);
     Some (s\<lparr>this_host := (this_host s)\<lparr>hi_devs := devs\<rparr>\<rparr>)
   }"

text \<open>The interface is counted if it is the next one; the array index is not checked.\<close>

definition add_ll :: "tcl \<Rightarrow> string \<Rightarrow> string \<Rightarrow> aodv \<Rightarrow> (bool \<times> aodv) option" where
  "add_ll T idx name s = do {
     let s = (if c_atoi T idx = int (nIfaces s) then s\<lparr>nIfaces := nIfaces s + 1\<rparr> else s);
     l \<leftarrow> arr_set (lllist s) (c_atoi T idx) (c_lookup T name);
     Some (c_lookup T name, s\<lparr>lllist := l\<rparr>)
   }"

definition add_mac :: "tcl \<Rightarrow> string \<Rightarrow> string \<Rightarrow> node \<Rightarrow> (bool \<times> node) option" where
  "add_mac T idx name n = do {
     l \<leftarrow> arr_set (nd_maclist n) (c_atoi T idx) (c_mac T name);
     Some (c_mac T name \<noteq> None, n\<lparr>nd_maclist := l\<rparr>)
   }"

definition on_agent :: "(aodv \<Rightarrow> (bool \<times> aodv) option) \<Rightarrow> node \<Rightarrow> (bool \<times> node) option" where
  "on_agent f n = map_option (\<lambda>(r, a). (r, n\<lparr>nd_agent := a\<rparr>)) (f (nd_agent n))"

text \<open>
  The result is \<open>TCL_OK\<close> (\<open>True\<close>) or \<open>TCL_ERROR\<close>. \<open>node_\<close> and \<open>ll\<close> are never read.
\<close>

definition command :: "ext \<Rightarrow> tcl \<Rightarrow> string list \<Rightarrow> node \<Rightarrow> (bool \<times> node) option" where
  "command E T argv n = (case argv of
     _ # cmd # args \<Rightarrow>
       let base = on_agent (c_base_command T argv) n in
       if same_word cmd ''start'' then on_agent (startAODVUUAgent E) n
       else if same_word cmd ''tracetarget'' then Some (True, n)
       else (case args of
           [x] \<Rightarrow>
             if same_word cmd ''addr''
             then on_agent (\<lambda>s. map_option (Pair True) (set_addr (c_str2addr T x) s)) n
             else if \<not> c_lookup T x then Some (False, n)
             else if same_word cmd ''node'' then Some (True, n)
             else if same_word cmd ''if-queue''
             then on_agent (\<lambda>s. Some (True, s\<lparr>ifqueue := Some (c_queue T x)\<rparr>)) n
             else if same_word cmd ''add-ll'' then Some (True, n)
             else base
         | [x, y] \<Rightarrow>
             if same_word cmd ''add-ll'' then on_agent (add_ll T x y) n
             else if same_word cmd ''add-mac-802_11'' then add_mac T x y n
             else base
         | _ \<Rightarrow> base)
   | _ \<Rightarrow> None)"

section \<open>Steps\<close>

text \<open>A MAC has passed up or given up a packet: the event is in its output.\<close>

definition mac_event_at :: "node \<Rightarrow> nat \<Rightarrow> mac_event \<Rightarrow> bool" where
  "mac_event_at n i e \<longleftrightarrow> i < length (nd_maclist n)
     \<and> (case nd_maclist n ! i of None \<Rightarrow> False | Some m \<Rightarrow> e \<in> set (mac_out m))"

inductive node_step :: "ext \<Rightarrow> mac_env \<Rightarrow> tcl \<Rightarrow> node \<Rightarrow> node \<Rightarrow> bool" for E M T where
  node_agent: "agent_step E (agent_view M n) a \<Longrightarrow> node_step E M T n (n\<lparr>nd_agent := a\<rparr>)"
| node_mac: "i < length (nd_maclist n) \<Longrightarrow> nd_maclist n ! i = Some m \<Longrightarrow> mac_step M m m'
    \<Longrightarrow> node_step E M T n (n\<lparr>nd_maclist := (nd_maclist n)[i := Some m']\<rparr>)"
| node_up: "mac_event_at n i (Pass_up p) \<Longrightarrow> recv_packet E (packet.truncate p) (agent_view M n) = Some a
    \<Longrightarrow> node_step E M T n (n\<lparr>nd_agent := a\<rparr>)"
| node_failed: "mac_event_at n i (Xmit_failure p)
    \<Longrightarrow> link_layer_callback E (packet.truncate p) (agent_view M n) = Some a
    \<Longrightarrow> node_step E M T n (n\<lparr>nd_agent := a\<rparr>)"
| node_time: "node_step E M T n (n\<lparr>nd_agent := (nd_agent n)\<lparr>now := gettimeofday F to_long x\<rparr>,
      nd_maclist := map (map_option (clock_update (\<lambda>_. x))) (nd_maclist n)\<rparr>)"
| node_command: "command E T argv n = Some (r, n') \<Longrightarrow> node_step E M T n n'"

inductive_cases node_stepE: "node_step E M T n n'"

definition node_ok :: "node \<Rightarrow> bool" where
  "node_ok n \<longleftrightarrow> agent_ok (nd_agent n) \<and> list_all (pred_option mac_ok) (nd_maclist n)"

text \<open>The MACs that names stand for were constructed, and the base class keeps to its own members.\<close>

definition tcl_ok :: "tcl \<Rightarrow> bool" where
  "tcl_ok T \<longleftrightarrow> (\<forall>x m. c_mac T x = Some m \<longrightarrow> mac_ok m)
     \<and> (\<forall>argv s. okM (\<lambda>(r, t). t = s) (c_base_command T argv s))"

lemma list_all_arr_set: "list_all P xs \<Longrightarrow> P v \<Longrightarrow> arr_set xs i v = Some ys \<Longrightarrow> list_all P ys"
  by (auto simp: arr_set_def list_all_length nth_list_update split: if_splits)

lemma on_agent_ok:
  "node_ok n \<Longrightarrow> okM (\<lambda>(r, a). agent_ok a) (f (nd_agent n)) \<Longrightarrow> okM (\<lambda>(r, n). node_ok n) (on_agent f n)"
  unfolding on_agent_def by (rule okM_map_option) (auto simp: node_ok_def elim: okM_mono)

lemma okM_case_list:
  "(xs = [] \<Longrightarrow> okM P a) \<Longrightarrow> (\<And>y ys. xs = y # ys \<Longrightarrow> okM P (b y ys)) \<Longrightarrow>
    okM P (case xs of [] \<Rightarrow> a | y # ys \<Rightarrow> b y ys)"
  by (cases xs) simp_all

lemma command_ok:
  assumes n: "node_ok n" and T: "tcl_ok T"
  shows "okM (\<lambda>(r, n). node_ok n) (command E T argv n)"
proof -
  have a: "agent_ok (nd_agent n)" using n by (simp add: node_ok_def)
  have b: "okM (\<lambda>(r, n). node_ok n) (on_agent (c_base_command T argv) n)"
    by (rule on_agent_ok[OF n], rule okM_mono[where Q = "\<lambda>(r, t). t = nd_agent n"])
      (use T a in \<open>auto simp: tcl_ok_def\<close>)
  have s: "okM (\<lambda>(r, a). agent_ok a) (startAODVUUAgent E (nd_agent n))"
    using startAODVUUAgent_ok[OF a] by simp
  have d: "okM (\<lambda>(r, a). agent_ok a) (map_option (Pair True) (set_addr x (nd_agent n)))" for x
    unfolding set_addr_def by (intro okM_map_option okM_bind_any) (simp add: a)
  have l: "okM (\<lambda>(r, a). agent_ok a) (add_ll T x y (nd_agent n))" for x y
    unfolding add_ll_def Let_def by (intro okM_bind_any) (simp add: a)
  have m: "okM (\<lambda>(r, n). node_ok n) (add_mac T x y n)" for x y
    unfolding add_mac_def
  proof (rule okM_bind_eq)
    fix ys assume ys: "arr_set (nd_maclist n) (c_atoi T x) (c_mac T y) = Some ys"
    have "pred_option mac_ok (c_mac T y)" using T by (cases "c_mac T y") (simp_all add: tcl_ok_def)
    then show "okM (\<lambda>(r, n). node_ok n) (Some (c_mac T y \<noteq> None, n\<lparr>nd_maclist := ys\<rparr>))"
      using list_all_arr_set[OF _ _ ys] n by (simp add: node_ok_def)
  qed
  show ?thesis unfolding command_def Let_def
    by (intro okM_case_list okM_if b m on_agent_ok[OF n] s d l) (simp_all add: n a)
qed

lemma agent_view_ok: "node_ok n \<Longrightarrow> agent_ok (agent_view M n)"
  by (simp add: node_ok_def agent_view_def)

lemma node_step_ok:
  assumes "node_step E M T n n'" and n: "node_ok n" and E: "outside_ok E" and M: "env_ok M"
    and T: "tcl_ok T"
  shows "node_ok n'"
proof -
  note v = agent_view_ok[OF n, of M]
  have l: "list_all (pred_option mac_ok) (nd_maclist n)" using n by (simp add: node_ok_def)
  have c: "pred_option mac_ok (map_option (clock_update (\<lambda>_. x)) m)" if "pred_option mac_ok m"
    for m and x :: double using that by (cases m) simp_all
  from assms(1) show ?thesis
  proof cases
    case (node_agent a)
    then show ?thesis using agent_step_ok[OF _ E v] l by (simp add: node_ok_def)
  next
    case (node_mac i m m')
    have "mac_ok m" using l node_mac(2,3) by (auto simp: list_all_length)
    then have "mac_ok m'" using mac_step_ok[OF node_mac(4) M] by simp
    then show ?thesis using n node_mac(1,2) by (auto simp: node_ok_def list_all_length nth_list_update)
  next
    case (node_up i p a)
    then show ?thesis using okM_D[OF recv_packet_ok[OF v E]] l by (simp add: node_ok_def)
  next
    case (node_failed i p a)
    then show ?thesis using okM_D[OF packetFailed_ok[OF v E]] l
      by (simp add: node_ok_def link_layer_callback_def)
  next
    case node_time
    then show ?thesis using n c by (auto simp: node_ok_def list_all_length)
  next
    case (node_command argv r)
    then show ?thesis using okM_D[OF command_ok[OF n T] node_command] by simp
  qed
qed

lemma node_run_ok:
  "(node_step E M T)\<^sup>*\<^sup>* n n' \<Longrightarrow> node_ok n \<Longrightarrow> outside_ok E \<Longrightarrow> env_ok M \<Longrightarrow> tcl_ok T \<Longrightarrow> node_ok n'"
  by (induction rule: rtranclp_induct) (auto intro: node_step_ok)

end
