(* ===== verification/Node_Claims.thy ===== *)
theory Node_Claims
  imports Node_Run Agent_Claims Mac_Claims Mac_Data
begin

text \<open>
  Properties of agent and MACs together: the invariants of both in every run of a node, and what
  the agent gets back of a packet that a MAC could not deliver.
\<close>

section \<open>Every run of a node\<close>

text \<open>The commands of the samples: every name is found, every index is 0.\<close>

definition sample_tcl :: tcl where
  "sample_tcl = \<lparr>c_lookup = (\<lambda>x. True), c_str2addr = (\<lambda>x. 1), c_atoi = (\<lambda>x. 0), c_queue = (\<lambda>x. []),
     c_mac = (\<lambda>x. Some sample_mac), c_base_command = (\<lambda>argv s. Some (True, s))\<rparr>"

lemma sample_mac_ok: "mac_ok sample_mac"
  using mac_step_ok[OF sample_mac_step sample_env_ok mac_init_ok[OF sample_mib_ok]] .

lemma sample_tcl_ok: "tcl_ok sample_tcl"
  by (simp add: tcl_ok_def sample_tcl_def sample_mac_ok)

definition new_node :: "ext \<Rightarrow> aodv \<Rightarrow> node" where
  "new_node E a = \<lparr>nd_agent = AODVUU_init E a, nd_maclist = replicate MAX_IF None\<rparr>"

lemma sample_connect:
  "command sample_ext sample_tcl [''agent'', ''ADD-mac-802_11'', ''0'', ''mac''] (new_node sample_ext a)
    = Some (True, (new_node sample_ext a)\<lparr>nd_maclist := Some sample_mac # replicate 10 None\<rparr>)"
proof -
  have "replicate 11 (None :: mac option) = None # replicate 10 None" by (simp add: numeral_eq_Suc)
  moreover have "\<not> same_word ''ADD-mac-802_11'' ''start''" "\<not> same_word ''ADD-mac-802_11'' ''tracetarget''"
    "\<not> same_word ''ADD-mac-802_11'' ''add-ll''" "same_word ''ADD-mac-802_11'' ''add-mac-802_11''"
    by code_simp+
  ultimately show ?thesis
    by (simp add: command_def add_mac_def sample_tcl_def new_node_def arr_set_def)
qed

text \<open>C3: In every run of a node, whatever its agent, its MACs, the channel and the scripts do, in any
  order, the routing table and the packet queue are well formed, and each connected MAC keeps its
  contention window and retry counters within their bounds and holds a packet exactly while it is
  receiving.\<close>

theorem node_invariant:
  assumes "outside_ok E" and "env_ok M" and "tcl_ok T" and "new_object a"
    and "(node_step E M T)\<^sup>*\<^sup>* (new_node E a) n"
  shows "rt_wf (nd_agent n) \<and> pq_ok (nd_agent n)
    \<and> (\<forall>m. Some m \<in> set (nd_maclist n) \<longrightarrow> CWMin (phymib m) \<le> cw m \<and> cw m \<le> CWMax (phymib m)
        \<and> ssrc m < ShortRetryLimit (macmib m) \<and> slrc m < LongRetryLimit (macmib m)
        \<and> (rx_state m = MAC_IDLE \<longleftrightarrow> pktRx m = None))"
proof -
  have "node_ok (new_node E a)"
    using AODVUU_init_ok[OF assms(4)] by (simp add: node_ok_def new_node_def list_all_length)
  from node_run_ok[OF assms(5) this assms(1-3)] have n: "agent_ok (nd_agent n)"
    "list_all (pred_option mac_ok) (nd_maclist n)" by (simp_all add: node_ok_def)
  have "CWMin (phymib m) \<le> cw m \<and> cw m \<le> CWMax (phymib m) \<and> ssrc m < ShortRetryLimit (macmib m)
      \<and> slrc m < LongRetryLimit (macmib m) \<and> (rx_state m = MAC_IDLE \<longleftrightarrow> pktRx m = None)"
    if "Some m \<in> set (nd_maclist n)" for m
  proof -
    have "mac_ok m" using n(2) that by (auto simp: list_all_iff)
    then show ?thesis by (auto simp: mac_inv_def cw_ok_def rx_ok_def)
  qed
  then show ?thesis using n(1) by (simp add: agent_ok_def)
qed

theorem node_invariant_witness:
  "\<exists>(n :: node) m. Some m \<in> set (nd_maclist n) \<and> pktTx m \<noteq> None \<and> cw m \<le> CWMax (phymib m) \<and> rt_wf (nd_agent n)"
proof -
  obtain m where m: "mac_step sample_mac_env sample_mac m" "pktTx m \<noteq> None" by (rule sample_send)
  let ?n = "(new_node sample_ext sample_object)\<lparr>nd_maclist := Some sample_mac # replicate 10 None\<rparr>"
  let ?n' = "?n\<lparr>nd_maclist := (nd_maclist ?n)[0 := Some m]\<rparr>"
  have "node_step sample_ext sample_mac_env sample_tcl (new_node sample_ext sample_object) ?n"
    by (rule node_command[OF sample_connect])
  moreover have "node_step sample_ext sample_mac_env sample_tcl ?n ?n'"
    by (rule node_mac[OF _ _ m(1)]) simp_all
  ultimately have "(node_step sample_ext sample_mac_env sample_tcl)\<^sup>*\<^sup>*
      (new_node sample_ext sample_object) ?n'" by (meson converse_rtranclp_into_rtranclp r_into_rtranclp)
  from node_invariant[OF sample_outside_ok sample_env_ok sample_tcl_ok sample_object_new this]
  show ?thesis using m(2) by (intro exI[of _ ?n'] exI[of _ m]) simp
qed

section \<open>Failed transmissions\<close>

text \<open>C17: A packet that the agent sent and that the MAC gives up, whatever has been done to its MAC header in
  the meantime, comes back to the agent as it was sent: the size without the MAC header, and
  every field that the agent knows, so that \<open>packetFailed\<close> treats it as the packet it forwarded.\<close>

theorem failed_packet_returned:
  assumes "env_ok M" and "sendDATA N p s = Some s'" and "pktTx s' = Some q"
    and "0 \<le> pk_size p" and "pk_size p < 2 ^ 31" and "pk_xmit_failure p"
    and "pktTx v = Some (set_hdr f q)" and "getHdrLen11 (phymib v) = getHdrLen11 (phymib s)"
    and "give_up_packet M reason v = Some t"
  shows "\<exists>r. Xmit_failure r \<in> set (mac_out t) \<and> mp_xmit_reason r = reason
    \<and> packet.truncate r = packet.truncate p
    \<and> link_layer_callback E (packet.truncate r) a = packetFailed E (packet.truncate p) a"
proof -
  let ?v = "set_hdr f q"
  let ?r = "returned M reason v ?v"
  obtain h x where q: "q = p\<lparr>pk_size := sint ((word_of_int (pk_size p) :: u32) + getHdrLen11 (phymib s)),
      mp_txtime := x, mp_hdr := h\<rparr>"
    using assms(2,3) by (auto simp: sendDATA_def set_hdr_def Let_def split: if_splits)
  have "sint (word_of_int (pk_size p) :: u32) = pk_size p"
    using assms(4,5) by (simp add: signed_of_int signed_take_bit_int_eq_self)
  then have tr: "packet.truncate ?r = packet.truncate p"
    using assms(8) by (simp add: returned_def q set_hdr_def packet.truncate_def)
  have "pk_xmit_failure ?v" using assms(6) by (simp add: q set_hdr_def)
  then have g: "give_up_packet M reason v = m_xmit_failure M ?r (emit (Xmit_failure ?r) (v\<lparr>pktTx := Some ?r\<rparr>)) \<bind>
      (\<lambda>s. pktTx s \<bind> (\<lambda>q. discard q DROP_MAC_RETRY_COUNT_EXCEEDED s \<bind> (\<lambda>s. Some (s\<lparr>pktTx := None\<rparr>))))"
    by (simp add: give_up_packet_def assms(7) returned_def Let_def)
  let ?w = "emit (Xmit_failure ?r) (v\<lparr>pktTx := Some ?r\<rparr>)"
  have s: "okM (sends M ?w) (m_xmit_failure M ?r ?w)"
    using assms(1) unfolding env_ok_def by blast
  have k: "okM (\<lambda>t. Xmit_failure ?r \<in> set (mac_out t)) (m_xmit_failure M ?r ?w)"
    by (rule okM_mono[OF s], drule sends_busy) (simp_all add: emit_def)
  have d: "okM (\<lambda>t. Xmit_failure ?r \<in> set (mac_out t)) (discard b why w)" if "Xmit_failure ?r \<in> set (mac_out w)" for b why w
    unfolding discard_def Let_def using that by (intro okM_if) (simp_all add: emit_def)
  have "okM (\<lambda>t. Xmit_failure ?r \<in> set (mac_out t)) (give_up_packet M reason v)"
    unfolding g by (rule okM_bind[OF k], rule okM_bind_any, rule okM_bind[OF d], assumption) simp
  then have "Xmit_failure ?r \<in> set (mac_out t)" using assms(9) by (simp add: okM_def)
  then show ?thesis using tr by (intro exI[of _ ?r]) (simp add: link_layer_callback_def returned_def)
qed

theorem failed_packet_returned_witness:
  "\<exists>v t r. give_up_packet sample_mac_env XMIT_REASON_ACK v = Some t \<and> Xmit_failure r \<in> set (mac_out t)
    \<and> packet.truncate r = packet.truncate sample_frame"
proof -
  obtain s' q where q: "sendDATA sample_mac_env sample_frame sample_mac = Some s'" "pktTx s' = Some q"
    by (auto simp: sendDATA_def sample_defs Let_def)
  let ?f = "\<lambda>h. h\<lparr>dh_scontrol := 1\<rparr>"
  let ?v = "sample_mac\<lparr>pktTx := Some (set_hdr ?f q)\<rparr>"
  have d: "pk_type (set_hdr ?f q) = MAC_Type_Data" "pk_subtype (set_hdr ?f q) = MAC_Subtype_Data"
    using q by (auto simp: sendDATA_def set_hdr_def Let_def data_control_type split: if_splits)
  have R: "responds sample_mac_env" by (simp add: responds_def sample_mac_env_def sample_start_def)
  have p: "pktTx ?v = Some (set_hdr ?f q)" by simp
  obtain t where t: "give_up_packet sample_mac_env XMIT_REASON_ACK ?v = Some t"
    by (rule give_up_reports[OF sample_env_ok R p d, of XMIT_REASON_ACK]) blast
  have "\<exists>r. Xmit_failure r \<in> set (mac_out t) \<and> mp_xmit_reason r = XMIT_REASON_ACK
      \<and> packet.truncate r = packet.truncate sample_frame
      \<and> link_layer_callback sample_ext (packet.truncate r) sample_node
        = packetFailed sample_ext (packet.truncate sample_frame) sample_node"
    by (rule failed_packet_returned[OF sample_env_ok q _ _ _ p _ t]) (simp_all add: sample_frame_def)
  with t show ?thesis by blast
qed

end
