(* ===== verification/Packet_Pool.thy ===== *)
theory Packet_Pool
  imports Packet_Types
begin

text \<open>
  The packets of \<open>common/packet.h\<close> as objects in memory: allocation from the free list, reference
  counts, copies, and the application data that a packet owns. A pointer is an address; \<open>None\<close> is the
  null pointer. An object that is deleted leaves its map, so that reading it fails; an address
  is never used again. What the simulator of this repository does with a packet between these
  calls it does to the value that the other theories pass around.
\<close>

section \<open>Headers\<close>

text \<open>
  \<open>hdr_cmn\<close>. The direction is its number, as the header is cleared and copied bytewise; \<open>nsaddr_t\<close> is a 32-bit
  integer. The callback of \<open>xmit_failure_\<close> and its argument are addresses.
\<close>

record hdr_cmn =
  cmn_ptype :: u32
  cmn_size :: u32
  cmn_uid :: u32
  cmn_error :: u32
  cmn_errbitcnt :: u32
  cmn_fecsize :: u32
  cmn_ts :: double
  cmn_iface :: u32
  cmn_direction :: u32
  cmn_src_rt_valid :: u8
  cmn_ts_arr :: double
  cmn_prev_hop :: u32
  cmn_next_hop :: u32
  cmn_addr_type :: u32
  cmn_last_hop :: u32
  cmn_aomdv_salvage_count :: u32
  cmn_xmit_failure :: u64
  cmn_xmit_failure_data :: u64
  cmn_xmit_reason :: u32
  cmn_num_forwards :: u32
  cmn_opt_num_forwards :: u32
  cmn_txtime :: double
  cmn_mod_scheme :: u32

definition zero_cmn :: hdr_cmn where
  "zero_cmn = \<lparr>cmn_ptype = 0, cmn_size = 0, cmn_uid = 0, cmn_error = 0, cmn_errbitcnt = 0, cmn_fecsize = 0, cmn_ts = 0,
     cmn_iface = 0, cmn_direction = 0, cmn_src_rt_valid = 0, cmn_ts_arr = 0, cmn_prev_hop = 0, cmn_next_hop = 0,
     cmn_addr_type = 0, cmn_last_hop = 0, cmn_aomdv_salvage_count = 0, cmn_xmit_failure = 0,
     cmn_xmit_failure_data = 0, cmn_xmit_reason = 0, cmn_num_forwards = 0, cmn_opt_num_forwards = 0,
     cmn_txtime = 0, cmn_mod_scheme = 0\<rparr>"

definition dir_DOWN :: u32 where [simp]: "dir_DOWN = - 1"
definition dir_NONE :: u32 where [simp]: "dir_NONE = 0"
definition dir_UP :: u32 where [simp]: "dir_UP = 1"

text \<open>
  The header bytes of a packet: the common header, the pointer to the options of the DCCP header, and the
  bytes of all the others, whose number the parameter \<open>hdrlen\<close> of the pool is.
\<close>

record bits =
  b_cmn :: hdr_cmn
  b_dccp_options :: "nat option"
  b_other :: bytes

definition zero_bits :: "nat \<Rightarrow> bits" where
  "zero_bits hdrlen = \<lparr>b_cmn = zero_cmn, b_dccp_options = None, b_other = replicate hdrlen 0\<rparr>"

section \<open>Objects\<close>

text \<open>
  Application data: \<open>PacketData\<close> with its buffer (absent if \<open>datalen_\<close> is not positive), or an object
  of another class, of which only its contents are known.
\<close>

datatype app_data = PacketData int "bytes option" | OtherData bytes

text \<open>\<open>pt_uid\<close> and \<open>pt_time\<close> are the members of the base class \<open>Event\<close>, \<open>pt_txinfo\<close> is the stamp.\<close>

record pkt =
  pt_bits :: bits
  pt_data :: "nat option"
  pt_fflag :: bool
  pt_ref_count :: int
  pt_next :: "nat option"
  pt_uid :: int
  pt_time :: double
  pt_txinfo :: bytes
  pt_incoming :: u8
  pt_channel :: u8

record pool =
  pkts :: "nat \<Rightarrow> pkt option"
  datas :: "nat \<Rightarrow> app_data option"
  options :: "nat \<Rightarrow> bytes option"
  free_list :: "nat option"
  hdrlen :: nat
  lim :: nat

text \<open>
  What the code does not determine: how \<open>new\<close> leaves the members that no constructor sets, the bytes of
  a new buffer, the size and the copy of data of another class, and the copy of a stamp.
\<close>

record pool_env =
  e_pkt :: "nat \<Rightarrow> pkt"
  e_byte :: "nat \<Rightarrow> nat \<Rightarrow> u8"
  e_size :: "bytes \<Rightarrow> int"
  e_copy :: "bytes \<Rightarrow> bytes"
  e_stamp :: "bytes \<Rightarrow> bytes"

definition upd_pkt :: "nat \<Rightarrow> (pkt \<Rightarrow> pkt) \<Rightarrow> pool \<Rightarrow> pool option" where
  "upd_pkt p f s = do { x \<leftarrow> pkts s p; Some (s\<lparr>pkts := (pkts s)(p \<mapsto> f x)\<rparr>) }"

definition set_cmn :: "(hdr_cmn \<Rightarrow> hdr_cmn) \<Rightarrow> pkt \<Rightarrow> pkt" where
  "set_cmn f x = x\<lparr>pt_bits := (pt_bits x)\<lparr>b_cmn := f (b_cmn (pt_bits x))\<rparr>\<rparr>"

section \<open>Application data\<close>

text \<open>The constructors of \<open>PacketData\<close>, \<open>size\<close> and \<open>copy\<close>.\<close>

definition new_PacketData :: "pool_env \<Rightarrow> int \<Rightarrow> pool \<Rightarrow> nat \<times> pool" where
  "new_PacketData E sz s = (let a = lim s in
     (a, s\<lparr>datas := (datas s)(a \<mapsto> PacketData sz
              (if 0 < sz then Some (map (e_byte E a) [0..<nat sz]) else None)), lim := lim s + 1\<rparr>))"

definition data_size :: "pool_env \<Rightarrow> app_data \<Rightarrow> int" where
  "data_size E d = (case d of PacketData n _ \<Rightarrow> n | OtherData b \<Rightarrow> e_size E b)"

definition data_copy :: "pool_env \<Rightarrow> nat \<Rightarrow> pool \<Rightarrow> (nat \<times> pool) option" where
  "data_copy E d s = do {
     x \<leftarrow> datas s d;
     y \<leftarrow> (case x of
         PacketData n b \<Rightarrow> if 0 < n then do { c \<leftarrow> b; Some (PacketData n (Some (take (nat n) c))) }
                          else Some (PacketData n None)
       | OtherData b \<Rightarrow> Some (OtherData (e_copy E b)));
     Some (lim s, s\<lparr>datas := (datas s)(lim s \<mapsto> y), lim := lim s + 1\<rparr>)
   }"

definition delete_data :: "nat \<Rightarrow> pool \<Rightarrow> pool option" where
  "delete_data d s = do { _ \<leftarrow> datas s d; Some (s\<lparr>datas := (datas s)(d := None)\<rparr>) }"

definition datalen :: "pool_env \<Rightarrow> nat \<Rightarrow> pool \<Rightarrow> int option" where
  "datalen E p s = do {
     x \<leftarrow> pkts s p;
     case pt_data x of None \<Rightarrow> Some 0 | Some d \<Rightarrow> do { y \<leftarrow> datas s d; Some (data_size E y) }
   }"

text \<open>\<open>accessdata\<close> returns the buffer, or the null pointer if there is none; other data fails its assertion.\<close>

definition accessdata :: "nat \<Rightarrow> pool \<Rightarrow> bytes option option" where
  "accessdata p s = do {
     x \<leftarrow> pkts s p;
     case pt_data x of
       None \<Rightarrow> Some None
     | Some d \<Rightarrow> do {
         y \<leftarrow> datas s d;
         case y of PacketData n b \<Rightarrow> Some b | OtherData _ \<Rightarrow> None
       }
   }"

definition userdata :: "nat \<Rightarrow> pool \<Rightarrow> nat option option" where
  "userdata p s = map_option pt_data (pkts s p)"

definition setdata :: "nat \<Rightarrow> nat option \<Rightarrow> pool \<Rightarrow> pool option" where
  "setdata p d s = do {
     x \<leftarrow> pkts s p;
     s \<leftarrow> (case pt_data x of None \<Rightarrow> Some s | Some old \<Rightarrow> delete_data old s);
     upd_pkt p (\<lambda>x. x\<lparr>pt_data := d\<rparr>) s
   }"

definition initdata :: "nat \<Rightarrow> pool \<Rightarrow> pool option" where
  "initdata p s = upd_pkt p (\<lambda>x. x\<lparr>pt_data := None\<rparr>) s"

section \<open>Packets\<close>

text \<open>\<open>access\<close> with an offset in the header bytes that are not in \<open>b_cmn\<close>.\<close>

definition access :: "nat \<Rightarrow> int \<Rightarrow> pool \<Rightarrow> u8 option" where
  "access p off s = do { x \<leftarrow> pkts s p; arr_get (b_other (pt_bits x)) off }"

definition Packet_init :: "nat \<Rightarrow> pool \<Rightarrow> pool option" where
  "Packet_init p s = upd_pkt p (\<lambda>x. x\<lparr>pt_bits := zero_bits (hdrlen s)\<rparr>) s"

text \<open>Taking a packet from the free list, and \<open>new Packet\<close> with its constructor.\<close>

definition take_free :: "nat \<Rightarrow> pool \<Rightarrow> pool option" where
  "take_free p s = do {
     x \<leftarrow> pkts s p;
     if pt_fflag x then None else do {
       let s = s\<lparr>free_list := pt_next x\<rparr>;
       if pt_data x \<noteq> None then None
       else upd_pkt p (\<lambda>x. x\<lparr>pt_uid := 0, pt_time := 0\<rparr>) s
     }
   }"

definition new_Packet :: "pool_env \<Rightarrow> pool \<Rightarrow> nat \<times> pool" where
  "new_Packet E s = (let a = lim s in
     (a, s\<lparr>pkts := (pkts s)(a \<mapsto> (e_pkt E a)\<lparr>pt_data := None, pt_ref_count := 0, pt_next := None\<rparr>),
           lim := lim s + 1\<rparr>))"

definition Packet_alloc :: "pool_env \<Rightarrow> pool \<Rightarrow> (nat \<times> pool) option" where
  "Packet_alloc E s = do {
     (p, s) \<leftarrow> (case free_list s of
         Some p \<Rightarrow> do { s \<leftarrow> take_free p s; Some (p, s) }
       | None \<Rightarrow> Some (new_Packet E s));
     s \<leftarrow> Packet_init p s;
     s \<leftarrow> upd_pkt p (set_cmn (\<lambda>h. h\<lparr>cmn_next_hop := - 2, cmn_last_hop := - 2\<rparr>)) s;
     s \<leftarrow> upd_pkt p (\<lambda>x. x\<lparr>pt_fflag := True\<rparr>) s;
     s \<leftarrow> upd_pkt p (set_cmn (\<lambda>h. h\<lparr>cmn_direction := dir_DOWN\<rparr>)) s;
     s \<leftarrow> upd_pkt p (\<lambda>x. x\<lparr>pt_next := None\<rparr>) s;
     Some (p, s)
   }"

definition allocdata :: "pool_env \<Rightarrow> nat \<Rightarrow> int \<Rightarrow> pool \<Rightarrow> pool option" where
  "allocdata E p n s = do {
     x \<leftarrow> pkts s p;
     if pt_data x \<noteq> None then None
     else let (d, s) = new_PacketData E n s in upd_pkt p (\<lambda>x. x\<lparr>pt_data := Some d\<rparr>) s
   }"

definition Packet_alloc_n :: "pool_env \<Rightarrow> int \<Rightarrow> pool \<Rightarrow> (nat \<times> pool) option" where
  "Packet_alloc_n E n s = do {
     (p, s) \<leftarrow> Packet_alloc E s;
     s \<leftarrow> (if 0 < n then allocdata E p n s else Some s);
     Some (p, s)
   }"

definition is_dccp :: "u32 \<Rightarrow> bool" where
  "is_dccp t \<longleftrightarrow> unat t \<in> set [PT_DCCP, PT_DCCP_REQ, PT_DCCP_RESP, PT_DCCP_ACK, PT_DCCP_DATA,
     PT_DCCP_DATAACK, PT_DCCP_CLOSE, PT_DCCP_CLOSEREQ, PT_DCCP_RESET]"

definition delete_options :: "pkt \<Rightarrow> pool \<Rightarrow> pool option" where
  "delete_options x s = (case b_dccp_options (pt_bits x) of
     Some o' \<Rightarrow> if is_dccp (cmn_ptype (b_cmn (pt_bits x)))
       then do { _ \<leftarrow> options s o'; Some (s\<lparr>options := (options s)(o' := None)\<rparr>) }
       else Some s
   | None \<Rightarrow> Some s)"

text \<open>Nothing happens to a packet that is not allocated; the last reference puts it on the free list.\<close>

definition release :: "nat \<Rightarrow> pkt \<Rightarrow> pool \<Rightarrow> pool option" where
  "release p x s = do {
     s \<leftarrow> delete_options x s;
     if \<not> pt_uid x \<le> 0 then None else do {
       s \<leftarrow> (case pt_data x of
           None \<Rightarrow> Some s
         | Some d \<Rightarrow> do { s \<leftarrow> delete_data d s; upd_pkt p (\<lambda>x. x\<lparr>pt_data := None\<rparr>) s });
       s \<leftarrow> Packet_init p s;
       s \<leftarrow> upd_pkt p (\<lambda>x. x\<lparr>pt_next := free_list s\<rparr>) s;
       upd_pkt p (\<lambda>x. x\<lparr>pt_fflag := False\<rparr>) (s\<lparr>free_list := Some p\<rparr>)
     }
   }"

definition Packet_free :: "nat \<Rightarrow> pool \<Rightarrow> pool option" where
  "Packet_free p s = do {
     x \<leftarrow> pkts s p;
     if \<not> pt_fflag x then Some s
     else if pt_ref_count x = 0 then release p x s
     else upd_pkt p (\<lambda>x. x\<lparr>pt_ref_count := pt_ref_count x - 1\<rparr>) s
   }"

definition refcopy :: "nat \<Rightarrow> pool \<Rightarrow> pool option" where
  "refcopy p s = upd_pkt p (\<lambda>x. x\<lparr>pt_ref_count := pt_ref_count x + 1\<rparr>) s"

definition copy_options :: "nat \<Rightarrow> nat \<Rightarrow> pool \<Rightarrow> pool option" where
  "copy_options q p s = do {
     x \<leftarrow> pkts s q;
     case b_dccp_options (pt_bits x) of
       Some o' \<Rightarrow> if is_dccp (cmn_ptype (b_cmn (pt_bits x)))
         then do {
           c \<leftarrow> options s o';
           let a = lim s;
           upd_pkt p (\<lambda>y. y\<lparr>pt_bits := (pt_bits y)\<lparr>b_dccp_options := Some a\<rparr>\<rparr>)
             (s\<lparr>options := (options s)(a \<mapsto> c), lim := a + 1\<rparr>)
         } else Some s
     | None \<Rightarrow> Some s
   }"

definition Packet_copy :: "pool_env \<Rightarrow> nat \<Rightarrow> pool \<Rightarrow> (nat \<times> pool) option" where
  "Packet_copy E q s = do {
     (p, s) \<leftarrow> Packet_alloc E s;
     x \<leftarrow> pkts s q;
     s \<leftarrow> upd_pkt p (\<lambda>y. y\<lparr>pt_bits := pt_bits x\<rparr>) s;
     s \<leftarrow> copy_options q p s;
     s \<leftarrow> (case pt_data x of
         None \<Rightarrow> Some s
       | Some d \<Rightarrow> do {
           (d', s) \<leftarrow> data_copy E d s;
           upd_pkt p (\<lambda>y. y\<lparr>pt_data := Some d'\<rparr>) s
         });
     s \<leftarrow> upd_pkt p (\<lambda>y. y\<lparr>pt_txinfo := e_stamp E (pt_txinfo x)\<rparr>) s;
     s \<leftarrow> upd_pkt p (\<lambda>y. y\<lparr>pt_channel := pt_channel x\<rparr>) s;
     Some (p, s)
   }"

end
