(* ===== verification/Pool_Inv.thy ===== *)
theory Pool_Inv
  imports Packet_Pool
begin

text \<open>
  The invariant of the packet memory in every run in which the clients obey the rules of
  \<open>common/packet.h\<close>: they write to allocated packets only, and a data object or a set of DCCP options has one
  owner. A packet may be freed at any time and any number of times.
\<close>

named_theorems pool_defs \<open>operations of the packet memory, unfolded\<close>

declare upd_pkt_def [pool_defs] set_cmn_def [pool_defs] Packet_init_def [pool_defs]

section \<open>The invariant\<close>

text \<open>What a member \<open>f\<close> of the packet at an address points to.\<close>

definition points :: "pool \<Rightarrow> (pkt \<Rightarrow> nat option) \<Rightarrow> nat \<Rightarrow> nat option" where
  "points s f p = (case pkts s p of None \<Rightarrow> None | Some x \<Rightarrow> f x)"

lemma points_upd: "pkts t = (pkts s)(p \<mapsto> x) \<Longrightarrow> points t f = (points s f)(p := f x)"
  by (simp add: points_def fun_eq_iff)

lemma points_same: "pkts t = pkts s \<Longrightarrow> points t f = points s f"
  by (simp add: points_def fun_eq_iff)

text \<open>A packet as it lies on the free list.\<close>

definition idle :: "nat \<Rightarrow> pkt \<Rightarrow> bool" where
  "idle n x \<longleftrightarrow> \<not> pt_fflag x \<and> pt_data x = None \<and> pt_ref_count x = 0 \<and> pt_bits x = zero_bits n"

definition options_of :: "pkt \<Rightarrow> nat option" where
  "options_of x = b_dccp_options (pt_bits x)"

definition in_use :: "pool \<Rightarrow> nat \<Rightarrow> bool" where
  "in_use s p \<longleftrightarrow> (case pkts s p of None \<Rightarrow> False | Some x \<Rightarrow> pt_fflag x)"

definition free_ok :: "nat list \<Rightarrow> pool \<Rightarrow> bool" where
  "free_ok fs s \<longleftrightarrow> linked (points s pt_next) (free_list s) fs \<and> distinct fs
     \<and> (\<forall>p\<in>set fs. \<exists>x. pkts s p = Some x \<and> idle (hdrlen s) x)
     \<and> (\<forall>p x. pkts s p = Some x \<longrightarrow> p \<in> set fs \<or> pt_fflag x)"

text \<open>Each object that a packet points to is there and has no other owner.\<close>

definition owned :: "(nat \<Rightarrow> nat option) \<Rightarrow> (nat \<Rightarrow> 'a option) \<Rightarrow> bool" where
  "owned g h \<longleftrightarrow> (\<forall>p d. g p = Some d \<longrightarrow> h d \<noteq> None) \<and> inj_on g {p. g p \<noteq> None}"

definition used_ok :: "pkt \<Rightarrow> bool" where
  "used_ok x \<longleftrightarrow> 0 \<le> pt_ref_count x
     \<and> (options_of x \<noteq> None \<longrightarrow> is_dccp (cmn_ptype (b_cmn (pt_bits x))))"

text \<open>The buffer of a \<open>PacketData\<close> has the length that the object says.\<close>

definition wf_data :: "app_data \<Rightarrow> bool" where
  "wf_data y \<longleftrightarrow> (case y of
     PacketData n b \<Rightarrow> (case b of None \<Rightarrow> n \<le> 0 | Some c \<Rightarrow> 0 < n \<and> int (length c) = n)
   | OtherData _ \<Rightarrow> True)"

definition below :: "pool \<Rightarrow> bool" where
  "below s \<longleftrightarrow> (\<forall>a\<ge>lim s. pkts s a = None \<and> datas s a = None \<and> options s a = None)"

definition pool_inv :: "nat list \<Rightarrow> pool \<Rightarrow> bool" where
  "pool_inv fs s \<longleftrightarrow> free_ok fs s \<and> owned (points s pt_data) (datas s) \<and> owned (points s options_of) (options s)
     \<and> (\<forall>p x. pkts s p = Some x \<longrightarrow> used_ok x)
     \<and> (\<forall>d y. datas s d = Some y \<longrightarrow> wf_data y) \<and> below s"

definition pool_ok :: "pool \<Rightarrow> bool" where
  "pool_ok s \<longleftrightarrow> (\<exists>fs. pool_inv fs s)"

definition empty_pool :: "nat \<Rightarrow> pool" where
  "empty_pool n = \<lparr>pkts = (\<lambda>_. None), datas = (\<lambda>_. None), options = (\<lambda>_. None),
     free_list = None, hdrlen = n, lim = 0\<rparr>"

lemma empty_pool_inv: "pool_inv [] (empty_pool n)"
  by (simp add: pool_inv_def free_ok_def owned_def below_def empty_pool_def points_def inj_on_def)

lemma linked_cong:
  "(\<And>p. p \<in> set xs \<Longrightarrow> f p = g p) \<Longrightarrow> linked f h xs = linked g h xs"
  by (induction xs arbitrary: h) auto

lemma free_okD:
  assumes "free_ok fs s" and "p \<in> set fs"
  obtains x where "pkts s p = Some x" and "idle (hdrlen s) x"
  using assms by (auto simp: free_ok_def)

lemma used_not_free: "free_ok fs s \<Longrightarrow> pkts s p = Some x \<Longrightarrow> pt_fflag x \<Longrightarrow> p \<notin> set fs"
  by (auto simp: free_ok_def idle_def)

text \<open>Writing to an allocated packet keeps the free list.\<close>

lemma free_ok_upd:
  assumes "free_ok fs s" and "p \<notin> set fs" and "pt_fflag x" and "free_list t = free_list s"
    and "pkts t = (pkts s)(p \<mapsto> x)" and "hdrlen t = hdrlen s"
  shows "free_ok fs t"
proof -
  have "linked (points t pt_next) h fs = linked (points s pt_next) h fs" for h
    using assms by (intro linked_cong) (auto simp: points_def)
  then show ?thesis using assms by (auto simp: free_ok_def)
qed

text \<open>Pointers that come and go, and the objects they point to.\<close>

lemma ownedI:
  "(\<And>p d. g p = Some d \<Longrightarrow> h d \<noteq> None) \<Longrightarrow> (\<And>p q d. g p = Some d \<Longrightarrow> g q = Some d \<Longrightarrow> p = q)
    \<Longrightarrow> owned g h"
  by (auto simp: owned_def inj_on_def)

lemma owned_live: "owned g h \<Longrightarrow> g p = Some d \<Longrightarrow> h d \<noteq> None"
  by (simp add: owned_def)

lemma owned_unique: "owned g h \<Longrightarrow> g p = Some d \<Longrightarrow> g q = Some d \<Longrightarrow> p = q"
  by (auto simp: owned_def inj_on_def)

lemma owned_clear: "owned g h \<Longrightarrow> owned (g(p := None)) h"
  by (rule ownedI) (auto split: if_splits dest: owned_live owned_unique)

lemma owned_delete: "owned g h \<Longrightarrow> g p = Some d \<Longrightarrow> owned (g(p := None)) (h(d := None))"
  by (rule ownedI) (auto split: if_splits dest: owned_live owned_unique)

lemma owned_fresh: "owned g h \<Longrightarrow> h a = None \<Longrightarrow> owned (g(p := Some a)) (h(a \<mapsto> v))"
  by (rule ownedI) (auto split: if_splits dest: owned_live owned_unique)

lemma owned_more: "owned g h \<Longrightarrow> h a = None \<Longrightarrow> owned g (h(a \<mapsto> v))"
  by (rule ownedI) (auto split: if_splits dest: owned_live owned_unique)

lemma owned_same: "owned g h \<Longrightarrow> g p = v \<Longrightarrow> owned (g(p := v)) h"
  by (simp add: fun_upd_idem)

lemma inv_upd:
  assumes "pool_inv fs s" and "pkts s p = Some y" and "pt_fflag y" and "pt_fflag x"
    and "pt_data x = pt_data y" and "options_of x = options_of y" and "used_ok x"
  shows "pool_inv fs (s\<lparr>pkts := (pkts s)(p \<mapsto> x)\<rparr>)"
proof -
  let ?t = "s\<lparr>pkts := (pkts s)(p \<mapsto> x)\<rparr>"
  have f: "free_ok fs s" using assms(1) by (simp add: pool_inv_def)
  have "free_ok fs ?t"
    by (rule free_ok_upd[OF f used_not_free[OF f assms(2,3)] assms(4)]) simp_all
  moreover have "owned (points ?t pt_data) (datas s)" "owned (points ?t options_of) (options s)"
    using assms by (simp_all add: pool_inv_def points_upd[of ?t s p x] points_def owned_same)
  moreover have "below ?t"
    using assms by (auto simp: pool_inv_def below_def)
  ultimately show ?thesis using assms by (auto simp: pool_inv_def)
qed

section \<open>Allocation\<close>

text \<open>The header of a packet as \<open>alloc\<close> returns it.\<close>

definition fresh_bits :: "nat \<Rightarrow> bits" where
  "fresh_bits n = (zero_bits n)\<lparr>b_cmn := zero_cmn
     \<lparr>cmn_next_hop := - 2, cmn_last_hop := - 2, cmn_direction := dir_DOWN\<rparr>\<rparr>"

definition fresh_pkt :: "nat \<Rightarrow> pkt \<Rightarrow> bool" where
  "fresh_pkt n x \<longleftrightarrow> pt_bits x = fresh_bits n \<and> pt_fflag x \<and> pt_data x = None
     \<and> pt_ref_count x = 0 \<and> pt_next x = None"

lemma fresh_used: "fresh_pkt n x \<Longrightarrow> used_ok x \<and> options_of x = None"
  by (simp add: fresh_pkt_def used_ok_def options_of_def fresh_bits_def zero_bits_def)

text \<open>A packet that was not in use gets its place in the pool.\<close>

lemma inv_fresh:
  assumes inv: "pool_inv fs s" and "fresh_pkt (hdrlen s) x" and "points s pt_data p = None"
    and "points s options_of p = None" and "free_ok gs t" and "pkts t = (pkts s)(p \<mapsto> x)"
    and "datas t = datas s" and "options t = options s" and "below t"
  shows "pool_inv gs t"
proof -
  have "owned (points t pt_data) (datas t)" "owned (points t options_of) (options t)"
    using inv assms(2-8) fresh_used[OF assms(2)]
    by (simp_all add: pool_inv_def points_upd[of t s p x] owned_same fresh_pkt_def)
  moreover have "used_ok y" if "pkts t q = Some y" for q y
    using that inv assms(6) fresh_used[OF assms(2)] by (auto simp: pool_inv_def split: if_splits)
  ultimately show ?thesis using inv assms(5,7,9) by (simp add: pool_inv_def)
qed

definition alloc_result :: "nat list \<Rightarrow> pool \<Rightarrow> nat \<Rightarrow> pool \<Rightarrow> bool" where
  "alloc_result fs s p t \<longleftrightarrow> pool_inv (tl fs) t \<and> \<not> in_use s p
     \<and> (\<exists>x. pkts t = (pkts s)(p \<mapsto> x) \<and> fresh_pkt (hdrlen s) x)
     \<and> datas t = datas s \<and> options t = options s \<and> hdrlen t = hdrlen s \<and> lim s \<le> lim t"

lemma alloc_reuse:
  assumes inv: "pool_inv (p # fs) s"
  shows "\<exists>t. Packet_alloc E s = Some (p, t) \<and> alloc_result (p # fs) s p t"
proof -
  have f: "free_ok (p # fs) s" using inv by (simp add: pool_inv_def)
  then have h: "free_list s = Some p" "linked (points s pt_next) (points s pt_next p) fs"
    by (simp_all add: free_ok_def)
  obtain x where x: "pkts s p = Some x" "idle (hdrlen s) x"
    by (rule free_okD[OF f, of p]) simp_all
  define y where "y = x\<lparr>pt_uid := 0, pt_time := 0, pt_fflag := True,
    pt_bits := fresh_bits (hdrlen s), pt_next := None\<rparr>"
  define t where "t = s\<lparr>free_list := pt_next x, pkts := (pkts s)(p \<mapsto> y)\<rparr>"
  have "Packet_alloc E s = Some (p, t)"
    using x h unfolding Packet_alloc_def take_free_def
    by (simp add: pool_defs idle_def t_def y_def fresh_bits_def zero_bits_def)
  moreover have y: "fresh_pkt (hdrlen s) y"
    using x by (simp add: fresh_pkt_def y_def idle_def)
  moreover have "free_ok fs t"
  proof -
    have "linked (points t pt_next) k fs = linked (points s pt_next) k fs" for k
      using f by (intro linked_cong) (auto simp: free_ok_def t_def points_def)
    then show ?thesis using f h x y
      by (auto simp: free_ok_def t_def fresh_pkt_def points_def)
  qed
  moreover have "below t"
    using inv x by (auto simp: pool_inv_def below_def t_def)
  moreover have "points s pt_data p = None" "points s options_of p = None"
    using x by (simp_all add: points_def idle_def options_of_def zero_bits_def)
  ultimately show ?thesis using inv x
    by (intro exI[of _ t]) (auto simp: alloc_result_def in_use_def idle_def t_def
        intro: inv_fresh[where p = p and x = y])
qed

lemma alloc_new:
  assumes inv: "pool_inv [] s"
  shows "\<exists>t. Packet_alloc E s = Some (lim s, t) \<and> alloc_result [] s (lim s) t"
proof -
  have f: "free_ok [] s" using inv by (simp add: pool_inv_def)
  then have h: "free_list s = None" by (simp add: free_ok_def)
  have none: "pkts s (lim s) = None" using inv by (simp add: pool_inv_def below_def)
  define y where "y = (e_pkt E (lim s))\<lparr>pt_data := None, pt_ref_count := 0, pt_fflag := True,
    pt_bits := fresh_bits (hdrlen s), pt_next := None\<rparr>"
  define t where "t = s\<lparr>lim := lim s + 1, pkts := (pkts s)(lim s \<mapsto> y)\<rparr>"
  have "Packet_alloc E s = Some (lim s, t)"
    using h unfolding Packet_alloc_def new_Packet_def
    by (simp add: pool_defs Let_def t_def y_def fresh_bits_def zero_bits_def)
  moreover have y: "fresh_pkt (hdrlen s) y" by (simp add: fresh_pkt_def y_def)
  moreover have "free_ok [] t"
    using f y by (auto simp: free_ok_def t_def fresh_pkt_def)
  moreover have "below t"
    using inv by (auto simp: pool_inv_def below_def t_def)
  moreover have "points s pt_data (lim s) = None" "points s options_of (lim s) = None"
    using none by (simp_all add: points_def)
  ultimately show ?thesis using inv none
    by (intro exI[of _ t]) (auto simp: alloc_result_def in_use_def t_def
        intro: inv_fresh[where p = "lim s" and x = y])
qed

lemma alloc_works:
  assumes "pool_inv fs s"
  obtains p t where "Packet_alloc E s = Some (p, t)" and "alloc_result fs s p t"
  using assms alloc_new alloc_reuse by (cases fs) blast+

section \<open>Release\<close>

definition drop_object :: "nat option \<Rightarrow> (nat \<Rightarrow> 'a option) \<Rightarrow> nat \<Rightarrow> 'a option" where
  "drop_object d h = (case d of None \<Rightarrow> h | Some d \<Rightarrow> h(d := None))"

lemma drop_object_simps [simp]: "drop_object None h = h" "drop_object (Some d) h = h(d := None)"
  by (simp_all add: drop_object_def)

lemma owned_drop: "owned g h \<Longrightarrow> owned (g(p := None)) (drop_object (g p) h)"
  by (cases "g p") (simp_all add: owned_clear owned_delete)

text \<open>What is left of a packet that goes back to the free list, and of the pool.\<close>

definition freed :: "nat \<Rightarrow> pkt \<Rightarrow> pool \<Rightarrow> pool" where
  "freed p x s = s\<lparr>options := drop_object (options_of x) (options s),
     datas := drop_object (pt_data x) (datas s), free_list := Some p,
     pkts := (pkts s)(p \<mapsto> x\<lparr>pt_data := None, pt_bits := zero_bits (hdrlen s),
       pt_next := free_list s, pt_fflag := False\<rparr>)\<rparr>"

lemma inv_used: "pool_inv fs s \<Longrightarrow> pkts s p = Some x \<Longrightarrow> used_ok x"
  by (simp add: pool_inv_def)

lemma inv_data: "pool_inv fs s \<Longrightarrow> pkts s p = Some x \<Longrightarrow> pt_data x = Some d \<Longrightarrow> \<exists>y. datas s d = Some y"
  using owned_live[of "points s pt_data" "datas s" p d] by (simp add: pool_inv_def points_def)

lemma inv_options:
  "pool_inv fs s \<Longrightarrow> pkts s p = Some x \<Longrightarrow> options_of x = Some d \<Longrightarrow> \<exists>y. options s d = Some y"
  using owned_live[of "points s options_of" "options s" p d] by (simp add: pool_inv_def points_def)

lemma delete_options_works:
  assumes "pool_inv fs s" and "pkts s p = Some x"
  shows "delete_options x s = Some (s\<lparr>options := drop_object (options_of x) (options s)\<rparr>)"
proof (cases "options_of x")
  case None
  then show ?thesis by (simp add: delete_options_def options_of_def)
next
  case (Some d)
  then obtain c where "options s d = Some c" using inv_options[OF assms] by blast
  moreover have "is_dccp (cmn_ptype (b_cmn (pt_bits x)))"
    using inv_used[OF assms] Some by (simp add: used_ok_def)
  ultimately show ?thesis using Some by (simp add: delete_options_def options_of_def)
qed

lemma release_works:
  assumes inv: "pool_inv fs s" and x: "pkts s p = Some x" and "pt_fflag x" and "pt_ref_count x = 0"
    and "pt_uid x \<le> 0"
  shows "Packet_free p s = Some (freed p x s)"
proof (cases "pt_data x")
  case None
  then have same: "x\<lparr>pt_data := None, pt_bits := b, pt_next := n, pt_fflag := f\<rparr>
    = x\<lparr>pt_bits := b, pt_next := n, pt_fflag := f\<rparr>" for b n f
    by (cases x) simp
  show ?thesis using assms None
    by (simp add: same Packet_free_def release_def delete_options_works[OF inv x] pool_defs freed_def)
next
  case (Some d)
  then obtain y where "datas s d = Some y" using inv_data[OF inv x] by blast
  then show ?thesis using assms Some
    by (simp add: Packet_free_def release_def delete_options_works[OF inv x] delete_data_def
        pool_defs freed_def)
qed

lemma freed_inv:
  assumes inv: "pool_inv fs s" and x: "pkts s p = Some x" "pt_fflag x" "pt_ref_count x = 0"
  shows "pool_inv (p # fs) (freed p x s)"
proof -
  let ?t = "freed p x s"
  have f: "free_ok fs s" using inv by (simp add: pool_inv_def)
  have p: "p \<notin> set fs" using used_not_free[OF f x(1,2)] .
  define y where "y = x\<lparr>pt_data := None, pt_bits := zero_bits (hdrlen s),
       pt_next := free_list s, pt_fflag := False\<rparr>"
  have pk: "pkts ?t = (pkts s)(p \<mapsto> y)" "hdrlen ?t = hdrlen s" "free_list ?t = Some p"
    "lim ?t = lim s" by (simp_all add: freed_def y_def)
  have y: "idle (hdrlen s) y" "pt_next y = free_list s" "options_of y = None" "used_ok y"
    using x by (simp_all add: idle_def y_def options_of_def zero_bits_def used_ok_def)
  have "linked (points ?t pt_next) k fs = linked (points s pt_next) k fs" for k
    using p pk by (intro linked_cong) (auto simp: points_def)
  then have "free_ok (p # fs) ?t"
    using f p pk y by (auto simp: free_ok_def points_def)
  moreover have "owned (points ?t pt_data) (datas ?t)"
  proof -
    have "points ?t pt_data = (points s pt_data)(p := None)" "points s pt_data p = pt_data x"
      using pk x by (simp_all add: points_upd y_def points_def)
    then show ?thesis
      using inv owned_drop[of "points s pt_data" "datas s" p] by (simp add: pool_inv_def freed_def)
  qed
  moreover have "owned (points ?t options_of) (options ?t)"
  proof -
    have "points ?t options_of = (points s options_of)(p := None)" "points s options_of p = options_of x"
      using pk x y by (simp_all add: points_upd points_def)
    then show ?thesis
      using inv owned_drop[of "points s options_of" "options s" p] by (simp add: pool_inv_def freed_def)
  qed
  moreover have "wf_data v" if "datas ?t d = Some v" for d v
    using that inv by (auto simp: pool_inv_def freed_def drop_object_def split: option.splits if_splits)
  moreover have "below ?t"
    using inv x by (auto simp: pool_inv_def below_def freed_def drop_object_def split: option.splits)
  moreover have "used_ok v" if "pkts ?t q = Some v" for q v
    using that inv pk y by (auto simp: pool_inv_def split: if_splits)
  ultimately show ?thesis by (simp add: pool_inv_def)
qed

text \<open>Any call of \<open>free\<close> that does not fail its assertion keeps the invariant.\<close>

lemma free_inv:
  assumes inv: "pool_inv fs s" and "Packet_free p s = Some t"
  shows "pool_ok t"
proof -
  obtain x where x: "pkts s p = Some x" using assms(2) by (auto simp: Packet_free_def)
  consider "\<not> pt_fflag x" | "pt_fflag x" "pt_ref_count x \<noteq> 0" | "pt_fflag x" "pt_ref_count x = 0"
    by blast
  then show ?thesis
  proof cases
    case 1
    then show ?thesis using assms x by (auto simp: Packet_free_def pool_ok_def)
  next
    case 2
    then have "used_ok (x\<lparr>pt_ref_count := pt_ref_count x - 1\<rparr>)"
      using inv_used[OF inv x] by (simp add: used_ok_def options_of_def)
    from inv_upd[OF inv x 2(1) _ _ _ this] show ?thesis
      using assms x 2 by (auto simp: Packet_free_def pool_defs pool_ok_def options_of_def)
  next
    case 3
    have "pt_uid x \<le> 0"
      using assms(2) x 3 by (auto simp: Packet_free_def release_def split: if_splits)
    then show ?thesis
      using assms x 3 freed_inv[OF inv x 3] release_works[OF inv x 3] by (auto simp: pool_ok_def)
  qed
qed

section \<open>New application data\<close>

text \<open>A packet in use gets a new data object in the place of none.\<close>

lemma inv_new_data:
  assumes inv: "pool_inv fs s" and x: "pkts s p = Some x" "pt_fflag x" and "wf_data v"
  shows "pool_inv fs (s\<lparr>datas := (datas s)(lim s \<mapsto> v), lim := Suc (lim s),
    pkts := (pkts s)(p \<mapsto> x\<lparr>pt_data := Some (lim s)\<rparr>)\<rparr>)" (is "pool_inv fs ?t")
proof -
  let ?y = "x\<lparr>pt_data := Some (lim s)\<rparr>"
  have f: "free_ok fs s" using inv by (simp add: pool_inv_def)
  have none: "datas s (lim s) = None" using inv by (simp add: pool_inv_def below_def)
  have "free_ok fs ?t"
    by (rule free_ok_upd[OF f used_not_free[OF f x], of ?y]) (simp_all add: x)
  moreover have "owned (points ?t pt_data) (datas ?t)"
    using inv none by (simp add: pool_inv_def points_upd[of ?t s p ?y] owned_fresh)
  moreover have "owned (points ?t options_of) (options ?t)"
    using inv x by (simp add: pool_inv_def points_upd[of ?t s p ?y] points_def options_of_def owned_same)
  moreover have "used_ok ?y" using inv_used[OF inv x(1)] by (simp add: used_ok_def options_of_def)
  moreover have "below ?t" using inv x by (auto simp: pool_inv_def below_def)
  ultimately show ?thesis using inv assms(4) by (auto simp: pool_inv_def split: if_splits)
qed

text \<open>A packet in use loses its data object, which is deleted.\<close>

lemma inv_drop_data:
  assumes inv: "pool_inv fs s" and x: "pkts s p = Some x" "pt_fflag x"
  shows "pool_inv fs (s\<lparr>datas := drop_object (pt_data x) (datas s),
    pkts := (pkts s)(p \<mapsto> x\<lparr>pt_data := None\<rparr>)\<rparr>)" (is "pool_inv fs ?t")
proof -
  let ?y = "x\<lparr>pt_data := None\<rparr>"
  have f: "free_ok fs s" using inv by (simp add: pool_inv_def)
  have "free_ok fs ?t"
    by (rule free_ok_upd[OF f used_not_free[OF f x], of ?y]) (simp_all add: x)
  moreover have "owned (points ?t pt_data) (datas ?t)"
    using inv x owned_drop[of "points s pt_data" "datas s" p]
    by (simp add: pool_inv_def points_upd[of ?t s p ?y] points_def)
  moreover have "owned (points ?t options_of) (options ?t)"
    using inv x by (simp add: pool_inv_def points_upd[of ?t s p ?y] points_def options_of_def owned_same)
  moreover have "used_ok ?y" using inv_used[OF inv x(1)] by (simp add: used_ok_def options_of_def)
  moreover have "wf_data v" if "datas ?t d = Some v" for d v
    using that inv by (auto simp: pool_inv_def drop_object_def split: option.splits if_splits)
  moreover have "below ?t"
    using inv x by (auto simp: pool_inv_def below_def drop_object_def split: option.splits)
  ultimately show ?thesis using inv by (simp add: pool_inv_def)
qed

text \<open>A packet in use gets new DCCP options in the place of none.\<close>

lemma inv_new_options:
  assumes inv: "pool_inv fs s" and x: "pkts s p = Some x" "pt_fflag x"
    and "is_dccp (cmn_ptype (b_cmn (pt_bits x)))"
  shows "pool_inv fs (s\<lparr>options := (options s)(lim s \<mapsto> c), lim := Suc (lim s),
    pkts := (pkts s)(p \<mapsto> x\<lparr>pt_bits := (pt_bits x)\<lparr>b_dccp_options := Some (lim s)\<rparr>\<rparr>)\<rparr>)"
    (is "pool_inv fs ?t")
proof -
  let ?y = "x\<lparr>pt_bits := (pt_bits x)\<lparr>b_dccp_options := Some (lim s)\<rparr>\<rparr>"
  have f: "free_ok fs s" using inv by (simp add: pool_inv_def)
  have none: "options s (lim s) = None" using inv by (simp add: pool_inv_def below_def)
  have "free_ok fs ?t"
    by (rule free_ok_upd[OF f used_not_free[OF f x], of ?y]) (simp_all add: x)
  moreover have "owned (points ?t pt_data) (datas ?t)"
    using inv x by (simp add: pool_inv_def points_upd[of ?t s p ?y] points_def owned_same)
  moreover have "owned (points ?t options_of) (options ?t)"
    using inv none by (simp add: pool_inv_def points_upd[of ?t s p ?y] options_of_def owned_fresh)
  moreover have "used_ok ?y" using inv_used[OF inv x(1)] assms(4) by (simp add: used_ok_def)
  moreover have "below ?t" using inv x by (auto simp: pool_inv_def below_def)
  ultimately show ?thesis using inv by (auto simp: pool_inv_def)
qed

end
