(* ===== verification/Pool_Run.thy ===== *)
theory Pool_Run
  imports Pool_Inv
begin

text \<open>
  Copies of packets, and the packet memory under its clients as a step relation: every operation
  of class \<open>Packet\<close>, and what clients do to the packets they have. The invariant holds in every
  reachable memory.
\<close>

section \<open>Copies\<close>

definition copied :: "pool_env \<Rightarrow> app_data \<Rightarrow> app_data" where
  "copied E v = (case v of PacketData n b \<Rightarrow> PacketData n b | OtherData b \<Rightarrow> OtherData (e_copy E b))"

lemma wf_copied: "wf_data v \<Longrightarrow> wf_data (copied E v)"
  by (cases v) (simp_all add: wf_data_def copied_def)

lemma data_copy_works:
  assumes "datas s d = Some v" and "wf_data v"
  shows "data_copy E d s
    = Some (lim s, s\<lparr>datas := (datas s)(lim s \<mapsto> copied E v), lim := Suc (lim s)\<rparr>)"
proof (cases v)
  case (PacketData n b)
  then show ?thesis using assms
    by (cases b) (auto simp: data_copy_def wf_data_def copied_def)
next
  case (OtherData b)
  then show ?thesis using assms by (simp add: data_copy_def copied_def)
qed

text \<open>The part of the copy after \<open>alloc\<close>, in a pool in which the new packet is \<open>p\<close>.\<close>

definition copy_header :: "nat \<Rightarrow> nat \<Rightarrow> pkt \<Rightarrow> pool \<Rightarrow> pool option" where
  "copy_header q p x s = do { s \<leftarrow> upd_pkt p (\<lambda>y. y\<lparr>pt_bits := pt_bits x\<rparr>) s; copy_options q p s }"

definition copy_data :: "pool_env \<Rightarrow> nat \<Rightarrow> pkt \<Rightarrow> pool \<Rightarrow> pool option" where
  "copy_data E p x s = (case pt_data x of
     None \<Rightarrow> Some s
   | Some d \<Rightarrow> do {
       (d', s) \<leftarrow> data_copy E d s;
       upd_pkt p (\<lambda>y. y\<lparr>pt_data := Some d'\<rparr>) s
     })"

definition copy_rest :: "pool_env \<Rightarrow> nat \<Rightarrow> pkt \<Rightarrow> pool \<Rightarrow> pool option" where
  "copy_rest E p x s = do {
     s \<leftarrow> upd_pkt p (\<lambda>y. y\<lparr>pt_txinfo := e_stamp E (pt_txinfo x)\<rparr>) s;
     upd_pkt p (\<lambda>y. y\<lparr>pt_channel := pt_channel x\<rparr>) s
   }"

lemma Packet_copy_parts:
  "Packet_copy E q s = do {
     (p, s) \<leftarrow> Packet_alloc E s;
     x \<leftarrow> pkts s q;
     s \<leftarrow> copy_header q p x s;
     s \<leftarrow> copy_data E p x s;
     s \<leftarrow> copy_rest E p x s;
     Some (p, s)
   }"
  by (simp add: Packet_copy_def copy_header_def copy_data_def copy_rest_def)

text \<open>
  What a step of the copy guarantees of the new packet \<open>y\<close> in the pool \<open>t\<close>: the invariant, and
  that nothing else in the pool changed.
\<close>

definition copy_stage :: "nat list \<Rightarrow> nat \<Rightarrow> pkt \<Rightarrow> pool \<Rightarrow> pool \<Rightarrow> bool" where
  "copy_stage fs p y s t \<longleftrightarrow> pool_inv fs t \<and> pkts t = (pkts s)(p \<mapsto> y) \<and> pt_fflag y
     \<and> pt_ref_count y = 0 \<and> hdrlen t = hdrlen s
     \<and> (\<forall>d. datas s d \<noteq> None \<longrightarrow> datas t d = datas s d)
     \<and> (\<forall>d. options s d \<noteq> None \<longrightarrow> options t d = options s d)"

lemma copy_header_works:
  assumes inv: "pool_inv fs s" and q: "pkts s q = Some x" and p: "pkts s p = Some y" "pt_fflag y"
    "pt_ref_count y = 0" "options_of y = None" and pq: "p \<noteq> q"
  obtains t z where "copy_header q p x s = Some t" and "copy_stage fs p z s t"
    and "b_cmn (pt_bits z) = b_cmn (pt_bits x)" and "b_other (pt_bits z) = b_other (pt_bits x)"
    and "rel_option (\<lambda>d e. d \<noteq> e \<and> options t d = options s e) (options_of z) (options_of x)"
    and "pt_data z = pt_data y"
proof (cases "options_of x")
  case None
  let ?z = "y\<lparr>pt_bits := pt_bits x\<rparr>"
  let ?t = "s\<lparr>pkts := (pkts s)(p \<mapsto> ?z)\<rparr>"
  have "used_ok ?z" using None p by (simp add: used_ok_def options_of_def)
  then have "pool_inv fs ?t"
    by (rule inv_upd[OF inv p(1,2), rotated 3]) (use None p in \<open>simp_all add: options_of_def\<close>)
  then have "copy_stage fs p ?z s ?t" using p by (simp add: copy_stage_def)
  moreover have "copy_header q p x s = Some ?t"
    using None q p pq by (simp add: copy_header_def copy_options_def pool_defs options_of_def)
  ultimately show ?thesis using that[of ?t ?z] None by (simp add: options_of_def)
next
  case (Some e)
  let ?u = "y\<lparr>pt_bits := (pt_bits x)\<lparr>b_dccp_options := None\<rparr>\<rparr>"
  let ?s = "s\<lparr>pkts := (pkts s)(p \<mapsto> ?u)\<rparr>"
  let ?z = "y\<lparr>pt_bits := (pt_bits x)\<lparr>b_dccp_options := Some (lim s)\<rparr>\<rparr>"
  obtain c where c: "options s e = Some c" using inv_options[OF inv q Some] by blast
  have dccp: "is_dccp (cmn_ptype (b_cmn (pt_bits x)))"
    using inv_used[OF inv q] Some by (simp add: used_ok_def)
  let ?t = "s\<lparr>options := (options s)(lim s \<mapsto> c), lim := Suc (lim s), pkts := (pkts s)(p \<mapsto> ?z)\<rparr>"
  have "used_ok ?u" using p by (simp add: used_ok_def options_of_def)
  then have "pool_inv fs ?s"
    by (rule inv_upd[OF inv p(1,2), rotated 3]) (use p in \<open>simp_all add: options_of_def\<close>)
  from inv_new_options[OF this, of p ?u c] have inv': "pool_inv fs ?t"
    using p dccp by simp
  have none: "options s (lim s) = None" using inv by (simp add: pool_inv_def below_def)
  have "copy_stage fs p ?z s ?t" using inv' p none by (auto simp: copy_stage_def)
  moreover have "copy_header q p x s = Some ?t"
    using Some q p pq c dccp
    by (simp add: copy_header_def copy_options_def pool_defs options_of_def Let_def)
  moreover have "lim s \<noteq> e" using c none by auto
  ultimately show ?thesis using that[of ?t ?z] Some c by (simp add: options_of_def)
qed

lemma copy_data_works:
  assumes inv: "pool_inv fs s" and d: "\<And>d. pt_data x = Some d \<Longrightarrow> \<exists>v. datas s d = Some v"
    and p: "pkts s p = Some y" "pt_fflag y" "pt_ref_count y = 0" "pt_data y = None"
  obtains t z where "copy_data E p x s = Some t" and "copy_stage fs p z s t"
    and "pt_bits z = pt_bits y" and "options t = options s"
    and "rel_option (\<lambda>a b. a \<noteq> b \<and> datas t a = map_option (copied E) (datas s b)) (pt_data z) (pt_data x)"
proof (cases "pt_data x")
  case None
  then have "copy_data E p x s = Some s" by (simp add: copy_data_def)
  moreover have "copy_stage fs p y s s" using inv p by (simp add: copy_stage_def fun_upd_idem)
  ultimately show ?thesis using that[of s y] None p by simp
next
  case (Some d)
  then obtain v where v: "datas s d = Some v" using d by blast
  have w: "wf_data v" using inv v by (simp add: pool_inv_def)
  let ?z = "y\<lparr>pt_data := Some (lim s)\<rparr>"
  let ?t = "s\<lparr>datas := (datas s)(lim s \<mapsto> copied E v), lim := Suc (lim s), pkts := (pkts s)(p \<mapsto> ?z)\<rparr>"
  have none: "datas s (lim s) = None" using inv by (simp add: pool_inv_def below_def)
  have "copy_data E p x s = Some ?t"
    using Some p by (simp add: copy_data_def data_copy_works[OF v w] pool_defs)
  moreover have "copy_stage fs p ?z s ?t"
    using inv_new_data[OF inv p(1,2) wf_copied[OF w]] p none by (auto simp: copy_stage_def)
  moreover have "lim s \<noteq> d" using v none by auto
  ultimately show ?thesis using that[of ?t ?z] Some v by simp
qed

text \<open>The copy as a whole.\<close>

definition copy_of :: "pool_env \<Rightarrow> pool \<Rightarrow> pkt \<Rightarrow> pool \<Rightarrow> pkt \<Rightarrow> bool" where
  "copy_of E s x t y \<longleftrightarrow> b_cmn (pt_bits y) = b_cmn (pt_bits x) \<and> b_other (pt_bits y) = b_other (pt_bits x)
     \<and> rel_option (\<lambda>a b. a \<noteq> b \<and> datas t a = map_option (copied E) (datas s b)) (pt_data y) (pt_data x)
     \<and> rel_option (\<lambda>a b. a \<noteq> b \<and> options t a = options s b) (options_of y) (options_of x)
     \<and> pt_txinfo y = e_stamp E (pt_txinfo x) \<and> pt_channel y = pt_channel x
     \<and> pt_fflag y \<and> pt_ref_count y = 0"

definition copy_result :: "pool_env \<Rightarrow> nat \<Rightarrow> pool \<Rightarrow> nat \<Rightarrow> pool \<Rightarrow> bool" where
  "copy_result E q s p t \<longleftrightarrow> pool_ok t \<and> \<not> in_use s p
     \<and> (\<exists>x y. pkts s q = Some x \<and> pkts t = (pkts s)(p \<mapsto> y) \<and> copy_of E s x t y)
     \<and> (\<forall>d. datas s d \<noteq> None \<longrightarrow> datas t d = datas s d)
     \<and> (\<forall>d. options s d \<noteq> None \<longrightarrow> options t d = options s d)"

lemma copy_works:
  assumes "pool_ok s" and "in_use s q"
  obtains p t where "Packet_copy E q s = Some (p, t)" and "copy_result E q s p t"
proof -
  obtain fs where inv: "pool_inv fs s" using assms(1) by (auto simp: pool_ok_def)
  obtain x where x: "pkts s q = Some x" "pt_fflag x"
    using assms(2) by (auto simp: in_use_def split: option.splits)
  obtain p t1 where al: "Packet_alloc E s = Some (p, t1)" "alloc_result fs s p t1"
    using alloc_works[OF inv] by blast
  then obtain y where y: "pkts t1 = (pkts s)(p \<mapsto> y)" "fresh_pkt (hdrlen s) y"
    and inv1: "pool_inv (tl fs) t1" and p: "\<not> in_use s p"
    and same: "datas t1 = datas s" "options t1 = options s" by (auto simp: alloc_result_def)
  have pq: "p \<noteq> q" using p assms(2) by auto
  have y': "pkts t1 p = Some y" "pt_fflag y" "pt_ref_count y = 0" "options_of y = None" "pt_data y = None"
    using y fresh_used[OF y(2)] by (simp_all add: fresh_pkt_def)
  have x1: "pkts t1 q = Some x" using y pq x by simp
  obtain t2 z where h: "copy_header q p x t1 = Some t2" "copy_stage (tl fs) p z t1 t2"
    "b_cmn (pt_bits z) = b_cmn (pt_bits x)" "b_other (pt_bits z) = b_other (pt_bits x)"
    "rel_option (\<lambda>d e. d \<noteq> e \<and> options t2 d = options t1 e) (options_of z) (options_of x)"
    "pt_data z = pt_data y"
    using copy_header_works[OF inv1 x1 y'(1-4) pq] by blast
  have inv2: "pool_inv (tl fs) t2" and z: "pkts t2 p = Some z" "pt_fflag z" "pt_ref_count z = 0"
    "pt_data z = None" using h(2,6) y' by (auto simp: copy_stage_def)
  have live: "\<exists>v. datas t2 d = Some v" if "pt_data x = Some d" for d
    using inv_data[OF inv x(1) that] h(2) same by (auto simp: copy_stage_def)
  obtain t3 w where c: "copy_data E p x t2 = Some t3" "copy_stage (tl fs) p w t2 t3"
    "pt_bits w = pt_bits z" "options t3 = options t2"
    "rel_option (\<lambda>a b. a \<noteq> b \<and> datas t3 a = map_option (copied E) (datas t2 b)) (pt_data w) (pt_data x)"
    using copy_data_works[OF inv2 live z] by blast
  have inv3: "pool_inv (tl fs) t3" and w: "pkts t3 p = Some w" "pt_fflag w"
    using c(2) by (auto simp: copy_stage_def)
  define v where "v = w\<lparr>pt_txinfo := e_stamp E (pt_txinfo x), pt_channel := pt_channel x\<rparr>"
  define t where "t = t3\<lparr>pkts := (pkts t3)(p \<mapsto> v)\<rparr>"
  have "copy_rest E p x t3 = Some t" using w by (simp add: copy_rest_def pool_defs t_def v_def)
  then have "Packet_copy E q s = Some (p, t)"
    using al(1) x1 h(1) c(1) by (simp add: Packet_copy_parts)
  moreover have "pool_inv (tl fs) t"
    unfolding t_def by (rule inv_upd[OF inv3 w])
      (use w inv_used[OF inv3 w(1)] in \<open>simp_all add: v_def options_of_def used_ok_def\<close>)
  moreover have "copy_of E s x t v"
  proof -
    have "datas t2 b = datas s b" if "pt_data x = Some b" for b
      using inv_data[OF inv x(1) that] h(2) same by (auto simp: copy_stage_def)
    then have "rel_option (\<lambda>a b. a \<noteq> b \<and> datas t a = map_option (copied E) (datas s b)) (pt_data v) (pt_data x)"
      using c(5) by (cases "pt_data x") (auto simp: t_def v_def option_rel_Some2)
    moreover have "rel_option (\<lambda>a b. a \<noteq> b \<and> options t a = options s b) (options_of v) (options_of x)"
      using h(5) c(3,4) same by (simp add: t_def v_def options_of_def)
    ultimately show ?thesis
      using h(3,4) c(2,3) by (simp add: copy_of_def v_def copy_stage_def)
  qed
  moreover have "pkts t = (pkts s)(p \<mapsto> v)"
    using y h(2) c(2) by (simp add: t_def copy_stage_def)
  moreover have "\<forall>d. datas s d \<noteq> None \<longrightarrow> datas t d = datas s d"
    "\<forall>d. options s d \<noteq> None \<longrightarrow> options t d = options s d"
    using h(2) c(2) same by (auto simp: t_def copy_stage_def)
  ultimately show ?thesis using that[of p t] x p
    unfolding copy_result_def pool_ok_def by blast
qed

section \<open>Steps\<close>

text \<open>
  What clients do: the operations of the class on packets that are in use (\<open>free\<close> on any packet), new
  data with contents of the right size, new header bytes that keep the pointer to the DCCP
  options, new options for a DCCP packet, and the other members.
\<close>

inductive pool_step :: "pool_env \<Rightarrow> pool \<Rightarrow> pool \<Rightarrow> bool" for E where
  step_alloc: "Packet_alloc_n E n s = Some (p, t) \<Longrightarrow> pool_step E s t"
| step_free: "Packet_free p s = Some t \<Longrightarrow> pool_step E s t"
| step_refcopy: "in_use s p \<Longrightarrow> refcopy p s = Some t \<Longrightarrow> pool_step E s t"
| step_copy: "in_use s q \<Longrightarrow> Packet_copy E q s = Some (p, t) \<Longrightarrow> pool_step E s t"
| step_allocdata: "in_use s p \<Longrightarrow> allocdata E p n s = Some t \<Longrightarrow> pool_step E s t"
| step_setdata: "in_use s p \<Longrightarrow> wf_data v
    \<Longrightarrow> setdata p (Some (lim s)) (s\<lparr>datas := (datas s)(lim s \<mapsto> v), lim := Suc (lim s)\<rparr>) = Some t
    \<Longrightarrow> pool_step E s t"
| step_nodata: "in_use s p \<Longrightarrow> setdata p None s = Some t \<Longrightarrow> pool_step E s t"
| step_initdata: "in_use s p \<Longrightarrow> initdata p s = Some t \<Longrightarrow> pool_step E s t"
| step_bytes: "datas s d = Some (PacketData n (Some c)) \<Longrightarrow> length c' = length c
    \<Longrightarrow> pool_step E s (s\<lparr>datas := (datas s)(d \<mapsto> PacketData n (Some c'))\<rparr>)"
| step_header: "pkts s p = Some x \<Longrightarrow> pt_fflag x \<Longrightarrow> b_dccp_options b = options_of x
    \<Longrightarrow> options_of x \<noteq> None \<longrightarrow> is_dccp (cmn_ptype (b_cmn b))
    \<Longrightarrow> pool_step E s (s\<lparr>pkts := (pkts s)(p \<mapsto> x\<lparr>pt_bits := b\<rparr>)\<rparr>)"
| step_options: "pkts s p = Some x \<Longrightarrow> pt_fflag x \<Longrightarrow> is_dccp (cmn_ptype (b_cmn (pt_bits x)))
    \<Longrightarrow> pool_step E s (s\<lparr>options := (options s)(lim s \<mapsto> c), lim := Suc (lim s),
      pkts := (pkts s)(p \<mapsto> x\<lparr>pt_bits := (pt_bits x)\<lparr>b_dccp_options := Some (lim s)\<rparr>\<rparr>)\<rparr>)"
| step_members: "pkts s p = Some x \<Longrightarrow> pt_fflag x
    \<Longrightarrow> pool_step E s (s\<lparr>pkts := (pkts s)(p \<mapsto> x\<lparr>pt_next := nx, pt_uid := u, pt_time := tm,
      pt_txinfo := st, pt_incoming := inc, pt_channel := ch\<rparr>)\<rparr>)"

inductive_cases pool_stepE: "pool_step E s t"

inductive pool_run :: "pool_env \<Rightarrow> pool \<Rightarrow> pool \<Rightarrow> bool" for E where
  run_start: "pool_run E s s"
| run_step: "pool_run E s t \<Longrightarrow> pool_step E t u \<Longrightarrow> pool_run E s u"

lemma in_useE:
  assumes "in_use s p"
  obtains x where "pkts s p = Some x" and "pt_fflag x"
  using assms by (auto simp: in_use_def split: option.splits)

lemma allocdata_inv:
  assumes inv: "pool_inv fs s" and x: "pkts s p = Some x" "pt_fflag x" and "allocdata E p n s = Some t"
  shows "pool_inv fs t"
proof -
  let ?v = "PacketData n (if 0 < n then Some (map (e_byte E (lim s)) [0..<nat n]) else None)"
  have "wf_data ?v" by (simp add: wf_data_def)
  from inv_new_data[OF inv x this] show ?thesis using assms x
    by (auto simp: allocdata_def new_PacketData_def Let_def pool_defs split: if_splits)
qed

lemma alloc_n_inv:
  assumes "pool_ok s" and "Packet_alloc_n E n s = Some (p, t)"
  shows "pool_ok t"
proof -
  obtain fs where inv: "pool_inv fs s" using assms(1) by (auto simp: pool_ok_def)
  obtain q u where al: "Packet_alloc E s = Some (q, u)" "alloc_result fs s q u"
    using alloc_works[OF inv] by blast
  then obtain x where x: "pkts u q = Some x" "pt_fflag x" "pool_inv (tl fs) u"
    by (auto simp: alloc_result_def fresh_pkt_def)
  show ?thesis using assms(2) al(1) x allocdata_inv[OF x(3,1,2)]
    by (auto simp: Packet_alloc_n_def pool_ok_def split: if_splits)
qed

lemma setdata_inv:
  assumes inv: "pool_inv fs s" and x: "pkts s p = Some x" "pt_fflag x" and "wf_data v"
    and "setdata p (Some (lim s)) (s\<lparr>datas := (datas s)(lim s \<mapsto> v), lim := Suc (lim s)\<rparr>) = Some t"
  shows "pool_inv fs t"
proof -
  let ?u = "s\<lparr>datas := drop_object (pt_data x) (datas s), pkts := (pkts s)(p \<mapsto> x\<lparr>pt_data := None\<rparr>)\<rparr>"
  have u: "pool_inv fs ?u" using inv_drop_data[OF inv x] .
  have "pt_data x \<noteq> Some (lim s)"
    using inv_data[OF inv x(1), of "lim s"] inv by (auto simp: pool_inv_def below_def)
  then have "t = ?u\<lparr>datas := (datas ?u)(lim ?u \<mapsto> v), lim := Suc (lim ?u),
      pkts := (pkts ?u)(p \<mapsto> x\<lparr>pt_data := Some (lim s)\<rparr>)\<rparr>"
    using assms(5) x
    by (cases "pt_data x") (auto simp: setdata_def delete_data_def pool_defs fun_upd_twist split: if_splits)
  then show ?thesis using inv_new_data[OF u _ _ assms(4), of p "x\<lparr>pt_data := None\<rparr>"] x by simp
qed

theorem pool_step_ok:
  assumes "pool_step E s t" and "pool_ok s"
  shows "pool_ok t"
proof -
  obtain fs where inv: "pool_inv fs s" using assms(2) by (auto simp: pool_ok_def)
  from assms(1) show ?thesis
  proof cases
    case (step_alloc n p)
    then show ?thesis using alloc_n_inv assms(2) by blast
  next
    case (step_free p)
    then show ?thesis using free_inv[OF inv] by blast
  next
    case (step_refcopy p)
    then obtain x where x: "pkts s p = Some x" "pt_fflag x" by (auto elim: in_useE)
    then have "used_ok (x\<lparr>pt_ref_count := pt_ref_count x + 1\<rparr>)"
      using inv_used[OF inv x(1)] by (simp add: used_ok_def options_of_def)
    from inv_upd[OF inv x _ _ _ this] show ?thesis
      using step_refcopy x by (auto simp: refcopy_def pool_defs pool_ok_def options_of_def)
  next
    case (step_copy q p)
    from copy_works[OF assms(2) step_copy(1)] obtain p' t'
      where "Packet_copy E q s = Some (p', t')" "copy_result E q s p' t'" by blast
    then show ?thesis using step_copy(2) by (simp add: copy_result_def)
  next
    case (step_allocdata p n)
    then obtain x where "pkts s p = Some x" "pt_fflag x" by (auto elim: in_useE)
    then show ?thesis using allocdata_inv[OF inv _ _ step_allocdata(2)] by (auto simp: pool_ok_def)
  next
    case (step_setdata p v)
    then obtain x where "pkts s p = Some x" "pt_fflag x" by (auto elim: in_useE)
    then show ?thesis using setdata_inv[OF inv _ _ step_setdata(2,3)] by (auto simp: pool_ok_def)
  next
    case (step_nodata p)
    then obtain x where x: "pkts s p = Some x" "pt_fflag x" by (auto elim: in_useE)
    then have "t = s\<lparr>datas := drop_object (pt_data x) (datas s), pkts := (pkts s)(p \<mapsto> x\<lparr>pt_data := None\<rparr>)\<rparr>"
      using step_nodata by (cases "pt_data x") (auto simp: setdata_def delete_data_def pool_defs)
    then show ?thesis using inv_drop_data[OF inv x] by (auto simp: pool_ok_def)
  next
    case (step_initdata p)
    then obtain x where x: "pkts s p = Some x" "pt_fflag x" by (auto elim: in_useE)
    then have t: "t = s\<lparr>pkts := (pkts s)(p \<mapsto> x\<lparr>pt_data := None\<rparr>)\<rparr>"
      using step_initdata by (auto simp: initdata_def pool_defs)
    have f: "free_ok fs s" using inv by (simp add: pool_inv_def)
    have "free_ok fs t"
      by (rule free_ok_upd[OF f used_not_free[OF f x]]) (simp_all add: t x)
    moreover have "owned (points t pt_data) (datas t)" "owned (points t options_of) (options t)"
      using inv x by (simp_all add: t pool_inv_def points_upd[of _ s p "x\<lparr>pt_data := None\<rparr>"]
          owned_clear points_def options_of_def owned_same)
    moreover have "used_ok (x\<lparr>pt_data := None\<rparr>)"
      using inv_used[OF inv x(1)] by (simp add: used_ok_def options_of_def)
    moreover have "below t" using inv x by (auto simp: t pool_inv_def below_def)
    ultimately have "pool_inv fs t" using inv by (auto simp: t pool_inv_def)
    then show ?thesis by (auto simp: pool_ok_def)
  next
    case (step_bytes d n c c')
    have "points t f = points s f" for f using step_bytes by (simp add: points_def fun_eq_iff)
    moreover have "owned g (datas t)" if "owned g (datas s)" for g
      using that step_bytes by (auto simp: owned_def)
    moreover have "wf_data (PacketData n (Some c))" using inv step_bytes by (simp add: pool_inv_def)
    then have "wf_data (PacketData n (Some c'))" using step_bytes by (simp add: wf_data_def)
    ultimately show ?thesis using inv step_bytes
      by (auto simp: pool_ok_def pool_inv_def free_ok_def below_def intro!: exI[of _ fs])
  next
    case (step_header p x b)
    have "used_ok (x\<lparr>pt_bits := b\<rparr>)"
      using inv_used[OF inv step_header(2)] step_header by (simp add: used_ok_def options_of_def)
    from inv_upd[OF inv step_header(2,3) _ _ _ this] show ?thesis
      using step_header by (auto simp: pool_ok_def options_of_def)
  next
    case (step_options p x c)
    then show ?thesis using inv_new_options[OF inv step_options(2-4)] by (auto simp: pool_ok_def)
  next
    case (step_members p x)
    then obtain y where y: "t = s\<lparr>pkts := (pkts s)(p \<mapsto> y)\<rparr>" "pt_fflag y" "pt_data y = pt_data x"
      "pt_bits y = pt_bits x" "pt_ref_count y = pt_ref_count x" by simp
    then have "used_ok y" using inv_used[OF inv step_members(2)] by (simp add: used_ok_def options_of_def)
    from inv_upd[OF inv step_members(2,3) y(2,3) _ this] show ?thesis
      using y by (auto simp: pool_ok_def options_of_def)
  qed
qed

lemma pool_run_ok: "pool_run E s t \<Longrightarrow> pool_ok s \<Longrightarrow> pool_ok t"
  by (induction rule: pool_run.induct) (auto intro: pool_step_ok)

end
