(* ===== verification/Pool_Claims.thy ===== *)
theory Pool_Claims
  imports Pool_Run
begin

text \<open>
  What the packet memory promises its clients, with a sample environment, and what the tables of
  packet types answer.
\<close>

section \<open>Samples\<close>

definition sample_pool_env :: pool_env where
  "sample_pool_env = \<lparr>e_pkt = (\<lambda>_. \<lparr>pt_bits = zero_bits 2, pt_data = None, pt_fflag = False,
       pt_ref_count = 7, pt_next = None, pt_uid = 0, pt_time = 3, pt_txinfo = [], pt_incoming = 9,
       pt_channel = 5\<rparr>),
     e_byte = (\<lambda>_ i. of_nat i), e_size = int o length, e_copy = id, e_stamp = id\<rparr>"

text \<open>A pool with one packet of three bytes of data.\<close>

definition sample_pool :: pool where
  "sample_pool = snd (the (Packet_alloc_n sample_pool_env 3 (empty_pool 2)))"

lemma sample_alloc: "Packet_alloc_n sample_pool_env 3 (empty_pool 2) = Some (0, sample_pool)"
  by (simp add: sample_pool_def sample_pool_env_def Packet_alloc_n_def Packet_alloc_def empty_pool_def
      new_Packet_def Let_def pool_defs allocdata_def new_PacketData_def)

lemma sample_pool_run: "pool_run sample_pool_env (empty_pool 2) sample_pool"
  by (rule run_step[OF run_start step_alloc[OF sample_alloc]])

lemma sample_pool_ok: "pool_ok sample_pool"
  using pool_run_ok[OF sample_pool_run] empty_pool_inv[of 2] by (auto simp: pool_ok_def)

lemma sample_pool_pkt:
  "\<exists>x. pkts sample_pool 0 = Some x \<and> pt_fflag x \<and> pt_ref_count x = 0 \<and> pt_uid x = 0 \<and> pt_data x = Some 1"
  by (simp add: sample_pool_def sample_pool_env_def Packet_alloc_n_def Packet_alloc_def empty_pool_def
      new_Packet_def Let_def pool_defs allocdata_def new_PacketData_def)

section \<open>Memory\<close>

text \<open>C25: In every run of the packet memory, \<open>alloc\<close> succeeds: no assertion about the packet
  it takes from the free list fails, the packet was not in use, no other packet is touched, and it comes with a cleared
  header (next and last hop -2, direction down), no data and no further reference.\<close>

theorem alloc_gives_cleared_packet:
  assumes "pool_run E (empty_pool n) s"
  shows "\<exists>p t x. Packet_alloc E s = Some (p, t) \<and> \<not> in_use s p \<and> pkts t = (pkts s)(p \<mapsto> x)
    \<and> datas t = datas s \<and> fresh_pkt (hdrlen s) x"
proof -
  have "pool_ok (empty_pool n)" using empty_pool_inv by (auto simp: pool_ok_def)
  then obtain fs where inv: "pool_inv fs s"
    using pool_run_ok[OF assms] by (auto simp: pool_ok_def)
  show ?thesis using alloc_works[OF inv, of E] by (fastforce simp: alloc_result_def)
qed

theorem alloc_gives_cleared_packet_witness:
  "\<exists>p t x. Packet_alloc sample_pool_env sample_pool = Some (p, t) \<and> \<not> in_use sample_pool p
    \<and> pkts t = (pkts sample_pool)(p \<mapsto> x) \<and> datas t = datas sample_pool
    \<and> fresh_pkt (hdrlen sample_pool) x"
  by (rule alloc_gives_cleared_packet[OF sample_pool_run])

text \<open>
  References taken (\<open>True\<close>, \<open>refcopy\<close>) and given back (\<open>False\<close>, \<open>free\<close>) by several holders of a packet,
  in any order; \<open>references c ops\<close> is the number of further references at the end if there was always one
  to give back besides the last.
\<close>

primrec references :: "int \<Rightarrow> bool list \<Rightarrow> int option" where
  "references c [] = Some c"
| "references c (r # rs) = (if r then references (c + 1) rs
     else if c = 0 then None else references (c - 1) rs)"

primrec use_references :: "nat \<Rightarrow> bool list \<Rightarrow> pool \<Rightarrow> pool option" where
  "use_references p [] s = Some s"
| "use_references p (r # rs) s = do {
     s \<leftarrow> (if r then refcopy p s else Packet_free p s);
     use_references p rs s
   }"

lemma use_references_keeps:
  assumes "pkts s p = Some x" and "pt_fflag x" and "references (pt_ref_count x) ops = Some c"
  shows "use_references p ops s = Some (s\<lparr>pkts := (pkts s)(p \<mapsto> x\<lparr>pt_ref_count := c\<rparr>)\<rparr>)"
  using assms
proof (induction ops arbitrary: s x)
  case Nil
  then have "x\<lparr>pt_ref_count := c\<rparr> = x" by simp
  then show ?case using Nil by (simp add: fun_upd_idem)
next
  case (Cons r rs)
  define d where "d = (if r then pt_ref_count x + 1 else pt_ref_count x - 1)"
  let ?y = "x\<lparr>pt_ref_count := d\<rparr>"
  let ?s = "s\<lparr>pkts := (pkts s)(p \<mapsto> ?y)\<rparr>"
  have "(if r then refcopy p s else Packet_free p s) = Some ?s"
    using Cons.prems by (auto simp: refcopy_def Packet_free_def pool_defs d_def split: if_splits)
  moreover have "use_references p rs ?s = Some (?s\<lparr>pkts := (pkts ?s)(p \<mapsto> ?y\<lparr>pt_ref_count := c\<rparr>)\<rparr>)"
    using Cons.prems by (intro Cons.IH) (auto simp: d_def split: if_splits)
  moreover have "?s\<lparr>pkts := (pkts ?s)(p \<mapsto> ?y\<lparr>pt_ref_count := c\<rparr>)\<rparr>
    = s\<lparr>pkts := (pkts s)(p \<mapsto> x\<lparr>pt_ref_count := c\<rparr>)\<rparr>" by simp
  ultimately show ?case by (simp only: use_references.simps Option.bind.simps)
qed



text \<open>C27: \<open>copy\<close> always succeeds on a packet in use and gives a packet that was not in use, with the
  same headers, contents and options; its data and options are objects of its own, and the
  original and its data stay as they are. What is then written to the data of the copy is not
  seen in the original.\<close>

theorem copy_is_independent:
  assumes "pool_run E (empty_pool n) s" and "in_use s q"
  shows "\<exists>p t x y. Packet_copy E q s = Some (p, t) \<and> \<not> in_use s p \<and> pkts s q = Some x
    \<and> pkts t = (pkts s)(p \<mapsto> y) \<and> copy_of E s x t y \<and> accessdata q t = accessdata q s
    \<and> (\<forall>d v. pt_data y = Some d \<longrightarrow> accessdata q (t\<lparr>datas := (datas t)(d \<mapsto> v)\<rparr>) = accessdata q s)"
proof -
  have "pool_ok (empty_pool n)" using empty_pool_inv by (auto simp: pool_ok_def)
  then have ok: "pool_ok s" using pool_run_ok[OF assms(1)] by blast
  then obtain fs where inv: "pool_inv fs s" by (auto simp: pool_ok_def)
  obtain p t where c: "Packet_copy E q s = Some (p, t)" "copy_result E q s p t"
    using copy_works[OF ok assms(2)] by blast
  then obtain x y where y: "pkts s q = Some x" "pkts t = (pkts s)(p \<mapsto> y)" "copy_of E s x t y"
    and d: "\<forall>d. datas s d \<noteq> None \<longrightarrow> datas t d = datas s d" and p: "\<not> in_use s p"
    by (auto simp: copy_result_def)
  have pq: "p \<noteq> q" using p assms(2) by auto
  then have t: "pkts t q = Some x" using y by simp
  have live: "\<exists>v. datas s e = Some v \<and> datas t e = Some v" if "pt_data x = Some e" for e
    using inv_data[OF inv y(1) that] d by auto
  have other: "e \<noteq> d'" if "pt_data x = Some e" "pt_data y = Some d'" for e d'
    using y(3) that by (auto simp: copy_of_def)
  have "accessdata q t = accessdata q s"
    using y(1) t live by (cases "pt_data x") (auto simp: accessdata_def)
  moreover have "accessdata q (t\<lparr>datas := (datas t)(d' \<mapsto> v)\<rparr>) = accessdata q s"
    if "pt_data y = Some d'" for d' v
    using y(1) t live other that by (cases "pt_data x") (auto simp: accessdata_def)
  ultimately show ?thesis using c p y by blast
qed

theorem copy_is_independent_witness:
  "\<exists>p t. Packet_copy sample_pool_env 0 sample_pool = Some (p, t) \<and> \<not> in_use sample_pool p
    \<and> accessdata 0 t = accessdata 0 sample_pool"
proof -
  have "in_use sample_pool 0" using sample_pool_pkt by (auto simp: in_use_def)
  from copy_is_independent[OF sample_pool_run this] show ?thesis by blast
qed

section \<open>Packet types\<close>

lemma scan_names_hit:
  assumes "list_all (\<lambda>n. n \<noteq> None) xs" and "distinct xs" and "i < length xs" and "xs ! i = Some n"
  shows "scan_names n k xs = Some (Some (k + i))"
  using assms
proof (induction xs arbitrary: i k)
  case Nil
  then show ?case by simp
next
  case (Cons x xs)
  show ?case
  proof (cases i)
    case 0
    then show ?thesis using Cons.prems by simp
  next
    case (Suc j)
    then have "xs ! j = Some n" "j < length xs" using Cons.prems by simp_all
    then have "x \<noteq> Some n" using Cons.prems(2) by (metis distinct.simps(2) nth_mem)
    then obtain y where "x = Some y" "y \<noteq> n" using Cons.prems(1) by auto
    then show ?thesis using Suc Cons.prems Cons.IH[of j "Suc k"] by auto
  qed
qed

definition names_after_init :: "bool \<Rightarrow> string option list" where
  "names_after_init stl = (case initName stl static_p_info of None \<Rightarrow> [] | Some s \<Rightarrow> pi_name s)"

lemma init_names:
  "length (names_after_init True) = 75 \<and> list_all (\<lambda>n. n \<noteq> None) (names_after_init True)
    \<and> distinct (names_after_init True) \<and> length (names_after_init False) = 75
    \<and> map (\<lambda>n. n = None) (names_after_init False) = (replicate 75 False)[52 := True]"
  by code_simp

lemma initName_table:
  assumes "initName stl static_p_info = Some s"
  shows "pi_name s = names_after_init stl" and "pi_nPkt s = 75" and "pi_NTYPE s = 74"
proof -
  show "pi_name s = names_after_init stl" using assms by (simp add: names_after_init_def)
  show "pi_nPkt s = 75" "pi_NTYPE s = 74"
    using assms by (auto simp: initName_def static_p_info_def)
qed

text \<open>With \<open>HAVE_STL\<close>, every packet type up to \<open>PT_NTYPE\<close> has a name, from which \<open>getType\<close> finds the
  type again: no two types share a name.\<close>

theorem type_names_round_trip:
  assumes "initName True static_p_info = Some s" and "type \<le> 74"
  shows "\<exists>n. p_info_name type s = Some (Some n) \<and> getType n s = Some type"
proof -
  note tbl = initName_table[OF assms(1)]
  have i: "type < length (pi_name s)" using assms(2) init_names tbl by simp
  then obtain n where n: "pi_name s ! type = Some n"
    using init_names tbl by (auto simp: list_all_length)
  then have "p_info_name type s = Some (Some n)"
    using assms(2) i tbl by (simp add: p_info_name_def arr_get_def)
  moreover have "getType n s = Some type"
    using scan_names_hit[of "pi_name s" type n 0] init_names i n tbl by (simp add: getType_def)
  ultimately show ?thesis by blast
qed

theorem type_names_round_trip_witness:
  "\<exists>s n. initName True static_p_info = Some s \<and> p_info_name PT_AODVUU s = Some (Some n)
    \<and> getType n s = Some PT_AODVUU"
proof -
  have "initName True static_p_info \<noteq> None"
    using init_names by (auto simp: names_after_init_def split: option.splits)
  then obtain s where s: "initName True static_p_info = Some s" by blast
  from type_names_round_trip[OF this, of PT_AODVUU] s show ?thesis by auto
qed

text \<open>\<open>name\<close> tests its argument with \<open><=\<close>: for the number of types itself it reads behind the
  table, above it returns the null pointer. Without \<open>HAVE_STL\<close> the name of \<open>PT_PGM\<close> is a pointer that
  was never assigned.\<close>

theorem name_reads_behind_table:
  assumes "initName stl static_p_info = Some s"
  shows "(p_info_name type s = None \<longleftrightarrow> type = 75 \<or> type = PT_PGM \<and> \<not> stl)
    \<and> (p_info_name type s = Some None \<longleftrightarrow> 75 < type)"
proof -
  note tbl = initName_table[OF assms]
  have len: "length (pi_name s) = 75" using init_names tbl by (cases stl) simp_all
  have nth: "pi_name s ! type = None \<longleftrightarrow> type = PT_PGM \<and> \<not> stl" if "type < 75"
  proof (cases stl)
    case True
    then show ?thesis using that init_names tbl by (auto simp: list_all_length)
  next
    case False
    then have "map (\<lambda>n. n = None) (pi_name s) ! type = (replicate 75 False)[52 := True] ! type"
      using init_names tbl by simp
    then show ?thesis using that len False by (simp add: nth_list_update split: if_splits)
  qed
  consider "75 < type" | "type = 75" | "type < 75" by linarith
  then show ?thesis using len nth tbl
    by cases (auto simp: p_info_name_def arr_get_def split: option.splits)
qed

theorem name_reads_behind_table_witness:
  "\<exists>s. initName True static_p_info = Some s \<and> p_info_name 75 s = None \<and> p_info_name 76 s = Some None"
proof -
  have "initName True static_p_info \<noteq> None"
    using init_names by (auto simp: names_after_init_def split: option.splits)
  then obtain s where s: "initName True static_p_info = Some s" by blast
  from name_reads_behind_table[OF this, of 75] name_reads_behind_table[OF s, of 76] s
  show ?thesis by auto
qed

section \<open>Classifiers\<close>

text \<open>The objects of dynamic libraries, asked as a \<open>handler_chain\<close>.\<close>

definition ask_class :: "(nat \<Rightarrow> nat \<Rightarrow> packetClass) \<Rightarrow> nat \<Rightarrow> nat \<Rightarrow> packetClass \<times> nat" where
  "ask_class cls pc type = (cls pc type, type)"

interpretation classifiers: handler_chain nxt "ask_class cls" "\<lambda>c. c \<noteq> UNCLASSIFIED"
  "\<lambda>pc type. map_option (\<lambda>c. (c, type)) (PacketClassifier_classify cls nxt pc type)" for nxt cls
proof
  fix n type
  show "map_option (\<lambda>c. (c, type)) (PacketClassifier_classify cls nxt n type)
    = (case ask_class cls n type of (r, t) \<Rightarrow> if r \<noteq> UNCLASSIFIED then Some (r, t)
       else (case nxt n of None \<Rightarrow> Some (r, t)
         | Some m \<Rightarrow> map_option (\<lambda>c. (c, t)) (PacketClassifier_classify cls nxt m t)))"
    by (subst PacketClassifier_classify.simps) (auto simp: ask_class_def Let_def split: option.split)
qed

primrec first_class :: "packetClass list \<Rightarrow> packetClass" where
  "first_class [] = UNCLASSIFIED"
| "first_class (c # cs) = (if c \<noteq> UNCLASSIFIED then c else first_class cs)"

lemma first_class_answer:
  "xs \<noteq> [] \<Longrightarrow> first_answer (ask_class cls) (\<lambda>c. c \<noteq> UNCLASSIFIED) xs type
    = Some (first_class (map (\<lambda>pc. cls pc type) xs), type)"
  by (induction xs rule: induct_list012) (auto simp: ask_class_def)

text \<open>\<open>addPacketClassifier\<close> for one object after the other.\<close>

definition register :: "nat list \<Rightarrow> p_info \<Rightarrow> p_info" where
  "register ps s = foldl (\<lambda>s p. addPacketClassifier (Some p) s) s ps"

lemma register_chain:
  "distinct (rev ps @ xs) \<Longrightarrow> chain_of (pi_pc s) xs \<Longrightarrow> chain_of (pi_pc (register ps s)) (rev ps @ xs)"
proof (induction ps arbitrary: s xs)
  case Nil
  then show ?case by (simp add: register_def)
next
  case (Cons p ps)
  have "chain_of (pi_pc (addPacketClassifier (Some p) s)) (p # xs)"
    using Cons.prems by (simp add: addPacketClassifier_def chain_of_push)
  from Cons.IH[OF _ this] Cons.prems show ?case by (simp add: register_def)
qed

text \<open>With distinct classifier objects registered, \<open>classify\<close> ends; a type that is neither a
  routing nor a data type has the class that the object registered last gives it, if it does, or else the one
  before, and so on.\<close>

theorem classify_asks_latest_first:
  assumes "distinct ps"
  shows "\<exists>c. p_info_classify cls type (register ps static_p_info) = Some c
    \<and> (p_info_classify cls type static_p_info = Some UNCLASSIFIED
        \<longrightarrow> c = first_class (map (\<lambda>p. cls p type) (rev ps)))
    \<and> (p_info_classify cls type static_p_info \<noteq> Some UNCLASSIFIED
        \<longrightarrow> p_info_classify cls type static_p_info = Some c)"
proof -
  let ?s = "register ps static_p_info"
  have ch: "chain_of (pi_pc ?s) (rev ps)"
    using register_chain[of ps "[]" static_p_info] assms by (simp add: chain_of_def static_p_info_def)
  have "case ch_head (pi_pc ?s) of None \<Rightarrow> rev ps = []
    | Some pc \<Rightarrow> PacketClassifier_classify cls (ch_next (pi_pc ?s)) pc type
        = Some (first_class (map (\<lambda>p. cls p type) (rev ps)))"
  proof (cases "rev ps")
    case Nil
    then show ?thesis using ch by (simp add: chain_of_def)
  next
    case (Cons q qs)
    then have l: "linked (ch_next (pi_pc ?s)) (Some q) (rev ps)" "ch_head (pi_pc ?s) = Some q"
      using ch by (auto simp: chain_of_def)
    have "map_option (\<lambda>c. (c, type)) (PacketClassifier_classify cls (ch_next (pi_pc ?s)) q type)
      = Some (first_class (map (\<lambda>p. cls p type) (rev ps)), type)"
      using classifiers.run_linked[OF l(1), where cls = cls and s = type] first_class_answer[of "rev ps" cls type] Cons
      by simp
    then show ?thesis using l(2) by auto
  qed
  moreover have "ch_head (pi_pc static_p_info) = None" by (simp add: static_p_info_def)
  ultimately show ?thesis
    by (auto simp: p_info_classify_def split: option.splits)
qed

theorem classify_asks_latest_first_witness:
  "\<exists>c. p_info_classify (\<lambda>p t. if t = PT_AODVUU \<and> p = 1 then ROUTING else UNCLASSIFIED) PT_AODVUU
      (register [1, 2] static_p_info) = Some c"
  using classify_asks_latest_first[of "[1, 2]"] by fastforce

text \<open>
  An object registered twice in a row is its own successor: \<open>classify\<close> does not end on a type that
  it does not know.
\<close>

lemma classify_own_successor:
  assumes "PacketClassifier_classify cls nxt p type = Some c" and "nxt p = Some p"
  shows "cls p type \<noteq> UNCLASSIFIED"
proof -
  have "nxt p = Some p \<longrightarrow> cls p type \<noteq> UNCLASSIFIED"
    by (rule PacketClassifier_classify.raw_induct[OF _ assms(1),
          where P = "\<lambda>cls nxt p type _. nxt p = Some p \<longrightarrow> cls p type \<noteq> UNCLASSIFIED"])
      (auto simp: Let_def split: if_splits option.splits)
  then show ?thesis using assms(2) by blast
qed

lemma classify_registered_twice:
  assumes "cls p PT_AODVUU = UNCLASSIFIED"
  shows "p_info_classify cls PT_AODVUU (register [p, p] static_p_info) = None"
proof -
  let ?c = "pi_pc (register [p, p] static_p_info)"
  have "ch_head ?c = Some p" "ch_next ?c p = Some p"
    by (simp_all add: register_def addPacketClassifier_def push_handler_def)
  then show ?thesis using classify_own_successor[of cls "ch_next ?c" p PT_AODVUU] assms
    by (cases "PacketClassifier_classify cls (ch_next ?c) p PT_AODVUU") (auto simp: p_info_classify_def)
qed

end
