(* ===== verification/Printf.thy ===== *)
theory Printf
  imports Aodv_Prelude
begin

text \<open>
  \<open>sprintf\<close> of the C library, for the conversions that the traces and the scenario generator use:
  flag \<open>0\<close>, a width, a precision, and \<open>d\<close>, \<open>u\<close>, \<open>x\<close>, \<open>c\<close>, \<open>s\<close>, \<open>f\<close>. A format string is the one of the source. The text
  of a \<open>double\<close> with a given number of decimals is a parameter. \<open>fields\<close> takes a line apart again, along
  the same format: a format in which each conversion is followed by a character that its
  text cannot contain loses nothing.
\<close>

section \<open>Numbers\<close>

definition digit :: "nat \<Rightarrow> char" where
  "digit d = (if d < 10 then char_of (48 + d) else char_of (87 + d))"

fun num :: "nat \<Rightarrow> nat \<Rightarrow> string" where
  "num b n = (if b < 2 \<or> n < b then [digit n] else num b (n div b) @ [digit (n mod b)])"

declare num.simps [simp del]

definition fmt_d :: "int \<Rightarrow> string" where
  "fmt_d i = (if i < 0 then CHR ''-'' # num 10 (nat (- i)) else num 10 (nat i))"

section \<open>Format strings\<close>

datatype arg = ArgI int | ArgC char | ArgS string | ArgF double

definition is_digit :: "char \<Rightarrow> bool" where
  "is_digit c \<longleftrightarrow> (let n = of_char c :: nat in 48 \<le> n \<and> n \<le> 57)"

definition digit_val :: "char \<Rightarrow> nat" where
  "digit_val c = of_char c - 48"

definition num_val :: "string \<Rightarrow> nat" where
  "num_val s = foldl (\<lambda>n c. 10 * n + digit_val c) 0 s"

text \<open>
  What follows a \<open>%\<close>: the flag, the width, the precision and the conversion, and the format
  behind it. The length modifier \<open>l\<close> changes nothing in \<open>%lf\<close>.
\<close>

record spec =
  sp_zero :: bool
  sp_width :: nat
  sp_prec :: "nat option"
  sp_conv :: char

definition get_spec :: "string \<Rightarrow> (spec \<times> string) option" where
  "get_spec f =
     (let z = (case f of [] \<Rightarrow> False | c # _ \<Rightarrow> c = CHR ''0'');
        f = (if z then tl f else f);
        w = num_val (takeWhile is_digit f);
        f = dropWhile is_digit f;
        dot = (case f of [] \<Rightarrow> False | c # _ \<Rightarrow> c = CHR ''.'');
        p = (if dot then Some (num_val (takeWhile is_digit (tl f))) else None);
        f = (if dot then dropWhile is_digit (tl f) else f);
        f = (if f \<noteq> [] \<and> hd f = CHR ''l'' then tl f else f)
      in case f of [] \<Rightarrow> None
         | k # f \<Rightarrow> Some (\<lparr>sp_zero = z, sp_width = w, sp_prec = p, sp_conv = k\<rparr>, f))"

definition pad :: "spec \<Rightarrow> string \<Rightarrow> string" where
  "pad sp s = replicate (sp_width sp - length s) (if sp_zero sp then CHR ''0'' else CHR '' '') @ s"

text \<open>An integer argument is the value after C's promotions; \<open>u\<close> and \<open>x\<close> take it as unsigned.\<close>

definition convert :: "(nat \<Rightarrow> double \<Rightarrow> string) \<Rightarrow> spec \<Rightarrow> arg \<Rightarrow> string option" where
  "convert F sp a = map_option (pad sp) (case a of
     ArgI i \<Rightarrow> if sp_conv sp = CHR ''d'' then Some (fmt_d i)
       else if sp_conv sp = CHR ''u'' then Some (num 10 (nat (i mod 2 ^ 32)))
       else if sp_conv sp = CHR ''x'' then Some (num 16 (nat (i mod 2 ^ 32)))
       else None
   | ArgC c \<Rightarrow> if sp_conv sp = CHR ''c'' then Some [c] else None
   | ArgS s \<Rightarrow> if sp_conv sp = CHR ''s'' then Some s else None
   | ArgF d \<Rightarrow> if sp_conv sp = CHR ''f''
       then Some (F (case sp_prec sp of None \<Rightarrow> 6 | Some p \<Rightarrow> p) d) else None)"

lemma length_dropWhile: "length (dropWhile P xs) \<le> length xs"
  by (induction xs) auto

lemma get_spec_shorter:
  assumes "get_spec f = Some (sp, g)"
  shows "length g < length f"
proof -
  define f1 where "f1 = (if (case f of [] \<Rightarrow> False | c # _ \<Rightarrow> c = CHR ''0'') then tl f else f)"
  define f2 where "f2 = dropWhile is_digit f1"
  define f3 where "f3 = (if (case f2 of [] \<Rightarrow> False | c # _ \<Rightarrow> c = CHR ''.'')
    then dropWhile is_digit (tl f2) else f2)"
  define f4 where "f4 = (if f3 \<noteq> [] \<and> hd f3 = CHR ''l'' then tl f3 else f3)"
  have "length f1 \<le> length f" by (simp add: f1_def)
  moreover have "length f2 \<le> length f1" by (simp add: f2_def length_dropWhile)
  moreover have "length f3 \<le> length f2"
    using length_dropWhile[of is_digit "tl f2"] by (cases f2) (auto simp: f3_def)
  moreover have "length f4 \<le> length f3" by (simp add: f4_def)
  moreover have "\<exists>k. f4 = k # g"
  proof -
    have "get_spec f = (case f4 of [] \<Rightarrow> None | k # h \<Rightarrow> Some
        (\<lparr>sp_zero = (case f of [] \<Rightarrow> False | c # _ \<Rightarrow> c = CHR ''0''),
          sp_width = num_val (takeWhile is_digit f1),
          sp_prec = (if (case f2 of [] \<Rightarrow> False | c # _ \<Rightarrow> c = CHR ''.'')
            then Some (num_val (takeWhile is_digit (tl f2))) else None), sp_conv = k\<rparr>, h))"
      unfolding get_spec_def Let_def f4_def f3_def f2_def f1_def by (rule refl)
    then show ?thesis using assms by (auto split: list.splits)
  qed
  ultimately show ?thesis by auto
qed

text \<open>Too few arguments, or one that does not fit its conversion, is undefined behaviour.\<close>

function sprintf :: "(nat \<Rightarrow> double \<Rightarrow> string) \<Rightarrow> string \<Rightarrow> arg list \<Rightarrow> string option" where
  "sprintf F [] args = Some []"
| "sprintf F (c # f) args =
     (if c = CHR ''%'' then (case get_spec f of
          None \<Rightarrow> None
        | Some (sp, g) \<Rightarrow> (case args of
            [] \<Rightarrow> None
          | a # args \<Rightarrow> do {
              s \<leftarrow> convert F sp a;
              t \<leftarrow> sprintf F g args;
              Some (s @ t)
            }))
      else map_option ((#) c) (sprintf F f args))"
  by pat_completeness auto
termination
  by (relation "measure (\<lambda>(F, f, args). length f)") (auto dest: get_spec_shorter)

section \<open>Taking a line apart\<close>

text \<open>
  The texts of the conversions in a line: each ends before the first occurrence of the character that
  follows its conversion in the format, or at the end of the line.
\<close>

function fields :: "string \<Rightarrow> string \<Rightarrow> string list option" where
  "fields [] s = (if s = [] then Some [] else None)"
| "fields (c # f) s =
     (if c = CHR ''%'' then (case get_spec f of
          None \<Rightarrow> None
        | Some (sp, g) \<Rightarrow> (case g of
            [] \<Rightarrow> Some [s]
          | e # _ \<Rightarrow> map_option ((#) (takeWhile (\<lambda>x. x \<noteq> e) s))
              (fields g (dropWhile (\<lambda>x. x \<noteq> e) s))))
      else (case s of [] \<Rightarrow> None | x # s \<Rightarrow> if x = c then fields f s else None))"
  by pat_completeness auto
termination
  by (relation "measure (\<lambda>(f, s). length f)") (auto dest: get_spec_shorter)

text \<open>
  The texts that \<open>sprintf\<close> writes, and that each of them does not contain the character behind it.
\<close>

function texts :: "(nat \<Rightarrow> double \<Rightarrow> string) \<Rightarrow> string \<Rightarrow> arg list \<Rightarrow> string list option" where
  "texts F [] args = Some []"
| "texts F (c # f) args =
     (if c = CHR ''%'' then (case get_spec f of
          None \<Rightarrow> None
        | Some (sp, g) \<Rightarrow> (case args of
            [] \<Rightarrow> None
          | a # args \<Rightarrow> do {
              s \<leftarrow> convert F sp a;
              if g \<noteq> [] \<and> hd g \<in> set s then None else do {
                ts \<leftarrow> texts F g args;
                Some (s # ts)
              }
            }))
      else texts F f args)"
  by pat_completeness auto
termination
  by (relation "measure (\<lambda>(F, f, args). length f)") (auto dest: get_spec_shorter)

lemma takeWhile_until: "e \<notin> set s \<Longrightarrow> takeWhile (\<lambda>x. x \<noteq> e) (s @ e # t) = s"
  by (induction s) auto

lemma dropWhile_until: "e \<notin> set s \<Longrightarrow> dropWhile (\<lambda>x. x \<noteq> e) (s @ e # t) = e # t"
  by (induction s) auto

lemma sprintf_starts: "sprintf F (e # g) args = Some t \<Longrightarrow> e \<noteq> CHR ''%'' \<Longrightarrow> \<exists>u. t = e # u"
  by auto

text \<open>A format in which a conversion is never directly followed by another one.\<close>

function spaced :: "string \<Rightarrow> bool" where
  "spaced [] = True"
| "spaced (c # f) = (if c = CHR ''%'' then (case get_spec f of
       None \<Rightarrow> False
     | Some (sp, g) \<Rightarrow> (g = [] \<or> hd g \<noteq> CHR ''%'') \<and> spaced g)
     else spaced f)"
  by pat_completeness auto
termination
  by (relation "measure length") (auto dest: get_spec_shorter)

theorem fields_sprintf:
  assumes "spaced f" and "texts F f args = Some ts"
  shows "\<exists>s. sprintf F f args = Some s \<and> fields f s = Some ts"
  using assms
proof (induction F f args arbitrary: ts rule: sprintf.induct)
  case (1 F args)
  then show ?case by simp
next
  case (2 F c f args)
  show ?case
  proof (cases "c = CHR ''%''")
    case True
    then obtain sp g where g: "get_spec f = Some (sp, g)" using 2 by (auto split: option.splits)
    obtain a as where a: "args = a # as" using 2 True g by (cases args) auto
    obtain s us where s: "convert F sp a = Some s" "\<not> (g \<noteq> [] \<and> hd g \<in> set s)"
      "texts F g as = Some us" "ts = s # us" using 2(4) True g a by (auto split: if_splits)
    have sp: "spaced g" "g = [] \<or> hd g \<noteq> CHR ''%''" using 2(3) True g by auto
    obtain t where t: "sprintf F g as = Some t" "fields g t = Some us"
      using 2(1)[OF True g refl a s(1) sp(1) s(3)] by blast
    show ?thesis
    proof (cases g)
      case Nil
      then show ?thesis using True g a s t by simp
    next
      case (Cons e h)
      then obtain u where u: "t = e # u" using sprintf_starts[of F e h as t] t(1) sp(2) by auto
      have e: "e \<notin> set s" using s(2) Cons by simp
      have "fields (c # f) (s @ t) = map_option ((#) s) (fields g t)"
        unfolding u using True g Cons
        by (subst fields.simps) (simp add: takeWhile_until[OF e] dropWhile_until[OF e] del: fields.simps)
      moreover have "sprintf F (c # f) args = Some (s @ t)"
        using True g a s(1) t(1) by (subst sprintf.simps) (simp del: sprintf.simps)
      ultimately show ?thesis using t(2) s(4) by (intro exI[of _ "s @ t"]) simp
    qed
  next
    case False
    then show ?thesis using 2 by auto
  qed
qed

section \<open>What numbers look like\<close>

definition number_chars :: "char set" where
  "number_chars = set ''-0123456789abcdef''"

lemma digit_chars: "d < 16 \<Longrightarrow> digit d \<in> number_chars"
proof -
  assume "d < 16"
  then have "d \<in> set [0..<16]" by simp
  moreover have "list_all (\<lambda>d. digit d \<in> number_chars) [0..<16]"
    unfolding number_chars_def by code_simp
  ultimately show ?thesis by (auto simp: list_all_iff)
qed

lemma num_chars: "2 \<le> b \<Longrightarrow> b \<le> 16 \<Longrightarrow> set (num b n) \<subseteq> number_chars"
proof (induction b n rule: num.induct)
  case (1 b n)
  have "n mod b < 16" using 1(2,3) less_le_trans[of "n mod b" b 16] by simp
  then show ?case using 1 by (subst num.simps) (auto intro: digit_chars)
qed

lemma fmt_d_chars: "set (fmt_d i) \<subseteq> number_chars"
proof -
  have "CHR ''-'' \<in> number_chars" by (simp add: number_chars_def)
  then show ?thesis using num_chars[of 10] by (auto simp: fmt_d_def)
qed

lemma digit_inj:
  assumes "c < 16" and "d < 16" and "digit c = digit d"
  shows "c = d"
proof -
  have "distinct (map digit [0..<16])" by code_simp
  then have "inj_on digit {0..<16}" by (simp add: distinct_map)
  then show ?thesis using assms by (auto dest: inj_onD)
qed

lemma num_not_Nil [simp]: "num b n \<noteq> []" "[] \<noteq> num b n"
  by (subst num.simps, simp)+

lemma num_inj:
  assumes b: "2 \<le> b" "b \<le> 16"
  shows "num b m = num b n \<Longrightarrow> m = n"
proof (induction m arbitrary: n rule: less_induct)
  case (less m)
  have one: "num b k = [digit k]" if "k < b" for k using that by (subst num.simps) simp
  have more: "num b k = num b (k div b) @ [digit (k mod b)]" if "\<not> k < b" for k
    using that b by (subst num.simps) simp
  have dig: "digit j = digit k \<Longrightarrow> j < b \<Longrightarrow> k < b \<Longrightarrow> j = k" for j k
    using digit_inj b by (meson order_less_le_trans)
  have mod: "k mod b < b" for k using b by simp
  consider "m < b" "n < b" | "m < b" "\<not> n < b" | "\<not> m < b" "n < b" | "\<not> m < b" "\<not> n < b"
    by blast
  then show ?case
  proof cases
    case 1
    then show ?thesis using less.prems dig by (simp add: one)
  next
    case 2
    then show ?thesis using less.prems by (simp add: one more)
  next
    case 3
    then show ?thesis using less.prems by (simp add: one more)
  next
    case 4
    then have eq: "num b (m div b) = num b (n div b)" "digit (m mod b) = digit (n mod b)"
      using less.prems by (simp_all add: more)
    have "m div b < m" using 4 b by (intro div_less_dividend) auto
    then have "m div b = n div b" using less.IH eq(1) by blast
    moreover have "m mod b = n mod b" using dig[OF eq(2)] mod by blast
    ultimately show ?thesis by (metis mult_div_mod_eq)
  qed
qed

lemma minus_not_digit: "CHR ''-'' \<notin> set (num 10 n)"
proof (induction "10 :: nat" n rule: num.induct)
  case (1 n)
  have "list_all (\<lambda>d. digit d \<noteq> CHR ''-'') [0..<10]" by code_simp
  then have "CHR ''-'' \<noteq> digit d" if "d < 10" for d using that by (auto simp: list_all_iff)
  then show ?case using 1 by (subst num.simps) auto
qed

lemma fmt_d_inj: "fmt_d i = fmt_d j \<Longrightarrow> i = j"
  using minus_not_digit num_inj[of 10 "nat i" "nat j"] num_inj[of 10 "nat (- i)" "nat (- j)"]
  by (auto simp: fmt_d_def split: if_splits) (metis list.set_intros(1))+

end
