(* ===== verification/Trace_Defs.thy ===== *)
theory Trace_Defs
  imports Mac_Defs Printf
begin

text \<open>
  The tracer of the simulator, \<open>trace/cmu-trace.cc\<close>: what it reads and what it keeps. Each member of the
  record \<open>trace_packet\<close> behind those of the MAC is the header of another protocol, with the values
  that \<open>printf\<close> gets after C's promotions; the structs themselves, the constants of their types, the nodes, and the base
  class \<open>Trace\<close> are outside the repository.
\<close>

section \<open>Headers\<close>

record hdr_arp =
  arp_op :: int
  arp_sha :: int
  arp_spa :: int
  arp_tha :: int
  arp_tpa :: int

record hdr_smac =
  sh_type :: int
  sh_duration :: double
  sh_dstAddr :: int
  sh_srcAddr :: int

text \<open>A reported link has a \<open>tell_addr\<close>, a \<open>from_addr\<close> and a \<open>to_addr\<close>.\<close>

record hdr_sr =
  sr_num_addrs :: int
  sr_route_request :: int
  sr_rtreq_seq :: int
  sr_route_reply :: int
  sr_route_reply_len :: int
  sr_reply_addrs :: "int list"
  sr_route_error :: int
  sr_num_route_errors :: int
  sr_down_links :: "(int \<times> int \<times> int) list"

record hdr_tcp =
  tcp_seqno :: int
  tcp_ackno :: int

record sctp_chunk =
  sc_eType :: int
  sc_uiTsn :: int
  sc_usStreamId :: int
  sc_usStreamSeqNum :: int

record hdr_imep =
  im_block_flags :: int
  im_length :: int

record hdr_tora =
  th_type :: int
  tq_type :: int
  tq_dst :: int
  tu_type :: int
  tu_dst :: int
  tu_tau :: double
  tu_oid :: int
  tu_r :: int
  tu_delta :: int
  tu_id :: int
  tc_type :: int
  tc_dst :: int
  tc_tau :: double
  tc_oid :: int

text \<open>AODV of ns-2 and AOMDV have headers with the same members, but for two of the AOMDV reply.\<close>

record hdr_aodv =
  ah_type :: int
  na_rq_type :: int
  na_rq_hop_count :: int
  na_rq_bcast_id :: int
  na_rq_dst :: int
  na_rq_dst_seqno :: int
  na_rq_src :: int
  na_rq_src_seqno :: int
  na_rp_type :: int
  na_rp_hop_count :: int
  na_rp_dst :: int
  na_rp_dst_seqno :: int
  na_rp_lifetime :: double

record hdr_aomdv = hdr_aodv +
  na_rp_bcast_id :: int
  na_rp_first_hop :: int

text \<open>The messages of M-DART have the same members; the bits of an address are a string.\<close>

record mdart_msg =
  md_type :: int
  md_dstAdd :: int
  md_srcAdd :: int
  md_dstId :: int
  md_srcId :: int
  md_forAdd :: int
  md_forId :: int
  md_reqAdd :: int
  md_reqId :: int
  md_seqNum :: int

record hdr_mdart =
  mdart_type :: int
  mdart_hello :: mdart_msg
  mdart_darq :: mdart_msg
  mdart_darp :: mdart_msg
  mdart_daup :: mdart_msg

record trace_packet = mac_packet +
  tp_opt_num_forwards :: int
  tp_flowid :: int
  tp_arp :: hdr_arp
  tp_smac :: hdr_smac
  tp_sr :: hdr_sr
  tp_tcp :: hdr_tcp
  tp_sctp :: "sctp_chunk list"
  tp_rtp_seqno :: int
  tp_imep :: hdr_imep
  tp_tora :: hdr_tora
  tp_hdr_aodv :: hdr_aodv
  tp_aomdv :: hdr_aomdv
  tp_mdart :: hdr_mdart
  tp_diff_mess_type :: int
  tp_lrwpan_attribute :: int

section \<open>Nodes\<close>

record energy_model =
  em_energy :: double
  em_initialenergy :: double
  em_level1 :: double
  em_level2 :: double
  em_ei :: double
  em_es :: double
  em_et :: double
  em_er :: double
  em_powersavingflag :: bool

record trace_node =
  tn_nodeid :: int
  tn_loc :: "double \<times> double \<times> double"
  tn_energy_model :: "energy_model option"

section \<open>The tracer\<close>

datatype TraceType = TR_ROUTER | TR_PHY | TR_MAC | TR_IFQ | TR_AGENT

text \<open>What the tracer does to its surroundings, newest event first.\<close>

datatype trace_event =
    Dump string                \<comment> \<open>\<open>pt_->dump()\<close>\<close>
  | Namdump string             \<comment> \<open>\<open>pt_->namdump()\<close>\<close>
  | Set_inroute int            \<comment> \<open>\<open>set_node_state(EnergyModel::INROUTE)\<close>\<close>
  | Trace_sent trace_packet    \<comment> \<open>\<open>send(p, h)\<close>\<close>
  | Trace_freed trace_packet   \<comment> \<open>\<open>Packet::free(p)\<close>\<close>

text \<open>
  The members of class \<open>CMUTrace\<close> with those of its base class that it uses; \<open>ct_pktTrc\<close> and the last three
  members before the output are static in the source.
\<close>

record cmu_trace =
  ct_tracename :: string
  ct_tracetype :: TraceType
  ct_type :: char
  ct_src :: int
  ct_target :: bool
  ct_initialized :: bool
  ct_newtrace :: int
  ct_nodeColor :: "int list"
  ct_node :: "trace_node option"
  ct_buffer :: string
  ct_nbuffer :: string
  ct_tagged :: bool
  ct_namchannel :: bool
  ct_pktTrc :: chain
  ct_bradius :: double
  ct_radius_scaling :: double
  ct_duration_scaling :: double
  ct_out :: "trace_event list"

section \<open>Code outside the repository\<close>

text \<open>The constants of other protocols; their values are a parameter.\<close>

datatype foreign =
    MAC_Subtype_Beacon | MAC_Subtype_Command_AssoReq | MAC_Subtype_Command_AssoRsp
  | MAC_Subtype_Command_DAssNtf | MAC_Subtype_Command_DataReq | MAC_Subtype_Command_PIDCNtf
  | MAC_Subtype_Command_OrphNtf | MAC_Subtype_Command_BconReq | MAC_Subtype_Command_CoorRea
  | MAC_Subtype_Command_GTSReq
  | RTS_PKT | CTS_PKT | ACK_PKT | SYNC_PKT
  | ARPOP_REQUEST
  | SCTP_CHUNK_INIT | SCTP_CHUNK_INIT_ACK | SCTP_CHUNK_COOKIE_ECHO | SCTP_CHUNK_COOKIE_ACK
  | SCTP_CHUNK_DATA | SCTP_CHUNK_SACK | SCTP_CHUNK_FORWARD_TSN | SCTP_CHUNK_HB | SCTP_CHUNK_HB_ACK
  | BLOCK_FLAG_ACK | BLOCK_FLAG_HELLO | BLOCK_FLAG_OBJECT
  | TORATYPE_QRY | TORATYPE_UPD | TORATYPE_CLR
  | AODVTYPE_RREQ | AODVTYPE_RREP | AODVTYPE_HELLO | AODVTYPE_RERR
  | AOMDVTYPE_RREQ | AOMDVTYPE_RREP | AOMDVTYPE_HELLO | AOMDVTYPE_RERR
  | MDART_TYPE_HELLO | MDART_TYPE_DARQ | MDART_TYPE_DARP | MDART_TYPE_DAUP | MDART_TYPE_DABR
  | DIFF_DATA

text \<open>
  The characters of the trace types, lengths of buffers, the scheduler's clock and its text in \<open>TIME_FORMAT\<close>,
  the text of doubles, \<open>packet_info\<close>, nodes and addresses, the tracers of dynamic libraries, the
  attributes of the 802.15.4 animation, Tcl, \<open>pow\<close>, and the \<open>stamp\<close> of the object \<open>God\<close>.
\<close>

record trace_env =
  t_SEND :: char
  t_RECV :: char
  t_DROP :: char
  t_FWRD :: char
  t_EOT :: char
  t_const :: "foreign \<Rightarrow> int"
  t_SMALL_LEN :: nat
  t_MAX_ID_LEN :: nat
  t_MAX_NODE :: nat
  t_IP_BROADCAST :: u32
  t_mac_type :: string
  t_clock :: double
  t_TIME :: "double \<Rightarrow> string"
  t_text :: "nat \<Rightarrow> double \<Rightarrow> string"
  t_info :: p_info
  t_node_by_address :: "int \<Rightarrow> trace_node option"
  t_nodeaddr :: "int \<Rightarrow> int"
  t_bits :: "int \<Rightarrow> string"
  t_tracer :: "nat \<Rightarrow> trace_packet \<Rightarrow> nat \<Rightarrow> int \<Rightarrow> string \<Rightarrow> bool \<times> string"
  t_nam_status :: bool
  t_macSA :: "trace_packet \<Rightarrow> int"
  t_macDA :: "trace_packet \<Rightarrow> int"
  t_findAttrLink :: "nat \<Rightarrow> (int \<times> int) option \<Rightarrow> int option"
  t_lookup :: "string \<Rightarrow> trace_node option"
  t_atoi :: "string \<Rightarrow> int"
  t_tcl :: "string \<Rightarrow> double"
  t_base_command :: "string list \<Rightarrow> cmu_trace \<Rightarrow> (bool \<times> cmu_trace) option"
  t_stamp :: "trace_packet \<Rightarrow> trace_packet"
  t_pow :: "double \<Rightarrow> double \<Rightarrow> double"
  t_fp :: fp

section \<open>Buffers\<close>

text \<open>
  What a string in a buffer is after \<open>sprintf(buffer + offset, ..)\<close>: behind the end of the string
  the text is written, but does not belong to it.
\<close>

definition put_at :: "nat \<Rightarrow> string \<Rightarrow> string \<Rightarrow> string" where
  "put_at off x buf = (if off \<le> length buf then take off buf @ x else buf)"

definition prints :: "trace_env \<Rightarrow> nat \<Rightarrow> string \<Rightarrow> arg list \<Rightarrow> cmu_trace \<Rightarrow> cmu_trace option" where
  "prints T off f args s = do {
     x \<leftarrow> sprintf (t_text T) f args;
     Some (s\<lparr>ct_buffer := put_at off x (ct_buffer s)\<rparr>)
   }"

definition nprints :: "trace_env \<Rightarrow> nat \<Rightarrow> string \<Rightarrow> arg list \<Rightarrow> cmu_trace \<Rightarrow> cmu_trace option" where
  "nprints T off f args s = do {
     x \<leftarrow> sprintf (t_text T) f args;
     Some (s\<lparr>ct_nbuffer := put_at off x (ct_nbuffer s)\<rparr>)
   }"

definition namdump :: "cmu_trace \<Rightarrow> cmu_trace" where
  "namdump s = s\<lparr>ct_out := Namdump (ct_nbuffer s) # ct_out s\<rparr>"

text \<open>\<open>packet_info.name(..)\<close> where \<open>printf\<close> or \<open>strcpy\<close> reads it: the null pointer is not a string.\<close>

definition type_name :: "trace_env \<Rightarrow> nat \<Rightarrow> string option" where
  "type_name T type = (case p_info_name type (t_info T) of Some (Some n) \<Rightarrow> Some n | _ \<Rightarrow> None)"

text \<open>A chain of comparisons that yields a string.\<close>

definition pick :: "('a \<times> string) list \<Rightarrow> 'a \<Rightarrow> string" where
  "pick xs x = (case map_of xs x of Some n \<Rightarrow> n | None \<Rightarrow> ''UNKN'')"

text \<open>Integers as \<open>printf\<close> gets them.\<close>

abbreviation ArgS32 :: "u32 \<Rightarrow> arg" where "ArgS32 w \<equiv> ArgI (sint w)"
abbreviation ArgW :: "'a::len word \<Rightarrow> arg" where "ArgW w \<equiv> ArgI (uint w)"
abbreviation ArgN :: "nat \<Rightarrow> arg" where "ArgN n \<equiv> ArgI (int n)"

end
