(* ===== verification/Trace_Format.thy ===== *)
theory Trace_Format
  imports Trace_Defs
begin

text \<open>
  The lines of a trace, \<open>trace/cmu-trace.cc\<close>: the part that all packets have (\<open>format_mac_common\<close> with
  the MAC header behind it), the IP header, and the headers of the protocols other than AODV. Each
  format string is that of the source; the three styles are tagged, new and old traces.
\<close>

section \<open>MAC headers\<close>

definition format_smac :: "trace_env \<Rightarrow> trace_packet \<Rightarrow> nat \<Rightarrow> cmu_trace \<Rightarrow> cmu_trace option" where
  "format_smac T p off s = (let sh = tp_smac p in
     prints T off '' [%.2f %d %d] '' [ArgF (sh_duration sh), ArgI (sh_dstAddr sh), ArgI (sh_srcAddr sh)] s)"

definition format_phy :: "trace_env \<Rightarrow> trace_packet \<Rightarrow> nat \<Rightarrow> cmu_trace \<Rightarrow> cmu_trace option" where
  "format_phy T p off s = prints T off '' '' [] s"

definition print_ether_type :: "trace_packet \<Rightarrow> bool" where
  "print_ether_type p \<longleftrightarrow> \<not> (pk_ptype p = PT_MAC
     \<and> (fc_type (dh_fc (mp_hdr p)) = MAC_Type_Control \<or> fc_type (dh_fc (mp_hdr p)) = MAC_Type_Management))"

definition format_mac :: "trace_env \<Rightarrow> trace_packet \<Rightarrow> nat \<Rightarrow> cmu_trace \<Rightarrow> cmu_trace option" where
  "format_mac T p off s = (let mh = mp_hdr p;
     args = [ArgW (dh_duration mh), ArgW (dh_ra mh), ArgW (dh_ta mh),
       ArgI (if print_ether_type p then uint (dh_body mh) else 0)]
   in if ct_tagged s then prints T off ''-M:dur %x -M:s %x -M:d %x -M:t %x '' args s
      else if ct_newtrace s \<noteq> 0 then prints T off ''-Ma %x -Md %x -Ms %x -Mt %x '' args s
      else prints T off '' [%x %x %x %x] '' args s)"

section \<open>The common part\<close>

text \<open>The names that the old style gives to the frames of the MAC and of S-MAC.\<close>

definition control_names :: "trace_env \<Rightarrow> (int \<times> string) list" where
  "control_names T =
     [(uint MAC_Subtype_RTS, ''RTS''), (uint MAC_Subtype_CTS, ''CTS''), (uint MAC_Subtype_ACK, ''ACK''),
      (t_const T MAC_Subtype_Beacon, ''BCN''), (t_const T MAC_Subtype_Command_AssoReq, ''CM1''),
      (t_const T MAC_Subtype_Command_AssoRsp, ''CM2''), (t_const T MAC_Subtype_Command_DAssNtf, ''CM3''),
      (t_const T MAC_Subtype_Command_DataReq, ''CM4''), (t_const T MAC_Subtype_Command_PIDCNtf, ''CM5''),
      (t_const T MAC_Subtype_Command_OrphNtf, ''CM6''), (t_const T MAC_Subtype_Command_BconReq, ''CM7''),
      (t_const T MAC_Subtype_Command_CoorRea, ''CM8''), (t_const T MAC_Subtype_Command_GTSReq, ''CM9'')]"

definition management_names :: "(int \<times> string) list" where
  "management_names =
     [(uint MAC_Subtype_80211_Beacon, ''BCN''), (uint MAC_Subtype_AssocReq, ''ACRQ''),
      (uint MAC_Subtype_AssocRep, ''ACRP''), (uint MAC_Subtype_Auth, ''AUTH''),
      (uint MAC_Subtype_ProbeReq, ''PRRQ''), (uint MAC_Subtype_ProbeRep, ''PRRP'')]"

definition smac_names :: "trace_env \<Rightarrow> (int \<times> string) list" where
  "smac_names T = [(t_const T RTS_PKT, ''RTS''), (t_const T CTS_PKT, ''CTS''),
     (t_const T ACK_PKT, ''ACK''), (t_const T SYNC_PKT, ''SYNC'')]"

text \<open>
  \<open>mh\<close> is not initialised if the MAC is S-MAC, nor \<open>sh\<close> if it is not.
\<close>

definition packet_name :: "trace_env \<Rightarrow> bool \<Rightarrow> trace_packet \<Rightarrow> string option" where
  "packet_name T smac p = (let fc = dh_fc (mp_hdr p) in
     if pk_ptype p = PT_MAC then
       (if smac then None
        else Some (if fc_type fc = MAC_Type_Control then pick (control_names T) (uint (fc_subtype fc))
          else if fc_type fc = MAC_Type_Management then pick management_names (uint (fc_subtype fc))
          else ''UNKN''))
     else if pk_ptype p = PT_SMAC then
       (if smac then Some (pick (smac_names T) (sh_type (tp_smac p))) else None)
     else type_name T (pk_ptype p))"

definition node_energy_model :: "trace_env \<Rightarrow> cmu_trace \<Rightarrow> energy_model option" where
  "node_energy_model T s = (case t_node_by_address T (ct_src s) of
     None \<Rightarrow> None | Some n \<Rightarrow> tn_energy_model n)"

text \<open>The double \<open>-1\<close>.\<close>

definition d_minus_one :: double where "d_minus_one = 0xBFF0000000000000"

definition forwarded_op :: "trace_env \<Rightarrow> trace_packet \<Rightarrow> cmu_trace \<Rightarrow> char" where
  "forwarded_op T p s =
     (if ct_tracetype s = TR_ROUTER \<and> ct_type s = t_SEND T
        \<and> ct_src s \<noteq> t_nodeaddr T (sint (pk_saddr p)) then t_FWRD T else ct_type s)"

definition format_any_mac :: "trace_env \<Rightarrow> bool \<Rightarrow> trace_packet \<Rightarrow> cmu_trace \<Rightarrow> cmu_trace option" where
  "format_any_mac T smac p s = (let off = length (ct_buffer s) in
     if smac then format_smac T p off s else format_mac T p off s)"

definition format_common_tagged ::
  "trace_env \<Rightarrow> bool \<Rightarrow> trace_packet \<Rightarrow> nat \<Rightarrow> double \<Rightarrow> cmu_trace \<Rightarrow> cmu_trace option"
where
  "format_common_tagged T smac p off energy s = do {
     let op = forwarded_op T p s;
     let next_hop = (case t_node_by_address T (sint (pk_next_hop p)) of
         None \<Rightarrow> -1 | Some n \<Rightarrow> tn_nodeid n);
     n \<leftarrow> ct_node s;
     let (x, y, z) = tn_loc n;
     let op = (if op = t_DROP T then CHR ''d'' else op);
     let op = (if op = t_SEND T then CHR ''+'' else op);
     let op = (if op = t_FWRD T then CHR ''h'' else op);
     name \<leftarrow> type_name T (pk_ptype p);
     s \<leftarrow> prints T off
       ''%c %s -s %d -d %d -p %s -k %3s -i %d -N:loc {%.2f %.2f %.2f} -N:en %f ''
       [ArgC op, ArgS (t_TIME T (t_clock T)), ArgI (ct_src s), ArgI next_hop, ArgS name,
        ArgS (ct_tracename s), ArgI (mp_uid p), ArgF x, ArgF y, ArgF z, ArgF energy] s;
     format_any_mac T smac p s
   }"

definition format_common_new ::
  "trace_env \<Rightarrow> bool \<Rightarrow> trace_packet \<Rightarrow> string \<Rightarrow> nat \<Rightarrow> double \<Rightarrow> cmu_trace \<Rightarrow> cmu_trace option"
where
  "format_common_new T smac p why off energy s = do {
     let op = forwarded_op T p s;
     n \<leftarrow> ct_node s;
     let (x, y, z) = tn_loc n;
     let op = (if op = t_DROP T then CHR ''d'' else op);
     s \<leftarrow> prints T off
       ''%c -t %.9f -Hs %d -Hd %d -Ni %d -Nx %.2f -Ny %.2f -Nz %.2f -Ne %f -Nl %3s -Nw %s ''
       [ArgC op, ArgF (t_clock T), ArgI (ct_src s), ArgS32 (pk_next_hop p), ArgI (ct_src s),
        ArgF x, ArgF y, ArgF z, ArgF energy, ArgS (ct_tracename s), ArgS why] s;
     format_any_mac T smac p s
   }"

text \<open>The energy at the end of a line, for nodes with an energy model.\<close>

definition print_energy :: "trace_env \<Rightarrow> cmu_trace \<Rightarrow> cmu_trace option" where
  "print_energy T s = (case node_energy_model T s of
     None \<Rightarrow> Some s
   | Some em \<Rightarrow> prints T (length (ct_buffer s)) ''[energy %f ei %.3f es %.3f et %.3f er %.3f] ''
       [ArgF (em_energy em), ArgF (em_ei em), ArgF (em_es em), ArgF (em_et em), ArgF (em_er em)] s)"

definition format_common_old ::
  "trace_env \<Rightarrow> bool \<Rightarrow> trace_packet \<Rightarrow> string \<Rightarrow> nat \<Rightarrow> cmu_trace \<Rightarrow> cmu_trace option"
where
  "format_common_old T smac p why off s = do {
     name \<leftarrow> packet_name T smac p;
     s \<leftarrow> prints T off ''%c %.9f _%d_ %3s %4s %d %s %d''
       [ArgC (forwarded_op T p s), ArgF (t_clock T), ArgI (ct_src s), ArgS (ct_tracename s),
        ArgS why, ArgI (mp_uid p), ArgS name, ArgI (pk_size p)] s;
     if ct_tracetype s = TR_PHY then format_phy T p (length (ct_buffer s)) s
     else do {
       s \<leftarrow> format_any_mac T (take 8 (t_mac_type T) = ''Mac/SMAC'') p s;
       print_energy T s
     }
   }"

definition format_mac_common ::
  "trace_env \<Rightarrow> trace_packet \<Rightarrow> string \<Rightarrow> nat \<Rightarrow> cmu_trace \<Rightarrow> cmu_trace option"
where
  "format_mac_common T p why off s =
     (if t_SMALL_LEN T \<le> length (t_mac_type T) then None
      else let
        smac = (t_mac_type T = ''Mac/SMAC'');
        energy = (case node_energy_model T s of None \<Rightarrow> d_minus_one | Some em \<Rightarrow> em_energy em)
      in if ct_tagged s then format_common_tagged T smac p off energy s
         else if ct_newtrace s \<noteq> 0 then format_common_new T smac p why off energy s
         else format_common_old T smac p why off s)"

section \<open>Network and transport\<close>

definition format_ip :: "trace_env \<Rightarrow> trace_packet \<Rightarrow> nat \<Rightarrow> cmu_trace \<Rightarrow> cmu_trace option" where
  "format_ip T p off s = do {
     let src = t_nodeaddr T (sint (pk_saddr p));
     let dst = t_nodeaddr T (sint (pk_daddr p));
     if ct_tagged s then do {
       name \<leftarrow> type_name T (pk_ptype p);
       prints T off
         ''-IP:s %d -IP:sp %d -IP:d %d -IP:dp %d -p %s -e %d -c %d -i %d -IP:ttl %d ''
         [ArgI src, ArgI (pk_sport p), ArgI dst, ArgI (pk_dport p), ArgS name, ArgI (pk_size p),
          ArgI (tp_flowid p), ArgI (mp_uid p), ArgI (pk_ttl p)] s
     } else if ct_newtrace s \<noteq> 0 then do {
       name \<leftarrow> type_name T (pk_ptype p);
       prints T off ''-Is %d.%d -Id %d.%d -It %s -Il %d -If %d -Ii %d -Iv %d ''
         [ArgI src, ArgI (pk_sport p), ArgI dst, ArgI (pk_dport p), ArgS name, ArgI (pk_size p),
          ArgI (tp_flowid p), ArgI (mp_uid p), ArgI (pk_ttl p)] s
     } else prints T off ''------- [%d:%d %d:%d %d %d] ''
         [ArgI src, ArgI (pk_sport p), ArgI dst, ArgI (pk_dport p), ArgI (pk_ttl p),
          ArgI (if sint (pk_next_hop p) < 0 then 0 else sint (pk_next_hop p))] s
   }"

definition format_arp :: "trace_env \<Rightarrow> trace_packet \<Rightarrow> nat \<Rightarrow> cmu_trace \<Rightarrow> cmu_trace option" where
  "format_arp T p off s = (let ah = tp_arp p;
     args = [ArgS (if arp_op ah = t_const T ARPOP_REQUEST then ''REQUEST'' else ''REPLY''),
       ArgI (arp_sha ah), ArgI (arp_spa ah), ArgI (arp_tha ah), ArgI (arp_tpa ah)]
   in if ct_tagged s
      then prints T off ''-arp:op %s -arp:ms %d -arp:s %d -arp:md %d -arp:d %d '' args s
      else if ct_newtrace s \<noteq> 0
      then prints T off ''-P arp -Po %s -Pms %d -Ps %d -Pmd %d -Pd %d '' args s
      else prints T off ''------- [%s %d/%d %d/%d]'' args s)"

definition format_msg :: "trace_packet \<Rightarrow> nat \<Rightarrow> cmu_trace \<Rightarrow> cmu_trace option" where
  "format_msg p off s = Some s"

definition format_tcp :: "trace_env \<Rightarrow> trace_packet \<Rightarrow> nat \<Rightarrow> cmu_trace \<Rightarrow> cmu_trace option" where
  "format_tcp T p off s = (let th = tp_tcp p;
     args = [ArgI (tcp_seqno th), ArgI (tcp_ackno th), ArgI (pk_num_forwards p),
       ArgI (tp_opt_num_forwards p)]
   in if ct_tagged s then prints T off ''-tcp:s %d -tcp:a %d -tcp:f %d -tcp:o %d '' args s
      else if ct_newtrace s \<noteq> 0 then prints T off ''-Pn tcp -Ps %d -Pa %d -Pf %d -Po %d '' args s
      else prints T off ''[%d %d] %d %d'' args s)"

text \<open>All chunks are printed at the same offset. The default of the switch is a failed assertion.\<close>

definition sctp_chunk_char :: "trace_env \<Rightarrow> int \<Rightarrow> char option" where
  "sctp_chunk_char T t =
     (if t \<in> set (map (t_const T) [SCTP_CHUNK_INIT, SCTP_CHUNK_INIT_ACK, SCTP_CHUNK_COOKIE_ECHO,
          SCTP_CHUNK_COOKIE_ACK]) then Some (CHR ''I'')
      else if t = t_const T SCTP_CHUNK_DATA then Some (CHR ''D'')
      else if t = t_const T SCTP_CHUNK_SACK then Some (CHR ''S'')
      else if t = t_const T SCTP_CHUNK_FORWARD_TSN then Some (CHR ''R'')
      else if t = t_const T SCTP_CHUNK_HB then Some (CHR ''H'')
      else if t = t_const T SCTP_CHUNK_HB_ACK then Some (CHR ''B'')
      else None)"

definition print_chunk ::
  "trace_env \<Rightarrow> trace_packet \<Rightarrow> nat \<Rightarrow> sctp_chunk \<Rightarrow> cmu_trace \<Rightarrow> cmu_trace option"
where
  "print_chunk T p off c s = do {
     t \<leftarrow> sctp_chunk_char T (sc_eType c);
     let args = [ArgN (length (tp_sctp p)), ArgC t, ArgI (sc_uiTsn c), ArgI (sc_usStreamId c),
       ArgI (sc_usStreamSeqNum c), ArgI (pk_num_forwards p), ArgI (tp_opt_num_forwards p)];
     if ct_newtrace s \<noteq> 0
     then prints T off ''-Pn sctp -Pnc %d -Pct %c -Ptsn %d -Psid %d -Pssn %d -Pf %d -Po %d '' args s
     else prints T off ''[%d %c %d %d %d] %d %d'' args s
   }"

definition format_sctp :: "trace_env \<Rightarrow> trace_packet \<Rightarrow> nat \<Rightarrow> cmu_trace \<Rightarrow> cmu_trace option" where
  "format_sctp T p off s = for_each (tp_sctp p) (print_chunk T p off) s"

text \<open>The node must exist if the packet is for it.\<close>

definition format_rtp :: "trace_env \<Rightarrow> trace_packet \<Rightarrow> nat \<Rightarrow> cmu_trace \<Rightarrow> cmu_trace option" where
  "format_rtp T p off s = do {
     s \<leftarrow> (if t_nodeaddr T (sint (pk_daddr p)) = ct_src s then do {
         n \<leftarrow> t_node_by_address T (ct_src s);
         Some (case tn_energy_model n of
             None \<Rightarrow> s
           | Some em \<Rightarrow> if em_powersavingflag em
               then s\<lparr>ct_out := Set_inroute (ct_src s) # ct_out s\<rparr> else s)
       } else Some s);
     let args = [ArgI (tp_rtp_seqno p), ArgI (pk_num_forwards p), ArgI (tp_opt_num_forwards p)];
     if ct_tagged s then prints T off ''-cbr:s %d -cbr:f %d -cbr:o %d '' args s
     else if ct_newtrace s \<noteq> 0 then prints T off ''-Pn cbr -Pi %d -Pf %d -Po %d '' args s
     else prints T off ''[%d] %d %d'' args s
   }"

end
