(* ===== verification/Trace_Protocols.thy ===== *)
theory Trace_Protocols
  imports Trace_Format Aodv_Messages
begin

text \<open>
  The routing protocols in a trace, \<open>trace/cmu-trace.cc\<close>: \<open>format_aodvuu\<close> with the messages of this
  repository's agent, which it reads from the packet's header bytes, and DSR, IMEP, TORA, AODV of
  ns-2, AOMDV and M-DART.
\<close>

section \<open>AODV-UU\<close>

definition AODV_HELLO :: u8 where [simp]: "AODV_HELLO = 0"

definition format_rreq :: "trace_env \<Rightarrow> RREQ \<Rightarrow> nat \<Rightarrow> cmu_trace \<Rightarrow> cmu_trace option" where
  "format_rreq T m off s = (let args = [ArgW (rq_type m), ArgW (rq_hcnt m), ArgS32 (rq_rreq_id m),
       ArgS32 (rq_dest_addr m), ArgS32 (rq_dest_seqno m), ArgS32 (rq_orig_addr m),
       ArgS32 (rq_orig_seqno m)]
     in if ct_tagged s then Some s
        else if ct_newtrace s \<noteq> 0 then prints T off
          ''-P aodvuu -Pt 0x%x -Ph %d -Pb %d -Pd %d -Pds %d -Ps %d -Pss %d -Pc REQUEST '' args s
        else prints T off ''[0x%x %d %d [%d %d] [%d %d]] (REQUEST)'' args s)"

definition hello_or_reply :: "trace_packet \<Rightarrow> string" where
  "hello_or_reply p =
     (if pk_daddr p = AODV_BROADCAST \<and> pk_ttl p = 1 then ''HELLO'' else ''REPLY'')"

definition format_rrep ::
  "trace_env \<Rightarrow> trace_packet \<Rightarrow> RREP \<Rightarrow> nat \<Rightarrow> cmu_trace \<Rightarrow> cmu_trace option"
where
  "format_rrep T p m off s = (let args = [ArgW (rp_type m), ArgW (rp_hcnt m),
       ArgS32 (rp_dest_addr m), ArgS32 (rp_dest_seqno m), ArgS32 (rp_orig_addr m),
       ArgF (fp_of_int (t_fp T) (uint (rp_lifetime m))), ArgS (hello_or_reply p)]
     in if ct_tagged s then Some s
        else if ct_newtrace s \<noteq> 0 then prints T off
          ''-P aodvuu -Pt 0x%x -Ph %d -Pd %d -Pds %d -Ps %d -Pl %f -Pc %s '' args s
        else prints T off ''[0x%x %d [%d %d] [%d] %f] (%s)'' args s)"

definition format_rerr :: "trace_env \<Rightarrow> RERR \<Rightarrow> nat \<Rightarrow> cmu_trace \<Rightarrow> cmu_trace option" where
  "format_rerr T m off s = (let args = [ArgW (re_type m), ArgW (re_dest_count m),
       ArgS32 (re_dest_addr m), ArgS32 (re_dest_seqno m), ArgF 0]
     in if ct_tagged s then Some s
        else if ct_newtrace s \<noteq> 0 then prints T off
          ''-P aodvuu -Pt 0x%x -Ph %d -Pd %d -Pds %d -Pl %f -Pc ERROR '' args s
        else prints T off ''[0x%x %d [%d %d] %f] (ERROR)'' args s)"

definition format_rrep_ack :: "trace_env \<Rightarrow> RREP_ack \<Rightarrow> nat \<Rightarrow> cmu_trace \<Rightarrow> cmu_trace option" where
  "format_rrep_ack T m off s = (let args = [ArgW (ra_type m)]
     in if ct_tagged s then Some s
        else if ct_newtrace s \<noteq> 0 then
          (if ra_is_hello_ack m \<noteq> 0 then prints T off ''-P aodvuu -Pt 0x%x HELLO-ACK '' args s
           else prints T off ''-P aodvuu -Pt 0x%x RREP-ACK '' args s)
        else prints T off ''[%d] (RREP-ACK)'' args s)"

text \<open>The type is the second byte of each message; a type that is none of these aborts the program.\<close>

definition format_aodvuu :: "trace_env \<Rightarrow> trace_packet \<Rightarrow> nat \<Rightarrow> cmu_trace \<Rightarrow> cmu_trace option" where
  "format_aodvuu T p off s = do {
     let b = pk_aodv p;
     type \<leftarrow> arr_get b 1;
     if type = AODV_RREQ \<or> type = AODV_RREQ_LR then do { m \<leftarrow> rreq_at b; format_rreq T m off s }
     else if type = AODV_HELLO \<or> type = AODV_RREP \<or> type = AODV_RREP_LR
     then do { m \<leftarrow> rrep_at b; format_rrep T p m off s }
     else if type = AODV_RERR \<or> type = AODV_RERR_LR then do { m \<leftarrow> rerr_at b; format_rerr T m off s }
     else if type = AODV_RREP_ACK then do { m \<leftarrow> rrep_ack_at b; format_rrep_ack T m off s }
     else None
   }"

section \<open>Other routing protocols\<close>

definition format_dsr :: "trace_env \<Rightarrow> trace_packet \<Rightarrow> nat \<Rightarrow> cmu_trace \<Rightarrow> cmu_trace option" where
  "format_dsr T p off s = do {
     let h = tp_sr p;
     let last_err = (if 1 < sr_num_route_errors h then sr_num_route_errors h - 1 else 0);
     let last_reply = (if 1 < sr_route_reply_len h then sr_route_reply_len h - 1 else 0);
     a \<leftarrow> arr_get (sr_reply_addrs h) 0;
     b \<leftarrow> arr_get (sr_reply_addrs h) last_reply;
     (tell, from, to) \<leftarrow> arr_get (sr_down_links h) last_err;
     let args = [ArgI (sr_num_addrs h), ArgI (sr_route_request h), ArgI (sr_rtreq_seq h),
       ArgI (sr_route_reply h), ArgI (sr_rtreq_seq h), ArgI (sr_route_reply_len h), ArgI a, ArgI b,
       ArgI (sr_route_error h), ArgI (sr_num_route_errors h), ArgI tell, ArgI from, ArgI to];
     if ct_tagged s then prints T off
       ''-dsr:h %d -dsr:q %d -dsr:s %d -dsr:p %d -dsr:n %d -dsr:l %d -dsr:e {%d %d} -dsr:w %d -dsr:m %d -dsr:c %d -dsr:b {%d %d} ''
       args s
     else if ct_newtrace s \<noteq> 0 then prints T off
       ''-P dsr -Ph %d -Pq %d -Ps %d -Pp %d -Pn %d -Pl %d -Pe %d->%d -Pw %d -Pm %d -Pc %d -Pb %d->%d ''
       args s
     else prints T off ''%d [%d %d] [%d %d %d %d->%d] [%d %d %d %d->%d]'' args s
   }"

definition flag_char :: "trace_env \<Rightarrow> int \<Rightarrow> foreign \<Rightarrow> char \<Rightarrow> char" where
  "flag_char T flags f c = (if flags AND t_const T f \<noteq> 0 then c else CHR ''-'')"

definition format_imep :: "trace_env \<Rightarrow> trace_packet \<Rightarrow> nat \<Rightarrow> cmu_trace \<Rightarrow> cmu_trace option" where
  "format_imep T p off s = (let f = im_block_flags (tp_imep p);
     args = [ArgC (flag_char T f BLOCK_FLAG_ACK (CHR ''A'')),
       ArgC (flag_char T f BLOCK_FLAG_HELLO (CHR ''H'')),
       ArgC (flag_char T f BLOCK_FLAG_OBJECT (CHR ''O'')), ArgI (im_length (tp_imep p))]
   in if ct_tagged s then prints T off ''-imep:a %c -imep:h %c -imep:o %c -imep:l %04x '' args s
      else if ct_newtrace s \<noteq> 0 then prints T off ''-P imep -Pa %c -Ph %c -Po %c -Pl 0x%04x ] '' args s
      else prints T off ''[%c %c %c 0x%04x] '' args s)"

definition format_tora :: "trace_env \<Rightarrow> trace_packet \<Rightarrow> nat \<Rightarrow> cmu_trace \<Rightarrow> cmu_trace option" where
  "format_tora T p off s = (let h = tp_tora p; new = ct_newtrace s \<noteq> 0;
     qry = [ArgI (tq_type h), ArgI (tq_dst h)];
     upd = [ArgI (tu_type h), ArgI (tu_dst h), ArgF (tu_tau h), ArgI (tu_oid h), ArgI (tu_r h),
       ArgI (tu_delta h), ArgI (tu_id h)];
     clr = [ArgI (tc_type h), ArgI (tc_dst h), ArgF (tc_tau h), ArgI (tc_oid h)]
   in if th_type h = t_const T TORATYPE_QRY then
        (if ct_tagged s then prints T off ''-tora:t %x -tora:d %d -tora:c QUERY'' qry s
         else if new then prints T off ''-P tora -Pt 0x%x -Pd %d -Pc QUERY '' qry s
         else prints T off ''[0x%x %d] (QUERY)'' qry s)
      else if th_type h = t_const T TORATYPE_UPD then
        (if ct_tagged s then prints T off
           ''-tora:t %x -tora:d %d -tora:a %f -tora:o %d -tora:r %d -tora:e %d -tora:i %d -tora:c UPDATE'' upd s
         else if new then prints T off ''-P tora -Pt 0x%x -Pd %d (%f %d %d %d %d) -Pc UPDATE '' upd s
         else prints T off
           ''-Pt 0x%x -Pd %d -Pa %f -Po %d -Pr %d -Pe %d -Pi %d -Pc UPDATE '' upd s)
      else if th_type h = t_const T TORATYPE_CLR then
        (if ct_tagged s then prints T off
           ''-tora:t %x -tora:d %d -tora:a %f -tora:o %d -tora:c CLEAR '' clr s
         else if new then prints T off ''-P tora -Pt 0x%x -Pd %d -Pa %f -Po %d -Pc CLEAR '' clr s
         else prints T off ''[0x%x %d %f %d] (CLEAR)'' clr s)
      else Some s)"

definition request_args :: "('a) hdr_aodv_scheme \<Rightarrow> arg list" where
  "request_args h = [ArgI (na_rq_type h), ArgI (na_rq_hop_count h), ArgI (na_rq_bcast_id h),
     ArgI (na_rq_dst h), ArgI (na_rq_dst_seqno h), ArgI (na_rq_src h), ArgI (na_rq_src_seqno h)]"

definition reply_args :: "('a) hdr_aodv_scheme \<Rightarrow> arg list" where
  "reply_args h = [ArgI (na_rp_type h), ArgI (na_rp_hop_count h), ArgI (na_rp_dst h),
     ArgI (na_rp_dst_seqno h), ArgF (na_rp_lifetime h)]"

definition reply_name :: "trace_env \<Rightarrow> foreign \<Rightarrow> foreign \<Rightarrow> ('a) hdr_aodv_scheme \<Rightarrow> string" where
  "reply_name T rrep rerr h = (if na_rp_type h = t_const T rrep then ''REPLY''
     else if na_rp_type h = t_const T rerr then ''ERROR'' else ''HELLO'')"

definition format_aodv :: "trace_env \<Rightarrow> trace_packet \<Rightarrow> nat \<Rightarrow> cmu_trace \<Rightarrow> cmu_trace option" where
  "format_aodv T p off s = (let h = tp_hdr_aodv p; new = ct_newtrace s \<noteq> 0;
     rq = request_args h; rp = reply_args h @ [ArgS (reply_name T AODVTYPE_RREP AODVTYPE_RERR h)]
   in if ah_type h = t_const T AODVTYPE_RREQ then
        (if ct_tagged s then prints T off
           ''-aodv:t %x -aodv:h %d -aodv:b %d -aodv:d %d -aodv:ds %d -aodv:s %d -aodv:ss %d -aodv:c REQUEST '' rq s
         else if new then prints T off
           ''-P aodv -Pt 0x%x -Ph %d -Pb %d -Pd %d -Pds %d -Ps %d -Pss %d -Pc REQUEST '' rq s
         else prints T off ''[0x%x %d %d [%d %d] [%d %d]] (REQUEST)'' rq s)
      else if ah_type h \<in> set (map (t_const T) [AODVTYPE_RREP, AODVTYPE_HELLO, AODVTYPE_RERR]) then
        (if ct_tagged s then prints T off
           ''-aodv:t %x -aodv:h %d -aodv:d %d -adov:ds %d -aodv:l %f -aodv:c %s '' rp s
         else if new then prints T off
           ''-P aodv -Pt 0x%x -Ph %d -Pd %d -Pds %d -Pl %f -Pc %s '' rp s
         else prints T off ''[0x%x %d [%d %d] %f] (%s)'' rp s)
      else None)"

text \<open>The old style compares the type of the reply with the constants of AODV.\<close>

definition format_aomdv :: "trace_env \<Rightarrow> trace_packet \<Rightarrow> nat \<Rightarrow> cmu_trace \<Rightarrow> cmu_trace option" where
  "format_aomdv T p off s = (let h = tp_aomdv p; new = ct_newtrace s \<noteq> 0;
     rq = request_args h;
     rp = reply_args h @ [ArgS (reply_name T AOMDVTYPE_RREP AOMDVTYPE_RERR h)];
     rp_old = reply_args h @ [ArgS (reply_name T AODVTYPE_RREP AODVTYPE_RERR h),
       ArgI (na_rp_bcast_id h), ArgI (na_rp_first_hop h)]
   in if ah_type h = t_const T AOMDVTYPE_RREQ then
        (if ct_tagged s then prints T off
           ''-aomdv:t %x -aomdv:h %d -aomdv:b %d -aomdv:d %d -aomdv:ds %d -aomdv:s %d -aomdv:ss %d -aomdv:c REQUEST '' rq s
         else if new then prints T off
           ''-P aomdv -Pt 0x%x -Ph %d -Pb %d -Pd %d -Pds %d -Ps %d -Pss %d -Pc REQUEST '' rq s
         else prints T off ''[0x%x %d %d [%d %d] [%d %d]] (REQUEST)'' rq s)
      else if ah_type h \<in> set (map (t_const T) [AOMDVTYPE_RREP, AOMDVTYPE_HELLO, AOMDVTYPE_RERR]) then
        (if ct_tagged s then prints T off
           ''-aomdv:t %x -aomdv:h %d -aomdv:d %d -admov:ds %d -aomdv:l %f -aomdv:c %s '' rp s
         else if new then prints T off
           ''-P aomdv -Pt 0x%x -Ph %d -Pd %d -Pds %d -Pl %f -Pc %s '' rp s
         else prints T off ''[0x%x %d [%d %d] %f] (%s) [%d %d]'' rp_old s)
      else None)"

section \<open>M-DART\<close>

definition format_mdart_hello :: "trace_env \<Rightarrow> mdart_msg \<Rightarrow> nat \<Rightarrow> cmu_trace \<Rightarrow> cmu_trace option" where
  "format_mdart_hello T m off s = (let
     args = [ArgI (md_type m), ArgI (md_dstAdd m), ArgI (md_srcAdd m), ArgI (md_srcId m)]
   in if ct_tagged s then prints T off
        ''-mdart:t %x -mdart:dAdd %d -mdart:sAdd %d -mdart:sId %d'' args s
      else if ct_newtrace s \<noteq> 0 then prints T off
        ''-type HELLO -srcId %d -srcAdd %s dstAdd %s -seqNum %d''
        [ArgI (md_srcId m), ArgS (t_bits T (md_srcAdd m)), ArgS (t_bits T (md_dstAdd m)),
         ArgI (md_seqNum m)] s
      else prints T off ''[0x%x [%d %d] [%d]]'' args s)"

text \<open>The members that all messages but the first print.\<close>

definition mdart_args :: "mdart_msg \<Rightarrow> arg list" where
  "mdart_args m = [ArgI (md_type m), ArgI (md_dstAdd m), ArgI (md_srcAdd m), ArgI (md_dstId m),
     ArgI (md_srcId m), ArgI (md_forAdd m), ArgI (md_forId m)]"

definition mdart_new_args :: "trace_env \<Rightarrow> mdart_msg \<Rightarrow> arg list" where
  "mdart_new_args T m = [ArgI (md_srcId m), ArgS (t_bits T (md_srcAdd m)), ArgI (md_forId m),
     ArgS (t_bits T (md_forAdd m)), ArgI (md_dstId m), ArgS (t_bits T (md_dstAdd m))]"

definition format_mdart_darq :: "trace_env \<Rightarrow> mdart_msg \<Rightarrow> nat \<Rightarrow> cmu_trace \<Rightarrow> cmu_trace option" where
  "format_mdart_darq T m off s = (let
     args = mdart_args m @ [ArgI (md_reqId m), ArgI (md_seqNum m)]
   in if ct_tagged s then prints T off
        ''-mdart:t %x -mdart:dstAdd %d -mdart:srcAdd %d -mdart:dstId %d -mdart:srcId %d -mdart:forAdd %d -mdart:forId %d -mdart:rId %d -mdart:pId %u -mdart:c DARQ'' args s
      else if ct_newtrace s \<noteq> 0 then prints T off
        ''-type DARQ -srcId %d -srcAdd %s -forId %d -forAdd %s -dstId %d dstAdd %s -reqId %d -seqNum %d''
        (mdart_new_args T m @ [ArgI (md_reqId m), ArgI (md_seqNum m)]) s
      else prints T off ''[0x%x [%d %d] [%d %d] [%d %d] [%d] %u] (DARQ)'' args s)"

definition format_mdart_darp :: "trace_env \<Rightarrow> mdart_msg \<Rightarrow> nat \<Rightarrow> cmu_trace \<Rightarrow> cmu_trace option" where
  "format_mdart_darp T m off s = (let
     args = mdart_args m @ [ArgI (md_reqAdd m), ArgI (md_reqId m), ArgI (md_seqNum m)]
   in if ct_tagged s then prints T off
        ''-mdart:t %x -mdart:dAdd %d -mdart:sAdd %d -mdart:dId %d -mdart:sId %d -mdart:fAdd %d -mdart:fId %d -mdart:rAdd %d -mdart:rId %d -mdart:pAId %d mdart:c DARP'' args s
      else if ct_newtrace s \<noteq> 0 then prints T off
        ''-type DARP -srcId %d -srcAdd %s -forId %d -forAdd %s -dstId %d dstAdd %s -reqId %d -reqAdd %s -seqNum %d''
        (mdart_new_args T m @ [ArgI (md_reqId m), ArgS (t_bits T (md_reqAdd m)), ArgI (md_seqNum m)]) s
      else prints T off ''[0x%x [%d %d] [%d %d] [%d %d] [%d %d] %u] (DARP)'' args s)"

definition daup_tagged :: string where
  "daup_tagged = ''-mdart:t %x -mdart:dAdd %d -mdart:sAdd %d -mdart:dId %d -mdart:sId %d -mdart:fAdd %d -mdart:fId %d -mdart:pAId %u -mdart:c DAUP''"

definition daup_old :: string where
  "daup_old = ''[0x%x [%d %d] [%d %d] [%d %d] %u] (DAUP)''"

definition format_mdart_daup :: "trace_env \<Rightarrow> mdart_msg \<Rightarrow> nat \<Rightarrow> cmu_trace \<Rightarrow> cmu_trace option" where
  "format_mdart_daup T m off s = (let args = mdart_args m @ [ArgI (md_seqNum m)]
   in if ct_tagged s then prints T off daup_tagged args s
      else if ct_newtrace s \<noteq> 0 then prints T off
        ''-type DAUP -srcId %d -srcAdd %s -forId %d -forAdd %s -dstId %d dstAdd %s -seqNum %d''
        (mdart_new_args T m @ [ArgI (md_seqNum m)]) s
      else prints T off daup_old args s)"

text \<open>A DABR prints the fields of the DAUP header, except in the new style.\<close>

definition format_mdart_dabr ::
  "trace_env \<Rightarrow> mdart_msg \<Rightarrow> mdart_msg \<Rightarrow> nat \<Rightarrow> cmu_trace \<Rightarrow> cmu_trace option"
where
  "format_mdart_dabr T darq daup off s = (let args = mdart_args daup @ [ArgI (md_seqNum daup)]
   in if ct_tagged s then prints T off daup_tagged args s
      else if ct_newtrace s \<noteq> 0 then prints T off ''-type DABR -srcId %d -srcAdd %s dstAdd %s''
        [ArgI (md_srcId darq), ArgS (t_bits T (md_srcAdd darq)), ArgS (t_bits T (md_dstAdd darq))] s
      else prints T off daup_old args s)"

definition format_mdart :: "trace_env \<Rightarrow> trace_packet \<Rightarrow> nat \<Rightarrow> cmu_trace \<Rightarrow> cmu_trace option" where
  "format_mdart T p off s = (let h = tp_mdart p; t = mdart_type h
   in if t = t_const T MDART_TYPE_HELLO then format_mdart_hello T (mdart_hello h) off s
      else if t = t_const T MDART_TYPE_DARQ then format_mdart_darq T (mdart_darq h) off s
      else if t = t_const T MDART_TYPE_DARP then format_mdart_darp T (mdart_darp h) off s
      else if t = t_const T MDART_TYPE_DAUP then format_mdart_daup T (mdart_daup h) off s
      else if t = t_const T MDART_TYPE_DABR
      then format_mdart_dabr T (mdart_darq h) (mdart_daup h) off s
      else Some s)"

end
