(* ===== verification/Cmu_Trace.thy ===== *)
theory Cmu_Trace
  imports Trace_Protocols
begin

text \<open>
  The entry points of the tracer, \<open>trace/cmu-trace.cc\<close>: the animation (\<open>nam_format\<close>), the line of a
  packet (\<open>format\<close>) with the tracers of dynamic libraries, the two \<open>recv\<close>, the commands and the
  constructor.
\<close>

section \<open>Comparison of doubles\<close>

definition d_le :: "double \<Rightarrow> double \<Rightarrow> bool" where
  "d_le x y \<longleftrightarrow> \<not> d_is_nan x \<and> \<not> d_is_nan y \<and> d_key x \<le> d_key y"

definition d_eq :: "double \<Rightarrow> double \<Rightarrow> bool" where
  "d_eq x y \<longleftrightarrow> \<not> d_is_nan x \<and> \<not> d_is_nan y \<and> d_key x = d_key y"

section \<open>Broadcast radius\<close>

text \<open>The constants are \<open>4.0\<close>, \<open>0.25\<close>, \<open>3.14159265359\<close>, \<open>3.0e8\<close>, \<open>2.0\<close> and \<open>0.5\<close>.\<close>

definition calculate_broadcast_parameters :: "trace_env \<Rightarrow> cmu_trace \<Rightarrow> cmu_trace" where
  "calculate_broadcast_parameters T s =
     (let mul = fp_mul (t_fp T); quot = fp_div (t_fp T);
        P_t = t_tcl T ''Phy/WirelessPhy set Pt_'';
        P_r = t_tcl T ''Phy/WirelessPhy set RXThresh_'';
        L = t_tcl T ''Phy/WirelessPhy set L_'';
        G_t = t_tcl T ''Antenna/OmniAntenna set Gt_'';
        G_r = t_tcl T ''Antenna/OmniAntenna set Gr_'';
        h = t_tcl T ''Antenna/OmniAntenna set Z_'';
        four = 0x4010000000000000;
        bradius = t_pow T (quot (mul (mul (mul P_t G_r) G_t) (t_pow T h four)) (mul P_r L))
          0x3FD0000000000000;
        PI = 0x400921FB54442EEA;
        freq = t_tcl T ''Phy/WirelessPhy set freq_'';
        lambda = quot 0x41B1E1A300000000 freq;
        crossover_dist = quot (mul (mul (mul four PI) h) h) lambda;
        bradius = (if d_less bradius crossover_dist
          then quot (t_pow T (quot (mul (mul (mul P_t G_r) G_t) (t_pow T lambda 0x4000000000000000))
            (mul P_r L)) 0x3FE0000000000000) (mul four PI)
          else bradius)
      in s\<lparr>ct_bradius := bradius,
           ct_radius_scaling := t_tcl T ''CMUTrace set radius_scaling_factor_'',
           ct_duration_scaling := t_tcl T ''CMUTrace set duration_scaling_factor_''\<rparr>)"

section \<open>Animation\<close>

text \<open>
  The name of the packet, which goes into a buffer of 11 characters. The type of a MAC frame is not
  tested, only its subtype.
\<close>

definition nam_names :: "trace_env \<Rightarrow> (int \<times> string) list" where
  "nam_names T =
     [(uint MAC_Subtype_RTS, ''RTS''), (uint MAC_Subtype_CTS, ''CTS''), (uint MAC_Subtype_ACK, ''ACK''),
      (t_const T MAC_Subtype_Beacon, ''BCN''), (uint MAC_Subtype_AssocReq, ''ACRQ''),
      (uint MAC_Subtype_AssocRep, ''ACRP''), (t_const T MAC_Subtype_Command_AssoReq, ''CM1''),
      (t_const T MAC_Subtype_Command_AssoRsp, ''CM2''), (t_const T MAC_Subtype_Command_DAssNtf, ''CM3''),
      (t_const T MAC_Subtype_Command_DataReq, ''CM4''), (t_const T MAC_Subtype_Command_PIDCNtf, ''CM5''),
      (t_const T MAC_Subtype_Command_OrphNtf, ''CM6''), (t_const T MAC_Subtype_Command_BconReq, ''CM7''),
      (t_const T MAC_Subtype_Command_CoorRea, ''CM8''), (t_const T MAC_Subtype_Command_GTSReq, ''CM9'')]"

definition nam_ptype :: "trace_env \<Rightarrow> trace_packet \<Rightarrow> string option" where
  "nam_ptype T p = do {
     n \<leftarrow> (if pk_ptype p = PT_MAC then Some (pick (nam_names T) (uint (fc_subtype (dh_fc (mp_hdr p)))))
          else type_name T (pk_ptype p));
     if 11 \<le> length n then None else Some n
   }"

definition energy_level :: "double \<Rightarrow> double \<Rightarrow> double \<Rightarrow> int" where
  "energy_level left l1 l2 =
     (let level = 0;
        level = (if d_le left 0x3FF0000000000000 \<and> d_le l1 left then 3 else level);
        level = (if d_le l2 left \<and> d_less left l1 then 2 else level)
      in if d_less 0 left \<and> d_less left l2 then 1 else level)"

definition level_colors :: "int \<Rightarrow> string" where
  "level_colors l = (if l = 0 then ''-c black -o red'' else if l = 1 then ''-c red -o yellow''
     else if l = 2 then ''-c yellow -o green'' else ''-c green -o black'')"

definition d_zero :: double where "d_zero = 0"

text \<open>The energy, the energy at the start and the two levels (\<open>0.5\<close> and \<open>0.2\<close> by default) of the node.\<close>

definition energy_data :: "energy_model option \<Rightarrow> double \<times> double \<times> double \<times> double" where
  "energy_data em = (case em of
     None \<Rightarrow> (d_minus_one, d_minus_one, 0x3FE0000000000000, 0x3FC999999999999A)
   | Some em \<Rightarrow> (em_energy em, em_initialenergy em, em_level1 em, em_level2 em))"

text \<open>The colour of a packet; with 802.15.4 its attribute, which is set here.\<close>

definition packet_color :: "trace_env \<Rightarrow> trace_packet \<Rightarrow> int \<times> trace_packet" where
  "packet_color T p =
     (let color = (if pk_ptype p = PT_DIFF \<and> tp_diff_mess_type p \<noteq> t_const T DIFF_DATA then 1 else 0)
      in if t_nam_status T then
           let ends = (if pk_ptype p = PT_MAC then (t_macSA T p, t_macDA T p)
               else (sint (pk_saddr p), sint (pk_daddr p)));
             attr = (case t_findAttrLink T (pk_ptype p) (Some ends) of
                 None \<Rightarrow> t_findAttrLink T (pk_ptype p) None | Some a \<Rightarrow> Some a);
             a = (case attr of None \<Rightarrow> 0 | Some a \<Rightarrow> a)
           in (if 32 \<le> a then a else color, p\<lparr>tp_lrwpan_attribute := a\<rparr>)
         else (color, p))"

text \<open>The two lines of a packet that is sent, and the line that shows a new colour of the node.\<close>

definition nam_hop :: "trace_env \<Rightarrow> arg list \<Rightarrow> cmu_trace \<Rightarrow> cmu_trace option" where
  "nam_hop T args s = do {
     s \<leftarrow> nprints T 0 ''+ -t %.9f -s %d -d %d -p %s -e %d -c 2 -a %d -i %d -k %3s '' args s;
     s \<leftarrow> nprints T 0 ''- -t %.9f -s %d -d %d -p %s -e %d -c 2 -a %d -i %d -k %3s'' args (namdump s);
     Some (namdump s)
   }"

definition nam_node_color :: "trace_env \<Rightarrow> double \<Rightarrow> int \<Rightarrow> cmu_trace \<Rightarrow> cmu_trace option" where
  "nam_node_color T energy level s =
     (if d_eq energy d_minus_one then Some s
      else if int (t_MAX_NODE T) \<le> ct_src s then None
      else do {
        c \<leftarrow> arr_get (ct_nodeColor s) (ct_src s);
        if c = level then Some s else do {
          s \<leftarrow> nprints T 0 ''n -t %.9f -s %d -S COLOR %s''
            [ArgF (t_clock T), ArgI (ct_src s), ArgS (level_colors level)] s;
          let s = namdump s;
          cs \<leftarrow> arr_set (ct_nodeColor s) (ct_src s) level;
          Some (s\<lparr>ct_nodeColor := cs\<rparr>)
        }
      })"

text \<open>The circle of a broadcast, with the double \<open>0.000000001\<close> as the least duration.\<close>

definition nam_broadcast :: "trace_env \<Rightarrow> cmu_trace \<Rightarrow> cmu_trace option" where
  "nam_broadcast T s =
     (let s = (if d_eq (ct_bradius s) 0 then calculate_broadcast_parameters T s else s);
        radius = fp_mul (t_fp T) (ct_bradius s) (ct_radius_scaling s);
        duration = fp_mul (t_fp T) (fp_div (t_fp T) (ct_bradius s) 0x41B1DE784A000000)
          (ct_duration_scaling s);
        duration = (if t_nam_status T \<and> d_less duration 0x3E112E0BE826D695
          then 0x3E112E0BE826D695 else duration)
      in nprints T (length (ct_nbuffer s)) '' -R %.2f -D %.2f'' [ArgF radius, ArgF duration] s)"

definition nam_format :: "trace_env \<Rightarrow> trace_packet \<Rightarrow> cmu_trace \<Rightarrow> (trace_packet \<times> cmu_trace) option" where
  "nam_format T p s = (if ct_type s = t_EOT T then None else do {
     ptype \<leftarrow> nam_ptype T p;
     let dst = t_nodeaddr T (sint (pk_daddr p));
     let next_hop = (case t_node_by_address T (sint (pk_next_hop p)) of
         None \<Rightarrow> -1 | Some n \<Rightarrow> tn_nodeid n);
     let (energy, initenergy, l1, l2) = energy_data (node_energy_model T s);
     let level = energy_level (fp_div (t_fp T) energy initenergy) l1 l2;
     let (color, p) = packet_color T p;
     let op = (if ct_type s = CHR ''s'' then CHR ''h'' else ct_type s);
     let op = (if op = CHR ''D'' then CHR ''d'' else op);
     let args = [ArgF (t_clock T), ArgI (ct_src s), ArgI next_hop, ArgS ptype, ArgI (pk_size p),
       ArgI color, ArgI (mp_uid p), ArgS (ct_tracename s)];
     s \<leftarrow> (if op = CHR ''h'' then nam_hop T args s else Some s);
     if ct_tracetype s = TR_ROUTER \<and> ct_type s = t_RECV T \<and> dst \<noteq> -1 then Some (p, s) else do {
       s \<leftarrow> nam_node_color T energy level s;
       s \<leftarrow> nprints T 0 ''%c -t %.9f -s %d -d %d -p %s -e %d -c 2 -a %d -i %d -k %3s''
         (ArgC op # args) s;
       s \<leftarrow> (if t_nam_status T \<and> (ct_tracename s \<noteq> ''AGT'' \<or> pk_daddr p = t_IP_BROADCAST T)
             \<and> next_hop = -1 \<and> op = CHR ''h'' then nam_broadcast T s else Some s);
       Some (p, namdump s)
     }
   })"

section \<open>Tracers of dynamic libraries\<close>

definition addPacketTracer :: "nat option \<Rightarrow> cmu_trace \<Rightarrow> cmu_trace" where
  "addPacketTracer pt s = (case pt of None \<Rightarrow> s | Some a \<Rightarrow> s\<lparr>ct_pktTrc := push_handler a (ct_pktTrc s)\<rparr>)"

text \<open>\<open>fmt\<close> is the method \<open>format\<close> of the tracer at an address, on the buffer.\<close>

partial_function (option) format_unknow ::
  "(nat \<Rightarrow> string \<Rightarrow> bool \<times> string) \<Rightarrow> (nat \<Rightarrow> nat option) \<Rightarrow> nat \<Rightarrow> string \<Rightarrow> (bool \<times> string) option"
where
  "format_unknow fmt nxt pt buf =
     (case fmt pt buf of (r, buf) \<Rightarrow>
        if r then Some (True, buf)
        else (case nxt pt of None \<Rightarrow> Some (False, buf) | Some q \<Rightarrow> format_unknow fmt nxt q buf))"

definition format_other :: "trace_env \<Rightarrow> trace_packet \<Rightarrow> nat \<Rightarrow> cmu_trace \<Rightarrow> cmu_trace option" where
  "format_other T p off s = (case ch_head (ct_pktTrc s) of
     None \<Rightarrow> Some s
   | Some pt \<Rightarrow> do {
       (_, buf) \<leftarrow> format_unknow (\<lambda>a. t_tracer T a p off (ct_newtrace s)) (ch_next (ct_pktTrc s)) pt
         (ct_buffer s);
       Some (s\<lparr>ct_buffer := buf\<rparr>)
     })"

section \<open>The line of a packet\<close>

definition format_payload :: "trace_env \<Rightarrow> trace_packet \<Rightarrow> nat \<Rightarrow> cmu_trace \<Rightarrow> cmu_trace option" where
  "format_payload T p off s = (let t = pk_ptype p in
     if t = PT_AODV then format_aodv T p off s
     else if t = PT_AOMDV then format_aomdv T p off s
     else if t = PT_TORA then format_tora T p off s
     else if t = PT_IMEP then format_imep T p off s
     else if t = PT_DSR then format_dsr T p off s
     else if t = PT_MESSAGE \<or> t = PT_UDP then format_msg p off s
     else if t = PT_TCP \<or> t = PT_ACK then format_tcp T p off s
     else if t = PT_SCTP then format_sctp T p off s
     else if t = PT_CBR then format_rtp T p off s
     else if t = PT_DIFF \<or> t = PT_GAF \<or> t = PT_PING \<or> t = PT_ENCAPSULATED then Some s
     else if t = PT_AODVUU then format_aodvuu T p off s
     else format_other T p off s)"

definition format_line ::
  "trace_env \<Rightarrow> trace_packet \<Rightarrow> string \<Rightarrow> cmu_trace \<Rightarrow> (trace_packet \<times> cmu_trace) option"
where
  "format_line T p why s = do {
     s \<leftarrow> format_mac_common T p why 0 s;
     (p, s) \<leftarrow> (if ct_namchannel s then nam_format T p s else Some (p, s));
     let off = length (ct_buffer s);
     s \<leftarrow> (if pk_ptype p = PT_MAC \<or> pk_ptype p = PT_SMAC then Some s
          else if pk_ptype p = PT_ARP then format_arp T p off s
          else do {
            s \<leftarrow> format_ip T p off s;
            format_payload T p (length (ct_buffer s)) s
          });
     Some (p, s)
   }"

section \<open>Receiving packets\<close>

definition node_energy :: "trace_env \<Rightarrow> cmu_trace \<Rightarrow> bool" where
  "node_energy T s = (case node_energy_model T s of
     None \<Rightarrow> True | Some em \<Rightarrow> d_less 0 (em_energy em))"

definition log_event :: "trace_event \<Rightarrow> cmu_trace \<Rightarrow> cmu_trace" where
  "log_event e s = s\<lparr>ct_out := e # ct_out s\<rparr>"

definition trace_recv :: "trace_env \<Rightarrow> trace_packet \<Rightarrow> cmu_trace \<Rightarrow> cmu_trace option" where
  "trace_recv T p s =
     (if \<not> node_energy T s then Some (log_event (Trace_freed p) s)
      else if \<not> ct_initialized s then None
      else do {
        let p = (if ct_tracetype s = TR_AGENT \<and> ct_type s = t_SEND T then t_stamp T p else p);
        (p, s) \<leftarrow> format_line T p ''---'' s;
        let s = log_event (Dump (ct_buffer s)) s;
        Some (log_event (if ct_target s then Trace_sent p else Trace_freed p) s)
      })"

definition trace_recv_drop :: "trace_env \<Rightarrow> trace_packet \<Rightarrow> string \<Rightarrow> cmu_trace \<Rightarrow> cmu_trace option" where
  "trace_recv_drop T p why s =
     (if \<not> (ct_initialized s \<and> ct_type s = t_DROP T) then None
      else if \<not> node_energy T s then Some (log_event (Trace_freed p) s)
      else do {
        (p, s) \<leftarrow> format_line T p why s;
        Some (log_event (Trace_freed p) (log_event (Dump (ct_buffer s)) s))
      })"

section \<open>Commands and construction\<close>

text \<open>The result is \<open>TCL_OK\<close> (\<open>True\<close>) or \<open>TCL_ERROR\<close>.\<close>

definition trace_command :: "trace_env \<Rightarrow> string list \<Rightarrow> cmu_trace \<Rightarrow> (bool \<times> cmu_trace) option" where
  "trace_command T argv s = (case argv of
     [_, cmd, x] \<Rightarrow>
       if cmd = ''node'' then Some (t_lookup T x \<noteq> None, s\<lparr>ct_node := t_lookup T x\<rparr>)
       else if cmd = ''newtrace'' then Some (True, s\<lparr>ct_newtrace := t_atoi T x\<rparr>)
       else t_base_command T argv s
   | _ \<Rightarrow> t_base_command T argv s)"

definition trace_types :: "(string \<times> TraceType) list" where
  "trace_types = [(''RTR'', TR_ROUTER), (''TRP'', TR_ROUTER), (''PHY'', TR_PHY), (''MAC'', TR_MAC),
     (''IFQ'', TR_IFQ), (''AGT'', TR_AGENT)]"

text \<open>The object as the constructor of class \<open>Trace\<close> leaves it is the argument \<open>s\<close>.\<close>

definition CMUTrace_init :: "trace_env \<Rightarrow> string \<Rightarrow> char \<Rightarrow> cmu_trace \<Rightarrow> cmu_trace option" where
  "CMUTrace_init T name t s = do {
     let name = take (t_MAX_ID_LEN T) name;
     type \<leftarrow> map_of trace_types name;
     if t = t_DROP T \<or> t = t_SEND T \<or> t = t_RECV T \<or> t = t_EOT T \<and> type = TR_MAC
     then Some (s\<lparr>ct_type := t, ct_tracename := name, ct_tracetype := type, ct_newtrace := 0,
       ct_nodeColor := replicate (t_MAX_NODE T) 3, ct_node := None\<rparr>)
     else None
   }"

end
