(* ===== verification/Trace_Facts.thy ===== *)
theory Trace_Facts
  imports Cmu_Trace
begin

text \<open>
  What the tracer leaves alone, and what can be read back from the lines it writes: two lines along
  the same format are equal only if all the texts in them are.
\<close>

section \<open>What does not change\<close>

text \<open>The members of a tracer that no packet changes.\<close>

definition settings :: "cmu_trace \<Rightarrow> string \<times> TraceType \<times> char \<times> int \<times> bool \<times> bool \<times> int
    \<times> trace_node option \<times> bool \<times> bool \<times> chain" where
  "settings s = (ct_tracename s, ct_tracetype s, ct_type s, ct_src s, ct_target s, ct_initialized s,
     ct_newtrace s, ct_node s, ct_tagged s, ct_namchannel s, ct_pktTrc s)"

text \<open>Events that write a line of the animation or tell the energy model; no packet takes part in them.\<close>

fun no_packet :: "trace_event \<Rightarrow> bool" where
  "no_packet (Namdump x) = True"
| "no_packet (Set_inroute n) = True"
| "no_packet e = False"

definition logs :: "cmu_trace \<Rightarrow> cmu_trace \<Rightarrow> bool" where
  "logs s t \<longleftrightarrow> settings t = settings s \<and> (\<exists>es. list_all no_packet es \<and> ct_out t = es @ ct_out s)"

lemma logs_refl [simp, intro]: "logs s s"
  unfolding logs_def by (intro conjI exI[of _ "[]"]) simp_all

lemma logs_trans: "logs r s \<Longrightarrow> logs s t \<Longrightarrow> logs r t"
  unfolding logs_def by (metis append.assoc list_all_append)

lemma logs_upd [simp]:
  "logs s (t\<lparr>ct_buffer := b\<rparr>) = logs s t" "logs s (t\<lparr>ct_nbuffer := b\<rparr>) = logs s t"
  "logs s (t\<lparr>ct_nodeColor := c\<rparr>) = logs s t" "logs s (t\<lparr>ct_bradius := d\<rparr>) = logs s t"
  "logs s (t\<lparr>ct_radius_scaling := d\<rparr>) = logs s t" "logs s (t\<lparr>ct_duration_scaling := d\<rparr>) = logs s t"
  by (simp_all add: logs_def settings_def)

lemma logs_event: "logs s t \<Longrightarrow> no_packet e \<Longrightarrow> logs s (t\<lparr>ct_out := e # ct_out t\<rparr>)"
  unfolding logs_def settings_def by (auto intro: exI[of _ "e # es" for es])

lemma logs_namdump [simp]: "logs s t \<Longrightarrow> logs s (namdump t)"
  by (simp add: namdump_def logs_event)

lemma logs_prints: "logs r s \<Longrightarrow> okM (logs r) (prints T off f args s)"
  by (auto simp: okM_def prints_def)

lemma logs_nprints: "logs r s \<Longrightarrow> okM (logs r) (nprints T off f args s)"
  by (auto simp: okM_def nprints_def)

lemma logs_bind:
  "okM (logs r) m \<Longrightarrow> (\<And>t. logs r t \<Longrightarrow> okM (logs r) (f t)) \<Longrightarrow> okM (logs r) (m \<bind> f)"
  by (rule okM_bind)

text \<open>A bind whose first part yields a state is tried before one that yields a value.\<close>

lemmas logs_steps = logs_bind okM_bind_any okM_if okM_Let okM_case_prod okM_case_option logs_prints logs_nprints

lemma logs_format_smac: "logs r s \<Longrightarrow> okM (logs r) (format_smac T p off s)"
  unfolding format_smac_def by (intro logs_steps) auto

lemma logs_format_phy: "logs r s \<Longrightarrow> okM (logs r) (format_phy T p off s)"
  unfolding format_phy_def by (intro logs_steps) auto

lemma logs_format_mac: "logs r s \<Longrightarrow> okM (logs r) (format_mac T p off s)"
  unfolding format_mac_def by (intro logs_steps) auto

lemma logs_format_any_mac: "logs r s \<Longrightarrow> okM (logs r) (format_any_mac T smac p s)"
  unfolding format_any_mac_def by (intro logs_steps logs_format_smac logs_format_mac) auto

lemma logs_format_common_tagged: "logs r s \<Longrightarrow> okM (logs r) (format_common_tagged T smac p off e s)"
  unfolding format_common_tagged_def by (intro logs_steps logs_format_any_mac) auto

lemma logs_format_common_new: "logs r s \<Longrightarrow> okM (logs r) (format_common_new T smac p why off e s)"
  unfolding format_common_new_def by (intro logs_steps logs_format_any_mac) auto

lemma logs_print_energy: "logs r s \<Longrightarrow> okM (logs r) (print_energy T s)"
  unfolding print_energy_def by (intro logs_steps) auto

lemma logs_format_common_old: "logs r s \<Longrightarrow> okM (logs r) (format_common_old T smac p why off s)"
  unfolding format_common_old_def by (intro logs_steps logs_format_any_mac logs_format_phy logs_print_energy) auto

lemma logs_format_mac_common: "logs r s \<Longrightarrow> okM (logs r) (format_mac_common T p why off s)"
  unfolding format_mac_common_def by (intro logs_steps logs_format_common_tagged logs_format_common_new logs_format_common_old) auto

lemma logs_format_ip: "logs r s \<Longrightarrow> okM (logs r) (format_ip T p off s)"
  unfolding format_ip_def by (intro logs_steps) auto

lemma logs_format_arp: "logs r s \<Longrightarrow> okM (logs r) (format_arp T p off s)"
  unfolding format_arp_def by (intro logs_steps) auto

lemma logs_format_tcp: "logs r s \<Longrightarrow> okM (logs r) (format_tcp T p off s)"
  unfolding format_tcp_def by (intro logs_steps) auto

lemma logs_print_chunk: "logs r s \<Longrightarrow> okM (logs r) (print_chunk T p off c s)"
  unfolding print_chunk_def by (intro logs_steps) auto

lemma logs_format_sctp: "logs r s \<Longrightarrow> okM (logs r) (format_sctp T p off s)"
  unfolding format_sctp_def by (rule okM_for_each) (auto intro: logs_print_chunk)

lemma logs_format_rtp: "logs r s \<Longrightarrow> okM (logs r) (format_rtp T p off s)"
  unfolding format_rtp_def by (intro logs_steps) (auto simp: logs_event split: option.split)

lemma logs_format_rreq: "logs r s \<Longrightarrow> okM (logs r) (format_rreq T m off s)"
  unfolding format_rreq_def by (intro logs_steps) auto

lemma logs_format_rrep: "logs r s \<Longrightarrow> okM (logs r) (format_rrep T p m off s)"
  unfolding format_rrep_def by (intro logs_steps) auto

lemma logs_format_rerr: "logs r s \<Longrightarrow> okM (logs r) (format_rerr T m off s)"
  unfolding format_rerr_def by (intro logs_steps) auto

lemma logs_format_rrep_ack: "logs r s \<Longrightarrow> okM (logs r) (format_rrep_ack T m off s)"
  unfolding format_rrep_ack_def by (intro logs_steps) auto

lemma logs_format_aodvuu: "logs r s \<Longrightarrow> okM (logs r) (format_aodvuu T p off s)"
  unfolding format_aodvuu_def by (intro logs_steps logs_format_rreq logs_format_rrep logs_format_rerr logs_format_rrep_ack) auto

lemma logs_format_dsr: "logs r s \<Longrightarrow> okM (logs r) (format_dsr T p off s)"
  unfolding format_dsr_def by (intro logs_steps) auto

lemma logs_format_imep: "logs r s \<Longrightarrow> okM (logs r) (format_imep T p off s)"
  unfolding format_imep_def by (intro logs_steps) auto

lemma logs_format_tora: "logs r s \<Longrightarrow> okM (logs r) (format_tora T p off s)"
  unfolding format_tora_def by (intro logs_steps) auto

lemma logs_format_aodv: "logs r s \<Longrightarrow> okM (logs r) (format_aodv T p off s)"
  unfolding format_aodv_def by (intro logs_steps) auto

lemma logs_format_aomdv: "logs r s \<Longrightarrow> okM (logs r) (format_aomdv T p off s)"
  unfolding format_aomdv_def by (intro logs_steps) auto

lemma logs_format_other: "logs r s \<Longrightarrow> okM (logs r) (format_other T p off s)"
  unfolding format_other_def by (intro logs_steps) auto

lemma logs_format_payload: "logs r s \<Longrightarrow> okM (logs r) (format_payload T p off s)"
  unfolding format_payload_def
  by (intro logs_steps logs_format_aodv logs_format_aomdv logs_format_tora logs_format_imep logs_format_dsr
      logs_format_tcp logs_format_sctp logs_format_rtp logs_format_aodvuu logs_format_other)
    (auto simp: format_msg_def)

section \<open>The animation\<close>

text \<open>A packet is changed in the attribute of the 802.15.4 animation at most.\<close>

definition same_packet :: "trace_packet \<Rightarrow> trace_packet \<Rightarrow> bool" where
  "same_packet p q \<longleftrightarrow> (\<exists>a. q = p\<lparr>tp_lrwpan_attribute := a\<rparr>)"

lemma same_packet_refl [simp]: "same_packet p p"
  unfolding same_packet_def by (rule exI[of _ "tp_lrwpan_attribute p"]) simp

lemma same_packet_attribute [simp]: "same_packet p (p\<lparr>tp_lrwpan_attribute := a\<rparr>)"
  unfolding same_packet_def by blast

lemma packet_color_same: "packet_color T p = (c, q) \<Longrightarrow> same_packet p q"
  by (auto simp: packet_color_def Let_def split: if_splits)

lemma logs_nam_hop: "logs r s \<Longrightarrow> okM (logs r) (nam_hop T args s)"
  unfolding nam_hop_def by (intro logs_steps) auto

lemma logs_nam_node_color: "logs r s \<Longrightarrow> okM (logs r) (nam_node_color T e l s)"
  unfolding nam_node_color_def by (intro logs_steps) auto

lemma logs_nam_broadcast: "logs r s \<Longrightarrow> okM (logs r) (nam_broadcast T s)"
  unfolding nam_broadcast_def
  by (intro logs_steps) (auto simp: calculate_broadcast_parameters_def Let_def)

abbreviation logs_packet :: "trace_packet \<Rightarrow> cmu_trace \<Rightarrow> trace_packet \<times> cmu_trace \<Rightarrow> bool" where
  "logs_packet p r \<equiv> \<lambda>(q, t). same_packet p q \<and> logs r t"

lemma logs_nam_format:
  assumes "logs r s"
  shows "okM (logs_packet p r) (nam_format T p s)"
proof -
  have bind: "okM (logs r) m \<Longrightarrow> (\<And>t. logs r t \<Longrightarrow> okM (logs_packet p r) (f t)) \<Longrightarrow> okM (logs_packet p r) (m \<bind> f)"
    for m f by (rule okM_bind)
  show ?thesis
    unfolding nam_format_def using assms
    by (intro okM_if okM_None bind okM_bind_any okM_Let okM_case_prod logs_steps logs_nam_hop
        logs_nam_node_color logs_nam_broadcast)
      (auto dest: packet_color_same)
qed

section \<open>Packets\<close>

lemma logs_format_line:
  assumes "logs r s"
  shows "okM (logs_packet p r) (format_line T p why s)"
proof -
  have nam: "okM (logs_packet p r) (if ct_namchannel t then nam_format T p t else Some (p, t))"
    if "logs r t" for t using that by (intro okM_if logs_nam_format) auto
  have rest: "okM (logs_packet p r) (do { s \<leftarrow> m; Some (q, s) })" if "okM (logs r) m" "same_packet p q" for m q
    using that by (auto simp: okM_def Option.bind_eq_Some_conv)
  show ?thesis
    unfolding format_line_def Let_def using assms
    by (intro okM_bind[OF logs_format_mac_common] okM_bind[OF nam] okM_case_prod rest okM_if
        logs_bind logs_format_arp logs_format_ip logs_format_payload) auto
qed

section \<open>Lines read back\<close>

lemma equal_lines_equal_texts:
  assumes "spaced f" and "texts (t_text T) f xs = Some us" and "texts (t_text T) f ys = Some vs"
    and "off \<le> length (ct_buffer s)"
  shows "\<exists>t u. prints T off f xs s = Some t \<and> prints T off f ys s = Some u
    \<and> (ct_buffer t = ct_buffer u \<longrightarrow> us = vs)"
proof -
  obtain x y where x: "sprintf (t_text T) f xs = Some x" "Printf.fields f x = Some us"
    and y: "sprintf (t_text T) f ys = Some y" "Printf.fields f y = Some vs"
    using fields_sprintf[OF assms(1,2)] fields_sprintf[OF assms(1,3)] by blast
  then show ?thesis using assms(4) by (auto simp: prints_def put_at_def)
qed

lemma number_ends:
  "CHR '' '' \<notin> set (fmt_d i)" "CHR '']'' \<notin> set (fmt_d i)" "2 \<le> b \<Longrightarrow> b \<le> 16 \<Longrightarrow> CHR '' '' \<notin> set (num b n)"
  using fmt_d_chars[of i] num_chars[of b n] by (auto simp: number_chars_def)

lemmas format_eval = get_spec_def num_val_def is_digit_def convert_def pad_def digit_val_def eval_nat_numeral

definition rreq_args :: "RREQ \<Rightarrow> arg list" where
  "rreq_args m = [ArgW (rq_type m), ArgW (rq_hcnt m), ArgS32 (rq_rreq_id m), ArgS32 (rq_dest_addr m),
     ArgS32 (rq_dest_seqno m), ArgS32 (rq_orig_addr m), ArgS32 (rq_orig_seqno m)]"

definition rreq_texts :: "RREQ \<Rightarrow> string list" where
  "rreq_texts m = num 16 (nat (uint (rq_type m) mod 2 ^ 32)) # fmt_d (uint (rq_hcnt m))
     # map (fmt_d o sint) [rq_rreq_id m, rq_dest_addr m, rq_dest_seqno m, rq_orig_addr m, rq_orig_seqno m]"

definition rreq_new :: string where
  "rreq_new = ''-P aodvuu -Pt 0x%x -Ph %d -Pb %d -Pd %d -Pds %d -Ps %d -Pss %d -Pc REQUEST ''"

definition rreq_old :: string where
  "rreq_old = ''[0x%x %d %d [%d %d] [%d %d]] (REQUEST)''"

lemma rreq_line_texts:
  "texts F rreq_new (rreq_args m) = Some (rreq_texts m)" "texts F rreq_old (rreq_args m) = Some (rreq_texts m)"
  by (simp_all add: rreq_new_def rreq_old_def rreq_args_def rreq_texts_def format_eval number_ends)

lemma rreq_spaced: "spaced rreq_new" "spaced rreq_old"
  unfolding rreq_new_def rreq_old_def by code_simp+

text \<open>The members of a RREQ that a trace shows: all but the channel, the flags and the destination count.\<close>

definition rreq_logged :: "RREQ \<Rightarrow> u8 \<times> u8 \<times> u32 \<times> u32 \<times> u32 \<times> u32 \<times> u32" where
  "rreq_logged m = (rq_type m, rq_hcnt m, rq_rreq_id m, rq_dest_addr m, rq_dest_seqno m, rq_orig_addr m,
     rq_orig_seqno m)"

lemma uint_byte_mod: "uint (w :: u8) mod 4294967296 = uint w"
proof -
  have "uint w < 256" using uint_bounded[of w] by simp
  then show ?thesis by simp
qed

lemma rreq_texts_inj: "rreq_texts m = rreq_texts n \<Longrightarrow> rreq_logged m = rreq_logged n"
proof -
  assume a: "rreq_texts m = rreq_texts n"
  have "nat (uint (rq_type m)) = nat (uint (rq_type n))"
    using a num_inj[of 16 "nat (uint (rq_type m))" "nat (uint (rq_type n))"]
    by (simp add: rreq_texts_def uint_byte_mod)
  then have "rq_type m = rq_type n" by (simp add: word_unat_eq_iff)
  then show ?thesis using a unfolding rreq_texts_def rreq_logged_def
    by (auto dest!: fmt_d_inj intro: unsigned_word_eqI signed_word_eqI)
qed

lemma format_rreq_lines:
  "\<not> ct_tagged s \<Longrightarrow> format_rreq T m off s
     = prints T off (if ct_newtrace s \<noteq> 0 then rreq_new else rreq_old) (rreq_args m) s"
  by (simp add: format_rreq_def rreq_args_def rreq_new_def rreq_old_def Let_def)

lemma equal_rreq_lines:
  assumes "\<not> ct_tagged s" and "off \<le> length (ct_buffer s)"
  shows "\<exists>t u. format_rreq T m off s = Some t \<and> format_rreq T n off s = Some u
    \<and> (ct_buffer t = ct_buffer u \<longleftrightarrow> rreq_logged m = rreq_logged n)"
proof -
  let ?f = "if ct_newtrace s \<noteq> 0 then rreq_new else rreq_old"
  have texts: "texts F ?f (rreq_args k) = Some (rreq_texts k)" for F k by (simp add: rreq_line_texts)
  have "spaced ?f" by (simp add: rreq_spaced)
  then obtain t u where tu: "prints T off ?f (rreq_args m) s = Some t" "prints T off ?f (rreq_args n) s = Some u"
    "ct_buffer t = ct_buffer u \<longrightarrow> rreq_texts m = rreq_texts n"
    using equal_lines_equal_texts[OF _ texts texts assms(2)] by blast
  have "t = u" if "rreq_logged m = rreq_logged n"
    using that tu(1,2) by (simp add: rreq_logged_def rreq_args_def)
  then show ?thesis using tu rreq_texts_inj[of m n] format_rreq_lines[OF assms(1), of T _ off] by metis
qed

section \<open>Chunks of SCTP\<close>

lemma print_chunk_again:
  assumes "print_chunk T p off c s = Some t" and "off \<le> length (ct_buffer s)"
  shows "print_chunk T p off d t = print_chunk T p off d s" and "off \<le> length (ct_buffer t)"
proof -
  obtain x where t: "t = s\<lparr>ct_buffer := take off (ct_buffer s) @ x\<rparr>"
    using assms by (auto simp: print_chunk_def prints_def put_at_def Let_def Option.bind_eq_Some_conv split: if_splits)
  show "off \<le> length (ct_buffer t)" using assms(2) by (simp add: t)
  show "print_chunk T p off d t = print_chunk T p off d s"
    using assms(2) by (simp add: t print_chunk_def prints_def put_at_def Let_def cong: if_cong)
qed

lemma print_chunks_last:
  assumes "for_each cs (print_chunk T p off) s = Some t" and "cs \<noteq> []" and "off \<le> length (ct_buffer s)"
  shows "print_chunk T p off (last cs) s = Some t"
  using assms
proof (induction cs arbitrary: s)
  case Nil
  then show ?case by simp
next
  case (Cons c cs)
  then obtain u where u: "print_chunk T p off c s = Some u" "for_each cs (print_chunk T p off) u = Some t"
    by (auto simp: Option.bind_eq_Some_conv)
  note again = print_chunk_again[OF u(1) Cons.prems(3)]
  show ?case
  proof (cases cs)
    case Nil
    then show ?thesis using u by simp
  next
    case (Cons d ds)
    then show ?thesis using Cons.IH[OF u(2)] again by simp
  qed
qed

end
