(* ===== verification/Trace_Claims.thy ===== *)
theory Trace_Claims
  imports Trace_Facts Mac_Claims Pool_Claims
begin

text \<open>
  What the tracer promises: packets pass through it, a line shows what it is said to show, and where
  it does not.
\<close>

section \<open>A sample\<close>

text \<open>A node with the identifier of its address and an agent that sends a RREQ, traced in the new style.\<close>

definition sample_trace_env :: trace_env where
  "sample_trace_env = \<lparr>t_SEND = CHR ''s'', t_RECV = CHR ''r'', t_DROP = CHR ''D'', t_FWRD = CHR ''f'',
     t_EOT = CHR ''x'', t_const = (\<lambda>_. 200), t_SMALL_LEN = 32, t_MAX_ID_LEN = 16, t_MAX_NODE = 4,
     t_IP_BROADCAST = 0xFFFFFFFF, t_mac_type = ''Mac/802_11'', t_clock = 0, t_TIME = (\<lambda>_. ''0''),
     t_text = (\<lambda>_ _. ''0''), t_info = the (initName True static_p_info),
     t_node_by_address = (\<lambda>a. Some \<lparr>tn_nodeid = a, tn_loc = (0, 0, 0), tn_energy_model = None\<rparr>),
     t_nodeaddr = id, t_bits = (\<lambda>_. []), t_tracer = (\<lambda>_ _ _ _ b. (False, b)), t_nam_status = False,
     t_macSA = (\<lambda>_. 0), t_macDA = (\<lambda>_. 0), t_findAttrLink = (\<lambda>_ _. None), t_lookup = (\<lambda>_. None),
     t_atoi = (\<lambda>_. 0), t_tcl = (\<lambda>_. 1), t_base_command = (\<lambda>_ s. Some (True, s)), t_stamp = id,
     t_pow = (\<lambda>x y. x), t_fp = sample_mac_fp\<rparr>"

definition sample_tracer :: cmu_trace where
  "sample_tracer = \<lparr>ct_tracename = ''RTR'', ct_tracetype = TR_ROUTER, ct_type = CHR ''s'', ct_src = 1,
     ct_target = True, ct_initialized = True, ct_newtrace = 1, ct_nodeColor = [3, 3, 3, 3],
     ct_node = Some \<lparr>tn_nodeid = 1, tn_loc = (0, 0, 0), tn_energy_model = None\<rparr>, ct_buffer = [],
     ct_nbuffer = [], ct_tagged = False, ct_namchannel = False,
     ct_pktTrc = \<lparr>ch_head = None, ch_next = (\<lambda>_. None)\<rparr>, ct_bradius = 0, ct_radius_scaling = 0,
     ct_duration_scaling = 0, ct_out = []\<rparr>"

definition sample_request :: RREQ where
  "sample_request = \<lparr>rq_channel = 0, rq_type = AODV_RREQ, rq_res1 = 0, rq_lr = False, rq_d = False,
     rq_g = False, rq_r = False, rq_j = False, rq_res2 = 0, rq_hcnt = 0, rq_rreq_id = 4,
     rq_dest_addr = 7, rq_dest_seqno = 5, rq_orig_addr = 1, rq_orig_seqno = 3, rq_dest_count = 1\<rparr>"

definition sample_mdart :: mdart_msg where
  "sample_mdart = \<lparr>md_type = 0, md_dstAdd = 0, md_srcAdd = 0, md_dstId = 0, md_srcId = 0, md_forAdd = 0,
     md_forId = 0, md_reqAdd = 0, md_reqId = 0, md_seqNum = 0\<rparr>"

definition sample_aomdv :: hdr_aomdv where
  "sample_aomdv = \<lparr>ah_type = 0, na_rq_type = 0, na_rq_hop_count = 0, na_rq_bcast_id = 0, na_rq_dst = 0,
     na_rq_dst_seqno = 0, na_rq_src = 0, na_rq_src_seqno = 0, na_rp_type = 0, na_rp_hop_count = 0,
     na_rp_dst = 0, na_rp_dst_seqno = 0, na_rp_lifetime = 0, na_rp_bcast_id = 0, na_rp_first_hop = 0\<rparr>"

definition sample_traced :: "RREQ \<Rightarrow> trace_packet" where
  "sample_traced m = \<lparr>pk_ptype = PT_AODVUU, pk_direction = DOWN, pk_size = 52, pk_iface = 0,
     pk_error = 0, pk_prev_hop = 0, pk_next_hop = 0, pk_addr_type = NS_AF_NONE,
     pk_num_forwards = 0, pk_xmit_failure = False, pk_saddr = 1, pk_daddr = -1, pk_sport = 255,
     pk_dport = 255, pk_ttl = 1, pk_aodv = rreq_put m (replicate RREQ_SIZE 0), pk_channel = 0, mp_uid = 9,
     mp_txtime = 0, mp_xmit_reason = 0, mp_RxPr = 0, mp_CPThresh = 0,
     mp_hdr = frame_header MAC_Type_Data MAC_Subtype_Data, tp_opt_num_forwards = 0, tp_flowid = 0,
     tp_arp = \<lparr>arp_op = 0, arp_sha = 0, arp_spa = 0, arp_tha = 0, arp_tpa = 0\<rparr>,
     tp_smac = \<lparr>sh_type = 0, sh_duration = 0, sh_dstAddr = 0, sh_srcAddr = 0\<rparr>,
     tp_sr = \<lparr>sr_num_addrs = 0, sr_route_request = 0, sr_rtreq_seq = 0, sr_route_reply = 0,
       sr_route_reply_len = 0, sr_reply_addrs = [], sr_route_error = 0, sr_num_route_errors = 0,
       sr_down_links = []\<rparr>,
     tp_tcp = \<lparr>tcp_seqno = 0, tcp_ackno = 0\<rparr>, tp_sctp = [], tp_rtp_seqno = 0,
     tp_imep = \<lparr>im_block_flags = 0, im_length = 0\<rparr>,
     tp_tora = \<lparr>th_type = 0, tq_type = 0, tq_dst = 0, tu_type = 0, tu_dst = 0, tu_tau = 0, tu_oid = 0,
       tu_r = 0, tu_delta = 0, tu_id = 0, tc_type = 0, tc_dst = 0, tc_tau = 0, tc_oid = 0\<rparr>,
     tp_hdr_aodv = hdr_aodv.truncate sample_aomdv, tp_aomdv = sample_aomdv,
     tp_mdart = \<lparr>mdart_type = 0, mdart_hello = sample_mdart, mdart_darq = sample_mdart,
       mdart_darp = sample_mdart, mdart_daup = sample_mdart\<rparr>,
     tp_diff_mess_type = 0, tp_lrwpan_attribute = 0\<rparr>"

lemma sample_type_name:
  "type_name sample_trace_env 73 = Some ''AODVUU''" "type_name sample_trace_env 17 = Some ''CtrMcast_Encap''"
  by code_simp+

text \<open>The sample is traced.\<close>

lemma sample_common:
  "\<exists>b. format_mac_common sample_trace_env (sample_traced sample_request) ''---'' 0 sample_tracer
    = Some (sample_tracer\<lparr>ct_buffer := b\<rparr>)"
  by (simp add: format_mac_common_def format_common_new_def format_any_mac_def format_mac_def Let_def
      node_energy_model_def forwarded_op_def prints_def put_at_def sample_trace_env_def sample_tracer_def
      sample_traced_def frame_header_def print_ether_type_def format_eval)

lemma sample_ip:
  "\<exists>c. format_ip sample_trace_env (sample_traced sample_request) off (sample_tracer\<lparr>ct_buffer := b\<rparr>)
    = Some (sample_tracer\<lparr>ct_buffer := c\<rparr>)"
  using sample_type_name(1)
  by (simp add: format_ip_def Let_def prints_def sample_tracer_def sample_traced_def format_eval)

lemma sample_trace: "\<exists>t. trace_recv sample_trace_env (sample_traced sample_request) sample_tracer = Some t"
proof -
  let ?T = sample_trace_env and ?p = "sample_traced sample_request"
  obtain b where b: "format_mac_common ?T ?p ''---'' 0 sample_tracer = Some (sample_tracer\<lparr>ct_buffer := b\<rparr>)"
    using sample_common by blast
  obtain c where c: "format_ip ?T ?p (length b) (sample_tracer\<lparr>ct_buffer := b\<rparr>)
      = Some (sample_tracer\<lparr>ct_buffer := c\<rparr>)" using sample_ip by blast
  have "rreq_at (pk_aodv ?p) = Some sample_request" by (simp add: sample_traced_def rreq_at_put)
  moreover have "arr_get (pk_aodv ?p) 1 = Some AODV_RREQ"
    by (simp add: sample_traced_def rreq_put_def sample_request_def arr_get_def overwrite_def)
  ultimately have "\<exists>t. format_aodvuu ?T ?p (length c) (sample_tracer\<lparr>ct_buffer := c\<rparr>) = Some t"
    using equal_rreq_lines[of "sample_tracer\<lparr>ct_buffer := c\<rparr>" "length c" ?T sample_request sample_request]
    by (auto simp: format_aodvuu_def sample_tracer_def)
  moreover have "node_energy ?T sample_tracer"
    by (simp add: node_energy_def node_energy_model_def sample_trace_env_def)
  moreover have "pk_ptype ?p = 73" by (simp add: sample_traced_def)
  ultimately show ?thesis using b c
    by (auto simp: trace_recv_def format_line_def format_payload_def Let_def sample_tracer_def)
qed

section \<open>Packets pass through\<close>

text \<open>C28: A packet that arrives at a tracer with energy is written as exactly one line, the buffer, and then
  sent on if there is a target and freed otherwise, once. It is the packet that arrived,
  apart from the stamp of an agent's sender and the attribute of the 802.15.4 animation; without energy it is
  only freed. No member but the buffers, the colours and the radius changes.\<close>

theorem trace_passes_packet:
  assumes "trace_recv T p s = Some t"
  shows "settings t = settings s
    \<and> (\<not> node_energy T s \<longrightarrow> ct_out t = Trace_freed p # ct_out s)
    \<and> (node_energy T s \<longrightarrow> (\<exists>q es. same_packet
          (if ct_tracetype s = TR_AGENT \<and> ct_type s = t_SEND T then t_stamp T p else p) q
        \<and> list_all no_packet es
        \<and> ct_out t = (if ct_target s then Trace_sent q else Trace_freed q) # Dump (ct_buffer t) # es @ ct_out s))"
proof (cases "node_energy T s")
  case False
  then show ?thesis using assms by (auto simp: trace_recv_def log_event_def settings_def)
next
  case True
  define x where "x = (if ct_tracetype s = TR_AGENT \<and> ct_type s = t_SEND T then t_stamp T p else p)"
  have "ct_initialized s" using assms True by (auto simp: trace_recv_def split: if_splits)
  then have "format_line T x ''---'' s \<bind> (\<lambda>(q, r). Some (log_event
      (if ct_target (log_event (Dump (ct_buffer r)) r) then Trace_sent q else Trace_freed q)
      (log_event (Dump (ct_buffer r)) r))) = Some t"
    using assms True by (simp add: trace_recv_def Let_def x_def)
  then obtain q r where r: "format_line T x ''---'' s = Some (q, r)"
    and t: "t = log_event (if ct_target r then Trace_sent q else Trace_freed q)
      (log_event (Dump (ct_buffer r)) r)"
    by (cases "format_line T x ''---'' s") (auto simp: log_event_def)
  have "logs_packet x s (q, r)" by (rule okM_D[OF logs_format_line[OF logs_refl] r])
  then have l: "settings r = settings s" "\<exists>es. list_all no_packet es \<and> ct_out r = es @ ct_out s"
    "same_packet x q" by (simp_all add: logs_def)
  have "settings t = settings s" "ct_target r = ct_target s" "ct_buffer t = ct_buffer r"
    "ct_out t = (if ct_target r then Trace_sent q else Trace_freed q) # Dump (ct_buffer r) # ct_out r"
    using l(1) by (simp_all add: t log_event_def settings_def)
  then show ?thesis using True l(2,3) unfolding x_def by auto
qed

theorem trace_passes_packet_witness:
  "\<exists>t q es. trace_recv sample_trace_env (sample_traced sample_request) sample_tracer = Some t
    \<and> same_packet (sample_traced sample_request) q \<and> list_all no_packet es
    \<and> ct_out t = Trace_sent q # Dump (ct_buffer t) # es"
proof -
  obtain t where t: "trace_recv sample_trace_env (sample_traced sample_request) sample_tracer = Some t"
    using sample_trace by blast
  have "node_energy sample_trace_env sample_tracer"
    by (simp add: node_energy_def node_energy_model_def sample_trace_env_def)
  moreover have "ct_out sample_tracer = []" "ct_target sample_tracer" "ct_tracetype sample_tracer \<noteq> TR_AGENT"
    by (simp_all add: sample_tracer_def)
  ultimately show ?thesis using trace_passes_packet[OF t] t by auto
qed

lemma dropped_packet_freed:
  assumes "trace_recv_drop T p why s = Some t"
  shows "settings t = settings s \<and> (\<exists>q es. same_packet p q \<and> ct_out t = Trace_freed q # es @ ct_out s
    \<and> (\<forall>e\<in>set es. no_packet e \<or> e = Dump (ct_buffer t)))"
proof (cases "node_energy T s")
  case False
  then show ?thesis using assms
    by (intro conjI exI[of _ p] exI[of _ "[]"]) (auto simp: trace_recv_drop_def log_event_def settings_def split: if_splits)
next
  case True
  from assms True obtain q r where r: "format_line T p why s = Some (q, r)"
    and t: "t = log_event (Trace_freed q) (log_event (Dump (ct_buffer r)) r)"
    by (auto simp: trace_recv_drop_def Option.bind_eq_Some_conv split: if_splits)
  have "logs_packet p s (q, r)" by (rule okM_D[OF logs_format_line[OF logs_refl] r])
  then obtain es where es: "settings r = settings s" "same_packet p q" "list_all no_packet es"
    "ct_out r = es @ ct_out s" by (auto simp: logs_def)
  show ?thesis
    by (intro conjI exI[of _ q] exI[of _ "Dump (ct_buffer r) # es"])
      (use es in \<open>auto simp: t log_event_def settings_def list_all_iff\<close>)
qed

section \<open>AODV-UU messages\<close>



section \<open>Names of frames\<close>

text \<open>A frame of the MAC as the tracer below it sees it.\<close>

definition seen :: "trace_packet \<Rightarrow> mac_packet \<Rightarrow> trace_packet" where
  "seen p q = p\<lparr>pk_ptype := PT_MAC, mp_hdr := mp_hdr q\<rparr>"

definition named :: "trace_env \<Rightarrow> trace_packet \<Rightarrow> string set \<Rightarrow> mac_packet option \<Rightarrow> bool" where
  "named T p ns pkt \<longleftrightarrow> (\<forall>q. pkt = Some q \<longrightarrow> packet_name T False (seen p q) \<in> Some ` ns)"


text \<open>A station that protects every frame by an RTS.\<close>

definition rts_memory :: mac where
  "rts_memory = sample_memory\<lparr>macmib := sample_macmib\<lparr>RTSThreshold := 10\<rparr>\<rparr>"

lemma rts_send:
  obtains s q where "(mac_step sample_mac_env)\<^sup>*\<^sup>* (Mac802_11_init rts_memory) s" "pktRTS s = Some q"
proof -
  let ?s = "(Mac802_11_init rts_memory)\<lparr>cache_node_count := 5, cache := Some [0, 0, 0, 0, 0, 0]\<rparr>"
  have "mac_command sample_mac_env [''mac'', ''nodes'', ''5''] (Mac802_11_init rts_memory) = Some (True, ?s)"
    by (simp add: mac_command_def new_cache_def Mac802_11_init_def sample_mac_env_def numeral_eq_Suc)
  then have 1: "mac_step sample_mac_env (Mac802_11_init rts_memory) ?s" by (rule step_command)
  have "case recv sample_mac_env sample_frame True ?s of Some t \<Rightarrow> pktRTS t \<noteq> None | None \<Rightarrow> False"
    by (simp add: recv_def send_def sendDATA_def sendRTS_def contend_def wait_difs_def
        backoff_start_def is_idle_def sample_defs rts_memory_def sample_mac_env_def sample_start_def Let_def
        sample_frame_def set_hdr_def frame_header_def needs_rts_def getHdrLen11_def getPLCPhdrLen_def
        txtime_def new_frame_def txtime_size_def sample_mac_fp_def d_less_def d_key_def d_mag_def d_neg_def)
  then obtain t where 2: "recv sample_mac_env sample_frame True ?s = Some t" "pktRTS t \<noteq> None"
    by (auto split: option.splits)
  have "(mac_step sample_mac_env)\<^sup>*\<^sup>* (Mac802_11_init rts_memory) t"
    using 1 step_recv[OF 2(1)] by (meson converse_rtranclp_into_rtranclp r_into_rtranclp)
  then show ?thesis using 2(2) that by blast
qed


section \<open>Names that are too long\<close>

text \<open>The animation copies the name of a packet's type into eleven characters: it overflows them for
  exactly nine types, which have names of more than ten.\<close>

theorem nam_name_overflows:
  assumes "initName True static_p_info = Some (t_info T)" and "pk_ptype p \<noteq> PT_MAC" and "pk_ptype p \<le> 74"
  shows "nam_ptype T p = None \<longleftrightarrow> pk_ptype p \<in> {PT_CtrMcast_Encap, PT_CtrMcast_Decap, PT_TEARDOWN,
    PT_TFRC_ACK, PT_BLTRACE, PT_DCCP_REQ, PT_DCCP_RESP, PT_DCCP_DATAACK, PT_DCCP_CLOSEREQ}"
proof -
  note tbl = initName_table[OF assms(1)]
  have long: "map (\<lambda>n. 11 \<le> length (the n)) (names_after_init True)
    = map (\<lambda>t. t \<in> set [17, 18, 23, 43, 60, 64, 65, 68, 70]) [0..<75]"
    by code_simp
  have i: "pk_ptype p < length (pi_name (t_info T))" using assms(3) init_names tbl by simp
  then obtain n where n: "pi_name (t_info T) ! pk_ptype p = Some n"
    using init_names tbl by (auto simp: list_all_length)
  then have "type_name T (pk_ptype p) = Some n"
    using assms(3) i tbl by (simp add: type_name_def p_info_name_def arr_get_def)
  moreover have "11 \<le> length n \<longleftrightarrow> pk_ptype p \<in> set [17, 18, 23, 43, 60, 64, 65, 68, 70]"
    using arg_cong[OF long, of "\<lambda>xs. xs ! pk_ptype p"] i n init_names tbl by simp
  ultimately show ?thesis using assms(2) by (simp add: nam_ptype_def)
qed

theorem nam_name_overflows_witness:
  "nam_ptype sample_trace_env ((sample_traced sample_request)\<lparr>pk_ptype := PT_DCCP_REQ\<rparr>) = None
    \<and> nam_ptype sample_trace_env (sample_traced sample_request) \<noteq> None"
proof -
  have "initName True static_p_info \<noteq> None"
    using init_names by (auto simp: names_after_init_def split: option.splits)
  then have info: "initName True static_p_info = Some (t_info sample_trace_env)"
    by (auto simp: sample_trace_env_def)
  show ?thesis
    using nam_name_overflows[OF info, of "(sample_traced sample_request)\<lparr>pk_ptype := PT_DCCP_REQ\<rparr>"]
      nam_name_overflows[OF info, of "sample_traced sample_request"]
    by (simp add: sample_traced_def)
qed

section \<open>Chunks of SCTP\<close>

text \<open>All chunks of an SCTP packet are printed at the same place: the line shows the last one only.\<close>

theorem sctp_shows_last_chunk:
  assumes "format_sctp T p off s = Some t" and "tp_sctp p \<noteq> []" and "off \<le> length (ct_buffer s)"
  shows "print_chunk T p off (last (tp_sctp p)) s = Some t"
  using print_chunks_last assms unfolding format_sctp_def by blast

section \<open>Tracers of dynamic libraries\<close>

text \<open>The objects of dynamic libraries, asked as a \<open>handler_chain\<close>.\<close>

interpretation tracers: handler_chain nxt fmt "\<lambda>r. r" "format_unknow fmt nxt" for nxt fmt
  by unfold_locales (subst format_unknow.simps, simp split: prod.split option.split)

lemma tracers_asked_in_turn:
  assumes "chain_of (ct_pktTrc s) (pt # pts)" and "first_answer (\<lambda>a. t_tracer T a p off (ct_newtrace s)) (\<lambda>r. r)
    (pt # pts) (ct_buffer s) = Some (r, buf)"
  shows "format_other T p off s = Some (s\<lparr>ct_buffer := buf\<rparr>)"
  using tracers.run_linked[of "ch_next (ct_pktTrc s)" pt "pt # pts"] assms
  by (auto simp: chain_of_def format_other_def)

end
