(* ===== verification/Scenario.thy ===== *)
theory Scenario
  imports Printf
begin

text \<open>
  The generators of scenarios, \<open>data-maker/make.cpp\<close> and \<open>data-maker/channel.cpp\<close> (without \<open>CONSOLE\<close>):
  the first reads the numbers of nodes, flows and moves from a file and writes the Tcl script of the
  simulation, the second turns a table of costs into C code. Reading is \<open>scanf\<close>, character by character; how a
  \<open>double\<close> is read and written is a parameter. \<open>None\<close> is undefined behaviour: an \<open>int\<close> out of
  range, a variable used although \<open>scanf\<close> did not assign it, a word that overflows its array.
\<close>

section \<open>Reading\<close>

definition is_space :: "char \<Rightarrow> bool" where
  "is_space c \<longleftrightarrow> c = CHR '' '' \<or> (let n = of_char c :: nat in 9 \<le> n \<and> n \<le> 13)"

text \<open>\<open>%d\<close>: a number and the rest of the input, a mismatch and where it was, or a number out of range.\<close>

datatype scan = Got int string | Mismatch string | Overflow

definition scan_d :: "string \<Rightarrow> scan" where
  "scan_d s =
     (let s = dropWhile is_space s;
        sign = (s \<noteq> [] \<and> (hd s = CHR ''-'' \<or> hd s = CHR ''+''));
        neg = (s \<noteq> [] \<and> hd s = CHR ''-'');
        s = (if sign then tl s else s);
        v = int (num_val (takeWhile is_digit s));
        v = (if neg then - v else v)
      in if takeWhile is_digit s = [] then Mismatch s
         else if v < - (2 ^ 31) \<or> 2 ^ 31 \<le> v then Overflow
         else Got v (dropWhile is_digit s))"

text \<open>Several \<open>%d\<close> in a row; fewer values than asked for after a mismatch.\<close>

primrec scan_ints :: "nat \<Rightarrow> string \<Rightarrow> (int list \<times> string) option" where
  "scan_ints 0 s = Some ([], s)"
| "scan_ints (Suc n) s = (case scan_d s of
     Overflow \<Rightarrow> None
   | Mismatch r \<Rightarrow> Some ([], r)
   | Got v r \<Rightarrow> do { (vs, r) \<leftarrow> scan_ints n r; Some (v # vs, r) })"

text \<open>\<open>n\<close> local variables that are used afterwards.\<close>

definition scan_locals :: "nat \<Rightarrow> string \<Rightarrow> (int list \<times> string) option" where
  "scan_locals n s = do { (vs, r) \<leftarrow> scan_ints n s; if length vs = n then Some (vs, r) else None }"

text \<open>\<open>%s\<close> into an array of the given size, which the terminating null character must fit into, too.\<close>

definition scan_word :: "nat \<Rightarrow> string \<Rightarrow> (string \<times> string) option" where
  "scan_word n s =
     (let s = dropWhile is_space s; w = takeWhile (\<lambda>c. \<not> is_space c) s
      in if w = [] \<or> n \<le> length w then None else Some (w, dropWhile (\<lambda>c. \<not> is_space c) s))"

text \<open>\<open>%lf\<close> reads a double, and writes it with six decimals.\<close>

record lf =
  lf_scan :: "string \<Rightarrow> (double \<times> string) option"
  lf_show :: "double \<Rightarrow> string"

section \<open>The fixed parts of the script\<close>

definition dq :: string where "dq = [CHR 0x22]"
definition bs :: string where "bs = [CHR 0x5C]"

definition int_ok :: "int \<Rightarrow> bool" where
  "int_ok i \<longleftrightarrow> - (2 ^ 31) \<le> i \<and> i < 2 ^ 31"

definition scen_init :: "int \<Rightarrow> int \<Rightarrow> string list" where
  "scen_init normal noise =
    [''Mac/802_11 set dataRate_ 5.4e6 ;# rate for data frames in Mbps'',
     ''set val(chan) Channel/WirelessChannel ;# channel type'',
     ''set val(prop) Propagation/TwoRayGround ;# radio-propagation model'',
     ''set val(netif) Phy/WirelessPhy ;# network interface type'',
     ''set val(mac) Mac/802_11 ;# MAC type'',
     ''set val(ifq) Queue/DropTail/PriQueue ;# interface queue type'',
     ''set val(ll) LL ;# link layer type'',
     ''set val(ant) Antenna/OmniAntenna ;# antenna model'',
     ''set val(ifqlen) 50 ;# max packet in ifq'',
     ''set val(rp) AODVUU ;# routing protocol'',
     ''set val(x) 1500 ;# X dimension of topography'',
     ''set val(y) 1500 ;# Y dimension of topography'',
     ''set val(stop) 42 ;# nam stop time'',
     ''set val(nn) '' @ fmt_d (normal + noise) @ '' ;# number of mobilenodes'',
     ''set val(nc) 3 ;# number of channels'',
     ''set val(ni) 3 ;# number of interfaces, <= number of channels'',
     ''set pktsize 1000 ;# packet size in bytes'',
     ''set pktrate 0.01 ;# packet rate in seconds'',
     ''set filename test'',
     ''puts '' @ dq @ ''Ad-Hoc Wireless Network in Chain Topologies - $val(nn) Nodes, $val(nc) Channels, $val(ni) Interfaces'' @ dq,
     ''set ns_ [new Simulator]'',
     ''set topo [new Topography]'',
     ''$topo load_flatgrid $val(x) $val(y)'',
     ''set god_ [create-god [expr $val(nn)*$val(nc)]]'',
     ''set tracefd [open $filename.tr w]'',
     ''$ns_ trace-all $tracefd'',
     ''$ns_ use-newtrace'',
     ''set namfile [open $filename.nam w]'',
     ''$ns_ namtrace-all $namfile'',
     ''$ns_ namtrace-all-wireless $namfile $val(x) $val(y)'',
     ''for {set i 0} {$i < $val(nc)} {incr i} {'',
     ''set chan($i) [new $val(chan)]'',
     ''}'',
     ''$ns_ node-config -adhocRouting $val(rp) '' @ bs,
     ''-llType $val(ll) '' @ bs,
     ''-macType $val(mac) '' @ bs,
     ''-ifqType $val(ifq) '' @ bs,
     ''-ifqLen $val(ifqlen) '' @ bs,
     ''-antType $val(ant) '' @ bs,
     ''-propType $val(prop) '' @ bs,
     ''-phyType $val(netif) '' @ bs,
     ''-topoInstance $topo '' @ bs,
     ''-agentTrace ON '' @ bs,
     ''-routerTrace ON '' @ bs,
     ''-macTrace OFF '' @ bs,
     ''-movementTrace OFF '' @ bs,
     ''-ifNum $val(ni)    '' @ bs,
     ''-workMode 0 '' @ bs,
     ''-noiseChannel 0 '',
     ''puts '' @ dq @ ''begin to add channel'' @ dq,
     ''$ns_ change-numifs $val(nc)'',
     ''for {set i 0} {$i < $val(nc)} {incr i} {'',
     ''  $ns_ add-channel $i $chan($i)'',
     ''}'',
     ''puts '' @ dq @ ''begin to create nodes'' @ dq,
     ''for {set i 0} {$i < '' @ fmt_d normal @ ''} {incr i} {'',
     ''  set n($i) [$ns_ node]'',
     ''  $god_ new_node $n($i)'',
     ''}'',
     ''$ns_ node-config -workMode -1 '' @ bs,
     ''-noiseChannel -1 '',
     ''for {set i '' @ fmt_d normal @ ''} {$i < '' @ fmt_d (normal + noise) @ ''} {incr i} {'',
     ''  set n($i) [$ns_ node]'',
     ''  $god_ new_node $n($i)'',
     ''}'',
     ''puts '' @ dq @ ''created nodes'' @ dq,
     ''set nodedist 250'']"

definition scen_finish :: "string list" where
  "scen_finish =
    [''set last_node_id [expr $val(nn)-1]'',
     ''proc finish {} {'',
     ''global ns_ tracefd filename pktsize last_node_id'',
     ''    global namfile'',
     ''    $ns_ flush-trace'',
     ''    close $tracefd'',
     ''    close $namfile'',
     ''    exec nam $filename.nam &'',
     ''    exit 0'',
     ''}'',
     ''for {set i 0} {$i < $val(nn) } { incr i } {'',
     ''    $ns_ at $val(stop) '' @ dq @ ''$n($i) reset'' @ dq,
     ''}'',
     ''$ns_ at $val(stop) '' @ dq @ ''$ns_ nam-end-wireless $val(stop)'' @ dq,
     ''$ns_ at $val(stop) '' @ dq @ ''finish'' @ dq,
     ''$ns_ at $val(stop) '' @ dq @ ''puts '' @ bs @ dq @ ''done'' @ bs @ dq @ '' ; $ns_ halt'' @ dq,
     ''$ns_ run'']"

section \<open>Nodes, flows and moves\<close>

definition node_lines :: "int \<Rightarrow> int \<Rightarrow> int \<Rightarrow> string list" where
  "node_lines i x y =
    [''$n('' @ fmt_d i @ '') set X_ '' @ fmt_d x,
     ''$n('' @ fmt_d i @ '') set Y_ '' @ fmt_d y,
     ''$n('' @ fmt_d i @ '') set Z_ '' @ fmt_d 0,
     ''$ns_ initial_node_pos $n('' @ fmt_d i @ '') '' @ fmt_d 25,
     ''$n('' @ fmt_d i @ '') random-motion '' @ fmt_d 0]"

text \<open>The lines of a flow from \<open>src\<close> to \<open>dst\<close> with an agent, a sink and a source of traffic.\<close>

definition agent_lines ::
  "string \<Rightarrow> string \<Rightarrow> string \<Rightarrow> string \<Rightarrow> string \<Rightarrow> string \<Rightarrow> string \<Rightarrow> string \<Rightarrow> string \<Rightarrow> string list"
where
  "agent_lines agent agent_class sink sink_class cbr sou tar t1 t2 =
    [''set '' @ agent @ '' [new Agent/'' @ agent_class @ '']'',
     ''$ns_ attach-agent '' @ sou @ '' $'' @ agent,
     ''set '' @ sink @ '' [new Agent/'' @ sink_class @ '']'',
     ''$ns_ attach-agent '' @ tar @ '' $'' @ sink,
     ''$ns_ connect $'' @ agent @ '' $'' @ sink,
     ''set '' @ cbr @ '' [new Application/Traffic/CBR]'',
     ''$'' @ cbr @ '' attach-agent $'' @ agent,
     ''$'' @ cbr @ '' set packetSize_ $pktsize'',
     ''$'' @ cbr @ '' set interval_ $pktrate'',
     ''$ns_ at '' @ t1 @ '' '' @ dq @ ''$'' @ cbr @ '' start'' @ dq,
     ''$ns_ at '' @ t2 @ '' '' @ dq @ ''$'' @ cbr @ '' stop'' @ dq,
     []]"

definition flow_lines :: "lf \<Rightarrow> int \<Rightarrow> int \<Rightarrow> int \<Rightarrow> double \<Rightarrow> double \<Rightarrow> string \<Rightarrow> string list" where
  "flow_lines L i s t T1 T2 type =
     (let sink = ''sink'' @ fmt_d i; cbr = ''cbr'' @ fmt_d i;
        sou = ''$n('' @ fmt_d s @ '')''; tar = ''$n('' @ fmt_d t @ '')''
      in if hd type = CHR ''T''
         then agent_lines (''tcp'' @ fmt_d i) ''TCP'' sink ''TCPSink'' cbr sou tar (lf_show L T1) (lf_show L T2)
         else agent_lines (''udp'' @ fmt_d i) ''UDP'' sink ''Null'' cbr sou tar (lf_show L T1) (lf_show L T2))"

definition move_line :: "lf \<Rightarrow> double \<Rightarrow> int \<Rightarrow> int \<Rightarrow> int \<Rightarrow> int \<Rightarrow> string" where
  "move_line L tm pt x y v = ''$ns_ at '' @ lf_show L tm @ '' '' @ dq @ ''$n('' @ fmt_d pt @ '') setdest ''
     @ fmt_d x @ '' '' @ fmt_d y @ '' '' @ fmt_d v @ dq"

section \<open>The program\<close>

text \<open>Each loop reads from the rest of the input and appends to the script.\<close>

definition place_node :: "int \<Rightarrow> string \<times> string list \<Rightarrow> (string \<times> string list) option" where
  "place_node i st = (case st of (s, script) \<Rightarrow> do {
     (vs, r) \<leftarrow> scan_locals 2 s;
     Some (r, script @ node_lines i (vs ! 0) (vs ! 1))
   })"

definition add_flow :: "lf \<Rightarrow> int \<Rightarrow> string \<times> string list \<Rightarrow> (string \<times> string list) option" where
  "add_flow L i st = (case st of (s, script) \<Rightarrow> do {
     (vs, r) \<leftarrow> scan_locals 2 s;
     (T1, r) \<leftarrow> lf_scan L r;
     (T2, r) \<leftarrow> lf_scan L r;
     (type, r) \<leftarrow> scan_word 5 r;
     Some (r, script @ flow_lines L i (vs ! 0) (vs ! 1) T1 T2 type)
   })"

definition add_move :: "lf \<Rightarrow> int \<Rightarrow> string \<times> string list \<Rightarrow> (string \<times> string list) option" where
  "add_move L i st = (case st of (s, script) \<Rightarrow> do {
     (tm, r) \<leftarrow> lf_scan L s;
     (vs, r) \<leftarrow> scan_locals 4 r;
     Some (r, script @ [move_line L tm (vs ! 0) (vs ! 1) (vs ! 2) (vs ! 3)])
   })"

text \<open>The four numbers are global variables, 0 if they are not read.\<close>

definition make_main :: "lf \<Rightarrow> string \<Rightarrow> string list option" where
  "make_main L input = do {
     (vs, r) \<leftarrow> scan_ints 4 input;
     let vs = vs @ replicate (4 - length vs) 0;
     let normal = vs ! 0;
     let flows = vs ! 1;
     let noise = vs ! 2;
     let moves = vs ! 3;
     if \<not> int_ok (normal + noise) then None else do {
       st \<leftarrow> for_each [0..normal + noise - 1] place_node (r, scen_init normal noise @ [[]]);
       st \<leftarrow> for_each [0..flows - 1] (add_flow L) (fst st, snd st @ [[]]);
       st \<leftarrow> for_each [0..moves - 1] (add_move L) st;
       Some (snd st @ [[]] @ scen_finish)
     }
   }"

section \<open>Costs of channels\<close>

text \<open>An entry gives the cost of a channel between two nodes; the code asks for both directions.\<close>

definition cost_lines :: "int \<Rightarrow> int \<Rightarrow> int \<Rightarrow> int \<Rightarrow> string list" where
  "cost_lines s t ch cost =
    [''if (src == '' @ fmt_d s @ '' && dst == '' @ fmt_d t @ '' && channel == '' @ fmt_d ch @ '')'',
     ''        return '' @ fmt_d cost @ '';'']"

definition channel_entry :: "int \<Rightarrow> string \<times> string list \<Rightarrow> (string \<times> string list) option" where
  "channel_entry i st = (case st of (r, script) \<Rightarrow> do {
     (vs, r) \<leftarrow> scan_locals 4 r;
     let s = vs ! 0;
     let t = vs ! 1;
     Some (r, script @ cost_lines s t (vs ! 2) (vs ! 3) @ cost_lines t s (vs ! 2) (vs ! 3))
   })"

text \<open>The number of entries is a local variable.\<close>

definition channel_main :: "string \<Rightarrow> string list option" where
  "channel_main input = do {
     (vs, r) \<leftarrow> scan_locals 1 input;
     st \<leftarrow> for_each [1..vs ! 0] channel_entry (r, []);
     Some (snd st)
   }"

end
