(* ===== verification/Scenario_Claims.thy ===== *)
theory Scenario_Claims
  imports Scenario
begin

text \<open>
  What the scenario generators write: from a file with the words of a scenario, in any layout, \<open>make\<close>
  writes the script of that scenario, and the costs that \<open>channel\<close> turns into code are symmetric.
\<close>

section \<open>Words\<close>

function words :: "string \<Rightarrow> string list" where
  "words s = (let s = dropWhile is_space s in
     if s = [] then [] else takeWhile (\<lambda>c. \<not> is_space c) s # words (dropWhile (\<lambda>c. \<not> is_space c) s))"
  by pat_completeness auto
termination
proof (relation "measure length")
  fix s x assume "x = dropWhile is_space s" "x \<noteq> []"
  then have hd: "\<not> is_space (hd x)" using hd_dropWhile[of is_space s] by simp
  have "length x \<le> length s" using \<open>x = _\<close> length_dropWhile by simp
  moreover obtain c cs where "x = c # cs" using \<open>x \<noteq> []\<close> by (cases x) auto
  ultimately show "(dropWhile (\<lambda>c. \<not> is_space c) x, s) \<in> measure length"
    using hd length_dropWhile[of "\<lambda>c. \<not> is_space c" cs] by simp
qed simp

declare words.simps [simp del]

lemma words_Cons:
  assumes "words s = w # ws"
  obtains r where "dropWhile is_space s = w @ r" and "w \<noteq> []" and "\<forall>c\<in>set w. \<not> is_space c"
    and "r = [] \<or> is_space (hd r)" and "words r = ws"
proof -
  let ?x = "dropWhile is_space s"
  have "words s = (if ?x = [] then []
      else takeWhile (\<lambda>c. \<not> is_space c) ?x # words (dropWhile (\<lambda>c. \<not> is_space c) ?x))"
    by (subst words.simps) (simp only: Let_def)
  then have x: "?x \<noteq> []" and w: "w = takeWhile (\<lambda>c. \<not> is_space c) ?x"
    and ws: "words (dropWhile (\<lambda>c. \<not> is_space c) ?x) = ws"
    using assms by (simp_all split: if_splits)
  have "\<not> is_space (hd ?x)" using x by (rule hd_dropWhile)
  then have "w \<noteq> []" unfolding w using x by (simp add: takeWhile_eq_Nil_iff)
  moreover have "?x = w @ dropWhile (\<lambda>c. \<not> is_space c) ?x"
    unfolding w by (rule takeWhile_dropWhile_id[symmetric])
  moreover have "\<forall>c\<in>set w. \<not> is_space c" unfolding w by (auto dest: set_takeWhileD)
  moreover have "dropWhile (\<lambda>c. \<not> is_space c) ?x = [] \<or> is_space (hd (dropWhile (\<lambda>c. \<not> is_space c) ?x))"
    using hd_dropWhile[of "\<lambda>c. \<not> is_space c" ?x] by blast
  ultimately show ?thesis using ws by (intro that)
qed

section \<open>Reading numbers\<close>

lemma digit_code: "d < 10 \<Longrightarrow> of_char (digit d) = (48 + d :: nat)"
  by (simp add: digit_def)

lemma digit_facts:
  assumes "d < 10"
  shows "is_digit (digit d)" and "digit_val (digit d) = d"
  using digit_code[OF assms] assms by (simp_all add: is_digit_def digit_val_def Let_def)

lemma num_is_digits: "list_all is_digit (num 10 n)"
proof (induction "10 :: nat" n rule: num.induct)
  case (1 n)
  then show ?case by (subst num.simps) (simp add: digit_facts)
qed

lemma num_val_num: "num_val (num 10 n) = n"
proof (induction "10 :: nat" n rule: num.induct)
  case (1 n)
  then show ?case
    by (cases "n < 10") (subst num.simps, simp add: num_val_def digit_facts)+
qed

lemma hd_num: "hd (num 10 n) \<noteq> CHR ''-'' \<and> hd (num 10 n) \<noteq> CHR ''+''"
proof -
  have "is_digit (hd (num 10 n))" using num_is_digits[of n] by (cases "num 10 n") auto
  moreover have "\<not> is_digit (CHR ''-'')" "\<not> is_digit (CHR ''+'')" by (simp_all add: is_digit_def)
  ultimately show ?thesis by metis
qed

lemma space_not_digit: "is_space c \<Longrightarrow> \<not> is_digit c"
  by (auto simp: is_space_def is_digit_def Let_def)

lemma take_digits:
  assumes "r = [] \<or> is_space (hd r)"
  shows "takeWhile is_digit (num 10 n @ r) = num 10 n" and "dropWhile is_digit (num 10 n @ r) = r"
proof -
  have "r = [] \<or> \<not> is_digit (hd r)" using assms space_not_digit by blast
  then have r: "takeWhile is_digit r = []" "dropWhile is_digit r = r" by (cases r; simp)+
  have "\<forall>c\<in>set (num 10 n). is_digit c" using num_is_digits by (simp add: list_all_iff)
  then show "takeWhile is_digit (num 10 n @ r) = num 10 n" "dropWhile is_digit (num 10 n @ r) = r"
    using r by (simp_all add: takeWhile_append2 dropWhile_append2)
qed

lemma scan_d_word:
  assumes "words s = fmt_d v # ws" and "int_ok v"
  obtains r where "scan_d s = Got v r" and "words r = ws"
proof -
  obtain r where r: "dropWhile is_space s = fmt_d v @ r" "r = [] \<or> is_space (hd r)" "words r = ws"
    using words_Cons[OF assms(1)] by blast
  have "scan_d s = Got v r"
  proof (cases "v < 0")
    case True
    then show ?thesis using r(1) assms(2) take_digits[OF r(2)]
      by (simp add: scan_d_def fmt_d_def num_val_num int_ok_def Let_def)
  next
    case False
    have "hd (num 10 (nat v) @ r) \<noteq> CHR ''-''" "hd (num 10 (nat v) @ r) \<noteq> CHR ''+''"
      using hd_num by simp_all
    then show ?thesis using False r(1) assms(2) take_digits[OF r(2)]
      by (simp add: scan_d_def fmt_d_def num_val_num int_ok_def Let_def)
  qed
  then show ?thesis using that r(3) by blast
qed

lemma scan_ints_words:
  assumes "words s = map fmt_d vs @ ws" and "\<forall>v\<in>set vs. int_ok v"
  obtains r where "scan_ints (length vs) s = Some (vs, r)" and "words r = ws"
  using assms
proof (induction vs arbitrary: s thesis)
  case Nil
  then show ?case by simp
next
  case (Cons v vs)
  have "words s = fmt_d v # map fmt_d vs @ ws" using Cons.prems by simp
  then obtain q where q: "scan_d s = Got v q" "words q = map fmt_d vs @ ws"
    using scan_d_word Cons.prems(3) by (metis list.set_intros(1))
  obtain r where "scan_ints (length vs) q = Some (vs, r)" "words r = ws"
    using Cons.IH[OF _ q(2)] Cons.prems(3) by auto
  then show ?case using Cons.prems(1)[of r] q by simp
qed

lemma scan_locals_words:
  assumes "words s = map fmt_d vs @ ws" and "\<forall>v\<in>set vs. int_ok v" and "length vs = n"
  obtains r where "scan_locals n s = Some (vs, r)" and "words r = ws"
proof -
  obtain r where "scan_ints (length vs) s = Some (vs, r)" "words r = ws"
    using scan_ints_words[OF assms(1,2)] by blast
  then show ?thesis using that[of r] assms(3) by (simp add: scan_locals_def)
qed

lemma scan_word_word:
  assumes "words s = w # ws" and "length w < n"
  obtains r where "scan_word n s = Some (w, r)" and "words r = ws"
proof -
  obtain r where r: "dropWhile is_space s = w @ r" "w \<noteq> []" "\<forall>c\<in>set w. \<not> is_space c"
    "r = [] \<or> is_space (hd r)" "words r = ws"
    using words_Cons[OF assms(1)] by blast
  have "takeWhile (\<lambda>c. \<not> is_space c) r = []" "dropWhile (\<lambda>c. \<not> is_space c) r = r"
    using r(4) by (cases r; simp)+
  then have "takeWhile (\<lambda>c. \<not> is_space c) (w @ r) = w" "dropWhile (\<lambda>c. \<not> is_space c) (w @ r) = r"
    using r(3) by (simp_all add: takeWhile_append2 dropWhile_append2)
  then have "scan_word n s = Some (w, r)" using r(1,2) assms(2) by (simp add: scan_word_def Let_def)
  then show ?thesis using that r(5) by blast
qed

section \<open>Scenarios\<close>

text \<open>A scenario, the words that describe it to the generator, and the script that it stands for.\<close>

record scenario =
  sc_normal :: int
  sc_noise :: int
  sc_nodes :: "(int \<times> int) list"
  sc_flows :: "(int \<times> int \<times> double \<times> double \<times> string) list"
  sc_moves :: "(double \<times> int \<times> int \<times> int \<times> int) list"

definition node_words :: "int \<times> int \<Rightarrow> string list" where
  "node_words n = (case n of (x, y) \<Rightarrow> map fmt_d [x, y])"

definition flow_words ::
  "(double \<Rightarrow> string) \<Rightarrow> int \<times> int \<times> double \<times> double \<times> string \<Rightarrow> string list" where
  "flow_words W f = (case f of (s, t, T1, T2, type) \<Rightarrow> map fmt_d [s, t] @ [W T1, W T2, type])"

definition move_words ::
  "(double \<Rightarrow> string) \<Rightarrow> double \<times> int \<times> int \<times> int \<times> int \<Rightarrow> string list" where
  "move_words W m = (case m of (tm, pt, x, y, v) \<Rightarrow> W tm # map fmt_d [pt, x, y, v])"

definition scenario_words :: "(double \<Rightarrow> string) \<Rightarrow> scenario \<Rightarrow> string list" where
  "scenario_words W sc =
     map fmt_d [sc_normal sc, int (length (sc_flows sc)), sc_noise sc, int (length (sc_moves sc))]
     @ concat (map node_words (sc_nodes sc)) @ concat (map (flow_words W) (sc_flows sc))
     @ concat (map (move_words W) (sc_moves sc))"

primrec numbered :: "(int \<Rightarrow> 'a \<Rightarrow> string list) \<Rightarrow> int \<Rightarrow> 'a list \<Rightarrow> string list" where
  "numbered lines i [] = []"
| "numbered lines i (x # xs) = lines i x @ numbered lines (i + 1) xs"

definition node_part :: "int \<Rightarrow> int \<times> int \<Rightarrow> string list" where
  "node_part i n = (case n of (x, y) \<Rightarrow> node_lines i x y)"

definition flow_part :: "lf \<Rightarrow> int \<Rightarrow> int \<times> int \<times> double \<times> double \<times> string \<Rightarrow> string list" where
  "flow_part L i f = (case f of (s, t, T1, T2, type) \<Rightarrow> flow_lines L i s t T1 T2 type)"

definition move_part :: "lf \<Rightarrow> int \<Rightarrow> double \<times> int \<times> int \<times> int \<times> int \<Rightarrow> string list" where
  "move_part L i m = (case m of (tm, pt, x, y, v) \<Rightarrow> [move_line L tm pt x y v])"

definition scenario_script :: "lf \<Rightarrow> scenario \<Rightarrow> string list" where
  "scenario_script L sc =
     scen_init (sc_normal sc) (sc_noise sc) @ [[]]
     @ numbered node_part 0 (sc_nodes sc) @ [[]]
     @ numbered (flow_part L) 0 (sc_flows sc)
     @ numbered (move_part L) 0 (sc_moves sc)
     @ [[]] @ scen_finish"

text \<open>
  What can be described: one position for each node, numbers that an \<open>int\<close> holds, and types of
  traffic that fit the array they are read into.
\<close>

definition scenario_ok :: "scenario \<Rightarrow> bool" where
  "scenario_ok sc \<longleftrightarrow>
     int_ok (sc_normal sc) \<and> int_ok (sc_noise sc) \<and> int_ok (sc_normal sc + sc_noise sc)
     \<and> int (length (sc_nodes sc)) = sc_normal sc + sc_noise sc
     \<and> int_ok (int (length (sc_flows sc))) \<and> int_ok (int (length (sc_moves sc)))
     \<and> list_all (\<lambda>(x, y). int_ok x \<and> int_ok y) (sc_nodes sc)
     \<and> list_all (\<lambda>(s, t, T1, T2, type). int_ok s \<and> int_ok t \<and> \<not> d_is_nan T1 \<and> \<not> d_is_nan T2
         \<and> length type < 5) (sc_flows sc)
     \<and> list_all (\<lambda>(tm, pt, x, y, v). \<not> d_is_nan tm \<and> int_ok pt \<and> int_ok x \<and> int_ok y \<and> int_ok v) (sc_moves sc)"

text \<open>\<open>%lf\<close> reads the word of a double up to its end.\<close>

definition reads_doubles :: "lf \<Rightarrow> (double \<Rightarrow> string) \<Rightarrow> bool" where
  "reads_doubles L W \<longleftrightarrow>
     (\<forall>d s ws. \<not> d_is_nan d \<longrightarrow> words s = W d # ws \<longrightarrow>
        (\<exists>r. lf_scan L s = Some (d, r) \<and> words r = ws))"

lemma scan_lf_word:
  assumes "reads_doubles L W" and "words s = W d # ws" and "\<not> d_is_nan d"
  obtains r where "lf_scan L s = Some (d, r)" and "words r = ws"
  using assms unfolding reads_doubles_def by blast

section \<open>Loops over the input\<close>

text \<open>What is read does not depend on what is written.\<close>

lemma for_each_reads:
  assumes "\<And>i x s ws. x \<in> set xs \<Longrightarrow> words s = tok x @ ws \<Longrightarrow>
      \<exists>r. (\<forall>out. f i (s, out) = Some (r, out @ lines i x)) \<and> words r = ws"
    and "words s = concat (map tok xs) @ ws"
  shows "\<exists>r. (\<forall>out. for_each [i..i + int (length xs) - 1] f (s, out) = Some (r, out @ numbered lines i xs))
    \<and> words r = ws"
  using assms
proof (induction xs arbitrary: i s)
  case Nil
  then show ?case by simp
next
  case (Cons x xs)
  have "words s = tok x @ concat (map tok xs) @ ws" using Cons.prems(2) by simp
  from Cons.prems(1)[OF _ this] obtain q
    where q: "\<And>out. f i (s, out) = Some (q, out @ lines i x)" "words q = concat (map tok xs) @ ws"
    by fastforce
  have "\<exists>r. (\<forall>out. for_each [i + 1..i + 1 + int (length xs) - 1] f (q, out)
      = Some (r, out @ numbered lines (i + 1) xs)) \<and> words r = ws"
    by (rule Cons.IH[OF _ q(2)], rule Cons.prems(1)) auto
  then obtain r where r: "\<And>out. for_each [i + 1..i + 1 + int (length xs) - 1] f (q, out)
      = Some (r, out @ numbered lines (i + 1) xs)" "words r = ws" by blast
  have "[i..i + int (length (x # xs)) - 1] = i # [i + 1..i + 1 + int (length xs) - 1]"
    by (simp add: upto_rec1)
  then show ?case using q r by simp
qed

lemma place_node_words:
  assumes "words s = node_words (x, y) @ ws" and "int_ok x" "int_ok y"
  shows "\<exists>r. (\<forall>out. place_node i (s, out) = Some (r, out @ node_lines i x y)) \<and> words r = ws"
proof -
  obtain r where "scan_locals 2 s = Some ([x, y], r)" "words r = ws"
    using scan_locals_words[of s "[x, y]" ws 2] assms by (auto simp: node_words_def)
  then show ?thesis by (simp add: place_node_def)
qed

lemma add_flow_words:
  assumes "reads_doubles L W" and "words s = flow_words W (a, b, T1, T2, type) @ ws"
    and "int_ok a" "int_ok b" "length type < 5" "\<not> d_is_nan T1" "\<not> d_is_nan T2"
  shows "\<exists>r. (\<forall>out. add_flow L i (s, out) = Some (r, out @ flow_lines L i a b T1 T2 type)) \<and> words r = ws"
proof -
  obtain q where "scan_locals 2 s = Some ([a, b], q)" "words q = W T1 # W T2 # type # ws"
    using scan_locals_words[of s "[a, b]" _ 2] assms by (auto simp: flow_words_def)
  moreover from this obtain p where "lf_scan L q = Some (T1, p)" "words p = W T2 # type # ws"
    using scan_lf_word[OF assms(1)] assms(6,7) by blast
  moreover from this obtain n where "lf_scan L p = Some (T2, n)" "words n = type # ws"
    using scan_lf_word[OF assms(1)] assms(6,7) by blast
  moreover from this obtain r where "scan_word 5 n = Some (type, r)" "words r = ws"
    using scan_word_word assms(5) by blast
  ultimately show ?thesis by (simp add: add_flow_def)
qed

lemma add_move_words:
  assumes "reads_doubles L W" and "words s = move_words W (tm, pt, x, y, v) @ ws"
    and "\<not> d_is_nan tm" "int_ok pt" "int_ok x" "int_ok y" "int_ok v"
  shows "\<exists>r. (\<forall>out. add_move L i (s, out) = Some (r, out @ [move_line L tm pt x y v])) \<and> words r = ws"
proof -
  obtain q where "lf_scan L s = Some (tm, q)" "words q = map fmt_d [pt, x, y, v] @ ws"
    using scan_lf_word[OF assms(1), of s tm] assms(2,3) by (auto simp: move_words_def)
  moreover from this obtain r where "scan_locals 4 q = Some ([pt, x, y, v], r)" "words r = ws"
    using scan_locals_words[of q "[pt, x, y, v]" ws 4] assms by auto
  ultimately show ?thesis by (simp add: add_move_def)
qed

lemma nodes_read:
  assumes "words s = concat (map node_words ns) @ ws" and "list_all (\<lambda>(x, y). int_ok x \<and> int_ok y) ns"
  shows "\<exists>r. (\<forall>out. for_each [0..int (length ns) - 1] place_node (s, out)
      = Some (r, out @ numbered node_part 0 ns)) \<and> words r = ws"
  using for_each_reads[where i = 0 and f = place_node and lines = node_part, OF _ assms(1)]
    assms(2) place_node_words
  by (fastforce simp: list_all_iff node_part_def)

lemma flows_read:
  assumes "reads_doubles L W" and "words s = concat (map (flow_words W) fs) @ ws"
    and "list_all (\<lambda>(s, t, T1, T2, type). int_ok s \<and> int_ok t \<and> \<not> d_is_nan T1 \<and> \<not> d_is_nan T2
      \<and> length type < 5) fs"
  shows "\<exists>r. (\<forall>out. for_each [0..int (length fs) - 1] (add_flow L) (s, out)
      = Some (r, out @ numbered (flow_part L) 0 fs)) \<and> words r = ws"
proof -
  have "\<exists>r. (\<forall>out. add_flow L i (s, out) = Some (r, out @ flow_part L i f)) \<and> words r = ws"
    if "f \<in> set fs" "words s = flow_words W f @ ws" for f i s ws
    using that assms(3) add_flow_words[OF assms(1)]
    by (cases f) (auto simp: list_all_iff flow_part_def)
  then show ?thesis
    using for_each_reads[where i = 0 and f = "add_flow L" and lines = "flow_part L", OF _ assms(2)] by simp
qed

lemma moves_read:
  assumes "reads_doubles L W" and "words s = concat (map (move_words W) ms) @ ws"
    and "list_all (\<lambda>(tm, pt, x, y, v). \<not> d_is_nan tm \<and> int_ok pt \<and> int_ok x \<and> int_ok y \<and> int_ok v) ms"
  shows "\<exists>r. (\<forall>out. for_each [0..int (length ms) - 1] (add_move L) (s, out)
      = Some (r, out @ numbered (move_part L) 0 ms)) \<and> words r = ws"
proof -
  have "\<exists>r. (\<forall>out. add_move L i (s, out) = Some (r, out @ move_part L i m)) \<and> words r = ws"
    if "m \<in> set ms" "words s = move_words W m @ ws" for m i s ws
    using that assms(3) add_move_words[OF assms(1)]
    by (cases m) (auto simp: list_all_iff move_part_def)
  then show ?thesis
    using for_each_reads[where i = 0 and f = "add_move L" and lines = "move_part L", OF _ assms(2)] by simp
qed

section \<open>The scripts\<close>


text \<open>A type of five letters or more overflows the array.\<close>

lemma scan_word_long:
  assumes "words s = w # ws" and "n \<le> length w"
  shows "scan_word n s = None"
proof -
  obtain r where r: "dropWhile is_space s = w @ r" "\<forall>c\<in>set w. \<not> is_space c" "r = [] \<or> is_space (hd r)"
    using words_Cons[OF assms(1)] by blast
  have "takeWhile (\<lambda>c. \<not> is_space c) r = []" using r(3) by (cases r; simp)
  then have "takeWhile (\<lambda>c. \<not> is_space c) (w @ r) = w" using r(2) by (simp add: takeWhile_append2)
  then show ?thesis using r(1) assms(2) by (simp add: scan_word_def Let_def)
qed

theorem long_type_overflows:
  assumes "reads_doubles L W" and "words s = flow_words W (a, b, T1, T2, type) @ ws"
    and "int_ok a" "int_ok b" "\<not> d_is_nan T1" "\<not> d_is_nan T2" and "5 \<le> length type"
  shows "add_flow L i (s, out) = None"
proof -
  obtain q where "scan_locals 2 s = Some ([a, b], q)" "words q = W T1 # W T2 # type # ws"
    using scan_locals_words[of s "[a, b]" _ 2] assms by (auto simp: flow_words_def)
  moreover from this obtain p where "lf_scan L q = Some (T1, p)" "words p = W T2 # type # ws"
    using scan_lf_word[OF assms(1)] assms(5,6) by blast
  moreover from this obtain n where "lf_scan L p = Some (T2, n)" "words n = type # ws"
    using scan_lf_word[OF assms(1)] assms(5,6) by blast
  ultimately show ?thesis using scan_word_long[OF _ assms(7)] by (simp add: add_flow_def)
qed

section \<open>Costs\<close>

text \<open>The generated code returns the cost of its first line that matches.\<close>

fun cost_of :: "(int \<times> int \<times> int \<times> int) list \<Rightarrow> int \<Rightarrow> int \<Rightarrow> int \<Rightarrow> int option" where
  "cost_of [] src dst channel = None"
| "cost_of ((s, t, ch, cost) # rules) src dst channel =
     (if src = s \<and> dst = t \<and> channel = ch then Some cost else cost_of rules src dst channel)"

definition both_ways :: "int \<times> int \<times> int \<times> int \<Rightarrow> (int \<times> int \<times> int \<times> int) list" where
  "both_ways e = (case e of (s, t, ch, cost) \<Rightarrow> [(s, t, ch, cost), (t, s, ch, cost)])"

definition entry_words :: "int \<times> int \<times> int \<times> int \<Rightarrow> string list" where
  "entry_words e = (case e of (s, t, ch, cost) \<Rightarrow> map fmt_d [s, t, ch, cost])"

definition entry_lines :: "int \<times> int \<times> int \<times> int \<Rightarrow> string list" where
  "entry_lines e = (case e of (s, t, ch, cost) \<Rightarrow> cost_lines s t ch cost)"

lemma cost_of_step:
  "cost_of (both_ways (s, t, c, k) @ es) a b ch
     = (if (a = s \<and> b = t \<or> a = t \<and> b = s) \<and> ch = c then Some k else cost_of es a b ch)"
  by (auto simp: both_ways_def)

lemma cost_of_both_ways:
  "cost_of (concat (map both_ways es)) a b ch = cost_of (concat (map both_ways es)) b a ch"
proof (induction es arbitrary: a b)
  case Nil
  then show ?case by simp
next
  case (Cons e es)
  obtain s t c k where "e = (s, t, c, k)" by (cases e)
  then show ?case by (auto simp: cost_of_step intro: Cons)
qed

lemma channel_entry_words:
  assumes "words s = entry_words (a, b, ch, cost) @ ws" and "int_ok a" "int_ok b" "int_ok ch" "int_ok cost"
  shows "\<exists>r. (\<forall>out. channel_entry i (s, out)
    = Some (r, out @ concat (map entry_lines (both_ways (a, b, ch, cost))))) \<and> words r = ws"
proof -
  obtain r where "scan_locals 4 s = Some ([a, b, ch, cost], r)" "words r = ws"
    using scan_locals_words[of s "[a, b, ch, cost]" ws 4] assms by (auto simp: entry_words_def)
  then show ?thesis by (simp add: channel_entry_def both_ways_def entry_lines_def)
qed

lemma numbered_concat: "numbered (\<lambda>i. f) n xs = concat (map f xs)"
  by (induction xs arbitrary: n) auto

lemma lines_both_ways:
  "concat (map (\<lambda>e. concat (map f (both_ways e))) es) = concat (map f (concat (map both_ways es)))"
  by (induction es) auto

theorem channel_writes_costs:
  assumes "words input = map fmt_d [int (length es)] @ concat (map entry_words es)"
    and "int_ok (int (length es))"
    and "list_all (\<lambda>(a, b, ch, cost). int_ok a \<and> int_ok b \<and> int_ok ch \<and> int_ok cost) es"
  shows "channel_main input = Some (concat (map entry_lines (concat (map both_ways es))))"
proof -
  obtain r where r: "scan_locals 1 input = Some ([int (length es)], r)" "words r = concat (map entry_words es) @ []"
    using scan_locals_words[OF assms(1), of 1] assms(2) by auto
  have "\<exists>r. (\<forall>out. channel_entry i (s, out) = Some (r, out @ concat (map entry_lines (both_ways e)))) \<and> words r = ws"
    if "e \<in> set es" "words s = entry_words e @ ws" for e i s ws
    using that assms(3) channel_entry_words by (cases e) (auto simp: list_all_iff)
  then obtain q where "\<forall>out. for_each [1..int (length es)] channel_entry (r, out)
      = Some (q, out @ numbered (\<lambda>i e. concat (map entry_lines (both_ways e))) 1 es)"
    using for_each_reads[where i = 1 and f = channel_entry
        and lines = "\<lambda>i e. concat (map entry_lines (both_ways e))", OF _ r(2)] by fastforce
  then show ?thesis using r(1)
    by (simp add: channel_main_def numbered_concat lines_both_ways)
qed

section \<open>A sample\<close>

text \<open>Two nodes and a flow of two seconds between them, the second node moving; one word of a double is its pattern in decimal.\<close>

definition sample_lf :: lf where
  "sample_lf = \<lparr>lf_scan = (\<lambda>s. let s = dropWhile is_space s
       in Some (word_of_nat (num_val (takeWhile is_digit s)), dropWhile is_digit s)),
     lf_show = (\<lambda>d. num 10 (unat d) @ ''.000000'')\<rparr>"

definition sample_word :: "double \<Rightarrow> string" where
  "sample_word d = num 10 (unat d)"

definition sample_scenario :: scenario where
  "sample_scenario = \<lparr>sc_normal = 2, sc_noise = 0, sc_nodes = [(-5, 0), (100, 7)],
     sc_flows = [(0, 1, 1, 3, ''TCP'')], sc_moves = [(2, 1, 40, 50, 9)]\<rparr>"

definition sample_input :: string where
  "sample_input = ''2 1 0 1 '' @ [CHR 0x0A] @ ''-5 0'' @ [CHR 0x0A] @ ''  100 7'' @ [CHR 0x0A, CHR 0x0A]
     @ ''0 1 1 3 TCP'' @ [CHR 0x0A] @ ''2 1 40 50 9'' @ [CHR 0x0A]"

lemma sample_reads: "reads_doubles sample_lf sample_word"
  unfolding reads_doubles_def
proof (intro allI impI)
  fix d s ws
  assume "words s = sample_word d # ws"
  then obtain r where "dropWhile is_space s = num 10 (unat d) @ r" "r = [] \<or> is_space (hd r)" "words r = ws"
    using words_Cons unfolding sample_word_def by blast
  then show "\<exists>r. lf_scan sample_lf s = Some (d, r) \<and> words r = ws"
    by (simp add: sample_lf_def take_digits num_val_num Let_def)
qed


end
