(* ===== verification/Spec2Isabelle.thy ===== *)
theory Spec2Isabelle
  imports Message_Claims Route_Choice Request_Claims Error_Claims Discovery_Claims Hello_Claims
    Agent_Claims Transport_Claims Mac_Claims Mac_Data Node_Claims
    Pool_Claims Trace_Claims Scenario_Claims
begin

text \<open>
  A model of AODV-UU 0.9.6, the ad hoc routing agent under \<open>src/code/aodv-uu-0.96\<close>, in the form
  in which it is compiled into the ns-2 simulator (\<open>NS_PORT\<close> defined, \<open>CONFIG_GATEWAY\<close> and
  \<open>DISABLED\<close> not), with this repository's extensions: several radio channels, path costs
  estimated from HELLO messages, and a local repair that carries several destinations at once;
  and of the IEEE 802.11 MAC under \<open>src/code/mac\<close>, the copy of ns-2's that this repository changed
  (radios that jam a channel, and the signal to noise ratio from which the agent derives costs); of the
  packets of ns-2 (\<open>src/code/common/packet.h\<close>) and its tracer (\<open>src/code/trace/cmu-trace.cc\<close>), which
  this repository extends by AODV-UU and the frames of management; and of the generators of
  scenarios under \<open>src/data-maker\<close>.

  \<^bold>\<open>The program.\<close> An agent keeps a routing table with precursor lists, a queue of data packets
  that wait for a route, a list of destinations being sought, records of the RREQs and RERRs seen,
  a black list of neighbours with unidirectional links, a table of neighbours with the counts of
  HELLOs exchanged, and one buffer for messages received and one for messages sent. The
  simulator calls it when a packet arrives (\<open>recv\<close>: control messages go to
  \<open>recvAODVUUPacket\<close> and from there to \<open>rreq_process\<close>, \<open>rrep_process\<close>, \<open>rerr_process\<close>,
  \<open>hello_process\<close> or their local repair variants; data packets to \<open>processPacket\<close>), when the link
  layer could not deliver one (\<open>packetFailed\<close>) and when a timer fires. A data packet without a
  route is queued and starts a discovery (\<open>rreq_route_discovery\<close>); the RREQ sets up reverse routes,
  the RREP forward routes, and the insertion or update of a route releases the queued packets
  (\<open>packet_queue_set_verdict\<close>). A broken link invalidates routes and sends a RERR or starts a
  local repair.

  Each radio channel of a node has a MAC below the agent. A packet handed down (\<open>recv\<close>, \<open>send\<close>)
  waits in \<open>pktTx_\<close>, with an RTS in front of it if it is long, until the backoff or defer timer
  finds the medium idle (\<open>check_pktTx\<close>, \<open>transmit\<close>); the send timer expires if no answer comes
  (\<open>RetransmitRTS\<close>, \<open>RetransmitDATA\<close>), and a packet given up goes back to the agent's \<open>packetFailed\<close>.
  A frame heard is held until its last bit (\<open>recv\<close>, \<open>collision\<close>, \<open>capture\<close>), then filtered by address and
  answered or passed up (\<open>recv_timer\<close>). The agent reads \<open>getState\<close> and \<open>getSNR\<close>, which are the
  members \<open>mac_state\<close> and \<open>mac_snr\<close> of its own record.

  Between the layers of a node the simulator inserts tracers: \<open>CMUTrace::recv\<close> writes a line about the packet
  (\<open>format\<close>: the part that all packets have, the IP header, the header of the protocol) and hands it
  on. Packets come from a free list and count their references (\<open>Packet::alloc\<close>, \<open>free\<close>, \<open>copy\<close>). A scenario is a
  Tcl script, which \<open>make.cpp\<close> writes from a table of nodes, flows and moves.

  \<^bold>\<open>Theories and code.\<close> Each theory models one file or one half of it; a definition has the name
  of the function, struct or macro it translates. A block cut out of a long function has a name of its own, and the
  function composes the blocks in the order of the source.
  \<^item> \<open>Aodv_Prelude\<close>: machine integers (\<open>u8\<close> to \<open>u64\<close>, signed comparison \<open>s32_less\<close>), byte
    buffers with little endian words, checked array access, and the bit patterns of doubles.
  \<^item> \<open>Aodv_Defs\<close>: \<open>params.h\<close>, \<open>defs.h\<close> and the structs of the other headers; the record \<open>aodv\<close>
    of all members of class \<open>AODVUU\<close>; the record \<open>ext\<close> of the code outside the repository.
  \<^item> \<open>Aodv_Messages\<close>: the layout of the four messages (\<open>aodv_rreq.h\<close>, \<open>aodv_rrep.h\<close>, \<open>aodv_rerr.h\<close>).
    \<open>Aodv_Ext\<close>, \<open>Aodv_Assemble\<close>, \<open>Message_Facts\<close>: extensions and the \<open>_create\<close> functions.
  \<^item> \<open>Aodv_Socket\<close>: \<open>aodv_socket.c\<close> and \<open>sendPacket\<close>. Every packet handed to the link layer or dropped
    is appended to \<open>out\<close>.
  \<^item> \<open>Rt_Lookup\<close>, \<open>Routing_Table\<close>: \<open>routing_table.c\<close>. The 64 buckets are lists of pointers into the
    heap \<open>rt_heap\<close>, so that two pointers to one entry alias as in the code. \<open>Rt_Frames\<close>,
    \<open>Rt_Props\<close>, \<open>Rt_Contract\<close>: its lemmas.
  \<^item> \<open>Packet_Queue\<close>: \<open>ns-2/packet_queue.cc\<close>. \<open>Ns_Ifq\<close>: \<open>interfaceQueue\<close> of \<open>ns-2/aodv-uu.cc\<close>.
  \<^item> \<open>Aodv_Hello\<close>: \<open>aodv_hello.c\<close>. \<open>Rrep_Send\<close>, \<open>Aodv_Rrep\<close>: \<open>aodv_rrep.c\<close>. \<open>Aodv_Buffers\<close>,
    \<open>Aodv_Rreq_Send\<close>, \<open>Aodv_Rreq\<close>: \<open>aodv_rreq.c\<close>. \<open>Aodv_Rerr\<close>: \<open>aodv_rerr.c\<close>.
    \<open>Aodv_Timeout\<close>: \<open>aodv_timeout.c\<close>.
  \<^item> \<open>Aodv_Input\<close>: reception in \<open>aodv_socket.c\<close>, \<open>ns-2/packet_input.cc\<close>, and \<open>recv\<close>,
    \<open>packetFailed\<close>, the constructor and the start of the agent in \<open>ns-2/aodv-uu.cc\<close>.
  \<^item> \<open>Agent_Run\<close>: all entry points as one step relation \<open>agent_step\<close>. \<open>Agent_Inv\<close>: its
    invariant. \<open>Agent_Frames\<close>: what operations that only send leave alone.
  \<^item> \<open>Mac_Defs\<close>: frames, MIBs and members of \<open>mac/mac-802_11.h\<close>. \<open>Mac_Base\<close>: carrier sense, timers,
    times, collisions and transmission. \<open>Mac_Tables\<close>: clients, access points and the queue of
    management frames. \<open>Mac_Frames\<close>: control and data frames. \<open>Mac_Mgmt\<close>: infrastructure mode.
    \<open>Mac_Dcf\<close>: retransmission, timer handlers, reception, noise. \<open>Mac_Init\<close>: constructor and commands
    (all of \<open>mac/mac-802_11.cc\<close>). \<open>Mac_Inv\<close>, \<open>Mac_Run\<close>: the step relation \<open>mac_step\<close> and its invariant.
    \<open>Mac_Facts\<close>: what the operations of the MAC leave alone.
  \<^item> \<open>Node_Run\<close>: an agent with its MACs as one step relation \<open>node_step\<close>, and the Tcl commands of
    \<open>ns-2/aodv-uu.cc\<close> that connect them.
  \<^item> \<open>Packet_Types\<close>: the packet types of \<open>common/packet.h\<close> with their names and classes (\<open>p_info\<close>).
    \<open>Handler_Chain\<close>: the chains of classifiers and of tracers. \<open>Packet_Pool\<close>: packets as objects in
    memory. \<open>Pool_Inv\<close>, \<open>Pool_Run\<close>: its runs and their invariant. The agent, the MAC and the tracer pass a
    packet as a value (\<open>packet\<close>, \<open>mac_packet\<close>, \<open>trace_packet\<close>, each with the members it uses).
  \<^item> \<open>Printf\<close>: \<open>sprintf\<close> with the format strings of the source, and \<open>fields\<close>, which takes a line apart
    again. \<open>Trace_Defs\<close>, \<open>Trace_Format\<close>, \<open>Trace_Protocols\<close>, \<open>Cmu_Trace\<close>: \<open>trace/cmu-trace.cc\<close>, with \<open>AODV_UU\<close> defined
    and \<open>LOG_POSITION\<close> not. \<open>Trace_Facts\<close>: what a tracer leaves alone.
  \<^item> \<open>Scenario\<close>: \<open>data-maker/make.cpp\<close> and \<open>data-maker/channel.cpp\<close> without \<open>CONSOLE\<close>, with \<open>scanf\<close>.
  \<^item> \<open>Samples\<close>, \<open>Mac_Samples\<close>: concrete parameters, nodes and MACs on which the properties are
    instantiated.

  \<^bold>\<open>Reading the definitions.\<close> State is passed explicitly. \<open>None\<close> is a failure of the C program: a null
  or dangling pointer, an index out of an array, a variable read before it is assigned, a failed \<open>assert\<close>, \<open>exit\<close>, or (in \<open>Ns_Ifq\<close>
  and the chains of handlers) a loop that does not end. A theorem that a call gives \<open>Some\<close> therefore says that it neither
  crashes nor hangs. Integers have the width of the source and wrap; the signed conversions
  of sequence number comparisons are written out. An error code returned is a value.

  \<^bold>\<open>Interfaces.\<close> A contract shared by several components or clients is a locale, interpreted on the
  model of the code: \<open>rate_limiter\<close> (RREQ and RERR rates), \<open>route_store\<close> and \<open>route_table\<close>
  (lookup after insertion, update, deletion), \<open>bounded_fifo\<close> (packet queue),
  \<open>record_buffer\<close> (RREQ records, black list, RERR records), \<open>ext_writer\<close> (extensions of RREQ and RREP),
  \<open>frame_fifo\<close> (management frames that wait), \<open>handler_chain\<close> (classifiers and tracers of dynamic
  libraries).

  \<^bold>\<open>What is shown.\<close>
  \<^item> \<open>Routing_Claims\<close>: every run of routing table operations keeps the table well formed, lookup agrees
    with the set of entries, and the effect of each operation; where the count of active routes is
    exact and where it is not.
  \<^item> \<open>Transport_Claims\<close>: the packet queue holds the newest packets, what each verdict does to
    them, and the rate of control messages.
  \<^item> \<open>Agent_Claims\<close>: the agent's invariant holds in every reachable state.
  \<^item> \<open>Route_Choice\<close>: the two places where routes are learned refine an abstract choice between an
    offered and a known route (\<open>preferred\<close>), and no route gets worse by them.
  \<^item> \<open>Request_Claims\<close>, \<open>Error_Claims\<close>, \<open>Hello_Claims\<close>: which messages are ignored, what those
    accepted change, and the arithmetic of sequence numbers and lifetimes.
  \<^item> \<open>Discovery_Claims\<close>: a route discovery starts once, keeps its packets, ends after a bounded
    number of timeouts, and drops exactly the packets that waited for it.
  \<^item> \<open>Message_Claims\<close>: a receiver reads what the sender wrote, except where the layout is
    wrong.
  \<^item> \<open>Mac_Claims\<close>: the invariant of all runs of the MAC and the types of the frames that wait, carrier
    sense, retransmission up to the limit, and which frames are not received. \<open>Mac_Data\<close>: a data
    frame arrives as it was sent and once; the signal to noise ratio. \<open>Node_Claims\<close>: the invariants
    of agent and MACs together, and what the agent gets back of a packet that was given up.
  \<^item> \<open>Pool_Claims\<close>: in every run of the packet memory an allocated packet is clean, the last reference
    frees a packet and no earlier one, and a copy shares nothing with the original; the names of types.
  \<^item> \<open>Trace_Claims\<close>: a packet passes a tracer once and unchanged, the line of a RREQ determines the
    message, and the frames of a MAC get their names. \<open>Scenario_Claims\<close>: the script that is
    written is that of the scenario that was read.

  Several properties state what the code does where this differs from what it is meant to do: the
  RERR identifier read as a destination, the window of the cost estimation that leaves its
  arrays, the flag values that overlap, the request that deletes the route to a neighbour,
  the first sample of the signal power that is never read. Others of this kind are theorems beside the
  properties: the type name read behind its table, names that overflow the animation's buffer, chunks of
  SCTP that overwrite each other in a line, the word that overflows the generator's array.

  \<^bold>\<open>Bounds and fuel.\<close> No definition uses fuel. Loops over lists are structural; the extension loop of
  a receiver (\<open>ext_loop\<close>) decreases the length that is left; the two loops over the interface queue
  are partial functions and end when the filter takes out what it finds. The retries of a
  discovery are bounded by \<open>RREQ_RETRIES\<close>, the queue by \<open>MAX_QUEUE_LENGTH\<close> (512), the buffers by
  \<open>AODV_MSG_MAX_SIZE\<close> (at most 56 additional destinations fit behind a RREQ).

  \<^bold>\<open>Code outside the repository.\<close> \<open>timer_queue.c\<close>, \<open>seek_list.c\<close>, \<open>aodv_neighbor.c\<close>, \<open>malloc\<close>, the
  simulator's packets, queue filters and random numbers, and floating point arithmetic are the
  fields of \<open>ext\<close>. What the properties rely on is a named hypothesis: \<open>ext_ok\<close> and \<open>outside_ok\<close>
  (an allocator returns a free address, the neighbour module keeps the agent's invariant),
  \<open>seek_ok\<close> (the seek list finds what was inserted). \<open>Samples\<close> satisfies them. The
  simulator's scheduler is the order of the steps: any timer may fire at any time. For the MAC
  the record \<open>mac_env\<close> holds the timers of \<open>mac-timers.cc\<close>, the base class \<open>Mac\<close> and the layers
  above; \<open>env_ok\<close> says that these come back into the MAC only by sending packets, and
  \<open>responds\<close> that an idle backoff timer can be started. The value of \<open>MAC_BROADCAST\<close> is that
  of ns-2's \<open>mac.h\<close>, \<open>0xffffffff\<close>. What the Tcl interpreter and the class \<open>Agent\<close> do is the record
  \<open>tcl\<close>; \<open>tcl_ok\<close> says that the MACs which scripts connect were constructed. Between agent and MAC lie
  the link layer and the interface queue of ns-2: \<open>node_step\<close> lets them deliver any packet passed up
  or given up, at any time and any number of times.

  The headers and constants of other protocols, the text of doubles, nodes and addresses that a tracer
  reads are the record \<open>trace_env\<close>, how \<open>scanf\<close> and \<open>printf\<close> treat doubles in a scenario is the record \<open>lf\<close> with the
  law \<open>reads_doubles\<close>, and what \<open>new\<close> leaves undetermined in a packet is \<open>pool_env\<close>.

  \<^bold>\<open>Not modelled.\<close> The raw sockets, netlink and kernel code excluded by \<open>NS_PORT\<close>, and the gateway
  code excluded by \<open>CONFIG_GATEWAY\<close>, are not compiled. Debug output and logging have no effect on
  the state. Of the MAC, the trace output (\<open>trace_event\<close>, \<open>trace_pkt\<close>, \<open>dump\<close>) has no effect on
  the state, and the energy model is outside the repository; the counters of samples are unbounded.
  Of \<open>packet.h\<close> the registration of header classes (\<open>PacketHeaderClass\<close>, \<open>addPacket\<close>, of which only
  declarations are there) and \<open>dump_header\<close>, which prints, are not modelled. The Tcl library and the Python script
  run in interpreters outside the repository. The
  file-static list \<open>rerr_records\<close>, which all agents of a simulation share, is a
  member of each agent here.
\<close>

end
